(* ===== verification/Prelude.thy ===== *)
theory Prelude
  imports Complex_Main "HOL-Library.AList" "HOL-Library.Char_ord" "HOL-Library.List_Lexorder"
    "HOL-Library.Product_Lexorder"
begin

text \<open>
  Shared vocabulary of the development: the collections of simplification facts, results that
  carry an error (\<open>'e + 'a\<close>, the error on the left), the Go runtime values the Hub computes with
  (instants, durations, RFC 3339 stamps, decimal integers, loosely typed JSON values), and the
  list searches and updates every component uses.
\<close>

named_theorems hub_defs \<open>definitions a component's proofs unfold together\<close>
named_theorems frame_simps \<open>what an operation leaves unchanged\<close>

section \<open>Results\<close>

definition is_ok :: "'e + 'a \<Rightarrow> bool" where
  "is_ok r = (case r of Inl _ \<Rightarrow> False | Inr _ \<Rightarrow> True)"

lemma is_ok_simps [simp]: "is_ok (Inr x)" "\<not> is_ok (Inl e)"
  by (simp_all add: is_ok_def)

lemma is_ok_iff: "is_ok r \<longleftrightarrow> (\<exists>x. r = Inr x)"
  by (cases r) auto

section \<open>Instants, durations and time stamps\<close>

text \<open>
  An instant is a number of nanoseconds since the Unix epoch, a duration a number of nanoseconds.
  \<open>time.Time\<close>'s zero value is 1 January of year 1. \<open>Sub\<close> saturates at the range of
  \<open>int64\<close>, as the Go documentation says. \<open>Unix\<close> is the floor of the instant in seconds.
\<close>

type_synonym instant = int
type_synonym duration = int

definition second :: duration where "second = 1000000000"
definition minute :: duration where "minute = 60 * second"
definition hour :: duration where "hour = 60 * minute"

definition zero_time :: instant where "zero_time = - 62135596800 * second"

definition is_zero :: "instant \<Rightarrow> bool" where "is_zero t = (t = zero_time)"

definition time_sub :: "instant \<Rightarrow> instant \<Rightarrow> duration" where
  "time_sub a b = max (- (2 ^ 63)) (min (2 ^ 63 - 1) (a - b))"

definition unix :: "instant \<Rightarrow> int" where "unix t = t div second"

definition from_unix :: "int \<Rightarrow> instant" where "from_unix s = s * second"

lemmas time_units = second_def minute_def hour_def

lemma unix_from_unix [simp]: "unix (from_unix s) = s"
  by (simp add: unix_def from_unix_def second_def)

lemma unix_mono: "a \<le> b \<Longrightarrow> unix a \<le> unix b"
  by (simp add: unix_def second_def zdiv_mono1)

lemma unix_bounds: "from_unix (unix t) \<le> t" "t < from_unix (unix t + 1)"
  by (simp_all add: unix_def from_unix_def second_def)

lemma time_sub_ge_iff: "0 < d \<Longrightarrow> d < 2 ^ 63 \<Longrightarrow> d \<le> time_sub a b \<longleftrightarrow> d \<le> a - b"
  by (auto simp: time_sub_def)

lemma time_sub_less_iff: "0 < d \<Longrightarrow> d < 2 ^ 63 \<Longrightarrow> time_sub a b < d \<longleftrightarrow> a - b < d"
  by (auto simp: time_sub_def)

text \<open>
  The stored form of an instant: the empty string, the text \<open>Format(time.RFC3339)\<close> writes for an
  instant in whole seconds, or any other text, on which \<open>time.Parse\<close> fails. On failure the
  parsed value is the zero time, and the code that ignores the error goes on with it.
\<close>

datatype stamp = NoStamp | Stamp int | BadStamp string

definition format_stamp :: "instant \<Rightarrow> stamp" where "format_stamp t = Stamp (unix t)"

fun parse_stamp :: "stamp \<Rightarrow> instant option" where
  "parse_stamp (Stamp s) = Some (from_unix s)"
| "parse_stamp _ = None"

definition parse_or_zero :: "stamp \<Rightarrow> instant" where
  "parse_or_zero s = (case parse_stamp s of Some t \<Rightarrow> t | None \<Rightarrow> zero_time)"

lemma parse_format_stamp: "parse_stamp (format_stamp t) = Some (from_unix (unix t))"
  by (simp add: format_stamp_def)

lemma parse_or_zero_format [simp]: "parse_or_zero (format_stamp t) = from_unix (unix t)"
  by (simp add: parse_or_zero_def format_stamp_def)

section \<open>Decimal integers\<close>

fun decimal_nat :: "nat \<Rightarrow> string" where
  "decimal_nat n = (if n < 10 then [char_of (48 + n)]
     else decimal_nat (n div 10) @ [char_of (48 + n mod 10)])"

declare decimal_nat.simps [simp del]

definition decimal :: "int \<Rightarrow> string" where
  "decimal i = (if i < 0 then CHR ''-'' # decimal_nat (nat (- i)) else decimal_nat (nat i))"

section \<open>JSON values\<close>

text \<open>
  \<open>any\<close> values as \<open>encoding/json\<close> delivers them or the code builds them. Integers the Hub
  itself puts into a map are \<open>JInt\<close>, decoded numbers are \<open>float64\<close>, a finite and so rational
  number, \<open>JNumber\<close> is a \<open>json.Number\<close> with the result of its \<open>Int64\<close>.
\<close>

datatype json =
    JNull
  | JBool bool
  | JInt int
  | JFloat rat
  | JNumber "int option"
  | JStr string
  | JArr "json list"
  | JObj "(string \<times> json) list"

definition jget :: "(string \<times> json) list \<Rightarrow> string \<Rightarrow> json" where
  "jget m k = (case map_of m k of Some v \<Rightarrow> v | None \<Rightarrow> JNull)"

definition jstr :: "json \<Rightarrow> string" where
  "jstr v = (case v of JStr s \<Rightarrow> s | _ \<Rightarrow> '''')"

definition jbool :: "json \<Rightarrow> bool" where
  "jbool v = (case v of JBool b \<Rightarrow> b | _ \<Rightarrow> False)"

section \<open>Steps that fail\<close>

text \<open>Reading a chain of guards backwards: what held when the last branch was reached.\<close>

lemma if_Inl_eq_Inr: "(if b then Inl e else x) = Inr y \<longleftrightarrow> \<not> b \<and> x = Inr y"
  by simp

lemma case_option_Inl_eq_Inr:
  "(case p of None \<Rightarrow> Inl e | Some x \<Rightarrow> f x) = Inr y \<longleftrightarrow> (\<exists>x. p = Some x \<and> f x = Inr y)"
  by (cases p) auto

lemma case_error_eq_Inr:
  "(case p of Some e \<Rightarrow> Inl e | None \<Rightarrow> x) = Inr y \<longleftrightarrow> p = None \<and> x = Inr y"
  by (cases p) auto

lemma case_sum_Inl_eq_Inr:
  "(case p of Inl e \<Rightarrow> Inl e | Inr x \<Rightarrow> f x) = Inr y \<longleftrightarrow> (\<exists>x. p = Inr x \<and> f x = Inr y)"
  by (cases p) auto

lemmas guards = if_Inl_eq_Inr case_option_Inl_eq_Inr case_error_eq_Inr case_sum_Inl_eq_Inr

lemma is_okE:
  assumes "is_ok r" obtains x where "r = Inr x"
  using assms by (auto simp: is_ok_iff)

section \<open>Searching and updating lists\<close>

lemma find_SomeD: "find p xs = Some x \<Longrightarrow> x \<in> set xs \<and> p x"
  by (auto simp: find_Some_iff in_set_conv_nth)


text \<open>The index of the first element that satisfies \<open>p\<close>; the loops of the code that return
  \<open>-1\<close> return \<open>None\<close> here.\<close>

fun find_index :: "('a \<Rightarrow> bool) \<Rightarrow> 'a list \<Rightarrow> nat option" where
  "find_index p [] = None"
| "find_index p (x # xs) = (if p x then Some 0 else map_option Suc (find_index p xs))"

definition find_last_index :: "('a \<Rightarrow> bool) \<Rightarrow> 'a list \<Rightarrow> nat option" where
  "find_last_index p xs = map_option (\<lambda>i. length xs - 1 - i) (find_index p (rev xs))"

lemma find_index_Some:
  "find_index p xs = Some i \<Longrightarrow> i < length xs \<and> p (xs ! i) \<and> (\<forall>j < i. \<not> p (xs ! j))"
proof (induction xs arbitrary: i)
  case (Cons x xs)
  show ?case
  proof (cases "p x")
    case False
    with Cons.prems obtain j where j: "find_index p xs = Some j" "i = Suc j" by auto
    with Cons.IH [OF j(1)] False show ?thesis by (auto simp: less_Suc_eq_0_disj)
  qed (use Cons.prems in simp)
qed simp

lemma find_index_None_iff: "find_index p xs = None \<longleftrightarrow> (\<forall>x \<in> set xs. \<not> p x)"
  by (induction xs) auto

lemma find_index_lessD [dest]: "find_index p xs = Some i \<Longrightarrow> i < length xs"
  by (simp add: find_index_Some)

lemma find_index_holds: "find_index p xs = Some i \<Longrightarrow> p (xs ! i)"
  by (simp add: find_index_Some)

lemma find_last_index_Some:
  assumes "find_last_index p xs = Some i"
  shows "i < length xs \<and> p (xs ! i)"
proof -
  from assms obtain j where j: "find_index p (rev xs) = Some j" "i = length xs - 1 - j"
    by (auto simp: find_last_index_def)
  with find_index_Some [OF j(1)] show ?thesis by (auto simp: rev_nth)
qed

lemma find_last_index_lessD [dest]: "find_last_index p xs = Some i \<Longrightarrow> i < length xs"
  by (simp add: find_last_index_Some)

lemma find_last_index_None_iff: "find_last_index p xs = None \<longleftrightarrow> (\<forall>x \<in> set xs. \<not> p x)"
  by (simp add: find_last_index_def find_index_None_iff)

definition modify :: "nat \<Rightarrow> ('a \<Rightarrow> 'a) \<Rightarrow> 'a list \<Rightarrow> 'a list" where
  "modify i f xs = (if i < length xs then xs[i := f (xs ! i)] else xs)"

lemma length_modify [simp]: "length (modify i f xs) = length xs"
  by (simp add: modify_def)

lemma nth_modify: "j < length xs \<Longrightarrow> modify i f xs ! j = (if i = j then f (xs ! j) else xs ! j)"
  by (auto simp: modify_def)

lemma nth_modify_eq [simp]: "i < length xs \<Longrightarrow> modify i f xs ! i = f (xs ! i)"
  by (simp add: nth_modify)

lemma map_modify: "(\<And>x. g (f x) = g x) \<Longrightarrow> map g (modify i f xs) = map g xs"
  by (rule nth_equalityI) (auto simp: nth_modify)

lemma set_modify_subset: "set (modify i f xs) \<subseteq> set xs \<union> f ` set xs"
  by (auto simp: modify_def dest!: set_update_subset_insert [THEN subsetD])

lemma modify_ball: "\<forall>x \<in> set xs. P x \<Longrightarrow> (\<And>x. x \<in> set xs \<Longrightarrow> P x \<Longrightarrow> P (f x)) \<Longrightarrow> \<forall>x \<in> set (modify i f xs). P x"
  using set_modify_subset [of i f xs] by blast

text \<open>\<open>s[len(s)-n:]\<close>: the last \<open>n\<close> elements.\<close>

definition last_n :: "nat \<Rightarrow> 'a list \<Rightarrow> 'a list" where
  "last_n n xs = drop (length xs - n) xs"

lemma length_last_n [simp]: "length (last_n n xs) = min n (length xs)"
  by (simp add: last_n_def)

lemma set_last_n: "set (last_n n xs) \<subseteq> set xs"
  by (simp add: last_n_def set_drop_subset)

lemma distinct_map_last_n: "distinct (map f xs) \<Longrightarrow> distinct (map f (last_n n xs))"
  by (simp add: last_n_def flip: drop_map)

end
