(* ===== verification/Go_Strings.thy ===== *)
theory Go_Strings
  imports Prelude
begin

text \<open>
  The parts of Go's \<open>strings\<close>, \<open>unicode/utf8\<close> and \<open>path\<close> packages the Hub's logic uses, on byte
  strings (\<open>char list\<close>, one \<open>char\<close> per byte, as Go's \<open>string\<close>): \<open>TrimSpace\<close> with the white space of
  Unicode, prefix and suffix tests, upper and lower case, \<open>utf8.ValidString\<close> with the rune count,
  and \<open>path.Clean\<close>.
\<close>

section \<open>Prefixes, suffixes and character sets\<close>

definition has_prefix :: "string \<Rightarrow> string \<Rightarrow> bool" where
  "has_prefix s p = (take (length p) s = p)"

definition trim_prefix :: "string \<Rightarrow> string \<Rightarrow> string" where
  "trim_prefix s p = (if has_prefix s p then drop (length p) s else s)"

definition has_suffix :: "string \<Rightarrow> string \<Rightarrow> bool" where
  "has_suffix s p = has_prefix (rev s) (rev p)"

definition trim_suffix :: "string \<Rightarrow> string \<Rightarrow> string" where
  "trim_suffix s p = (if has_suffix s p then take (length s - length p) s else s)"

definition contains_any :: "string \<Rightarrow> string \<Rightarrow> bool" where
  "contains_any s chars = list_ex (\<lambda>c. c \<in> set chars) s"

definition trim_left_set :: "string \<Rightarrow> string \<Rightarrow> string" where
  "trim_left_set s chars = dropWhile (\<lambda>c. c \<in> set chars) s"

definition trim_right_set :: "string \<Rightarrow> string \<Rightarrow> string" where
  "trim_right_set s chars = rev (dropWhile (\<lambda>c. c \<in> set chars) (rev s))"

lemma has_prefix_append [simp]: "has_prefix (p @ s) p"
  by (simp add: has_prefix_def)

lemma has_prefix_iff: "has_prefix s p \<longleftrightarrow> (\<exists>t. s = p @ t)"
  by (metis append_eq_conv_conj has_prefix_append has_prefix_def)

lemma has_suffix_iff: "has_suffix s p \<longleftrightarrow> (\<exists>t. s = t @ p)"
  by (auto simp: has_suffix_def has_prefix_iff dest: arg_cong [where f = rev])
     (metis rev_append rev_rev_ident)

section \<open>TrimSpace\<close>

text \<open>The UTF-8 encodings of the runes for which \<open>unicode.IsSpace\<close> holds.\<close>

definition space_runes :: "string list" where
  "space_runes = [[CHR 0x20], [CHR 0x09], [CHR 0x0A], [CHR 0x0B], [CHR 0x0C], [CHR 0x0D],
     [CHR 0xC2, CHR 0x85], [CHR 0xC2, CHR 0xA0], [CHR 0xE1, CHR 0x9A, CHR 0x80],
     [CHR 0xE2, CHR 0x80, CHR 0x80], [CHR 0xE2, CHR 0x80, CHR 0x81], [CHR 0xE2, CHR 0x80, CHR 0x82],
     [CHR 0xE2, CHR 0x80, CHR 0x83], [CHR 0xE2, CHR 0x80, CHR 0x84], [CHR 0xE2, CHR 0x80, CHR 0x85],
     [CHR 0xE2, CHR 0x80, CHR 0x86], [CHR 0xE2, CHR 0x80, CHR 0x87], [CHR 0xE2, CHR 0x80, CHR 0x88],
     [CHR 0xE2, CHR 0x80, CHR 0x89], [CHR 0xE2, CHR 0x80, CHR 0x8A], [CHR 0xE2, CHR 0x80, CHR 0xA8],
     [CHR 0xE2, CHR 0x80, CHR 0xA9], [CHR 0xE2, CHR 0x80, CHR 0xAF], [CHR 0xE2, CHR 0x81, CHR 0x9F],
     [CHR 0xE3, CHR 0x80, CHR 0x80]]"

definition leading :: "string list \<Rightarrow> string \<Rightarrow> string option" where
  "leading ps s = find (\<lambda>p. p \<noteq> [] \<and> has_prefix s p) ps"

lemma leading_Some: "leading ps s = Some p \<Longrightarrow> p \<in> set ps \<and> p \<noteq> [] \<and> has_prefix s p"
  by (auto simp: leading_def find_Some_iff in_set_conv_nth)

lemma leading_None_iff: "leading ps s = None \<longleftrightarrow> (\<forall>p \<in> set ps. p \<noteq> [] \<longrightarrow> \<not> has_prefix s p)"
  by (auto simp: leading_def find_None_iff)

function trim_runes :: "string list \<Rightarrow> string \<Rightarrow> string" where
  "trim_runes ps s = (case leading ps s of None \<Rightarrow> s | Some p \<Rightarrow> trim_runes ps (drop (length p) s))"
  by pat_completeness auto
termination
  by (relation "measure (\<lambda>(ps, s). length s)")
     (auto dest!: leading_Some simp: has_prefix_iff)

declare trim_runes.simps [simp del]

definition trim_space :: "string \<Rightarrow> string" where
  "trim_space s = rev (trim_runes (map rev space_runes) (rev (trim_runes space_runes s)))"

lemma leading_trim_runes: "leading ps (trim_runes ps s) = None"
proof (induction ps s rule: trim_runes.induct)
  case (1 ps s)
  then show ?case
    by (cases "leading ps s") (auto simp: trim_runes.simps [of ps s])
qed

lemma trim_runes_id: "leading ps s = None \<Longrightarrow> trim_runes ps s = s"
  by (simp add: trim_runes.simps)

lemma trim_runes_suffix: "\<exists>t. s = t @ trim_runes ps s"
proof (induction ps s rule: trim_runes.induct)
  case (1 ps s)
  show ?case
  proof (cases "leading ps s")
    case None
    then show ?thesis by (simp add: trim_runes.simps [of ps s])
  next
    case (Some p)
    with "1.IH" obtain t where "drop (length p) s = t @ trim_runes ps (drop (length p) s)" by blast
    then have "s = (take (length p) s @ t) @ trim_runes ps (drop (length p) s)"
      by (metis append.assoc append_take_drop_id)
    then show ?thesis by (simp add: Some trim_runes.simps [of ps s]) (metis append.assoc)
  qed
qed

lemma trim_space_idem [simp]: "trim_space (trim_space s) = trim_space s"
proof -
  define l where "l = trim_runes space_runes s"
  define r where "r = trim_runes (map rev space_runes) (rev l)"
  have t: "trim_space s = rev r" by (simp add: trim_space_def l_def r_def)
  obtain u where "rev l = u @ r" unfolding r_def using trim_runes_suffix by blast
  then have "rev (rev l) = rev (u @ r)" by (rule arg_cong)
  then have split: "l = rev r @ rev u" by simp
  have "leading space_runes l = None" unfolding l_def by (rule leading_trim_runes)
  then have "leading space_runes (rev r) = None"
    by (auto simp: leading_None_iff has_prefix_iff split)
  then have "trim_runes space_runes (rev r) = rev r" by (rule trim_runes_id)
  moreover have "trim_runes (map rev space_runes) r = r"
    unfolding r_def by (rule trim_runes_id) (rule leading_trim_runes)
  ultimately have "trim_space (rev r) = rev r" by (simp add: trim_space_def)
  then show ?thesis by (simp add: t)
qed

lemma trim_space_empty [simp]: "trim_space [] = []"
  by (simp add: trim_space_def trim_runes.simps leading_def space_runes_def has_prefix_def)

lemma length_trim_space: "length (trim_space s) \<le> length s"
proof -
  have le: "length (trim_runes ps s) \<le> length s" for ps s
    using trim_runes_suffix [of s ps] by (metis le_add2 length_append)
  show ?thesis
    using le [of "map rev space_runes" "rev (trim_runes space_runes s)"] le [of space_runes s]
    by (simp add: trim_space_def)
qed

lemma set_trim_space: "set (trim_space s) \<subseteq> set s"
proof -
  have sub: "set (trim_runes ps s) \<subseteq> set s" for ps s
    using trim_runes_suffix [of s ps] by (metis Un_upper2 set_append)
  show ?thesis
    using sub [of "map rev space_runes" "rev (trim_runes space_runes s)"] sub [of space_runes s]
    by (auto simp: trim_space_def)
qed

text \<open>A string of one byte after another, none of them white space or beyond ASCII, is its own
  trimmed form: the side condition for evaluating identifiers.\<close>

definition plain_byte :: "char \<Rightarrow> bool" where
  "plain_byte c = (let n = of_char c :: nat in 32 < n \<and> n < 128)"

lemma leading_plain:
  assumes "s \<noteq> []" "plain_byte (hd s)" "\<forall>p \<in> set ps. p \<noteq> [] \<longrightarrow> \<not> plain_byte (hd p)"
  shows "leading ps s = None"
  using assms by (cases s) (fastforce simp: leading_None_iff has_prefix_iff Cons_eq_append_conv)+

lemma leading_nil [simp]: "leading ps [] = None"
  by (auto simp: leading_None_iff has_prefix_iff)

lemma trim_space_plain:
  assumes "s = [] \<or> plain_byte (hd s) \<and> plain_byte (last s)"
  shows "trim_space s = s"
proof (cases "s = []")
  case False
  have l: "\<forall>p \<in> set space_runes. p \<noteq> [] \<longrightarrow> \<not> plain_byte (hd p)"
    by (simp add: space_runes_def plain_byte_def)
  have r: "\<forall>p \<in> set (map rev space_runes). p \<noteq> [] \<longrightarrow> \<not> plain_byte (hd p)"
    by (simp add: space_runes_def plain_byte_def)
  from False assms have "trim_runes space_runes s = s"
    by (intro trim_runes_id leading_plain [OF _ _ l]) auto
  moreover from False assms have "trim_runes (map rev space_runes) (rev s) = rev s"
    by (intro trim_runes_id leading_plain [OF _ _ r]) (auto simp: hd_rev)
  ultimately show ?thesis by (simp add: trim_space_def)
qed simp

text \<open>A byte that no white-space rune contains survives the trimming.\<close>

lemma trim_runes_keeps:
  assumes "\<forall>p \<in> set ps. c \<notin> set p" "c \<in> set s"
  shows "c \<in> set (trim_runes ps s)"
  using assms
proof (induction ps s rule: trim_runes.induct)
  case (1 ps s)
  show ?case
  proof (cases "leading ps s")
    case None
    then show ?thesis using "1.prems" by (simp add: trim_runes.simps [of ps s])
  next
    case (Some p)
    then have p: "p \<in> set ps" "has_prefix s p" by (auto dest: leading_Some)
    then obtain t where t: "s = p @ t" by (auto simp: has_prefix_iff)
    with p "1.prems" have "c \<in> set (drop (length p) s)" by auto
    then show ?thesis using "1.IH" [OF Some "1.prems"(1)] Some by (simp add: trim_runes.simps [of ps s])
  qed
qed

lemma trim_space_keeps:
  assumes "plain_byte c" "c \<in> set s"
  shows "c \<in> set (trim_space s)"
proof -
  have "\<forall>p \<in> set space_runes. \<forall>d \<in> set p. \<not> plain_byte d"
    by (simp add: space_runes_def plain_byte_def)
  with assms(1) have "\<forall>p \<in> set space_runes. c \<notin> set p" by blast
  then show ?thesis using assms(2) by (simp add: trim_space_def trim_runes_keeps)
qed

section \<open>Case\<close>

definition is_ascii :: "string \<Rightarrow> bool" where
  "is_ascii s = list_all (\<lambda>c. (of_char c :: nat) < 128) s"

definition lower_byte :: "char \<Rightarrow> char" where
  "lower_byte c = (let n = of_char c :: nat in if 65 \<le> n \<and> n \<le> 90 then char_of (n + 32) else c)"

definition upper_byte :: "char \<Rightarrow> char" where
  "upper_byte c = (let n = of_char c :: nat in if 97 \<le> n \<and> n \<le> 122 then char_of (n - 32) else c)"

text \<open>\<open>ToLower\<close> works byte by byte on ASCII; beyond it, it maps runes by the Unicode tables, which
  are the parameter \<open>uni\<close>.\<close>

definition to_lower :: "(string \<Rightarrow> string) \<Rightarrow> string \<Rightarrow> string" where
  "to_lower uni s = (if is_ascii s then map lower_byte s else uni s)"

text \<open>
  \<open>ToUpper\<close> and \<open>EqualFold\<close> are used against ASCII constants only. Three runes beyond ASCII take
  part: U+0131 and U+017F have the upper case I and S, U+017F and U+212A fold to s and k.
\<close>

fun upper_image :: "string \<Rightarrow> string" where
  "upper_image (a # b # s) =
     (if a = CHR 0xC4 \<and> b = CHR 0xB1 then CHR ''I'' # upper_image s
      else if a = CHR 0xC5 \<and> b = CHR 0xBF then CHR ''S'' # upper_image s
      else upper_byte a # upper_image (b # s))"
| "upper_image s = map upper_byte s"

fun fold_image :: "string \<Rightarrow> string" where
  "fold_image (a # b # s) =
     (if a = CHR 0xC5 \<and> b = CHR 0xBF then CHR ''s'' # fold_image s
      else if a = CHR 0xE2 \<and> b = CHR 0x84 \<and> take 1 s = [CHR 0xAA] then CHR ''k'' # fold_image (drop 1 s)
      else lower_byte a # fold_image (b # s))"
| "fold_image s = map lower_byte s"

definition equal_fold_ascii :: "string \<Rightarrow> string \<Rightarrow> bool" where
  "equal_fold_ascii s t = (fold_image s = map lower_byte t)"

section \<open>UTF-8\<close>

definition in_range :: "nat \<Rightarrow> nat \<Rightarrow> nat \<Rightarrow> bool" where
  "in_range lo hi n = (lo \<le> n \<and> n \<le> hi)"

text \<open>\<open>utf8_count bs\<close>: the number of runes of a valid UTF-8 byte sequence, \<open>None\<close> when
  \<open>utf8.ValidString\<close> fails.\<close>

fun utf8_count :: "nat list \<Rightarrow> nat option" where
  "utf8_count [] = Some 0"
| "utf8_count (a # s) =
     (if a < 128 then map_option Suc (utf8_count s)
      else (case s of
        [] \<Rightarrow> None
      | b # s \<Rightarrow>
          if in_range 0xC2 0xDF a \<and> in_range 0x80 0xBF b then map_option Suc (utf8_count s)
          else (case s of
            [] \<Rightarrow> None
          | c # s \<Rightarrow>
              if \<not> in_range 0x80 0xBF c then None
              else if a = 0xE0 \<and> in_range 0xA0 0xBF b
                \<or> a = 0xED \<and> in_range 0x80 0x9F b
                \<or> (in_range 0xE1 0xEC a \<or> in_range 0xEE 0xEF a) \<and> in_range 0x80 0xBF b
              then map_option Suc (utf8_count s)
              else (case s of
                [] \<Rightarrow> None
              | d # s \<Rightarrow>
                  if in_range 0x80 0xBF d \<and>
                    (a = 0xF0 \<and> in_range 0x90 0xBF b
                     \<or> in_range 0xF1 0xF3 a \<and> in_range 0x80 0xBF b
                     \<or> a = 0xF4 \<and> in_range 0x80 0x8F b)
                  then map_option Suc (utf8_count s)
                  else None))))"

definition rune_count :: "string \<Rightarrow> nat option" where
  "rune_count s = utf8_count (map of_char s)"

lemma utf8_count_le: "utf8_count bs = Some n \<Longrightarrow> n \<le> length bs"
  by (induction bs arbitrary: n rule: utf8_count.induct)
     (fastforce split: if_splits list.splits)+

lemma rune_count_le: "rune_count s = Some n \<Longrightarrow> n \<le> length s"
  using utf8_count_le by (fastforce simp: rune_count_def)

section \<open>path.Clean\<close>

fun split_slash :: "string \<Rightarrow> string list" where
  "split_slash [] = [[]]"
| "split_slash (c # s) =
     (if c = CHR ''/'' then [] # split_slash s
      else (case split_slash s of [] \<Rightarrow> [[c]] | w # ws \<Rightarrow> (c # w) # ws))"

fun join_slash :: "string list \<Rightarrow> string" where
  "join_slash [] = []"
| "join_slash [w] = w"
| "join_slash (w # ws) = w @ CHR ''/'' # join_slash ws"

text \<open>One pass over the elements: empty ones and \<open>.\<close> go, \<open>..\<close> takes back the element before it, or
  stays at the front of a path that is not rooted. The stack is in reverse order.\<close>

fun clean_elems :: "bool \<Rightarrow> string list \<Rightarrow> string list \<Rightarrow> string list" where
  "clean_elems rooted stack [] = rev stack"
| "clean_elems rooted stack (w # ws) =
     (if w = [] \<or> w = ''.'' then clean_elems rooted stack ws
      else if w = ''..'' then
        (case stack of
           [] \<Rightarrow> clean_elems rooted (if rooted then [] else [w]) ws
         | prev # rest \<Rightarrow>
             if prev = ''..'' then clean_elems rooted (w # stack) ws
             else clean_elems rooted rest ws)
      else clean_elems rooted (w # stack) ws)"

definition path_elems :: "string \<Rightarrow> string list" where
  "path_elems s = clean_elems (has_prefix s ''/'') [] (split_slash s)"

definition path_clean :: "string \<Rightarrow> string" where
  "path_clean s =
     (if s = [] then ''.''
      else if has_prefix s ''/'' then CHR ''/'' # join_slash (path_elems s)
      else if path_elems s = [] then ''.''
      else join_slash (path_elems s))"

definition proper_elem :: "string \<Rightarrow> bool" where
  "proper_elem w = (w \<noteq> [] \<and> w \<noteq> ''.'' \<and> CHR ''/'' \<notin> set w)"

lemma split_slash_no_slash: "w \<in> set (split_slash s) \<Longrightarrow> CHR ''/'' \<notin> set w"
  by (induction s arbitrary: w) (auto split: list.splits if_splits)

lemma clean_elems_proper:
  "\<forall>w \<in> set ws. CHR ''/'' \<notin> set w \<Longrightarrow> \<forall>w \<in> set stack. proper_elem w \<Longrightarrow>
     \<forall>w \<in> set (clean_elems rooted stack ws). proper_elem w"
proof (induction ws arbitrary: stack)
  case (Cons w ws)
  have dots: "proper_elem ''..''" by (simp add: proper_elem_def)
  from Cons.prems(1) have ws: "\<forall>w \<in> set ws. CHR ''/'' \<notin> set w" and w: "CHR ''/'' \<notin> set w"
    by simp_all
  consider "w = [] \<or> w = ''.''" | "w \<noteq> []" "w \<noteq> ''.''" "w = ''..''" | "w \<noteq> []" "w \<noteq> ''.''" "w \<noteq> ''..''"
    by blast
  then show ?case
  proof cases
    case 1
    then show ?thesis using Cons.IH [OF ws Cons.prems(2)] by auto
  next
    case 2
    show ?thesis
    proof (cases stack)
      case Nil
      have "\<forall>v \<in> set (if rooted then [] else [w]). proper_elem v" using dots 2(3) by simp
      from Cons.IH [OF ws this] Nil 2 show ?thesis by simp
    next
      case (Cons prev rest)
      with Cons.prems(2) have "\<forall>v \<in> set (w # stack). proper_elem v" "\<forall>v \<in> set rest. proper_elem v"
        using dots 2(3) by simp_all
      then have "\<forall>v \<in> set (clean_elems rooted (w # stack) ws). proper_elem v"
        "\<forall>v \<in> set (clean_elems rooted rest ws). proper_elem v"
        using Cons.IH [OF ws] by blast+
      then show ?thesis by (simp add: Cons 2)
    qed
  next
    case 3
    then have "\<forall>v \<in> set (w # stack). proper_elem v"
      using Cons.prems(2) w by (simp add: proper_elem_def)
    from Cons.IH [OF ws this] 3 show ?thesis by simp
  qed
qed simp

lemma clean_elems_rooted:
  "''..'' \<notin> set stack \<Longrightarrow> ''..'' \<notin> set (clean_elems True stack ws)"
  by (induction True stack ws rule: clean_elems.induct) (auto split: list.splits if_splits)

lemma path_elems_proper: "w \<in> set (path_elems s) \<Longrightarrow> proper_elem w"
  unfolding path_elems_def
  using clean_elems_proper [of "split_slash s" "[]"] split_slash_no_slash by fastforce

lemma path_elems_rooted: "has_prefix s ''/'' \<Longrightarrow> ''..'' \<notin> set (path_elems s)"
  by (simp add: path_elems_def clean_elems_rooted)

lemma split_slash_ne [simp]: "split_slash s \<noteq> []"
  by (cases s) (auto split: list.splits)

lemma split_slash_append: "split_slash (a @ CHR ''/'' # b) = split_slash a @ split_slash b"
proof (induction a)
  case (Cons c a)
  have "split_slash a \<noteq> []" by simp
  with Cons show ?case by (cases "split_slash a") auto
qed simp

lemma split_slash_word: "CHR ''/'' \<notin> set w \<Longrightarrow> split_slash w = [w]"
  by (induction w) auto

lemma split_join_slash:
  "ws \<noteq> [] \<Longrightarrow> \<forall>w \<in> set ws. CHR ''/'' \<notin> set w \<Longrightarrow> split_slash (join_slash ws) = ws"
  by (induction ws rule: join_slash.induct) (auto simp: split_slash_word split_slash_append)

lemma join_slash_append:
  "xs \<noteq> [] \<Longrightarrow> ys \<noteq> [] \<Longrightarrow> join_slash (xs @ ys) = join_slash xs @ CHR ''/'' # join_slash ys"
proof (induction xs rule: join_slash.induct)
  case (2 w)
  then show ?case by (cases ys) auto
qed auto

text \<open>A cleaned path never starts with two slashes.\<close>

lemma path_clean_no_double_slash: "\<not> has_prefix (path_clean s) ''//''"
proof (cases "path_elems s")
  case Nil
  then show ?thesis by (auto simp: path_clean_def has_prefix_def)
next
  case (Cons w ws)
  then have w: "w \<noteq> []" "CHR ''/'' \<notin> set w"
    using path_elems_proper [of w s] by (auto simp: proper_elem_def)
  then obtain c w' where c: "w = c # w'" "c \<noteq> CHR ''/''" by (cases w) auto
  have "\<exists>t. join_slash (w # ws) = c # t" by (cases ws) (auto simp: c)
  then show ?thesis using c by (auto simp: path_clean_def Cons has_prefix_def)
qed

end
