(* ===== verification/Collab_Paths.thy ===== *)
theory Collab_Paths
  imports Go_Strings
begin

text \<open>
  The path and scope rules of \<open>internal/hub/core/cloud_collaboration.go\<close>: which spellings of a
  directory are the same, when a write scope contains a path and when two write scopes overlap.
  The parameter \<open>uni\<close> is \<open>strings.ToLower\<close> beyond ASCII.
\<close>

definition slashes :: "string \<Rightarrow> string" where
  "slashes s = map (\<lambda>c. if c = CHR 0x5C then CHR ''/'' else c) s"

definition drive_form :: "string \<Rightarrow> bool" where
  "drive_form v = (2 \<le> length v \<and> v ! 1 = CHR '':'')"

definition normalizeCollaborationPath :: "(string \<Rightarrow> string) \<Rightarrow> string \<Rightarrow> string" where
  "normalizeCollaborationPath uni value =
     (let value = trim_space (slashes value)
      in if value = [] then []
         else let value = path_clean value;
                  value = (if drive_form value \<or> has_prefix value ''//'' then to_lower uni value else value)
              in trim_suffix value ''/'')"

definition scopeContains :: "(string \<Rightarrow> string) \<Rightarrow> string \<Rightarrow> string \<Rightarrow> bool" where
  "scopeContains uni parent child =
     (let parent = normalizeCollaborationPath uni parent;
          child = normalizeCollaborationPath uni child
      in if parent = [] \<or> child = [] \<or> parent = ''.'' \<or> child = ''.'' then False
         else child = parent \<or> has_prefix child (parent @ ''/''))"

definition scopesOverlap :: "(string \<Rightarrow> string) \<Rightarrow> string \<Rightarrow> string \<Rightarrow> bool" where
  "scopesOverlap uni a b = (scopeContains uni a b \<or> scopeContains uni b a)"

definition validCollaborationAbsolutePath :: "string \<Rightarrow> bool" where
  "validCollaborationAbsolutePath value =
     (let value = trim_space (slashes value)
      in if value = [] \<or> 4096 < length value \<or> contains_any value [CHR 0x00, CHR 0x0D, CHR 0x0A] then False
         else has_prefix value ''/'' \<or> has_prefix value ''//''
           \<or> 3 \<le> length value
             \<and> (in_range 97 122 (of_char (value ! 0)) \<or> in_range 65 90 (of_char (value ! 0)))
             \<and> value ! 1 = CHR '':'' \<and> value ! 2 = CHR ''/'')"

definition resolveCollaborationScope :: "string \<Rightarrow> string \<Rightarrow> string" where
  "resolveCollaborationScope root_dir scope =
     (let scope = trim_space scope
      in if validCollaborationAbsolutePath scope then scope
         else trim_right_set root_dir [CHR 0x5C, CHR ''/''] @ ''/'' @ trim_left_set scope [CHR 0x5C, CHR ''/''])"

definition validCollaborationSessionID :: "string \<Rightarrow> bool" where
  "validCollaborationSessionID value =
     (let value = trim_space value
      in value \<noteq> [] \<and> length value \<le> 256
         \<and> \<not> contains_any value [CHR 0x00, CHR 0x0D, CHR 0x0A, CHR 0x09, CHR 0x20])"

section \<open>Containment of scopes\<close>

lemma scopeContains_iff:
  "scopeContains uni p c \<longleftrightarrow>
     (let p' = normalizeCollaborationPath uni p; c' = normalizeCollaborationPath uni c
      in p' \<noteq> [] \<and> p' \<noteq> ''.'' \<and> c' \<noteq> [] \<and> c' \<noteq> ''.''
         \<and> (c' = p' \<or> (\<exists>t. c' = p' @ CHR ''/'' # t)))"
  by (auto simp: scopeContains_def Let_def has_prefix_iff)

lemma scopeContains_refl:
  "normalizeCollaborationPath uni p \<notin> {[], ''.''} \<Longrightarrow> scopeContains uni p p"
  by (simp add: scopeContains_iff)

lemma scopeContains_trans:
  assumes "scopeContains uni a b" "scopeContains uni b c"
  shows "scopeContains uni a c"
proof -
  define a' b' c' where "a' = normalizeCollaborationPath uni a"
    and "b' = normalizeCollaborationPath uni b" and "c' = normalizeCollaborationPath uni c"
  from assms have "b' = a' \<or> (\<exists>t. b' = a' @ CHR ''/'' # t)" "c' = b' \<or> (\<exists>t. c' = b' @ CHR ''/'' # t)"
    and "a' \<noteq> []" "a' \<noteq> ''.''" "c' \<noteq> []" "c' \<noteq> ''.''"
    by (simp_all add: scopeContains_iff Let_def a'_def b'_def c'_def)
  moreover from this(1,2) have "c' = a' \<or> (\<exists>t. c' = a' @ CHR ''/'' # t)"
    by (elim disjE exE) simp_all
  ultimately show ?thesis by (simp add: scopeContains_iff Let_def a'_def c'_def)
qed

lemma scopeContains_antisym:
  assumes "scopeContains uni a b" "scopeContains uni b a"
  shows "normalizeCollaborationPath uni a = normalizeCollaborationPath uni b"
proof -
  define a' b' where "a' = normalizeCollaborationPath uni a" and "b' = normalizeCollaborationPath uni b"
  from assms have "b' = a' \<or> (\<exists>t. b' = a' @ CHR ''/'' # t)" "a' = b' \<or> (\<exists>t. a' = b' @ CHR ''/'' # t)"
    by (simp_all add: scopeContains_iff Let_def a'_def b'_def)
  then have "a' = b'" by (elim disjE exE) (simp_all add: eq_commute)
  then show ?thesis by (simp add: a'_def b'_def)
qed

lemma scopesOverlap_sym: "scopesOverlap uni a b \<longleftrightarrow> scopesOverlap uni b a"
  by (auto simp: scopesOverlap_def)

text \<open>
  The normal form of a rooted path that is not drive-like: a slash before every element, the
  elements being those \<open>path.Clean\<close> keeps, none of them \<open>..\<close>.
\<close>

definition rooted :: "string \<Rightarrow> bool" where
  "rooted v = (has_prefix (trim_space (slashes v)) ''/''
     \<and> \<not> drive_form (path_clean (trim_space (slashes v))))"

definition scope_elems :: "string \<Rightarrow> string list" where
  "scope_elems v = path_elems (trim_space (slashes v))"

lemma scope_elems_proper: "w \<in> set (scope_elems v) \<Longrightarrow> proper_elem w"
  by (simp add: scope_elems_def path_elems_proper)

lemma scope_elems_no_dotdot: "rooted v \<Longrightarrow> ''..'' \<notin> set (scope_elems v)"
  by (simp add: rooted_def scope_elems_def path_elems_rooted)

lemma join_slash_last:
  assumes "ws \<noteq> []" "\<forall>w \<in> set ws. proper_elem w"
  shows "join_slash ws \<noteq> [] \<and> last (join_slash ws) \<noteq> CHR ''/''"
  using assms
proof (induction ws rule: join_slash.induct)
  case (2 w)
  then have "w \<noteq> []" "CHR ''/'' \<notin> set w" by (simp_all add: proper_elem_def)
  then show ?case by (metis join_slash.simps(2) last_in_set)
qed auto

lemma trim_suffix_keep: "s \<noteq> [] \<Longrightarrow> last s \<noteq> c \<Longrightarrow> trim_suffix s [c] = s"
  by (auto simp: trim_suffix_def has_suffix_iff)

lemma normalize_rooted:
  assumes "rooted v"
  shows "normalizeCollaborationPath uni v =
    (if scope_elems v = [] then [] else CHR ''/'' # join_slash (scope_elems v))"
proof -
  let ?v = "trim_space (slashes v)"
  from assms have p: "has_prefix ?v ''/''" and d: "\<not> drive_form (path_clean ?v)"
    by (simp_all add: rooted_def)
  from p have ne: "?v \<noteq> []" by (auto simp: has_prefix_def)
  have cl: "path_clean ?v = CHR ''/'' # join_slash (scope_elems v)"
    using p ne by (simp add: path_clean_def scope_elems_def)
  have nn: "\<not> has_prefix (path_clean ?v) ''//''" by (rule path_clean_no_double_slash)
  have "normalizeCollaborationPath uni v = trim_suffix (CHR ''/'' # join_slash (scope_elems v)) ''/''"
    using ne d nn by (simp add: normalizeCollaborationPath_def Let_def cl)
  also have "\<dots> = (if scope_elems v = [] then [] else CHR ''/'' # join_slash (scope_elems v))"
  proof (cases "scope_elems v = []")
    case True
    then show ?thesis by (simp add: trim_suffix_def has_suffix_def has_prefix_def)
  next
    case False
    with join_slash_last [of "scope_elems v"] scope_elems_proper
    show ?thesis by (simp add: trim_suffix_keep)
  qed
  finally show ?thesis .
qed

lemma scopeContains_rooted:
  assumes p: "rooted p" and c: "rooted c"
  shows "scopeContains uni p c \<longleftrightarrow>
    scope_elems p \<noteq> [] \<and> (\<exists>rest. scope_elems c = scope_elems p @ rest)"
proof (cases "scope_elems p = []")
  case True
  then show ?thesis by (simp add: scopeContains_iff normalize_rooted [OF p])
next
  case ne: False
  have slp: "\<forall>w \<in> set (scope_elems p). CHR ''/'' \<notin> set w"
    and slc: "\<forall>w \<in> set (scope_elems c). CHR ''/'' \<notin> set w"
    using scope_elems_proper by (auto simp: proper_elem_def)
  show ?thesis
  proof (cases "scope_elems c = []")
    case True
    then show ?thesis using ne by (auto simp: scopeContains_iff normalize_rooted [OF c])
  next
    case nec: False
    have "scopeContains uni p c \<longleftrightarrow> join_slash (scope_elems c) = join_slash (scope_elems p)
        \<or> (\<exists>t. join_slash (scope_elems c) = join_slash (scope_elems p) @ CHR ''/'' # t)"
      using ne nec by (simp add: scopeContains_iff normalize_rooted [OF p] normalize_rooted [OF c])
    also have "\<dots> \<longleftrightarrow> (\<exists>rest. scope_elems c = scope_elems p @ rest)"
    proof
      assume "join_slash (scope_elems c) = join_slash (scope_elems p)
        \<or> (\<exists>t. join_slash (scope_elems c) = join_slash (scope_elems p) @ CHR ''/'' # t)"
      then have "split_slash (join_slash (scope_elems c)) = split_slash (join_slash (scope_elems p))
        \<or> (\<exists>t. split_slash (join_slash (scope_elems c)) =
              split_slash (join_slash (scope_elems p)) @ split_slash t)"
        by (metis split_slash_append)
      then show "\<exists>rest. scope_elems c = scope_elems p @ rest"
        using split_join_slash [OF ne slp] split_join_slash [OF nec slc] by auto
    next
      assume "\<exists>rest. scope_elems c = scope_elems p @ rest"
      then obtain rest where r: "scope_elems c = scope_elems p @ rest" by blast
      then show "join_slash (scope_elems c) = join_slash (scope_elems p)
        \<or> (\<exists>t. join_slash (scope_elems c) = join_slash (scope_elems p) @ CHR ''/'' # t)"
        using join_slash_append [OF ne, of rest] by (cases "rest = []") auto
    qed
    finally show ?thesis using ne by simp
  qed
qed

end
