(* ===== verification/Collab_Types.thy ===== *)
theory Collab_Types
  imports Collab_Paths
begin

text \<open>
  The data of \<open>internal/hub/core/cloud_collaboration.go\<close>: the request, the collaboration state that
  is stored as one JSON column, and its parts (lease, goals, tasks, chats, events, decisions), with
  the errors of \<open>internal/hub/store/store.go\<close> and the capability error of \<open>core/service.go\<close>.
  Status fields stay strings, because requests and stored JSON can carry any text there.
\<close>

record cap_error =
  ce_Code :: string
  ce_Message :: string
  ce_Retryable :: bool
  ce_Details :: "(string \<times> json) list"

text \<open>\<open>Wrapped\<close> is \<open>fmt.Errorf\<close> with \<open>%w\<close>: \<open>errors.Is\<close> and \<open>errors.As\<close> look through it.\<close>

datatype hub_error =
    ErrNotFound
  | ErrUnauthorized
  | ErrExpired
  | ErrConsumed
  | ErrRevoked
  | ErrReplay
  | ErrConflict
  | ErrResourceLimit
  | ErrMachineOffline
  | ErrConnectionLost
  | DeadlineExceeded
  | CallError cap_error
  | Wrapped string hub_error
  | OtherError string

fun root_error :: "hub_error \<Rightarrow> hub_error" where
  "root_error (Wrapped msg e) = root_error e"
| "root_error e = e"

definition call_error :: "string \<Rightarrow> string \<Rightarrow> bool \<Rightarrow> hub_error" where
  "call_error code message retryable =
     CallError \<lparr>ce_Code = code, ce_Message = message, ce_Retryable = retryable, ce_Details = []\<rparr>"

record collab_request =
  rq_Action :: string
  rq_CollaborationID :: string
  rq_MachineID :: string
  rq_IdempotencyKey :: string
  rq_RequestHash :: string
  rq_ExpectedRevision :: int
  rq_ActorSessionID :: string
  rq_ActorRole :: string
  rq_ControllerSessionID :: string
  rq_DispatcherSessionID :: string
  rq_CallbackSessionID :: string
  rq_Title :: string
  rq_Goal :: string
  rq_Scope :: string
  rq_DoneWhen :: string
  rq_WorkingDirectory :: string
  rq_AllowedActions :: "string list"
  rq_MaxDepth :: int
  rq_MaxActiveChats :: int
  rq_MaxCreates :: int
  rq_HeartbeatMinutes :: int
  rq_StallMinutes :: int
  rq_Deadline :: instant
  rq_GoalID :: string
  rq_GoalStatus :: string
  rq_TaskID :: string
  rq_TaskStatus :: string
  rq_ParentSessionID :: string
  rq_TargetSessionID :: string
  rq_Prompt :: string
  rq_AccessMode :: string
  rq_WriteScope :: string
  rq_DeliverablePath :: string
  rq_CallbackType :: string
  rq_EventID :: string
  rq_EventSequence :: int
  rq_EventType :: string
  rq_EventGeneration :: int
  rq_ResultID :: string
  rq_ResultStatus :: string
  rq_ResultBytes :: int
  rq_ResultSHA256 :: string
  rq_DeliverableStatus :: string
  rq_DecisionID :: string
  rq_DecisionStatus :: string
  rq_Question :: string
  rq_Options :: "string list"
  rq_Recommendation :: string
  rq_Checkpoint :: string
  rq_InactiveVerified :: bool
  rq_Limit :: int

text \<open>The zero value of the request struct: what a field holds that a literal does not name.\<close>

definition empty_request :: collab_request where
  "empty_request = \<lparr>rq_Action = [], rq_CollaborationID = [], rq_MachineID = [], rq_IdempotencyKey = [],
     rq_RequestHash = [], rq_ExpectedRevision = 0, rq_ActorSessionID = [], rq_ActorRole = [],
     rq_ControllerSessionID = [], rq_DispatcherSessionID = [], rq_CallbackSessionID = [], rq_Title = [],
     rq_Goal = [], rq_Scope = [], rq_DoneWhen = [], rq_WorkingDirectory = [], rq_AllowedActions = [],
     rq_MaxDepth = 0, rq_MaxActiveChats = 0, rq_MaxCreates = 0, rq_HeartbeatMinutes = 0,
     rq_StallMinutes = 0, rq_Deadline = zero_time, rq_GoalID = [], rq_GoalStatus = [], rq_TaskID = [],
     rq_TaskStatus = [], rq_ParentSessionID = [], rq_TargetSessionID = [], rq_Prompt = [],
     rq_AccessMode = [], rq_WriteScope = [], rq_DeliverablePath = [], rq_CallbackType = [],
     rq_EventID = [], rq_EventSequence = 0, rq_EventType = [], rq_EventGeneration = 0, rq_ResultID = [],
     rq_ResultStatus = [], rq_ResultBytes = 0, rq_ResultSHA256 = [], rq_DeliverableStatus = [],
     rq_DecisionID = [], rq_DecisionStatus = [], rq_Question = [], rq_Options = [],
     rq_Recommendation = [], rq_Checkpoint = [], rq_InactiveVerified = False, rq_Limit = 0\<rparr>"

record lease =
  ls_SessionID :: string
  ls_Generation :: int
  ls_ExpiresAt :: stamp

definition empty_lease :: lease where
  "empty_lease = \<lparr>ls_SessionID = [], ls_Generation = 0, ls_ExpiresAt = NoStamp\<rparr>"

record goal =
  gl_ID :: string
  gl_Title :: string
  gl_Status :: string
  gl_Evidence :: string

record task =
  tk_ID :: string
  tk_Title :: string
  tk_Prompt :: string
  tk_Status :: string
  tk_ParentSession :: string
  tk_Depth :: int
  tk_Generation :: int
  tk_AccessMode :: string
  tk_WriteScope :: string
  tk_DeliverablePath :: string
  tk_ResultPath :: string
  tk_CallbackType :: string
  tk_AllowedActions :: "string list"
  tk_IdempotencyKey :: string
  tk_TargetSessionID :: string
  tk_ChatSessionID :: string
  tk_SessionMode :: string
  tk_DeliveryStatus :: string
  tk_ResultID :: string
  tk_ResultStatus :: string
  tk_ResultSHA256 :: string
  tk_ResultText :: string
  tk_CreatedAt :: stamp
  tk_UpdatedAt :: stamp

record chat =
  ct_SessionID :: string
  ct_TaskID :: string
  ct_ParentSession :: string
  ct_Depth :: int
  ct_Generation :: int
  ct_Status :: string
  ct_AccessMode :: string
  ct_WriteScope :: string
  ct_AllowedActions :: "string list"
  ct_CallbackRegistered :: bool
  ct_CallbackArmed :: bool
  ct_WatchCursor :: int
  ct_LastObservedAt :: stamp
  ct_LastProgressAt :: stamp
  ct_QuietChecks :: int
  ct_StalledNotified :: bool
  ct_ContinueAttempts :: int
  ct_LastContinueAt :: stamp
  ct_Reused :: bool

record event =
  ev_ID :: string
  ev_TaskID :: string
  ev_SessionID :: string
  ev_Generation :: int
  ev_Sequence :: int
  ev_Type :: string
  ev_ResultID :: string
  ev_ResultStatus :: string
  ev_ResultBytes :: int
  ev_ResultSHA256 :: string
  ev_CallbackType :: string
  ev_Status :: string
  ev_DeliverablePath :: string
  ev_DeliverableStatus :: string
  ev_Signature :: string
  ev_CreatedAt :: stamp

record decision =
  dc_ID :: string
  dc_Kind :: string
  dc_TargetID :: string
  dc_Question :: string
  dc_Options :: "string list"
  dc_Recommendation :: string
  dc_Status :: string
  dc_CreatedAt :: stamp

record collab_state =
  cs_Version :: int
  cs_Title :: string
  cs_Goal :: string
  cs_Scope :: string
  cs_DoneWhen :: string
  cs_Status :: string
  cs_WorkingDirectory :: string
  cs_ControllerSessionID :: string
  cs_DispatcherSessionID :: string
  cs_Generation :: int
  cs_AllowedActions :: "string list"
  cs_MaxDepth :: int
  cs_MaxActiveChats :: int
  cs_MaxCreates :: int
  cs_CreateCount :: int
  cs_HeartbeatMinutes :: int
  cs_StallMinutes :: int
  cs_Deadline :: stamp
  cs_Lease :: lease
  cs_Goals :: "goal list"
  cs_Tasks :: "task list"
  cs_Chats :: "chat list"
  cs_Events :: "event list"
  cs_Decisions :: "decision list"
  cs_Checkpoint :: string
  cs_CheckpointGeneration :: int

text \<open>
  What the Hub computes with code that is not its own: the two uses of SHA-256 (of a text, and of
  the JSON text of a list of values) and lower case beyond ASCII. They are arguments of the
  operations that use them.
\<close>

record digests =
  dg_text :: "string \<Rightarrow> string"
  dg_json :: "json list \<Rightarrow> string"
  dg_lower :: "string \<Rightarrow> string"

definition cloudCollaborationStateVersion :: int where "cloudCollaborationStateVersion = 2"

definition cloudCollaborationSelfActor :: string where "cloudCollaborationSelfActor = ''$self''"

section \<open>Small helpers of the component\<close>

definition boundedCollaborationText :: "string \<Rightarrow> nat \<Rightarrow> string" where
  "boundedCollaborationText value mx =
     (let value = trim_space value in if mx < length value then [] else value)"

definition boundedInt :: "int \<Rightarrow> int \<Rightarrow> int \<Rightarrow> int \<Rightarrow> int" where
  "boundedInt value mn mx fallback =
     (if value = 0 then fallback else if value < mn \<or> mx < value then fallback else value)"

definition taskIndex :: "collab_state \<Rightarrow> string \<Rightarrow> nat option" where
  "taskIndex st i = find_index (\<lambda>t. tk_ID t = i) (cs_Tasks st)"

definition chatTaskIndex :: "collab_state \<Rightarrow> task \<Rightarrow> nat option" where
  "chatTaskIndex st t = find_last_index (\<lambda>c. ct_SessionID c = tk_ChatSessionID t
     \<and> ct_TaskID c = tk_ID t \<and> ct_Generation c = tk_Generation t) (cs_Chats st)"

definition activeCloudChats :: "collab_state \<Rightarrow> int" where
  "activeCloudChats st = int (length (filter (\<lambda>c. ct_Status c = ''active'' \<or> ct_Status c = ''creating'') (cs_Chats st)))"

definition deadlinePassed :: "collab_state \<Rightarrow> instant \<Rightarrow> bool" where
  "deadlinePassed st now =
     (if cs_Deadline st = NoStamp then False
      else case parse_stamp (cs_Deadline st) of None \<Rightarrow> True | Some d \<Rightarrow> \<not> now < d)"

definition cloud_actions :: "string list" where
  "cloud_actions = [''chat.create'', ''chat.send'', ''file.read'', ''file.write'', ''shell'',
     ''git.read'', ''git.write'', ''browser'', ''archive'', ''delete'']"

definition normalizedCloudActions :: "string list \<Rightarrow> string list" where
  "normalizedCloudActions values =
     sort (remdups (filter (\<lambda>v. v \<in> set cloud_actions) (map trim_space values)))"

definition containsString :: "string list \<Rightarrow> string \<Rightarrow> bool" where
  "containsString values needle = list_ex (\<lambda>v. v = needle) values"

definition stringSubset :: "string list \<Rightarrow> string list \<Rightarrow> bool" where
  "stringSubset child parent = list_all (\<lambda>v. containsString parent v) child"

lemma containsString_iff [simp]: "containsString vs v \<longleftrightarrow> v \<in> set vs"
  by (auto simp: containsString_def list_ex_iff)

lemma stringSubset_iff [simp]: "stringSubset c p \<longleftrightarrow> set c \<subseteq> set p"
  by (auto simp: stringSubset_def list_all_iff)

lemma normalizedCloudActions_set: "set (normalizedCloudActions vs) \<subseteq> set cloud_actions"
  by (auto simp: normalizedCloudActions_def)

lemma normalizedCloudActions_sorted:
  "sorted (normalizedCloudActions vs) \<and> distinct (normalizedCloudActions vs)"
  by (simp add: normalizedCloudActions_def)

lemma boundedInt_range: "mn \<le> fallback \<Longrightarrow> fallback \<le> mx \<Longrightarrow>
    mn \<le> boundedInt v mn mx fallback \<and> boundedInt v mn mx fallback \<le> mx"
  by (auto simp: boundedInt_def)

lemma length_boundedText: "length (boundedCollaborationText v n) \<le> n"
  by (auto simp: boundedCollaborationText_def Let_def)

lemma taskIndex_Some: "taskIndex st i = Some k \<Longrightarrow> k < length (cs_Tasks st) \<and> tk_ID (cs_Tasks st ! k) = i"
  by (auto simp: taskIndex_def dest: find_index_Some)

lemma taskIndex_None_iff: "taskIndex st i = None \<longleftrightarrow> i \<notin> tk_ID ` set (cs_Tasks st)"
  by (auto simp: taskIndex_def find_index_None_iff)

lemma chatTaskIndex_Some: "chatTaskIndex st t = Some k \<Longrightarrow> k < length (cs_Chats st) \<and>
    ct_SessionID (cs_Chats st ! k) = tk_ChatSessionID t \<and> ct_TaskID (cs_Chats st ! k) = tk_ID t
    \<and> ct_Generation (cs_Chats st ! k) = tk_Generation t"
  by (auto simp: chatTaskIndex_def dest: find_last_index_Some)

lemma activeCloudChats_nonneg: "0 \<le> activeCloudChats st"
  by (simp add: activeCloudChats_def)

text \<open>In-place updates of one task, chat or event of the state, by index.\<close>

definition upd_task :: "nat \<Rightarrow> (task \<Rightarrow> task) \<Rightarrow> collab_state \<Rightarrow> collab_state" where
  "upd_task i f st = st\<lparr>cs_Tasks := modify i f (cs_Tasks st)\<rparr>"

definition upd_chat :: "nat \<Rightarrow> (chat \<Rightarrow> chat) \<Rightarrow> collab_state \<Rightarrow> collab_state" where
  "upd_chat i f st = st\<lparr>cs_Chats := modify i f (cs_Chats st)\<rparr>"

definition upd_event :: "nat \<Rightarrow> (event \<Rightarrow> event) \<Rightarrow> collab_state \<Rightarrow> collab_state" where
  "upd_event i f st = st\<lparr>cs_Events := modify i f (cs_Events st)\<rparr>"

lemmas upd_defs = upd_task_def upd_chat_def upd_event_def

lemma upd_task_simps [simp]:
  "cs_Tasks (upd_task i f st) = modify i f (cs_Tasks st)"
  "cs_Chats (upd_task i f st) = cs_Chats st" "cs_Events (upd_task i f st) = cs_Events st"
  "cs_Goals (upd_task i f st) = cs_Goals st" "cs_Decisions (upd_task i f st) = cs_Decisions st"
  "cs_Status (upd_task i f st) = cs_Status st" "cs_Generation (upd_task i f st) = cs_Generation st"
  "cs_CreateCount (upd_task i f st) = cs_CreateCount st" "cs_Lease (upd_task i f st) = cs_Lease st"
  by (simp_all add: upd_task_def)

lemma upd_chat_simps [simp]:
  "cs_Chats (upd_chat i f st) = modify i f (cs_Chats st)"
  "cs_Tasks (upd_chat i f st) = cs_Tasks st" "cs_Events (upd_chat i f st) = cs_Events st"
  "cs_Goals (upd_chat i f st) = cs_Goals st" "cs_Decisions (upd_chat i f st) = cs_Decisions st"
  "cs_Status (upd_chat i f st) = cs_Status st" "cs_Generation (upd_chat i f st) = cs_Generation st"
  "cs_CreateCount (upd_chat i f st) = cs_CreateCount st" "cs_Lease (upd_chat i f st) = cs_Lease st"
  by (simp_all add: upd_chat_def)

lemma upd_event_simps [simp]:
  "cs_Events (upd_event i f st) = modify i f (cs_Events st)"
  "cs_Tasks (upd_event i f st) = cs_Tasks st" "cs_Chats (upd_event i f st) = cs_Chats st"
  "cs_Goals (upd_event i f st) = cs_Goals st" "cs_Decisions (upd_event i f st) = cs_Decisions st"
  "cs_Status (upd_event i f st) = cs_Status st" "cs_Generation (upd_event i f st) = cs_Generation st"
  "cs_CreateCount (upd_event i f st) = cs_CreateCount st" "cs_Lease (upd_event i f st) = cs_Lease st"
  by (simp_all add: upd_event_def)

lemma taskIndex_upd_chat [simp]: "taskIndex (upd_chat i f st) = taskIndex st"
  by (simp add: taskIndex_def fun_eq_iff)

lemma taskIndex_upd_event [simp]: "taskIndex (upd_event i f st) = taskIndex st"
  by (simp add: taskIndex_def fun_eq_iff)

lemma taskIndex_upd_task:
  assumes "\<And>t. tk_ID (f t) = tk_ID t"
  shows "taskIndex (upd_task i f st) = taskIndex st"
proof -
  have by_id: "find_index (\<lambda>t. tk_ID t = x) ts = find_index (\<lambda>y. y = x) (map tk_ID ts)" for x ts
    by (induction ts) auto
  have "map tk_ID (modify i f (cs_Tasks st)) = map tk_ID (cs_Tasks st)" using assms by (rule map_modify)
  then show ?thesis unfolding taskIndex_def fun_eq_iff by_id by simp
qed

end
