(* ===== verification/Collab_Ops.thy ===== *)
theory Collab_Ops
  imports Collab_Types
begin

text \<open>
  The operations of \<open>cloud_collaboration.go\<close> that change the collaboration state and call nothing
  outside the Hub: goals, tasks, events, decisions, chat rotation, and the checks of the actor, of
  the lease and of the limits. An operation the source writes as a function on \<open>*state\<close> that
  returns an error is a function to \<open>hub_error + collab_state\<close>; on an error every caller drops the
  state it had, so no state comes with it. \<open>now\<close> is the clock the source reads.
\<close>

section \<open>Actors, leases, limits\<close>

definition authorizeCloudCollaborationActor :: "collab_state \<Rightarrow> string \<Rightarrow> string \<Rightarrow> hub_error + string" where
  "authorizeCloudCollaborationActor st sessionID claimedRole =
     (let sessionID = trim_space sessionID;
          role = (if sessionID = cs_DispatcherSessionID st then ''dispatcher''
                  else if sessionID = cs_ControllerSessionID st then ''controller''
                  else if list_ex (\<lambda>c. ct_SessionID c = sessionID \<and> ct_Status c \<noteq> ''archived''
                            \<and> ct_Status c \<noteq> ''deleted'') (cs_Chats st)
                  then ''chat'' else [])
      in if role = [] \<or> (trim_space claimedRole \<noteq> [] \<and> claimedRole \<noteq> role) then Inl ErrUnauthorized
         else Inr role)"

definition cloudCollaborationCanControl :: "collab_state \<Rightarrow> string \<Rightarrow> bool" where
  "cloudCollaborationCanControl st role =
     (role = ''controller'' \<or> role = ''dispatcher'' \<and> cs_ControllerSessionID st = cs_DispatcherSessionID st)"

definition resolveCloudCollaborationSelfActor ::
    "collab_state \<Rightarrow> collab_request \<Rightarrow> hub_error + collab_request" where
  "resolveCloudCollaborationSelfActor st req =
     (if trim_space (rq_ActorSessionID req) \<noteq> cloudCollaborationSelfActor then Inr req
      else let role = trim_space (rq_ActorRole req)
      in if role \<noteq> [] \<and> role \<noteq> ''chat'' then Inl ErrUnauthorized
      else let taskID = trim_space (rq_TaskID req);
               taskID = (if taskID = [] \<and> trim_space (rq_Action req) = ''event.ack''
                         then (case find (\<lambda>e. ev_ID e = trim_space (rq_EventID req)) (cs_Events st) of
                                 Some e \<Rightarrow> ev_TaskID e | None \<Rightarrow> taskID)
                         else taskID)
      in if taskID = [] then Inl ErrUnauthorized
      else case taskIndex st taskID of
             None \<Rightarrow> Inl ErrUnauthorized
           | Some idx \<Rightarrow>
               if trim_space (tk_ChatSessionID (cs_Tasks st ! idx)) = [] then Inl ErrUnauthorized
               else Inr (req\<lparr>rq_ActorSessionID := tk_ChatSessionID (cs_Tasks st ! idx)\<rparr>))"

definition cloudCollaborationActionNeedsLease :: "string \<Rightarrow> string \<Rightarrow> bool" where
  "cloudCollaborationActionNeedsLease action role =
     (if role \<noteq> ''dispatcher'' \<and> role \<noteq> ''chat'' then False
      else \<not> (action = ''get'' \<or> action = ''tick'' \<or> action = ''lease.acquire'' \<or> action = ''lease.release''))"

definition requireCloudCollaborationLease ::
    "collab_state \<Rightarrow> string \<Rightarrow> string \<Rightarrow> instant \<Rightarrow> hub_error + unit" where
  "requireCloudCollaborationLease st actorSessionID role now =
     (case parse_stamp (ls_ExpiresAt (cs_Lease st)) of
        None \<Rightarrow> Inl ErrUnauthorized
      | Some expiresAt \<Rightarrow>
          if \<not> now < expiresAt \<or> ls_Generation (cs_Lease st) \<noteq> cs_Generation st
             \<or> ls_SessionID (cs_Lease st) \<noteq> cs_DispatcherSessionID st then Inl ErrUnauthorized
          else if role = ''dispatcher'' \<and> ls_SessionID (cs_Lease st) \<noteq> trim_space actorSessionID
          then Inl ErrUnauthorized
          else Inr ())"

definition validateCloudCollaborationLimits :: "collab_request \<Rightarrow> hub_error + unit" where
  "validateCloudCollaborationLimits req =
     (if list_ex (\<lambda>(value, mn, mx). value \<noteq> 0 \<and> (value < mn \<or> mx < value))
           [(rq_MaxDepth req, 1, 8), (rq_MaxActiveChats req, 1, 8), (rq_MaxCreates req, 1, 100),
            (rq_HeartbeatMinutes req, 5, 1440), (rq_StallMinutes req, 15, 1440)]
      then Inl ErrConflict else Inr ())"

section \<open>Goals\<close>

definition cloudCollaborationAddGoal :: "collab_state \<Rightarrow> collab_request \<Rightarrow> hub_error + collab_state" where
  "cloudCollaborationAddGoal st req =
     (if 100 \<le> length (cs_Goals st) then Inl ErrResourceLimit
      else let i = trim_space (rq_GoalID req);
               i = (if i = [] then ''goal-'' @ decimal (int (length (cs_Goals st)) + 1) else i)
      in if list_ex (\<lambda>g. gl_ID g = i) (cs_Goals st) then Inl ErrConflict
      else let title = boundedCollaborationText (rq_Title req) 500
      in if title = [] then Inl ErrConflict
      else Inr (st\<lparr>cs_Goals := cs_Goals st @
             [\<lparr>gl_ID = i, gl_Title = title, gl_Status = ''queued'', gl_Evidence = []\<rparr>]\<rparr>))"

definition goal_statuses :: "string list" where
  "goal_statuses = [''queued'', ''active'', ''blocked'', ''done'', ''dropped'']"

definition cloudCollaborationUpdateGoal :: "collab_state \<Rightarrow> collab_request \<Rightarrow> hub_error + collab_state" where
  "cloudCollaborationUpdateGoal st req =
     (case find_index (\<lambda>g. gl_ID g = rq_GoalID req) (cs_Goals st) of
        None \<Rightarrow> Inl ErrNotFound
      | Some i \<Rightarrow>
          if rq_GoalStatus req \<notin> set goal_statuses then Inl ErrConflict
          else Inr (st\<lparr>cs_Goals := modify i (\<lambda>g. g\<lparr>gl_Status := rq_GoalStatus req,
                 gl_Evidence := (if rq_ResultSHA256 req \<noteq> [] then rq_ResultSHA256 req else gl_Evidence g)\<rparr>)
               (cs_Goals st)\<rparr>))"

section \<open>Tasks\<close>

definition cloudCollaborationManagedResultPath ::
    "digests \<Rightarrow> string \<Rightarrow> string \<Rightarrow> string \<Rightarrow> int \<Rightarrow> string" where
  "cloudCollaborationManagedResultPath dg workingDirectory collaborationID taskID generation =
     trim_right_set workingDirectory [CHR 0x5C, CHR ''/''] @ ''/.fast-spider-result-''
     @ take 24 (dg_text dg (collaborationID @ [CHR 0x00] @ taskID @ [CHR 0x00] @ decimal generation)) @ ''.md''"

definition cloudCollaborationTaskResultPath :: "task \<Rightarrow> string" where
  "cloudCollaborationTaskResultPath t =
     (if tk_CallbackType t \<noteq> ''local_file'' then []
      else if trim_space (tk_DeliverablePath t) \<noteq> [] then tk_DeliverablePath t
      else tk_ResultPath t)"

text \<open>What a parent grants: the depth of the new task, the actions and the write scope it may draw on.\<close>

definition task_parent ::
    "collab_state \<Rightarrow> collab_request \<Rightarrow> string \<Rightarrow> hub_error + (string \<times> int \<times> string list \<times> string)" where
  "task_parent st req role =
     (let parent = trim_space (rq_ParentSessionID req)
      in if role \<noteq> ''chat'' then Inr (parent, 0, cs_AllowedActions st, cs_Scope st)
      else let parent = (if parent = [] then rq_ActorSessionID req else parent)
      in if parent \<noteq> rq_ActorSessionID req then Inl ErrUnauthorized
      else case find (\<lambda>c. ct_SessionID c = parent \<and> ct_Status c = ''active'') (cs_Chats st) of
             None \<Rightarrow> Inl ErrUnauthorized
           | Some c \<Rightarrow> Inr (parent, ct_Depth c + 1, ct_AllowedActions c, ct_WriteScope c))"

text \<open>The access a task asks for: write scope and deliverable against the parent's scope, the write
  scopes in use and the working directory.\<close>

definition task_access_error ::
    "digests \<Rightarrow> collab_state \<Rightarrow> string \<Rightarrow> string \<Rightarrow> string list \<Rightarrow> string \<Rightarrow> string \<Rightarrow> string \<Rightarrow> hub_error option" where
  "task_access_error dg st role parentScope actions access writeScope deliverablePath =
     (if access = ''write'' then
        if writeScope = [] \<or> (parentScope \<noteq> [] \<and> role = ''chat'' \<and> \<not> scopeContains (dg_lower dg) parentScope writeScope)
        then Some ErrUnauthorized
        else if list_ex (\<lambda>c. ct_Status c = ''active'' \<and> ct_AccessMode c = ''write''
                  \<and> scopesOverlap (dg_lower dg) (ct_WriteScope c) writeScope) (cs_Chats st)
        then Some ErrConflict
        else if deliverablePath \<noteq> []
                \<and> (\<not> containsString actions ''file.write'' \<or> \<not> validCollaborationAbsolutePath deliverablePath
                   \<or> \<not> scopeContains (dg_lower dg) (cs_WorkingDirectory st) deliverablePath
                   \<or> \<not> scopeContains (dg_lower dg) (resolveCollaborationScope (cs_WorkingDirectory st) writeScope) deliverablePath)
        then Some ErrUnauthorized
        else None
      else if deliverablePath \<noteq> [] then Some ErrUnauthorized
      else None)"

definition callback_types :: "string list" where
  "callback_types = [''local_file'', ''text'', ''status'']"

definition cloudCollaborationAddTask ::
    "digests \<Rightarrow> instant \<Rightarrow> collab_state \<Rightarrow> collab_request \<Rightarrow> string \<Rightarrow> hub_error + collab_state" where
  "cloudCollaborationAddTask dg now st req role =
     (if 500 \<le> length (cs_Tasks st) \<or> cs_MaxCreates st \<le> cs_CreateCount st then Inl ErrResourceLimit
      else if deadlinePassed st now then Inl ErrExpired
      else let i = trim_space (rq_TaskID req);
               i = (if i = [] then ''task-'' @ decimal (int (length (cs_Tasks st)) + 1) else i)
      in if list_ex (\<lambda>t. tk_ID t = i) (cs_Tasks st) then Inl ErrConflict
      else case task_parent st req role of
        Inl e \<Rightarrow> Inl e
      | Inr (parent, depth, parentActions, parentScope) \<Rightarrow>
      if cs_MaxDepth st < depth then Inl ErrResourceLimit
      else let actions = normalizedCloudActions (rq_AllowedActions req);
               actions = (if actions = [] then parentActions else actions)
      in if \<not> stringSubset actions parentActions then Inl ErrUnauthorized
      else let access = trim_space (rq_AccessMode req);
               access = (if access = [] then ''read_only'' else access)
      in if access \<noteq> ''read_only'' \<and> access \<noteq> ''write'' then Inl ErrConflict
      else let writeScope = trim_space (rq_WriteScope req);
               deliverablePath = trim_space (rq_DeliverablePath req);
               callbackType = trim_space (rq_CallbackType req);
               callbackType = (if callbackType = [] then ''local_file'' else callbackType)
      in if callbackType \<notin> set callback_types then Inl ErrConflict
      else if callbackType \<noteq> ''local_file'' \<and> deliverablePath \<noteq> [] then Inl ErrConflict
      else case task_access_error dg st role parentScope actions access writeScope deliverablePath of
        Some e \<Rightarrow> Inl e
      | None \<Rightarrow>
      if \<not> containsString actions ''chat.create'' \<and> \<not> containsString actions ''chat.send'' then Inl ErrUnauthorized
      else let target = trim_space (rq_TargetSessionID req)
      in if target \<noteq> [] \<and> \<not> validCollaborationSessionID target then Inl ErrConflict
      else if target \<noteq> [] \<and> \<not> containsString actions ''chat.send'' then Inl ErrUnauthorized
      else let stamp = format_stamp now;
               idem = dg_text dg (trim_space (rq_CollaborationID req) @ [CHR 0x00] @ i @ [CHR 0x00] @ decimal (cs_Generation st));
               resultPath = (if callbackType = ''local_file'' then
                   (if deliverablePath = [] then
                      cloudCollaborationManagedResultPath dg (cs_WorkingDirectory st) (rq_CollaborationID req) i (cs_Generation st)
                    else deliverablePath) else []);
               t = \<lparr>tk_ID = i, tk_Title = boundedCollaborationText (rq_Title req) 500,
                    tk_Prompt = boundedCollaborationText (rq_Prompt req) 12000, tk_Status = ''queued'',
                    tk_ParentSession = parent, tk_Depth = depth, tk_Generation = cs_Generation st,
                    tk_AccessMode = access, tk_WriteScope = writeScope, tk_DeliverablePath = deliverablePath,
                    tk_ResultPath = resultPath, tk_CallbackType = callbackType, tk_AllowedActions = actions,
                    tk_IdempotencyKey = ''collab_chat_'' @ take 40 idem, tk_TargetSessionID = target,
                    tk_ChatSessionID = [], tk_SessionMode = [], tk_DeliveryStatus = ''pending'',
                    tk_ResultID = [], tk_ResultStatus = [], tk_ResultSHA256 = [], tk_ResultText = [],
                    tk_CreatedAt = stamp, tk_UpdatedAt = stamp\<rparr>
      in if tk_Title t = [] \<or> tk_Prompt t = [] then Inl ErrConflict
         else Inr (st\<lparr>cs_Tasks := cs_Tasks st @ [t]\<rparr>))"

definition task_update_allowed :: "task \<Rightarrow> string \<Rightarrow> bool" where
  "task_update_allowed t next =
     (if tk_Status t = ''queued'' then next = ''blocked'' \<or> next = ''dropped''
      else if tk_Status t \<in> {''creating'', ''create_in_doubt'', ''active''} then next = ''blocked''
      else if tk_Status t = ''result_available'' then next = ''done'' \<or> next = ''blocked''
      else if tk_Status t = ''blocked'' then next = ''dropped'' \<or> (next = ''queued'' \<and> tk_ChatSessionID t = [])
      else False)"

definition task_result_validated :: "collab_state \<Rightarrow> string \<Rightarrow> bool" where
  "task_result_validated st taskID =
     list_ex (\<lambda>e. ev_TaskID e = taskID \<and> ev_Status e = ''acked''
       \<and> (ev_ResultStatus e = ''ready'' \<or> ev_ResultStatus e = ''completed'')) (cs_Events st)"

definition cloudCollaborationUpdateTask ::
    "instant \<Rightarrow> collab_state \<Rightarrow> collab_request \<Rightarrow> hub_error + collab_state" where
  "cloudCollaborationUpdateTask now st req =
     (case taskIndex st (trim_space (rq_TaskID req)) of
        None \<Rightarrow> Inl ErrNotFound
      | Some idx \<Rightarrow>
          let t = cs_Tasks st ! idx; next = trim_space (rq_TaskStatus req)
          in if \<not> task_update_allowed t next then Inl ErrConflict
             else if next = ''done'' \<and> \<not> task_result_validated st (tk_ID t) then Inl ErrConflict
             else Inr (upd_task idx (\<lambda>t. t\<lparr>tk_Status := next, tk_UpdatedAt := format_stamp now\<rparr>) st))"

section \<open>Events\<close>

definition hex_digit :: "char \<Rightarrow> bool" where
  "hex_digit c = (let n = of_char c in in_range 48 57 n \<or> in_range 97 102 n \<or> in_range 65 70 n)"

text \<open>\<open>sha256:\<close> and 64 digits, upper or lower case: what \<open>hex.DecodeString\<close> takes.\<close>

definition valid_sha256 :: "string \<Rightarrow> bool" where
  "valid_sha256 v = (length v = 71 \<and> has_prefix v ''sha256:'' \<and> list_all hex_digit (trim_prefix v ''sha256:''))"

definition max_result_bytes :: int where "max_result_bytes = 268435456"

definition event_result_statuses :: "string list" where
  "event_result_statuses = [''open'', ''ready'', ''failed'', ''aborted'', ''running'', ''completed'', ''canceled'', ''unknown'']"

definition validateCloudCollaborationEventResult :: "task \<Rightarrow> collab_request \<Rightarrow> hub_error + unit" where
  "validateCloudCollaborationEventResult t req =
     (if rq_EventType req \<noteq> ''conversation.turn.complete'' \<or> 128 < length (rq_EventID req)
         \<or> contains_any (rq_EventID req) [CHR 0x00, CHR 0x0D, CHR 0x0A, CHR 0x09, CHR 0x20] then Inl ErrConflict
      else if \<not> containsString event_result_statuses (rq_ResultStatus req)
         \<or> rq_ResultBytes req < 0 \<or> max_result_bytes < rq_ResultBytes req then Inl ErrConflict
      else if rq_ResultID req \<noteq> [] \<and> (256 < length (rq_ResultID req)
         \<or> contains_any (rq_ResultID req) [CHR 0x00, CHR 0x0D, CHR 0x0A]) then Inl ErrConflict
      else if rq_ResultSHA256 req \<noteq> [] \<and> \<not> valid_sha256 (rq_ResultSHA256 req) then Inl ErrConflict
      else let ok = rq_ResultStatus req = ''ready'' \<or> rq_ResultStatus req = ''completed''
      in if tk_DeliverablePath t \<noteq> [] then
           if \<not> containsString [''ready'', ''missing'', ''invalid'', ''unreadable'', ''too_large''] (rq_DeliverableStatus req)
           then Inl ErrConflict
           else if rq_DeliverableStatus req = ''ready'' \<and> (\<not> ok \<or> rq_ResultSHA256 req = []) then Inl ErrConflict
           else if rq_DeliverableStatus req \<noteq> ''ready'' \<and> rq_ResultStatus req \<noteq> ''failed'' then Inl ErrConflict
           else Inr ()
         else if rq_DeliverableStatus req \<noteq> [] then Inl ErrConflict
         else if ok \<and> (trim_space (rq_ResultID req) = [] \<or> rq_ResultSHA256 req = []) then Inl ErrConflict
         else Inr ())"

definition event_signature :: "digests \<Rightarrow> task \<Rightarrow> collab_request \<Rightarrow> string" where
  "event_signature dg t req =
     dg_json dg [JStr (rq_TaskID req), JStr (tk_ChatSessionID t), JInt (rq_EventGeneration req),
       JInt (rq_EventSequence req), JStr (rq_EventType req), JStr (rq_ResultID req), JStr (rq_ResultStatus req),
       JInt (rq_ResultBytes req), JStr (rq_ResultSHA256 req), JStr (rq_DeliverablePath req),
       JStr (rq_DeliverableStatus req)]"

text \<open>The scan over the stored events: a known event ID ends it, as a replay or as a conflict, and so
  does an event of the same session and generation whose sequence is not below the new one.\<close>

datatype scan_result = ScanNew | ScanReplay | ScanConflict

fun ingest_scan :: "string \<Rightarrow> string \<Rightarrow> string \<Rightarrow> int \<Rightarrow> int \<Rightarrow> event list \<Rightarrow> scan_result" where
  "ingest_scan i sig sess gen sq [] = ScanNew"
| "ingest_scan i sig sess gen sq (e # es) =
     (if ev_ID e = i then (if ev_Signature e = sig then ScanReplay else ScanConflict)
      else if ev_SessionID e = sess \<and> ev_Generation e = gen \<and> sq \<le> ev_Sequence e then ScanConflict
      else ingest_scan i sig sess gen sq es)"

definition append_event :: "event \<Rightarrow> collab_state \<Rightarrow> collab_state" where
  "append_event e st = st\<lparr>cs_Events :=
     (if 512 \<le> length (cs_Events st) then last_n 384 (cs_Events st) else cs_Events st) @ [e]\<rparr>"

definition cloudCollaborationIngestEvent ::
    "digests \<Rightarrow> instant \<Rightarrow> collab_state \<Rightarrow> collab_request \<Rightarrow> hub_error + collab_state" where
  "cloudCollaborationIngestEvent dg now st req =
     (if rq_EventID req = [] \<or> rq_TaskID req = [] \<or> rq_EventSequence req < 1 \<or> rq_EventGeneration req < 1
      then Inl ErrConflict
      else case taskIndex st (rq_TaskID req) of
        None \<Rightarrow> Inl ErrNotFound
      | Some idx \<Rightarrow>
      let t = cs_Tasks st ! idx
      in if tk_Generation t \<noteq> rq_EventGeneration req \<or> tk_ChatSessionID t = [] then Inl ErrUnauthorized
      else if tk_DeliverablePath t \<noteq> [] \<and> trim_space (rq_DeliverablePath req) \<noteq> tk_DeliverablePath t
      then Inl ErrUnauthorized
      else if tk_DeliverablePath t = [] \<and> trim_space (rq_DeliverablePath req) \<noteq> [] then Inl ErrUnauthorized
      else case validateCloudCollaborationEventResult t req of
        Inl e \<Rightarrow> Inl e
      | Inr _ \<Rightarrow>
      let sig = event_signature dg t req
      in case ingest_scan (rq_EventID req) sig (tk_ChatSessionID t) (rq_EventGeneration req) (rq_EventSequence req) (cs_Events st) of
        ScanReplay \<Rightarrow> Inr st
      | ScanConflict \<Rightarrow> Inl ErrConflict
      | ScanNew \<Rightarrow>
          let e = \<lparr>ev_ID = rq_EventID req, ev_TaskID = tk_ID t, ev_SessionID = tk_ChatSessionID t,
                   ev_Generation = rq_EventGeneration req, ev_Sequence = rq_EventSequence req,
                   ev_Type = rq_EventType req, ev_ResultID = rq_ResultID req, ev_ResultStatus = rq_ResultStatus req,
                   ev_ResultBytes = rq_ResultBytes req, ev_ResultSHA256 = rq_ResultSHA256 req,
                   ev_CallbackType = [], ev_Status = ''pending'', ev_DeliverablePath = rq_DeliverablePath req,
                   ev_DeliverableStatus = rq_DeliverableStatus req, ev_Signature = sig,
                   ev_CreatedAt = format_stamp now\<rparr>
          in Inr (upd_task idx (\<lambda>t. t\<lparr>tk_ResultID := rq_ResultID req, tk_ResultStatus := rq_ResultStatus req,
                 tk_ResultSHA256 := rq_ResultSHA256 req, tk_UpdatedAt := format_stamp now,
                 tk_Status := (if rq_ResultStatus req = ''ready'' \<or> rq_ResultStatus req = ''completed''
                               then ''result_available'' else tk_Status t)\<rparr>)
               (append_event e st)))"

definition cloudCollaborationAckEvent :: "collab_state \<Rightarrow> collab_request \<Rightarrow> hub_error + collab_state" where
  "cloudCollaborationAckEvent st req =
     (case find_index (\<lambda>e. ev_ID e = rq_EventID req) (cs_Events st) of
        None \<Rightarrow> Inl ErrNotFound
      | Some i \<Rightarrow>
          let e = cs_Events st ! i
          in if ev_Status e = ''acked'' then Inr st
             else if ev_ResultSHA256 e \<noteq> [] \<and> trim_space (rq_ResultSHA256 req) \<noteq> ev_ResultSHA256 e
             then Inl ErrUnauthorized
             else Inr (upd_event i (\<lambda>e. e\<lparr>ev_Status := ''acked''\<rparr>) st))"

definition settled :: "string \<Rightarrow> bool" where
  "settled s = (s = ''done'' \<or> s = ''dropped'')"

text \<open>When every task is done or dropped, the goals that are not dropped are done.\<close>

definition finish_goals :: "collab_state \<Rightarrow> collab_state" where
  "finish_goals st = st\<lparr>cs_Goals := map (\<lambda>g. if gl_Status g \<noteq> ''dropped'' then g\<lparr>gl_Status := ''done''\<rparr> else g) (cs_Goals st)\<rparr>"

text \<open>A task ends as \<open>done\<close> or \<open>blocked\<close>, its CHAT as \<open>completed\<close> or \<open>failed\<close>, and the goals follow when no
  task is left open.\<close>

definition settle_task :: "nat \<Rightarrow> string \<Rightarrow> instant \<Rightarrow> collab_state \<Rightarrow> collab_state" where
  "settle_task idx status now st =
     (let st = upd_task idx (\<lambda>t. t\<lparr>tk_Status := status, tk_UpdatedAt := format_stamp now\<rparr>) st;
          st = (case chatTaskIndex st (cs_Tasks st ! idx) of
                  None \<Rightarrow> st
                | Some c \<Rightarrow> upd_chat c (\<lambda>c. c\<lparr>ct_Status := (if status = ''done'' then ''completed'' else ''failed''),
                              ct_LastObservedAt := format_stamp now\<rparr>) st)
      in if list_all (\<lambda>t. settled (tk_Status t)) (cs_Tasks st) then finish_goals st else st)"

definition cloudCollaborationAdvanceAcknowledgedEvent :: "collab_state \<Rightarrow> string \<Rightarrow> instant \<Rightarrow> collab_state" where
  "cloudCollaborationAdvanceAcknowledgedEvent st eventID now =
     (case find (\<lambda>e. ev_ID e = eventID \<and> ev_Status e = ''acked'') (cs_Events st) of
        None \<Rightarrow> st
      | Some e \<Rightarrow>
      (case taskIndex st (ev_TaskID e) of
        None \<Rightarrow> st
      | Some idx \<Rightarrow>
      if ev_ResultStatus e \<notin> {''ready'', ''completed'', ''failed'', ''aborted'', ''canceled''} then st
      else settle_task idx (if ev_ResultStatus e \<in> {''ready'', ''completed''} then ''done'' else ''blocked'') now st))"

definition cloudCollaborationReadyToClose :: "collab_state \<Rightarrow> bool" where
  "cloudCollaborationReadyToClose st =
     (cs_Tasks st \<noteq> [] \<and> list_all (\<lambda>t. settled (tk_Status t)) (cs_Tasks st)
      \<and> list_all (\<lambda>g. settled (gl_Status g)) (cs_Goals st)
      \<and> list_all (\<lambda>e. ev_Status e = ''acked'') (cs_Events st)
      \<and> list_all (\<lambda>d. dc_Status d \<noteq> ''requested'') (cs_Decisions st))"

section \<open>Decisions\<close>

definition cloudCollaborationRequestDecision ::
    "instant \<Rightarrow> collab_state \<Rightarrow> collab_request \<Rightarrow> hub_error + collab_state" where
  "cloudCollaborationRequestDecision now st req =
     (if 3 < length (rq_Options req) \<or> length (rq_Question req) = 0 \<or> 1000 < length (rq_Question req)
      then Inl ErrConflict
      else let i = (if rq_DecisionID req = [] then ''decision-'' @ decimal (int (length (cs_Decisions st)) + 1)
                    else rq_DecisionID req)
      in if list_ex (\<lambda>d. dc_ID d = i) (cs_Decisions st) then Inl ErrConflict
      else let kind = (if rq_EventType req = ''delete_chat'' then ''delete_chat'' else ''choice'')
      in Inr (st\<lparr>cs_Decisions := cs_Decisions st @
           [\<lparr>dc_ID = i, dc_Kind = kind, dc_TargetID = rq_TaskID req, dc_Question = rq_Question req,
             dc_Options = rq_Options req, dc_Recommendation = rq_Recommendation req,
             dc_Status = ''requested'', dc_CreatedAt = format_stamp now\<rparr>]\<rparr>))"

definition cloudCollaborationResolveDecision :: "collab_state \<Rightarrow> collab_request \<Rightarrow> hub_error + collab_state" where
  "cloudCollaborationResolveDecision st req =
     (if rq_DecisionStatus req \<noteq> ''approved'' \<and> rq_DecisionStatus req \<noteq> ''rejected'' then Inl ErrConflict
      else case find_index (\<lambda>d. dc_ID d = rq_DecisionID req \<and> dc_Status d = ''requested'') (cs_Decisions st) of
        None \<Rightarrow> Inl ErrNotFound
      | Some i \<Rightarrow> Inr (st\<lparr>cs_Decisions := modify i (\<lambda>d. d\<lparr>dc_Status := rq_DecisionStatus req\<rparr>) (cs_Decisions st)\<rparr>))"

section \<open>Rotation\<close>

definition cloudCollaborationRotateChat :: "collab_state \<Rightarrow> collab_request \<Rightarrow> hub_error + collab_state" where
  "cloudCollaborationRotateChat st req =
     (case taskIndex st (rq_TaskID req) of
        None \<Rightarrow> Inl ErrNotFound
      | Some idx \<Rightarrow>
      (case chatTaskIndex st (cs_Tasks st ! idx) of
        None \<Rightarrow> Inl ErrNotFound
      | Some cidx \<Rightarrow>
      let st = upd_chat cidx (\<lambda>c. c\<lparr>ct_Status := (if ct_Reused c then ''released'' else ''retiring'')\<rparr>) st;
          st = upd_task idx (\<lambda>t. t\<lparr>tk_Status := ''queued'', tk_ChatSessionID := [], tk_TargetSessionID := [],
                 tk_SessionMode := [], tk_DeliveryStatus := ''pending'', tk_Generation := tk_Generation t + 1,
                 tk_IdempotencyKey := tk_IdempotencyKey t @ ''_g'' @ decimal (tk_Generation t + 1)\<rparr>) st;
          st = st\<lparr>cs_Generation := cs_Generation st + 1\<rparr>;
          st = (if ls_SessionID (cs_Lease st) \<noteq> []
                then st\<lparr>cs_Lease := (cs_Lease st)\<lparr>ls_Generation := cs_Generation st\<rparr>\<rparr> else st)
      in Inr (if rq_Checkpoint req \<noteq> []
              then st\<lparr>cs_Checkpoint := boundedCollaborationText (rq_Checkpoint req) 4000,
                      cs_CheckpointGeneration := cs_Generation st\<rparr>
              else st)))"

end
