(* ===== verification/Collab_Invariant.thy ===== *)
theory Collab_Invariant
  imports Collab_Ops
begin

text \<open>
  Well-formed collaboration states, and that each operation of \<open>Collab_Ops\<close> keeps them: identifiers
  are unique, every list and text is bounded, statuses are among those the code knows, what a task or
  a chat may do is within what the collaboration allows, generations never run ahead of the
  collaboration's, and a task that names a CHAT has the CHAT's entry.
\<close>

section \<open>The invariant\<close>

definition wf_goal :: "goal \<Rightarrow> bool" where
  "wf_goal g = (gl_Title g \<noteq> [] \<and> length (gl_Title g) \<le> 500 \<and> gl_Status g \<in> set goal_statuses)"

definition task_statuses :: "string list" where
  "task_statuses = [''queued'', ''creating'', ''create_in_doubt'', ''active'', ''result_available'', ''blocked'', ''done'', ''dropped'']"

text \<open>The statuses in which a task has no CHAT yet, and those in which it must have one.\<close>

definition unbound_statuses :: "string list" where
  "unbound_statuses = [''queued'', ''creating'', ''create_in_doubt'']"

definition bound_statuses :: "string list" where
  "bound_statuses = [''active'', ''result_available'']"

definition wf_task :: "string list \<Rightarrow> int \<Rightarrow> int \<Rightarrow> task \<Rightarrow> bool" where
  "wf_task A D G t =
     (tk_Title t \<noteq> [] \<and> length (tk_Title t) \<le> 500 \<and> tk_Prompt t \<noteq> [] \<and> length (tk_Prompt t) \<le> 12000
      \<and> tk_Status t \<in> set task_statuses \<and> 0 \<le> tk_Depth t \<and> tk_Depth t \<le> D
      \<and> 1 \<le> tk_Generation t \<and> tk_Generation t \<le> G
      \<and> tk_AccessMode t \<in> {''read_only'', ''write''} \<and> (tk_AccessMode t = ''write'' \<longrightarrow> tk_WriteScope t \<noteq> [])
      \<and> set (tk_AllowedActions t) \<subseteq> set A \<and> tk_CallbackType t \<in> set callback_types
      \<and> (tk_DeliverablePath t \<noteq> [] \<longrightarrow> tk_AccessMode t = ''write'' \<and> tk_CallbackType t = ''local_file'')
      \<and> (tk_CallbackType t = ''local_file'' \<longrightarrow> trim_space (tk_ResultPath t) \<noteq> [])
      \<and> (tk_Status t \<in> set unbound_statuses \<longrightarrow> tk_ChatSessionID t = [])
      \<and> (tk_Status t \<in> set bound_statuses \<longrightarrow> tk_ChatSessionID t \<noteq> []))"

definition chat_statuses :: "string list" where
  "chat_statuses = [''active'', ''creating'', ''completed'', ''failed'', ''retiring'', ''released'', ''release_pending'', ''archived'', ''deleted'']"

definition wf_chat :: "string list \<Rightarrow> int \<Rightarrow> int \<Rightarrow> chat \<Rightarrow> bool" where
  "wf_chat A D G c =
     (ct_SessionID c \<noteq> [] \<and> ct_Status c \<in> set chat_statuses \<and> 0 \<le> ct_Depth c \<and> ct_Depth c \<le> D
      \<and> 1 \<le> ct_Generation c \<and> ct_Generation c \<le> G \<and> set (ct_AllowedActions c) \<subseteq> set A
      \<and> ct_AccessMode c \<in> {''read_only'', ''write''} \<and> (ct_AccessMode c = ''write'' \<longrightarrow> ct_WriteScope c \<noteq> [])
      \<and> 0 \<le> ct_QuietChecks c \<and> ct_ContinueAttempts c \<in> {0, 1})"

definition event_statuses :: "string list" where
  "event_statuses = [''pending'', ''acked'']"

definition wf_event :: "int \<Rightarrow> event \<Rightarrow> bool" where
  "wf_event G e = (ev_Status e \<in> set event_statuses \<and> 1 \<le> ev_Sequence e
     \<and> 1 \<le> ev_Generation e \<and> ev_Generation e \<le> G \<and> 0 \<le> ev_ResultBytes e \<and> ev_ResultBytes e \<le> max_result_bytes)"

text \<open>The observations of one CHAT under one generation come in increasing sequence.\<close>

definition event_order :: "event \<Rightarrow> event \<Rightarrow> bool" where
  "event_order e e' = (ev_Type e' = ''conversation.turn.complete''
     \<and> ev_SessionID e = ev_SessionID e' \<and> ev_Generation e = ev_Generation e' \<longrightarrow> ev_Sequence e < ev_Sequence e')"

definition decision_statuses :: "string list" where
  "decision_statuses = [''requested'', ''approved'', ''rejected'', ''consumed'']"

definition wf_decision :: "decision \<Rightarrow> bool" where
  "wf_decision d = (dc_Status d \<in> set decision_statuses \<and> length (dc_Options d) \<le> 3
     \<and> dc_Question d \<noteq> [] \<and> length (dc_Question d) \<le> 1000)"

definition collab_statuses :: "string list" where
  "collab_statuses = [''active'', ''paused'', ''closing'', ''completed'']"

definition wf_config :: "collab_state \<Rightarrow> bool" where
  "wf_config st = (cs_Version st = cloudCollaborationStateVersion \<and> cs_Title st \<noteq> [] \<and> cs_WorkingDirectory st \<noteq> []
     \<and> cs_ControllerSessionID st \<noteq> [] \<and> cs_DispatcherSessionID st \<noteq> []
     \<and> set (cs_AllowedActions st) \<subseteq> set cloud_actions \<and> cs_AllowedActions st \<noteq> []
     \<and> 1 \<le> cs_MaxDepth st \<and> cs_MaxDepth st \<le> 8 \<and> 1 \<le> cs_MaxActiveChats st \<and> cs_MaxActiveChats st \<le> 8
     \<and> 1 \<le> cs_MaxCreates st \<and> cs_MaxCreates st \<le> 100 \<and> 5 \<le> cs_HeartbeatMinutes st \<and> cs_HeartbeatMinutes st \<le> 1440
     \<and> 15 \<le> cs_StallMinutes st \<and> cs_StallMinutes st \<le> 1440)"

definition wf_counters :: "collab_state \<Rightarrow> bool" where
  "wf_counters st = (cs_Status st \<in> set collab_statuses \<and> 1 \<le> cs_Generation st \<and> 0 \<le> cs_CreateCount st
     \<and> ls_Generation (cs_Lease st) \<le> cs_Generation st \<and> length (cs_Checkpoint st) \<le> 4000
     \<and> cs_CheckpointGeneration st \<le> cs_Generation st)"

definition wf_goals :: "collab_state \<Rightarrow> bool" where
  "wf_goals st = (distinct (map gl_ID (cs_Goals st)) \<and> length (cs_Goals st) \<le> 100 \<and> list_all wf_goal (cs_Goals st))"

definition wf_tasks :: "collab_state \<Rightarrow> bool" where
  "wf_tasks st = (distinct (map tk_ID (cs_Tasks st)) \<and> length (cs_Tasks st) \<le> 500
     \<and> list_all (wf_task (cs_AllowedActions st) (cs_MaxDepth st) (cs_Generation st)) (cs_Tasks st))"

definition wf_chats :: "collab_state \<Rightarrow> bool" where
  "wf_chats st = list_all (wf_chat (cs_AllowedActions st) (cs_MaxDepth st) (cs_Generation st)) (cs_Chats st)"

definition wf_events :: "collab_state \<Rightarrow> bool" where
  "wf_events st = (distinct (map ev_ID (cs_Events st)) \<and> length (cs_Events st) \<le> 512
     \<and> list_all (wf_event (cs_Generation st)) (cs_Events st) \<and> sorted_wrt event_order (cs_Events st))"

definition wf_decisions :: "collab_state \<Rightarrow> bool" where
  "wf_decisions st = (distinct (map dc_ID (cs_Decisions st)) \<and> list_all wf_decision (cs_Decisions st))"

definition chat_of :: "task \<Rightarrow> chat \<Rightarrow> bool" where
  "chat_of t c = (ct_SessionID c = tk_ChatSessionID t \<and> ct_TaskID c = tk_ID t \<and> ct_Generation c = tk_Generation t)"

definition wf_links :: "collab_state \<Rightarrow> bool" where
  "wf_links st = list_all (\<lambda>t. tk_ChatSessionID t \<noteq> [] \<longrightarrow> list_ex (chat_of t) (cs_Chats st)) (cs_Tasks st)"

definition wf_state :: "collab_state \<Rightarrow> bool" where
  "wf_state st = (wf_config st \<and> wf_counters st \<and> wf_goals st \<and> wf_tasks st \<and> wf_chats st
     \<and> wf_events st \<and> wf_decisions st \<and> wf_links st)"

lemmas wf_parts = wf_config_def wf_counters_def wf_goals_def wf_tasks_def wf_chats_def wf_events_def
  wf_decisions_def wf_links_def

lemma wf_stateI [intro?]:
  "wf_config st \<Longrightarrow> wf_counters st \<Longrightarrow> wf_goals st \<Longrightarrow> wf_tasks st \<Longrightarrow> wf_chats st \<Longrightarrow> wf_events st
    \<Longrightarrow> wf_decisions st \<Longrightarrow> wf_links st \<Longrightarrow> wf_state st"
  by (simp add: wf_state_def)

lemma wf_stateD:
  assumes "wf_state st"
  shows "wf_config st" "wf_counters st" "wf_goals st" "wf_tasks st" "wf_chats st" "wf_events st"
    "wf_decisions st" "wf_links st"
  using assms by (simp_all add: wf_state_def)

section \<open>How the parts move\<close>

text \<open>Each part only reads some fields; an operation that leaves them alone keeps the part.\<close>

lemma wf_config_cong [frame_simps]:
  "wf_config (st\<lparr>cs_Goals := gs\<rparr>) = wf_config st" "wf_config (st\<lparr>cs_Tasks := ts\<rparr>) = wf_config st"
  "wf_config (st\<lparr>cs_Chats := xs\<rparr>) = wf_config st" "wf_config (st\<lparr>cs_Events := es\<rparr>) = wf_config st"
  "wf_config (st\<lparr>cs_Decisions := ds\<rparr>) = wf_config st" "wf_config (st\<lparr>cs_Lease := l\<rparr>) = wf_config st"
  "wf_config (st\<lparr>cs_Status := s\<rparr>) = wf_config st" "wf_config (st\<lparr>cs_Generation := n\<rparr>) = wf_config st"
  "wf_config (st\<lparr>cs_CreateCount := n\<rparr>) = wf_config st" "wf_config (st\<lparr>cs_Checkpoint := k\<rparr>) = wf_config st"
  "wf_config (st\<lparr>cs_CheckpointGeneration := n\<rparr>) = wf_config st"
  by (simp_all add: wf_config_def)

lemma wf_counters_cong [frame_simps]:
  "wf_counters (st\<lparr>cs_Goals := gs\<rparr>) = wf_counters st" "wf_counters (st\<lparr>cs_Tasks := ts\<rparr>) = wf_counters st"
  "wf_counters (st\<lparr>cs_Chats := xs\<rparr>) = wf_counters st" "wf_counters (st\<lparr>cs_Events := es\<rparr>) = wf_counters st"
  "wf_counters (st\<lparr>cs_Decisions := ds\<rparr>) = wf_counters st"
  by (simp_all add: wf_counters_def)

lemma wf_goals_cong [frame_simps]:
  "wf_goals (st\<lparr>cs_Tasks := ts\<rparr>) = wf_goals st" "wf_goals (st\<lparr>cs_Chats := xs\<rparr>) = wf_goals st"
  "wf_goals (st\<lparr>cs_Events := es\<rparr>) = wf_goals st" "wf_goals (st\<lparr>cs_Decisions := ds\<rparr>) = wf_goals st"
  "wf_goals (st\<lparr>cs_Lease := l\<rparr>) = wf_goals st" "wf_goals (st\<lparr>cs_Status := s\<rparr>) = wf_goals st"
  "wf_goals (st\<lparr>cs_Generation := n\<rparr>) = wf_goals st" "wf_goals (st\<lparr>cs_CreateCount := n\<rparr>) = wf_goals st"
  "wf_goals (st\<lparr>cs_Checkpoint := k\<rparr>) = wf_goals st" "wf_goals (st\<lparr>cs_CheckpointGeneration := n\<rparr>) = wf_goals st"
  by (simp_all add: wf_goals_def)

lemma wf_tasks_cong [frame_simps]:
  "wf_tasks (st\<lparr>cs_Goals := gs\<rparr>) = wf_tasks st" "wf_tasks (st\<lparr>cs_Chats := xs\<rparr>) = wf_tasks st"
  "wf_tasks (st\<lparr>cs_Events := es\<rparr>) = wf_tasks st" "wf_tasks (st\<lparr>cs_Decisions := ds\<rparr>) = wf_tasks st"
  "wf_tasks (st\<lparr>cs_Lease := l\<rparr>) = wf_tasks st" "wf_tasks (st\<lparr>cs_Status := s\<rparr>) = wf_tasks st"
  "wf_tasks (st\<lparr>cs_CreateCount := n\<rparr>) = wf_tasks st" "wf_tasks (st\<lparr>cs_Checkpoint := k\<rparr>) = wf_tasks st"
  "wf_tasks (st\<lparr>cs_CheckpointGeneration := n\<rparr>) = wf_tasks st"
  by (simp_all add: wf_tasks_def)

lemma wf_chats_cong [frame_simps]:
  "wf_chats (st\<lparr>cs_Goals := gs\<rparr>) = wf_chats st" "wf_chats (st\<lparr>cs_Tasks := ts\<rparr>) = wf_chats st"
  "wf_chats (st\<lparr>cs_Events := es\<rparr>) = wf_chats st" "wf_chats (st\<lparr>cs_Decisions := ds\<rparr>) = wf_chats st"
  "wf_chats (st\<lparr>cs_Lease := l\<rparr>) = wf_chats st" "wf_chats (st\<lparr>cs_Status := s\<rparr>) = wf_chats st"
  "wf_chats (st\<lparr>cs_CreateCount := n\<rparr>) = wf_chats st" "wf_chats (st\<lparr>cs_Checkpoint := k\<rparr>) = wf_chats st"
  "wf_chats (st\<lparr>cs_CheckpointGeneration := n\<rparr>) = wf_chats st"
  by (simp_all add: wf_chats_def)

lemma wf_events_cong [frame_simps]:
  "wf_events (st\<lparr>cs_Goals := gs\<rparr>) = wf_events st" "wf_events (st\<lparr>cs_Tasks := ts\<rparr>) = wf_events st"
  "wf_events (st\<lparr>cs_Chats := xs\<rparr>) = wf_events st" "wf_events (st\<lparr>cs_Decisions := ds\<rparr>) = wf_events st"
  "wf_events (st\<lparr>cs_Lease := l\<rparr>) = wf_events st" "wf_events (st\<lparr>cs_Status := s\<rparr>) = wf_events st"
  "wf_events (st\<lparr>cs_CreateCount := n\<rparr>) = wf_events st" "wf_events (st\<lparr>cs_Checkpoint := k\<rparr>) = wf_events st"
  "wf_events (st\<lparr>cs_CheckpointGeneration := n\<rparr>) = wf_events st"
  by (simp_all add: wf_events_def)

lemma wf_decisions_cong [frame_simps]:
  "wf_decisions (st\<lparr>cs_Goals := gs\<rparr>) = wf_decisions st" "wf_decisions (st\<lparr>cs_Tasks := ts\<rparr>) = wf_decisions st"
  "wf_decisions (st\<lparr>cs_Chats := xs\<rparr>) = wf_decisions st" "wf_decisions (st\<lparr>cs_Events := es\<rparr>) = wf_decisions st"
  "wf_decisions (st\<lparr>cs_Lease := l\<rparr>) = wf_decisions st" "wf_decisions (st\<lparr>cs_Status := s\<rparr>) = wf_decisions st"
  "wf_decisions (st\<lparr>cs_Generation := n\<rparr>) = wf_decisions st" "wf_decisions (st\<lparr>cs_CreateCount := n\<rparr>) = wf_decisions st"
  "wf_decisions (st\<lparr>cs_Checkpoint := k\<rparr>) = wf_decisions st" "wf_decisions (st\<lparr>cs_CheckpointGeneration := n\<rparr>) = wf_decisions st"
  by (simp_all add: wf_decisions_def)

lemma wf_links_cong [frame_simps]:
  "wf_links (st\<lparr>cs_Goals := gs\<rparr>) = wf_links st" "wf_links (st\<lparr>cs_Events := es\<rparr>) = wf_links st"
  "wf_links (st\<lparr>cs_Decisions := ds\<rparr>) = wf_links st" "wf_links (st\<lparr>cs_Lease := l\<rparr>) = wf_links st"
  "wf_links (st\<lparr>cs_Status := s\<rparr>) = wf_links st" "wf_links (st\<lparr>cs_Generation := n\<rparr>) = wf_links st"
  "wf_links (st\<lparr>cs_CreateCount := n\<rparr>) = wf_links st" "wf_links (st\<lparr>cs_Checkpoint := k\<rparr>) = wf_links st"
  "wf_links (st\<lparr>cs_CheckpointGeneration := n\<rparr>) = wf_links st"
  by (simp_all add: wf_links_def)

end
