(* ===== verification/Collab_Preserve.thy ===== *)
theory Collab_Preserve
  imports Collab_Invariant
begin

text \<open>Each operation of \<open>Collab_Ops\<close> keeps the invariant of \<open>Collab_Invariant\<close>.\<close>

section \<open>Updating one task or chat\<close>

lemma list_all_modify:
  "list_all P xs \<Longrightarrow> (\<And>x. x \<in> set xs \<Longrightarrow> P x \<Longrightarrow> P (f x)) \<Longrightarrow> list_all P (modify i f xs)"
  unfolding list_all_iff by (rule modify_ball)

lemma list_all_modify_nth:
  assumes "list_all P xs" "i < length xs \<Longrightarrow> P (xs ! i) \<Longrightarrow> P (f (xs ! i))"
  shows "list_all P (modify i f xs)"
  using assms by (auto simp: list_all_length nth_modify)

lemma list_ex_modify:
  "list_ex P xs \<Longrightarrow> (\<And>x. P x \<Longrightarrow> P (f x)) \<Longrightarrow> list_ex P (modify i f xs)"
  by (auto simp: list_ex_length nth_modify)

lemma modify_unchanged [simp]: "modify i (\<lambda>x. x) xs = xs"
  by (simp add: modify_def)

lemma wf_upd_task:
  assumes wf: "wf_state st"
    and ids: "\<And>t. tk_ID (f t) = tk_ID t"
    and task: "i < length (cs_Tasks st) \<Longrightarrow>
      wf_task (cs_AllowedActions st) (cs_MaxDepth st) (cs_Generation st) (cs_Tasks st ! i) \<Longrightarrow>
      wf_task (cs_AllowedActions st) (cs_MaxDepth st) (cs_Generation st) (f (cs_Tasks st ! i))"
    and link: "i < length (cs_Tasks st) \<Longrightarrow>
      tk_ChatSessionID (f (cs_Tasks st ! i)) \<noteq> [] \<Longrightarrow> list_ex (chat_of (f (cs_Tasks st ! i))) (cs_Chats st)"
  shows "wf_state (upd_task i f st)"
proof
  have "wf_tasks st" "wf_links st" using wf by (auto dest: wf_stateD)
  then show "wf_tasks (upd_task i f st)" "wf_links (upd_task i f st)"
    using ids task link
    by (auto simp: wf_tasks_def wf_links_def upd_task_def map_modify intro!: list_all_modify_nth)
qed (use wf in \<open>auto simp: upd_task_def frame_simps dest: wf_stateD\<close>)

lemma wf_upd_chat:
  assumes wf: "wf_state st"
    and keys: "\<And>c. ct_SessionID (f c) = ct_SessionID c \<and> ct_TaskID (f c) = ct_TaskID c \<and> ct_Generation (f c) = ct_Generation c"
    and chat: "i < length (cs_Chats st) \<Longrightarrow>
      wf_chat (cs_AllowedActions st) (cs_MaxDepth st) (cs_Generation st) (cs_Chats st ! i) \<Longrightarrow>
      wf_chat (cs_AllowedActions st) (cs_MaxDepth st) (cs_Generation st) (f (cs_Chats st ! i))"
  shows "wf_state (upd_chat i f st)"
proof
  have "wf_chats st" using wf by (auto dest: wf_stateD)
  then show "wf_chats (upd_chat i f st)"
    using chat by (auto simp: wf_chats_def upd_chat_def intro: list_all_modify_nth)
  have "chat_of t c \<Longrightarrow> chat_of t (f c)" for t c using keys by (simp add: chat_of_def)
  then have "list_ex (chat_of t) (cs_Chats st) \<longrightarrow> list_ex (chat_of t) (modify i f (cs_Chats st))" for t
    by (blast intro: list_ex_modify)
  moreover have "wf_links st" using wf by (auto dest: wf_stateD)
  ultimately show "wf_links (upd_chat i f st)"
    by (auto simp: wf_links_def upd_chat_def list_all_iff)
qed (use wf in \<open>auto simp: upd_chat_def frame_simps dest: wf_stateD\<close>)

section \<open>Goals and decisions\<close>

lemma wf_with_goals: "wf_state st \<Longrightarrow> wf_goals (st\<lparr>cs_Goals := gs\<rparr>) \<Longrightarrow> wf_state (st\<lparr>cs_Goals := gs\<rparr>)"
  by (auto simp: wf_state_def frame_simps)

lemma wf_with_decisions:
  "wf_state st \<Longrightarrow> wf_decisions (st\<lparr>cs_Decisions := ds\<rparr>) \<Longrightarrow> wf_state (st\<lparr>cs_Decisions := ds\<rparr>)"
  by (auto simp: wf_state_def frame_simps)

lemma wf_AddGoal:
  assumes "wf_state st" "cloudCollaborationAddGoal st req = Inr st'"
  shows "wf_state st'"
proof -
  define i where "i = (let i = trim_space (rq_GoalID req) in
    if i = [] then ''goal-'' @ decimal (int (length (cs_Goals st)) + 1) else i)"
  define g where "g = \<lparr>gl_ID = i, gl_Title = boundedCollaborationText (rq_Title req) 500,
    gl_Status = ''queued'', gl_Evidence = []\<rparr>"
  from assms(2) have st': "st' = st\<lparr>cs_Goals := cs_Goals st @ [g]\<rparr>"
    and room: "length (cs_Goals st) < 100" and fresh: "\<not> list_ex (\<lambda>g. gl_ID g = i) (cs_Goals st)"
    and title: "gl_Title g \<noteq> []"
    by (auto simp: cloudCollaborationAddGoal_def Let_def i_def g_def split: if_splits)
  have "wf_goal g" using title by (simp add: wf_goal_def g_def goal_statuses_def length_boundedText)
  moreover have "wf_goals st" using assms(1) by (rule wf_stateD)
  ultimately have "wf_goals st'"
    using room fresh by (auto simp: st' wf_goals_def list_ex_iff g_def)
  then show ?thesis unfolding st' by (rule wf_with_goals [OF assms(1)])
qed

lemma wf_UpdateGoal:
  assumes "wf_state st" "cloudCollaborationUpdateGoal st req = Inr st'"
  shows "wf_state st'"
proof -
  obtain i where st': "st' = st\<lparr>cs_Goals := modify i (\<lambda>g. g\<lparr>gl_Status := rq_GoalStatus req,
      gl_Evidence := (if rq_ResultSHA256 req \<noteq> [] then rq_ResultSHA256 req else gl_Evidence g)\<rparr>) (cs_Goals st)\<rparr>"
    and s: "rq_GoalStatus req \<in> set goal_statuses"
    using assms(2) by (auto simp: cloudCollaborationUpdateGoal_def split: option.splits if_splits)
  have "wf_goals st" using assms(1) by (rule wf_stateD)
  then have "wf_goals st'"
    using s by (auto simp: st' wf_goals_def map_modify wf_goal_def intro!: list_all_modify)
  then show ?thesis unfolding st' by (rule wf_with_goals [OF assms(1)])
qed

lemma wf_RequestDecision:
  assumes "wf_state st" "cloudCollaborationRequestDecision now st req = Inr st'"
  shows "wf_state st'"
proof -
  obtain d where st': "st' = st\<lparr>cs_Decisions := cs_Decisions st @ [d]\<rparr>"
    and d: "dc_Status d = ''requested''" "length (dc_Options d) \<le> 3" "dc_Question d \<noteq> []" "length (dc_Question d) \<le> 1000"
      "\<not> list_ex (\<lambda>x. dc_ID x = dc_ID d) (cs_Decisions st)"
    using assms(2) by (fastforce simp: cloudCollaborationRequestDecision_def Let_def split: if_splits)
  have "wf_decision d" using d by (simp add: wf_decision_def decision_statuses_def)
  moreover have "wf_decisions st" using assms(1) by (rule wf_stateD)
  ultimately have "wf_decisions st'"
    using d(5) by (auto simp: st' wf_decisions_def list_ex_iff)
  then show ?thesis unfolding st' by (rule wf_with_decisions [OF assms(1)])
qed

lemma wf_set_decision_status:
  assumes "wf_state st" "s \<in> set decision_statuses"
  shows "wf_state (st\<lparr>cs_Decisions := modify i (\<lambda>d. d\<lparr>dc_Status := s\<rparr>) (cs_Decisions st)\<rparr>)"
proof (rule wf_with_decisions [OF assms(1)])
  have "wf_decisions st" using assms(1) by (rule wf_stateD)
  then show "wf_decisions (st\<lparr>cs_Decisions := modify i (\<lambda>d. d\<lparr>dc_Status := s\<rparr>) (cs_Decisions st)\<rparr>)"
    using assms(2) by (auto simp: wf_decisions_def map_modify wf_decision_def intro!: list_all_modify)
qed

lemma wf_ResolveDecision:
  assumes "wf_state st" "cloudCollaborationResolveDecision st req = Inr st'"
  shows "wf_state st'"
  using assms(2) by (auto simp: cloudCollaborationResolveDecision_def decision_statuses_def
      intro!: wf_set_decision_status [OF assms(1)] split: if_splits option.splits)

section \<open>Tasks\<close>

lemma ManagedResultPath_nonblank: "trim_space (cloudCollaborationManagedResultPath dg wd cid tid g) \<noteq> []"
proof -
  have "CHR ''m'' \<in> set (cloudCollaborationManagedResultPath dg wd cid tid g)"
    by (simp add: cloudCollaborationManagedResultPath_def)
  then have "CHR ''m'' \<in> set (trim_space (cloudCollaborationManagedResultPath dg wd cid tid g))"
    by (rule trim_space_keeps [rotated]) (simp add: plain_byte_def)
  then show ?thesis by force
qed

lemma task_parent_within:
  assumes "wf_state st" "task_parent st req role = Inr (parent, depth, actions, scope)"
  shows "0 \<le> depth \<and> set actions \<subseteq> set (cs_AllowedActions st)"
proof (cases "role = ''chat''")
  case False
  then show ?thesis using assms(2) by (auto simp: task_parent_def Let_def)
next
  case True
  then obtain c where "c \<in> set (cs_Chats st)" "depth = ct_Depth c + 1" "actions = ct_AllowedActions c"
    using assms(2) by (auto simp: task_parent_def Let_def find_Some_iff in_set_conv_nth split: if_splits option.splits)
  moreover have "wf_chats st" using assms(1) by (rule wf_stateD)
  ultimately show ?thesis by (auto simp: wf_chats_def list_all_iff wf_chat_def)
qed

lemma callback_local_file: "''local_file'' \<in> set callback_types"
  by (simp add: callback_types_def)

lemma unbound_queued: "''queued'' \<in> set unbound_statuses" "''queued'' \<notin> set bound_statuses" "''queued'' \<in> set task_statuses"
  by (simp_all add: unbound_statuses_def bound_statuses_def task_statuses_def)

text \<open>What \<open>AddTask\<close> appends, and what held when it did.\<close>

lemma AddTask_Inr:
  assumes "cloudCollaborationAddTask dg now st req role = Inr st'"
  obtains t parentActions parentScope where
    "st' = st\<lparr>cs_Tasks := cs_Tasks st @ [t]\<rparr>" "length (cs_Tasks st) < 500" "cs_CreateCount st < cs_MaxCreates st"
    "\<not> deadlinePassed st now" "tk_ID t \<notin> tk_ID ` set (cs_Tasks st)"
    "task_parent st req role = Inr (tk_ParentSession t, tk_Depth t, parentActions, parentScope)"
    "tk_Depth t \<le> cs_MaxDepth st" "set (tk_AllowedActions t) \<subseteq> set parentActions"
    "tk_AccessMode t \<in> {''read_only'', ''write''}" "tk_CallbackType t \<in> set callback_types"
    "tk_CallbackType t = ''local_file'' \<or> tk_DeliverablePath t = []"
    "task_access_error dg st role parentScope (tk_AllowedActions t) (tk_AccessMode t) (tk_WriteScope t) (tk_DeliverablePath t) = None"
    "''chat.create'' \<in> set (tk_AllowedActions t) \<or> ''chat.send'' \<in> set (tk_AllowedActions t)"
    "tk_TargetSessionID t \<noteq> [] \<Longrightarrow> validCollaborationSessionID (tk_TargetSessionID t) \<and> ''chat.send'' \<in> set (tk_AllowedActions t)"
    "tk_Title t \<noteq> []" "length (tk_Title t) \<le> 500" "tk_Prompt t \<noteq> []" "length (tk_Prompt t) \<le> 12000"
    "tk_Status t = ''queued''" "tk_Generation t = cs_Generation st" "tk_ChatSessionID t = []"
    "tk_DeliverablePath t = trim_space (tk_DeliverablePath t)" "tk_DeliveryStatus t = ''pending''"
    "tk_ResultPath t = (if tk_CallbackType t \<noteq> ''local_file'' then [] else if tk_DeliverablePath t \<noteq> [] then tk_DeliverablePath t
       else cloudCollaborationManagedResultPath dg (cs_WorkingDirectory st) (rq_CollaborationID req) (tk_ID t) (cs_Generation st))"
proof -
  define i where "i = (let i = trim_space (rq_TaskID req) in
    if i = [] then ''task-'' @ decimal (int (length (cs_Tasks st)) + 1) else i)"
  obtain parent depth pa ps where p: "task_parent st req role = Inr (parent, depth, pa, ps)"
    using assms unfolding cloudCollaborationAddTask_def Let_def guards by auto
  define actions where "actions = (let a = normalizedCloudActions (rq_AllowedActions req) in if a = [] then pa else a)"
  define access where "access = (let a = trim_space (rq_AccessMode req) in if a = [] then ''read_only'' else a)"
  define cb where "cb = (let a = trim_space (rq_CallbackType req) in if a = [] then ''local_file'' else a)"
  define dp where "dp = trim_space (rq_DeliverablePath req)"
  define target where "target = trim_space (rq_TargetSessionID req)"
  define t where "t = \<lparr>tk_ID = i, tk_Title = boundedCollaborationText (rq_Title req) 500,
    tk_Prompt = boundedCollaborationText (rq_Prompt req) 12000, tk_Status = ''queued'',
    tk_ParentSession = parent, tk_Depth = depth, tk_Generation = cs_Generation st,
    tk_AccessMode = access, tk_WriteScope = trim_space (rq_WriteScope req), tk_DeliverablePath = dp,
    tk_ResultPath = (if cb = ''local_file'' then (if dp = [] then
        cloudCollaborationManagedResultPath dg (cs_WorkingDirectory st) (rq_CollaborationID req) i (cs_Generation st) else dp) else []),
    tk_CallbackType = cb, tk_AllowedActions = actions,
    tk_IdempotencyKey = ''collab_chat_'' @ take 40 (dg_text dg (trim_space (rq_CollaborationID req) @ [CHR 0x00] @ i @ [CHR 0x00] @ decimal (cs_Generation st))),
    tk_TargetSessionID = target, tk_ChatSessionID = [], tk_SessionMode = [], tk_DeliveryStatus = ''pending'',
    tk_ResultID = [], tk_ResultStatus = [], tk_ResultSHA256 = [], tk_ResultText = [],
    tk_CreatedAt = format_stamp now, tk_UpdatedAt = format_stamp now\<rparr>"
  note d = assms [unfolded cloudCollaborationAddTask_def Let_def p sum.case prod.case guards,
    folded i_def [unfolded Let_def] actions_def [unfolded Let_def] access_def [unfolded Let_def] cb_def [unfolded Let_def]
      dp_def target_def, folded t_def]
  have st': "st' = st\<lparr>cs_Tasks := cs_Tasks st @ [t]\<rparr>" using d by simp
  show ?thesis
  proof (rule that [OF st'])
    show "task_parent st req role = Inr (tk_ParentSession t, tk_Depth t, pa, ps)" using p by (simp add: t_def)
  qed (use d in \<open>auto simp: t_def dp_def length_boundedText list_ex_iff\<close>)
qed

lemma wf_AddTask:
  assumes "wf_state st" "cloudCollaborationAddTask dg now st req role = Inr st'"
  shows "wf_state st'"
proof (rule AddTask_Inr [OF assms(2)])
  fix t pa ps
  assume st': "st' = st\<lparr>cs_Tasks := cs_Tasks st @ [t]\<rparr>"
    and room: "length (cs_Tasks st) < 500" and fresh: "tk_ID t \<notin> tk_ID ` set (cs_Tasks st)"
    and parent: "task_parent st req role = Inr (tk_ParentSession t, tk_Depth t, pa, ps)"
    and t: "tk_Depth t \<le> cs_MaxDepth st" "set (tk_AllowedActions t) \<subseteq> set pa"
      "tk_AccessMode t \<in> {''read_only'', ''write''}" "tk_CallbackType t \<in> set callback_types"
      "tk_CallbackType t = ''local_file'' \<or> tk_DeliverablePath t = []"
      "tk_Title t \<noteq> []" "length (tk_Title t) \<le> 500" "tk_Prompt t \<noteq> []" "length (tk_Prompt t) \<le> 12000"
      "tk_Status t = ''queued''" "tk_Generation t = cs_Generation st" "tk_ChatSessionID t = []"
      "tk_DeliverablePath t = trim_space (tk_DeliverablePath t)"
    and access: "task_access_error dg st role ps (tk_AllowedActions t) (tk_AccessMode t) (tk_WriteScope t) (tk_DeliverablePath t) = None"
    and path: "tk_ResultPath t = (if tk_CallbackType t \<noteq> ''local_file'' then [] else if tk_DeliverablePath t \<noteq> [] then tk_DeliverablePath t
       else cloudCollaborationManagedResultPath dg (cs_WorkingDirectory st) (rq_CollaborationID req) (tk_ID t) (cs_Generation st))"
  have parts: "wf_counters st" "wf_tasks st" "wf_links st" using assms(1) by (auto dest: wf_stateD)
  have scope: "tk_AccessMode t = ''write'' \<Longrightarrow> tk_WriteScope t \<noteq> []"
    and deliver: "tk_DeliverablePath t \<noteq> [] \<Longrightarrow> tk_AccessMode t = ''write''"
    using access by (auto simp: task_access_error_def split: if_splits)
  have result: "tk_CallbackType t = ''local_file'' \<Longrightarrow> trim_space (tk_ResultPath t) \<noteq> []"
    using path t(13) ManagedResultPath_nonblank by (simp split: if_splits)
  have "wf_task (cs_AllowedActions st) (cs_MaxDepth st) (cs_Generation st) t"
    unfolding wf_task_def
    using t task_parent_within [OF assms(1) parent] parts(1) scope deliver result unbound_queued
    by (intro conjI) (auto simp: wf_counters_def)
  then have "wf_tasks st'" using parts(2) room fresh by (auto simp: st' wf_tasks_def)
  moreover have "wf_links st'" using parts(3) t(12) by (simp add: st' wf_links_def)
  ultimately show ?thesis
    using assms(1) unfolding st' by (auto simp: wf_state_def frame_simps)
qed

lemma update_allowed_cases:
  assumes "task_update_allowed t next"
  obtains "next \<in> {''blocked'', ''dropped''}" | "next = ''done''" | "next = ''queued''" "tk_ChatSessionID t = []"
  using assms by (auto simp: task_update_allowed_def split: if_splits)

lemma wf_task_status:
  assumes "wf_task A D G t" "s \<in> set task_statuses"
    "s \<in> set unbound_statuses \<Longrightarrow> tk_ChatSessionID t = []" "s \<in> set bound_statuses \<Longrightarrow> tk_ChatSessionID t \<noteq> []"
  shows "wf_task A D G (t\<lparr>tk_Status := s, tk_UpdatedAt := u\<rparr>)"
  using assms by (simp add: wf_task_def)

lemma status_class:
  "s \<in> {''blocked'', ''done'', ''dropped''} \<Longrightarrow> s \<in> set task_statuses \<and> s \<notin> set unbound_statuses \<and> s \<notin> set bound_statuses"
  by (auto simp: task_statuses_def unbound_statuses_def bound_statuses_def)

lemma linked_task: "wf_state st \<Longrightarrow> i < length (cs_Tasks st) \<Longrightarrow> tk_ChatSessionID (cs_Tasks st ! i) \<noteq> [] \<Longrightarrow>
    list_ex (chat_of (cs_Tasks st ! i)) (cs_Chats st)"
  by (auto dest!: wf_stateD(8) simp: wf_links_def list_all_length)

lemma chat_of_status [simp]:
  "chat_of (t\<lparr>tk_Status := s\<rparr>) = chat_of t" "chat_of (t\<lparr>tk_UpdatedAt := u\<rparr>) = chat_of t"
  "chat_of (t\<lparr>tk_ResultID := r\<rparr>) = chat_of t" "chat_of (t\<lparr>tk_ResultStatus := r\<rparr>) = chat_of t"
  "chat_of (t\<lparr>tk_ResultSHA256 := r\<rparr>) = chat_of t" "chat_of (t\<lparr>tk_ResultText := r\<rparr>) = chat_of t"
  "chat_of (t\<lparr>tk_DeliveryStatus := r\<rparr>) = chat_of t" "chat_of (t\<lparr>tk_SessionMode := r\<rparr>) = chat_of t"
  by (simp_all add: chat_of_def fun_eq_iff)

lemma wf_set_task_status:
  assumes "wf_state st" "s \<in> set task_statuses"
    "s \<in> set unbound_statuses \<Longrightarrow> i < length (cs_Tasks st) \<Longrightarrow> tk_ChatSessionID (cs_Tasks st ! i) = []"
    "s \<in> set bound_statuses \<Longrightarrow> i < length (cs_Tasks st) \<Longrightarrow> tk_ChatSessionID (cs_Tasks st ! i) \<noteq> []"
  shows "wf_state (upd_task i (\<lambda>t. t\<lparr>tk_Status := s, tk_UpdatedAt := u\<rparr>) st)"
  using assms by (intro wf_upd_task) (auto intro: wf_task_status linked_task)

lemma wf_UpdateTask:
  assumes "wf_state st" "cloudCollaborationUpdateTask now st req = Inr st'"
  shows "wf_state st'"
proof -
  obtain i where i: "taskIndex st (trim_space (rq_TaskID req)) = Some i"
    and allowed: "task_update_allowed (cs_Tasks st ! i) (trim_space (rq_TaskStatus req))"
    and st': "st' = upd_task i (\<lambda>t. t\<lparr>tk_Status := trim_space (rq_TaskStatus req), tk_UpdatedAt := format_stamp now\<rparr>) st"
    using assms(2) unfolding cloudCollaborationUpdateTask_def Let_def guards by auto
  show ?thesis unfolding st'
    by (rule wf_set_task_status [OF assms(1)]; rule update_allowed_cases [OF allowed])
       (use status_class unbound_queued in auto)
qed

section \<open>Events\<close>

lemma ingest_scan_ScanNew:
  "ingest_scan i sig sess gen sq es = ScanNew \<longleftrightarrow>
     (\<forall>e \<in> set es. ev_ID e \<noteq> i \<and> \<not> (ev_SessionID e = sess \<and> ev_Generation e = gen \<and> sq \<le> ev_Sequence e))"
  by (induction es) auto

lemma ingest_scan_ScanReplay:
  "ingest_scan i sig sess gen sq es = ScanReplay \<Longrightarrow> \<exists>e \<in> set es. ev_ID e = i \<and> ev_Signature e = sig"
  by (induction es) (auto split: if_splits)

lemma wf_with_events: "wf_state st \<Longrightarrow> wf_events (st\<lparr>cs_Events := es\<rparr>) \<Longrightarrow> wf_state (st\<lparr>cs_Events := es\<rparr>)"
  by (auto simp: wf_state_def frame_simps)

lemma set_kept_events: "set (if 512 \<le> length es then last_n 384 es else es) \<subseteq> set es"
  using set_last_n [of 384 es] by (auto split: if_splits)

lemma wf_append_event:
  assumes "wf_state st" "wf_event (cs_Generation st) e" "\<forall>x \<in> set (cs_Events st). ev_ID x \<noteq> ev_ID e \<and> event_order x e"
  shows "wf_state (append_event e st)"
proof -
  define es where "es = (if 512 \<le> length (cs_Events st) then last_n 384 (cs_Events st) else cs_Events st)"
  have sub: "set es \<subseteq> set (cs_Events st)" unfolding es_def by (rule set_kept_events)
  have old: "wf_events st" using assms(1) by (rule wf_stateD)
  have "distinct (map ev_ID es)" "length es < 512" "sorted_wrt event_order es"
    using old sorted_wrt_drop [of event_order "cs_Events st"]
    by (auto simp: es_def wf_events_def distinct_map_last_n) (simp add: last_n_def)
  then have "wf_events (st\<lparr>cs_Events := es @ [e]\<rparr>)"
    using old assms(2,3) sub by (auto simp: wf_events_def sorted_wrt_append list_all_iff)
  then have "wf_state (st\<lparr>cs_Events := es @ [e]\<rparr>)" by (rule wf_with_events [OF assms(1)])
  then show ?thesis by (simp add: append_event_def es_def)
qed

lemma append_event_simps [simp]:
  "cs_Tasks (append_event e st) = cs_Tasks st" "cs_Chats (append_event e st) = cs_Chats st"
  "cs_Generation (append_event e st) = cs_Generation st" "cs_Status (append_event e st) = cs_Status st"
  "cs_AllowedActions (append_event e st) = cs_AllowedActions st" "cs_MaxDepth (append_event e st) = cs_MaxDepth st"
  "cs_Goals (append_event e st) = cs_Goals st"
  by (simp_all add: append_event_def)

text \<open>What \<open>IngestEvent\<close> did when it accepted a new observation.\<close>

definition ingested_event :: "digests \<Rightarrow> instant \<Rightarrow> task \<Rightarrow> collab_request \<Rightarrow> event" where
  "ingested_event dg now t req =
     \<lparr>ev_ID = rq_EventID req, ev_TaskID = tk_ID t, ev_SessionID = tk_ChatSessionID t,
      ev_Generation = rq_EventGeneration req, ev_Sequence = rq_EventSequence req,
      ev_Type = rq_EventType req, ev_ResultID = rq_ResultID req, ev_ResultStatus = rq_ResultStatus req,
      ev_ResultBytes = rq_ResultBytes req, ev_ResultSHA256 = rq_ResultSHA256 req,
      ev_CallbackType = [], ev_Status = ''pending'', ev_DeliverablePath = rq_DeliverablePath req,
      ev_DeliverableStatus = rq_DeliverableStatus req, ev_Signature = event_signature dg t req,
      ev_CreatedAt = format_stamp now\<rparr>"

lemma IngestEvent_Inr:
  assumes "cloudCollaborationIngestEvent dg now st req = Inr st'"
  obtains (replay) e where "st' = st" "e \<in> set (cs_Events st)" "ev_ID e = rq_EventID req"
  | (new) i where "taskIndex st (rq_TaskID req) = Some i"
      "st' = upd_task i (\<lambda>t. t\<lparr>tk_ResultID := rq_ResultID req, tk_ResultStatus := rq_ResultStatus req,
         tk_ResultSHA256 := rq_ResultSHA256 req, tk_UpdatedAt := format_stamp now,
         tk_Status := (if rq_ResultStatus req = ''ready'' \<or> rq_ResultStatus req = ''completed''
                       then ''result_available'' else tk_Status t)\<rparr>)
       (append_event (ingested_event dg now (cs_Tasks st ! i) req) st)"
      "1 \<le> rq_EventSequence req" "1 \<le> rq_EventGeneration req"
      "tk_Generation (cs_Tasks st ! i) = rq_EventGeneration req" "tk_ChatSessionID (cs_Tasks st ! i) \<noteq> []"
      "validateCloudCollaborationEventResult (cs_Tasks st ! i) req = Inr ()"
      "\<forall>e \<in> set (cs_Events st). ev_ID e \<noteq> rq_EventID req \<and> \<not> (ev_SessionID e = tk_ChatSessionID (cs_Tasks st ! i)
         \<and> ev_Generation e = rq_EventGeneration req \<and> rq_EventSequence req \<le> ev_Sequence e)"
proof -
  note d = assms [unfolded cloudCollaborationIngestEvent_def Let_def guards]
  then obtain i where i: "taskIndex st (rq_TaskID req) = Some i" by auto
  let ?scan = "ingest_scan (rq_EventID req) (event_signature dg (cs_Tasks st ! i) req) (tk_ChatSessionID (cs_Tasks st ! i))
    (rq_EventGeneration req) (rq_EventSequence req) (cs_Events st)"
  show thesis
  proof (cases ?scan)
    case ScanReplay
    with d i have "st' = st" by auto
    then show ?thesis using ingest_scan_ScanReplay [OF ScanReplay] replay by blast
  next
    case ScanConflict
    with d i show ?thesis by auto
  next
    case ScanNew
    show ?thesis
      by (rule new [OF i]) (use d i ScanNew in \<open>auto simp: ingest_scan_ScanNew ingested_event_def\<close>)
  qed
qed

lemma validated_event:
  assumes "validateCloudCollaborationEventResult t req = Inr ()"
  shows "rq_EventType req = ''conversation.turn.complete''" "0 \<le> rq_ResultBytes req" "rq_ResultBytes req \<le> max_result_bytes"
  using assms by (auto simp: validateCloudCollaborationEventResult_def simp del: One_nat_def split: if_splits)

lemma result_available_class:
  "''result_available'' \<in> set task_statuses" "''result_available'' \<notin> set unbound_statuses"
  by (simp_all add: task_statuses_def unbound_statuses_def)

lemma wf_IngestEvent:
  assumes "wf_state st" "cloudCollaborationIngestEvent dg now st req = Inr st'"
  shows "wf_state st'"
proof (rule IngestEvent_Inr [OF assms(2)])
  fix i
  let ?t = "cs_Tasks st ! i" and ?e = "ingested_event dg now (cs_Tasks st ! i) req"
  let ?f = "\<lambda>t. t\<lparr>tk_ResultID := rq_ResultID req, tk_ResultStatus := rq_ResultStatus req,
         tk_ResultSHA256 := rq_ResultSHA256 req, tk_UpdatedAt := format_stamp now,
         tk_Status := (if rq_ResultStatus req = ''ready'' \<or> rq_ResultStatus req = ''completed''
                       then ''result_available'' else tk_Status t)\<rparr>"
  assume i: "taskIndex st (rq_TaskID req) = Some i" and st': "st' = upd_task i ?f (append_event ?e st)"
    and sq: "1 \<le> rq_EventSequence req" "1 \<le> rq_EventGeneration req" "tk_Generation ?t = rq_EventGeneration req"
      "tk_ChatSessionID ?t \<noteq> []"
    and valid: "validateCloudCollaborationEventResult ?t req = Inr ()"
    and new: "\<forall>e \<in> set (cs_Events st). ev_ID e \<noteq> rq_EventID req \<and> \<not> (ev_SessionID e = tk_ChatSessionID ?t
         \<and> ev_Generation e = rq_EventGeneration req \<and> rq_EventSequence req \<le> ev_Sequence e)"
  have len: "i < length (cs_Tasks st)" using taskIndex_Some [OF i] by simp
  have t: "wf_task (cs_AllowedActions st) (cs_MaxDepth st) (cs_Generation st) ?t"
    using wf_stateD(4) [OF assms(1)] len by (simp add: wf_tasks_def list_all_length)
  have "wf_event (cs_Generation st) ?e"
    using t sq validated_event [OF valid] by (simp add: wf_event_def ingested_event_def event_statuses_def wf_task_def)
  moreover have "\<forall>x \<in> set (cs_Events st). ev_ID x \<noteq> ev_ID ?e \<and> event_order x ?e"
    using new by (auto simp: ingested_event_def event_order_def)
  ultimately have "wf_state (append_event ?e st)" by (rule wf_append_event [OF assms(1)])
  then show ?thesis unfolding st'
  proof (rule wf_upd_task)
    show "wf_task (cs_AllowedActions (append_event ?e st)) (cs_MaxDepth (append_event ?e st))
        (cs_Generation (append_event ?e st)) (?f (cs_Tasks (append_event ?e st) ! i))"
      using t sq(4) result_available_class by (simp add: wf_task_def)
    show "list_ex (chat_of (?f (cs_Tasks (append_event ?e st) ! i))) (cs_Chats (append_event ?e st))"
      using linked_task [OF assms(1) len sq(4)] by simp
  qed simp
qed (use assms(1) in simp)

lemma wf_mark_acked:
  assumes "wf_state st" shows "wf_state (upd_event i (\<lambda>e. e\<lparr>ev_Status := ''acked''\<rparr>) st)"
proof -
  have old: "wf_events st" using assms by (rule wf_stateD)
  have "sorted_wrt event_order (modify i (\<lambda>e. e\<lparr>ev_Status := ''acked''\<rparr>) (cs_Events st))"
    using old by (auto simp: wf_events_def sorted_wrt_iff_nth_less nth_modify event_order_def)
  then have "wf_events (upd_event i (\<lambda>e. e\<lparr>ev_Status := ''acked''\<rparr>) st)"
    using old by (auto simp: wf_events_def upd_event_def map_modify wf_event_def event_statuses_def intro!: list_all_modify)
  then show ?thesis unfolding upd_event_def by (rule wf_with_events [OF assms])
qed

lemma wf_AckEvent:
  assumes "wf_state st" "cloudCollaborationAckEvent st req = Inr st'"
  shows "wf_state st'"
  using assms(2) wf_mark_acked [OF assms(1)] assms(1)
  by (auto simp: cloudCollaborationAckEvent_def Let_def split: option.splits if_splits)

lemma done_goal: "''done'' \<in> set goal_statuses"
  by (simp add: goal_statuses_def)

lemma wf_goals_map:
  assumes "wf_goals st" "\<And>g. gl_ID (f g) = gl_ID g" "\<And>g. wf_goal g \<Longrightarrow> wf_goal (f g)"
  shows "wf_goals (st\<lparr>cs_Goals := map f (cs_Goals st)\<rparr>)"
proof -
  have "map gl_ID (map f gs) = map gl_ID gs" for gs using assms(2) by (induction gs) auto
  then show ?thesis using assms(1,3) by (simp add: wf_goals_def list_all_iff del: map_map)
qed

lemma wf_finish_goals: "wf_state st \<Longrightarrow> wf_state (finish_goals st)"
  unfolding finish_goals_def
  by (rule wf_with_goals, assumption, rule wf_goals_map) (use done_goal in \<open>auto simp: wf_goal_def dest: wf_stateD\<close>)

lemma wf_chat_seen:
  assumes "wf_state st" "s \<in> set chat_statuses"
  shows "wf_state (upd_chat i (\<lambda>c. c\<lparr>ct_Status := s, ct_LastObservedAt := u\<rparr>) st)"
  by (rule wf_upd_chat [OF assms(1)]) (use assms(2) in \<open>simp_all add: wf_chat_def\<close>)

lemma chat_status_values:
  "''completed'' \<in> set chat_statuses" "''failed'' \<in> set chat_statuses" "''released'' \<in> set chat_statuses"
  "''retiring'' \<in> set chat_statuses" "''release_pending'' \<in> set chat_statuses" "''archived'' \<in> set chat_statuses"
  "''deleted'' \<in> set chat_statuses" "''active'' \<in> set chat_statuses"
  by (simp_all add: chat_statuses_def)

lemma wf_settle_task:
  assumes "wf_state st" "s \<in> {''done'', ''blocked''}"
  shows "wf_state (settle_task idx s now st)"
proof -
  let ?st = "upd_task idx (\<lambda>t. t\<lparr>tk_Status := s, tk_UpdatedAt := format_stamp now\<rparr>) st"
  have 1: "wf_state ?st" using assms status_class by (intro wf_set_task_status) auto
  have 2: "wf_state (upd_chat c (\<lambda>c. c\<lparr>ct_Status := (if s = ''done'' then ''completed'' else ''failed''), ct_LastObservedAt := format_stamp now\<rparr>) ?st)" for c
    using chat_status_values by (intro wf_chat_seen [OF 1]) simp
  show ?thesis
    unfolding settle_task_def Let_def by (split option.split) (use 1 2 wf_finish_goals in auto)
qed

lemma wf_Advance:
  assumes "wf_state st" shows "wf_state (cloudCollaborationAdvanceAcknowledgedEvent st eid now)"
proof -
  have "wf_state (settle_task idx ''done'' now st)" "wf_state (settle_task idx ''blocked'' now st)" for idx
    by (rule wf_settle_task [OF assms], simp)+
  then show ?thesis
    unfolding cloudCollaborationAdvanceAcknowledgedEvent_def using assms by (simp split: option.split)
qed

section \<open>Rotation, pausing, compaction\<close>

lemma wf_bump_generation:
  assumes "wf_state st" "ls_Generation l \<le> cs_Generation st + 1"
  shows "wf_state (st\<lparr>cs_Generation := cs_Generation st + 1, cs_Lease := l\<rparr>)"
proof -
  let ?st = "st\<lparr>cs_Generation := cs_Generation st + 1, cs_Lease := l\<rparr>"
  have "wf_task A D G t \<longrightarrow> wf_task A D (G + 1) t" "wf_chat A D G c \<longrightarrow> wf_chat A D (G + 1) c"
    "wf_event G e \<longrightarrow> wf_event (G + 1) e" for A D G t c e
    by (simp_all add: wf_task_def wf_chat_def wf_event_def)
  then have "list_all (wf_task A D G) ts \<longrightarrow> list_all (wf_task A D (G + 1)) ts"
    "list_all (wf_chat A D G) cs \<longrightarrow> list_all (wf_chat A D (G + 1)) cs"
    "list_all (wf_event G) es \<longrightarrow> list_all (wf_event (G + 1)) es" for A D G ts cs es
    by (blast intro: list.pred_mono_strong)+
  then have "wf_tasks ?st" "wf_chats ?st" "wf_events ?st"
    using wf_stateD(4-6) [OF assms(1)] by (simp_all add: wf_tasks_def wf_chats_def wf_events_def)
  moreover have "wf_counters ?st" using wf_stateD(2) [OF assms(1)] assms(2) by (simp add: wf_counters_def)
  ultimately show ?thesis using assms(1) by (simp add: wf_state_def frame_simps)
qed

lemma wf_checkpoint:
  "wf_state st \<Longrightarrow> length k \<le> 4000 \<Longrightarrow> wf_state (st\<lparr>cs_Checkpoint := k, cs_CheckpointGeneration := cs_Generation st\<rparr>)"
  by (auto simp: wf_state_def frame_simps) (simp add: wf_counters_def)

lemma wf_set_status: "wf_state st \<Longrightarrow> s \<in> set collab_statuses \<Longrightarrow> wf_state (st\<lparr>cs_Status := s\<rparr>)"
  by (auto simp: wf_state_def frame_simps) (simp add: wf_counters_def)

lemma wf_set_lease: "wf_state st \<Longrightarrow> ls_Generation l \<le> cs_Generation st \<Longrightarrow> wf_state (st\<lparr>cs_Lease := l\<rparr>)"
  by (auto simp: wf_state_def frame_simps) (simp add: wf_counters_def)

text \<open>Rotation as four small steps: the CHAT retires, the task starts over, the generation moves on (with
  the lease, when someone holds it), the checkpoint is kept.\<close>

definition requeue :: "task \<Rightarrow> task" where
  "requeue t = t\<lparr>tk_Status := ''queued'', tk_ChatSessionID := [], tk_TargetSessionID := [],
     tk_SessionMode := [], tk_DeliveryStatus := ''pending'', tk_Generation := tk_Generation t + 1,
     tk_IdempotencyKey := tk_IdempotencyKey t @ ''_g'' @ decimal (tk_Generation t + 1)\<rparr>"

definition retire :: "chat \<Rightarrow> chat" where
  "retire c = c\<lparr>ct_Status := (if ct_Reused c then ''released'' else ''retiring'')\<rparr>"

definition next_generation :: "collab_state \<Rightarrow> collab_state" where
  "next_generation st = st\<lparr>cs_Generation := cs_Generation st + 1,
     cs_Lease := (if ls_SessionID (cs_Lease st) \<noteq> [] then (cs_Lease st)\<lparr>ls_Generation := cs_Generation st + 1\<rparr> else cs_Lease st)\<rparr>"

definition set_checkpoint :: "string \<Rightarrow> collab_state \<Rightarrow> collab_state" where
  "set_checkpoint k st = (if k \<noteq> [] then st\<lparr>cs_Checkpoint := boundedCollaborationText k 4000, cs_CheckpointGeneration := cs_Generation st\<rparr> else st)"

lemma RotateChat_steps:
  "cloudCollaborationRotateChat st req =
     (case taskIndex st (rq_TaskID req) of None \<Rightarrow> Inl ErrNotFound
      | Some idx \<Rightarrow> (case chatTaskIndex st (cs_Tasks st ! idx) of None \<Rightarrow> Inl ErrNotFound
      | Some cidx \<Rightarrow> Inr (set_checkpoint (rq_Checkpoint req) (upd_task idx requeue (next_generation (upd_chat cidx retire st))))))"
  by (simp add: cloudCollaborationRotateChat_def Let_def requeue_def [abs_def] retire_def [abs_def] next_generation_def
      set_checkpoint_def upd_task_def upd_chat_def split: option.split)

lemma wf_next_generation: "wf_state st \<Longrightarrow> wf_state (next_generation st)"
  unfolding next_generation_def by (rule wf_bump_generation) (auto dest!: wf_stateD(2) simp: wf_counters_def)

lemma next_generation_simps [simp]:
  "cs_Tasks (next_generation st) = cs_Tasks st" "cs_Chats (next_generation st) = cs_Chats st"
  "cs_Generation (next_generation st) = cs_Generation st + 1" "cs_AllowedActions (next_generation st) = cs_AllowedActions st"
  "cs_MaxDepth (next_generation st) = cs_MaxDepth st" "cs_Events (next_generation st) = cs_Events st"
  by (simp_all add: next_generation_def)

lemma upd_chat_config [simp]:
  "cs_AllowedActions (upd_chat i f st) = cs_AllowedActions st" "cs_MaxDepth (upd_chat i f st) = cs_MaxDepth st"
  by (simp_all add: upd_chat_def)

lemma wf_RotateChat:
  assumes "wf_state st" "cloudCollaborationRotateChat st req = Inr st'"
  shows "wf_state st'"
proof -
  obtain idx cidx where idx: "taskIndex st (rq_TaskID req) = Some idx"
    and st': "st' = set_checkpoint (rq_Checkpoint req) (upd_task idx requeue (next_generation (upd_chat cidx retire st)))"
    using assms(2) unfolding RotateChat_steps guards by auto
  have 1: "wf_state (upd_chat cidx retire st)"
    using chat_status_values by (intro wf_upd_chat [OF assms(1)]) (simp_all add: retire_def wf_chat_def)
  then have 2: "wf_state (next_generation (upd_chat cidx retire st))" by (rule wf_next_generation)
  have old: "wf_task (cs_AllowedActions st) (cs_MaxDepth st) (cs_Generation st) (cs_Tasks st ! idx)"
    using wf_stateD(4) [OF assms(1)] taskIndex_Some [OF idx] by (simp add: wf_tasks_def list_all_length)
  have 3: "wf_state (upd_task idx requeue (next_generation (upd_chat cidx retire st)))"
    by (rule wf_upd_task [OF 2]) (use old unbound_queued in \<open>simp_all add: requeue_def wf_task_def\<close>)
  then show ?thesis
    unfolding st' set_checkpoint_def using wf_checkpoint [OF 3 length_boundedText] by (simp only: if_split) simp
qed

lemmas wf_ops = wf_AddGoal wf_UpdateGoal wf_AddTask wf_UpdateTask wf_IngestEvent wf_AckEvent wf_Advance
  wf_RequestDecision wf_ResolveDecision wf_RotateChat wf_checkpoint wf_set_status wf_set_lease

end
