(* ===== verification/Collab_Demo.thy ===== *)
theory Collab_Demo
  imports Collab_Preserve
begin

text \<open>Concrete collaborations on which the properties are evaluated.\<close>

definition demo_digests :: digests where
  "demo_digests = \<lparr>dg_text = (\<lambda>s. replicate 64 CHR ''a''), dg_json = (\<lambda>v. replicate 64 CHR ''b''), dg_lower = (\<lambda>s. s)\<rparr>"

definition demo_now :: instant where "demo_now = 1800000000 * second"

definition demo_state :: collab_state where
  "demo_state = \<lparr>cs_Version = 2, cs_Title = ''Demo'', cs_Goal = ''goal'', cs_Scope = ''/w'', cs_DoneWhen = ''done'',
     cs_Status = ''active'', cs_WorkingDirectory = ''/w'', cs_ControllerSessionID = ''ctl'', cs_DispatcherSessionID = ''dsp'',
     cs_Generation = 1, cs_AllowedActions = [''chat.create'', ''chat.send'', ''file.write''], cs_MaxDepth = 3,
     cs_MaxActiveChats = 3, cs_MaxCreates = 20, cs_CreateCount = 0, cs_HeartbeatMinutes = 30, cs_StallMinutes = 60,
     cs_Deadline = NoStamp, cs_Lease = \<lparr>ls_SessionID = ''dsp'', ls_Generation = 1, ls_ExpiresAt = Stamp 1800001000\<rparr>,
     cs_Goals = [], cs_Tasks = [], cs_Chats = [], cs_Events = [], cs_Decisions = [], cs_Checkpoint = [],
     cs_CheckpointGeneration = 0\<rparr>"

definition demo_task :: task where
  "demo_task = \<lparr>tk_ID = ''t1'', tk_Title = ''T'', tk_Prompt = ''P'', tk_Status = ''active'', tk_ParentSession = ''dsp'', tk_Depth = 0,
     tk_Generation = 1, tk_AccessMode = ''write'', tk_WriteScope = ''/w/a'', tk_DeliverablePath = [], tk_ResultPath = ''/w/r.md'',
     tk_CallbackType = ''local_file'', tk_AllowedActions = [''chat.create'', ''chat.send''], tk_IdempotencyKey = ''k'',
     tk_TargetSessionID = [], tk_ChatSessionID = ''s1'', tk_SessionMode = ''new'', tk_DeliveryStatus = ''delivered'',
     tk_ResultID = [], tk_ResultStatus = [], tk_ResultSHA256 = [], tk_ResultText = [],
     tk_CreatedAt = Stamp 1799990000, tk_UpdatedAt = Stamp 1799990000\<rparr>"

definition demo_chat :: chat where
  "demo_chat = \<lparr>ct_SessionID = ''s1'', ct_TaskID = ''t1'', ct_ParentSession = ''dsp'', ct_Depth = 0, ct_Generation = 1,
     ct_Status = ''active'', ct_AccessMode = ''write'', ct_WriteScope = ''/w/a'', ct_AllowedActions = [''chat.create'', ''chat.send''],
     ct_CallbackRegistered = True, ct_CallbackArmed = True, ct_WatchCursor = 0, ct_LastObservedAt = Stamp 1799990000,
     ct_LastProgressAt = Stamp 1799990000, ct_QuietChecks = 0, ct_StalledNotified = False, ct_ContinueAttempts = 0,
     ct_LastContinueAt = NoStamp, ct_Reused = False\<rparr>"

definition demo_running :: collab_state where
  "demo_running = demo_state\<lparr>cs_Tasks := [demo_task], cs_Chats := [demo_chat]\<rparr>"

definition demo_add :: collab_request where
  "demo_add = empty_request\<lparr>rq_TaskID := ''t2'', rq_Title := ''T2'', rq_Prompt := ''do it'', rq_AccessMode := ''write'',
     rq_WriteScope := ''/w/b''\<rparr>"

definition demo_event :: collab_request where
  "demo_event = empty_request\<lparr>rq_TaskID := ''t1'', rq_EventID := ''e1'', rq_EventSequence := 1, rq_EventGeneration := 1,
     rq_EventType := ''conversation.turn.complete'', rq_ResultStatus := ''failed''\<rparr>"

lemma demo_wf: "wf_state demo_state" "wf_state demo_running" by code_simp+
lemma demo_add_ok: "is_ok (cloudCollaborationAddTask demo_digests demo_now demo_running demo_add ''dispatcher'')" by code_simp
lemma demo_event_ok: "is_ok (cloudCollaborationIngestEvent demo_digests demo_now demo_running demo_event)" by code_simp
lemma demo_rot: "is_ok (cloudCollaborationRotateChat demo_running demo_event)" by code_simp
end
