(* ===== verification/Collab_View.thy ===== *)
theory Collab_View
  imports Collab_Ops
begin

text \<open>
  What the collaboration answers: the view of a state, the scheduler tick with its list of due
  actions, and the receipts. An answer is the code's \<open>map[string]any\<close>, an association list whose
  values can hold the typed slices of the state.
\<close>

datatype oval =
    OJson json
  | OStrings "string list"
  | OTime instant
  | OTasks "task list"
  | OChats "chat list"
  | OEvents "event list"
  | OObj "(string \<times> oval) list"
  | OArr "oval list"

type_synonym out = "(string \<times> oval) list"

definition put :: "string \<Rightarrow> oval \<Rightarrow> out \<Rightarrow> out" where
  "put k v m = AList.update k v m"

definition ostr :: "string \<Rightarrow> oval" where "ostr s = OJson (JStr s)"
definition oint :: "int \<Rightarrow> oval" where "oint i = OJson (JInt i)"
definition obool :: "bool \<Rightarrow> oval" where "obool b = OJson (JBool b)"

lemma map_of_put [simp]: "map_of (put k v m) = (map_of m)(k \<mapsto> v)"
  by (simp add: put_def update_conv')

definition rat_trunc :: "rat \<Rightarrow> int" where
  "rat_trunc r = (if 0 \<le> r then \<lfloor>r\<rfloor> else \<lceil>r\<rceil>)"

text \<open>\<open>numericInt64\<close>: a conversion of a \<open>float64\<close> outside the range of \<open>int64\<close> gives its least value
  (the result on amd64; Go leaves it to the implementation).\<close>

definition numericInt64 :: "json \<Rightarrow> int \<times> bool" where
  "numericInt64 v = (case v of
      JInt i \<Rightarrow> (i, True)
    | JFloat r \<Rightarrow> (let i = rat_trunc r in if - (2 ^ 63) \<le> i \<and> i < 2 ^ 63 then i else - (2 ^ 63), True)
    | JNumber (Some i) \<Rightarrow> (i, True)
    | _ \<Rightarrow> (0, False))"

definition mapString :: "(string \<times> json) list \<Rightarrow> string \<Rightarrow> string" where
  "mapString m k = trim_space (jstr (jget m k))"

definition numberField :: "out \<Rightarrow> string \<Rightarrow> int" where
  "numberField m k = (case map_of m k of Some (OJson v) \<Rightarrow> fst (numericInt64 v) | _ \<Rightarrow> 0)"

definition collaborationMapItems :: "json \<Rightarrow> (string \<times> json) list list" where
  "collaborationMapItems v = (case v of
      JArr items \<Rightarrow> List.map_filter (\<lambda>x. case x of JObj m \<Rightarrow> Some m | _ \<Rightarrow> None) items
    | _ \<Rightarrow> [])"

section \<open>The scheduler tick\<close>

definition cloudCollaborationHeartbeatInterval :: "collab_state \<Rightarrow> duration" where
  "cloudCollaborationHeartbeatInterval st =
     (if cs_HeartbeatMinutes st \<le> 0 then 30 else cs_HeartbeatMinutes st) * minute"

definition cloudCollaborationNextStatusPollAt :: "collab_state \<Rightarrow> chat \<Rightarrow> instant \<Rightarrow> instant" where
  "cloudCollaborationNextStatusPollAt st c now =
     (let last = parse_or_zero (ct_LastObservedAt c)
      in if is_zero last then now else last + cloudCollaborationHeartbeatInterval st)"

fun next_check_loop :: "collab_state \<Rightarrow> instant \<Rightarrow> instant \<Rightarrow> chat list \<Rightarrow> instant" where
  "next_check_loop st now nxt [] = nxt"
| "next_check_loop st now nxt (c # cs) =
     (if ct_Status c \<noteq> ''active'' then next_check_loop st now nxt cs
      else let candidate = cloudCollaborationNextStatusPollAt st c now
           in next_check_loop st now (if is_zero nxt \<or> candidate < nxt then candidate else nxt) cs)"

definition cloudCollaborationNextStatusCheckAt :: "collab_state \<Rightarrow> instant \<Rightarrow> instant" where
  "cloudCollaborationNextStatusCheckAt st now = next_check_loop st now zero_time (cs_Chats st)"

definition act :: "string \<Rightarrow> (string \<times> oval) list \<Rightarrow> oval" where
  "act kind fs = OObj ((''type'', ostr kind) # fs)"

text \<open>\<open>Done\<close> is a return out of the loop with the actions so far, \<open>Go\<close> the end of the loop.\<close>

datatype tick_loop = Done "oval list" | Go "oval list"

fun tick_events :: "oval list \<Rightarrow> event list \<Rightarrow> tick_loop" where
  "tick_events acc [] = Go acc"
| "tick_events acc (e # es) =
     (let acc = (if ev_Status e = ''pending''
                 then acc @ [act ''event_pending'' [(''eventId'', ostr (ev_ID e)), (''taskId'', ostr (ev_TaskID e))]]
                 else acc)
      in if length acc = 8 then Done acc else tick_events acc es)"

definition task_actions :: "task \<Rightarrow> oval list" where
  "task_actions t =
     (if tk_Status t = ''queued'' \<or> tk_Status t = ''create_in_doubt''
      then [act ''dispatch_task'' [(''taskId'', ostr (tk_ID t))]] else [])
     @ (if tk_Status t = ''active'' \<and> tk_SessionMode t = ''reuse'' \<and> tk_DeliveryStatus t \<noteq> ''delivered''
        then [act ''dispatch_task'' [(''taskId'', ostr (tk_ID t)), (''deliveryRecovery'', obool True)]] else [])"

fun tick_tasks :: "oval list \<Rightarrow> task list \<Rightarrow> tick_loop" where
  "tick_tasks acc [] = Go acc"
| "tick_tasks acc (t # ts) =
     (let acc = acc @ task_actions t in if length acc = 8 then Done acc else tick_tasks acc ts)"

definition poll_due :: "collab_state \<Rightarrow> chat \<Rightarrow> instant \<Rightarrow> bool" where
  "poll_due st c now = (\<not> now < cloudCollaborationNextStatusPollAt st c now)"

text \<open>The Chinese text for "please continue", in UTF-8.\<close>

definition continue_text :: string where
  "continue_text = [CHR 0xE8, CHR 0xAF, CHR 0xB7, CHR 0xE7, CHR 0xBB, CHR 0xA7, CHR 0xE7, CHR 0xBB, CHR 0xAD]"

definition needs_callback :: "chat \<Rightarrow> bool" where
  "needs_callback c = (\<not> ct_CallbackRegistered c \<or> \<not> ct_CallbackArmed c)"

definition poll_actions :: "collab_state \<Rightarrow> instant \<Rightarrow> chat \<Rightarrow> oval list" where
  "poll_actions st now c =
     (if poll_due st c now
      then [act ''poll_chat_status'' ((''taskId'', ostr (ct_TaskID c))
              # (if ct_StalledNotified c then [(''suspectedStalled'', obool True)] else []))]
      else [])"

definition stall_actions :: "chat \<Rightarrow> oval list" where
  "stall_actions c =
     (if \<not> ct_StalledNotified c then []
      else if ct_ContinueAttempts c = 0
      then [act ''continue_chat'' [(''taskId'', ostr (ct_TaskID c)), (''chatSessionId'', ostr (ct_SessionID c)),
              (''recommendedPrompt'', ostr continue_text), (''requiresStatusCheck'', obool True),
              (''automaticReplacement'', obool False)]]
      else [act ''chat_recovery_decision'' [(''taskId'', ostr (ct_TaskID c)), (''chatSessionId'', ostr (ct_SessionID c)),
              (''continueAttempts'', oint (ct_ContinueAttempts c)), (''replacementAllowed'', obool True),
              (''automaticReplacement'', obool False)]])"

fun tick_chats :: "collab_state \<Rightarrow> instant \<Rightarrow> oval list \<Rightarrow> chat list \<Rightarrow> oval list" where
  "tick_chats st now acc [] = acc"
| "tick_chats st now acc (c # cs) =
     (if ct_Status c \<noteq> ''active'' then tick_chats st now acc cs
      else let acc = (if needs_callback c then acc @ [act ''ensure_callback'' [(''taskId'', ostr (ct_TaskID c))]] else acc)
      in if needs_callback c \<and> length acc = 8 then acc
      else let acc = acc @ poll_actions st now c @ stall_actions c
      in if length acc = 8 then acc else tick_chats st now acc cs)"

definition cloudCollaborationTickActionsAt :: "collab_state \<Rightarrow> instant \<Rightarrow> oval list" where
  "cloudCollaborationTickActionsAt st now =
     (if cs_Status st = ''closing'' then [act ''retry_close'' []]
      else if cs_Status st \<noteq> ''active'' then []
      else case tick_events [] (cs_Events st) of
        Done acc \<Rightarrow> acc
      | Go acc \<Rightarrow> (case tick_tasks acc (cs_Tasks st) of
          Done acc \<Rightarrow> acc
        | Go acc \<Rightarrow> tick_chats st now acc (cs_Chats st)))"

section \<open>How many actions a tick returns\<close>

lemma tick_events_length:
  "length acc \<le> 7 \<Longrightarrow> (\<exists>a. tick_events acc es = Done a \<and> length a = 8) \<or> (\<exists>a. tick_events acc es = Go a \<and> length a \<le> 7)"
  by (induction acc es rule: tick_events.induct) (auto simp: Let_def)

lemma length_task_actions: "length (task_actions t) \<le> 1"
proof (cases "tk_Status t = ''active''")
  case True
  then show ?thesis by (simp add: task_actions_def)
qed (simp add: task_actions_def)

lemma tick_tasks_length:
  "length acc \<le> 7 \<Longrightarrow> (\<exists>a. tick_tasks acc ts = Done a \<and> length a = 8) \<or> (\<exists>a. tick_tasks acc ts = Go a \<and> length a \<le> 7)"
proof (induction acc ts rule: tick_tasks.induct)
  case (2 acc t ts)
  show ?case
  proof (cases "length (acc @ task_actions t) = 8")
    case False
    with 2 length_task_actions [of t] have "length (acc @ task_actions t) \<le> 7" by simp
    with 2 False show ?thesis by (simp add: Let_def)
  qed (simp add: Let_def)
qed simp

lemma length_poll_actions: "length (poll_actions st now c) \<le> 1"
  by (simp add: poll_actions_def)

lemma length_stall_actions: "length (stall_actions c) = (if ct_StalledNotified c then 1 else 0)"
  by (simp add: stall_actions_def)

lemma tick_chats_no_stall:
  "length acc \<le> 7 \<Longrightarrow> \<forall>c \<in> set cs. \<not> ct_StalledNotified c \<Longrightarrow> length (tick_chats st now acc cs) \<le> 8"
proof (induction cs arbitrary: acc)
  case (Cons c cs)
  show ?case
  proof (cases "ct_Status c = ''active''")
    case True
    define acc1 where "acc1 = (if needs_callback c then acc @ [act ''ensure_callback'' [(''taskId'', ostr (ct_TaskID c))]] else acc)"
    have l1: "length acc1 \<le> 8" "needs_callback c \<or> length acc1 \<le> 7"
      using Cons.prems(1) by (simp_all add: acc1_def)
    define acc2 where "acc2 = acc1 @ poll_actions st now c @ stall_actions c"
    have eq: "tick_chats st now acc (c # cs) = (if needs_callback c \<and> length acc1 = 8 then acc1
        else if length acc2 = 8 then acc2 else tick_chats st now acc2 cs)"
      using True by (simp add: acc1_def acc2_def Let_def)
    show ?thesis
    proof (cases "needs_callback c \<and> length acc1 = 8")
      case False
      then have "length acc2 \<le> 8"
        using l1 Cons.prems(2) length_poll_actions [of st now c] by (auto simp: acc2_def length_stall_actions)
      then show ?thesis using False Cons.IH [of acc2] Cons.prems(2) by (auto simp: eq simp del: tick_chats.simps)
    qed (simp add: eq del: tick_chats.simps)
  qed (use Cons in simp)
qed simp

text \<open>With stalled chats the list can pass 8; each active chat adds three at most.\<close>

lemma tick_chats_bound: "length (tick_chats st now acc cs) \<le> length acc + 3 * length cs"
proof (induction cs arbitrary: acc)
  case (Cons c cs)
  define acc1 where "acc1 = (if needs_callback c then acc @ [act ''ensure_callback'' [(''taskId'', ostr (ct_TaskID c))]] else acc)"
  define acc2 where "acc2 = acc1 @ poll_actions st now c @ stall_actions c"
  have "length acc1 \<le> length acc + 1" by (simp add: acc1_def)
  moreover have "length acc2 \<le> length acc1 + 2"
    using length_poll_actions [of st now c] by (auto simp: acc2_def length_stall_actions)
  moreover have "tick_chats st now acc (c # cs) = (if ct_Status c \<noteq> ''active'' then tick_chats st now acc cs
      else if needs_callback c \<and> length acc1 = 8 then acc1
      else if length acc2 = 8 then acc2 else tick_chats st now acc2 cs)"
    by (simp add: acc1_def acc2_def Let_def)
  ultimately show ?case using Cons.IH [of acc] Cons.IH [of acc2] by (auto simp del: tick_chats.simps)
qed simp

section \<open>The view\<close>

definition count_statuses :: "string list \<Rightarrow> out" where
  "count_statuses ss = fold (\<lambda>s m. put s (oint (numberField m s + 1)) m) ss []"

definition decision_view :: "decision \<Rightarrow> oval" where
  "decision_view d = OObj [(''decisionId'', ostr (dc_ID d)), (''kind'', ostr (dc_Kind d)),
     (''question'', ostr (dc_Question d)), (''options'', OStrings (dc_Options d)),
     (''recommendation'', ostr (dc_Recommendation d))]"

definition ostamp :: "stamp \<Rightarrow> oval" where
  "ostamp s = (case s of NoStamp \<Rightarrow> ostr [] | BadStamp t \<Rightarrow> ostr t | Stamp i \<Rightarrow> OTime (from_unix i))"

definition cloudCollaborationView :: "string \<Rightarrow> string \<Rightarrow> int \<Rightarrow> collab_state \<Rightarrow> string \<Rightarrow> instant \<Rightarrow> out" where
  "cloudCollaborationView collaborationID machineID revision st role now =
     [(''collaborationId'', ostr collaborationID), (''title'', ostr (cs_Title st)), (''status'', ostr (cs_Status st)),
      (''revision'', oint revision), (''generation'', oint (cs_Generation st)),
      (''goalCounts'', OObj (count_statuses (map gl_Status (cs_Goals st)))),
      (''taskCounts'', OObj (count_statuses (map tk_Status (cs_Tasks st)))),
      (''activeChats'', oint (activeCloudChats st)), (''createCount'', oint (cs_CreateCount st)),
      (''pendingDecisions'', OArr (map decision_view (filter (\<lambda>d. dc_Status d = ''requested'') (cs_Decisions st)))),
      (''nextActions'', OArr (cloudCollaborationTickActionsAt st now)), (''role'', ostr role)]
     @ (if role = ''controller'' then []
        else [(''machineId'', ostr machineID), (''workingDirectory'', ostr (cs_WorkingDirectory st)),
          (''allowedActions'', OStrings (cs_AllowedActions st)),
          (''limits'', OObj [(''maxDepth'', oint (cs_MaxDepth st)), (''maxActiveChats'', oint (cs_MaxActiveChats st)),
             (''maxCreates'', oint (cs_MaxCreates st)), (''heartbeatMinutes'', oint (cs_HeartbeatMinutes st)),
             (''stallMinutes'', oint (cs_StallMinutes st)), (''deadline'', ostamp (cs_Deadline st))]),
          (''tasks'', OTasks (cs_Tasks st)), (''chats'', OChats (cs_Chats st)), (''events'', OEvents (cs_Events st)),
          (''checkpoint'', ostr (cs_Checkpoint st))])"

definition cloudCollaborationTick :: "string \<Rightarrow> int \<Rightarrow> collab_state \<Rightarrow> instant \<Rightarrow> out" where
  "cloudCollaborationTick collaborationID revision st now =
     (let actions = cloudCollaborationTickActionsAt st now;
          nxt = cloudCollaborationNextStatusCheckAt st now
      in [(''collaborationId'', ostr collaborationID), (''status'', ostr (cs_Status st)), (''revision'', oint revision),
          (''actions'', OArr actions), (''bounded'', obool True), (''externalCalls'', oint 0), (''idle'', obool (actions = []))]
         @ (if actions = [] \<and> \<not> is_zero nxt then [(''nextCheckAt'', ostamp (format_stamp nxt))] else []))"

end
