(* ===== verification/Collab_Props.thy ===== *)
theory Collab_Props
  imports Collab_Demo Collab_View
begin

text \<open>What the operations of a collaboration promise: the grant a new task gets, the life of a task, the
  inbox of observations, rotation, the actor and lease checks, write scopes and the scheduler tick.\<close>

section \<open>New tasks\<close>

text \<open>Property C8: a task that \<open>task.add\<close> accepts is queued under a new identifier, within the depth and
  the actions of the collaboration; added by a CHAT it stays one level below that CHAT, within its
  actions and (when the CHAT has one) its write scope; a write scope overlaps no active writer's; a
  deliverable lies in the working directory and in the resolved write scope.\<close>

theorem AddTask_grant:
  assumes "wf_state st" "cloudCollaborationAddTask dg now st req role = Inr st'"
  shows "\<exists>t. st' = st\<lparr>cs_Tasks := cs_Tasks st @ [t]\<rparr> \<and> tk_Status t = ''queued'' \<and> tk_ID t \<notin> tk_ID ` set (cs_Tasks st)
     \<and> tk_Depth t \<le> cs_MaxDepth st \<and> set (tk_AllowedActions t) \<subseteq> set (cs_AllowedActions st)
     \<and> (role = ''chat'' \<longrightarrow> (\<exists>c \<in> set (cs_Chats st). ct_SessionID c = rq_ActorSessionID req \<and> ct_Status c = ''active''
          \<and> tk_Depth t = ct_Depth c + 1 \<and> set (tk_AllowedActions t) \<subseteq> set (ct_AllowedActions c)
          \<and> (tk_AccessMode t = ''write'' \<and> ct_WriteScope c \<noteq> []
             \<longrightarrow> scopeContains (dg_lower dg) (ct_WriteScope c) (tk_WriteScope t))))
     \<and> (tk_AccessMode t = ''write'' \<longrightarrow> (\<forall>c \<in> set (cs_Chats st). ct_Status c = ''active'' \<and> ct_AccessMode c = ''write''
          \<longrightarrow> \<not> scopesOverlap (dg_lower dg) (ct_WriteScope c) (tk_WriteScope t)))
     \<and> (tk_DeliverablePath t \<noteq> [] \<longrightarrow> tk_AccessMode t = ''write'' \<and> ''file.write'' \<in> set (tk_AllowedActions t)
          \<and> scopeContains (dg_lower dg) (cs_WorkingDirectory st) (tk_DeliverablePath t)
          \<and> scopeContains (dg_lower dg) (resolveCollaborationScope (cs_WorkingDirectory st) (tk_WriteScope t)) (tk_DeliverablePath t))"
proof (rule AddTask_Inr [OF assms(2)])
  fix t pa ps
  assume st': "st' = st\<lparr>cs_Tasks := cs_Tasks st @ [t]\<rparr>" and id: "tk_ID t \<notin> tk_ID ` set (cs_Tasks st)"
    and parent: "task_parent st req role = Inr (tk_ParentSession t, tk_Depth t, pa, ps)"
    and bounds: "tk_Depth t \<le> cs_MaxDepth st" "set (tk_AllowedActions t) \<subseteq> set pa" "tk_Status t = ''queued''"
    and access: "task_access_error dg st role ps (tk_AllowedActions t) (tk_AccessMode t) (tk_WriteScope t) (tk_DeliverablePath t) = None"
  have within: "set (tk_AllowedActions t) \<subseteq> set (cs_AllowedActions st)"
    using task_parent_within [OF assms(1) parent] bounds(2) by blast
  have scopes: "tk_AccessMode t = ''write'' \<longrightarrow> role = ''chat'' \<and> ps \<noteq> [] \<longrightarrow> scopeContains (dg_lower dg) ps (tk_WriteScope t)"
    "tk_AccessMode t = ''write'' \<longrightarrow> (\<forall>c \<in> set (cs_Chats st). ct_Status c = ''active'' \<and> ct_AccessMode c = ''write''
          \<longrightarrow> \<not> scopesOverlap (dg_lower dg) (ct_WriteScope c) (tk_WriteScope t))"
    "tk_DeliverablePath t \<noteq> [] \<longrightarrow> tk_AccessMode t = ''write'' \<and> ''file.write'' \<in> set (tk_AllowedActions t)
          \<and> scopeContains (dg_lower dg) (cs_WorkingDirectory st) (tk_DeliverablePath t)
          \<and> scopeContains (dg_lower dg) (resolveCollaborationScope (cs_WorkingDirectory st) (tk_WriteScope t)) (tk_DeliverablePath t)"
    using access by (auto simp: task_access_error_def list_ex_iff split: if_splits)
  have "role = ''chat'' \<longrightarrow> (\<exists>c \<in> set (cs_Chats st). ct_SessionID c = rq_ActorSessionID req \<and> ct_Status c = ''active''
      \<and> tk_Depth t = ct_Depth c + 1 \<and> pa = ct_AllowedActions c \<and> ps = ct_WriteScope c)"
    using parent by (auto simp: task_parent_def Let_def split: if_splits option.splits dest!: find_SomeD)
  then have chat: "role = ''chat'' \<longrightarrow> (\<exists>c \<in> set (cs_Chats st). ct_SessionID c = rq_ActorSessionID req \<and> ct_Status c = ''active''
          \<and> tk_Depth t = ct_Depth c + 1 \<and> set (tk_AllowedActions t) \<subseteq> set (ct_AllowedActions c)
          \<and> (tk_AccessMode t = ''write'' \<and> ct_WriteScope c \<noteq> []
             \<longrightarrow> scopeContains (dg_lower dg) (ct_WriteScope c) (tk_WriteScope t)))"
    using scopes(1) bounds(2) by metis
  show ?thesis
    using st' id bounds(1,3) within scopes(2,3) chat by (intro exI [of _ t] conjI)
qed

theorem AddTask_grant_witness:
  "\<exists>t. cloudCollaborationAddTask demo_digests demo_now demo_running demo_add ''dispatcher'' = Inr (demo_running\<lparr>cs_Tasks := cs_Tasks demo_running @ [t]\<rparr>)
     \<and> tk_Status t = ''queued''"
proof -
  obtain st' where st': "cloudCollaborationAddTask demo_digests demo_now demo_running demo_add ''dispatcher'' = Inr st'"
    using demo_add_ok by (rule is_okE)
  show ?thesis using AddTask_grant [OF demo_wf(2) st'] st' by auto
qed

section \<open>The life of a task\<close>

text \<open>Runs of \<open>task.update\<close>.\<close>

inductive update_run :: "collab_state \<Rightarrow> collab_state \<Rightarrow> bool" where
  stop: "update_run st st"
| more: "update_run st st' \<Longrightarrow> cloudCollaborationUpdateTask now st' req = Inr st'' \<Longrightarrow> update_run st st''"

lemma UpdateTask_Inr:
  assumes "cloudCollaborationUpdateTask now st req = Inr st'"
  obtains i where "taskIndex st (trim_space (rq_TaskID req)) = Some i" "i < length (cs_Tasks st)"
    "task_update_allowed (cs_Tasks st ! i) (trim_space (rq_TaskStatus req))"
    "trim_space (rq_TaskStatus req) = ''done'' \<Longrightarrow> task_result_validated st (tk_ID (cs_Tasks st ! i))"
    "st' = upd_task i (\<lambda>t. t\<lparr>tk_Status := trim_space (rq_TaskStatus req), tk_UpdatedAt := format_stamp now\<rparr>) st"
  using assms unfolding cloudCollaborationUpdateTask_def Let_def guards by (auto dest: taskIndex_Some)

lemma update_not_settled: "task_update_allowed t nxt \<Longrightarrow> \<not> settled (tk_Status t)"
  by (auto simp: task_update_allowed_def settled_def)

text \<open>Property C9: whatever \<open>task.update\<close> requests follow, a task that is done or dropped stays as it is,
  to the last field, and a task they make done has acknowledged evidence of a result.\<close>

theorem update_run_settled:
  assumes "update_run st st'"
  shows "length (cs_Tasks st') = length (cs_Tasks st) \<and> (\<forall>i < length (cs_Tasks st).
     (settled (tk_Status (cs_Tasks st ! i)) \<longrightarrow> cs_Tasks st' ! i = cs_Tasks st ! i)
     \<and> (tk_Status (cs_Tasks st' ! i) = ''done'' \<and> tk_Status (cs_Tasks st ! i) \<noteq> ''done''
        \<longrightarrow> task_result_validated st (tk_ID (cs_Tasks st ! i))))"
proof -
  have "cs_Events st' = cs_Events st \<and> map tk_ID (cs_Tasks st') = map tk_ID (cs_Tasks st) \<and>
    (\<forall>i < length (cs_Tasks st). (settled (tk_Status (cs_Tasks st ! i)) \<longrightarrow> cs_Tasks st' ! i = cs_Tasks st ! i)
     \<and> (tk_Status (cs_Tasks st' ! i) = ''done'' \<and> tk_Status (cs_Tasks st ! i) \<noteq> ''done''
        \<longrightarrow> task_result_validated st (tk_ID (cs_Tasks st ! i))))"
    using assms
  proof (induction rule: update_run.induct)
    case (more st st' now req st'')
    obtain j where j: "j < length (cs_Tasks st')"
        "task_update_allowed (cs_Tasks st' ! j) (trim_space (rq_TaskStatus req))"
        "trim_space (rq_TaskStatus req) = ''done'' \<longrightarrow> task_result_validated st' (tk_ID (cs_Tasks st' ! j))"
      and st'': "st'' = upd_task j (\<lambda>t. t\<lparr>tk_Status := trim_space (rq_TaskStatus req), tk_UpdatedAt := format_stamp now\<rparr>) st'"
      using UpdateTask_Inr [OF more.hyps(2)] by metis
    have len: "length (cs_Tasks st') = length (cs_Tasks st)" using more.IH by (metis length_map)
    have ids: "tk_ID (cs_Tasks st' ! i) = tk_ID (cs_Tasks st ! i)" if "i < length (cs_Tasks st)" for i
      using more.IH that len by (metis nth_map)
    have val: "task_result_validated st' = task_result_validated st"
      using more.IH by (simp add: task_result_validated_def fun_eq_iff)
    have "\<not> settled (tk_Status (cs_Tasks st' ! j))" using j(2) by (rule update_not_settled)
    then have open_j: "\<not> settled (tk_Status (cs_Tasks st ! j))" using more.IH j(1) len by auto
    show ?case
      using more.IH j open_j ids val len by (auto simp: st'' nth_modify map_modify)
  qed simp
  then show ?thesis by (metis length_map)
qed

definition demo_drop :: collab_request where
  "demo_drop = empty_request\<lparr>rq_TaskID := ''t1'', rq_TaskStatus := ''blocked''\<rparr>"

theorem update_run_settled_witness:
  "\<exists>st'. update_run demo_running st' \<and> st' \<noteq> demo_running \<and> length (cs_Tasks st') = 1"
proof -
  have "is_ok (cloudCollaborationUpdateTask demo_now demo_running demo_drop)" by code_simp
  then obtain st' where st': "cloudCollaborationUpdateTask demo_now demo_running demo_drop = Inr st'" by (rule is_okE)
  have "\<not> (case cloudCollaborationUpdateTask demo_now demo_running demo_drop of Inr st' \<Rightarrow> map tk_Status (cs_Tasks st') = [''active''] | _ \<Rightarrow> True)"
    by code_simp
  with st' have "st' \<noteq> demo_running" by (auto simp: demo_running_def demo_task_def)
  moreover have run: "update_run demo_running st'" using update_run.more [OF update_run.stop st'] .
  ultimately show ?thesis using update_run_settled [OF run] by (auto simp: demo_running_def)
qed

section \<open>Observations\<close>

lemma append_event_events:
  obtains es where "cs_Events (append_event e st) = es @ [e]" "set es \<subseteq> set (cs_Events st)"
  using set_kept_events [of "cs_Events st"] by (intro that) (simp_all add: append_event_def)

lemma taskIndex_append_event [simp]: "taskIndex (append_event e st) = taskIndex st"
  by (simp add: taskIndex_def fun_eq_iff)

lemma ingest_scan_append:
  "\<forall>e \<in> set es. ev_ID e \<noteq> i \<and> \<not> (ev_SessionID e = sess \<and> ev_Generation e = gen \<and> sq \<le> ev_Sequence e)
     \<Longrightarrow> ingest_scan i sig sess gen sq (es @ fs) = ingest_scan i sig sess gen sq fs"
  by (induction es) auto

text \<open>Delivering an observation again is harmless: a request that was accepted is accepted
  again and then changes nothing.\<close>

theorem IngestEvent_idempotent:
  assumes "cloudCollaborationIngestEvent dg now st req = Inr st'"
  shows "cloudCollaborationIngestEvent dg later st' req = Inr st'"
proof (rule IngestEvent_Inr [OF assms])
  fix e assume "st' = st" "e \<in> set (cs_Events st)" "ev_ID e = rq_EventID req"
  then show ?thesis
    using assms unfolding cloudCollaborationIngestEvent_def Let_def guards
    by (auto split: scan_result.splits) (auto simp: ingest_scan_ScanNew)
next
  fix i
  let ?e = "ingested_event dg now (cs_Tasks st ! i) req"
  let ?f = "\<lambda>t. t\<lparr>tk_ResultID := rq_ResultID req, tk_ResultStatus := rq_ResultStatus req,
         tk_ResultSHA256 := rq_ResultSHA256 req, tk_UpdatedAt := format_stamp now,
         tk_Status := (if rq_ResultStatus req = ''ready'' \<or> rq_ResultStatus req = ''completed''
                       then ''result_available'' else tk_Status t)\<rparr>"
  assume i: "taskIndex st (rq_TaskID req) = Some i" and st': "st' = upd_task i ?f (append_event ?e st)"
    and new: "\<forall>e \<in> set (cs_Events st). ev_ID e \<noteq> rq_EventID req \<and> \<not> (ev_SessionID e = tk_ChatSessionID (cs_Tasks st ! i)
         \<and> ev_Generation e = rq_EventGeneration req \<and> rq_EventSequence req \<le> ev_Sequence e)"
  have i': "taskIndex st' (rq_TaskID req) = Some i" by (simp add: st' taskIndex_upd_task i)
  have len: "i < length (cs_Tasks st)" using taskIndex_Some [OF i] by simp
  then have task: "cs_Tasks st' ! i = ?f (cs_Tasks st ! i)" by (simp add: st')
  have valid: "validateCloudCollaborationEventResult (?f t) req = validateCloudCollaborationEventResult t req" for t
    by (simp add: validateCloudCollaborationEventResult_def)
  have sig: "event_signature dg (?f t) req = event_signature dg t req" for t by (simp add: event_signature_def)
  have "ingest_scan (rq_EventID req) (event_signature dg (cs_Tasks st ! i) req) (tk_ChatSessionID (cs_Tasks st ! i))
      (rq_EventGeneration req) (rq_EventSequence req) (cs_Events st') = ScanReplay"
  proof (rule append_event_events [of ?e st])
    fix es assume es: "cs_Events (append_event ?e st) = es @ [?e]" "set es \<subseteq> set (cs_Events st)"
    have events: "cs_Events st' = es @ [?e]" by (simp add: st' es(1))
    have old: "\<forall>e \<in> set es. ev_ID e \<noteq> rq_EventID req \<and> \<not> (ev_SessionID e = tk_ChatSessionID (cs_Tasks st ! i)
         \<and> ev_Generation e = rq_EventGeneration req \<and> rq_EventSequence req \<le> ev_Sequence e)"
      using new es(2) by blast
    show ?thesis unfolding events ingest_scan_append [OF old] by (simp add: ingested_event_def)
  qed
  then show ?thesis
    using assms i i' task valid [of "cs_Tasks st ! i"] sig [of "cs_Tasks st ! i"]
    unfolding cloudCollaborationIngestEvent_def Let_def guards by simp
qed

theorem IngestEvent_idempotent_witness:
  "\<exists>st'. cloudCollaborationIngestEvent demo_digests demo_now demo_running demo_event = Inr st'
     \<and> cloudCollaborationIngestEvent demo_digests (demo_now + minute) st' demo_event = Inr st'"
proof -
  obtain st' where st': "cloudCollaborationIngestEvent demo_digests demo_now demo_running demo_event = Inr st'"
    using demo_event_ok by (rule is_okE)
  show ?thesis using st' IngestEvent_idempotent [OF st'] by blast
qed

text \<open>After a rotation the retired CHAT can report nothing: an observation of the task's
  earlier generation is refused as unauthorized.\<close>

theorem RotateChat_fences:
  assumes "cloudCollaborationRotateChat st rot = Inr st'"
    and "rq_TaskID req = rq_TaskID rot" "taskIndex st (rq_TaskID rot) = Some i"
    and "rq_EventGeneration req \<le> tk_Generation (cs_Tasks st ! i)"
  shows "cloudCollaborationIngestEvent dg now st' req = Inl ErrUnauthorized
    \<or> cloudCollaborationIngestEvent dg now st' req = Inl ErrConflict"
proof -
  obtain cidx where st': "st' = set_checkpoint (rq_Checkpoint rot) (upd_task i requeue (next_generation (upd_chat cidx retire st)))"
    using assms(1,3) unfolding RotateChat_steps guards by auto
  have len: "i < length (cs_Tasks st)" using taskIndex_Some [OF assms(3)] by simp
  have same: "cs_Tasks (set_checkpoint k s) = cs_Tasks s" for k s by (simp add: set_checkpoint_def)
  have task: "cs_Tasks st' ! i = requeue (cs_Tasks st ! i)" by (simp add: st' same len)
  have "taskIndex (set_checkpoint k s) = taskIndex s" "taskIndex (next_generation s) = taskIndex s" for k s
    by (simp_all add: taskIndex_def fun_eq_iff same)
  then have "taskIndex st' (rq_TaskID req) = Some i"
    using assms(2,3) by (simp add: st' taskIndex_upd_task requeue_def)
  then show ?thesis
    using task assms(4) by (simp add: cloudCollaborationIngestEvent_def Let_def requeue_def)
qed

theorem RotateChat_fences_witness:
  "\<exists>st'. cloudCollaborationRotateChat demo_running demo_event = Inr st'
     \<and> \<not> is_ok (cloudCollaborationIngestEvent demo_digests demo_now st' demo_event)"
proof -
  obtain st' where st': "cloudCollaborationRotateChat demo_running demo_event = Inr st'"
    using demo_rot by (rule is_okE)
  have "taskIndex demo_running (rq_TaskID demo_event) = Some 0"
    "rq_EventGeneration demo_event \<le> tk_Generation (cs_Tasks demo_running ! 0)" by code_simp+
  from RotateChat_fences [OF st' refl this, of demo_digests demo_now] show ?thesis using st' by auto
qed

end
