(* ===== verification/Collab_Limits.thy ===== *)
theory Collab_Limits
  imports Collab_Demo Collab_View
begin

text \<open>Write scopes as paths, the bound of a scheduler tick, and the test for closing against the guards of
  \<open>close\<close>.\<close>

section \<open>Scopes\<close>

text \<open>Property C10: for rooted paths, containment of scopes is the prefix order on cleaned path elements, so
  no spelling with \<open>..\<close>, doubled or trailing slashes or back-slashes leaves a scope; and no element of a
  contained path is \<open>..\<close>. (The file-system root as a scope contains nothing.)\<close>

theorem scopeContains_prefix:
  assumes "rooted p" "rooted c"
  shows "(scopeContains uni p c \<longleftrightarrow> scope_elems p \<noteq> [] \<and> take (length (scope_elems p)) (scope_elems c) = scope_elems p)
    \<and> ''..'' \<notin> set (scope_elems c)"
proof -
  have "(\<exists>rest. xs = ys @ rest) \<longleftrightarrow> take (length ys) xs = ys" for xs ys :: "string list"
    by (metis append_eq_conv_conj append_take_drop_id)
  then show ?thesis using scopeContains_rooted [OF assms] scope_elems_no_dotdot [OF assms(2)] by simp
qed

theorem scopeContains_prefix_witness:
  "scopeContains (\<lambda>s. s) ''/w/a'' ''/w//x/../a/b'' \<and> \<not> scopeContains (\<lambda>s. s) ''/w/a'' ''/w/a/../b''"
proof -
  have r: "rooted ''/w/a''" "rooted ''/w//x/../a/b''" "rooted ''/w/a/../b''" by code_simp+
  have e: "scope_elems ''/w/a'' = [''w'', ''a'']" "scope_elems ''/w//x/../a/b'' = [''w'', ''a'', ''b'']"
    "scope_elems ''/w/a/../b'' = [''w'', ''b'']" by code_simp+
  show ?thesis
    using scopeContains_prefix [OF r(1,2), of "\<lambda>s. s"] scopeContains_prefix [OF r(1,3), of "\<lambda>s. s"] by (simp add: e)
qed

text \<open>Two spellings of one rooted scope always overlap, so two writers cannot share it.\<close>

lemma scopesOverlap_same_elems:
  assumes "rooted p" "rooted c" "scope_elems p = scope_elems c" "scope_elems p \<noteq> []"
  shows "scopesOverlap uni p c"
  using assms scopeContains_rooted [OF assms(1,2)] by (simp add: scopesOverlap_def)

text \<open>The scope \<open>.\<close> (the whole working directory) overlaps nothing, itself included.\<close>

lemma scopesOverlap_dot: "\<not> scopesOverlap uni ''.'' ''.''"
  by (simp add: scopesOverlap_def scopeContains_def normalizeCollaborationPath_def Let_def) code_simp

section \<open>The tick\<close>

text \<open>A scheduler tick returns at most eight actions as long as no active CHAT has been marked
  stalled.\<close>

theorem tick_actions_bounded:
  assumes "\<forall>c \<in> set (cs_Chats st). \<not> ct_StalledNotified c"
  shows "length (cloudCollaborationTickActionsAt st now) \<le> 8"
proof -
  consider a where "tick_events [] (cs_Events st) = Done a" "length a = 8" | a where "tick_events [] (cs_Events st) = Go a" "length a \<le> 7"
    using tick_events_length [of "[]" "cs_Events st"] by auto
  then show ?thesis
  proof cases
    case (2 a)
    show ?thesis
      using tick_tasks_length [OF 2(2), of "cs_Tasks st"] tick_chats_no_stall [OF _ assms]
      by (auto simp: cloudCollaborationTickActionsAt_def 2(1))
  qed (simp add: cloudCollaborationTickActionsAt_def)
qed

theorem tick_actions_bounded_witness: "length (cloudCollaborationTickActionsAt demo_running demo_now) \<le> 8"
  by (rule tick_actions_bounded) code_simp

text \<open>With stalled CHATs the test \<open>len(actions) == 8\<close> can be stepped over, because a due poll and the
  recovery of a stall are appended before it: the list then grows past its bound of eight.\<close>

definition stalled_chat :: "string \<Rightarrow> chat" where
  "stalled_chat s = demo_chat\<lparr>ct_SessionID := s, ct_TaskID := s, ct_StalledNotified := True, ct_LastObservedAt := Stamp 1799000000\<rparr>"

definition pending_event :: event where
  "pending_event = \<lparr>ev_ID = ''p1'', ev_TaskID = ''a'', ev_SessionID = ''a'', ev_Generation = 1, ev_Sequence = 1,
     ev_Type = ''conversation.turn.complete'', ev_ResultID = [], ev_ResultStatus = ''running'', ev_ResultBytes = 0,
     ev_ResultSHA256 = [], ev_CallbackType = [], ev_Status = ''pending'', ev_DeliverablePath = [], ev_DeliverableStatus = [],
     ev_Signature = [], ev_CreatedAt = Stamp 1799999000\<rparr>"

definition stalled_state :: collab_state where
  "stalled_state = demo_state\<lparr>cs_Events := [pending_event],
     cs_Chats := map stalled_chat [''a'', ''b'', ''c'', ''d'', ''e'']\<rparr>"

text \<open>A well-formed collaboration whose tick returns eleven actions.\<close>

theorem tick_actions_overrun:
  "wf_state stalled_state \<and> length (cloudCollaborationTickActionsAt stalled_state demo_now) = 11"
proof -
  have "wf_state stalled_state" by code_simp
  moreover have "length (cloudCollaborationTickActionsAt stalled_state demo_now) = 11" by code_simp
  ultimately show ?thesis ..
qed

end
