(* ===== verification/Sql_Table.thy ===== *)
theory Sql_Table
  imports Collab_Types
begin

text \<open>
  A table of the Hub's SQLite store is the list of its rows in insertion order, a statement an
  operation on that list: \<open>UPDATE ... WHERE\<close> with the number of rows it touched, \<open>DELETE\<close>,
  a query of one row. The interface \<open>versioned_rows\<close> states what the two components that guard
  their rows by a revision number rely on (collaborations and results); it is interpreted in the
  theories of those tables.
\<close>

definition sql_update :: "('r \<Rightarrow> bool) \<Rightarrow> ('r \<Rightarrow> 'r) \<Rightarrow> 'r list \<Rightarrow> 'r list" where
  "sql_update c f t = map (\<lambda>r. if c r then f r else r) t"

definition sql_affected :: "('r \<Rightarrow> bool) \<Rightarrow> 'r list \<Rightarrow> nat" where
  "sql_affected c t = length (filter c t)"

definition sql_delete :: "('r \<Rightarrow> bool) \<Rightarrow> 'r list \<Rightarrow> 'r list" where
  "sql_delete c t = filter (\<lambda>r. \<not> c r) t"

text \<open>A conditional update of one row, with the check \<open>affected != 1\<close> the code makes after it.\<close>

definition sql_cas :: "('r \<Rightarrow> bool) \<Rightarrow> ('r \<Rightarrow> 'r) \<Rightarrow> 'r list \<Rightarrow> hub_error + 'r list" where
  "sql_cas c f t = (if sql_affected c t = 1 then Inr (sql_update c f t) else Inl ErrConflict)"

lemma length_sql_update [simp]: "length (sql_update c f t) = length t"
  by (simp add: sql_update_def)

lemma map_sql_update: "(\<And>r. g (f r) = g r) \<Longrightarrow> map g (sql_update c f t) = map g t"
  by (simp add: sql_update_def)

lemma set_sql_update: "set (sql_update c f t) = (\<lambda>r. if c r then f r else r) ` set t"
  by (simp add: sql_update_def)

lemma sql_update_none: "(\<And>r. r \<in> set t \<Longrightarrow> \<not> c r) \<Longrightarrow> sql_update c f t = t"
  by (simp add: sql_update_def map_idI)

lemma sql_affected_0 [simp]: "sql_affected c t = 0 \<longleftrightarrow> (\<forall>r \<in> set t. \<not> c r)"
  by (simp add: sql_affected_def filter_empty_conv)

lemma sql_affected_pos: "r \<in> set t \<Longrightarrow> c r \<Longrightarrow> sql_affected c t \<noteq> 0"
  by auto

lemma distinct_key_unique:
  "distinct (map key t) \<Longrightarrow> r \<in> set t \<Longrightarrow> r' \<in> set t \<Longrightarrow> key r = key r' \<Longrightarrow> r = r'"
  by (auto simp: distinct_map inj_on_def)

lemma sql_affected_key_le:
  assumes "distinct (map key t)" "\<And>r. c r \<Longrightarrow> key r = k"
  shows "sql_affected c t \<le> 1"
proof -
  have d: "distinct (map key (filter c t))" using assms(1) by (simp add: distinct_map_filter)
  have "set (map key (filter c t)) \<subseteq> {k}" by (auto dest: assms(2))
  then have "card (set (map key (filter c t))) \<le> card {k}" by (intro card_mono) simp_all
  with distinct_card [OF d] show ?thesis by (simp add: sql_affected_def)
qed

lemma sql_affected_key_eq:
  assumes "distinct (map key t)" "\<And>r. c r \<Longrightarrow> key r = k"
  shows "sql_affected c t = (if \<exists>r \<in> set t. c r then 1 else 0)"
proof (cases "\<exists>r \<in> set t. c r")
  case True
  then have "0 < sql_affected c t" by (auto simp: sql_affected_def filter_empty_conv)
  moreover have "sql_affected c t \<le> 1" by (rule sql_affected_key_le [OF assms(1)]) (rule assms(2))
  ultimately have "sql_affected c t = 1" by arith
  with True show ?thesis by simp
qed auto

lemma sql_cas_Inr: "sql_cas c f t = Inr t' \<longleftrightarrow> sql_affected c t = 1 \<and> t' = sql_update c f t"
  by (auto simp: sql_cas_def)

lemma find_map_key:
  "find (\<lambda>r. key r = k) t = Some r \<Longrightarrow> r \<in> set t \<and> key r = k"
  by (auto simp: find_Some_iff in_set_conv_nth)

lemma find_key_distinct:
  assumes "distinct (map key t)" "r \<in> set t"
  shows "find (\<lambda>x. key x = key r) t = Some r"
proof (cases "find (\<lambda>x. key x = key r) t")
  case None
  with assms(2) show ?thesis by (auto simp: find_None_iff)
next
  case (Some x)
  with find_map_key [OF Some] assms show ?thesis by (auto dest: distinct_key_unique)
qed

section \<open>Rows guarded by a revision\<close>

locale versioned_rows =
  fixes key :: "'r \<Rightarrow> 'k" and rev_of :: "'r \<Rightarrow> int" and bump :: "'c \<Rightarrow> 'r \<Rightarrow> 'r"
  assumes key_bump: "key (bump c r) = key r"
    and rev_bump: "rev_of (bump c r) = rev_of r + 1"
begin

definition cas :: "('r \<Rightarrow> bool) \<Rightarrow> 'k \<Rightarrow> int \<Rightarrow> 'c \<Rightarrow> 'r list \<Rightarrow> hub_error + 'r list" where
  "cas g k n c = sql_cas (\<lambda>r. key r = k \<and> g r \<and> rev_of r = n) (bump c)"

lemma keys_kept: "map key (sql_update p (bump c) t) = map key t"
  by (rule map_sql_update) (rule key_bump)

lemma cas_keys: "cas g k n c t = Inr t' \<Longrightarrow> map key t' = map key t"
  by (auto simp: cas_def sql_cas_Inr keys_kept)

lemma cas_row:
  assumes "cas g k n c t = Inr t'" "distinct (map key t)"
  obtains r where "r \<in> set t" "key r = k" "g r" "rev_of r = n"
    "bump c r \<in> set t'" "set t' = insert (bump c r) (set t - {r})"
proof -
  let ?p = "\<lambda>r. key r = k \<and> g r \<and> rev_of r = n"
  from assms(1) have a: "sql_affected ?p t = 1" and t': "t' = sql_update ?p (bump c) t"
    by (auto simp: cas_def sql_cas_Inr)
  then have "sql_affected ?p t \<noteq> 0" by simp
  then obtain r where r: "r \<in> set t" "?p r" by auto
  have only: "x = r" if "x \<in> set t" "?p x" for x
    using that r assms(2) by (auto dest: distinct_key_unique)
  have set': "set t' = insert (bump c r) (set t - {r})"
  proof (intro equalityI subsetI)
    fix x assume "x \<in> set t'"
    then obtain y where y: "y \<in> set t" "x = (if ?p y then bump c y else y)"
      by (auto simp: t' set_sql_update)
    show "x \<in> insert (bump c r) (set t - {r})"
    proof (cases "?p y")
      case True
      with y have "x = bump c r" using only [OF y(1)] by simp
      then show ?thesis by simp
    next
      case False
      with y r(2) have "x = y" "y \<noteq> r" by auto
      with y(1) show ?thesis by simp
    qed
  next
    fix x assume x: "x \<in> insert (bump c r) (set t - {r})"
    then consider "x = bump c r" | "x \<in> set t" "x \<noteq> r" by blast
    then show "x \<in> set t'"
    proof cases
      case 1
      then show ?thesis using r unfolding t' set_sql_update by (intro image_eqI [of _ _ r]) simp_all
    next
      case 2
      then have "\<not> ?p x" using only by blast
      then have "x = (if ?p x then bump c x else x)" by (rule if_not_P [symmetric])
      then show ?thesis using 2(1) unfolding t' set_sql_update by (rule image_eqI)
    qed
  qed
  have "bump c r \<in> set t'" unfolding set' by simp
  then show thesis using r set' by (intro that [of r]) simp_all
qed

text \<open>Two writers that read the same revision: the second one is refused.\<close>

lemma cas_once:
  assumes "cas g k n c t = Inr t'" "distinct (map key t)"
  shows "cas g' k n c' t' = Inl ErrConflict"
proof (rule cas_row [OF assms])
  fix r
  assume r: "r \<in> set t" "key r = k" "g r" "rev_of r = n" "bump c r \<in> set t'"
    and set': "set t' = insert (bump c r) (set t - {r})"
  have "\<not> (key x = k \<and> g' x \<and> rev_of x = n)" if "x \<in> set t'" for x
  proof (cases "x = bump c r")
    case True
    then show ?thesis using r by (simp add: rev_bump)
  next
    case False
    with that set' have "x \<in> set t" "x \<noteq> r" by auto
    with r(1,2) assms(2) show ?thesis by (auto dest: distinct_key_unique)
  qed
  then have "sql_affected (\<lambda>x. key x = k \<and> g' x \<and> rev_of x = n) t' = 0" by simp
  then show ?thesis unfolding cas_def sql_cas_def by presburger
qed

lemma cas_succeeds:
  assumes "distinct (map key t)" "r \<in> set t" "g r"
  shows "cas g (key r) (rev_of r) c t = Inr (sql_update (\<lambda>x. key x = key r \<and> g x \<and> rev_of x = rev_of r) (bump c) t)"
proof -
  have "sql_affected (\<lambda>x. key x = key r \<and> g x \<and> rev_of x = rev_of r) t = 1"
    using assms(2,3) by (subst sql_affected_key_eq [OF assms(1), of _ "key r"]) auto
  then show ?thesis by (simp add: cas_def sql_cas_def)
qed

end

end
