(* ===== verification/Hub_World.thy ===== *)
theory Hub_World
  imports Sql_Table Collab_View
begin

text \<open>
  The Hub's durable state (the tables of \<open>internal/hub/store\<close> the modelled components use, as lists
  of rows) with the clock, and the call of a capability on a Node (\<open>CallCapability\<close> of
  \<open>core/service.go\<close>). What the Node answers, and what other requests do to the tables and the
  clock while the Hub waits for it, is the function \<open>en_node\<close> of the environment. A stored time
  is in whole seconds, as the columns hold it.
\<close>

record machine_row =
  mr_ID :: string
  mr_OwnerID :: string
  mr_DisplayName :: string
  mr_AdminNote :: string
  mr_Status :: string
  mr_OS :: string
  mr_Arch :: string
  mr_NodeVersion :: string
  mr_CapabilityDigest :: string
  mr_LastSeenAt :: "int option"
  mr_LastConnectionGeneration :: int
  mr_RevokedAt :: "int option"
  mr_DeletedAt :: "int option"
  mr_Revision :: int
  mr_CreatedAt :: int
  mr_UpdatedAt :: int

record credential_row =
  cr_ID :: string
  cr_MachineID :: string
  cr_PublicKey :: string
  cr_Fingerprint :: string
  cr_Status :: string
  cr_IssuedAt :: int
  cr_RevokedAt :: "int option"

record token_row =
  tr_ID :: string
  tr_CredentialID :: string
  tr_MachineID :: string
  tr_TokenHash :: string
  tr_IssuedAt :: int
  tr_ExpiresAt :: int
  tr_RevokedAt :: "int option"

record nonce_row =
  nr_MachineID :: string
  nr_NonceHash :: string
  nr_CreatedAt :: int
  nr_ExpiresAt :: int

text \<open>The \<open>state_json\<close> column: a state the code can read back, or a text on which
  \<open>json.Unmarshal\<close> fails.\<close>

datatype stored_state = Stored collab_state | Unreadable

record collab_row =
  cb_CollaborationID :: string
  cb_OwnerID :: string
  cb_MachineID :: string
  cb_IdempotencyKey :: string
  cb_RequestHash :: string
  cb_Status :: string
  cb_State :: stored_state
  cb_Revision :: int
  cb_CreatedAt :: int
  cb_UpdatedAt :: int

record notif_row =
  nt_NotificationID :: string
  nt_OwnerID :: string
  nt_CollaborationID :: string
  nt_TaskID :: string
  nt_Generation :: int
  nt_NotificationKind :: string
  nt_Outcome :: string
  nt_CallbackType :: string
  nt_ResultText :: string
  nt_SourceSessionID :: string
  nt_TargetSessionID :: string
  nt_DeliverablePath :: string
  nt_State :: string
  nt_ClaimID :: string
  nt_ClaimedAt :: "int option"
  nt_AckedAt :: "int option"
  nt_CreatedAt :: int
  nt_UpdatedAt :: int

record cap_row =
  cp_MachineID :: string
  cp_CapabilityID :: string
  cp_Version :: string
  cp_Actions :: "string list"
  cp_UpdatedAt :: int

record audit_row =
  ad_OwnerID :: string
  ad_MachineID :: string
  ad_ActorType :: string
  ad_ActorID :: string
  ad_Action :: string
  ad_Result :: string
  ad_RemoteAddr :: string
  ad_ErrorCode :: string
  ad_CreatedAt :: int

record hub =
  hb_machines :: "machine_row list"
  hb_credentials :: "credential_row list"
  hb_tokens :: "token_row list"
  hb_nonces :: "nonce_row list"
  hb_caps :: "cap_row list"
  hb_collabs :: "collab_row list"
  hb_notifs :: "notif_row list"
  hb_audit :: "audit_row list"
  hb_now :: instant

section \<open>Capability calls\<close>

type_synonym jobj = "(string \<times> json) list"

record capability_call =
  cc_MachineID :: string
  cc_RequestID :: string
  cc_TraceID :: string
  cc_Capability :: string
  cc_Action :: string
  cc_Params :: jobj
  cc_OperationDeadline :: instant
  cc_ResponseDeadline :: instant

text \<open>\<open>registry.Call\<close>: an error of the transport, the Node's error, or its result map, which may be
  nil.\<close>

datatype node_reply = Transport hub_error | NodeError cap_error | NodeResult "jobj option"

record env =
  en_digests :: digests
  en_node :: "hub \<Rightarrow> capability_call \<Rightarrow> node_reply \<times> hub"
  en_random :: "hub \<Rightarrow> string \<Rightarrow> string"
  en_timing :: "hub \<Rightarrow> int \<times> int \<times> int"
  en_callerDeadline :: "instant option"

definition retryable_capabilities :: "string list" where
  "retryable_capabilities = [
     ''machine.status/report'', ''file.read/read'', ''file.write/preview'', ''code.search/search'', ''job.control/watch'',
     ''git.repository/status'', ''git.repository/diff'', ''git.repository/stagedDiff'', ''git.repository/log'',
     ''git.repository/show'', ''git.repository/branches'', ''git.repository/currentBranch'', ''git.repository/worktrees'',
     ''working.context/get'',
     ''browser.automation/readiness'', ''browser.automation/pages.list'', ''browser.automation/snapshot'', ''browser.automation/events'',
     ''screenshot.capture/listDisplays'', ''screenshot.capture/desktop'', ''screenshot.capture/display'',
     ''screenshot.capture/listWindows'', ''screenshot.capture/window'',
     ''agent.control/routing.status'', ''agent.control/providers.list'', ''agent.control/provider.readiness'',
     ''agent.control/models.list'', ''agent.control/provider.capabilities'', ''agent.control/projects.list'',
     ''agent.control/skills.list'', ''agent.control/hooks.list'', ''agent.control/permissions.list'',
     ''agent.control/plugins.list'', ''agent.control/plugins.installed'', ''agent.control/plugins.get'',
     ''agent.control/plugin.skill.read'', ''agent.control/mcp.status.list'', ''agent.control/session.list'',
     ''agent.control/session.get'', ''agent.control/session.create'', ''agent.control/session.watch'',
     ''agent.control/session.callback.enqueue'', ''agent.control/session.callback.list'',
     ''agent.control/session.result'', ''agent.control/session.goal.get'']"

definition isRetryableCapability :: "string \<Rightarrow> string \<Rightarrow> bool" where
  "isRetryableCapability capability action = (capability @ ''/'' @ action \<in> set retryable_capabilities)"

definition capabilityCallTimeout :: "string \<Rightarrow> string \<Rightarrow> duration" where
  "capabilityCallTimeout capability action =
     (let k = capability @ ''/'' @ action
      in if k \<in> set [''artifact.store/uploadFile'', ''artifact.store/uploadJobLog'', ''artifact.store/publishFile''] then 10 * minute
         else if k \<in> set [''git.repository/diff'', ''git.repository/stagedDiff'', ''git.repository/show''] then 5 * minute
         else if k \<in> set [''browser.automation/launch'', ''browser.automation/close'', ''browser.automation/page.open'',
             ''browser.automation/page.navigate'', ''browser.automation/click'', ''browser.automation/type'',
             ''browser.automation/press'', ''browser.automation/wait'', ''browser.automation/batch'',
             ''browser.automation/snapshot'', ''browser.automation/screenshot''] then 2 * minute
         else if k \<in> set [''screenshot.capture/desktop'', ''screenshot.capture/display'', ''screenshot.capture/window''] then 2 * minute
         else if k = ''agent.control/session.create'' then 150 * second
         else if k \<in> set [''agent.control/session.send'', ''agent.control/session.callback.prepare'',
             ''agent.control/session.callback.recover'', ''agent.control/session.callback.continue'',
             ''agent.control/session.callback.register'', ''agent.control/session.callback.arm'',
             ''agent.control/session.callback.enqueue'', ''agent.control/session.callback.unregister'',
             ''agent.control/session.fork'', ''agent.control/session.compact'', ''agent.control/session.rollback'',
             ''agent.control/session.goal.set'', ''agent.control/session.goal.clear'',
             ''agent.control/session.settings.update'', ''agent.control/session.review'',
             ''agent.control/session.unarchive'', ''agent.control/session.delete''] then 2 * minute
         else if k \<in> set [''agent.control/session.watch'', ''agent.control/session.cancel'', ''agent.control/session.steer'',
             ''agent.control/session.respond''] then 30 * second
         else if k = ''job.control/watch'' then 30 * second
         else 20 * second)"

definition capabilityResponseGrace :: "string \<Rightarrow> string \<Rightarrow> duration" where
  "capabilityResponseGrace capability action =
     (if capability = ''agent.control'' \<and> action = ''session.create'' then 20 * second else 0)"

definition capabilityCallDeadlines ::
    "instant \<Rightarrow> instant option \<Rightarrow> string \<Rightarrow> string \<Rightarrow> instant \<times> instant" where
  "capabilityCallDeadlines now caller capability action =
     (let operation = now + capabilityCallTimeout capability action;
          response = operation + capabilityResponseGrace capability action
      in case caller of
           None \<Rightarrow> (operation, response)
         | Some d \<Rightarrow> (if d < operation then d else operation, if d < response then d else response))"

definition audited_capabilities :: "string list" where
  "audited_capabilities = [''file.write/edit'', ''file.write/create'', ''file.write/replace'', ''file.write/editMany'',
     ''shell.exec/run'', ''job.control/cancel'', ''git.repository/add'', ''git.repository/commit'', ''git.repository/fetch'',
     ''git.repository/pull'', ''git.repository/push'', ''git.repository/createWorktree'', ''git.repository/deleteWorktree'',
     ''build.exec/run'', ''working.context/set'', ''working.context/clear'', ''browser.automation/launch'',
     ''browser.automation/close'', ''browser.automation/page.open'', ''browser.automation/page.navigate'',
     ''browser.automation/click'', ''browser.automation/type'', ''browser.automation/press'', ''browser.automation/batch'',
     ''browser.automation/screenshot'', ''screenshot.capture/desktop'', ''screenshot.capture/display'', ''screenshot.capture/window'',
     ''agent.control/session.create'', ''agent.control/session.send'', ''agent.control/session.steer'',
     ''agent.control/session.respond'', ''agent.control/session.callback.prepare'', ''agent.control/session.callback.recover'',
     ''agent.control/session.callback.continue'', ''agent.control/session.callback.register'',
     ''agent.control/session.callback.arm'', ''agent.control/session.callback.enqueue'',
     ''agent.control/session.callback.unregister'', ''agent.control/session.callback.claim'',
     ''agent.control/session.callback.ack'', ''agent.control/session.cancel'', ''agent.control/session.rename'',
     ''agent.control/session.archive'', ''agent.control/session.unarchive'', ''agent.control/session.delete'',
     ''agent.control/session.fork'', ''agent.control/session.compact'', ''agent.control/session.rollback'',
     ''agent.control/session.goal.set'', ''agent.control/session.goal.clear'', ''agent.control/session.settings.update'',
     ''agent.control/session.review'']"

definition shouldAuditCapability :: "string \<Rightarrow> string \<Rightarrow> bool" where
  "shouldAuditCapability capability action = (capability @ ''/'' @ action \<in> set audited_capabilities)"

definition capabilityCallTransportError :: "hub_error \<Rightarrow> string \<Rightarrow> string \<Rightarrow> hub_error" where
  "capabilityCallTransportError e capability action =
     (let retryable = isRetryableCapability capability action
      in case root_error e of
        ErrMachineOffline \<Rightarrow> call_error ''MACHINE_OFFLINE'' ''machine is offline'' True
      | ErrConnectionLost \<Rightarrow> call_error ''CONNECTION_LOST'' ''node connection was lost before a response was received'' retryable
      | DeadlineExceeded \<Rightarrow>
          if capability = ''agent.control'' \<and> action = ''session.create'' then
            CallError \<lparr>ce_Code = ''DEADLINE_EXCEEDED'',
              ce_Message = ''session.create response deadline exceeded; retry the same request with the original idempotencyKey to reconcile the stored result'',
              ce_Retryable = True,
              ce_Details = [(''mayHaveCreated'', JBool True), (''recovery'', JStr ''retry_same_idempotency_key'')]\<rparr>
          else call_error ''DEADLINE_EXCEEDED'' ''capability call deadline exceeded'' retryable
      | _ \<Rightarrow> e)"

definition attachCapabilityCallMetadata :: "jobj \<Rightarrow> string \<Rightarrow> string \<Rightarrow> jobj" where
  "attachCapabilityCallMetadata result requestID traceID =
     (let has = (\<lambda>k. trim_space (jstr (jget result k)) \<noteq> []);
          result' = AList.update (if has ''requestId'' then ''callRequestId'' else ''requestId'') (JStr requestID) result
      in AList.update (if has ''traceId'' then ''callTraceId'' else ''traceId'') (JStr traceID) result')"

definition GetMachine :: "hub \<Rightarrow> string \<Rightarrow> string \<Rightarrow> hub_error + machine_row" where
  "GetMachine w ownerID machineID =
     (case find (\<lambda>r. mr_OwnerID r = ownerID \<and> mr_ID r = machineID \<and> mr_DeletedAt r = None) (hb_machines w) of
        None \<Rightarrow> Inl ErrNotFound
      | Some r \<Rightarrow> Inr r)"

definition audit_call :: "string \<Rightarrow> string \<Rightarrow> string \<Rightarrow> string \<Rightarrow> string \<Rightarrow> string \<Rightarrow> hub \<Rightarrow> hub" where
  "audit_call ownerID machineID capability action res code w =
     (if shouldAuditCapability capability action
      then w\<lparr>hb_audit := hb_audit w @ [\<lparr>ad_OwnerID = ownerID, ad_MachineID = machineID, ad_ActorType = ''owner'',
             ad_ActorID = ownerID, ad_Action = capability @ ''.'' @ action, ad_Result = res, ad_RemoteAddr = [], ad_ErrorCode = code,
             ad_CreatedAt = unix (hb_now w)\<rparr>]\<rparr>
      else w)"

definition call_timing :: "env \<Rightarrow> hub \<Rightarrow> jobj \<Rightarrow> json" where
  "call_timing E w result =
     (let timing = (case jget result ''timing'' of JObj m \<Rightarrow> m | _ \<Rightarrow> []); (pre, trip, total) = en_timing E w
      in JObj (AList.update ''hubTotalMs'' (JInt total) (AList.update ''nodeRoundTripMs'' (JInt trip)
           (AList.update ''hubPreDispatchMs'' (JInt pre) timing))))"

definition CallCapability ::
    "env \<Rightarrow> hub \<Rightarrow> string \<Rightarrow> string \<Rightarrow> string \<Rightarrow> string \<Rightarrow> jobj \<Rightarrow> (hub_error + jobj) \<times> hub" where
  "CallCapability E w ownerID machineID capability action params =
     (case GetMachine w ownerID machineID of
        Inl e \<Rightarrow> (Inl (capabilityCallTransportError e capability action), w)
      | Inr rec \<Rightarrow>
      if mr_Status rec \<noteq> ''active'' then (Inl (call_error ''MACHINE_INACTIVE'' ''machine is not active'' False), w)
      else let requestID = en_random E w ''req_''; traceID = en_random E w ''tr_'';
               (operation, response) = capabilityCallDeadlines (hb_now w) (en_callerDeadline E) capability action
      in case en_node E w \<lparr>cc_MachineID = machineID, cc_RequestID = requestID, cc_TraceID = traceID,
             cc_Capability = capability, cc_Action = action, cc_Params = params,
             cc_OperationDeadline = operation, cc_ResponseDeadline = response\<rparr> of
        (Transport e, w) \<Rightarrow> (Inl (capabilityCallTransportError e capability action), w)
      | (NodeError e, w) \<Rightarrow> (Inl (CallError e), audit_call ownerID machineID capability action ''rejected'' (ce_Code e) w)
      | (NodeResult res, w) \<Rightarrow>
          let w = audit_call ownerID machineID capability action ''success'' [] w;
              result = attachCapabilityCallMetadata (case res of None \<Rightarrow> [] | Some m \<Rightarrow> m) requestID traceID
          in (Inr (AList.update ''timing'' (call_timing E w result) result), w))"

section \<open>Sequencing steps that may fail\<close>

definition run :: "('e + 'a) \<times> hub \<Rightarrow> ('a \<Rightarrow> hub \<Rightarrow> ('e + 'b) \<times> hub) \<Rightarrow> ('e + 'b) \<times> hub" where
  "run r k = (case r of (Inl e, w) \<Rightarrow> (Inl e, w) | (Inr x, w) \<Rightarrow> k x w)"

lemma run_simps [simp]: "run (Inl e, w) k = (Inl e, w)" "run (Inr x, w) k = k x w"
  by (simp_all add: run_def)

lemma run_Inr_iff: "run r k = (Inr y, w') \<longleftrightarrow> (\<exists>x w. r = (Inr x, w) \<and> k x w = (Inr y, w'))"
  by (cases r; cases "fst r") (auto simp: run_def)

end
