(* ===== verification/Collab_Store.thy ===== *)
theory Collab_Store
  imports Hub_World Collab_Preserve
begin

text \<open>
  The rows of \<open>cloud_collaborations\<close>: the statements of \<open>store.go\<close> on them, loading and saving of a
  collaboration (\<open>loadCloudCollaboration\<close>, \<open>saveCloudCollaboration\<close>), and how the Hub may move while
  other requests run (\<open>evolves\<close>). The revision of a row guards every write; the interface
  \<open>versioned_rows\<close> is interpreted on it.
\<close>

section \<open>Statements\<close>

definition collab_bump :: "string \<times> collab_state \<times> instant \<Rightarrow> collab_row \<Rightarrow> collab_row" where
  "collab_bump = (\<lambda>(status, st, now) r. r\<lparr>cb_Status := status, cb_State := Stored st,
     cb_Revision := cb_Revision r + 1, cb_UpdatedAt := unix now\<rparr>)"

text \<open>The values that the \<open>CHECK\<close> of the column \<open>status\<close> admits.\<close>

definition collab_status_column :: "string list" where
  "collab_status_column = [''active'', ''paused'', ''needs_attention'', ''closing'', ''completed'', ''canceled'']"

definition constraint_error :: hub_error where "constraint_error = OtherError ''constraint failed''"

definition GetCloudCollaboration :: "hub \<Rightarrow> string \<Rightarrow> string \<Rightarrow> hub_error + collab_row" where
  "GetCloudCollaboration w ownerID collaborationID =
     (case find (\<lambda>r. cb_CollaborationID r = collaborationID \<and> cb_OwnerID r = ownerID) (hb_collabs w) of
        None \<Rightarrow> Inl ErrNotFound | Some r \<Rightarrow> Inr r)"

definition LookupCloudCollaboration :: "hub \<Rightarrow> string \<Rightarrow> string \<Rightarrow> hub_error + collab_row" where
  "LookupCloudCollaboration w ownerID idempotencyKey =
     (case find (\<lambda>r. cb_OwnerID r = ownerID \<and> cb_IdempotencyKey r = idempotencyKey) (hb_collabs w) of
        None \<Rightarrow> Inl ErrNotFound | Some r \<Rightarrow> Inr r)"

definition UpdateCloudCollaboration ::
    "hub \<Rightarrow> string \<Rightarrow> string \<Rightarrow> string \<Rightarrow> collab_state \<Rightarrow> int \<Rightarrow> instant \<Rightarrow> (hub_error + collab_row) \<times> hub" where
  "UpdateCloudCollaboration w ownerID collaborationID status st expectedRevision now =
     (case sql_cas (\<lambda>r. cb_CollaborationID r = collaborationID \<and> cb_OwnerID r = ownerID \<and> cb_Revision r = expectedRevision)
         (collab_bump (status, st, now)) (hb_collabs w) of
        Inl e \<Rightarrow> (Inl e, w)
      | Inr t \<Rightarrow> if status \<notin> set collab_status_column then (Inl constraint_error, w)
                 else let w = w\<lparr>hb_collabs := t\<rparr> in (GetCloudCollaboration w ownerID collaborationID, w))"

definition CreateCloudCollaboration :: "hub \<Rightarrow> collab_row \<Rightarrow> (hub_error + collab_row) \<times> hub" where
  "CreateCloudCollaboration w rec =
     (case find (\<lambda>m. mr_ID m = cb_MachineID rec) (hb_machines w) of
        None \<Rightarrow> (Inl ErrNotFound, w)
      | Some m \<Rightarrow>
      if mr_OwnerID m \<noteq> cb_OwnerID rec \<or> mr_Status m \<noteq> ''active'' then (Inl ErrUnauthorized, w)
      else if list_ex (\<lambda>r. cb_CollaborationID r = cb_CollaborationID rec
              \<or> cb_OwnerID r = cb_OwnerID rec \<and> cb_IdempotencyKey r = cb_IdempotencyKey rec) (hb_collabs w)
        \<or> cb_Status rec \<notin> set collab_status_column
      then (Inl constraint_error, w)
      else let w = w\<lparr>hb_collabs := hb_collabs w @ [rec]\<rparr>
           in (GetCloudCollaboration w (cb_OwnerID rec) (cb_CollaborationID rec), w))"

text \<open>\<open>ORDER BY updated_at DESC, collaboration_id LIMIT ?\<close>\<close>

definition ListCloudCollaborations :: "hub \<Rightarrow> string \<Rightarrow> int \<Rightarrow> collab_row list" where
  "ListCloudCollaborations w ownerID limit =
     take (nat limit) (sort_key (\<lambda>r. (- cb_UpdatedAt r, cb_CollaborationID r))
       (filter (\<lambda>r. cb_OwnerID r = ownerID) (hb_collabs w)))"

section \<open>Loading and saving\<close>

text \<open>What loading repairs in a task: a missing callback type, and a missing result path.\<close>

definition loaded_task :: "digests \<Rightarrow> string \<Rightarrow> string \<Rightarrow> task \<Rightarrow> task" where
  "loaded_task dg workingDirectory collaborationID t =
     (let t = (if trim_space (tk_CallbackType t) = [] then t\<lparr>tk_CallbackType := ''local_file''\<rparr> else t)
      in if tk_CallbackType t = ''local_file'' \<and> trim_space (tk_ResultPath t) = [] then
           t\<lparr>tk_ResultPath := (if tk_DeliverablePath t = []
               then cloudCollaborationManagedResultPath dg workingDirectory collaborationID (tk_ID t) (tk_Generation t)
               else tk_DeliverablePath t)\<rparr>
         else t)"

definition loaded_chats :: "collab_state \<Rightarrow> collab_state" where
  "loaded_chats st =
     (if cs_Version st = 1
      then st\<lparr>cs_Chats := map (\<lambda>c. c\<lparr>ct_CallbackArmed := ct_CallbackRegistered c\<rparr>) (cs_Chats st),
              cs_Version := cloudCollaborationStateVersion\<rparr>
      else st)"

definition loaded_state :: "digests \<Rightarrow> string \<Rightarrow> collab_state \<Rightarrow> collab_state" where
  "loaded_state dg collaborationID st =
     (let st = loaded_chats st
      in st\<lparr>cs_Tasks := map (loaded_task dg (cs_WorkingDirectory st) collaborationID) (cs_Tasks st)\<rparr>)"

definition loadCloudCollaboration :: "digests \<Rightarrow> hub \<Rightarrow> string \<Rightarrow> string \<Rightarrow> hub_error + (collab_row \<times> collab_state)" where
  "loadCloudCollaboration dg w ownerID i =
     (case GetCloudCollaboration w ownerID (trim_space i) of
        Inl e \<Rightarrow> Inl e
      | Inr rec \<Rightarrow>
      (case cb_State rec of
        Unreadable \<Rightarrow> Inl ErrConflict
      | Stored st \<Rightarrow>
          if cs_Version st \<noteq> 1 \<and> cs_Version st \<noteq> cloudCollaborationStateVersion then Inl ErrConflict
          else Inr (rec, loaded_state dg (cb_CollaborationID rec) st)))"

definition row_view :: "hub \<Rightarrow> collab_row \<Rightarrow> collab_state \<Rightarrow> string \<Rightarrow> out" where
  "row_view w rec st role = cloudCollaborationView (cb_CollaborationID rec) (cb_MachineID rec) (cb_Revision rec) st role (hb_now w)"

definition saveCloudCollaboration :: "hub \<Rightarrow> string \<Rightarrow> collab_row \<Rightarrow> collab_state \<Rightarrow> (hub_error + out) \<times> hub" where
  "saveCloudCollaboration w ownerID rec st =
     run (UpdateCloudCollaboration w ownerID (cb_CollaborationID rec) (cs_Status st) st (cb_Revision rec) (hb_now w))
       (\<lambda>updated w. (Inr (row_view w updated st ''dispatcher''), w))"

section \<open>The revision guards the row\<close>

lemma collab_bump_simps [simp]:
  "cb_CollaborationID (collab_bump c r) = cb_CollaborationID r" "cb_OwnerID (collab_bump c r) = cb_OwnerID r"
  "cb_MachineID (collab_bump c r) = cb_MachineID r" "cb_IdempotencyKey (collab_bump c r) = cb_IdempotencyKey r"
  "cb_RequestHash (collab_bump c r) = cb_RequestHash r" "cb_CreatedAt (collab_bump c r) = cb_CreatedAt r"
  "cb_Revision (collab_bump c r) = cb_Revision r + 1"
  by (simp_all add: collab_bump_def split: prod.split)

lemma collab_bump_content [simp]:
  "cb_Status (collab_bump (s, st, now) r) = s" "cb_State (collab_bump (s, st, now) r) = Stored st"
  by (simp_all add: collab_bump_def)

interpretation collab_rows: versioned_rows cb_CollaborationID cb_Revision collab_bump
  by unfold_locales simp_all

lemma Update_cas:
  "UpdateCloudCollaboration w ownerID cid status st n now =
     (case collab_rows.cas (\<lambda>r. cb_OwnerID r = ownerID) cid n (status, st, now) (hb_collabs w) of
        Inl e \<Rightarrow> (Inl e, w)
      | Inr t \<Rightarrow> if status \<notin> set collab_status_column then (Inl constraint_error, w)
                 else (GetCloudCollaboration (w\<lparr>hb_collabs := t\<rparr>) ownerID cid, w\<lparr>hb_collabs := t\<rparr>))"
  unfolding UpdateCloudCollaboration_def collab_rows.cas_def Let_def ..

lemma Get_Inr: "GetCloudCollaboration w ownerID cid = Inr r \<Longrightarrow>
    r \<in> set (hb_collabs w) \<and> cb_CollaborationID r = cid \<and> cb_OwnerID r = ownerID"
  by (auto simp: GetCloudCollaboration_def split: option.splits dest: find_SomeD)

lemma Get_distinct:
  assumes "distinct (map cb_CollaborationID (hb_collabs w))" "r \<in> set (hb_collabs w)"
  shows "GetCloudCollaboration w (cb_OwnerID r) (cb_CollaborationID r) = Inr r"
proof (cases "find (\<lambda>x. cb_CollaborationID x = cb_CollaborationID r \<and> cb_OwnerID x = cb_OwnerID r) (hb_collabs w)")
  case None
  with assms(2) show ?thesis by (auto simp: find_None_iff)
next
  case (Some x)
  with find_SomeD [OF Some] assms show ?thesis by (auto simp: GetCloudCollaboration_def dest: distinct_key_unique)
qed

text \<open>A save that succeeds replaced exactly the row it was made from, whose revision was the expected one.\<close>

lemma Update_Inr:
  assumes "UpdateCloudCollaboration w ownerID cid status st n now = (Inr r', w')" "distinct (map cb_CollaborationID (hb_collabs w))"
  obtains r where "r \<in> set (hb_collabs w)" "cb_CollaborationID r = cid" "cb_OwnerID r = ownerID" "cb_Revision r = n"
    "r' = collab_bump (status, st, now) r" "r' \<in> set (hb_collabs w')"
    "set (hb_collabs w') = insert r' (set (hb_collabs w) - {r})" "status \<in> set collab_status_column"
    "w' = w\<lparr>hb_collabs := hb_collabs w'\<rparr>" "map cb_CollaborationID (hb_collabs w') = map cb_CollaborationID (hb_collabs w)"
    "map (\<lambda>r. (cb_OwnerID r, cb_IdempotencyKey r)) (hb_collabs w') = map (\<lambda>r. (cb_OwnerID r, cb_IdempotencyKey r)) (hb_collabs w)"
proof -
  obtain t where t: "collab_rows.cas (\<lambda>r. cb_OwnerID r = ownerID) cid n (status, st, now) (hb_collabs w) = Inr t"
    and ok: "status \<in> set collab_status_column" and w': "w' = w\<lparr>hb_collabs := t\<rparr>"
    and got: "GetCloudCollaboration w' ownerID cid = Inr r'"
    using assms(1) by (auto simp: Update_cas split: sum.splits if_splits)
  have keys: "map cb_CollaborationID t = map cb_CollaborationID (hb_collabs w)" using collab_rows.cas_keys [OF t] .
  have "t = sql_update (\<lambda>r. cb_CollaborationID r = cid \<and> cb_OwnerID r = ownerID \<and> cb_Revision r = n) (collab_bump (status, st, now)) (hb_collabs w)"
    using t by (simp add: collab_rows.cas_def sql_cas_Inr)
  then have names: "map (\<lambda>r. (cb_OwnerID r, cb_IdempotencyKey r)) t = map (\<lambda>r. (cb_OwnerID r, cb_IdempotencyKey r)) (hb_collabs w)"
    by (simp add: sql_update_def)
  show thesis
  proof (rule collab_rows.cas_row [OF t assms(2)])
    fix r assume r: "r \<in> set (hb_collabs w)" "cb_CollaborationID r = cid" "cb_OwnerID r = ownerID" "cb_Revision r = n"
      and b: "collab_bump (status, st, now) r \<in> set t" and set': "set t = insert (collab_bump (status, st, now) r) (set (hb_collabs w) - {r})"
    have "distinct (map cb_CollaborationID (hb_collabs w'))" using keys assms(2) by (simp add: w')
    moreover have "collab_bump (status, st, now) r \<in> set (hb_collabs w')" using b by (simp add: w')
    ultimately have "r' = collab_bump (status, st, now) r"
      using Get_distinct [of w' "collab_bump (status, st, now) r"] got r by simp
    then show thesis using that [OF r] b set' ok keys names by (simp add: w')
  qed
qed

lemma Update_Inl: "UpdateCloudCollaboration w ownerID cid status st n now = (Inl e, w') \<Longrightarrow>
    distinct (map cb_CollaborationID (hb_collabs w)) \<Longrightarrow> w' = w"
proof (cases "collab_rows.cas (\<lambda>r. cb_OwnerID r = ownerID) cid n (status, st, now) (hb_collabs w)")
  case (Inr t)
  assume e: "UpdateCloudCollaboration w ownerID cid status st n now = (Inl e, w')"
    and d: "distinct (map cb_CollaborationID (hb_collabs w))"
  show ?thesis
  proof (rule collab_rows.cas_row [OF Inr d])
    fix r assume r: "cb_CollaborationID r = cid" "cb_OwnerID r = ownerID" and b: "collab_bump (status, st, now) r \<in> set t"
    have "distinct (map cb_CollaborationID t)" using d collab_rows.cas_keys [OF Inr] by simp
    then have "GetCloudCollaboration (w\<lparr>hb_collabs := t\<rparr>) ownerID cid = Inr (collab_bump (status, st, now) r)"
      using Get_distinct [of "w\<lparr>hb_collabs := t\<rparr>" "collab_bump (status, st, now) r"] b r by simp
    then show ?thesis using e Inr by (auto simp: Update_cas split: if_splits)
  qed
qed (auto simp: Update_cas)

end
