(* ===== verification/Collab_Evolve.thy ===== *)
theory Collab_Evolve
  imports Collab_Store "HOL-Library.Sublist"
begin

text \<open>
  How collaborations move over time, whoever moves them: \<open>state_grows\<close> for one state, \<open>evolves\<close> for
  the tables of the Hub. Requests run between each other's external calls; what a request may assume of
  the others, and owes them, is that they keep \<open>hub_ok\<close> and \<open>evolves\<close> (\<open>cooperative\<close>).
\<close>

section \<open>One state\<close>

definition config_of where
  "config_of st = (cs_Title st, cs_Goal st, cs_Scope st, cs_DoneWhen st, cs_WorkingDirectory st, cs_ControllerSessionID st,
     cs_DispatcherSessionID st, cs_AllowedActions st, cs_MaxDepth st, cs_MaxActiveChats st, cs_MaxCreates st,
     cs_HeartbeatMinutes st, cs_StallMinutes st, cs_Deadline st)"

text \<open>What a task was granted when it was added.\<close>

definition grant_of where
  "grant_of t = (tk_ID t, tk_Title t, tk_Prompt t, tk_ParentSession t, tk_Depth t, tk_AccessMode t, tk_WriteScope t,
     tk_DeliverablePath t, tk_ResultPath t, tk_CallbackType t, tk_AllowedActions t)"

definition chat_key where
  "chat_key c = (ct_SessionID c, ct_TaskID c, ct_Generation c, ct_ParentSession c, ct_Depth c, ct_AccessMode c, ct_WriteScope c,
     ct_AllowedActions c, ct_Reused c)"

definition state_grows :: "collab_state \<Rightarrow> collab_state \<Rightarrow> bool" where
  "state_grows st st' = (config_of st' = config_of st \<and> cs_Generation st \<le> cs_Generation st' \<and> cs_CreateCount st \<le> cs_CreateCount st'
     \<and> prefix (map grant_of (cs_Tasks st)) (map grant_of (cs_Tasks st'))
     \<and> list_all2 (\<le>) (map tk_Generation (cs_Tasks st)) (take (length (cs_Tasks st)) (map tk_Generation (cs_Tasks st')))
     \<and> prefix (map chat_key (cs_Chats st)) (map chat_key (cs_Chats st')))"

lemma state_grows_refl [simp]: "state_grows st st"
  by (simp add: state_grows_def list_all2_refl)

lemma prefix_length_map: "prefix (map f xs) (map f ys) \<Longrightarrow> length xs \<le> length ys"
  using prefix_length_le by fastforce

lemma state_grows_trans [trans]:
  assumes "state_grows a b" "state_grows b c"
  shows "state_grows a c"
proof -
  have len: "length (cs_Tasks a) \<le> length (cs_Tasks b)" "length (cs_Tasks b) \<le> length (cs_Tasks c)"
    using assms by (auto simp: state_grows_def intro: prefix_length_map)
  have "tk_Generation (cs_Tasks a ! i) \<le> tk_Generation (cs_Tasks c ! i)" if "i < length (cs_Tasks a)" for i
  proof -
    have "tk_Generation (cs_Tasks a ! i) \<le> tk_Generation (cs_Tasks b ! i)" "tk_Generation (cs_Tasks b ! i) \<le> tk_Generation (cs_Tasks c ! i)"
      using assms that len by (auto simp: state_grows_def list_all2_conv_all_nth)
    then show ?thesis by simp
  qed
  then have "list_all2 (\<le>) (map tk_Generation (cs_Tasks a)) (take (length (cs_Tasks a)) (map tk_Generation (cs_Tasks c)))"
    using len by (simp add: list_all2_conv_all_nth)
  then show ?thesis
    using assms prefix_order.trans by (auto simp: state_grows_def)
qed

text \<open>Steps that leave the tasks' grants and the CHATs' keys alone.\<close>

lemma state_grows_same:
  assumes "config_of st' = config_of st" "cs_Generation st \<le> cs_Generation st'" "cs_CreateCount st \<le> cs_CreateCount st'"
    "map grant_of (cs_Tasks st') = map grant_of (cs_Tasks st)" "map tk_Generation (cs_Tasks st') = map tk_Generation (cs_Tasks st)"
    "map chat_key (cs_Chats st') = map chat_key (cs_Chats st)"
  shows "state_grows st st'"
proof -
  have "length (cs_Tasks st') = length (cs_Tasks st)" using assms(4) by (metis length_map)
  then show ?thesis using assms by (simp add: state_grows_def list_all2_refl)
qed

lemma config_of_frame [simp]:
  "config_of (st\<lparr>cs_Goals := gs\<rparr>) = config_of st" "config_of (st\<lparr>cs_Tasks := ts\<rparr>) = config_of st"
  "config_of (st\<lparr>cs_Chats := xs\<rparr>) = config_of st" "config_of (st\<lparr>cs_Events := es\<rparr>) = config_of st"
  "config_of (st\<lparr>cs_Decisions := ds\<rparr>) = config_of st" "config_of (st\<lparr>cs_Lease := l\<rparr>) = config_of st"
  "config_of (st\<lparr>cs_Status := s\<rparr>) = config_of st" "config_of (st\<lparr>cs_Generation := n\<rparr>) = config_of st"
  "config_of (st\<lparr>cs_CreateCount := n\<rparr>) = config_of st" "config_of (st\<lparr>cs_Checkpoint := k\<rparr>) = config_of st"
  "config_of (st\<lparr>cs_CheckpointGeneration := n\<rparr>) = config_of st" "config_of (st\<lparr>cs_Version := n\<rparr>) = config_of st"
  by (simp_all add: config_of_def)

lemma config_of_upd [simp]:
  "config_of (upd_task i f st) = config_of st" "config_of (upd_chat i g st) = config_of st"
  "config_of (upd_event i h st) = config_of st" "config_of (append_event e st) = config_of st"
  by (simp_all add: upd_defs append_event_def)

lemma grows_upd_task:
  assumes "\<And>t. grant_of (f t) = grant_of t" "\<And>t. tk_Generation (f t) = tk_Generation t"
  shows "state_grows st (upd_task i f st)"
  by (rule state_grows_same) (use assms in \<open>simp_all add: map_modify\<close>)

lemma grows_upd_chat: "(\<And>c. chat_key (f c) = chat_key c) \<Longrightarrow> state_grows st (upd_chat i f st)"
  by (rule state_grows_same) (simp_all add: map_modify)

lemma grows_upd_event: "state_grows st (upd_event i f st)"
  by (rule state_grows_same) simp_all

lemma cs_CreateCount_append_event [simp]: "cs_CreateCount (append_event e st) = cs_CreateCount st"
  by (simp add: append_event_def)

lemma grows_append_event: "state_grows st (append_event e st)"
  by (rule state_grows_same) simp_all

lemma grows_append_task: "state_grows st (st\<lparr>cs_Tasks := cs_Tasks st @ [t]\<rparr>)"
  by (simp add: state_grows_def list_all2_refl)

lemma grows_append_chat: "state_grows st (st\<lparr>cs_Chats := cs_Chats st @ [c]\<rparr>)"
  by (simp add: state_grows_def list_all2_refl)

lemma grows_fields [simp]:
  "state_grows st (st\<lparr>cs_Goals := gs\<rparr>)" "state_grows st (st\<lparr>cs_Events := es\<rparr>)" "state_grows st (st\<lparr>cs_Decisions := ds\<rparr>)"
  "state_grows st (st\<lparr>cs_Lease := l\<rparr>)" "state_grows st (st\<lparr>cs_Status := s\<rparr>)" "state_grows st (st\<lparr>cs_Checkpoint := k\<rparr>)"
  "state_grows st (st\<lparr>cs_CheckpointGeneration := n\<rparr>)" "state_grows st (st\<lparr>cs_CreateCount := cs_CreateCount st + 1\<rparr>)"
  by (rule state_grows_same; simp)+

text \<open>The operations of \<open>Collab_Ops\<close> only let a state grow.\<close>

lemma grows_settle: "state_grows st (settle_task idx s now st)"
proof -
  let ?a = "upd_task idx (\<lambda>t. t\<lparr>tk_Status := s, tk_UpdatedAt := format_stamp now\<rparr>) st"
  have a: "state_grows st ?a" by (rule grows_upd_task) (simp_all add: grant_of_def)
  have b: "state_grows st (upd_chat c (\<lambda>c. c\<lparr>ct_Status := v, ct_LastObservedAt := format_stamp now\<rparr>) ?a)" for c v
    by (rule state_grows_trans [OF a], rule grows_upd_chat) (simp add: chat_key_def)
  have c: "state_grows x y \<Longrightarrow> state_grows x (finish_goals y)" for x y
    by (erule state_grows_trans) (simp add: finish_goals_def)
  show ?thesis
    unfolding settle_task_def Let_def
    by (split option.split) (use a b c in auto)
qed

lemma grows_Advance: "state_grows st (cloudCollaborationAdvanceAcknowledgedEvent st eid now)"
  unfolding cloudCollaborationAdvanceAcknowledgedEvent_def using grows_settle by (simp split: option.split)

lemma grows_AddGoal: "cloudCollaborationAddGoal st req = Inr st' \<Longrightarrow> state_grows st st'"
  by (auto simp: cloudCollaborationAddGoal_def Let_def split: if_splits)

lemma grows_UpdateGoal: "cloudCollaborationUpdateGoal st req = Inr st' \<Longrightarrow> state_grows st st'"
  by (auto simp: cloudCollaborationUpdateGoal_def split: if_splits option.splits)

lemma grows_AddTask: "cloudCollaborationAddTask dg now st req role = Inr st' \<Longrightarrow> state_grows st st'"
  by (erule AddTask_Inr) (simp add: grows_append_task)

lemma grows_UpdateTask: "cloudCollaborationUpdateTask now st req = Inr st' \<Longrightarrow> state_grows st st'"
  unfolding cloudCollaborationUpdateTask_def Let_def guards by (auto intro!: grows_upd_task simp: grant_of_def)

lemma grows_IngestEvent: "cloudCollaborationIngestEvent dg now st req = Inr st' \<Longrightarrow> state_grows st st'"
proof (erule IngestEvent_Inr)
  fix i
  assume st': "st' = upd_task i (\<lambda>t. t\<lparr>tk_ResultID := rq_ResultID req, tk_ResultStatus := rq_ResultStatus req,
         tk_ResultSHA256 := rq_ResultSHA256 req, tk_UpdatedAt := format_stamp now,
         tk_Status := (if rq_ResultStatus req = ''ready'' \<or> rq_ResultStatus req = ''completed''
                       then ''result_available'' else tk_Status t)\<rparr>)
       (append_event (ingested_event dg now (cs_Tasks st ! i) req) st)"
  show "state_grows st st'" unfolding st'
    by (rule state_grows_trans [OF grows_append_event], rule grows_upd_task) (simp_all add: grant_of_def)
qed simp

lemma grows_AckEvent: "cloudCollaborationAckEvent st req = Inr st' \<Longrightarrow> state_grows st st'"
  by (auto simp: cloudCollaborationAckEvent_def Let_def intro: grows_upd_event split: option.splits if_splits)

lemma grows_RequestDecision: "cloudCollaborationRequestDecision now st req = Inr st' \<Longrightarrow> state_grows st st'"
  by (auto simp: cloudCollaborationRequestDecision_def Let_def split: if_splits)

lemma grows_ResolveDecision: "cloudCollaborationResolveDecision st req = Inr st' \<Longrightarrow> state_grows st st'"
  by (auto simp: cloudCollaborationResolveDecision_def split: if_splits option.splits)

lemma grows_requeue: "state_grows st (upd_task i requeue st)"
proof -
  have "map grant_of (modify i requeue ts) = map grant_of ts" for ts
    by (rule map_modify) (simp add: requeue_def grant_of_def)
  then show ?thesis
    by (simp add: state_grows_def list_all2_conv_all_nth nth_modify requeue_def)
qed

lemma grows_RotateChat: "cloudCollaborationRotateChat st req = Inr st' \<Longrightarrow> state_grows st st'"
proof -
  assume "cloudCollaborationRotateChat st req = Inr st'"
  then obtain i c where st': "st' = set_checkpoint (rq_Checkpoint req) (upd_task i requeue (next_generation (upd_chat c retire st)))"
    unfolding RotateChat_steps guards by auto
  have "state_grows st (upd_chat c retire st)" by (rule grows_upd_chat) (simp add: retire_def chat_key_def)
  also have "state_grows \<dots> (next_generation (upd_chat c retire st))"
    by (rule state_grows_same) (simp_all add: next_generation_def)
  also have "state_grows \<dots> (upd_task i requeue (next_generation (upd_chat c retire st)))" by (rule grows_requeue)
  also have "state_grows \<dots> st'"
    unfolding st' set_checkpoint_def by (auto intro!: state_grows_same)
  finally show ?thesis .
qed

lemmas grows_ops = grows_AddGoal grows_UpdateGoal grows_AddTask grows_UpdateTask grows_IngestEvent grows_AckEvent
  grows_Advance grows_RequestDecision grows_ResolveDecision grows_RotateChat

section \<open>The tables\<close>

definition row_ok :: "collab_row \<Rightarrow> bool" where
  "row_ok r = (case cb_State r of Stored st \<Rightarrow> wf_state st \<and> cb_Status r = cs_Status st | Unreadable \<Rightarrow> True)"

definition hub_ok :: "hub \<Rightarrow> bool" where
  "hub_ok w = (distinct (map cb_CollaborationID (hb_collabs w))
     \<and> distinct (map (\<lambda>r. (cb_OwnerID r, cb_IdempotencyKey r)) (hb_collabs w)) \<and> list_all row_ok (hb_collabs w))"

definition ident_of where
  "ident_of r = (cb_CollaborationID r, cb_OwnerID r, cb_MachineID r, cb_IdempotencyKey r, cb_RequestHash r, cb_CreatedAt r)"

definition row_evolves :: "collab_row \<Rightarrow> collab_row \<Rightarrow> bool" where
  "row_evolves r r' = (ident_of r' = ident_of r \<and> (r' = r \<or> cb_Revision r < cb_Revision r'
     \<and> (\<forall>st. cb_State r = Stored st \<longrightarrow> (\<exists>st'. cb_State r' = Stored st' \<and> state_grows st st'))))"

definition evolves :: "hub \<Rightarrow> hub \<Rightarrow> bool" where
  "evolves w w' = (hb_now w \<le> hb_now w' \<and> (\<forall>r \<in> set (hb_collabs w). \<exists>r' \<in> set (hb_collabs w'). row_evolves r r'))"

text \<open>What other requests may do while this one waits for a Node.\<close>

definition cooperative :: "env \<Rightarrow> bool" where
  "cooperative E = (\<forall>w c. hub_ok w \<longrightarrow> hub_ok (snd (en_node E w c)) \<and> evolves w (snd (en_node E w c)))"

lemma row_evolves_refl [simp]: "row_evolves r r"
  by (simp add: row_evolves_def)

lemma row_evolves_trans:
  assumes "row_evolves a b" "row_evolves b c" shows "row_evolves a c"
proof -
  have "\<exists>st'. cb_State c = Stored st' \<and> state_grows st st'"
    if h: "cb_State a = Stored st" "cb_Revision a < cb_Revision b" "cb_Revision b < cb_Revision c" for st
  proof -
    obtain sb where b: "cb_State b = Stored sb" "state_grows st sb" using assms(1) h by (auto simp: row_evolves_def)
    then obtain sc where "cb_State c = Stored sc" "state_grows sb sc" using assms(2) h by (auto simp: row_evolves_def)
    with b show ?thesis by (blast intro: state_grows_trans)
  qed
  then show ?thesis using assms by (auto simp: row_evolves_def)
qed

lemma evolves_refl [simp]: "evolves w w"
  by (auto simp: evolves_def intro: row_evolves_refl)

lemma evolves_trans [trans]: "evolves a b \<Longrightarrow> evolves b c \<Longrightarrow> evolves a c"
  unfolding evolves_def by (meson order_trans row_evolves_trans)

lemma hub_ok_other [simp]: "hub_ok (w\<lparr>hb_audit := a\<rparr>) = hub_ok w" "hub_ok (w\<lparr>hb_notifs := n\<rparr>) = hub_ok w"
  by (simp_all add: hub_ok_def)

lemma evolves_other [simp]: "evolves w0 (w\<lparr>hb_audit := a\<rparr>) = evolves w0 w" "evolves w0 (w\<lparr>hb_notifs := n\<rparr>) = evolves w0 w"
  by (simp_all add: evolves_def)

lemma hub_ok_ids: "hub_ok w \<Longrightarrow> distinct (map cb_CollaborationID (hb_collabs w))"
  by (simp add: hub_ok_def)

lemma row_state: "hub_ok w \<Longrightarrow> r \<in> set (hb_collabs w) \<Longrightarrow> cb_State r = Stored st \<Longrightarrow> wf_state st \<and> cb_Status r = cs_Status st"
  by (auto simp: hub_ok_def list_all_iff row_ok_def)

section \<open>Loading a well-formed state changes nothing\<close>

lemma callback_types_nonblank: "c \<in> set callback_types \<Longrightarrow> trim_space c \<noteq> []"
proof -
  have "trim_space ''local_file'' \<noteq> [] \<and> trim_space ''text'' \<noteq> [] \<and> trim_space ''status'' \<noteq> []" by code_simp
  then show "c \<in> set callback_types \<Longrightarrow> trim_space c \<noteq> []" unfolding callback_types_def by auto
qed

lemma loaded_wf: "wf_state st \<Longrightarrow> loaded_state dg cid st = st"
proof -
  assume wf: "wf_state st"
  then have v: "cs_Version st = cloudCollaborationStateVersion" by (auto dest!: wf_stateD(1) simp: wf_config_def)
  have "loaded_task dg wd cid t = t" if "t \<in> set (cs_Tasks st)" for wd t
    using wf_stateD(4) [OF wf] that callback_types_nonblank
    by (auto simp: wf_tasks_def list_all_iff wf_task_def loaded_task_def Let_def)
  then have "map (loaded_task dg wd cid) (cs_Tasks st) = cs_Tasks st" for wd by (simp add: map_idI)
  then show ?thesis using v by (simp add: loaded_state_def loaded_chats_def Let_def cloudCollaborationStateVersion_def)
qed

lemma load_Inr:
  assumes "loadCloudCollaboration dg w ownerID i = Inr (rec, st)" "hub_ok w"
  shows "rec \<in> set (hb_collabs w)" "cb_CollaborationID rec = trim_space i" "cb_OwnerID rec = ownerID"
    "cb_State rec = Stored st" "wf_state st" "cb_Status rec = cs_Status st"
proof -
  obtain s where s: "GetCloudCollaboration w ownerID (trim_space i) = Inr rec" "cb_State rec = Stored s"
      "st = loaded_state dg (cb_CollaborationID rec) s"
    using assms(1) by (auto simp: loadCloudCollaboration_def split: sum.splits stored_state.splits if_splits)
  note r = Get_Inr [OF s(1)]
  have "wf_state s \<and> cb_Status rec = cs_Status s" using row_state [OF assms(2)] r s(2) by blast
  then show "rec \<in> set (hb_collabs w)" "cb_CollaborationID rec = trim_space i" "cb_OwnerID rec = ownerID"
    "cb_State rec = Stored st" "wf_state st" "cb_Status rec = cs_Status st"
    using r s by (simp_all add: loaded_wf)
qed

section \<open>What a request knows of its row\<close>

text \<open>The state a request holds grew from the row's state, unless the row has moved on since it was read.\<close>

definition tracks :: "hub \<Rightarrow> collab_row \<Rightarrow> collab_state \<Rightarrow> bool" where
  "tracks w rec st = (\<exists>r \<in> set (hb_collabs w). cb_CollaborationID r = cb_CollaborationID rec \<and> cb_OwnerID r = cb_OwnerID rec
     \<and> cb_Revision rec \<le> cb_Revision r
     \<and> (cb_Revision r = cb_Revision rec \<longrightarrow> (\<exists>st0. cb_State r = Stored st0 \<and> state_grows st0 st)))"

lemma ident_of_eq: "ident_of r' = ident_of r \<Longrightarrow> cb_CollaborationID r' = cb_CollaborationID r \<and> cb_OwnerID r' = cb_OwnerID r"
  by (simp add: ident_of_def)

lemma tracks_evolves: "tracks w rec st \<Longrightarrow> evolves w w' \<Longrightarrow> tracks w' rec st"
proof -
  assume "tracks w rec st" and ev: "evolves w w'"
  then obtain r where r: "r \<in> set (hb_collabs w)" "cb_CollaborationID r = cb_CollaborationID rec" "cb_OwnerID r = cb_OwnerID rec"
      "cb_Revision rec \<le> cb_Revision r" "cb_Revision r = cb_Revision rec \<longrightarrow> (\<exists>st0. cb_State r = Stored st0 \<and> state_grows st0 st)"
    by (auto simp: tracks_def)
  obtain r' where r': "r' \<in> set (hb_collabs w')" "row_evolves r r'" using ev r(1) by (auto simp: evolves_def)
  from r'(2) have "ident_of r' = ident_of r" "r' = r \<or> cb_Revision r < cb_Revision r'" by (auto simp: row_evolves_def)
  then show ?thesis
    unfolding tracks_def using r r'(1) ident_of_eq [of r' r] by (intro bexI [of _ r']) auto
qed

lemma tracks_grows: "tracks w rec st \<Longrightarrow> state_grows st st' \<Longrightarrow> tracks w rec st'"
  unfolding tracks_def by (blast intro: state_grows_trans)

lemma tracks_row: "rec \<in> set (hb_collabs w) \<Longrightarrow> cb_State rec = Stored st \<Longrightarrow> tracks w rec st"
  unfolding tracks_def by force

lemma load_tracks: "loadCloudCollaboration dg w ownerID i = Inr (rec, st) \<Longrightarrow> hub_ok w \<Longrightarrow> tracks w rec st"
  by (rule tracks_row) (auto dest: load_Inr)

text \<open>A write of a state that grew from what was read: the tables stay well-formed and only evolve, and after
  a success the request holds the row's state under the next revision.\<close>

lemma Update_evolves:
  assumes ok: "hub_ok w" and wf: "wf_state st" and tr: "tracks w rec st" and own: "cb_OwnerID rec = ownerID"
    and up: "UpdateCloudCollaboration w ownerID (cb_CollaborationID rec) (cs_Status st) st (cb_Revision rec) now = (res, w')"
  shows "hub_ok w' \<and> evolves w w' \<and> (\<forall>r'. res = Inr r' \<longrightarrow> r' \<in> set (hb_collabs w') \<and> cb_State r' = Stored st
    \<and> cb_Revision r' = cb_Revision rec + 1 \<and> cb_CollaborationID r' = cb_CollaborationID rec
    \<and> cb_OwnerID r' = ownerID \<and> tracks w' r' st)"
proof (cases res)
  case (Inl e)
  then have "w' = w" using Update_Inl [OF _ hub_ok_ids [OF ok]] up by blast
  then show ?thesis using ok Inl by simp
next
  case (Inr r')
  show ?thesis
  proof (rule Update_Inr [OF up [unfolded Inr] hub_ok_ids [OF ok]])
    fix r
    assume r: "r \<in> set (hb_collabs w)" "cb_CollaborationID r = cb_CollaborationID rec" "cb_OwnerID r = ownerID" "cb_Revision r = cb_Revision rec"
      and r': "r' = collab_bump (cs_Status st, st, now) r" "r' \<in> set (hb_collabs w')"
      and set': "set (hb_collabs w') = insert r' (set (hb_collabs w) - {r})"
      and w': "w' = w\<lparr>hb_collabs := hb_collabs w'\<rparr>"
      and ids: "map cb_CollaborationID (hb_collabs w') = map cb_CollaborationID (hb_collabs w)"
      and names: "map (\<lambda>r. (cb_OwnerID r, cb_IdempotencyKey r)) (hb_collabs w') = map (\<lambda>r. (cb_OwnerID r, cb_IdempotencyKey r)) (hb_collabs w)"
    obtain r1 where r1: "r1 \<in> set (hb_collabs w)" "cb_CollaborationID r1 = cb_CollaborationID rec"
        "cb_Revision r1 = cb_Revision rec \<longrightarrow> (\<exists>st0. cb_State r1 = Stored st0 \<and> state_grows st0 st)"
      using tr by (auto simp: tracks_def)
    have "r1 = r" using r1 r hub_ok_ids [OF ok] by (auto dest: distinct_key_unique)
    then obtain st0 where st0: "cb_State r = Stored st0" "state_grows st0 st" using r1(3) r(4) by auto
    have step: "row_evolves r r'" using st0 by (simp add: row_evolves_def r'(1) ident_of_def)
    have ev: "evolves w w'"
    proof -
      have "\<exists>y \<in> set (hb_collabs w'). row_evolves x y" if "x \<in> set (hb_collabs w)" for x
      proof (cases "x = r")
        case False
        then have "x \<in> set (hb_collabs w')" using that by (simp add: set')
        then show ?thesis using row_evolves_refl by blast
      qed (use step r'(2) in blast)
      moreover have "hb_now w' = hb_now w" by (subst w') simp
      ultimately show ?thesis by (simp add: evolves_def)
    qed
    have keys: "distinct (map (\<lambda>r. (cb_OwnerID r, cb_IdempotencyKey r)) (hb_collabs w'))"
      using names ok by (simp only: hub_ok_def)
    show ?thesis
      using ok ids keys wf ev r r' Inr by (auto simp: hub_ok_def list_all_iff set' row_ok_def intro: tracks_row)
  qed
qed

end
