(* ===== verification/Go_Base64.thy ===== *)
theory Go_Base64
  imports Go_Strings
begin

text \<open>
  \<open>encoding/base64\<close> without padding, for any alphabet of 64 characters: \<open>RawURLEncoding\<close> and
  \<open>RawStdEncoding\<close>. The decoder skips carriage returns and line feeds and ignores the unused low bits of
  the last character, as the Go decoder does when it is not strict.
\<close>

definition url_alphabet :: string where
  "url_alphabet = ''ABCDEFGHIJKLMNOPQRSTUVWXYZabcdefghijklmnopqrstuvwxyz0123456789-_''"

definition std_alphabet :: string where
  "std_alphabet = ''ABCDEFGHIJKLMNOPQRSTUVWXYZabcdefghijklmnopqrstuvwxyz0123456789+/''"

definition b64 :: "string \<Rightarrow> int \<Rightarrow> char" where
  "b64 alphabet n = alphabet ! nat (n mod 64)"

fun base64_raw :: "string \<Rightarrow> string \<Rightarrow> string" where
  "base64_raw al (a # b # c # s) =
     (let n = (of_char a * 256 + of_char b) * 256 + of_char c :: int
      in [b64 al (n div 262144), b64 al (n div 4096), b64 al (n div 64), b64 al n] @ base64_raw al s)"
| "base64_raw al [a, b] =
     (let n = (of_char a * 256 + of_char b) * 256 :: int in [b64 al (n div 262144), b64 al (n div 4096), b64 al (n div 64)])"
| "base64_raw al [a] = (let n = of_char a * 65536 :: int in [b64 al (n div 262144), b64 al (n div 4096)])"
| "base64_raw al [] = []"

definition b64_value :: "string \<Rightarrow> char \<Rightarrow> int option" where
  "b64_value alphabet c = map_option int (find_index (\<lambda>x. x = c) alphabet)"

fun b64_values :: "string \<Rightarrow> string \<Rightarrow> int list option" where
  "b64_values al [] = Some []"
| "b64_values al (c # s) =
     (case b64_value al c of None \<Rightarrow> None | Some v \<Rightarrow> (case b64_values al s of None \<Rightarrow> None | Some vs \<Rightarrow> Some (v # vs)))"

fun b64_bytes :: "int list \<Rightarrow> string option" where
  "b64_bytes [] = Some []"
| "b64_bytes [_] = None"
| "b64_bytes [p, q] = Some [char_of (((p * 64 + q) * 4096) div 65536)]"
| "b64_bytes [p, q, r] = (let n = ((p * 64 + q) * 64 + r) * 64 in Some [char_of (n div 65536), char_of (n div 256)])"
| "b64_bytes (p # q # r # t # s) =
     (let n = ((p * 64 + q) * 64 + r) * 64 + t
      in case b64_bytes s of None \<Rightarrow> None | Some bs \<Rightarrow> Some (char_of (n div 65536) # char_of (n div 256) # char_of n # bs))"

definition base64_decode :: "string \<Rightarrow> string \<Rightarrow> string option" where
  "base64_decode al s = (case b64_values al (filter (\<lambda>c. c \<noteq> CHR 0x0D \<and> c \<noteq> CHR 0x0A) s) of None \<Rightarrow> None | Some vs \<Rightarrow> b64_bytes vs)"

section \<open>Decoding what was encoded\<close>

definition proper_alphabet :: "string \<Rightarrow> bool" where
  "proper_alphabet al = (length al = 64 \<and> distinct al \<and> CHR 0x0D \<notin> set al \<and> CHR 0x0A \<notin> set al)"

lemma alphabets [simp]: "proper_alphabet url_alphabet" "proper_alphabet std_alphabet"
  by code_simp+

lemma b64_in: "proper_alphabet al \<Longrightarrow> b64 al n \<in> set al"
  unfolding b64_def proper_alphabet_def by (intro nth_mem) (simp add: nat_less_iff)

lemma base64_raw_chars: "proper_alphabet al \<Longrightarrow> set (base64_raw al s) \<subseteq> set al"
  by (induction al s rule: base64_raw.induct) (simp_all add: Let_def b64_in)

lemma find_index_nth: "distinct xs \<Longrightarrow> i < length xs \<Longrightarrow> find_index (\<lambda>x. x = xs ! i) xs = Some i"
proof (induction xs arbitrary: i)
  case (Cons x xs)
  then show ?case by (cases i) auto
qed simp

lemma b64_value_b64: "proper_alphabet al \<Longrightarrow> b64_value al (b64 al n) = Some (n mod 64)"
  by (simp add: b64_value_def b64_def proper_alphabet_def find_index_nth nat_less_iff)

lemma of_char_bounds: "0 \<le> (of_char c :: int)" "(of_char c :: int) < 256"
  by (simp_all add: of_char_def)

text \<open>Three bytes are four digits of base 64 and back.\<close>

lemma digits_of:
  assumes "0 \<le> n" "n < 16777216"
  shows "((n div 262144 mod 64 * 64 + n div 4096 mod 64) * 64 + n div 64 mod 64) * 64 + n mod 64 = (n :: int)"
proof -
  have "n div 262144 mod 64 = n div 262144" using assms by (simp add: mod_pos_pos_trivial)
  moreover have "n div 262144 = n div 4096 div 64" "n div 4096 = n div 64 div 64" using zdiv_zmult2_eq [of 64 n 4096] zdiv_zmult2_eq [of 64 n 64] by simp_all
  moreover have "m div 64 * 64 + m mod 64 = m" for m :: int by simp
  ultimately show ?thesis by metis
qed

lemma char_of_byte: "m mod 256 = of_char c \<Longrightarrow> (char_of (m :: int) :: char) = c"
  by (metis char_of_mod_256 char_of_char)

lemma split_bytes:
  fixes a b c :: int
  assumes "0 \<le> a" "a < 256" "0 \<le> b" "b < 256" "0 \<le> c" "c < 256"
  shows "((a * 256 + b) * 256 + c) div 65536 = a" "((a * 256 + b) * 256 + c) div 256 mod 256 = b" "((a * 256 + b) * 256 + c) mod 256 = c"
    "0 \<le> (a * 256 + b) * 256 + c" "(a * 256 + b) * 256 + c < 16777216"
proof -
  have d: "(x * 256 + y) div 256 = x" "(x * 256 + y) mod 256 = y" if "0 \<le> y" "y < 256" for x y :: int
    using that by (auto intro: int_div_pos_eq [of _ 256 x y] int_mod_pos_eq [of _ 256 x y])
  have "m div 65536 = m div 256 div 256" for m :: int using zdiv_zmult2_eq [of 256 m 256] by simp
  then show "((a * 256 + b) * 256 + c) div 65536 = a" by (simp only: d(1) [OF assms(5,6)] d(1) [OF assms(3,4)])
  show "((a * 256 + b) * 256 + c) div 256 mod 256 = b" by (simp only: d(1) [OF assms(5,6)] d(2) [OF assms(3,4)])
  show "((a * 256 + b) * 256 + c) mod 256 = c" using d(2) [OF assms(5,6)] .
  have "(a * 256 + b) * 256 + c = 65536 * a + 256 * b + c" by simp
  then show "0 \<le> (a * 256 + b) * 256 + c" "(a * 256 + b) * 256 + c < 16777216" using assms by linarith+
qed

lemma bytes_of:
  fixes a b c :: char
  defines "n \<equiv> (of_char a * 256 + of_char b) * 256 + of_char c :: int"
  shows "char_of (n div 65536) = a" "char_of (n div 256) = b" "char_of n = c" "0 \<le> n" "n < 16777216"
  using split_bytes [OF of_char_bounds [of a] of_char_bounds [of b] of_char_bounds [of c]] by (simp_all add: n_def char_of_byte)

lemma values_append: "b64_values al (s @ t) = (case b64_values al s of None \<Rightarrow> None | Some vs \<Rightarrow> (case b64_values al t of None \<Rightarrow> None | Some ws \<Rightarrow> Some (vs @ ws)))"
  by (induction s) (auto split: option.split)

text \<open>One group of three bytes, with the digits of its number kept as they are.\<close>

lemma group_values:
  assumes "proper_alphabet al" "b64_values al t = Some vs"
  shows "b64_values al ([b64 al (n div 262144), b64 al (n div 4096), b64 al (n div 64), b64 al n] @ t)
    = Some ([n div 262144 mod 64, n div 4096 mod 64, n div 64 mod 64, n mod 64] @ vs)"
  using assms by (simp add: values_append b64_value_b64)

lemma group_bytes:
  assumes "0 \<le> n" "n < 16777216" "b64_bytes vs = Some bs"
  shows "b64_bytes ([n div 262144 mod 64, n div 4096 mod 64, n div 64 mod 64, n mod 64] @ vs)
    = Some (char_of (n div 65536) # char_of (n div 256) # char_of n # bs)"
  by (simp only: append.simps b64_bytes.simps Let_def digits_of [OF assms(1,2)] assms(3) option.case)

lemma tail_digits:
  assumes "0 \<le> n" "n < 16777216" "n mod 64 = 0"
  shows "((n div 262144 mod 64 * 64 + n div 4096 mod 64) * 64 + n div 64 mod 64) * 64 = (n :: int)"
  using digits_of [OF assms(1,2)] unfolding assms(3) add_0_right .

lemma tail_two: "(x * 64 + y) * 64 = n \<Longrightarrow> y = 0 \<Longrightarrow> x * 4096 = (n :: int)"
  by simp

lemma decode_values:
  assumes "proper_alphabet al"
  shows "\<exists>vs. b64_values al (base64_raw al s) = Some vs \<and> b64_bytes vs = Some s"
  using assms
proof (induction al s rule: base64_raw.induct)
  case (1 al a b c s)
  define n :: int where "n = (of_char a * 256 + of_char b) * 256 + of_char c"
  note n = bytes_of [of a b c, folded n_def]
  obtain vs where vs: "b64_values al (base64_raw al s) = Some vs" "b64_bytes vs = Some s" using 1 by blast
  show ?case
    unfolding base64_raw.simps(1) n_def [symmetric] Let_def group_values [OF 1(2) vs(1)] using group_bytes [OF n(4,5) vs(2)] n(1-3) by simp
next
  case (2 al a b)
  define n :: int where "n = (of_char a * 256 + of_char b) * 256"
  have "n = (of_char a * 256 + of_char b) * 256 + of_char (CHR 0x00)" by (simp add: n_def)
  note n = bytes_of [of a b "CHR 0x00", folded this]
  have e: "n = (of_char a * 256 + of_char b) * 4 * 64" unfolding n_def by simp
  have "n mod 64 = 0" unfolding e by (rule mod_mult_self2_is_0)
  note t = tail_digits [OF n(4,5) this]
  have v: "b64_values al (base64_raw al [a, b]) = Some [n div 262144 mod 64, n div 4096 mod 64, n div 64 mod 64]"
    unfolding base64_raw.simps(2) n_def [symmetric] Let_def using 2 by (simp add: b64_value_b64)
  have "b64_bytes [n div 262144 mod 64, n div 4096 mod 64, n div 64 mod 64] = Some [a, b]"
    by (simp only: b64_bytes.simps Let_def t n(1,2))
  then show ?case unfolding v by blast
next
  case (3 al a)
  define n :: int where "n = of_char a * 65536"
  have "n = (of_char a * 256 + of_char (CHR 0x00)) * 256 + of_char (CHR 0x00)" by (simp add: n_def)
  note n = bytes_of [of a "CHR 0x00" "CHR 0x00", folded this]
  have e: "n = of_char a * 1024 * 64" "n div 64 = of_char a * 16 * 64" unfolding n_def by simp_all
  have m: "n mod 64 = 0" "n div 64 mod 64 = 0" by (simp only: e(1) mod_mult_self2_is_0, simp only: e(2) mod_mult_self2_is_0)
  have t: "(n div 262144 mod 64 * 64 + n div 4096 mod 64) * 4096 = n" by (rule tail_two [OF tail_digits [OF n(4,5) m(1)] m(2)])
  have v: "b64_values al (base64_raw al [a]) = Some [n div 262144 mod 64, n div 4096 mod 64]"
    unfolding base64_raw.simps(3) n_def [symmetric] Let_def using 3 by (simp add: b64_value_b64)
  have "b64_bytes [n div 262144 mod 64, n div 4096 mod 64] = Some [a]" by (simp only: b64_bytes.simps t n(1))
  then show ?case unfolding v by blast
qed simp

lemma base64_round_trip:
  assumes "proper_alphabet al" shows "base64_decode al (base64_raw al s) = Some s"
proof -
  have "filter (\<lambda>c. c \<noteq> CHR 0x0D \<and> c \<noteq> CHR 0x0A) (base64_raw al s) = base64_raw al s"
    using base64_raw_chars [OF assms] assms by (auto simp: proper_alphabet_def filter_id_conv)
  then show ?thesis using decode_values [OF assms, of s] by (auto simp: base64_decode_def)
qed

end
