(* ===== verification/Task_Ref.thy ===== *)
theory Task_Ref
  imports Hub_World Go_Base64
begin

text \<open>
  The reference of a task (\<open>core/task_result.go\<close>: \<open>task_\<close> and the unpadded URL-safe base64 of a small
  JSON object) and the prompt with which a CHAT starts (\<open>cloudCollaborationBootstrap\<close>). The JSON text
  is the one \<open>encoding/json\<close> writes for strings and integers, escapes included.
\<close>

section \<open>JSON text\<close>

definition hex_char :: "nat \<Rightarrow> char" where
  "hex_char n = (''0123456789abcdef'' ! (n mod 16))"

definition u00 :: "nat \<Rightarrow> string" where
  "u00 n = [CHR 0x5C] @ ''u00'' @ [hex_char (n div 16), hex_char n]"

definition json_ascii :: "char \<Rightarrow> string" where
  "json_ascii c = (if c = CHR 0x22 then [CHR 0x5C, CHR 0x22]
     else if c = CHR 0x5C then [CHR 0x5C, CHR 0x5C]
     else if c = CHR 0x08 then [CHR 0x5C, CHR ''b'']
     else if c = CHR 0x0C then [CHR 0x5C, CHR ''f'']
     else if c = CHR 0x0A then [CHR 0x5C, CHR ''n'']
     else if c = CHR 0x0D then [CHR 0x5C, CHR ''r'']
     else if c = CHR 0x09 then [CHR 0x5C, CHR ''t'']
     else if (of_char c :: nat) < 32 \<or> c = CHR ''<'' \<or> c = CHR ''>'' \<or> c = CHR 0x26 then u00 (of_char c)
     else [c])"

text \<open>The length of the UTF-8 sequence at the front, 0 when it is not valid there.\<close>

fun utf8_lead :: "string \<Rightarrow> nat" where
  "utf8_lead (a # b # c # d # s) =
     (if utf8_count [of_char a] = Some 1 then 1
      else if utf8_count [of_char a, of_char b] = Some 1 then 2
      else if utf8_count [of_char a, of_char b, of_char c] = Some 1 then 3
      else if utf8_count [of_char a, of_char b, of_char c, of_char d] = Some 1 then 4 else 0)"
| "utf8_lead [a, b, c] =
     (if utf8_count [of_char a] = Some 1 then 1
      else if utf8_count [of_char a, of_char b] = Some 1 then 2
      else if utf8_count [of_char a, of_char b, of_char c] = Some 1 then 3 else 0)"
| "utf8_lead [a, b] =
     (if utf8_count [of_char a] = Some 1 then 1
      else if utf8_count [of_char a, of_char b] = Some 1 then 2 else 0)"
| "utf8_lead [a] = (if utf8_count [of_char a] = Some 1 then 1 else 0)"
| "utf8_lead [] = 0"

function json_body :: "string \<Rightarrow> string" where
  "json_body [] = []"
| "json_body (c # s) =
     (if (of_char c :: nat) < 128 then json_ascii c @ json_body s
      else if utf8_lead (c # s) = 0 then [CHR 0x5C] @ ''ufffd'' @ json_body s
      else if take 3 (c # s) = [CHR 0xE2, CHR 0x80, CHR 0xA8] then [CHR 0x5C] @ ''u2028'' @ json_body (drop 3 (c # s))
      else if take 3 (c # s) = [CHR 0xE2, CHR 0x80, CHR 0xA9] then [CHR 0x5C] @ ''u2029'' @ json_body (drop 3 (c # s))
      else take (utf8_lead (c # s)) (c # s) @ json_body (drop (utf8_lead (c # s)) (c # s)))"
  by pat_completeness auto
termination by (relation "measure length") auto

declare json_body.simps [simp del]

definition json_quote :: "string \<Rightarrow> string" where
  "json_quote s = [CHR 0x22] @ json_body s @ [CHR 0x22]"

section \<open>References and prompts\<close>

definition cloudTaskResultReference :: "string \<Rightarrow> task \<Rightarrow> string" where
  "cloudTaskResultReference collaborationID t =
     ''task_'' @ base64_raw url_alphabet ([CHR 0x7B] @ json_quote ''c'' @ '':'' @ json_quote collaborationID @ '','' @ json_quote ''t'' @ '':''
       @ json_quote (tk_ID t) @ '','' @ json_quote ''g'' @ '':'' @ decimal (tk_Generation t) @ [CHR 0x7D])"

definition bootstrap_deliverable :: "task \<Rightarrow> string" where
  "bootstrap_deliverable t =
     (if tk_CallbackType t = ''local_file'' then
        ''Write UTF-8 with FastSpider_FS file_edit to '' @ cloudCollaborationTaskResultPath t
        @ '' (writable even in read_only). Start with a brief task report; keep supporting detail below it. Submit without the file body.'' @ [CHR 0x0A]
      else if tk_CallbackType t = ''text'' then
        ''Replace the text placeholder with a brief task report, not a transcript or tool log.'' @ [CHR 0x0A]
      else [])"

text \<open>The keys of a Go map are written in order.\<close>

definition bootstrap_args :: "string \<Rightarrow> task \<Rightarrow> string" where
  "bootstrap_args collaborationID t =
     [CHR 0x7B] @ json_quote ''status'' @ '':'' @ json_quote ''completed'' @ '','' @ json_quote ''taskRef'' @ '':''
     @ json_quote (cloudTaskResultReference collaborationID t)
     @ (if tk_CallbackType t = ''text'' then '','' @ json_quote ''text'' @ '':'' @ json_quote ''RESULT (max 2000 characters)'' else [])
     @ [CHR 0x7D]"

definition bootstrap_report :: string where
  "bootstrap_report = ''Report to the receiving coordinator as to a colleague: what you did, the outcome and verification, and any remaining work or recommended next step. Keep execution steps in the original CHAT or report, not in the callback. If blocked or awaiting a decision, report the specific blocker, who can resolve it, your recommendation and what lets you resume; do not wait silently. Continue independent work within scope before ending the round. Before replying, call FastSpider_FS task_result_submit(''"

definition bootstrap_end :: string where
  "bootstrap_end = ''), using completed only when the assigned work is verified, otherwise blocked or failed as appropriate. Report any submission error; never claim an unsent result was delivered. This ends the assigned round, not the CHAT; wait for the coordinator'' @ [CHR 0x27] @ ''s next assignment.''"

definition cloudCollaborationBootstrap :: "string \<Rightarrow> string \<Rightarrow> collab_state \<Rightarrow> task \<Rightarrow> string" where
  "cloudCollaborationBootstrap collaborationID machineID st t =
     (let nl = [CHR 0x0A];
          scope = ''machine_id='' @ machineID @ nl @ ''working_directory='' @ cs_WorkingDirectory st @ nl
            @ ''access_mode='' @ tk_AccessMode t
            @ (if tk_WriteScope t \<noteq> [] then nl @ ''write_scope='' @ tk_WriteScope t else [])
      in ''FAST_SPIDER_CLOUD_TASK_V1'' @ nl @ tk_Prompt t @ nl @ nl @ scope @ nl @ ''Stay within this scope.'' @ nl
         @ bootstrap_deliverable t @ bootstrap_report @ bootstrap_args collaborationID t @ bootstrap_end)"

section \<open>The shape of a reference\<close>

text \<open>A reference uses only characters that need no quoting anywhere it is embedded.\<close>

definition ref_char :: "char \<Rightarrow> bool" where
  "ref_char c = (c \<in> set url_alphabet)"

lemma cloudTaskResultReference_chars:
  "has_prefix (cloudTaskResultReference cid t) ''task_'' \<and> list_all ref_char (cloudTaskResultReference cid t)"
proof -
  have "list_all ref_char ''task_''" by (simp add: ref_char_def url_alphabet_def)
  moreover have "list_all ref_char (base64_raw url_alphabet s)" for s
    using base64_raw_chars [OF alphabets(1)] by (auto simp: list_all_iff ref_char_def)
  ultimately show ?thesis unfolding cloudTaskResultReference_def by (simp add: has_prefix_def)
qed

end
