(* ===== verification/Collab_Callback.thy ===== *)
theory Collab_Callback
  imports Collab_Evolve Task_Ref
begin

text \<open>
  The callback routes between a CHAT and its dispatcher, as the Hub asks the Node for them: readiness,
  registering, arming, releasing and unregistering a route, and replaying a stored completion once a
  route is back. Each is the code's sequence of capability calls with the Hub state threaded through.
\<close>

definition agent_call :: "env \<Rightarrow> hub \<Rightarrow> string \<Rightarrow> string \<Rightarrow> string \<Rightarrow> jobj \<Rightarrow> (hub_error + jobj) \<times> hub" where
  "agent_call E w ownerID machineID action params = CallCapability E w ownerID machineID ''agent.control'' action params"

definition codex :: jobj where "codex = [(''providerId'', JStr ''codex'')]"
definition codex_cloud :: jobj where "codex_cloud = codex @ [(''backend'', JStr ''chatgpt_cloud'')]"

section \<open>Readiness\<close>

definition ensureCodexCloudCollaborationReady :: "env \<Rightarrow> hub \<Rightarrow> string \<Rightarrow> string \<Rightarrow> (hub_error + unit) \<times> hub" where
  "ensureCodexCloudCollaborationReady E w ownerID machineID =
     run (agent_call E w ownerID machineID ''provider.readiness'' (codex_cloud @ [(''mode'', JStr ''safe'')]))
       (\<lambda>result w.
         if jbool (jget result ''ready'') \<and> jbool (jget result ''chatgptCloudAvailable'') then (Inr (), w)
         else (Inl (CallError \<lparr>ce_Code = ''RUNTIME_UNAVAILABLE'',
             ce_Message = ''Codex cloud collaboration requires the local Codex app-server to be available and authenticated with ChatGPT'',
             ce_Retryable = True,
             ce_Details = [(''reasonCode'', JStr (jstr (jget result ''reasonCode''))), (''providerId'', JStr ''codex''),
               (''backend'', JStr ''chatgpt_cloud'')]\<rparr>), w))"

definition validateCodexLocalCollaborationSession :: "env \<Rightarrow> hub \<Rightarrow> string \<Rightarrow> string \<Rightarrow> string \<Rightarrow> (hub_error + unit) \<times> hub" where
  "validateCodexLocalCollaborationSession E w ownerID machineID sessionID =
     run (agent_call E w ownerID machineID ''session.callback.prepare''
         (codex @ [(''sessionId'', JStr (trim_space sessionID)), (''mode'', JStr ''target'')]))
       (\<lambda>result w.
         if jget result ''prepared'' \<noteq> JBool True
         then (Inl (call_error ''INVALID_REQUEST'' ''Codex cloud collaboration controller and dispatcher must be existing local Codex sessions'' False), w)
         else (Inr (), w))"

section \<open>Routes\<close>

definition capabilityErrorHasCode :: "hub_error \<Rightarrow> string list \<Rightarrow> bool" where
  "capabilityErrorHasCode e codes =
     (case root_error e of CallError c \<Rightarrow> list_ex (\<lambda>code. equal_fold_ascii (trim_space (ce_Code c)) code) codes | _ \<Rightarrow> False)"

text \<open>The parameters that name a route: source CHAT, target, collaboration, task, generation.\<close>

definition route_params :: "string \<Rightarrow> string \<Rightarrow> string \<Rightarrow> string \<Rightarrow> int \<Rightarrow> jobj" where
  "route_params sessionID target missionID taskID generation =
     [(''sessionId'', JStr sessionID), (''callbackTargetSessionId'', JStr target), (''callbackMissionId'', JStr missionID),
      (''callbackTaskId'', JStr taskID), (''callbackGeneration'', JInt generation)]"

definition callback_mode :: "collab_state \<Rightarrow> task \<Rightarrow> string" where
  "callback_mode st t =
     (case chatTaskIndex st t of
        Some i \<Rightarrow> if tk_SessionMode t = ''reuse'' \<and> ct_CallbackRegistered (cs_Chats st ! i) then ''reuse_resume'' else tk_SessionMode t
      | None \<Rightarrow> tk_SessionMode t)"

definition registerCloudCollaborationCallback ::
    "env \<Rightarrow> hub \<Rightarrow> string \<Rightarrow> collab_row \<Rightarrow> collab_state \<Rightarrow> task \<Rightarrow> string \<Rightarrow> (hub_error + jobj) \<times> hub" where
  "registerCloudCollaborationCallback E w ownerID rec st t baselineIdentity =
     (let mode = callback_mode st t;
          params = codex_cloud @ route_params (tk_ChatSessionID t) (cs_DispatcherSessionID st) (cb_CollaborationID rec) (tk_ID t) (tk_Generation t)
            @ [(''callbackType'', JStr (tk_CallbackType t)), (''mode'', JStr mode),
               (''callbackDeliverablePath'', JStr (cloudCollaborationTaskResultPath t)), (''callbackImmediateWake'', JBool True),
               (''callbackBaselineIdentity'', JStr (trim_space baselineIdentity)), (''callbackArmRequired'', JBool True)]
      in case agent_call E w ownerID (cb_MachineID rec) ''session.callback.register'' params of
           (Inr result, w) \<Rightarrow> (Inr result, w)
         | (Inl e, w) \<Rightarrow>
             if mode \<noteq> ''reuse_resume'' \<or> \<not> capabilityErrorHasCode e [''CALLBACK_BASELINE_UNAVAILABLE'', ''CALLBACK_ROUTE_NOT_FOUND'']
             then (Inl e, w)
             else agent_call E w ownerID (cb_MachineID rec) ''session.callback.register'' (AList.update ''mode'' (JStr ''reuse'') params))"

definition armCloudCollaborationCallback ::
    "env \<Rightarrow> hub \<Rightarrow> string \<Rightarrow> collab_row \<Rightarrow> collab_state \<Rightarrow> task \<Rightarrow> (hub_error + jobj) \<times> hub" where
  "armCloudCollaborationCallback E w ownerID rec st t =
     agent_call E w ownerID (cb_MachineID rec) ''session.callback.arm''
       (codex_cloud @ route_params (tk_ChatSessionID t) (cs_DispatcherSessionID st) (cb_CollaborationID rec) (tk_ID t) (tk_Generation t))"

text \<open>Three results: the route is registered, it is armed, and the error if there was one.\<close>

type_synonym activation = "bool \<times> bool \<times> hub_error option"

definition activateCloudCollaborationCallbackRoute ::
    "env \<Rightarrow> hub \<Rightarrow> string \<Rightarrow> collab_row \<Rightarrow> collab_state \<Rightarrow> task \<Rightarrow> string \<Rightarrow> activation \<times> hub" where
  "activateCloudCollaborationCallbackRoute E w ownerID rec st t baselineIdentity =
     (case registerCloudCollaborationCallback E w ownerID rec st t baselineIdentity of
        (Inl e, w) \<Rightarrow> ((False, False, Some e), w)
      | (Inr _, w) \<Rightarrow>
      (case armCloudCollaborationCallback E w ownerID rec st t of
        (Inl e, w) \<Rightarrow> ((True, False, Some e), w)
      | (Inr _, w) \<Rightarrow> ((True, True, None), w)))"

definition enqueueCloudCompletionOnNode ::
    "env \<Rightarrow> hub \<Rightarrow> string \<Rightarrow> collab_row \<Rightarrow> task \<Rightarrow> notif_row \<Rightarrow> (hub_error + jobj) \<times> hub" where
  "enqueueCloudCompletionOnNode E w ownerID rec t n =
     agent_call E w ownerID (cb_MachineID rec) ''session.callback.enqueue''
       (codex_cloud @ route_params (nt_SourceSessionID n) (nt_TargetSessionID n) (cb_CollaborationID rec) (tk_ID t) (tk_Generation t)
        @ [(''callbackType'', JStr (nt_CallbackType n)), (''callbackDeliverablePath'', JStr (nt_DeliverablePath n)),
           (''callbackOutcome'', JStr (nt_Outcome n)), (''callbackText'', JStr (nt_ResultText n))])"

definition GetCloudCompletionNotificationByTask ::
    "hub \<Rightarrow> string \<Rightarrow> string \<Rightarrow> string \<Rightarrow> int \<Rightarrow> string \<Rightarrow> hub_error + notif_row" where
  "GetCloudCompletionNotificationByTask w ownerID collaborationID taskID generation kind =
     (case find (\<lambda>n. nt_OwnerID n = ownerID \<and> nt_CollaborationID n = collaborationID \<and> nt_TaskID n = taskID
          \<and> nt_Generation n = generation \<and> nt_NotificationKind n = kind) (hb_notifs w) of
        None \<Rightarrow> Inl ErrNotFound | Some n \<Rightarrow> Inr n)"

definition enqueuePendingCloudCompletion ::
    "env \<Rightarrow> hub \<Rightarrow> string \<Rightarrow> collab_row \<Rightarrow> task \<Rightarrow> (hub_error + jobj) \<times> hub" where
  "enqueuePendingCloudCompletion E w ownerID rec t =
     (case GetCloudCompletionNotificationByTask w ownerID (cb_CollaborationID rec) (tk_ID t) (tk_Generation t) ''completion'' of
        Inl e \<Rightarrow> if e = ErrNotFound then (Inr [], w) else (Inl e, w)
      | Inr n \<Rightarrow> if nt_State n \<noteq> ''pending'' then (Inr [], w) else enqueueCloudCompletionOnNode E w ownerID rec t n)"

definition activateCloudCollaborationCallback ::
    "env \<Rightarrow> hub \<Rightarrow> string \<Rightarrow> collab_row \<Rightarrow> collab_state \<Rightarrow> task \<Rightarrow> string \<Rightarrow> activation \<times> hub" where
  "activateCloudCollaborationCallback E w ownerID rec st t baselineIdentity =
     (case activateCloudCollaborationCallbackRoute E w ownerID rec st t baselineIdentity of
        ((registered, armed, Some e), w) \<Rightarrow> ((registered, armed, Some e), w)
      | ((registered, armed, None), w) \<Rightarrow>
      (case enqueuePendingCloudCompletion E w ownerID rec t of
        (Inl e, w) \<Rightarrow> ((True, True, Some e), w)
      | (Inr _, w) \<Rightarrow> ((True, True, None), w)))"

definition clear_route :: "chat \<Rightarrow> chat" where
  "clear_route c = c\<lparr>ct_CallbackRegistered := False, ct_CallbackArmed := False\<rparr>"

definition unregister_route :: "env \<Rightarrow> hub \<Rightarrow> string \<Rightarrow> collab_row \<Rightarrow> collab_state \<Rightarrow> chat \<Rightarrow> (hub_error + jobj) \<times> hub" where
  "unregister_route E w ownerID rec st c =
     agent_call E w ownerID (cb_MachineID rec) ''session.callback.unregister''
       (codex_cloud @ route_params (ct_SessionID c) (cs_DispatcherSessionID st) (cb_CollaborationID rec) (ct_TaskID c) (ct_Generation c))"

text \<open>The source changes \<open>*state\<close>; here the changed state is the result.\<close>

definition unregisterCloudCollaborationTaskCallback ::
    "env \<Rightarrow> hub \<Rightarrow> string \<Rightarrow> collab_row \<Rightarrow> collab_state \<Rightarrow> string \<Rightarrow> (hub_error + collab_state) \<times> hub" where
  "unregisterCloudCollaborationTaskCallback E w ownerID rec st taskID =
     (case taskIndex st (trim_space taskID) of
        None \<Rightarrow> (Inl ErrNotFound, w)
      | Some idx \<Rightarrow>
      (case chatTaskIndex st (cs_Tasks st ! idx) of
        None \<Rightarrow> (Inl ErrNotFound, w)
      | Some cidx \<Rightarrow>
      let c = cs_Chats st ! cidx
      in if \<not> ct_CallbackRegistered c then (Inr st, w)
         else run (unregister_route E w ownerID rec st c) (\<lambda>_ w. (Inr (upd_chat cidx clear_route st), w))))"

end
