(* ===== verification/Collab_Dispatch.thy ===== *)
theory Collab_Dispatch
  imports Collab_Callback
begin

text \<open>
  Handing a task to a CHAT: a new CHAT (\<open>session.create\<close>, bound by \<open>persistCloudCollaborationCreatedChat\<close>)
  or an existing one (\<open>session.send\<close>), with the reservation that is saved before each external call and
  the outcomes that stay in doubt.
\<close>

definition dgs :: "env \<Rightarrow> digests" where "dgs E = en_digests E"

definition cloudCompletionNotificationID :: "digests \<Rightarrow> string \<Rightarrow> string \<Rightarrow> int \<Rightarrow> string" where
  "cloudCompletionNotificationID dg collaborationID taskID generation =
     ''completion_'' @ take 48 (dg_text dg (collaborationID @ [CHR 0x00] @ taskID @ [CHR 0x00] @ decimal generation @ [CHR 0x00] @ ''completion''))"

section \<open>Releasing a route that finished work left behind\<close>

definition owner_conflict :: "string \<Rightarrow> hub_error" where
  "owner_conflict message = call_error ''CALLBACK_OWNER_CONFLICT'' message True"

text \<open>A blocked task whose blocking the dispatcher has acknowledged.\<close>

definition acknowledged_block :: "digests \<Rightarrow> collab_state \<Rightarrow> task \<Rightarrow> string \<Rightarrow> string \<Rightarrow> string \<Rightarrow> int \<Rightarrow> string \<Rightarrow> bool" where
  "acknowledged_block dg old t missionID taskID targetID generation sessionID =
     (tk_Status t = ''blocked'' \<and> tk_Generation t = generation \<and> tk_ChatSessionID t = sessionID
      \<and> cs_DispatcherSessionID old = targetID
      \<and> list_ex (\<lambda>e. ev_ID e = cloudCompletionNotificationID dg missionID taskID generation
          \<and> ev_Type e = ''completion.notification'' \<and> ev_Status e = ''acked'' \<and> ev_TaskID e = taskID
          \<and> ev_Generation e = generation \<and> ev_SessionID e = sessionID) (cs_Events old))"

fun release_loop ::
    "env \<Rightarrow> string \<Rightarrow> collab_row \<Rightarrow> collab_state \<Rightarrow> task \<Rightarrow> string \<Rightarrow> jobj list \<Rightarrow> hub \<Rightarrow> (hub_error + unit) \<times> hub" where
  "release_loop E ownerID rec st t sessionID [] w = (Inr (), w)"
| "release_loop E ownerID rec st t sessionID (cb # cbs) w =
     (let missionID = mapString cb ''missionId''; taskID = mapString cb ''taskId''; targetID = mapString cb ''targetSessionId'';
          generation = fst (numericInt64 (jget cb ''generation''))
      in if missionID = cb_CollaborationID rec \<and> taskID = tk_ID t \<and> targetID = cs_DispatcherSessionID st \<and> generation = tk_Generation t
         then (Inr (), w)
      else let pendingCount = fst (numericInt64 (jget cb ''pendingCount''))
      in if pendingCount \<noteq> 0 \<or> missionID = [] \<or> taskID = [] \<or> targetID = [] \<or> generation < 1
         then (Inl (owner_conflict ''the selected Cloud CHAT still has an active or pending callback owner''), w)
      else case loadCloudCollaboration (dgs E) w ownerID missionID of
        Inl e \<Rightarrow>
          (Inl (if root_error e = ErrNotFound then
              CallError \<lparr>ce_Code = ''ORPHAN_CALLBACK_ROUTE'',
                ce_Message = ''the selected Cloud CHAT has a callback route whose collaboration no longer exists; inspect and explicitly unregister the orphan route'',
                ce_Retryable = False,
                ce_Details = [(''collaborationId'', JStr missionID), (''taskId'', JStr taskID), (''sourceSessionId'', JStr sessionID)]\<rparr>
            else owner_conflict ''the selected Cloud CHAT has a callback owner that cannot be safely released''), w)
      | Inr (_, old) \<Rightarrow>
      let releasable = (case taskIndex old taskID of
            None \<Rightarrow> False
          | Some i \<Rightarrow> tk_Status (cs_Tasks old ! i) = ''done'' \<or> tk_Status (cs_Tasks old ! i) = ''dropped''
              \<or> acknowledged_block (dgs E) old (cs_Tasks old ! i) missionID taskID targetID generation sessionID)
      in if \<not> releasable
         then (Inl (owner_conflict ''the selected Cloud CHAT is still assigned to unfinished work''), w)
      else run (agent_call E w ownerID (cb_MachineID rec) ''session.callback.unregister''
                  (codex_cloud @ route_params sessionID targetID missionID taskID generation))
             (\<lambda>_ w. release_loop E ownerID rec st t sessionID cbs w))"

definition releaseCompletedCloudCallbackForReuse ::
    "env \<Rightarrow> hub \<Rightarrow> string \<Rightarrow> collab_row \<Rightarrow> collab_state \<Rightarrow> task \<Rightarrow> string \<Rightarrow> (hub_error + unit) \<times> hub" where
  "releaseCompletedCloudCallbackForReuse E w ownerID rec st t sessionID =
     run (agent_call E w ownerID (cb_MachineID rec) ''session.callback.list'' (codex_cloud @ [(''sessionId'', JStr sessionID)]))
       (\<lambda>listed w. release_loop E ownerID rec st t sessionID (collaborationMapItems (jget listed ''callbacks'')) w)"

section \<open>An existing CHAT\<close>

definition cloudCollaborationDeliveryWasRejected :: "hub_error \<Rightarrow> bool" where
  "cloudCollaborationDeliveryWasRejected e =
     (case root_error e of
        CallError c \<Rightarrow>
          let code = upper_image (trim_space (ce_Code c))
          in if code = ''CONNECTION_LOST'' \<or> code = ''DEADLINE_EXCEEDED'' then False
             else if code = ''CHATGPT_CLOUD_HTTP_ERROR'' then \<not> ce_Retryable c
             else True
      | _ \<Rightarrow> False)"

text \<open>A save whose answer is dropped: the error of the save, or the world to go on in.\<close>

definition save_then :: "hub \<Rightarrow> string \<Rightarrow> collab_row \<Rightarrow> collab_state \<Rightarrow> (out \<Rightarrow> hub \<Rightarrow> (hub_error + 'a) \<times> hub) \<Rightarrow> (hub_error + 'a) \<times> hub" where
  "save_then w ownerID rec st k = run (saveCloudCollaboration w ownerID rec st) k"

definition saved_rec :: "collab_row \<Rightarrow> out \<Rightarrow> collab_row" where
  "saved_rec rec reserved = rec\<lparr>cb_Revision := numberField reserved ''revision''\<rparr>"

definition send_params :: "string \<Rightarrow> string \<Rightarrow> string \<Rightarrow> jobj" where
  "send_params sessionID prompt key = codex_cloud @ [(''sessionId'', JStr sessionID), (''mode'', JStr ''quick_chat''),
     (''prompt'', JStr prompt), (''idempotencyKey'', JStr key)]"

text \<open>The ways a send can end: refused for certain, uncertain, delivered.\<close>

definition delivery_refused ::
    "env \<Rightarrow> hub \<Rightarrow> string \<Rightarrow> collab_row \<Rightarrow> collab_state \<Rightarrow> nat \<Rightarrow> nat \<Rightarrow> hub_error \<Rightarrow> (hub_error + out) \<times> hub" where
  "delivery_refused E w ownerID rec st idx cidx sendErr =
     (case unregisterCloudCollaborationTaskCallback E w ownerID rec st (tk_ID (cs_Tasks st ! idx)) of
        (Inl unregisterErr, w) \<Rightarrow>
          save_then w ownerID rec (upd_chat cidx (\<lambda>c. c\<lparr>ct_Status := ''release_pending''\<rparr>)
              (upd_task idx (\<lambda>t. t\<lparr>tk_Status := ''blocked'', tk_DeliveryStatus := ''rejected'', tk_UpdatedAt := format_stamp (hb_now w)\<rparr>) st))
            (\<lambda>_ w. (Inl (Wrapped ''callback cleanup failed'' sendErr), w))
      | (Inr st, w) \<Rightarrow>
          save_then w ownerID rec (upd_task idx (\<lambda>t. t\<lparr>tk_Status := ''queued'', tk_ChatSessionID := [], tk_SessionMode := [],
                tk_DeliveryStatus := ''pending'', tk_UpdatedAt := format_stamp (hb_now w)\<rparr>)
              (upd_chat cidx (\<lambda>c. c\<lparr>ct_Status := ''released''\<rparr>) st))
            (\<lambda>_ w. (Inl sendErr, w)))"

definition put_if :: "bool \<Rightarrow> string \<Rightarrow> oval \<Rightarrow> out \<Rightarrow> out" where
  "put_if b k v m = (if b then put k v m else m)"

definition delivery_out :: "task \<Rightarrow> bool \<Rightarrow> jobj \<Rightarrow> out \<Rightarrow> out" where
  "delivery_out t armFailed result m =
     (let m = put ''targetSessionId'' (ostr (tk_ChatSessionID t)) (put ''reusedSession'' (obool True) m);
          m = put_if armFailed ''callbackPending'' (obool True) m;
          m = put_if (jstr (jget result ''asyncTaskId'') \<noteq> []) ''asyncTaskId'' (ostr (jstr (jget result ''asyncTaskId''))) m
      in put_if (jstr (jget result ''idempotencyStatus'') \<noteq> []) ''deliveryIdempotencyStatus'' (ostr (jstr (jget result ''idempotencyStatus''))) m)"

definition deliver_send ::
    "env \<Rightarrow> hub \<Rightarrow> string \<Rightarrow> collab_row \<Rightarrow> collab_state \<Rightarrow> nat \<Rightarrow> nat \<Rightarrow> (hub_error + out) \<times> hub" where
  "deliver_send E w ownerID rec st idx cidx =
     (let t = cs_Tasks st ! idx;
          prompt = cloudCollaborationBootstrap (cb_CollaborationID rec) (cb_MachineID rec) st t
      in case agent_call E w ownerID (cb_MachineID rec) ''session.send'' (send_params (tk_ChatSessionID t) prompt (tk_IdempotencyKey t)) of
        (Inl sendErr, w) \<Rightarrow>
          if cloudCollaborationDeliveryWasRejected sendErr then delivery_refused E w ownerID rec st idx cidx sendErr
          else (case armCloudCollaborationCallback E w ownerID rec st t of
            (arm, w) \<Rightarrow>
              let st = (if is_ok arm then upd_chat cidx (\<lambda>c. c\<lparr>ct_CallbackArmed := True\<rparr>) st else st)
              in save_then w ownerID rec (upd_task idx (\<lambda>t. t\<lparr>tk_DeliveryStatus := ''in_doubt''\<rparr>) st)
                   (\<lambda>m w. (Inr (put_if (\<not> is_ok arm) ''callbackPending'' (obool True)
                      (put ''reusedSession'' (obool True) (put ''deliveryInDoubt'' (obool True) m))), w)))
      | (Inr result, w) \<Rightarrow>
          (case armCloudCollaborationCallback E w ownerID rec st t of
            (arm, w) \<Rightarrow>
              let st = (if is_ok arm then upd_chat cidx (\<lambda>c. c\<lparr>ct_CallbackArmed := True\<rparr>) st else st)
              in save_then w ownerID rec (upd_task idx (\<lambda>t. t\<lparr>tk_DeliveryStatus := ''delivered''\<rparr>) st)
                   (\<lambda>m w. (Inr (delivery_out t (\<not> is_ok arm) result m), w))))"

definition registered_chat :: "jobj \<Rightarrow> chat \<Rightarrow> chat" where
  "registered_chat result c =
     (let c = c\<lparr>ct_CallbackRegistered := True\<rparr>
      in case jget result ''callback'' of JObj m \<Rightarrow> c\<lparr>ct_CallbackArmed := jbool (jget m ''armed'')\<rparr> | _ \<Rightarrow> c)"

definition deliverCloudCollaborationExistingTask ::
    "env \<Rightarrow> hub \<Rightarrow> string \<Rightarrow> collab_row \<Rightarrow> collab_state \<Rightarrow> string \<Rightarrow> (hub_error + out) \<times> hub" where
  "deliverCloudCollaborationExistingTask E w ownerID rec st taskID =
     (case taskIndex st taskID of
        None \<Rightarrow> (Inl ErrNotFound, w)
      | Some idx \<Rightarrow>
      let t = cs_Tasks st ! idx
      in (case chatTaskIndex st t of
        None \<Rightarrow> (Inl ErrConflict, w)
      | Some cidx \<Rightarrow>
      if tk_SessionMode t \<noteq> ''reuse'' \<or> tk_ChatSessionID t = [] then (Inl ErrConflict, w)
      else run (registerCloudCollaborationCallback E w ownerID rec st t [])
        (\<lambda>result w. let st = upd_chat cidx (registered_chat result) st
          in save_then w ownerID rec st
            (\<lambda>reserved w. deliver_send E w ownerID (saved_rec rec reserved) st idx cidx))))"

definition reused_chat :: "task \<Rightarrow> string \<Rightarrow> instant \<Rightarrow> chat" where
  "reused_chat t sessionID now =
     \<lparr>ct_SessionID = sessionID, ct_TaskID = tk_ID t, ct_ParentSession = tk_ParentSession t, ct_Depth = tk_Depth t,
      ct_Generation = tk_Generation t, ct_Status = ''active'', ct_AccessMode = tk_AccessMode t, ct_WriteScope = tk_WriteScope t,
      ct_AllowedActions = tk_AllowedActions t, ct_CallbackRegistered = False, ct_CallbackArmed = False, ct_WatchCursor = 0,
      ct_LastObservedAt = format_stamp now, ct_LastProgressAt = format_stamp now, ct_QuietChecks = 0, ct_StalledNotified = False,
      ct_ContinueAttempts = 0, ct_LastContinueAt = NoStamp, ct_Reused = True\<rparr>"

definition assign_existing :: "string \<Rightarrow> instant \<Rightarrow> task \<Rightarrow> task" where
  "assign_existing sessionID now t = t\<lparr>tk_TargetSessionID := sessionID, tk_ChatSessionID := sessionID, tk_SessionMode := ''reuse'',
     tk_DeliveryStatus := ''delivering'', tk_Status := ''active'', tk_UpdatedAt := format_stamp now\<rparr>"

definition cloudCollaborationDispatchExistingTask ::
    "env \<Rightarrow> hub \<Rightarrow> string \<Rightarrow> collab_row \<Rightarrow> collab_state \<Rightarrow> collab_request \<Rightarrow> string \<Rightarrow> (hub_error + out) \<times> hub" where
  "cloudCollaborationDispatchExistingTask E w ownerID rec st req targetSessionID =
     (case taskIndex st (rq_TaskID req) of
        None \<Rightarrow> (Inl ErrNotFound, w)
      | Some idx \<Rightarrow>
      let t = cs_Tasks st ! idx
      in if \<not> containsString (tk_AllowedActions t) ''chat.send'' then (Inl ErrUnauthorized, w)
      else if list_ex (\<lambda>c. ct_SessionID c = targetSessionID \<and> ct_TaskID c \<noteq> tk_ID t
                \<and> (ct_Status c = ''active'' \<or> ct_Status c = ''creating'')) (cs_Chats st) then (Inl ErrConflict, w)
      else run (ensureCodexCloudCollaborationReady E w ownerID (cb_MachineID rec)) (\<lambda>_ w.
        run (agent_call E w ownerID (cb_MachineID rec) ''session.callback.prepare'' (codex_cloud @ [(''sessionId'', JStr targetSessionID)]))
          (\<lambda>prepared w.
            if jget prepared ''prepared'' \<noteq> JBool True
            then (Inl (call_error ''CALLBACK_BASELINE_UNAVAILABLE'' ''the owning Node has not prepared the selected Cloud CHAT'' True), w)
            else run (releaseCompletedCloudCallbackForReuse E w ownerID rec st t targetSessionID) (\<lambda>_ w.
              let now = hb_now w;
                  st = upd_task idx (assign_existing targetSessionID now) st;
                  st = st\<lparr>cs_Chats := cs_Chats st @ [reused_chat t targetSessionID now]\<rparr>
              in deliverCloudCollaborationExistingTask E w ownerID rec st (tk_ID t)))))"

end
