(* ===== verification/Collab_Drive.thy ===== *)
theory Collab_Drive
  imports Collab_Dispatch
begin

text \<open>
  Dispatching a task to a new CHAT, polling and continuing a CHAT, deleting it, closing the
  collaboration, and the lease of the dispatcher.
\<close>

section \<open>A new CHAT\<close>

definition created_chat :: "task \<Rightarrow> string \<Rightarrow> instant \<Rightarrow> chat" where
  "created_chat t sessionID now = (reused_chat t sessionID now)\<lparr>ct_Reused := False\<rparr>"

definition assign_created :: "string \<Rightarrow> instant \<Rightarrow> task \<Rightarrow> task" where
  "assign_created sessionID now t = t\<lparr>tk_ChatSessionID := sessionID, tk_Status := ''active'', tk_UpdatedAt := format_stamp now,
     tk_SessionMode := ''new'', tk_DeliveryStatus := ''delivered''\<rparr>"

text \<open>The task may take the created session: it is the task the session was created for, in the same
  generation, and bound to no other session.\<close>

definition may_bind :: "task \<Rightarrow> task \<Rightarrow> string \<Rightarrow> bool" where
  "may_bind t createdTask sessionID =
     (tk_IdempotencyKey t = tk_IdempotencyKey createdTask \<and> tk_Generation t = tk_Generation createdTask
      \<and> (tk_ChatSessionID t = [] \<or> tk_ChatSessionID t = sessionID)
      \<and> (tk_ChatSessionID t = [] \<longrightarrow> tk_Status t = ''creating'' \<or> tk_Status t = ''create_in_doubt''))"

definition bind_chat :: "nat \<Rightarrow> string \<Rightarrow> instant \<Rightarrow> collab_state \<Rightarrow> collab_state" where
  "bind_chat idx sessionID now st =
     (let st = upd_task idx (assign_created sessionID now) st; t = cs_Tasks st ! idx
      in if chatTaskIndex st t = None then st\<lparr>cs_Chats := cs_Chats st @ [created_chat t sessionID now]\<rparr> else st)"

text \<open>\<open>for range 3\<close>: a save that meets a newer revision is tried again on the state loaded anew.\<close>

fun persist_loop ::
    "nat \<Rightarrow> env \<Rightarrow> string \<Rightarrow> collab_row \<Rightarrow> collab_state \<Rightarrow> task \<Rightarrow> string \<Rightarrow> hub
      \<Rightarrow> (hub_error + (collab_row \<times> collab_state)) \<times> hub" where
  "persist_loop 0 E ownerID rec st createdTask sessionID w = (Inl ErrConflict, w)"
| "persist_loop (Suc n) E ownerID rec st createdTask sessionID w =
     (case taskIndex st (tk_ID createdTask) of
        None \<Rightarrow> (Inl ErrNotFound, w)
      | Some idx \<Rightarrow>
      if \<not> may_bind (cs_Tasks st ! idx) createdTask sessionID then (Inl ErrConflict, w)
      else let st = bind_chat idx sessionID (hb_now w) st
      in case UpdateCloudCollaboration w ownerID (cb_CollaborationID rec) (cs_Status st) st (cb_Revision rec) (hb_now w) of
        (Inr updatedRec, w) \<Rightarrow> (Inr (updatedRec, st), w)
      | (Inl e, w) \<Rightarrow>
          if root_error e \<noteq> ErrConflict then (Inl e, w)
          else (case loadCloudCollaboration (dgs E) w ownerID (cb_CollaborationID rec) of
            Inl e \<Rightarrow> (Inl e, w)
          | Inr (rec, st) \<Rightarrow> persist_loop n E ownerID rec st createdTask sessionID w))"

definition persistCloudCollaborationCreatedChat ::
    "env \<Rightarrow> hub \<Rightarrow> string \<Rightarrow> collab_row \<Rightarrow> collab_state \<Rightarrow> task \<Rightarrow> string \<Rightarrow> (hub_error + (collab_row \<times> collab_state)) \<times> hub" where
  "persistCloudCollaborationCreatedChat E w ownerID rec st createdTask sessionID =
     persist_loop 3 E ownerID rec st createdTask sessionID w"

definition create_params :: "collab_state \<Rightarrow> string \<Rightarrow> task \<Rightarrow> jobj" where
  "create_params st prompt t = codex_cloud @ [(''visibility'', JStr ''visible''), (''mode'', JStr ''quick_chat''),
     (''workingDirectory'', JStr (cs_WorkingDirectory st)), (''prompt'', JStr prompt), (''idempotencyKey'', JStr (tk_IdempotencyKey t))]"

definition created_ok :: "jobj \<Rightarrow> bool" where
  "created_ok result =
     (let field = (\<lambda>k. jstr (jget result k))
      in field ''sessionId'' \<noteq> [] \<and> (field ''backend'' = [] \<or> field ''backend'' = ''chatgpt_cloud'')
         \<and> (field ''visibility'' = [] \<or> field ''visibility'' = ''visible'')
         \<and> (field ''externalIdType'' = [] \<or> field ''externalIdType'' = ''chatgpt_conversation''))"

definition create_in_doubt :: "hub \<Rightarrow> string \<Rightarrow> collab_row \<Rightarrow> collab_state \<Rightarrow> nat \<Rightarrow> (hub_error + out) \<times> hub" where
  "create_in_doubt w ownerID rec st idx =
     save_then w ownerID rec (upd_task idx (\<lambda>t. t\<lparr>tk_Status := ''create_in_doubt'', tk_DeliveryStatus := ''in_doubt'',
         tk_UpdatedAt := format_stamp (hb_now w)\<rparr>) st)
       (\<lambda>m w. (Inr (put ''createInDoubt'' (obool True) m), w))"

definition set_callback :: "bool \<Rightarrow> bool \<Rightarrow> chat \<Rightarrow> chat" where
  "set_callback registered armed c = c\<lparr>ct_CallbackRegistered := registered, ct_CallbackArmed := armed\<rparr>"

definition start_creating :: "nat \<Rightarrow> instant \<Rightarrow> collab_state \<Rightarrow> collab_state" where
  "start_creating idx now st =
     (if tk_Status (cs_Tasks st ! idx) = ''queued''
      then upd_task idx (\<lambda>t. t\<lparr>tk_Status := ''creating'', tk_SessionMode := ''new'', tk_DeliveryStatus := ''delivering'',
             tk_UpdatedAt := format_stamp now\<rparr>) (st\<lparr>cs_CreateCount := cs_CreateCount st + 1\<rparr>)
      else st)"

definition activate_created ::
    "env \<Rightarrow> hub \<Rightarrow> string \<Rightarrow> collab_row \<Rightarrow> collab_state \<Rightarrow> string \<Rightarrow> (hub_error + out) \<times> hub" where
  "activate_created E w ownerID rec st taskID =
     (case taskIndex st taskID of
        None \<Rightarrow> (Inl ErrNotFound, w)
      | Some idx \<Rightarrow>
      (case chatTaskIndex st (cs_Tasks st ! idx) of
        None \<Rightarrow> (Inl ErrConflict, w)
      | Some cidx \<Rightarrow>
      (case activateCloudCollaborationCallback E w ownerID rec st (cs_Tasks st ! idx) [] of
        ((registered, armed, err), w) \<Rightarrow>
          save_then w ownerID rec (upd_chat cidx (set_callback registered armed) st)
            (\<lambda>m w. (Inr (put_if (err \<noteq> None) ''callbackPending'' (obool True) m), w)))))"

definition dispatch_new ::
    "env \<Rightarrow> hub \<Rightarrow> string \<Rightarrow> collab_row \<Rightarrow> collab_state \<Rightarrow> collab_request \<Rightarrow> nat \<Rightarrow> (hub_error + out) \<times> hub" where
  "dispatch_new E w ownerID rec st req idx =
     run (ensureCodexCloudCollaborationReady E w ownerID (cb_MachineID rec)) (\<lambda>_ w.
       let st = start_creating idx (hb_now w) st
       in save_then w ownerID rec st (\<lambda>reserved w.
         let rec = saved_rec rec reserved; t = cs_Tasks st ! idx;
             prompt = cloudCollaborationBootstrap (cb_CollaborationID rec) (cb_MachineID rec) st t
         in case agent_call E w ownerID (cb_MachineID rec) ''session.create'' (create_params st prompt t) of
           (Inl _, w) \<Rightarrow> create_in_doubt w ownerID rec st idx
         | (Inr result, w) \<Rightarrow>
             if \<not> created_ok result then create_in_doubt w ownerID rec st idx
             else run (persistCloudCollaborationCreatedChat E w ownerID rec st t (jstr (jget result ''sessionId'')))
               (\<lambda>(rec, st) w. activate_created E w ownerID rec st (rq_TaskID req))))"

text \<open>A task that is active already: deliver again, or make sure of its callback.\<close>

definition redispatch ::
    "env \<Rightarrow> hub \<Rightarrow> string \<Rightarrow> collab_row \<Rightarrow> collab_state \<Rightarrow> task \<Rightarrow> string \<Rightarrow> (hub_error + out) \<times> hub" where
  "redispatch E w ownerID rec st t targetSessionID =
     (if targetSessionID \<noteq> [] \<and> targetSessionID \<noteq> tk_ChatSessionID t then (Inl ErrConflict, w)
      else case chatTaskIndex st t of
        None \<Rightarrow> (Inl ErrConflict, w)
      | Some cidx \<Rightarrow>
      if tk_SessionMode t = ''reuse'' \<and> tk_DeliveryStatus t \<noteq> ''delivered''
      then deliverCloudCollaborationExistingTask E w ownerID rec st (tk_ID t)
      else (case activateCloudCollaborationCallback E w ownerID rec st t [] of
        ((registered, armed, err), w) \<Rightarrow>
          let st = upd_chat cidx (set_callback registered armed) st
          in if err = None then saveCloudCollaboration w ownerID rec st
             else if registered then save_then w ownerID rec st (\<lambda>m w. (Inr (put ''callbackPending'' (obool True) m), w))
             else (Inr (put ''callbackPending'' (obool True) (row_view w rec st ''dispatcher'')), w)))"

definition cloudCollaborationDispatchTask ::
    "env \<Rightarrow> hub \<Rightarrow> string \<Rightarrow> collab_row \<Rightarrow> collab_state \<Rightarrow> collab_request \<Rightarrow> string \<Rightarrow> (hub_error + out) \<times> hub" where
  "cloudCollaborationDispatchTask E w ownerID rec st req role =
     (case taskIndex st (rq_TaskID req) of
        None \<Rightarrow> (Inl ErrNotFound, w)
      | Some idx \<Rightarrow>
      let t = cs_Tasks st ! idx; target = trim_space (rq_TargetSessionID req)
      in if role = ''chat'' \<and> tk_ParentSession t \<noteq> rq_ActorSessionID req then (Inl ErrUnauthorized, w)
      else if target \<noteq> [] \<and> \<not> validCollaborationSessionID target then (Inl ErrConflict, w)
      else if tk_TargetSessionID t \<noteq> [] \<and> target \<noteq> [] \<and> target \<noteq> tk_TargetSessionID t then (Inl ErrConflict, w)
      else let target = (if tk_TargetSessionID t \<noteq> [] then tk_TargetSessionID t else target)
      in if tk_Status t = ''active'' \<and> tk_ChatSessionID t \<noteq> [] then redispatch E w ownerID rec st t target
      else if tk_Status t \<noteq> ''queued'' \<and> tk_Status t \<noteq> ''create_in_doubt'' then (Inl ErrConflict, w)
      else if deadlinePassed st (hb_now w) \<or> cs_MaxActiveChats st \<le> activeCloudChats st then (Inl ErrResourceLimit, w)
      else if target \<noteq> [] then
        if tk_Status t \<noteq> ''queued'' then (Inl ErrConflict, w)
        else cloudCollaborationDispatchExistingTask E w ownerID rec st req target
      else if \<not> containsString (tk_AllowedActions t) ''chat.create'' then (Inl ErrUnauthorized, w)
      else dispatch_new E w ownerID rec st req idx)"

section \<open>Watching a CHAT\<close>

definition issue_target :: oval where "issue_target = ostr ''working_context text''"

definition next_cursor :: "jobj \<Rightarrow> int" where
  "next_cursor result =
     (let n = fst (numericInt64 (jget result ''cursor'')) in if n = 0 then fst (numericInt64 (jget result ''nextCursor'')) else n)"

definition observe_chat :: "instant \<Rightarrow> int \<Rightarrow> chat \<Rightarrow> chat" where
  "observe_chat now nxt c =
     (let c = (if ct_WatchCursor c < nxt
               then c\<lparr>ct_WatchCursor := nxt, ct_LastProgressAt := format_stamp now, ct_QuietChecks := 0, ct_StalledNotified := False,
                      ct_ContinueAttempts := 0, ct_LastContinueAt := NoStamp\<rparr>
               else c\<lparr>ct_QuietChecks := ct_QuietChecks c + 1\<rparr>)
      in c\<lparr>ct_LastObservedAt := format_stamp now\<rparr>)"

definition newly_stalled :: "collab_state \<Rightarrow> instant \<Rightarrow> bool \<Rightarrow> chat \<Rightarrow> bool" where
  "newly_stalled st now progressed c =
     (\<not> progressed \<and> 2 \<le> ct_QuietChecks c
      \<and> cs_StallMinutes st * minute \<le> time_sub now (parse_or_zero (ct_LastProgressAt c)) \<and> \<not> ct_StalledNotified c)"

definition recover_params :: "collab_row \<Rightarrow> collab_state \<Rightarrow> task \<Rightarrow> chat \<Rightarrow> jobj" where
  "recover_params rec st t c = codex_cloud @ [(''cursor'', JInt (ct_WatchCursor c))]
     @ route_params (ct_SessionID c) (cs_DispatcherSessionID st) (cb_CollaborationID rec) (tk_ID t) (tk_Generation t)"

definition poll_recover ::
    "env \<Rightarrow> hub \<Rightarrow> string \<Rightarrow> collab_row \<Rightarrow> collab_state \<Rightarrow> task \<Rightarrow> nat \<Rightarrow> instant \<Rightarrow> (hub_error + out) \<times> hub" where
  "poll_recover E w ownerID rec st t cidx now =
     run (agent_call E w ownerID (cb_MachineID rec) ''session.callback.recover'' (recover_params rec st t (cs_Chats st ! cidx)))
       (\<lambda>result w.
         let c = cs_Chats st ! cidx; nxt = next_cursor result; progressed = ct_WatchCursor c < nxt;
             c = observe_chat now nxt c; stalled = newly_stalled st now progressed c;
             c = (if stalled then c\<lparr>ct_StalledNotified := True\<rparr> else c);
             st = upd_chat cidx (\<lambda>_. c) st
         in save_then w ownerID rec st (\<lambda>m w.
              let m = put ''recordIssuesTo'' issue_target (put ''newlyStalled'' (obool stalled) (put ''progressed'' (obool progressed) m));
                  m = put ''recoveryOwner'' (ostr ''node'') (put ''recoveryQueued'' (OJson (jget result ''recoveryQueued'')) m);
                  m = (if stalled then put ''recoveryAction'' (ostr ''continue_chat'') m
                       else put_if (ct_StalledNotified c \<and> 0 < ct_ContinueAttempts c) ''recoveryAction'' (ostr ''controller_decision'') m);
                  m = put ''polledAt'' (ostamp (format_stamp now)) (put ''polled'' (obool True) m)
              in (Inr (put ''nextPollAt'' (ostamp (format_stamp (now + cloudCollaborationHeartbeatInterval st))) m), w)))"

text \<open>The rounding up of the wait to whole seconds, at least one.\<close>

definition retry_after :: "instant \<Rightarrow> instant \<Rightarrow> int" where
  "retry_after now nextPollAt = max 1 ((time_sub nextPollAt now + second - 1) div second)"

section \<open>Closing\<close>

definition close_refused :: "collab_state \<Rightarrow> bool" where
  "close_refused st =
     (list_ex (\<lambda>g. gl_Status g \<noteq> ''done'' \<and> gl_Status g \<noteq> ''dropped'') (cs_Goals st)
      \<or> list_ex (\<lambda>e. ev_Status e \<noteq> ''acked'') (cs_Events st)
      \<or> list_ex (\<lambda>t. tk_Status t \<noteq> ''done'' \<and> tk_Status t \<noteq> ''dropped'') (cs_Tasks st)
      \<or> list_ex (\<lambda>d. dc_Status d = ''requested'') (cs_Decisions st))"

definition chat_gone :: "chat \<Rightarrow> bool" where
  "chat_gone c = (ct_Status c = ''archived'' \<or> ct_Status c = ''deleted'' \<or> ct_Status c = ''released'')"

text \<open>The loop over the CHATs from the \<open>i\<close>-th on; \<open>False\<close> when a Node call failed, with the state reached.\<close>

fun close_loop ::
    "nat \<Rightarrow> env \<Rightarrow> string \<Rightarrow> collab_row \<Rightarrow> collab_state \<Rightarrow> nat \<Rightarrow> string list \<Rightarrow> hub \<Rightarrow> (bool \<times> collab_state) \<times> hub" where
  "close_loop 0 E ownerID rec st i archived w = ((True, st), w)"
| "close_loop (Suc n) E ownerID rec st i archived w =
     (let c = cs_Chats st ! i
      in if chat_gone c then close_loop n E ownerID rec st (Suc i) archived w
      else case (if ct_CallbackRegistered c then unregister_route E w ownerID rec st c else (Inr [], w)) of
        (Inl _, w) \<Rightarrow> ((False, st), w)
      | (Inr _, w) \<Rightarrow>
      let st = (if ct_CallbackRegistered c then upd_chat i clear_route st else st)
      in if ct_Reused c then close_loop n E ownerID rec (upd_chat i (\<lambda>c. c\<lparr>ct_Status := ''released''\<rparr>) st) (Suc i) archived w
      else if ct_SessionID c \<in> set archived
      then close_loop n E ownerID rec (upd_chat i (\<lambda>c. c\<lparr>ct_Status := ''archived''\<rparr>) st) (Suc i) archived w
      else (case agent_call E w ownerID (cb_MachineID rec) ''session.archive'' (codex @ [(''sessionId'', JStr (ct_SessionID c))]) of
        (Inl _, w) \<Rightarrow> ((False, st), w)
      | (Inr _, w) \<Rightarrow> close_loop n E ownerID rec (upd_chat i (\<lambda>c. c\<lparr>ct_Status := ''archived''\<rparr>) st) (Suc i) (ct_SessionID c # archived) w))"

definition cloudCollaborationClose :: "env \<Rightarrow> hub \<Rightarrow> string \<Rightarrow> collab_row \<Rightarrow> collab_state \<Rightarrow> (hub_error + out) \<times> hub" where
  "cloudCollaborationClose E w ownerID rec st =
     (if close_refused st then (Inl ErrConflict, w)
      else case close_loop (length (cs_Chats st)) E ownerID rec (st\<lparr>cs_Status := ''closing''\<rparr>) 0 [] w of
        ((finished, st), w) \<Rightarrow>
          saveCloudCollaboration w ownerID rec (if finished then st\<lparr>cs_Status := ''completed''\<rparr> else st))"

definition cloudCollaborationPollStatus ::
    "env \<Rightarrow> hub \<Rightarrow> string \<Rightarrow> collab_row \<Rightarrow> collab_state \<Rightarrow> collab_request \<Rightarrow> (hub_error + out) \<times> hub" where
  "cloudCollaborationPollStatus E w ownerID rec st req =
     (if cs_Status st = ''closing'' then cloudCollaborationClose E w ownerID rec st
      else case taskIndex st (rq_TaskID req) of
        None \<Rightarrow> (Inl ErrNotFound, w)
      | Some idx \<Rightarrow>
      let t = cs_Tasks st ! idx
      in if tk_Status t = ''done'' \<or> tk_Status t = ''blocked'' \<or> tk_Status t = ''dropped''
         then (Inr (put ''pollReason'' (ostr ''task_settled'') (put ''polled'' (obool False) (row_view w rec st ''dispatcher''))), w)
      else case chatTaskIndex st t of
        None \<Rightarrow> (Inl ErrNotFound, w)
      | Some cidx \<Rightarrow>
      let c = cs_Chats st ! cidx
      in if tk_SessionMode t = ''reuse'' \<and> tk_DeliveryStatus t \<noteq> ''delivered''
         then (Inr (put ''recordIssuesTo'' issue_target (put ''recoveryAction'' (ostr ''dispatch_task'')
                (put ''deliveryInDoubt'' (obool True) (put ''polled'' (obool False) (row_view w rec st ''dispatcher''))))), w)
      else let now = hb_now w; nextPollAt = cloudCollaborationNextStatusPollAt st c now
      in if now < nextPollAt
         then (Inr (put ''recordIssuesTo'' issue_target (put ''retryAfterSeconds'' (oint (retry_after now nextPollAt))
                (put ''nextPollAt'' (ostamp (format_stamp nextPollAt)) (put ''pollReason'' (ostr ''not_due'')
                  (put ''polled'' (obool False) (row_view w rec st ''dispatcher'')))))), w)
      else if ct_CallbackRegistered c \<and> ct_CallbackArmed c then poll_recover E w ownerID rec st t cidx now
      else (case activateCloudCollaborationCallback E w ownerID rec st t [] of
        ((registered, armed, err), w) \<Rightarrow>
          let st = upd_chat cidx (set_callback registered armed) st
          in case err of
            None \<Rightarrow> poll_recover E w ownerID rec st t cidx now
          | Some e \<Rightarrow> (Inl e, if registered then snd (saveCloudCollaboration w ownerID rec st) else w)))"

end
