(* ===== verification/Collab_Handler.thy ===== *)
theory Collab_Handler
  imports Collab_Drive
begin

text \<open>
  The entry point \<open>Service.CloudCollaboration\<close> of \<open>cloud_collaboration.go\<close> with every action: the
  checks of self, actor, revision, status and lease in the code's order, then the operation, then the save.
\<close>

section \<open>Continue, delete, lease\<close>

definition continue_base :: "hub \<Rightarrow> collab_row \<Rightarrow> collab_state \<Rightarrow> task \<Rightarrow> chat \<Rightarrow> out" where
  "continue_base w rec st t c =
     put ''recordIssuesTo'' issue_target (put ''automaticReplacement'' (obool False) (put ''continueSent'' (obool False)
       (put ''chatSessionId'' (ostr (ct_SessionID c)) (put ''taskId'' (ostr (tk_ID t)) (row_view w rec st ''dispatcher'')))))"

definition continue_out :: "hub \<Rightarrow> collab_row \<Rightarrow> collab_state \<Rightarrow> task \<Rightarrow> chat \<Rightarrow> string \<Rightarrow> jobj \<Rightarrow> out" where
  "continue_out w rec st t c prompt result =
     (let m = put ''chatSessionId'' (ostr (ct_SessionID c)) (put ''taskId'' (ostr (tk_ID t)) (row_view w rec st ''dispatcher''));
          m = put ''continueSent'' (OJson (jget result ''continueSent'')) (put ''providerStatus'' (OJson (jget result ''providerStatus'')) m);
          m = put ''continueAttempts'' (oint (ct_ContinueAttempts c)) (put ''continuePrompt'' (ostr prompt) m);
          m = put ''automaticReplacement'' (obool False) (put ''recoveryAction'' (OJson (jget result ''recoveryAction'')) m);
          m = put ''recordIssuesTo'' issue_target m
      in put_if (trim_space (jstr (jget result ''turnId'')) \<noteq> []) ''turnId'' (ostr (jstr (jget result ''turnId''))) m)"

definition set_attempts :: "int \<Rightarrow> stamp \<Rightarrow> chat \<Rightarrow> chat" where
  "set_attempts n since c = c\<lparr>ct_ContinueAttempts := n, ct_LastContinueAt := since\<rparr>"

definition cloudCollaborationContinueChat ::
    "env \<Rightarrow> hub \<Rightarrow> string \<Rightarrow> collab_row \<Rightarrow> collab_state \<Rightarrow> collab_request \<Rightarrow> (hub_error + out) \<times> hub" where
  "cloudCollaborationContinueChat E w ownerID rec st req =
     (case taskIndex st (trim_space (rq_TaskID req)) of
        None \<Rightarrow> (Inl ErrNotFound, w)
      | Some idx \<Rightarrow>
      let t = cs_Tasks st ! idx
      in case chatTaskIndex st t of
        None \<Rightarrow> (Inl ErrConflict, w)
      | Some cidx \<Rightarrow>
      let c = cs_Chats st ! cidx
      in if tk_Status t \<noteq> ''active'' \<or> ct_Status c \<noteq> ''active'' then (Inl ErrConflict, w)
      else if \<not> ct_StalledNotified c
      then (Inr (put ''recoveryAction'' (ostr ''status_check_required'') (continue_base w rec st t c)), w)
      else if 0 < ct_ContinueAttempts c
      then (Inr (put ''replacementAllowed'' (obool True) (put ''recoveryAction'' (ostr ''controller_decision'')
             (put ''continueAttempts'' (oint (ct_ContinueAttempts c)) (continue_base w rec st t c)))), w)
      else let prompt = (if trim_space (rq_Prompt req) = [] then continue_text else trim_space (rq_Prompt req))
      in if 200 < length prompt \<or> contains_any prompt [CHR 0x00, CHR 0x0D, CHR 0x0A] then (Inl ErrConflict, w)
      else let st = upd_chat cidx (set_attempts 1 (format_stamp (hb_now w))) st
      in save_then w ownerID rec st (\<lambda>reserved w.
        let rec = saved_rec rec reserved
        in case agent_call E w ownerID (cb_MachineID rec) ''session.callback.continue''
              (codex_cloud @ [(''prompt'', JStr prompt)]
               @ route_params (ct_SessionID c) (cs_DispatcherSessionID st) (cb_CollaborationID rec) (tk_ID t) (tk_Generation t)) of
          (Inl e, w) \<Rightarrow> (Inl (Wrapped ''continue Cloud CHAT'' e), w)
        | (Inr result, w) \<Rightarrow>
            if jget result ''continueSent'' = JBool False then
              (let st = upd_chat cidx (set_attempts 0 NoStamp) st
               in save_then w ownerID rec st (\<lambda>saved w.
                    (Inr (continue_out w (saved_rec rec saved) st t (cs_Chats st ! cidx) prompt result), w)))
            else (Inr (continue_out w rec st t (cs_Chats st ! cidx) prompt result), w)))"

definition cloudCollaborationDeleteChat ::
    "env \<Rightarrow> hub \<Rightarrow> string \<Rightarrow> collab_row \<Rightarrow> collab_state \<Rightarrow> collab_request \<Rightarrow> (hub_error + out) \<times> hub" where
  "cloudCollaborationDeleteChat E w ownerID rec st req =
     (case taskIndex st (rq_TaskID req) of
        None \<Rightarrow> (Inl ErrNotFound, w)
      | Some idx \<Rightarrow>
      let t = cs_Tasks st ! idx
      in case find_index (\<lambda>d. dc_Kind d = ''delete_chat'' \<and> dc_TargetID d = rq_TaskID req \<and> dc_Status d = ''approved'') (cs_Decisions st) of
        None \<Rightarrow> (Inl ErrUnauthorized, w)
      | Some approved \<Rightarrow>
      if tk_ChatSessionID t = [] then (Inl ErrUnauthorized, w)
      else case chatTaskIndex st t of
        None \<Rightarrow> (Inl ErrUnauthorized, w)
      | Some cidx \<Rightarrow>
      if ct_Reused (cs_Chats st ! cidx) then (Inl ErrUnauthorized, w)
      else run (unregisterCloudCollaborationTaskCallback E w ownerID rec st (tk_ID t)) (\<lambda>st w.
        run (agent_call E w ownerID (cb_MachineID rec) ''session.delete'' (codex @ [(''sessionId'', JStr (tk_ChatSessionID t))]))
          (\<lambda>_ w.
            let st = upd_chat cidx (\<lambda>c. c\<lparr>ct_Status := ''deleted''\<rparr>) st;
                st = st\<lparr>cs_Decisions := modify approved (\<lambda>d. d\<lparr>dc_Status := ''consumed''\<rparr>) (cs_Decisions st)\<rparr>;
                st = upd_task idx (\<lambda>t. t\<lparr>tk_Status := ''done''\<rparr>) st
            in saveCloudCollaboration w ownerID rec st)))"

definition lease_ttl :: "collab_state \<Rightarrow> duration" where
  "lease_ttl st = (let ttl = cs_HeartbeatMinutes st * 2 * minute;
      ttl = (if ttl < 5 * minute then 5 * minute else ttl) in if 30 * minute < ttl then 30 * minute else ttl)"

definition lease_taken :: "collab_state \<Rightarrow> string \<Rightarrow> instant \<Rightarrow> bool" where
  "lease_taken st actor now =
     (ls_ExpiresAt (cs_Lease st) \<noteq> NoStamp \<and> now < parse_or_zero (ls_ExpiresAt (cs_Lease st))
      \<and> (ls_SessionID (cs_Lease st) \<noteq> actor \<or> ls_Generation (cs_Lease st) \<noteq> cs_Generation st))"

definition cloudCollaborationAcquireLease ::
    "hub \<Rightarrow> string \<Rightarrow> collab_row \<Rightarrow> collab_state \<Rightarrow> collab_request \<Rightarrow> (hub_error + out) \<times> hub" where
  "cloudCollaborationAcquireLease w ownerID rec st req =
     (if lease_taken st (rq_ActorSessionID req) (hb_now w) then (Inl ErrConflict, w)
      else saveCloudCollaboration w ownerID rec (st\<lparr>cs_Lease := \<lparr>ls_SessionID = rq_ActorSessionID req,
             ls_Generation = cs_Generation st, ls_ExpiresAt = format_stamp (hb_now w + lease_ttl st)\<rparr>\<rparr>))"

section \<open>Create and list\<close>

definition create_hash :: "digests \<Rightarrow> collab_request \<Rightarrow> string" where
  "create_hash dg req =
     (let h = trim_space (rq_RequestHash req)
      in if h \<noteq> [] then h
         else dg_json dg [JStr (rq_MachineID req), JStr (rq_ControllerSessionID req), JStr (rq_DispatcherSessionID req), JStr (rq_Title req),
           JStr (rq_Goal req), JStr (rq_Scope req), JStr (rq_DoneWhen req), JStr (rq_WorkingDirectory req),
           JArr (map JStr (rq_AllowedActions req)), JInt (rq_MaxDepth req), JInt (rq_MaxActiveChats req), JInt (rq_MaxCreates req),
           JInt (rq_HeartbeatMinutes req), JInt (rq_StallMinutes req), JInt (rq_Deadline req)])"

definition new_collab_state :: "collab_request \<Rightarrow> collab_state" where
  "new_collab_state req =
     \<lparr>cs_Version = cloudCollaborationStateVersion, cs_Title = boundedCollaborationText (rq_Title req) 240,
      cs_Goal = boundedCollaborationText (rq_Goal req) 2000, cs_Scope = boundedCollaborationText (rq_Scope req) 1000,
      cs_DoneWhen = boundedCollaborationText (rq_DoneWhen req) 2000, cs_Status = ''active'',
      cs_WorkingDirectory = trim_space (rq_WorkingDirectory req), cs_ControllerSessionID = trim_space (rq_ControllerSessionID req),
      cs_DispatcherSessionID = trim_space (rq_DispatcherSessionID req), cs_Generation = 1,
      cs_AllowedActions = normalizedCloudActions (rq_AllowedActions req), cs_MaxDepth = boundedInt (rq_MaxDepth req) 1 8 3,
      cs_MaxActiveChats = boundedInt (rq_MaxActiveChats req) 1 8 3, cs_MaxCreates = boundedInt (rq_MaxCreates req) 1 100 20,
      cs_CreateCount = 0, cs_HeartbeatMinutes = boundedInt (rq_HeartbeatMinutes req) 5 1440 30,
      cs_StallMinutes = boundedInt (rq_StallMinutes req) 15 1440 60,
      cs_Deadline = (if is_zero (rq_Deadline req) then NoStamp else format_stamp (rq_Deadline req)),
      cs_Lease = empty_lease, cs_Goals = [], cs_Tasks = [], cs_Chats = [], cs_Events = [], cs_Decisions = [],
      cs_Checkpoint = [], cs_CheckpointGeneration = 0\<rparr>"

definition create_row ::
    "env \<Rightarrow> hub \<Rightarrow> string \<Rightarrow> collab_request \<Rightarrow> string \<Rightarrow> (hub_error + out) \<times> hub" where
  "create_row E w ownerID req requestHash =
     (let i = en_random E w ''collab_''; now = hb_now w; st = new_collab_state req
      in if cs_Title st = [] \<or> cs_Goal st = [] \<or> cs_DoneWhen st = [] \<or> cs_WorkingDirectory st = [] \<or> cs_AllowedActions st = []
         then (Inl ErrConflict, w)
      else if \<not> is_zero (rq_Deadline req) \<and> \<not> now < rq_Deadline req then (Inl ErrExpired, w)
      else run (CreateCloudCollaboration w \<lparr>cb_CollaborationID = i, cb_OwnerID = ownerID, cb_MachineID = rq_MachineID req,
             cb_IdempotencyKey = rq_IdempotencyKey req, cb_RequestHash = requestHash, cb_Status = cs_Status st, cb_State = Stored st,
             cb_Revision = 1, cb_CreatedAt = unix now, cb_UpdatedAt = unix now\<rparr>)
           (\<lambda>rec w. (Inr (row_view w rec st ''dispatcher''), w)))"

definition createCloudCollaboration :: "env \<Rightarrow> hub \<Rightarrow> string \<Rightarrow> collab_request \<Rightarrow> (hub_error + out) \<times> hub" where
  "createCloudCollaboration E w ownerID req =
     (if length (rq_IdempotencyKey req) < 12 \<or> 128 < length (rq_IdempotencyKey req) \<or> trim_space (rq_MachineID req) = []
         \<or> trim_space (rq_ControllerSessionID req) = [] \<or> trim_space (rq_DispatcherSessionID req) = [] then (Inl ErrConflict, w)
      else case validateCloudCollaborationLimits req of
        Inl e \<Rightarrow> (Inl e, w)
      | Inr _ \<Rightarrow>
      let requestHash = create_hash (dgs E) req
      in case LookupCloudCollaboration w ownerID (rq_IdempotencyKey req) of
        Inr existing \<Rightarrow>
          if cb_RequestHash existing \<noteq> requestHash then (Inl ErrConflict, w)
          else (case loadCloudCollaboration (dgs E) w ownerID (cb_CollaborationID existing) of
            Inl e \<Rightarrow> (Inl e, w)
          | Inr (_, st) \<Rightarrow> (Inr (row_view w existing st ''dispatcher''), w))
      | Inl e \<Rightarrow>
      if e \<noteq> ErrNotFound then (Inl e, w)
      else run (ensureCodexCloudCollaborationReady E w ownerID (rq_MachineID req)) (\<lambda>_ w.
        run (validateCodexLocalCollaborationSession E w ownerID (rq_MachineID req) (rq_ControllerSessionID req)) (\<lambda>_ w.
          run (if trim_space (rq_DispatcherSessionID req) \<noteq> trim_space (rq_ControllerSessionID req)
               then validateCodexLocalCollaborationSession E w ownerID (rq_MachineID req) (rq_DispatcherSessionID req)
               else (Inr (), w)) (\<lambda>_ w. create_row E w ownerID req requestHash))))"

definition list_item :: "collab_row \<Rightarrow> oval option" where
  "list_item rec = (case cb_State rec of
      Unreadable \<Rightarrow> None
    | Stored st \<Rightarrow> Some (OObj [(''collaborationId'', ostr (cb_CollaborationID rec)), (''title'', ostr (cs_Title st)),
        (''status'', ostr (cb_Status rec)), (''revision'', oint (cb_Revision rec)), (''updatedAt'', OTime (from_unix (cb_UpdatedAt rec)))]))"

definition listCloudCollaborations :: "hub \<Rightarrow> string \<Rightarrow> int \<Rightarrow> out" where
  "listCloudCollaborations w ownerID limit =
     [(''collaborations'', OArr (List.map_filter list_item (ListCloudCollaborations w ownerID (boundedInt limit 1 100 20)))),
      (''bounded'', obool True)]"

section \<open>Receipts\<close>

definition cloudCollaborationDispatchReceipt :: "out \<Rightarrow> string \<Rightarrow> out" where
  "cloudCollaborationDispatchReceipt m role =
     (let m = put ''awaitMode'' (ostr ''callback'') m;
          m = put ''activePollingAllowed'' (obool False) m;
          m = put ''completionDelivery'' (ostr ''cloud-chat-self-callback'') m;
          m = put ''recoveryDelivery'' (ostr ''node-fallback-and-30-minute-scheduler-check'') m;
          m = put ''nextAction'' (ostr ''end_turn'') m;
          m = put ''nextActionReason'' (ostr ''the task was dispatched asynchronously; wait for the durable callback wake instead of calling session.get, session.watch, session.result, tick, or status.poll'') m
      in if role = ''dispatcher'' then put ''callerShouldYield'' (obool True) m
         else put ''callerGuidance'' (ostr ''continue only independent parent work; do not wait or poll for the dispatched CHAT'')
                (put ''callerShouldYield'' (obool False) m))"

definition copied_keys :: "string list" where
  "copied_keys = [''collaborationId'', ''status'', ''createInDoubt'', ''deliveryInDoubt'', ''callbackPending'', ''reusedSession'', ''targetSessionId'']"

definition ostr_of :: "out \<Rightarrow> string \<Rightarrow> string" where
  "ostr_of m k = (case map_of m k of Some (OJson v) \<Rightarrow> trim_space (jstr v) | _ \<Rightarrow> [])"

definition task_receipt :: "string \<Rightarrow> task \<Rightarrow> out \<Rightarrow> out" where
  "task_receipt collaborationID t m =
     (let m = put ''taskRef'' (ostr (cloudTaskResultReference collaborationID t)) m;
          m = put ''resultType'' (ostr (tk_CallbackType t)) m;
          m = put_if (cloudCollaborationTaskResultPath t \<noteq> []) ''resultPath'' (ostr (cloudCollaborationTaskResultPath t)) m;
          m = put ''taskStatus'' (ostr (tk_Status t)) m
      in put_if (tk_ChatSessionID t \<noteq> []) ''chatSessionId'' (ostr (tk_ChatSessionID t)) m)"

definition simpleCloudDispatchReceipt :: "out \<Rightarrow> string \<Rightarrow> string \<Rightarrow> bool \<Rightarrow> out" where
  "simpleCloudDispatchReceipt m callbackSessionID taskID replayed =
     (let receipt = [(''simpleMode'', obool True), (''callbackSessionId'', ostr callbackSessionID), (''taskId'', ostr taskID),
            (''awaitMode'', ostr ''callback''), (''activePollingAllowed'', obool False), (''callerShouldYield'', obool True),
            (''nextAction'', ostr ''end_turn''), (''replayed'', obool replayed)];
          receipt = receipt @ List.map_filter (\<lambda>k. map_option (Pair k) (map_of m k)) copied_keys
      in case map_of m ''tasks'' of
           Some (OTasks ts) \<Rightarrow> (case find (\<lambda>t. tk_ID t = taskID) ts of
               Some t \<Rightarrow> task_receipt (ostr_of m ''collaborationId'') t receipt | None \<Rightarrow> receipt)
         | _ \<Rightarrow> receipt)"

section \<open>The one-call dispatch\<close>

definition first_nonblank :: "string list \<Rightarrow> string" where
  "first_nonblank vs = (case find (\<lambda>v. v \<noteq> []) (map trim_space vs) of Some v \<Rightarrow> v | None \<Rightarrow> [])"

definition simple_actions :: "string list" where
  "simple_actions = [''chat.create'', ''chat.send'', ''file.read'', ''file.write'', ''shell'', ''git.read'', ''browser'']"

definition or_default :: "string \<Rightarrow> string \<Rightarrow> string" where
  "or_default v d = (if trim_space v = [] then d else v)"

definition simple_request :: "digests \<Rightarrow> collab_request \<Rightarrow> string \<Rightarrow> collab_request" where
  "simple_request dg req callbackSessionID =
     (let access = or_default (rq_AccessMode req) ''write'';
          writeScope = (if access = ''write'' \<and> trim_space (rq_WriteScope req) = [] then trim_space (rq_WorkingDirectory req) else rq_WriteScope req);
          actions = (if rq_AllowedActions req = [] then simple_actions else rq_AllowedActions req);
          title = or_default (rq_Title req) ''Cloud CHAT task'';
          callbackType = or_default (rq_CallbackType req) ''text'';
          nz = (\<lambda>n. if n = 0 then 1 else n)
      in req\<lparr>rq_CallbackSessionID := callbackSessionID, rq_ActorSessionID := callbackSessionID, rq_ActorRole := [],
           rq_ControllerSessionID := callbackSessionID, rq_DispatcherSessionID := callbackSessionID, rq_Title := title,
           rq_Goal := or_default (rq_Goal req) ''Complete the requested task in the assigned Cloud CHAT.'',
           rq_DoneWhen := or_default (rq_DoneWhen req) ''The Cloud CHAT sends its registered completion callback.'',
           rq_Scope := or_default (rq_Scope req) (trim_space (rq_WorkingDirectory req)), rq_AllowedActions := actions,
           rq_AccessMode := access, rq_WriteScope := writeScope, rq_CallbackType := callbackType,
           rq_TaskID := or_default (rq_TaskID req) ''task'', rq_MaxDepth := nz (rq_MaxDepth req),
           rq_MaxActiveChats := nz (rq_MaxActiveChats req), rq_MaxCreates := nz (rq_MaxCreates req),
           rq_RequestHash := or_default (rq_RequestHash req) (dg_json dg [JStr (rq_MachineID req), JStr callbackSessionID,
             JStr (rq_WorkingDirectory req), JStr (rq_TargetSessionID req), JStr (rq_Prompt req), JStr title, JStr access, JStr writeScope,
             JStr callbackType, JArr (map JStr (normalizedCloudActions actions)), JStr (rq_DeliverablePath req)])\<rparr>)"

definition dispatch_replayed :: "collab_state \<Rightarrow> string \<Rightarrow> task option" where
  "dispatch_replayed st taskID =
     (case taskIndex st taskID of
        None \<Rightarrow> None
      | Some i \<Rightarrow> let t = cs_Tasks st ! i in if tk_Status t \<noteq> ''queued'' \<and> tk_Status t \<noteq> ''create_in_doubt'' then Some t else None)"

text \<open>The rest of the simple dispatch once the collaboration exists: lease, task, dispatch, each from the
  state loaded anew.\<close>

definition simple_dispatch_task ::
    "env \<Rightarrow> hub \<Rightarrow> string \<Rightarrow> collab_request \<Rightarrow> bool \<Rightarrow> collab_row \<Rightarrow> collab_state \<Rightarrow> (hub_error + out) \<times> hub" where
  "simple_dispatch_task E w ownerID req replayed rec st =
     run (cloudCollaborationDispatchTask E w ownerID rec st req ''dispatcher'')
       (\<lambda>m w. (Inr (simpleCloudDispatchReceipt m (rq_CallbackSessionID req) (rq_TaskID req) replayed), w))"

definition simple_add_and_dispatch ::
    "env \<Rightarrow> hub \<Rightarrow> string \<Rightarrow> collab_request \<Rightarrow> bool \<Rightarrow> (hub_error + out) \<times> hub" where
  "simple_add_and_dispatch E w ownerID req replayed =
     (case loadCloudCollaboration (dgs E) w ownerID (rq_CollaborationID req) of
        Inl e \<Rightarrow> (Inl e, w)
      | Inr (rec, st) \<Rightarrow>
      if taskIndex st (rq_TaskID req) \<noteq> None then simple_dispatch_task E w ownerID req replayed rec st
      else case cloudCollaborationAddTask (dgs E) (hb_now w) st req ''dispatcher'' of
        Inl e \<Rightarrow> (Inl e, w)
      | Inr st \<Rightarrow> save_then w ownerID rec st (\<lambda>_ w.
          case loadCloudCollaboration (dgs E) w ownerID (rq_CollaborationID req) of
            Inl e \<Rightarrow> (Inl e, w)
          | Inr (rec, st) \<Rightarrow> simple_dispatch_task E w ownerID req replayed rec st))"

definition simple_continue ::
    "env \<Rightarrow> hub \<Rightarrow> string \<Rightarrow> collab_request \<Rightarrow> (hub_error + out) \<times> hub" where
  "simple_continue E w ownerID req =
     (case loadCloudCollaboration (dgs E) w ownerID (rq_CollaborationID req) of
        Inl e \<Rightarrow> (Inl e, w)
      | Inr (rec, st) \<Rightarrow>
      let replay = dispatch_replayed st (rq_TaskID req)
      in if (case replay of Some t \<Rightarrow> tk_Status t \<noteq> ''active'' \<or> tk_ChatSessionID t = [] | None \<Rightarrow> False)
         then (Inr (simpleCloudDispatchReceipt (row_view w rec st ''dispatcher'') (rq_CallbackSessionID req) (rq_TaskID req) True), w)
      else run (cloudCollaborationAcquireLease w ownerID rec st (empty_request\<lparr>rq_ActorSessionID := rq_CallbackSessionID req\<rparr>))
        (\<lambda>_ w. simple_add_and_dispatch E w ownerID req (replay \<noteq> None)))"

definition dispatchSimpleCloudTask :: "env \<Rightarrow> hub \<Rightarrow> string \<Rightarrow> collab_request \<Rightarrow> (hub_error + out) \<times> hub" where
  "dispatchSimpleCloudTask E w ownerID req =
     (let callbackSessionID = first_nonblank [rq_CallbackSessionID req, rq_ActorSessionID req, rq_DispatcherSessionID req, rq_ControllerSessionID req]
      in if callbackSessionID = [] \<or> trim_space (rq_Prompt req) = [] then (Inl ErrConflict, w)
      else let req = simple_request (dgs E) req callbackSessionID
      in run (createCloudCollaboration E w ownerID (req\<lparr>rq_Action := ''create''\<rparr>)) (\<lambda>created w.
           let collaborationID = (case map_of created ''collaborationId'' of Some (OJson v) \<Rightarrow> jstr v | _ \<Rightarrow> [])
           in if collaborationID = [] then (Inl ErrConflict, w)
              else simple_continue E w ownerID (req\<lparr>rq_CollaborationID := collaborationID\<rparr>)))"

end
