(* ===== verification/Collab_Service.thy ===== *)
theory Collab_Service
  imports Collab_Handler
begin

text \<open>\<open>Service.CloudCollaboration\<close>: one request against one collaboration.\<close>

text \<open>The actions that change the state and go on to the save at the end of the switch, without a Node
  call: \<open>None\<close> for every other action.\<close>

definition need :: "bool \<Rightarrow> hub_error + collab_state \<Rightarrow> hub_error + collab_state" where
  "need allowed r = (if allowed then r else Inl ErrUnauthorized)"

definition compact_state :: "collab_state \<Rightarrow> collab_request \<Rightarrow> hub_error + collab_state" where
  "compact_state st req =
     (if length (rq_Checkpoint req) = 0 \<or> 4000 < length (rq_Checkpoint req) then Inl ErrConflict
      else Inr (st\<lparr>cs_Checkpoint := rq_Checkpoint req, cs_CheckpointGeneration := cs_Generation st\<rparr>))"

definition local_action ::
    "digests \<Rightarrow> instant \<Rightarrow> collab_state \<Rightarrow> collab_request \<Rightarrow> string \<Rightarrow> string \<Rightarrow> (hub_error + collab_state) option" where
  "local_action dg now st req role action =
     (let lead = role = ''controller'' \<or> role = ''dispatcher''; worker = role = ''dispatcher'' \<or> role = ''chat'';
          control = cloudCollaborationCanControl st role
      in if action = ''lease.release'' then
           Some (need (role = ''dispatcher'' \<and> ls_SessionID (cs_Lease st) = rq_ActorSessionID req) (Inr (st\<lparr>cs_Lease := empty_lease\<rparr>)))
         else if action = ''goal.add'' then Some (need lead (cloudCollaborationAddGoal st req))
         else if action = ''goal.update'' then Some (need lead (cloudCollaborationUpdateGoal st req))
         else if action = ''task.add'' then Some (need worker (cloudCollaborationAddTask dg now st req role))
         else if action = ''task.update'' then Some (need (role = ''dispatcher'') (cloudCollaborationUpdateTask now st req))
         else if action = ''event.ingest'' then Some (need worker (cloudCollaborationIngestEvent dg now st req))
         else if action = ''decision.request'' then Some (need worker (cloudCollaborationRequestDecision now st req))
         else if action = ''decision.resolve'' then Some (need control (cloudCollaborationResolveDecision st req))
         else if action = ''pause'' then Some (need control (Inr (st\<lparr>cs_Status := ''paused''\<rparr>)))
         else if action = ''resume'' then Some (need control (Inr (st\<lparr>cs_Status := ''active''\<rparr>)))
         else if action = ''compact'' then Some (need lead (compact_state st req))
         else None)"

definition ack_action ::
    "env \<Rightarrow> hub \<Rightarrow> string \<Rightarrow> collab_row \<Rightarrow> collab_state \<Rightarrow> collab_request \<Rightarrow> (hub_error + out) \<times> hub" where
  "ack_action E w ownerID rec st req =
     (case cloudCollaborationAckEvent st req of
        Inl e \<Rightarrow> (Inl e, w)
      | Inr st \<Rightarrow>
          let st = cloudCollaborationAdvanceAcknowledgedEvent st (rq_EventID req) (hb_now w)
          in if cloudCollaborationReadyToClose st then cloudCollaborationClose E w ownerID rec st
             else saveCloudCollaboration w ownerID rec st)"

definition rotate_action ::
    "env \<Rightarrow> hub \<Rightarrow> string \<Rightarrow> collab_row \<Rightarrow> collab_state \<Rightarrow> collab_request \<Rightarrow> (hub_error + out) \<times> hub" where
  "rotate_action E w ownerID rec st req =
     run (unregisterCloudCollaborationTaskCallback E w ownerID rec st (rq_TaskID req)) (\<lambda>st w.
       case cloudCollaborationRotateChat st req of
         Inl e \<Rightarrow> (Inl e, w)
       | Inr st \<Rightarrow> saveCloudCollaboration w ownerID rec st)"

text \<open>The actions that call a Node.\<close>

definition node_action ::
    "env \<Rightarrow> hub \<Rightarrow> string \<Rightarrow> collab_row \<Rightarrow> collab_state \<Rightarrow> collab_request \<Rightarrow> string \<Rightarrow> string \<Rightarrow> (hub_error + out) \<times> hub" where
  "node_action E w ownerID rec st req role action =
     (let worker = role = ''dispatcher'' \<or> role = ''chat''; refuse = (Inl ErrUnauthorized, w)
      in if action = ''lease.acquire'' then
           if role \<noteq> ''dispatcher'' then refuse else cloudCollaborationAcquireLease w ownerID rec st req
         else if action = ''task.dispatch'' then
           if \<not> worker then refuse
           else run (cloudCollaborationDispatchTask E w ownerID rec st req role)
                  (\<lambda>m w. (Inr (cloudCollaborationDispatchReceipt m role), w))
         else if action = ''status.poll'' then
           if \<not> worker then refuse else cloudCollaborationPollStatus E w ownerID rec st req
         else if action = ''chat.continue'' then
           if role \<noteq> ''dispatcher'' then refuse else cloudCollaborationContinueChat E w ownerID rec st req
         else if action = ''event.ack'' then
           if \<not> worker then refuse else ack_action E w ownerID rec st req
         else if action = ''chat.rotate'' then
           if role \<noteq> ''dispatcher'' \<or> \<not> rq_InactiveVerified req then refuse else rotate_action E w ownerID rec st req
         else if action = ''chat.delete'' then
           if role \<noteq> ''dispatcher'' then refuse else cloudCollaborationDeleteChat E w ownerID rec st req
         else if action = ''close'' then
           if \<not> cloudCollaborationCanControl st role then refuse else cloudCollaborationClose E w ownerID rec st
         else (Inl ErrConflict, w))"

definition perform_action ::
    "env \<Rightarrow> hub \<Rightarrow> string \<Rightarrow> collab_row \<Rightarrow> collab_state \<Rightarrow> collab_request \<Rightarrow> string \<Rightarrow> string \<Rightarrow> (hub_error + out) \<times> hub" where
  "perform_action E w ownerID rec st req role action =
     (case local_action (dgs E) (hb_now w) st req role action of
        Some (Inl e) \<Rightarrow> (Inl e, w)
      | Some (Inr st) \<Rightarrow> saveCloudCollaboration w ownerID rec st
      | None \<Rightarrow> node_action E w ownerID rec st req role action)"

text \<open>What every changing request must pass before its action is looked at.\<close>

definition admission_error :: "collab_row \<Rightarrow> collab_state \<Rightarrow> collab_request \<Rightarrow> string \<Rightarrow> string \<Rightarrow> instant \<Rightarrow> hub_error option" where
  "admission_error rec st req role action now =
     (if rq_ExpectedRevision req \<noteq> cb_Revision rec then Some ErrConflict
      else if cs_Status st = ''completed'' \<or> cs_Status st = ''canceled'' then Some ErrConflict
      else if cloudCollaborationActionNeedsLease action role then
        (case requireCloudCollaborationLease st (rq_ActorSessionID req) role now of Inl e \<Rightarrow> Some e | Inr _ \<Rightarrow> None)
      else None)"

definition CloudCollaboration :: "env \<Rightarrow> hub \<Rightarrow> string \<Rightarrow> collab_request \<Rightarrow> (hub_error + out) \<times> hub" where
  "CloudCollaboration E w ownerID req =
     (let action = trim_space (rq_Action req)
      in if action = ''dispatch'' then dispatchSimpleCloudTask E w ownerID req
      else if action = ''create'' then createCloudCollaboration E w ownerID req
      else if action = ''list'' then (Inr (listCloudCollaborations w ownerID (rq_Limit req)), w)
      else case loadCloudCollaboration (dgs E) w ownerID (rq_CollaborationID req) of
        Inl e \<Rightarrow> (Inl e, w)
      | Inr (rec, st) \<Rightarrow>
      case resolveCloudCollaborationSelfActor st req of
        Inl e \<Rightarrow> (Inl e, w)
      | Inr req \<Rightarrow>
      case authorizeCloudCollaborationActor st (rq_ActorSessionID req) (rq_ActorRole req) of
        Inl e \<Rightarrow> (Inl e, w)
      | Inr role \<Rightarrow>
      if action = ''get'' then (Inr (row_view w rec st role), w)
      else if action = ''tick'' then (Inr (cloudCollaborationTick (cb_CollaborationID rec) (cb_Revision rec) st (hb_now w)), w)
      else case admission_error rec st req role action (hb_now w) of
        Some e \<Rightarrow> (Inl e, w)
      | None \<Rightarrow> perform_action E w ownerID rec st req role action)"

end
