(* ===== verification/Collab_Rely.thy ===== *)
theory Collab_Rely
  imports Collab_Service
begin

text \<open>
  A request of \<open>CloudCollaboration\<close> keeps the tables well-formed and lets every collaboration only
  evolve, whatever its action and outcome, if the requests that run while it waits for a Node do. The
  proofs follow the code with one rule per step: \<open>safe\<close> is what a step owes, \<open>run\<close> composes it.
\<close>

section \<open>Safe steps\<close>

definition safe :: "hub \<Rightarrow> 'a \<times> hub \<Rightarrow> bool" where
  "safe w r = (hub_ok (snd r) \<and> evolves w (snd r))"

lemma safe_stop [simp]: "hub_ok w \<Longrightarrow> safe w (r, w)"
  by (simp add: safe_def)

lemma safe_pair: "safe w (r, w') \<longleftrightarrow> hub_ok w' \<and> evolves w w'"
  by (simp add: safe_def)

lemma safe_run:
  assumes "safe w m" "\<And>x w1. m = (Inr x, w1) \<Longrightarrow> hub_ok w1 \<Longrightarrow> evolves w w1 \<Longrightarrow> safe w1 (k x w1)"
  shows "safe w (run m k)"
proof -
  obtain r w1 where m: "m = (r, w1)" by (cases m)
  have ok: "hub_ok w1" "evolves w w1" using assms(1) by (simp_all add: m safe_def)
  show ?thesis
  proof (cases r)
    case (Inr x)
    then show ?thesis using assms(2) [of x w1] ok by (auto simp: m safe_def intro: evolves_trans)
  qed (use ok in \<open>simp add: m safe_def\<close>)
qed

lemma safe_after: "evolves w w1 \<Longrightarrow> safe w1 r \<Longrightarrow> safe w r"
  by (auto simp: safe_def intro: evolves_trans)

lemma safe_case_sum:
  assumes "safe w m" "\<And>e w1. m = (Inl e, w1) \<Longrightarrow> hub_ok w1 \<Longrightarrow> evolves w w1 \<Longrightarrow> safe w1 (f e w1)"
    "\<And>x w1. m = (Inr x, w1) \<Longrightarrow> hub_ok w1 \<Longrightarrow> evolves w w1 \<Longrightarrow> safe w1 (g x w1)"
  shows "safe w (case m of (Inl e, w1) \<Rightarrow> f e w1 | (Inr x, w1) \<Rightarrow> g x w1)"
proof -
  obtain r w1 where m: "m = (r, w1)" by (cases m)
  have ok: "hub_ok w1" "evolves w w1" using assms(1) by (simp_all add: m safe_def)
  show ?thesis
    using assms(2,3) ok by (cases r) (auto simp: m intro: safe_after)
qed

lemma safe_case_pair:
  assumes "safe w m" "\<And>r w1. m = (r, w1) \<Longrightarrow> hub_ok w1 \<Longrightarrow> evolves w w1 \<Longrightarrow> safe w1 (f r w1)"
  shows "safe w (case m of (r, w1) \<Rightarrow> f r w1)"
  using assms by (cases m) (auto simp: safe_pair intro: safe_after)

section \<open>Calls and saves\<close>

lemma safe_node: "cooperative E \<Longrightarrow> hub_ok w \<Longrightarrow> en_node E w c = (r, w') \<Longrightarrow> hub_ok w' \<and> evolves w w'"
  unfolding cooperative_def by (metis snd_conv)

lemma hub_ok_audit [simp]: "hub_ok (audit_call o' m c a r k w) = hub_ok w" "evolves w0 (audit_call o' m c a r k w) = evolves w0 w"
  by (simp_all add: audit_call_def)

lemma safe_call: "cooperative E \<Longrightarrow> hub_ok w \<Longrightarrow> safe w (CallCapability E w ownerID machineID capability action params)"
  unfolding CallCapability_def Let_def
  by (auto split: sum.split prod.split node_reply.split simp: safe_pair dest: safe_node)

lemma safe_agent: "cooperative E \<Longrightarrow> hub_ok w \<Longrightarrow> safe w (agent_call E w ownerID machineID action params)"
  unfolding agent_call_def by (rule safe_call)

lemma view_revision [simp]: "numberField (row_view w rec st role) ''revision'' = cb_Revision rec"
  by (simp add: row_view_def cloudCollaborationView_def numberField_def oint_def numericInt64_def)

lemma view_id [simp]: "map_of (row_view w rec st role) ''collaborationId'' = Some (ostr (cb_CollaborationID rec))"
  by (simp add: row_view_def cloudCollaborationView_def)

text \<open>What a request must have in hand to write: a well-formed state that grew from the row.\<close>

definition holds :: "hub \<Rightarrow> string \<Rightarrow> collab_row \<Rightarrow> collab_state \<Rightarrow> bool" where
  "holds w ownerID rec st = (wf_state st \<and> tracks w rec st \<and> cb_OwnerID rec = ownerID)"

lemma holds_evolves: "holds w ownerID rec st \<Longrightarrow> evolves w w' \<Longrightarrow> holds w' ownerID rec st"
  by (auto simp: holds_def intro: tracks_evolves)

lemma holds_grows: "holds w ownerID rec st \<Longrightarrow> wf_state st' \<Longrightarrow> state_grows st st' \<Longrightarrow> holds w ownerID rec st'"
  by (auto simp: holds_def intro: tracks_grows)

lemma load_holds: "loadCloudCollaboration dg w ownerID i = Inr (rec, st) \<Longrightarrow> hub_ok w \<Longrightarrow> holds w ownerID rec st"
  by (auto simp: holds_def dest: load_Inr load_tracks)

lemma tracks_rec: "cb_CollaborationID rec' = cb_CollaborationID rec \<Longrightarrow> cb_OwnerID rec' = cb_OwnerID rec
    \<Longrightarrow> cb_Revision rec' = cb_Revision rec \<Longrightarrow> tracks w rec' st = tracks w rec st"
  by (simp add: tracks_def)

lemma safe_save:
  assumes "hub_ok w" "holds w ownerID rec st"
  shows "safe w (saveCloudCollaboration w ownerID rec st)"
    "saveCloudCollaboration w ownerID rec st = (Inr m, w') \<Longrightarrow> holds w' ownerID (saved_rec rec m) st"
proof -
  obtain r w1 where up: "UpdateCloudCollaboration w ownerID (cb_CollaborationID rec) (cs_Status st) st (cb_Revision rec) (hb_now w) = (r, w1)"
    by (metis surj_pair)
  have wf: "wf_state st" "tracks w rec st" "cb_OwnerID rec = ownerID" using assms(2) by (simp_all add: holds_def)
  note ev = Update_evolves [OF assms(1) wf up]
  show "safe w (saveCloudCollaboration w ownerID rec st)"
    using ev by (cases r) (auto simp: saveCloudCollaboration_def up safe_pair)
  assume s: "saveCloudCollaboration w ownerID rec st = (Inr m, w')"
  then obtain r' where r: "r = Inr r'" "w' = w1" "m = row_view w1 r' st ''dispatcher''"
    by (cases r) (auto simp: saveCloudCollaboration_def up)
  then have "tracks w' r' st" "cb_Revision r' = cb_Revision rec + 1" "cb_CollaborationID r' = cb_CollaborationID rec" "cb_OwnerID r' = ownerID"
    using ev by auto
  then show "holds w' ownerID (saved_rec rec m) st"
    using wf tracks_rec [of "saved_rec rec m" r'] by (simp add: holds_def saved_rec_def r(3))
qed

lemma safe_save_then:
  assumes "hub_ok w" "holds w ownerID rec st"
    "\<And>m w1. hub_ok w1 \<Longrightarrow> evolves w w1 \<Longrightarrow> holds w1 ownerID (saved_rec rec m) st \<Longrightarrow> safe w1 (k m w1)"
  shows "safe w (save_then w ownerID rec st k)"
  unfolding save_then_def
  by (rule safe_run [OF safe_save(1) [OF assms(1,2)]]) (use assms(3) safe_save(2) [OF assms(1,2)] in blast)

lemma safe_save_end:
  assumes "hub_ok w" "holds w ownerID rec st" "\<And>m w1. \<exists>r. k m w1 = (r, w1)"
  shows "safe w (save_then w ownerID rec st k)"
proof (rule safe_save_then [OF assms(1,2)])
  fix m w1 assume "hub_ok w1" then show "safe w1 (k m w1)" using assms(3) [of m w1] by auto
qed

section \<open>Routes\<close>

lemma safe_ready: "cooperative E \<Longrightarrow> hub_ok w \<Longrightarrow> safe w (ensureCodexCloudCollaborationReady E w ownerID machineID)"
  unfolding ensureCodexCloudCollaborationReady_def by (rule safe_run [OF safe_agent]) simp_all

lemma safe_validate: "cooperative E \<Longrightarrow> hub_ok w \<Longrightarrow> safe w (validateCodexLocalCollaborationSession E w ownerID machineID sessionID)"
  unfolding validateCodexLocalCollaborationSession_def by (rule safe_run [OF safe_agent]) simp_all

lemma safe_register: "cooperative E \<Longrightarrow> hub_ok w \<Longrightarrow> safe w (registerCloudCollaborationCallback E w ownerID rec st t b)"
  unfolding registerCloudCollaborationCallback_def Let_def
  by (rule safe_case_sum [OF safe_agent]) (auto intro: safe_agent)

lemma safe_arm: "cooperative E \<Longrightarrow> hub_ok w \<Longrightarrow> safe w (armCloudCollaborationCallback E w ownerID rec st t)"
  unfolding armCloudCollaborationCallback_def by (rule safe_agent)

lemma safe_route: "cooperative E \<Longrightarrow> hub_ok w \<Longrightarrow> safe w (activateCloudCollaborationCallbackRoute E w ownerID rec st t b)"
  unfolding activateCloudCollaborationCallbackRoute_def
  by (rule safe_case_sum [OF safe_register]) (auto intro: safe_case_sum [OF safe_arm])

lemma safe_enqueue_pending: "cooperative E \<Longrightarrow> hub_ok w \<Longrightarrow> safe w (enqueuePendingCloudCompletion E w ownerID rec t)"
  unfolding enqueuePendingCloudCompletion_def enqueueCloudCompletionOnNode_def
  by (auto split: sum.split intro: safe_agent)

lemma safe_activate:
  assumes "cooperative E" "hub_ok w"
  shows "safe w (activateCloudCollaborationCallback E w ownerID rec st t b)"
proof -
  obtain registered armed err w1 where r: "activateCloudCollaborationCallbackRoute E w ownerID rec st t b = ((registered, armed, err), w1)"
    by (metis surj_pair)
  have ok: "hub_ok w1" "evolves w w1" using safe_route [OF assms] r by (metis safe_pair)+
  show ?thesis
  proof (cases err)
    case None
    have "safe w1 (case enqueuePendingCloudCompletion E w1 ownerID rec t of
        (Inl e, w) \<Rightarrow> ((True, True, Some e), w) | (Inr _, w) \<Rightarrow> ((True, True, None), w))"
      by (rule safe_case_sum [OF safe_enqueue_pending [OF assms(1) ok(1)]]) simp_all
    then show ?thesis using ok(2) by (simp add: activateCloudCollaborationCallback_def r None safe_after)
  qed (use ok in \<open>simp add: activateCloudCollaborationCallback_def r safe_pair\<close>)
qed

section \<open>Updating what one holds\<close>

lemma holds_chat:
  assumes "holds w ownerID rec st" "\<And>c. chat_key (f c) = chat_key c" "\<And>A D G c. wf_chat A D G c \<Longrightarrow> wf_chat A D G (f c)"
  shows "holds w ownerID rec (upd_chat i f st)"
proof (rule holds_grows [OF assms(1)])
  have "wf_state st" using assms(1) by (simp add: holds_def)
  then show "wf_state (upd_chat i f st)"
    by (rule wf_upd_chat) (use assms(2,3) in \<open>auto simp: chat_key_def\<close>)
qed (use assms(2) in \<open>rule grows_upd_chat\<close>)

lemma holds_task:
  assumes h: "holds w ownerID rec st" and g: "\<And>t. grant_of (f t) = grant_of t \<and> tk_Generation (f t) = tk_Generation t"
    and wf: "\<And>A D G. i < length (cs_Tasks st) \<Longrightarrow> wf_task A D G (cs_Tasks st ! i) \<Longrightarrow> wf_task A D G (f (cs_Tasks st ! i))"
    and link: "i < length (cs_Tasks st) \<Longrightarrow> tk_ChatSessionID (f (cs_Tasks st ! i)) = [] \<or>
      tk_ChatSessionID (f (cs_Tasks st ! i)) = tk_ChatSessionID (cs_Tasks st ! i)"
  shows "holds w ownerID rec (upd_task i f st)"
proof (rule holds_grows [OF h])
  have w: "wf_state st" using h by (simp add: holds_def)
  have id: "tk_ID (f t) = tk_ID t" for t using g by (simp add: grant_of_def)
  show "wf_state (upd_task i f st)"
  proof (rule wf_upd_task [OF w])
    assume i: "i < length (cs_Tasks st)" and c: "tk_ChatSessionID (f (cs_Tasks st ! i)) \<noteq> []"
    then have eq: "tk_ChatSessionID (f (cs_Tasks st ! i)) = tk_ChatSessionID (cs_Tasks st ! i)" using link by blast
    then have "chat_of (f (cs_Tasks st ! i)) = chat_of (cs_Tasks st ! i)" using id g by (simp add: chat_of_def fun_eq_iff)
    then show "list_ex (chat_of (f (cs_Tasks st ! i))) (cs_Chats st)" using linked_task [OF w i] c eq by simp
  qed (use id wf in auto)
qed (use g in \<open>auto intro: grows_upd_task\<close>)

lemma wf_chat_flags:
  "wf_chat A D G c \<Longrightarrow> wf_chat A D G (c\<lparr>ct_CallbackRegistered := r\<rparr>)"
  "wf_chat A D G c \<Longrightarrow> wf_chat A D G (c\<lparr>ct_CallbackArmed := r\<rparr>)"
  by (simp_all add: wf_chat_def)

lemma holds_clear: "holds w ownerID rec st \<Longrightarrow> holds w ownerID rec (upd_chat i clear_route st)"
  by (rule holds_chat) (simp_all add: clear_route_def chat_key_def wf_chat_flags)

lemma holds_set_callback: "holds w ownerID rec st \<Longrightarrow> holds w ownerID rec (upd_chat i (set_callback r a) st)"
  by (rule holds_chat) (simp_all add: set_callback_def chat_key_def wf_chat_flags)

lemma holds_armed: "holds w ownerID rec st \<Longrightarrow> holds w ownerID rec (upd_chat i (\<lambda>c. c\<lparr>ct_CallbackArmed := a\<rparr>) st)"
  by (rule holds_chat) (simp_all add: chat_key_def wf_chat_flags)

lemma holds_registered: "holds w ownerID rec st \<Longrightarrow> holds w ownerID rec (upd_chat i (registered_chat result) st)"
  by (rule holds_chat) (simp_all add: registered_chat_def Let_def chat_key_def wf_chat_flags split: json.split)

lemma holds_chat_status: "holds w ownerID rec st \<Longrightarrow> s \<in> set chat_statuses \<Longrightarrow> holds w ownerID rec (upd_chat i (\<lambda>c. c\<lparr>ct_Status := s\<rparr>) st)"
  by (rule holds_chat) (simp_all add: chat_key_def wf_chat_def)

lemma holds_delivery: "holds w ownerID rec st \<Longrightarrow> holds w ownerID rec (upd_task i (\<lambda>t. t\<lparr>tk_DeliveryStatus := d\<rparr>) st)"
  by (rule holds_task) (simp_all add: grant_of_def wf_task_def)

lemma holds_status: "holds w ownerID rec st \<Longrightarrow> s \<in> set collab_statuses \<Longrightarrow> holds w ownerID rec (st\<lparr>cs_Status := s\<rparr>)"
  by (rule holds_grows) (auto simp: holds_def intro: wf_set_status)

lemma safe_unregister_route: "cooperative E \<Longrightarrow> hub_ok w \<Longrightarrow> safe w (unregister_route E w ownerID rec st c)"
  unfolding unregister_route_def by (rule safe_agent)

lemma run_eq_Inr: "run m k = (Inr y, w') \<Longrightarrow> \<exists>x w. m = (Inr x, w) \<and> k x w = (Inr y, w')"
  by (simp add: run_Inr_iff)

lemma safe_unregister: "cooperative E \<Longrightarrow> hub_ok w \<Longrightarrow> safe w (unregisterCloudCollaborationTaskCallback E w ownerID rec st tid)"
  unfolding unregisterCloudCollaborationTaskCallback_def Let_def
  by (auto split: option.split intro!: safe_run [OF safe_unregister_route])

lemma unregister_Inr:
  "unregisterCloudCollaborationTaskCallback E w ownerID rec st tid = (Inr st', w') \<Longrightarrow> st' = st \<or> (\<exists>i. st' = upd_chat i clear_route st)"
  unfolding unregisterCloudCollaborationTaskCallback_def Let_def
  by (auto split: option.splits if_splits dest!: run_eq_Inr)

lemma unregister_holds:
  "unregisterCloudCollaborationTaskCallback E w ownerID rec st tid = (Inr st', w') \<Longrightarrow> holds w0 ownerID rec st \<Longrightarrow> holds w0 ownerID rec st'"
  using unregister_Inr holds_clear by metis

section \<open>Delivery to an existing CHAT\<close>

lemma safe_release_loop: "cooperative E \<Longrightarrow> hub_ok w \<Longrightarrow> safe w (release_loop E ownerID rec st t sid cbs w)"
proof (induction cbs arbitrary: w)
  case (Cons cb cbs)
  then show ?case
    by (auto simp: Let_def split: sum.split option.split intro!: safe_run [OF safe_agent])
qed simp

lemma safe_release: "cooperative E \<Longrightarrow> hub_ok w \<Longrightarrow> safe w (releaseCompletedCloudCallbackForReuse E w ownerID rec st t sid)"
  unfolding releaseCompletedCloudCallbackForReuse_def by (rule safe_run [OF safe_agent]) (auto intro: safe_release_loop)

lemma wf_task_requeue:
  "wf_task A D G t \<Longrightarrow> wf_task A D G (t\<lparr>tk_Status := ''queued'', tk_ChatSessionID := [], tk_SessionMode := m, tk_DeliveryStatus := d, tk_UpdatedAt := u\<rparr>)"
  using unbound_queued by (simp add: wf_task_def)

lemma wf_task_blocked: "wf_task A D G t \<Longrightarrow> wf_task A D G (t\<lparr>tk_Status := ''blocked'', tk_DeliveryStatus := d, tk_UpdatedAt := u\<rparr>)"
  using status_class [of "''blocked''"] by (simp add: wf_task_def)

lemma safe_refused:
  assumes "cooperative E" "hub_ok w" "holds w ownerID rec st"
  shows "safe w (delivery_refused E w ownerID rec st idx cidx e)"
  unfolding delivery_refused_def
proof (rule safe_case_sum [OF safe_unregister [OF assms(1,2)]])
  fix e' w1 assume 1: "hub_ok w1" "evolves w w1"
  show "safe w1 (save_then w1 ownerID rec (upd_chat cidx (\<lambda>c. c\<lparr>ct_Status := ''release_pending''\<rparr>)
      (upd_task idx (\<lambda>t. t\<lparr>tk_Status := ''blocked'', tk_DeliveryStatus := ''rejected'', tk_UpdatedAt := format_stamp (hb_now w1)\<rparr>) st))
      (\<lambda>_ w. (Inl (Wrapped ''callback cleanup failed'' e), w)))"
    by (rule safe_save_end [OF 1(1)], rule holds_chat_status, rule holds_task [OF holds_evolves [OF assms(3) 1(2)]])
       (simp_all add: grant_of_def wf_task_blocked chat_status_values)
next
  fix st1 w1 assume r: "unregisterCloudCollaborationTaskCallback E w ownerID rec st (tk_ID (cs_Tasks st ! idx)) = (Inr st1, w1)"
    and 1: "hub_ok w1" "evolves w w1"
  have h: "holds w1 ownerID rec st1" using unregister_holds [OF r] holds_evolves [OF assms(3) 1(2)] by blast
  show "safe w1 (save_then w1 ownerID rec (upd_task idx (\<lambda>t. t\<lparr>tk_Status := ''queued'', tk_ChatSessionID := [], tk_SessionMode := [],
      tk_DeliveryStatus := ''pending'', tk_UpdatedAt := format_stamp (hb_now w1)\<rparr>) (upd_chat cidx (\<lambda>c. c\<lparr>ct_Status := ''released''\<rparr>) st1))
      (\<lambda>_ w. (Inl e, w)))"
    by (rule safe_save_end [OF 1(1)], rule holds_task, rule holds_chat_status [OF h])
       (simp_all add: grant_of_def wf_task_requeue chat_status_values)
qed

lemma safe_deliver_send:
  assumes "cooperative E" "hub_ok w" "holds w ownerID rec st"
  shows "safe w (deliver_send E w ownerID rec st idx cidx)"
proof -
  have armed: "holds w1 ownerID rec (upd_task idx (\<lambda>t. t\<lparr>tk_DeliveryStatus := d\<rparr>)
      (if b then upd_chat cidx (\<lambda>c. c\<lparr>ct_CallbackArmed := True\<rparr>) st else st))" if "evolves w w1" for w1 d b
    using holds_evolves [OF assms(3) that] by (auto intro!: holds_delivery holds_armed)
  show ?thesis
    unfolding deliver_send_def Let_def
  proof (rule safe_case_sum [OF safe_agent [OF assms(1,2)]])
    fix e w1 assume 1: "hub_ok w1" "evolves w w1"
    show "safe w1 (if cloudCollaborationDeliveryWasRejected e then delivery_refused E w1 ownerID rec st idx cidx e
      else case armCloudCollaborationCallback E w1 ownerID rec st (cs_Tasks st ! idx) of (arm, w) \<Rightarrow>
        save_then w ownerID rec (upd_task idx (\<lambda>t. t\<lparr>tk_DeliveryStatus := ''in_doubt''\<rparr>)
            (if is_ok arm then upd_chat cidx (\<lambda>c. c\<lparr>ct_CallbackArmed := True\<rparr>) st else st))
          (\<lambda>m w. (Inr (put_if (\<not> is_ok arm) ''callbackPending'' (obool True)
                      (put ''reusedSession'' (obool True) (put ''deliveryInDoubt'' (obool True) m))), w)))"
      using 1 safe_refused [OF assms(1) 1(1) holds_evolves [OF assms(3) 1(2)]]
      by (auto intro!: safe_case_pair [OF safe_arm [OF assms(1)]] safe_save_end armed intro: evolves_trans)
  next
    fix x w1 assume 1: "hub_ok w1" "evolves w w1"
    show "safe w1 (case armCloudCollaborationCallback E w1 ownerID rec st (cs_Tasks st ! idx) of (arm, w) \<Rightarrow>
        save_then w ownerID rec (upd_task idx (\<lambda>t. t\<lparr>tk_DeliveryStatus := ''delivered''\<rparr>)
            (if is_ok arm then upd_chat cidx (\<lambda>c. c\<lparr>ct_CallbackArmed := True\<rparr>) st else st))
          (\<lambda>m w. (Inr (delivery_out (cs_Tasks st ! idx) (\<not> is_ok arm) x m), w)))"
      using 1 by (auto intro!: safe_case_pair [OF safe_arm [OF assms(1)]] safe_save_end armed intro: evolves_trans)
  qed
qed

lemma safe_deliver:
  assumes "cooperative E" "hub_ok w" "holds w ownerID rec st"
  shows "safe w (deliverCloudCollaborationExistingTask E w ownerID rec st tid)"
  unfolding deliverCloudCollaborationExistingTask_def Let_def
  using assms
  by (auto split: option.split intro!: safe_run [OF safe_register] safe_save_then safe_deliver_send holds_registered
      intro: holds_evolves)

text \<open>Binding a task to a CHAT that gets its entry in the same step.\<close>

lemma wf_append_chat:
  assumes "wf_state st" "wf_chat (cs_AllowedActions st) (cs_MaxDepth st) (cs_Generation st) c"
  shows "wf_state (st\<lparr>cs_Chats := cs_Chats st @ [c]\<rparr>)"
proof -
  have "wf_chats (st\<lparr>cs_Chats := cs_Chats st @ [c]\<rparr>)" "wf_links (st\<lparr>cs_Chats := cs_Chats st @ [c]\<rparr>)"
    using wf_stateD(5,8) [OF assms(1)] assms(2) by (auto simp: wf_chats_def wf_links_def list_all_iff)
  then show ?thesis using assms(1) by (simp add: wf_state_def frame_simps)
qed

lemma wf_chat_for:
  assumes "wf_task A D G t" "sid \<noteq> []"
  shows "wf_chat A D G (reused_chat t sid now)" "wf_chat A D G (created_chat t sid now)"
  using assms chat_status_values by (simp_all add: wf_task_def wf_chat_def reused_chat_def created_chat_def)

lemma wf_task_active:
  assumes "wf_task A D G t" "sid \<noteq> []"
  shows "wf_task A D G (assign_existing sid now t)" "wf_task A D G (assign_created sid now t)"
proof -
  have "''active'' \<in> set task_statuses" "''active'' \<notin> set unbound_statuses" by (simp_all add: task_statuses_def unbound_statuses_def)
  then show "wf_task A D G (assign_existing sid now t)" "wf_task A D G (assign_created sid now t)"
    using assms by (simp_all add: wf_task_def assign_existing_def assign_created_def)
qed

lemma wf_task_nth: "wf_state st \<Longrightarrow> i < length (cs_Tasks st) \<Longrightarrow>
    wf_task (cs_AllowedActions st) (cs_MaxDepth st) (cs_Generation st) (cs_Tasks st ! i)"
  using wf_stateD(4) [of st] by (simp add: wf_tasks_def list_all_length)

lemma holds_assign_existing:
  assumes h: "holds w ownerID rec st" and i: "i < length (cs_Tasks st)" and sid: "sid \<noteq> []"
  shows "holds w ownerID rec ((upd_task i (assign_existing sid now) st)\<lparr>cs_Chats := cs_Chats st @ [reused_chat (cs_Tasks st ! i) sid now]\<rparr>)"
proof -
  let ?c = "reused_chat (cs_Tasks st ! i) sid now" and ?st = "st\<lparr>cs_Chats := cs_Chats st @ [reused_chat (cs_Tasks st ! i) sid now]\<rparr>"
  have wf: "wf_state st" using h by (simp add: holds_def)
  note t = wf_task_nth [OF wf i]
  have 1: "wf_state ?st" using wf_append_chat [OF wf wf_chat_for(1) [OF t sid]] .
  have c: "chat_of (assign_existing sid now (cs_Tasks st ! i)) ?c" by (simp add: chat_of_def assign_existing_def reused_chat_def)
  have "wf_state (upd_task i (assign_existing sid now) ?st)"
    by (rule wf_upd_task [OF 1]) (use t c wf_task_active(1) [OF t sid] in \<open>simp_all add: assign_existing_def\<close>)
  moreover have "state_grows st (upd_task i (assign_existing sid now) ?st)"
    by (rule state_grows_trans [OF grows_append_chat], rule grows_upd_task) (simp_all add: assign_existing_def grant_of_def)
  ultimately have "holds w ownerID rec (upd_task i (assign_existing sid now) ?st)" by (rule holds_grows [OF h])
  moreover have "upd_task i (assign_existing sid now) ?st = (upd_task i (assign_existing sid now) st)\<lparr>cs_Chats := cs_Chats st @ [?c]\<rparr>"
    by (rule collab_state.equality) (simp_all add: upd_task_def)
  ultimately show ?thesis by simp
qed

lemma safe_dispatch_existing:
  assumes "cooperative E" "hub_ok w" "holds w ownerID rec st" "target \<noteq> []"
  shows "safe w (cloudCollaborationDispatchExistingTask E w ownerID rec st req target)"
proof (cases "taskIndex st (rq_TaskID req)")
  case (Some idx)
  then have i: "idx < length (cs_Tasks st)" using taskIndex_Some by blast
  have fin: "safe w1 (deliverCloudCollaborationExistingTask E w1 ownerID rec
      ((upd_task idx (assign_existing target now) st)\<lparr>cs_Chats := cs_Chats st @ [reused_chat (cs_Tasks st ! idx) target now]\<rparr>) tid)"
    if "hub_ok w1" "evolves w w1" for w1 now tid
    by (rule safe_deliver [OF assms(1) that(1)], rule holds_assign_existing [OF _ i assms(4)], rule holds_evolves [OF assms(3) that(2)])
  show ?thesis
    unfolding cloudCollaborationDispatchExistingTask_def Some option.case Let_def
    using assms(1,2)
    by (auto intro!: safe_run [OF safe_ready] safe_run [OF safe_agent] safe_run [OF safe_release] fin) (metis evolves_trans)
qed (simp add: cloudCollaborationDispatchExistingTask_def assms(2))

section \<open>Dispatch to a new CHAT\<close>

lemma bind_chat_holds:
  assumes h: "holds w ownerID rec st" and i: "idx < length (cs_Tasks st)" and sid: "sid \<noteq> []"
  shows "holds w ownerID rec (bind_chat idx sid now st)"
proof -
  let ?f = "assign_created sid now" and ?t = "cs_Tasks st ! idx"
  have wf: "wf_state st" using h by (simp add: holds_def)
  note t = wf_task_nth [OF wf i]
  have g: "state_grows x (upd_task idx ?f x)" for x
    by (rule grows_upd_task) (simp_all add: assign_created_def grant_of_def)
  have id: "tk_ID (?f t) = tk_ID t" for t by (simp add: assign_created_def)
  have "wf_state (bind_chat idx sid now st) \<and> state_grows st (bind_chat idx sid now st)"
  proof (cases "chatTaskIndex (upd_task idx ?f st) (?f ?t)")
    case None
    define c where "c = created_chat (?f ?t) sid now"
    have 1: "wf_state (st\<lparr>cs_Chats := cs_Chats st @ [c]\<rparr>)"
      unfolding c_def by (rule wf_append_chat [OF wf wf_chat_for(2) [OF wf_task_active(2) [OF t sid] sid]])
    have "chat_of (?f ?t) c" by (simp add: chat_of_def assign_created_def created_chat_def reused_chat_def c_def)
    then have "wf_state (upd_task idx ?f (st\<lparr>cs_Chats := cs_Chats st @ [c]\<rparr>))"
      by (intro wf_upd_task [OF 1]) (use t wf_task_active(2) [OF t sid] id in simp_all)
    moreover have "state_grows st (upd_task idx ?f (st\<lparr>cs_Chats := cs_Chats st @ [c]\<rparr>))"
      by (rule state_grows_trans [OF grows_append_chat g])
    moreover have "bind_chat idx sid now st = upd_task idx ?f (st\<lparr>cs_Chats := cs_Chats st @ [c]\<rparr>)"
      by (rule collab_state.equality) (use None i in \<open>simp_all add: bind_chat_def Let_def upd_task_def c_def\<close>)
    ultimately show ?thesis by simp
  next
    case (Some k)
    then have "list_ex (chat_of (?f ?t)) (cs_Chats st)"
      using chatTaskIndex_Some [OF Some] by (auto simp: list_ex_length chat_of_def)
    then have "wf_state (upd_task idx ?f st)"
      by (intro wf_upd_task [OF wf]) (use t wf_task_active(2) [OF t sid] id in simp_all)
    then show ?thesis using g i Some by (simp add: bind_chat_def Let_def)
  qed
  then show ?thesis using h by (blast intro: holds_grows)
qed

lemma safe_persist_loop:
  assumes "sid \<noteq> []"
  shows "hub_ok w \<Longrightarrow> holds w ownerID rec st \<Longrightarrow>
    safe w (persist_loop n E ownerID rec st t sid w) \<and>
    (\<forall>rec' st' w'. persist_loop n E ownerID rec st t sid w = (Inr (rec', st'), w') \<longrightarrow> holds w' ownerID rec' st')"
proof (induction n arbitrary: rec st w)
  case (Suc n)
  show ?case
  proof (cases "taskIndex st (tk_ID t)")
    case (Some idx)
    then have i: "idx < length (cs_Tasks st)" using taskIndex_Some by blast
    define st1 where "st1 = bind_chat idx sid (hb_now w) st"
    have h1: "holds w ownerID rec st1" unfolding st1_def by (rule bind_chat_holds [OF Suc.prems(2) i assms])
    then have wf: "wf_state st1" "tracks w rec st1" "cb_OwnerID rec = ownerID" by (simp_all add: holds_def)
    obtain r w1 where up: "UpdateCloudCollaboration w ownerID (cb_CollaborationID rec) (cs_Status st1) st1 (cb_Revision rec) (hb_now w) = (r, w1)"
      by (metis surj_pair)
    note ev = Update_evolves [OF Suc.prems(1) wf up]
    have eq: "persist_loop (Suc n) E ownerID rec st t sid w = (if \<not> may_bind (cs_Tasks st ! idx) t sid then (Inl ErrConflict, w)
      else (case r of Inr updatedRec \<Rightarrow> (Inr (updatedRec, st1), w1)
        | Inl e \<Rightarrow> if root_error e \<noteq> ErrConflict then (Inl e, w1)
            else (case loadCloudCollaboration (dgs E) w1 ownerID (cb_CollaborationID rec) of
              Inl e \<Rightarrow> (Inl e, w1) | Inr (rec, st) \<Rightarrow> persist_loop n E ownerID rec st t sid w1)))"
      by (simp add: Some st1_def [symmetric] Let_def up split: sum.split)
    show ?thesis
    proof (cases "may_bind (cs_Tasks st ! idx) t sid")
      case may: True
      show ?thesis
      proof (cases r)
        case (Inr r')
        then show ?thesis using ev wf unfolding eq by (simp add: may safe_pair holds_def)
      next
        case (Inl e)
        have 1: "hub_ok w1" "evolves w w1" using ev by simp_all
        show ?thesis
        proof (cases "root_error e = ErrConflict")
          case conflict: True
          show ?thesis
          proof (cases "loadCloudCollaboration (dgs E) w1 ownerID (cb_CollaborationID rec)")
            case load: (Inr p)
            obtain rec2 st2 where p: "p = (rec2, st2)" by (cases p)
            have "holds w1 ownerID rec2 st2" using load_holds [OF load [unfolded p] 1(1)] .
            then show ?thesis using Suc.IH [OF 1(1)] 1(2) unfolding eq by (auto simp: may Inl conflict load p intro: safe_after)
          qed (unfold eq, use 1 in \<open>simp add: may Inl conflict safe_pair\<close>)
        qed (unfold eq, use 1 in \<open>simp add: may Inl safe_pair\<close>)
      qed
    qed (unfold eq, use Suc.prems in simp)
  qed (use Suc.prems in simp)
qed simp

lemma safe_persist:
  assumes "hub_ok w" "holds w ownerID rec st" "sid \<noteq> []"
  shows "safe w (persistCloudCollaborationCreatedChat E w ownerID rec st t sid)"
    "persistCloudCollaborationCreatedChat E w ownerID rec st t sid = (Inr (rec', st'), w') \<Longrightarrow> holds w' ownerID rec' st'"
  using safe_persist_loop [OF assms(3) assms(1,2)] by (auto simp: persistCloudCollaborationCreatedChat_def)

lemma wf_task_doubt:
  assumes "tk_Status t \<in> set unbound_statuses" "wf_task A D G t"
  shows "wf_task A D G (t\<lparr>tk_Status := ''create_in_doubt'', tk_DeliveryStatus := d, tk_UpdatedAt := u\<rparr>)"
proof -
  have "''create_in_doubt'' \<in> set task_statuses" "''create_in_doubt'' \<notin> set bound_statuses" by (simp_all add: task_statuses_def bound_statuses_def)
  then show ?thesis using assms by (simp add: wf_task_def)
qed

lemma safe_in_doubt:
  assumes "hub_ok w" "holds w ownerID rec st" "tk_Status (cs_Tasks st ! idx) \<in> set unbound_statuses"
  shows "safe w (create_in_doubt w ownerID rec st idx)"
  unfolding create_in_doubt_def
  by (rule safe_save_end [OF assms(1)], rule holds_task [OF assms(2)])
     (use assms(3) wf_task_doubt in \<open>auto simp: grant_of_def\<close>)

lemma wf_count: "wf_state st \<Longrightarrow> wf_state (st\<lparr>cs_CreateCount := cs_CreateCount st + 1\<rparr>)"
  by (auto simp: wf_state_def frame_simps) (simp add: wf_counters_def)

lemma start_creating_holds:
  assumes h: "holds w ownerID rec st" and s: "tk_Status (cs_Tasks st ! idx) \<in> {''queued'', ''create_in_doubt''}"
    and i: "idx < length (cs_Tasks st)"
  shows "holds w ownerID rec (start_creating idx now st)"
    "tk_Status (cs_Tasks (start_creating idx now st) ! idx) \<in> set unbound_statuses"
proof -
  have c: "''creating'' \<in> set task_statuses" "''creating'' \<in> set unbound_statuses" "''creating'' \<notin> set bound_statuses"
    "''create_in_doubt'' \<in> set unbound_statuses"
    by (simp_all add: task_statuses_def bound_statuses_def unbound_statuses_def)
  have h1: "holds w ownerID rec (st\<lparr>cs_CreateCount := cs_CreateCount st + 1\<rparr>)"
    by (rule holds_grows [OF h]) (use h in \<open>auto simp: holds_def intro: wf_count\<close>)
  have w: "wf_task A D G t \<Longrightarrow> tk_Status t = ''queued'' \<Longrightarrow>
    wf_task A D G (t\<lparr>tk_Status := ''creating'', tk_SessionMode := m, tk_DeliveryStatus := d, tk_UpdatedAt := u\<rparr>)" for A D G t m d u
    using c unbound_queued by (simp add: wf_task_def)
  show "holds w ownerID rec (start_creating idx now st)"
    unfolding start_creating_def using h
    by (auto intro!: holds_task [OF h1] intro: w simp: grant_of_def)
  show "tk_Status (cs_Tasks (start_creating idx now st) ! idx) \<in> set unbound_statuses"
    using s c i by (auto simp: start_creating_def)
qed

lemma safe_activate_created:
  assumes "cooperative E" "hub_ok w" "holds w ownerID rec st"
  shows "safe w (activate_created E w ownerID rec st tid)"
  unfolding activate_created_def
  using assms(2)
  by (auto split: option.split intro!: safe_case_pair [OF safe_activate [OF assms(1,2)]] safe_save_end holds_set_callback
      intro: holds_evolves [OF assms(3)])

lemma safe_dispatch_new:
  assumes coop: "cooperative E" and ok: "hub_ok w" and h: "holds w ownerID rec st" and i: "idx < length (cs_Tasks st)"
    and s: "tk_Status (cs_Tasks st ! idx) \<in> {''queued'', ''create_in_doubt''}"
  shows "safe w (dispatch_new E w ownerID rec st req idx)"
  unfolding dispatch_new_def Let_def
proof (rule safe_run [OF safe_ready [OF coop ok]])
  fix w1 assume 1: "hub_ok w1" "evolves w w1"
  let ?st = "start_creating idx (hb_now w1) st"
  note h1 = start_creating_holds [OF holds_evolves [OF h 1(2)] s i, of "hb_now w1"]
  show "safe w1 (save_then w1 ownerID rec ?st (\<lambda>reserved w.
      case agent_call E w ownerID (cb_MachineID (saved_rec rec reserved)) ''session.create''
         (create_params ?st (cloudCollaborationBootstrap (cb_CollaborationID (saved_rec rec reserved)) (cb_MachineID (saved_rec rec reserved)) ?st (cs_Tasks ?st ! idx)) (cs_Tasks ?st ! idx)) of
        (Inl _, w) \<Rightarrow> create_in_doubt w ownerID (saved_rec rec reserved) ?st idx
      | (Inr result, w) \<Rightarrow> if \<not> created_ok result then create_in_doubt w ownerID (saved_rec rec reserved) ?st idx
          else run (persistCloudCollaborationCreatedChat E w ownerID (saved_rec rec reserved) ?st (cs_Tasks ?st ! idx) (jstr (jget result ''sessionId'')))
            (\<lambda>(rec, st) w. activate_created E w ownerID rec st (rq_TaskID req))))"
  proof (rule safe_save_then [OF 1(1) h1(1)])
    fix m w2 assume 2: "hub_ok w2" "evolves w1 w2" "holds w2 ownerID (saved_rec rec m) ?st"
    have doubt: "hub_ok w3 \<Longrightarrow> evolves w2 w3 \<Longrightarrow> safe w3 (create_in_doubt w3 ownerID (saved_rec rec m) ?st idx)" for w3
      using safe_in_doubt [OF _ holds_evolves [OF 2(3)] h1(2)] by blast
    have persist: "safe w3 (run (persistCloudCollaborationCreatedChat E w3 ownerID (saved_rec rec m) ?st t sid)
        (\<lambda>(rec, st) w. activate_created E w ownerID rec st (rq_TaskID req)))"
      if "hub_ok w3" "evolves w2 w3" "sid \<noteq> []" for w3 t sid
      using safe_persist [OF that(1) holds_evolves [OF 2(3) that(2)] that(3)]
      by (auto intro!: safe_run safe_activate_created [OF coop])
    show "safe w2 (case agent_call E w2 ownerID (cb_MachineID (saved_rec rec m)) ''session.create''
         (create_params ?st (cloudCollaborationBootstrap (cb_CollaborationID (saved_rec rec m)) (cb_MachineID (saved_rec rec m)) ?st (cs_Tasks ?st ! idx)) (cs_Tasks ?st ! idx)) of
        (Inl _, w) \<Rightarrow> create_in_doubt w ownerID (saved_rec rec m) ?st idx
      | (Inr result, w) \<Rightarrow> if \<not> created_ok result then create_in_doubt w ownerID (saved_rec rec m) ?st idx
          else run (persistCloudCollaborationCreatedChat E w ownerID (saved_rec rec m) ?st (cs_Tasks ?st ! idx) (jstr (jget result ''sessionId'')))
            (\<lambda>(rec, st) w. activate_created E w ownerID rec st (rq_TaskID req)))"
    proof (rule safe_case_sum [OF safe_agent [OF coop 2(1)]])
      fix result w3 assume 3: "hub_ok w3" "evolves w2 w3"
      have "created_ok result \<Longrightarrow> jstr (jget result ''sessionId'') \<noteq> []" by (simp add: created_ok_def Let_def)
      then show "safe w3 (if \<not> created_ok result then create_in_doubt w3 ownerID (saved_rec rec m) ?st idx
          else run (persistCloudCollaborationCreatedChat E w3 ownerID (saved_rec rec m) ?st (cs_Tasks ?st ! idx) (jstr (jget result ''sessionId'')))
            (\<lambda>(rec, st) w. activate_created E w ownerID rec st (rq_TaskID req)))"
        using doubt [OF 3] persist [OF 3] by simp
    qed (rule doubt)
  qed
qed

lemma safe_redispatch:
  assumes "cooperative E" "hub_ok w" "holds w ownerID rec st"
  shows "safe w (redispatch E w ownerID rec st t target)"
proof (cases "chatTaskIndex st t")
  case (Some cidx)
  have act: "safe w (case activateCloudCollaborationCallback E w ownerID rec st t [] of
        ((registered, armed, err), w) \<Rightarrow>
          let st = upd_chat cidx (set_callback registered armed) st
          in if err = None then saveCloudCollaboration w ownerID rec st
             else if registered then save_then w ownerID rec st (\<lambda>m w. (Inr (put ''callbackPending'' (obool True) m), w))
             else (Inr (put ''callbackPending'' (obool True) (row_view w rec st ''dispatcher'')), w))"
    unfolding Let_def
    by (rule safe_case_pair [OF safe_activate [OF assms(1,2)]])
       (auto intro!: safe_save(1) safe_save_end holds_set_callback intro: holds_evolves [OF assms(3)])
  then show ?thesis using safe_deliver [OF assms] assms(2) by (simp add: redispatch_def Some)
qed (use assms(2) in \<open>simp add: redispatch_def\<close>)

lemma safe_dispatch:
  assumes "cooperative E" "hub_ok w" "holds w ownerID rec st"
  shows "safe w (cloudCollaborationDispatchTask E w ownerID rec st req role)"
proof (cases "taskIndex st (rq_TaskID req)")
  case (Some idx)
  then have i: "idx < length (cs_Tasks st)" using taskIndex_Some by blast
  show ?thesis
    unfolding cloudCollaborationDispatchTask_def Some option.case Let_def
    using assms(2) safe_redispatch [OF assms] safe_dispatch_existing [OF assms] safe_dispatch_new [OF assms i]
    by (auto simp del: containsString_iff)
qed (simp add: cloudCollaborationDispatchTask_def assms(2))

end
