(* ===== verification/Collab_Guarantee.thy ===== *)
theory Collab_Guarantee
  imports Collab_Rely Collab_Demo
begin

text \<open>The rest of the rules of \<open>Collab_Rely\<close>, up to the whole request, with the properties of a request
  that follow: it keeps the invariant, only lets collaborations evolve, and refuses without an effect.\<close>

section \<open>Close and poll\<close>

lemma safe_close_loop:
  assumes "cooperative E"
  shows "hub_ok w \<Longrightarrow> holds w ownerID rec st \<Longrightarrow> close_loop n E ownerID rec st i ar w = ((b, st'), w') \<Longrightarrow>
    hub_ok w' \<and> evolves w w' \<and> holds w' ownerID rec st'"
proof (induction n arbitrary: st i ar w)
  case (Suc n)
  show ?case
  proof (cases "chat_gone (cs_Chats st ! i)")
    case True
    then show ?thesis using Suc by simp
  next
    case False
    define c where "c = cs_Chats st ! i"
    obtain r w1 where r: "(if ct_CallbackRegistered c then unregister_route E w ownerID rec st c else (Inr [], w)) = (r, w1)"
      by (metis surj_pair)
    have 1: "hub_ok w1" "evolves w w1"
      using r safe_unregister_route [OF assms Suc.prems(1), of ownerID rec st c] Suc.prems(1) by (auto split: if_splits simp: safe_def)
    have h1: "holds w1 ownerID rec st" by (rule holds_evolves [OF Suc.prems(2) 1(2)])
    define st1 where "st1 = (if ct_CallbackRegistered c then upd_chat i clear_route st else st)"
    have h2: "holds w1 ownerID rec st1" using holds_clear [OF h1] h1 by (simp add: st1_def)
    show ?thesis
    proof (cases r)
      case (Inl e)
      have "close_loop (Suc n) E ownerID rec st i ar w = ((False, st), w1)"
        using False r Inl by (simp add: c_def [symmetric] Let_def)
      then show ?thesis using Suc.prems(3) 1 h1 by simp
    next
      case (Inr x)
      let ?arch = "upd_chat i (\<lambda>c. c\<lparr>ct_Status := ''archived''\<rparr>) st1" and ?rel = "upd_chat i (\<lambda>c. c\<lparr>ct_Status := ''released''\<rparr>) st1"
      have eq: "close_loop (Suc n) E ownerID rec st i ar w = (if ct_Reused c then close_loop n E ownerID rec ?rel (Suc i) ar w1
          else if ct_SessionID c \<in> set ar then close_loop n E ownerID rec ?arch (Suc i) ar w1
          else (case agent_call E w1 ownerID (cb_MachineID rec) ''session.archive'' (codex @ [(''sessionId'', JStr (ct_SessionID c))]) of
             (Inl _, w) \<Rightarrow> ((False, st1), w)
           | (Inr _, w) \<Rightarrow> close_loop n E ownerID rec ?arch (Suc i) (ct_SessionID c # ar) w))"
        using False by (simp only: close_loop.simps(2) Let_def c_def [symmetric] r Inr st1_def [symmetric] if_False sum.case prod.case)
      have step: "close_loop n E ownerID rec (upd_chat i (\<lambda>c. c\<lparr>ct_Status := s\<rparr>) st1) (Suc i) ar' w2 = ((b, st'), w') \<Longrightarrow>
          s \<in> set chat_statuses \<Longrightarrow> hub_ok w2 \<Longrightarrow> evolves w1 w2 \<Longrightarrow> hub_ok w' \<and> evolves w w' \<and> holds w' ownerID rec st'" for s ar' w2
        using Suc.IH [of w2] holds_chat_status [OF holds_evolves [OF h2]] 1(2) by (metis evolves_trans)
      obtain r2 w2 where r2: "agent_call E w1 ownerID (cb_MachineID rec) ''session.archive'' (codex @ [(''sessionId'', JStr (ct_SessionID c))]) = (r2, w2)"
        by (metis surj_pair)
      have 2: "hub_ok w2" "evolves w1 w2" using safe_agent [OF assms 1(1)] r2 by (metis safe_pair)+
      show ?thesis
        using Suc.prems(3) unfolding eq
        by (cases r2) (use step chat_status_values 1 2 h2 r2 holds_evolves [OF h2 2(2)] in \<open>auto split: if_splits intro: evolves_trans\<close>)
    qed
  qed
qed auto

lemma collab_status_values:
  "''closing'' \<in> set collab_statuses" "''completed'' \<in> set collab_statuses" "''paused'' \<in> set collab_statuses" "''active'' \<in> set collab_statuses"
  by (simp_all add: collab_statuses_def)

lemma safe_close:
  assumes "cooperative E" "hub_ok w" "holds w ownerID rec st"
  shows "safe w (cloudCollaborationClose E w ownerID rec st)"
proof -
  obtain b st1 w1 where r: "close_loop (length (cs_Chats st)) E ownerID rec (st\<lparr>cs_Status := ''closing''\<rparr>) 0 [] w = ((b, st1), w1)"
    by (metis surj_pair)
  have 1: "hub_ok w1" "evolves w w1" "holds w1 ownerID rec st1"
    using safe_close_loop [OF assms(1,2) holds_status [OF assms(3) collab_status_values(1)] r] by simp_all
  have "safe w (saveCloudCollaboration w1 ownerID rec (if b then st1\<lparr>cs_Status := ''completed''\<rparr> else st1))"
    by (rule safe_after [OF 1(2)], rule safe_save(1) [OF 1(1)]) (use 1(3) holds_status [OF 1(3) collab_status_values(2)] in simp)
  then show ?thesis by (simp add: cloudCollaborationClose_def r assms(2))
qed

definition observed :: "collab_state \<Rightarrow> instant \<Rightarrow> int \<Rightarrow> chat \<Rightarrow> chat" where
  "observed st now nxt c =
     (let c' = observe_chat now nxt c
      in if newly_stalled st now (ct_WatchCursor c < nxt) c' then c'\<lparr>ct_StalledNotified := True\<rparr> else c')"

lemma observed_holds: "holds w ownerID rec st \<Longrightarrow> holds w ownerID rec (upd_chat i (observed st now nxt) st)"
  by (rule holds_chat) (simp_all add: observed_def Let_def observe_chat_def chat_key_def wf_chat_def)

lemma upd_chat_const: "upd_chat i (\<lambda>_. f (cs_Chats st ! i)) st = upd_chat i f st"
  by (simp add: upd_chat_def modify_def)

lemma safe_poll_recover:
  assumes "cooperative E" "hub_ok w" "holds w ownerID rec st"
  shows "safe w (poll_recover E w ownerID rec st t cidx now)"
proof -
  have h: "holds w1 ownerID rec (upd_chat cidx (\<lambda>_. if newly_stalled st now (ct_WatchCursor (cs_Chats st ! cidx) < nxt) (observe_chat now nxt (cs_Chats st ! cidx))
        then (observe_chat now nxt (cs_Chats st ! cidx))\<lparr>ct_StalledNotified := True\<rparr> else observe_chat now nxt (cs_Chats st ! cidx)) st)"
    if "evolves w w1" for w1 nxt
    using observed_holds [OF holds_evolves [OF assms(3) that], of cidx now nxt]
    unfolding upd_chat_const [of cidx "observed st now nxt", symmetric] observed_def Let_def .
  show ?thesis
    unfolding poll_recover_def Let_def
    by (rule safe_run [OF safe_agent [OF assms(1,2)]], rule safe_save_end, assumption, rule h, assumption) blast
qed

lemma safe_poll:
  assumes "cooperative E" "hub_ok w" "holds w ownerID rec st"
  shows "safe w (cloudCollaborationPollStatus E w ownerID rec st req)"
proof -
  have act: "safe w (case activateCloudCollaborationCallback E w ownerID rec st t [] of
      ((registered, armed, err), w) \<Rightarrow>
        let st = upd_chat cidx (set_callback registered armed) st
        in case err of None \<Rightarrow> poll_recover E w ownerID rec st t cidx now
           | Some e \<Rightarrow> (Inl e, if registered then snd (saveCloudCollaboration w ownerID rec st) else w))" for t cidx now
    unfolding Let_def
  proof (rule safe_case_pair [OF safe_activate [OF assms(1,2)]], clarify)
    fix r a err w1 assume 1: "hub_ok w1" "evolves w w1"
    have h: "holds w1 ownerID rec (upd_chat cidx (set_callback r a) st)"
      by (rule holds_set_callback [OF holds_evolves [OF assms(3) 1(2)]])
    show "safe w1 (case err of None \<Rightarrow> poll_recover E w1 ownerID rec (upd_chat cidx (set_callback r a) st) t cidx now
           | Some e \<Rightarrow> (Inl e, if r then snd (saveCloudCollaboration w1 ownerID rec (upd_chat cidx (set_callback r a) st)) else w1))"
      using safe_poll_recover [OF assms(1) 1(1) h] safe_save(1) [OF 1(1) h] 1(1) by (auto simp: safe_def split: option.split)
  qed
  show ?thesis
    unfolding cloudCollaborationPollStatus_def
    using assms(2) safe_close [OF assms] safe_poll_recover [OF assms] act by (auto simp: Let_def split: option.split)
qed

section \<open>Continue, delete, lease\<close>

lemma holds_attempts: "holds w ownerID rec st \<Longrightarrow> n \<in> {0, 1} \<Longrightarrow> holds w ownerID rec (upd_chat i (set_attempts n u) st)"
  by (rule holds_chat) (auto simp: set_attempts_def chat_key_def wf_chat_def)

lemma safe_continue:
  assumes "cooperative E" "hub_ok w" "holds w ownerID rec st"
  shows "safe w (cloudCollaborationContinueChat E w ownerID rec st req)"
proof -
  have fin: "safe w (save_then w ownerID rec (upd_chat i (set_attempts 1 u) st) (\<lambda>reserved w.
      case agent_call E w ownerID (cb_MachineID (saved_rec rec reserved)) ''session.callback.continue'' (p reserved) of
          (Inl e, w) \<Rightarrow> (Inl (Wrapped msg e), w)
        | (Inr result, w) \<Rightarrow>
            if jget result ''continueSent'' = JBool False
            then save_then w ownerID (saved_rec rec reserved) (upd_chat i (set_attempts 0 NoStamp) (upd_chat i (set_attempts 1 u) st))
                   (\<lambda>saved w. (Inr (f reserved result saved w), w))
            else (Inr (g reserved result w), w)))" for i u p msg f g
  proof (rule safe_save_then [OF assms(2) holds_attempts [OF assms(3)]], simp)
    fix m w1 assume 1: "hub_ok w1" "holds w1 ownerID (saved_rec rec m) (upd_chat i (set_attempts 1 u) st)"
    show "safe w1 (case agent_call E w1 ownerID (cb_MachineID (saved_rec rec m)) ''session.callback.continue'' (p m) of
          (Inl e, w) \<Rightarrow> (Inl (Wrapped msg e), w)
        | (Inr result, w) \<Rightarrow>
            if jget result ''continueSent'' = JBool False
            then save_then w ownerID (saved_rec rec m) (upd_chat i (set_attempts 0 NoStamp) (upd_chat i (set_attempts 1 u) st))
                   (\<lambda>saved w. (Inr (f m result saved w), w))
            else (Inr (g m result w), w))"
      by (rule safe_case_sum [OF safe_agent [OF assms(1) 1(1)]])
         (use holds_attempts [OF holds_evolves [OF 1(2)]] in \<open>auto intro!: safe_save_end\<close>)
  qed
  show ?thesis
    unfolding cloudCollaborationContinueChat_def Let_def using assms(2) fin by (auto split: option.split)
qed

lemma wf_task_done: "wf_task A D G t \<Longrightarrow> wf_task A D G (t\<lparr>tk_Status := ''done''\<rparr>)"
  using status_class [of "''done''"] by (simp add: wf_task_def)

lemma delete_holds:
  assumes "holds w ownerID rec st"
  shows "holds w ownerID rec (upd_task idx (\<lambda>t. t\<lparr>tk_Status := ''done''\<rparr>)
      ((upd_chat cidx (\<lambda>c. c\<lparr>ct_Status := ''deleted''\<rparr>) st)\<lparr>cs_Decisions := modify k (\<lambda>d. d\<lparr>dc_Status := ''consumed''\<rparr>)
         (cs_Decisions (upd_chat cidx (\<lambda>c. c\<lparr>ct_Status := ''deleted''\<rparr>) st))\<rparr>))"
proof -
  have h: "holds w ownerID rec (upd_chat cidx (\<lambda>c. c\<lparr>ct_Status := ''deleted''\<rparr>) st)"
    by (rule holds_chat_status [OF assms]) (rule chat_status_values)
  have "''consumed'' \<in> set decision_statuses" by (simp add: decision_statuses_def)
  then show ?thesis
    by (intro holds_task holds_grows [OF h] wf_set_decision_status)
       (use h wf_task_done in \<open>simp_all add: holds_def grant_of_def\<close>)
qed

lemma safe_delete:
  assumes "cooperative E" "hub_ok w" "holds w ownerID rec st"
  shows "safe w (cloudCollaborationDeleteChat E w ownerID rec st req)"
proof -
  have fin: "safe w (run (unregisterCloudCollaborationTaskCallback E w ownerID rec st tid) (\<lambda>st w.
        run (agent_call E w ownerID (cb_MachineID rec) ''session.delete'' p)
          (\<lambda>_ w. saveCloudCollaboration w ownerID rec (upd_task idx (\<lambda>t. t\<lparr>tk_Status := ''done''\<rparr>)
            ((upd_chat cidx (\<lambda>c. c\<lparr>ct_Status := ''deleted''\<rparr>) st)\<lparr>cs_Decisions := modify k (\<lambda>d. d\<lparr>dc_Status := ''consumed''\<rparr>)
               (cs_Decisions (upd_chat cidx (\<lambda>c. c\<lparr>ct_Status := ''deleted''\<rparr>) st))\<rparr>)))))" for tid p idx cidx k
  proof (rule safe_run [OF safe_unregister [OF assms(1,2)]])
    fix st1 w1 assume r: "unregisterCloudCollaborationTaskCallback E w ownerID rec st tid = (Inr st1, w1)" and 1: "hub_ok w1" "evolves w w1"
    have h: "holds w1 ownerID rec st1" using unregister_holds [OF r] holds_evolves [OF assms(3) 1(2)] by blast
    show "safe w1 (run (agent_call E w1 ownerID (cb_MachineID rec) ''session.delete'' p)
          (\<lambda>_ w. saveCloudCollaboration w ownerID rec (upd_task idx (\<lambda>t. t\<lparr>tk_Status := ''done''\<rparr>)
            ((upd_chat cidx (\<lambda>c. c\<lparr>ct_Status := ''deleted''\<rparr>) st1)\<lparr>cs_Decisions := modify k (\<lambda>d. d\<lparr>dc_Status := ''consumed''\<rparr>)
               (cs_Decisions (upd_chat cidx (\<lambda>c. c\<lparr>ct_Status := ''deleted''\<rparr>) st1))\<rparr>))))"
      by (rule safe_run [OF safe_agent [OF assms(1) 1(1)]], rule safe_save(1), assumption, rule delete_holds, rule holds_evolves [OF h])
  qed
  show ?thesis
    unfolding cloudCollaborationDeleteChat_def Let_def using fin assms(2) by (auto split: option.split)
qed

lemma safe_lease:
  assumes "hub_ok w" "holds w ownerID rec st"
  shows "safe w (cloudCollaborationAcquireLease w ownerID rec st req)"
  unfolding cloudCollaborationAcquireLease_def using assms(1)
  by (auto intro!: safe_save(1) holds_grows [OF assms(2)] wf_set_lease) (use assms(2) in \<open>simp add: holds_def\<close>)

section \<open>Create and the one-call dispatch\<close>

lemma boundedInt_bounds:
  "1 \<le> boundedInt v 1 8 3 \<and> boundedInt v 1 8 3 \<le> 8" "1 \<le> boundedInt v 1 100 20 \<and> boundedInt v 1 100 20 \<le> 100"
  "5 \<le> boundedInt v 5 1440 30 \<and> boundedInt v 5 1440 30 \<le> 1440" "15 \<le> boundedInt v 15 1440 60 \<and> boundedInt v 15 1440 60 \<le> 1440"
  by (rule boundedInt_range; simp)+

lemma wf_new_collab:
  assumes "trim_space (rq_ControllerSessionID req) \<noteq> []" "trim_space (rq_DispatcherSessionID req) \<noteq> []"
    "cs_Title (new_collab_state req) \<noteq> []" "cs_WorkingDirectory (new_collab_state req) \<noteq> []" "cs_AllowedActions (new_collab_state req) \<noteq> []"
  shows "wf_state (new_collab_state req)"
proof -
  have "''active'' \<in> set collab_statuses" by (rule collab_status_values)
  then show ?thesis
    using assms boundedInt_bounds normalizedCloudActions_set
    by (simp add: new_collab_state_def wf_state_def wf_parts empty_lease_def)
qed

lemma safe_create_db:
  assumes "hub_ok w" "cb_State rec = Stored st" "wf_state st" "cb_Status rec = cs_Status st"
  shows "safe w (CreateCloudCollaboration w rec)"
proof -
  have ev: "evolves w (w\<lparr>hb_collabs := hb_collabs w @ [rec]\<rparr>)"
    unfolding evolves_def by (auto intro: row_evolves_refl)
  have "hub_ok (w\<lparr>hb_collabs := hb_collabs w @ [rec]\<rparr>)"
    if "\<not> list_ex (\<lambda>r. cb_CollaborationID r = cb_CollaborationID rec
              \<or> cb_OwnerID r = cb_OwnerID rec \<and> cb_IdempotencyKey r = cb_IdempotencyKey rec) (hb_collabs w)"
    using that assms by (auto simp: hub_ok_def row_ok_def list_ex_iff)
  then show ?thesis
    unfolding CreateCloudCollaboration_def Let_def using assms(1) ev by (auto simp: safe_pair split: option.split)
qed

lemma safe_create_row:
  assumes "hub_ok w" "trim_space (rq_ControllerSessionID req) \<noteq> []" "trim_space (rq_DispatcherSessionID req) \<noteq> []"
  shows "safe w (create_row E w ownerID req h)"
proof -
  have db: "safe w (CreateCloudCollaboration w \<lparr>cb_CollaborationID = i, cb_OwnerID = ownerID, cb_MachineID = rq_MachineID req,
             cb_IdempotencyKey = rq_IdempotencyKey req, cb_RequestHash = h, cb_Status = cs_Status (new_collab_state req),
             cb_State = Stored (new_collab_state req), cb_Revision = 1, cb_CreatedAt = c, cb_UpdatedAt = u\<rparr>)"
    if "cs_Title (new_collab_state req) \<noteq> []" "cs_WorkingDirectory (new_collab_state req) \<noteq> []" "cs_AllowedActions (new_collab_state req) \<noteq> []" for i c u
    by (rule safe_create_db [OF assms(1)]) (simp_all add: wf_new_collab [OF assms(2,3) that])
  show ?thesis
    unfolding create_row_def Let_def using assms(1) db by (auto intro!: safe_run)
qed

lemma safe_create:
  assumes "cooperative E" "hub_ok w"
  shows "safe w (createCloudCollaboration E w ownerID req)"
proof -
  have skip: "safe w1 (if b then validateCodexLocalCollaborationSession E w1 ownerID m s else (Inr (), w1))" if "hub_ok w1" for w1 b m s
    using safe_validate [OF assms(1) that] that by simp
  show ?thesis
    unfolding createCloudCollaboration_def Let_def
    using assms by (auto split: sum.split intro!: safe_run [OF safe_ready] safe_run [OF safe_validate] safe_run [OF skip] safe_create_row)
qed

lemma safe_simple_dispatch:
  assumes "cooperative E" "hub_ok w" "holds w ownerID rec st"
  shows "safe w (simple_dispatch_task E w ownerID req b rec st)"
  unfolding simple_dispatch_task_def by (rule safe_run [OF safe_dispatch [OF assms]]) simp

lemma safe_add_and_dispatch:
  assumes "cooperative E" "hub_ok w"
  shows "safe w (simple_add_and_dispatch E w ownerID req b)"
proof (cases "loadCloudCollaboration (dgs E) w ownerID (rq_CollaborationID req)")
  case (Inr p)
  obtain rec st where p: "p = (rec, st)" by (cases p)
  have h: "holds w ownerID rec st" using load_holds [OF Inr [unfolded p] assms(2)] .
  have fin: "safe w1 (case loadCloudCollaboration (dgs E) w1 ownerID (rq_CollaborationID req) of
      Inl e \<Rightarrow> (Inl e, w1) | Inr (rec, st) \<Rightarrow> simple_dispatch_task E w1 ownerID req b rec st)" if "hub_ok w1" for w1
    using that load_holds [OF _ that] by (auto split: sum.split intro!: safe_simple_dispatch [OF assms(1)])
  show ?thesis
  proof (cases "cloudCollaborationAddTask (dgs E) (hb_now w) st req ''dispatcher''")
    case (Inr st1)
    have "holds w ownerID rec st1"
      using holds_grows [OF h wf_AddTask [OF _ Inr] grows_AddTask [OF Inr]] h by (simp add: holds_def)
    then have "safe w (save_then w ownerID rec st1 (\<lambda>_ w.
          case loadCloudCollaboration (dgs E) w ownerID (rq_CollaborationID req) of
            Inl e \<Rightarrow> (Inl e, w) | Inr (rec, st) \<Rightarrow> simple_dispatch_task E w ownerID req b rec st))"
      by (rule safe_save_then [OF assms(2)]) (rule fin)
    then show ?thesis
      using safe_simple_dispatch [OF assms h] by (simp add: simple_add_and_dispatch_def p Inr \<open>loadCloudCollaboration (dgs E) w ownerID (rq_CollaborationID req) = Inr p\<close>)
  qed (use safe_simple_dispatch [OF assms h] assms(2) in \<open>simp add: simple_add_and_dispatch_def Inr p\<close>)
qed (use assms(2) in \<open>simp add: simple_add_and_dispatch_def\<close>)

lemma safe_simple_continue:
  assumes "cooperative E" "hub_ok w"
  shows "safe w (simple_continue E w ownerID req)"
proof -
  have go: "safe w (run (cloudCollaborationAcquireLease w ownerID rec st q) (\<lambda>_ w. simple_add_and_dispatch E w ownerID req b))"
    if "holds w ownerID rec st" for rec st q b
    by (rule safe_run [OF safe_lease [OF assms(2) that]], rule safe_add_and_dispatch [OF assms(1)])
  show ?thesis
    unfolding simple_continue_def Let_def
    using assms(2) go load_holds [OF _ assms(2)] by (auto split: sum.split)
qed

lemma safe_simple:
  assumes "cooperative E" "hub_ok w"
  shows "safe w (dispatchSimpleCloudTask E w ownerID req)"
  unfolding dispatchSimpleCloudTask_def Let_def
  using assms by (auto intro!: safe_run [OF safe_create] safe_simple_continue)

section \<open>The whole request\<close>

definition good_step :: "collab_state \<Rightarrow> hub_error + collab_state \<Rightarrow> bool" where
  "good_step st r = (\<forall>st'. r = Inr st' \<longrightarrow> wf_state st' \<and> state_grows st st')"

definition good_option :: "collab_state \<Rightarrow> (hub_error + collab_state) option \<Rightarrow> bool" where
  "good_option st p = (\<forall>r. p = Some r \<longrightarrow> good_step st r)"

lemma good_branch: "good_step st r \<Longrightarrow> good_option st p \<Longrightarrow> good_option st (if b then Some r else p)"
  by (simp add: good_option_def)

lemma good_need: "good_step st r \<Longrightarrow> good_step st (need b r)"
  by (simp add: good_step_def need_def)

lemma good_None: "good_option st None"
  by (simp add: good_option_def)

lemma good_steps:
  assumes "wf_state st"
  shows "good_step st (Inr (st\<lparr>cs_Lease := empty_lease\<rparr>))" "good_step st (cloudCollaborationAddGoal st req)"
    "good_step st (cloudCollaborationUpdateGoal st req)" "good_step st (cloudCollaborationAddTask dg now st req role)"
    "good_step st (cloudCollaborationUpdateTask now st req)" "good_step st (cloudCollaborationIngestEvent dg now st req)"
    "good_step st (cloudCollaborationRequestDecision now st req)" "good_step st (cloudCollaborationResolveDecision st req)"
    "good_step st (Inr (st\<lparr>cs_Status := ''paused''\<rparr>))" "good_step st (Inr (st\<lparr>cs_Status := ''active''\<rparr>))"
    "good_step st (compact_state st req)"
proof -
  have "ls_Generation empty_lease \<le> cs_Generation st" using wf_stateD(2) [OF assms] by (simp add: empty_lease_def wf_counters_def)
  then show "good_step st (Inr (st\<lparr>cs_Lease := empty_lease\<rparr>))" using wf_set_lease [OF assms] by (simp add: good_step_def)
  show "good_step st (compact_state st req)"
    by (auto simp: good_step_def compact_state_def intro!: wf_checkpoint [OF assms] state_grows_same split: if_splits)
qed (use wf_ops [OF assms] grows_ops wf_set_status [OF assms] collab_status_values in \<open>simp_all add: good_step_def\<close>)

lemma local_action_good: "wf_state st \<Longrightarrow> good_option st (local_action dg now st req role action)"
  unfolding local_action_def Let_def by (intro good_branch good_need good_steps good_None)

lemma local_action_ok:
  assumes "local_action dg now st req role action = Some (Inr st')" "wf_state st"
  shows "wf_state st' \<and> state_grows st st'"
  using local_action_good [OF assms(2), of dg now req role action] assms(1) by (simp add: good_option_def good_step_def)

lemma safe_ack:
  assumes "cooperative E" "hub_ok w" "holds w ownerID rec st"
  shows "safe w (ack_action E w ownerID rec st req)"
proof (cases "cloudCollaborationAckEvent st req")
  case (Inr st1)
  let ?st = "cloudCollaborationAdvanceAcknowledgedEvent st1 (rq_EventID req) (hb_now w)"
  have "wf_state st" using assms(3) by (simp add: holds_def)
  then have "holds w ownerID rec ?st"
    using holds_grows [OF assms(3) wf_Advance [OF wf_AckEvent [OF _ Inr]] state_grows_trans [OF grows_AckEvent [OF Inr] grows_Advance]] by blast
  then show ?thesis
    using safe_close [OF assms(1,2)] safe_save(1) [OF assms(2)] by (simp add: ack_action_def Inr Let_def)
qed (use assms(2) in \<open>simp add: ack_action_def\<close>)

lemma safe_rotate:
  assumes "cooperative E" "hub_ok w" "holds w ownerID rec st"
  shows "safe w (rotate_action E w ownerID rec st req)"
  unfolding rotate_action_def
proof (rule safe_run [OF safe_unregister [OF assms(1,2)]])
  fix st1 w1 assume r: "unregisterCloudCollaborationTaskCallback E w ownerID rec st (rq_TaskID req) = (Inr st1, w1)"
    and 1: "hub_ok w1" "evolves w w1"
  have h: "holds w1 ownerID rec st1" using unregister_holds [OF r] holds_evolves [OF assms(3) 1(2)] by blast
  show "safe w1 (case cloudCollaborationRotateChat st1 req of Inl e \<Rightarrow> (Inl e, w1) | Inr st \<Rightarrow> saveCloudCollaboration w1 ownerID rec st)"
    using 1(1) holds_grows [OF h wf_RotateChat grows_RotateChat] h
    by (auto split: sum.split intro!: safe_save(1) simp: holds_def)
qed

lemma safe_node_action:
  assumes "cooperative E" "hub_ok w" "holds w ownerID rec st"
  shows "safe w (node_action E w ownerID rec st req role action)"
proof -
  have d: "safe w (run (cloudCollaborationDispatchTask E w ownerID rec st req role) (\<lambda>m w. (Inr (f m), w)))" for f
    by (rule safe_run [OF safe_dispatch [OF assms]]) simp
  show ?thesis
    unfolding node_action_def Let_def
    by (simp add: assms(2) d safe_lease [OF assms(2,3)] safe_poll [OF assms] safe_continue [OF assms] safe_ack [OF assms]
        safe_rotate [OF assms] safe_delete [OF assms] safe_close [OF assms])
qed

lemma safe_perform:
  assumes "cooperative E" "hub_ok w" "holds w ownerID rec st"
  shows "safe w (perform_action E w ownerID rec st req role action)"
proof -
  have l: "holds w ownerID rec st1" if "local_action (dgs E) (hb_now w) st req role action = Some (Inr st1)" for st1
    using local_action_ok [OF that] holds_grows [OF assms(3)] assms(3) by (auto simp: holds_def)
  show ?thesis
    unfolding perform_action_def
    using safe_node_action [OF assms] safe_save(1) [OF assms(2)] l assms(2) by (auto split: option.split sum.split)
qed

lemma safe_CloudCollaboration:
  assumes "cooperative E" "hub_ok w"
  shows "safe w (CloudCollaboration E w ownerID req)"
proof -
  have p: "safe w (perform_action E w ownerID rec st r role action)"
    if "loadCloudCollaboration (dgs E) w ownerID i = Inr (rec, st)" for rec st r role action i
    by (rule safe_perform [OF assms load_holds [OF that assms(2)]])
  show ?thesis
    unfolding CloudCollaboration_def Let_def
    using assms(2) safe_simple [OF assms] safe_create [OF assms] p by (auto split: sum.split option.split)
qed

end
