(* ===== verification/Collab_Request.thy ===== *)
theory Collab_Request
  imports Collab_Guarantee
begin

text \<open>Properties of whole requests to \<open>CloudCollaboration\<close> and of the operations that call a Node.\<close>

section \<open>A concrete Hub and Node\<close>

definition demo_answer :: jobj where
  "demo_answer = [(''ready'', JBool True), (''chatgptCloudAvailable'', JBool True), (''prepared'', JBool True),
     (''sessionId'', JStr ''s9''), (''cursor'', JInt 5)]"

definition demo_env :: env where
  "demo_env = \<lparr>en_digests = demo_digests, en_node = (\<lambda>w c. (NodeResult (Some demo_answer), w)), en_random = (\<lambda>w p. p @ ''x''),
     en_timing = (\<lambda>w. (0, 0, 0)), en_callerDeadline = None\<rparr>"

definition demo_machine :: machine_row where
  "demo_machine = \<lparr>mr_ID = ''m1'', mr_OwnerID = ''o1'', mr_DisplayName = [], mr_AdminNote = [], mr_Status = ''active'', mr_OS = [],
     mr_Arch = [], mr_NodeVersion = [], mr_CapabilityDigest = [], mr_LastSeenAt = None, mr_LastConnectionGeneration = 0,
     mr_RevokedAt = None, mr_DeletedAt = None, mr_Revision = 1, mr_CreatedAt = 0, mr_UpdatedAt = 0\<rparr>"

definition demo_row :: "collab_state \<Rightarrow> collab_row" where
  "demo_row st = \<lparr>cb_CollaborationID = ''c1'', cb_OwnerID = ''o1'', cb_MachineID = ''m1'', cb_IdempotencyKey = ''key-key-key-1'',
     cb_RequestHash = ''h'', cb_Status = cs_Status st, cb_State = Stored st, cb_Revision = 7, cb_CreatedAt = 1799990000,
     cb_UpdatedAt = 1799990000\<rparr>"

definition demo_hub :: "collab_state \<Rightarrow> hub" where
  "demo_hub st = \<lparr>hb_machines = [demo_machine], hb_credentials = [], hb_tokens = [], hb_nonces = [], hb_caps = [], hb_collabs = [demo_row st],
     hb_notifs = [], hb_audit = [], hb_now = demo_now\<rparr>"

definition demo_req :: "string \<Rightarrow> collab_request" where
  "demo_req action = empty_request\<lparr>rq_Action := action, rq_CollaborationID := ''c1'', rq_ExpectedRevision := 7,
     rq_ActorSessionID := ''dsp'', rq_TaskID := ''t1''\<rparr>"

lemma demo_cooperative: "cooperative demo_env"
  by (simp add: cooperative_def demo_env_def)

lemma demo_hub_ok: "wf_state st \<Longrightarrow> hub_ok (demo_hub st)"
  by (simp add: hub_ok_def demo_hub_def demo_row_def row_ok_def)

section \<open>What a request may do\<close>

text \<open>Property C1: whatever its action and its outcome, a request leaves every stored collaboration
  well-formed, identifiers and idempotency keys unique, and lets each collaboration only evolve: a changed
  row has a higher revision, the same identity and configuration, every task with its original grant in
  place, every CHAT entry still there, and generations and the count of created CHATs that never fall;
  if the requests that run during its Node calls do so too.\<close>

theorem request_guarantee:
  assumes "cooperative E" "hub_ok w" "CloudCollaboration E w ownerID req = (r, w')"
  shows "hub_ok w' \<and> evolves w w'"
  using safe_CloudCollaboration [OF assms(1,2), of ownerID req] assms(3) by (simp add: safe_def)

theorem request_guarantee_witness:
  "\<exists>r w'. CloudCollaboration demo_env (demo_hub demo_running) ''o1'' (demo_req ''task.dispatch'') = (r, w') \<and> hub_ok w'
     \<and> evolves (demo_hub demo_running) w'"
proof -
  obtain r w' where e: "CloudCollaboration demo_env (demo_hub demo_running) ''o1'' (demo_req ''task.dispatch'') = (r, w')" by (metis surj_pair)
  show ?thesis using request_guarantee [OF demo_cooperative demo_hub_ok [OF demo_wf(2)] e] e by blast
qed

text \<open>What a request that changed anything, or called a Node, had to prove first.\<close>

definition entitled :: "env \<Rightarrow> hub \<Rightarrow> string \<Rightarrow> collab_request \<Rightarrow> bool" where
  "entitled E w ownerID req =
     (case loadCloudCollaboration (dgs E) w ownerID (rq_CollaborationID req) of
        Inl e \<Rightarrow> False
      | Inr (rec, st) \<Rightarrow>
      (case resolveCloudCollaborationSelfActor st req of
        Inl e \<Rightarrow> False
      | Inr req \<Rightarrow>
      (case authorizeCloudCollaborationActor st (rq_ActorSessionID req) (rq_ActorRole req) of
        Inl e \<Rightarrow> False
      | Inr role \<Rightarrow>
          cb_OwnerID rec = ownerID \<and> rq_ExpectedRevision req = cb_Revision rec \<and> cs_Status st \<noteq> ''completed''
          \<and> (role = ''dispatcher'' \<and> trim_space (rq_ActorSessionID req) = cs_DispatcherSessionID st
             \<or> role = ''controller'' \<and> trim_space (rq_ActorSessionID req) = cs_ControllerSessionID st
             \<or> role = ''chat'' \<and> (\<exists>c \<in> set (cs_Chats st). ct_SessionID c = trim_space (rq_ActorSessionID req)
                  \<and> ct_Status c \<noteq> ''archived'' \<and> ct_Status c \<noteq> ''deleted''))
          \<and> (role = ''controller'' \<or> trim_space (rq_Action req) \<in> {''lease.acquire'', ''lease.release''}
             \<or> ls_SessionID (cs_Lease st) = cs_DispatcherSessionID st \<and> ls_Generation (cs_Lease st) = cs_Generation st
               \<and> (\<exists>t. parse_stamp (ls_ExpiresAt (cs_Lease st)) = Some t \<and> hb_now w < t)
               \<and> (role = ''dispatcher'' \<longrightarrow> ls_SessionID (cs_Lease st) = trim_space (rq_ActorSessionID req))))))"

lemma authorize_session: "authorizeCloudCollaborationActor st sid claimed = Inr role \<Longrightarrow>
    role = ''dispatcher'' \<and> trim_space sid = cs_DispatcherSessionID st \<or> role = ''controller'' \<and> trim_space sid = cs_ControllerSessionID st
    \<or> role = ''chat'' \<and> (\<exists>c \<in> set (cs_Chats st). ct_SessionID c = trim_space sid \<and> ct_Status c \<noteq> ''archived'' \<and> ct_Status c \<noteq> ''deleted'')"
  by (auto simp: authorizeCloudCollaborationActor_def Let_def list_ex_iff split: if_splits)

lemma authorize_role: "authorizeCloudCollaborationActor st sid claimed = Inr role \<Longrightarrow> role \<in> {''dispatcher'', ''controller'', ''chat''}"
  by (auto simp: authorizeCloudCollaborationActor_def Let_def split: if_splits)

lemma lease_Inr: "requireCloudCollaborationLease st actor role now = Inr () \<Longrightarrow>
    ls_SessionID (cs_Lease st) = cs_DispatcherSessionID st \<and> ls_Generation (cs_Lease st) = cs_Generation st
    \<and> (\<exists>t. parse_stamp (ls_ExpiresAt (cs_Lease st)) = Some t \<and> now < t)
    \<and> (role = ''dispatcher'' \<longrightarrow> ls_SessionID (cs_Lease st) = trim_space actor)"
  by (auto simp: requireCloudCollaborationLease_def split: option.splits if_splits)

lemma needs_lease: "role \<in> {''dispatcher'', ''chat''} \<Longrightarrow> action \<notin> {''get'', ''tick'', ''lease.acquire'', ''lease.release''}
    \<Longrightarrow> cloudCollaborationActionNeedsLease action role"
  by (simp add: cloudCollaborationActionNeedsLease_def)

lemma self_owner: "resolveCloudCollaborationSelfActor st req = Inr req' \<Longrightarrow>
    rq_ExpectedRevision req' = rq_ExpectedRevision req \<and> rq_Action req' = rq_Action req"
  by (auto simp: resolveCloudCollaborationSelfActor_def Let_def split: if_splits option.splits)

text \<open>Property C2: a request whose action is neither create nor dispatch, and that changes the Hub in any way, addresses an
  existing collaboration of its owner, carries its current revision, finds it not completed, and comes from its dispatcher's session,
  its controller's or one of its CHATs; unless it is the controller's, or acquires or releases the lease, the dispatcher holds an
  unexpired lease of the current generation, and the request is the holder's own when the dispatcher acts. (create and dispatch name a
  collaboration by an idempotency key and carry no revision; they are not covered.)\<close>

theorem effects_need_entitlement:
  assumes "trim_space (rq_Action req) \<notin> {''dispatch'', ''create''}" "snd (CloudCollaboration E w ownerID req) \<noteq> w" "hub_ok w"
  shows "entitled E w ownerID req"
proof -
  let ?a = "trim_space (rq_Action req)"
  note d = assms(2) [unfolded CloudCollaboration_def Let_def]
  obtain rec st where load: "loadCloudCollaboration (dgs E) w ownerID (rq_CollaborationID req) = Inr (rec, st)"
    using d assms(1) by (auto split: if_splits sum.splits)
  obtain req' where self: "resolveCloudCollaborationSelfActor st req = Inr req'"
    using d assms(1) load by (auto split: if_splits sum.splits)
  obtain role where role: "authorizeCloudCollaborationActor st (rq_ActorSessionID req') (rq_ActorRole req') = Inr role"
    using d assms(1) load self by (auto split: if_splits sum.splits)
  have nr: "?a \<noteq> ''get''" "?a \<noteq> ''tick''" and adm: "admission_error rec st req' role ?a (hb_now w) = None"
    using d assms(1) load self role by (auto split: if_splits option.splits)
  have "rq_ExpectedRevision req' = cb_Revision rec" "cs_Status st \<noteq> ''completed''"
    using adm by (auto simp: admission_error_def split: if_splits)
  moreover have "cb_OwnerID rec = ownerID" using load_Inr [OF load assms(3)] by simp
  moreover have "requireCloudCollaborationLease st (rq_ActorSessionID req') role (hb_now w) = Inr ()"
    if "cloudCollaborationActionNeedsLease ?a role"
    using adm that by (auto simp: admission_error_def split: if_splits sum.splits)
  moreover note authorize_session [OF role]
  ultimately show ?thesis
    using load self role nr needs_lease [of role ?a] authorize_role [OF role] lease_Inr [of st "rq_ActorSessionID req'" role "hb_now w"]
      self_owner [OF self]
    by (simp add: entitled_def) blast
qed

definition demo_block :: collab_request where
  "demo_block = (demo_req ''task.update'')\<lparr>rq_TaskStatus := ''blocked''\<rparr>"

theorem effects_need_entitlement_witness: "entitled demo_env (demo_hub demo_running) ''o1'' demo_block"
proof (rule effects_need_entitlement)
  have "map cb_Revision (hb_collabs (snd (CloudCollaboration demo_env (demo_hub demo_running) ''o1'' demo_block))) = [8]"
    by code_simp
  then show "snd (CloudCollaboration demo_env (demo_hub demo_running) ''o1'' demo_block) \<noteq> demo_hub demo_running"
    by (auto simp: demo_hub_def demo_row_def)
qed (code_simp, rule demo_hub_ok [OF demo_wf(2)])

section \<open>Concurrent writers and the lease\<close>

lemma save_stale:
  assumes "hub_ok w" "r \<in> set (hb_collabs w)" "cb_CollaborationID r = cb_CollaborationID rec" "cb_Revision rec < cb_Revision r"
  shows "saveCloudCollaboration w ownerID rec st = (Inl ErrConflict, w)"
proof -
  have "\<not> (cb_CollaborationID x = cb_CollaborationID rec \<and> cb_OwnerID x = ownerID \<and> cb_Revision x = cb_Revision rec)"
    if "x \<in> set (hb_collabs w)" for x
    using assms hub_ok_ids [OF assms(1)] that by (auto dest: distinct_key_unique)
  then have "sql_affected (\<lambda>x. cb_CollaborationID x = cb_CollaborationID rec \<and> cb_OwnerID x = ownerID \<and> cb_Revision x = cb_Revision rec) (hb_collabs w) = 0"
    by simp
  then have "sql_cas (\<lambda>x. cb_CollaborationID x = cb_CollaborationID rec \<and> cb_OwnerID x = ownerID \<and> cb_Revision x = cb_Revision rec) f (hb_collabs w)
      = Inl ErrConflict" for f
    unfolding sql_cas_def by presburger
  then show ?thesis by (simp add: saveCloudCollaboration_def UpdateCloudCollaboration_def)
qed

text \<open>Property C4: of the writers that read one revision only the first is saved: once a save has
  succeeded, and however the Hub evolves after it, a save from the same revision is refused as a conflict
  and changes nothing.\<close>

theorem save_single_winner:
  assumes "hub_ok w" "wf_state st1" "tracks w rec st1" "cb_OwnerID rec = ownerID"
    and "saveCloudCollaboration w ownerID rec st1 = (Inr m, w1)" "evolves w1 w2" "hub_ok w2"
  shows "saveCloudCollaboration w2 ownerID rec st2 = (Inl ErrConflict, w2)"
proof -
  have "holds w ownerID rec st1" using assms(2-4) by (simp add: holds_def)
  then have "holds w1 ownerID (saved_rec rec m) st1" using safe_save(2) assms(1,5) by blast
  then have "tracks w2 (saved_rec rec m) st1" using assms(6) by (auto simp: holds_def intro: tracks_evolves)
  then obtain r where r: "r \<in> set (hb_collabs w2)" "cb_CollaborationID r = cb_CollaborationID rec"
      "numberField m ''revision'' \<le> cb_Revision r"
    by (auto simp: tracks_def saved_rec_def)
  have "numberField m ''revision'' = cb_Revision rec + 1"
  proof -
    obtain q v where up: "UpdateCloudCollaboration w ownerID (cb_CollaborationID rec) (cs_Status st1) st1 (cb_Revision rec) (hb_now w) = (q, v)"
      by (metis surj_pair)
    show ?thesis using Update_evolves [OF assms(1-4) up] assms(5) by (cases q) (auto simp: saveCloudCollaboration_def up)
  qed
  then show ?thesis using save_stale [OF assms(7) r(1,2)] r(3) by simp
qed

lemma demo_running_saved:
  "tracks (demo_hub demo_running) (demo_row demo_running) demo_running" "cb_OwnerID (demo_row demo_running) = ''o1''"
  by (rule tracks_row) (simp_all add: demo_hub_def demo_row_def)

lemma demo_save_ok: "is_ok (fst (saveCloudCollaboration (demo_hub demo_running) ''o1'' (demo_row demo_running) demo_running))"
  by code_simp

theorem save_single_winner_witness:
  "\<exists>m w1. saveCloudCollaboration (demo_hub demo_running) ''o1'' (demo_row demo_running) demo_running = (Inr m, w1)
     \<and> saveCloudCollaboration w1 ''o1'' (demo_row demo_running) demo_state = (Inl ErrConflict, w1)"
proof -
  obtain m w1 where s: "saveCloudCollaboration (demo_hub demo_running) ''o1'' (demo_row demo_running) demo_running = (Inr m, w1)"
    using demo_save_ok by (metis is_okE prod.collapse)
  have "holds (demo_hub demo_running) ''o1'' (demo_row demo_running) demo_running"
    using demo_running_saved demo_wf(2) by (simp add: holds_def)
  then have "hub_ok w1" using safe_save(1) [OF demo_hub_ok [OF demo_wf(2)]] s by (metis safe_pair)
  then show ?thesis
    using save_single_winner [OF demo_hub_ok [OF demo_wf(2)] demo_wf(2) demo_running_saved s evolves_refl] s by blast
qed

lemma lease_ttl_bounds: "5 * minute \<le> lease_ttl st \<and> lease_ttl st \<le> 30 * minute"
  by (simp add: lease_ttl_def Let_def minute_def second_def)

text \<open>Property C5: the lease excludes. While a lease that has not expired is held by another session, or by the same session for
  another generation, it cannot be acquired and nothing changes. An acquisition that succeeds stores a lease of the acquiring session for
  the current generation that runs for at least five minutes less one second (the rounding of the stored time) and at most thirty; and
  whoever loads the collaboration then, at any time before the lease ends, and acquires for another session is refused, with nothing
  changed.\<close>

theorem lease_exclusion:
  assumes "hub_ok w" "holds w ownerID rec st"
    and "cloudCollaborationAcquireLease w ownerID rec st req = (r, w')"
  shows "(\<forall>t. parse_stamp (ls_ExpiresAt (cs_Lease st)) = Some t \<and> hb_now w < t
        \<and> (ls_SessionID (cs_Lease st) \<noteq> rq_ActorSessionID req \<or> ls_Generation (cs_Lease st) \<noteq> cs_Generation st) \<longrightarrow> r = Inl ErrConflict \<and> w' = w)
    \<and> (is_ok r \<longrightarrow> (\<exists>u. hb_now w + 5 * minute - second < from_unix u \<and> from_unix u \<le> hb_now w + 30 * minute
         \<and> (\<exists>row \<in> set (hb_collabs w'). cb_CollaborationID row = cb_CollaborationID rec \<and> (\<exists>s. cb_State row = Stored s
             \<and> cs_Lease s = \<lparr>ls_SessionID = rq_ActorSessionID req, ls_Generation = cs_Generation s, ls_ExpiresAt = Stamp u\<rparr>))
         \<and> (\<forall>dg i now rec2 st2 req2. loadCloudCollaboration dg (w'\<lparr>hb_now := now\<rparr>) ownerID i = Inr (rec2, st2)
             \<and> cb_CollaborationID rec2 = cb_CollaborationID rec \<and> now < from_unix u \<and> rq_ActorSessionID req2 \<noteq> rq_ActorSessionID req
             \<longrightarrow> cloudCollaborationAcquireLease (w'\<lparr>hb_now := now\<rparr>) ownerID rec2 st2 req2 = (Inl ErrConflict, w'\<lparr>hb_now := now\<rparr>))))"
proof (rule conjI; (intro allI impI)?)
  fix t
  assume "parse_stamp (ls_ExpiresAt (cs_Lease st)) = Some t \<and> hb_now w < t
    \<and> (ls_SessionID (cs_Lease st) \<noteq> rq_ActorSessionID req \<or> ls_Generation (cs_Lease st) \<noteq> cs_Generation st)"
  then have "lease_taken st (rq_ActorSessionID req) (hb_now w)" by (auto simp: lease_taken_def parse_or_zero_def)
  then show "r = Inl ErrConflict \<and> w' = w" using assms(3) by (simp add: cloudCollaborationAcquireLease_def)
next
  define u where "u = unix (hb_now w + lease_ttl st)"
  define s where "s = st\<lparr>cs_Lease := \<lparr>ls_SessionID = rq_ActorSessionID req, ls_Generation = cs_Generation st, ls_ExpiresAt = Stamp u\<rparr>\<rparr>"
  assume ok: "is_ok r"
  have save: "saveCloudCollaboration w ownerID rec s = (r, w')"
    using assms(3) ok by (auto simp: cloudCollaborationAcquireLease_def s_def u_def format_stamp_def split: if_splits)
  have h: "holds w ownerID rec s" unfolding s_def
    by (rule holds_grows [OF assms(2)]) (use assms(2) in \<open>auto simp: holds_def intro!: wf_set_lease\<close>)
  then have hw: "wf_state s" "tracks w rec s" "cb_OwnerID rec = ownerID" by (simp_all add: holds_def)
  obtain q v where up: "UpdateCloudCollaboration w ownerID (cb_CollaborationID rec) (cs_Status s) s (cb_Revision rec) (hb_now w) = (q, v)"
    by (metis surj_pair)
  have stored: "hub_ok w'" "\<exists>row \<in> set (hb_collabs w'). cb_CollaborationID row = cb_CollaborationID rec \<and> cb_State row = Stored s"
  proof -
    note res = Update_evolves [OF assms(1) hw up]
    have "\<exists>x. q = Inr x \<and> v = w'" using save ok by (cases q) (auto simp: saveCloudCollaboration_def up)
    then obtain x where x: "q = Inr x" "v = w'" by blast
    show "hub_ok w'" using res x(2) by blast
    show "\<exists>row \<in> set (hb_collabs w'). cb_CollaborationID row = cb_CollaborationID rec \<and> cb_State row = Stored s"
      using res x by blast
  qed
  have time: "hb_now w + 5 * minute - second < from_unix u" "from_unix u \<le> hb_now w + 30 * minute"
    using unix_bounds [of "hb_now w + lease_ttl st"] lease_ttl_bounds [of st] by (simp_all add: u_def from_unix_def algebra_simps)
  have refused: "cloudCollaborationAcquireLease (w'\<lparr>hb_now := now\<rparr>) ownerID rec2 st2 req2 = (Inl ErrConflict, w'\<lparr>hb_now := now\<rparr>)"
    if load: "loadCloudCollaboration dg (w'\<lparr>hb_now := now\<rparr>) ownerID i = Inr (rec2, st2)" and id: "cb_CollaborationID rec2 = cb_CollaborationID rec"
      and now: "now < from_unix u" and other: "rq_ActorSessionID req2 \<noteq> rq_ActorSessionID req" for dg i now rec2 st2 req2
  proof -
    have ok': "hub_ok (w'\<lparr>hb_now := now\<rparr>)" using stored(1) by (simp add: hub_ok_def)
    obtain row where row: "row \<in> set (hb_collabs w')" "cb_CollaborationID row = cb_CollaborationID rec" "cb_State row = Stored s" using stored(2) by blast
    have "rec2 \<in> set (hb_collabs w')" using load_Inr(1) [OF load ok'] by simp
    then have "rec2 = row" using row(1,2) id hub_ok_ids [OF stored(1)] by (auto dest: distinct_key_unique)
    then have "st2 = s" using load_Inr(4) [OF load ok'] row(3) by simp
    then have "lease_taken st2 (rq_ActorSessionID req2) now" using now other by (auto simp: lease_taken_def s_def parse_or_zero_def)
    then show ?thesis by (simp add: cloudCollaborationAcquireLease_def)
  qed
  have "cs_Lease s = \<lparr>ls_SessionID = rq_ActorSessionID req, ls_Generation = cs_Generation s, ls_ExpiresAt = Stamp u\<rparr>" by (simp add: s_def)
  then show "\<exists>u. hb_now w + 5 * minute - second < from_unix u \<and> from_unix u \<le> hb_now w + 30 * minute
      \<and> (\<exists>row \<in> set (hb_collabs w'). cb_CollaborationID row = cb_CollaborationID rec \<and> (\<exists>s. cb_State row = Stored s
          \<and> cs_Lease s = \<lparr>ls_SessionID = rq_ActorSessionID req, ls_Generation = cs_Generation s, ls_ExpiresAt = Stamp u\<rparr>))
      \<and> (\<forall>dg i now rec2 st2 req2. loadCloudCollaboration dg (w'\<lparr>hb_now := now\<rparr>) ownerID i = Inr (rec2, st2)
          \<and> cb_CollaborationID rec2 = cb_CollaborationID rec \<and> now < from_unix u \<and> rq_ActorSessionID req2 \<noteq> rq_ActorSessionID req
          \<longrightarrow> cloudCollaborationAcquireLease (w'\<lparr>hb_now := now\<rparr>) ownerID rec2 st2 req2 = (Inl ErrConflict, w'\<lparr>hb_now := now\<rparr>))"
    using time stored(2) refused by blast
qed

theorem lease_exclusion_witness:
  "\<exists>w'. cloudCollaborationAcquireLease (demo_hub demo_running) ''o1'' (demo_row demo_running) demo_running (demo_block\<lparr>rq_ActorSessionID := ''other''\<rparr>)
     = (Inl ErrConflict, w') \<and> w' = demo_hub demo_running"
proof -
  let ?q = "demo_block\<lparr>rq_ActorSessionID := ''other''\<rparr>"
  obtain r w' where e: "cloudCollaborationAcquireLease (demo_hub demo_running) ''o1'' (demo_row demo_running) demo_running ?q = (r, w')"
    by (metis surj_pair)
  obtain u where "parse_stamp (ls_ExpiresAt (cs_Lease demo_running)) = Some u" "hb_now (demo_hub demo_running) < u"
    "ls_SessionID (cs_Lease demo_running) \<noteq> rq_ActorSessionID ?q"
  proof -
    have "case parse_stamp (ls_ExpiresAt (cs_Lease demo_running)) of None \<Rightarrow> False | Some u \<Rightarrow> hb_now (demo_hub demo_running) < u
      \<and> ls_SessionID (cs_Lease demo_running) \<noteq> rq_ActorSessionID ?q" by code_simp
    then show ?thesis using that by (auto split: option.splits)
  qed
  moreover have "holds (demo_hub demo_running) ''o1'' (demo_row demo_running) demo_running"
    using demo_running_saved demo_wf(2) by (simp add: holds_def)
  ultimately show ?thesis using lease_exclusion [OF demo_hub_ok [OF demo_wf(2)] _ e] e by blast
qed

end
