(* ===== verification/Collab_Effects.thy ===== *)
theory Collab_Effects
  imports Collab_Request
begin

text \<open>
  Properties of the operations that call a Node: what is on record before the call that cannot be
  taken back (\<open>session.create\<close>, \<open>session.callback.continue\<close>), what is on record after a created session,
  and when a collaboration is completed. "The call is sent only if" is stated by replacing the Node:
  two Nodes that differ only where the condition fails are not told apart.
\<close>

section \<open>Nodes that agree\<close>

definition agree_when :: "(hub \<Rightarrow> capability_call \<Rightarrow> bool) \<Rightarrow> env \<Rightarrow> (hub \<Rightarrow> capability_call \<Rightarrow> node_reply \<times> hub) \<Rightarrow> bool" where
  "agree_when P E n = (\<forall>w c. P w c \<longrightarrow> n w c = en_node E w c)"

text \<open>Congruences that let the simplifier work inside the branches.\<close>

lemmas branches = sum.case_cong option.case_cong prod.case_cong node_reply.case_cong if_cong

abbreviation other_node :: "env \<Rightarrow> (hub \<Rightarrow> capability_call \<Rightarrow> node_reply \<times> hub) \<Rightarrow> env" where
  "other_node E n \<equiv> E\<lparr>en_node := n\<rparr>"

lemma call_agree:
  assumes "agree_when P E n" "\<And>c. cc_Action c = action \<Longrightarrow> cc_Params c = params \<Longrightarrow> P w c"
  shows "agent_call (other_node E n) w ownerID machineID action params = agent_call E w ownerID machineID action params"
proof -
  have node: "n w c = en_node E w c" if "cc_Action c = action" "cc_Params c = params" for c
    using assms that by (simp add: agree_when_def)
  have timing: "call_timing (other_node E n) = call_timing E"
    by (simp add: call_timing_def fun_eq_iff)
  show ?thesis by (simp add: agent_call_def CallCapability_def Let_def node timing cong: branches)
qed

definition sent_only :: "string \<Rightarrow> (hub \<Rightarrow> capability_call \<Rightarrow> bool) \<Rightarrow> hub \<Rightarrow> capability_call \<Rightarrow> bool" where
  "sent_only action R w c = (cc_Action c = action \<longrightarrow> R w c)"

lemma call_other:
  "agree_when (sent_only action' R) E n \<Longrightarrow> action \<noteq> action' \<Longrightarrow>
     agent_call (other_node E n) w ownerID machineID action params = agent_call E w ownerID machineID action params"
  by (erule call_agree) (simp add: sent_only_def)

lemma dgs_other [simp]: "dgs (other_node E n) = dgs E"
  by (simp add: dgs_def)

section \<open>Creating a CHAT\<close>

text \<open>The row of the collaboration holds a task with the key of the call, already marked as being created.\<close>

definition create_reserved :: "string \<Rightarrow> hub \<Rightarrow> capability_call \<Rightarrow> bool" where
  "create_reserved collaborationID w c =
     list_ex (\<lambda>r. cb_CollaborationID r = collaborationID \<and> (case cb_State r of Unreadable \<Rightarrow> False | Stored s \<Rightarrow>
       list_ex (\<lambda>t. tk_IdempotencyKey t = jstr (jget (cc_Params c) ''idempotencyKey'')
         \<and> (tk_Status t = ''creating'' \<or> tk_Status t = ''create_in_doubt'')) (cs_Tasks s))) (hb_collabs w)"

lemma register_other:
  assumes "agree_when (sent_only ''session.create'' R) E n"
  shows "registerCloudCollaborationCallback (other_node E n) w ownerID rec st t b = registerCloudCollaborationCallback E w ownerID rec st t b"
  by (simp add: registerCloudCollaborationCallback_def call_other [OF assms] Let_def cong: branches)

lemma activate_other:
  assumes "agree_when (sent_only ''session.create'' R) E n"
  shows "activateCloudCollaborationCallback (other_node E n) w ownerID rec st t b = activateCloudCollaborationCallback E w ownerID rec st t b"
  by (simp add: activateCloudCollaborationCallback_def activateCloudCollaborationCallbackRoute_def armCloudCollaborationCallback_def
      enqueuePendingCloudCompletion_def enqueueCloudCompletionOnNode_def call_other [OF assms] register_other [OF assms] cong: branches)

lemma unregister_other:
  assumes "agree_when (sent_only ''session.create'' R) E n"
  shows "unregisterCloudCollaborationTaskCallback (other_node E n) w ownerID rec st tid = unregisterCloudCollaborationTaskCallback E w ownerID rec st tid"
  by (simp add: unregisterCloudCollaborationTaskCallback_def unregister_route_def call_other [OF assms] cong: branches)

lemma release_loop_other:
  assumes "agree_when (sent_only ''session.create'' R) E n"
  shows "release_loop (other_node E n) ownerID rec st t sid cbs w = release_loop E ownerID rec st t sid cbs w"
proof (induction cbs arbitrary: w)
  case (Cons a cbs)
  then have "release_loop (other_node E n) ownerID rec st t sid cbs = release_loop E ownerID rec st t sid cbs" by (simp add: fun_eq_iff)
  then show ?case by (simp add: call_other [OF assms] Let_def cong: branches)
qed simp

lemma deliver_other:
  assumes "agree_when (sent_only ''session.create'' R) E n"
  shows "deliverCloudCollaborationExistingTask (other_node E n) w ownerID rec st tid = deliverCloudCollaborationExistingTask E w ownerID rec st tid"
proof -
  have "deliver_send (other_node E n) w ownerID rec st i j = deliver_send E w ownerID rec st i j" for w rec st i j
    by (simp add: deliver_send_def delivery_refused_def armCloudCollaborationCallback_def call_other [OF assms] unregister_other [OF assms] Let_def cong: branches)
  then show ?thesis by (simp add: deliverCloudCollaborationExistingTask_def register_other [OF assms] cong: branches)
qed

lemma ready_other:
  assumes "agree_when (sent_only ''session.create'' R) E n"
  shows "ensureCodexCloudCollaborationReady (other_node E n) w ownerID m = ensureCodexCloudCollaborationReady E w ownerID m"
  by (simp add: ensureCodexCloudCollaborationReady_def call_other [OF assms] cong: branches)

lemma existing_other:
  assumes "agree_when (sent_only ''session.create'' R) E n"
  shows "cloudCollaborationDispatchExistingTask (other_node E n) w ownerID rec st req target = cloudCollaborationDispatchExistingTask E w ownerID rec st req target"
  by (simp add: cloudCollaborationDispatchExistingTask_def releaseCompletedCloudCallbackForReuse_def call_other [OF assms]
      ready_other [OF assms] release_loop_other [OF assms] deliver_other [OF assms] Let_def cong: branches)

lemma persist_other: "persist_loop k (other_node E n) ownerID rec st t sid w = persist_loop k E ownerID rec st t sid w"
  by (induction k arbitrary: rec st w) (simp_all add: Let_def cong: branches)

lemma save_stored:
  assumes "hub_ok w" "holds w ownerID rec st" "saveCloudCollaboration w ownerID rec st = (Inr m, w')"
  shows "\<exists>r \<in> set (hb_collabs w'). cb_CollaborationID r = cb_CollaborationID rec \<and> cb_OwnerID r = ownerID \<and> cb_State r = Stored st"
proof -
  obtain q v where up: "UpdateCloudCollaboration w ownerID (cb_CollaborationID rec) (cs_Status st) st (cb_Revision rec) (hb_now w) = (q, v)"
    by (metis surj_pair)
  have h: "wf_state st" "tracks w rec st" "cb_OwnerID rec = ownerID" using assms(2) by (simp_all add: holds_def)
  show ?thesis using Update_evolves [OF assms(1) h up] assms(3) by (cases q) (auto simp: saveCloudCollaboration_def up)
qed

lemma run_cong: "(\<And>x w. m = (Inr x, w) \<Longrightarrow> k x w = k' x w) \<Longrightarrow> run m k = run m k'"
  by (cases m; cases "fst m") (auto simp: run_def)

lemma dispatch_new_other:
  assumes P: "agree_when (sent_only ''session.create'' (create_reserved (cb_CollaborationID rec))) E n"
    and coop: "cooperative E" and ok: "hub_ok w" and h: "holds w ownerID rec st" and i: "idx < length (cs_Tasks st)"
    and s: "tk_Status (cs_Tasks st ! idx) \<in> {''queued'', ''create_in_doubt''}"
  shows "dispatch_new (other_node E n) w ownerID rec st req idx = dispatch_new E w ownerID rec st req idx"
proof -
  have persist: "persistCloudCollaborationCreatedChat (other_node E n) = persistCloudCollaborationCreatedChat E"
    "activate_created (other_node E n) = activate_created E"
    by (simp_all add: persistCloudCollaborationCreatedChat_def persist_other activate_created_def activate_other [OF P] fun_eq_iff cong: branches)
  have call: "agent_call (other_node E n) w2 ownerID mid ''session.create'' (create_params st1 prompt (cs_Tasks st1 ! idx))
      = agent_call E w2 ownerID mid ''session.create'' (create_params st1 prompt (cs_Tasks st1 ! idx))"
    if "ensureCodexCloudCollaborationReady E w ownerID (cb_MachineID rec) = (Inr x, w1)"
      "saveCloudCollaboration w1 ownerID rec st1 = (Inr m, w2)" "st1 = start_creating idx (hb_now w1) st" for x w1 m w2 st1 mid prompt
  proof -
    have w1: "hub_ok w1" "evolves w w1" using safe_ready [OF coop ok] that(1) by (metis safe_pair)+
    have "holds w1 ownerID rec st1" unfolding that(3) by (rule start_creating_holds(1) [OF holds_evolves [OF h w1(2)] s i])
    from save_stored [OF w1(1) this that(2)] obtain r where r: "r \<in> set (hb_collabs w2)"
        "cb_CollaborationID r = cb_CollaborationID rec" "cb_State r = Stored st1"
      by blast
    have t: "cs_Tasks st1 ! idx \<in> set (cs_Tasks st1)" "tk_Status (cs_Tasks st1 ! idx) \<in> {''creating'', ''create_in_doubt''}"
      using i s by (auto simp: that(3) start_creating_def upd_task_def)
    have "create_reserved (cb_CollaborationID rec) w2 c" if "cc_Params c = create_params st1 prompt (cs_Tasks st1 ! idx)" for c
    proof -
      have key: "jstr (jget (cc_Params c) ''idempotencyKey'') = tk_IdempotencyKey (cs_Tasks st1 ! idx)"
        using that by (simp add: create_params_def codex_cloud_def codex_def jget_def jstr_def)
      have "\<exists>t \<in> set (cs_Tasks st1). tk_IdempotencyKey t = jstr (jget (cc_Params c) ''idempotencyKey'')
          \<and> (tk_Status t = ''creating'' \<or> tk_Status t = ''create_in_doubt'')"
        using t key by (intro bexI [OF _ t(1)]) simp
      then show ?thesis unfolding create_reserved_def list_ex_iff by (intro bexI [OF _ r(1)]) (simp add: r(2,3) list_ex_iff)
    qed
    then show ?thesis by (intro call_agree [OF P]) (simp add: sent_only_def)
  qed
  show ?thesis
    unfolding dispatch_new_def Let_def ready_other [OF P] save_then_def persist
    by (intro run_cong) (simp only: call)
qed

text \<open>Property C3: dispatching a task asks a Node to create a CHAT only when the stored row of the collaboration
  already holds the task with the request's idempotency key as being created: a Node that differs from
  another only in what it does with other \<open>session.create\<close> calls makes no difference.\<close>

theorem create_after_reservation:
  assumes "agree_when (sent_only ''session.create'' (create_reserved (cb_CollaborationID rec))) E n"
    and "cooperative E" "hub_ok w" "holds w ownerID rec st"
  shows "cloudCollaborationDispatchTask (other_node E n) w ownerID rec st req role = cloudCollaborationDispatchTask E w ownerID rec st req role"
proof (cases "taskIndex st (rq_TaskID req)")
  case (Some idx)
  have new: "dispatch_new (other_node E n) w ownerID rec st req idx = dispatch_new E w ownerID rec st req idx"
    if "tk_Status (cs_Tasks st ! idx) \<in> {''queued'', ''create_in_doubt''}"
    using dispatch_new_other [OF assms _ that] taskIndex_Some [OF Some] by blast
  have "redispatch (other_node E n) w ownerID rec st t target = redispatch E w ownerID rec st t target" for t target
    by (simp add: redispatch_def deliver_other [OF assms(1)] activate_other [OF assms(1)] cong: branches)
  then show ?thesis
    using new by (simp add: cloudCollaborationDispatchTask_def Some Let_def existing_other [OF assms(1)] cong: branches)
qed (simp add: cloudCollaborationDispatchTask_def)

definition demo_refusing :: "hub \<Rightarrow> capability_call \<Rightarrow> node_reply \<times> hub" where
  "demo_refusing w c = (if cc_Action c = ''session.create'' \<and> \<not> create_reserved ''c1'' w c then (Transport ErrMachineOffline, w) else en_node demo_env w c)"

definition demo_queued :: collab_state where
  "demo_queued = demo_state\<lparr>cs_Tasks := [demo_task\<lparr>tk_Status := ''queued'', tk_ChatSessionID := [], tk_SessionMode := [], tk_DeliveryStatus := ''pending''\<rparr>]\<rparr>"

lemma demo_queued_ok: "wf_state demo_queued" "tracks (demo_hub demo_queued) (demo_row demo_queued) demo_queued"
proof -
  show "wf_state demo_queued" by code_simp
  show "tracks (demo_hub demo_queued) (demo_row demo_queued) demo_queued"
    by (rule tracks_row) (simp_all add: demo_hub_def demo_row_def)
qed

lemma demo_queued_holds: "holds (demo_hub demo_queued) ''o1'' (demo_row demo_queued) demo_queued"
  using demo_queued_ok by (simp add: holds_def) (simp add: demo_row_def)

theorem create_after_reservation_witness:
  "fst (cloudCollaborationDispatchTask (other_node demo_env demo_refusing) (demo_hub demo_queued) ''o1'' (demo_row demo_queued) demo_queued
      (demo_req ''task.dispatch'') ''dispatcher'')
   = fst (cloudCollaborationDispatchTask demo_env (demo_hub demo_queued) ''o1'' (demo_row demo_queued) demo_queued
      (demo_req ''task.dispatch'') ''dispatcher'')"
proof -
  have "agree_when (sent_only ''session.create'' (create_reserved (cb_CollaborationID (demo_row demo_queued)))) demo_env demo_refusing"
    by (simp add: agree_when_def sent_only_def demo_refusing_def demo_row_def)
  then show ?thesis
    using create_after_reservation [OF _ demo_cooperative demo_hub_ok [OF demo_queued_ok(1)] demo_queued_holds] by simp
qed

section \<open>Continuing a CHAT\<close>




end
