(* ===== verification/Collab_Outcome.thy ===== *)
theory Collab_Outcome
  imports Collab_Effects
begin

text \<open>
  What is on record after a CHAT was created, when a collaboration is completed, and two evaluations
  of the handler on concrete requests that show limits the code does not keep.
\<close>

section \<open>Binding a created CHAT\<close>

text \<open>The stored row of the collaboration holds the task in its generation, active and bound to the session,
  with a CHAT entry for it.\<close>

definition bound_in :: "string \<Rightarrow> task \<Rightarrow> string \<Rightarrow> hub \<Rightarrow> bool" where
  "bound_in collaborationID createdTask sessionID w =
     list_ex (\<lambda>r. cb_CollaborationID r = collaborationID \<and> (case cb_State r of Unreadable \<Rightarrow> False | Stored s \<Rightarrow>
       (case taskIndex s (tk_ID createdTask) of None \<Rightarrow> False | Some i \<Rightarrow>
          let t = cs_Tasks s ! i
          in tk_ChatSessionID t = sessionID \<and> tk_Status t = ''active'' \<and> tk_DeliveryStatus t = ''delivered''
             \<and> tk_IdempotencyKey t = tk_IdempotencyKey createdTask \<and> tk_Generation t = tk_Generation createdTask
             \<and> chatTaskIndex s t \<noteq> None))) (hb_collabs w)"

lemma taskIndex_bind: "idx < length (cs_Tasks st) \<Longrightarrow> taskIndex (bind_chat idx sid now st) i = taskIndex st i"
proof -
  have upd: "taskIndex (upd_task idx (assign_created sid now) st) = taskIndex st" by (rule taskIndex_upd_task) (simp add: assign_created_def)
  have chats: "taskIndex (s\<lparr>cs_Chats := c\<rparr>) = taskIndex s" for s c by (simp add: taskIndex_def fun_eq_iff)
  show ?thesis by (simp add: bind_chat_def Let_def upd chats)
qed

lemma bind_chat_bound:
  assumes idx: "taskIndex st (tk_ID t) = Some idx" and ok: "may_bind (cs_Tasks st ! idx) t sid"
  shows "taskIndex (bind_chat idx sid now st) (tk_ID t) = Some idx"
    "cs_Tasks (bind_chat idx sid now st) ! idx = assign_created sid now (cs_Tasks st ! idx)"
    "chatTaskIndex (bind_chat idx sid now st) (cs_Tasks (bind_chat idx sid now st) ! idx) \<noteq> None"
proof -
  have i: "idx < length (cs_Tasks st)" using taskIndex_Some [OF idx] by blast
  show "taskIndex (bind_chat idx sid now st) (tk_ID t) = Some idx"
    using idx i by (simp add: taskIndex_bind)
  show t: "cs_Tasks (bind_chat idx sid now st) ! idx = assign_created sid now (cs_Tasks st ! idx)"
    using i by (simp add: bind_chat_def Let_def upd_task_def)
  show "chatTaskIndex (bind_chat idx sid now st) (cs_Tasks (bind_chat idx sid now st) ! idx) \<noteq> None"
    unfolding t
    using i by (auto simp: bind_chat_def Let_def upd_task_def chatTaskIndex_def find_last_index_None_iff created_chat_def
        reused_chat_def assign_created_def)
qed

lemma bound_row:
  assumes "r \<in> set (hb_collabs w)" "cb_CollaborationID r = i" "cb_State r = Stored (bind_chat idx sid now st)"
    "taskIndex st (tk_ID t) = Some idx" "may_bind (cs_Tasks st ! idx) t sid"
  shows "bound_in i t sid w"
  unfolding bound_in_def list_ex_iff
  using bind_chat_bound(1,3) [OF assms(4,5)] assms(5)
  by (intro bexI [OF _ assms(1)])
     (simp add: assms(2,3) Let_def bind_chat_bound(2) [OF assms(4,5)], simp add: assign_created_def may_bind_def)

lemma persist_bound:
  assumes "sid \<noteq> []"
  shows "hub_ok w \<Longrightarrow> holds w ownerID rec st \<Longrightarrow> trim_space (cb_CollaborationID rec) = cb_CollaborationID rec \<Longrightarrow> persist_loop n E ownerID rec st t sid w = (r, w') \<Longrightarrow>
    (\<forall>e. r = Inl e \<longrightarrow> w' = w) \<and> (is_ok r \<longrightarrow> bound_in (cb_CollaborationID rec) t sid w')"
proof (induction n arbitrary: rec st w)
  case 0
  then show ?case by auto
next
  case (Suc n)
  show ?case
  proof (cases "\<exists>idx. taskIndex st (tk_ID t) = Some idx \<and> may_bind (cs_Tasks st ! idx) t sid")
    case False
    then show ?thesis using Suc.prems(4) by (auto split: option.splits)
  next
    case True
    then obtain idx where idx: "taskIndex st (tk_ID t) = Some idx" and ok: "may_bind (cs_Tasks st ! idx) t sid" by blast
    define s where "s = bind_chat idx sid (hb_now w) st"
    have hs: "holds w ownerID rec s" unfolding s_def
      by (rule bind_chat_holds [OF Suc.prems(2) _ assms]) (use taskIndex_Some [OF idx] in blast)
    then have h: "wf_state s" "tracks w rec s" "cb_OwnerID rec = ownerID" by (simp_all add: holds_def)
    obtain q v where up: "UpdateCloudCollaboration w ownerID (cb_CollaborationID rec) (cs_Status s) s (cb_Revision rec) (hb_now w) = (q, v)"
      by (metis surj_pair)
    have loop: "(r, w') = (case q of Inr updatedRec \<Rightarrow> (Inr (updatedRec, s), v)
        | Inl e \<Rightarrow> if root_error e \<noteq> ErrConflict then (Inl e, v)
          else (case loadCloudCollaboration (dgs E) v ownerID (cb_CollaborationID rec) of
            Inl e \<Rightarrow> (Inl e, v) | Inr (rec, st) \<Rightarrow> persist_loop n E ownerID rec st t sid v))"
      using Suc.prems(4) idx ok by (simp add: Let_def s_def [symmetric] up split: sum.split)
    show ?thesis
    proof (cases q)
      case (Inr updatedRec)
      then have r: "r = Inr (updatedRec, s)" "w' = v" using loop by simp_all
      from Inr Update_evolves [OF Suc.prems(1) h up] have "updatedRec \<in> set (hb_collabs v)"
          "cb_CollaborationID updatedRec = cb_CollaborationID rec" "cb_State updatedRec = Stored s" by auto
      then have "bound_in (cb_CollaborationID rec) t sid v"
        unfolding s_def using idx ok by (rule bound_row)
      then show ?thesis using r by simp
    next
      case (Inl e)
      then have v: "v = w" using Update_Inl [OF _ hub_ok_ids [OF Suc.prems(1)]] up by blast
      show ?thesis
      proof (cases "root_error e = ErrConflict \<and> is_ok (loadCloudCollaboration (dgs E) v ownerID (cb_CollaborationID rec))")
        case False
        then show ?thesis using loop Inl v by (auto split: if_splits sum.splits)
      next
        case True
        then obtain rec2 st2 where load: "loadCloudCollaboration (dgs E) w ownerID (cb_CollaborationID rec) = Inr (rec2, st2)"
          using v is_okE by (metis surj_pair)
        then have "persist_loop n E ownerID rec2 st2 t sid w = (r, w')" using loop Inl v True by simp
        moreover have "cb_CollaborationID rec2 = cb_CollaborationID rec" using load_Inr [OF load Suc.prems(1)] Suc.prems(3) by simp
        ultimately show ?thesis using Suc.IH [OF Suc.prems(1) load_holds [OF load Suc.prems(1)]] Suc.prems(3) by simp
      qed
    qed
  qed
qed

text \<open>A session created by the Node is bound to the task it was created for, in that task's generation,
  whatever was saved in between (three attempts against newer revisions); or the persisting fails with the
  Hub unchanged, so that no other task or generation ever takes the session.\<close>

theorem created_chat_bound:
  assumes "hub_ok w" "holds w ownerID rec st" "trim_space (cb_CollaborationID rec) = cb_CollaborationID rec" "sessionID \<noteq> []"
    and "persistCloudCollaborationCreatedChat E w ownerID rec st t sessionID = (r, w')"
  shows "(\<forall>e. r = Inl e \<longrightarrow> w' = w) \<and> (is_ok r \<longrightarrow> bound_in (cb_CollaborationID rec) t sessionID w')"
  using persist_bound [OF assms(4) assms(1-3)] assms(5) by (simp add: persistCloudCollaborationCreatedChat_def)

definition demo_creating :: collab_state where
  "demo_creating = start_creating 0 demo_now demo_queued"

lemma demo_creating_holds: "holds (demo_hub demo_creating) ''o1'' (demo_row demo_creating) demo_creating"
proof -
  have "wf_state demo_creating" by code_simp
  moreover have "tracks (demo_hub demo_creating) (demo_row demo_creating) demo_creating"
    by (rule tracks_row) (simp_all add: demo_hub_def demo_row_def)
  ultimately show ?thesis by (simp add: holds_def) (simp add: demo_row_def)
qed

theorem created_chat_bound_witness:
  "bound_in ''c1'' (cs_Tasks demo_creating ! 0) ''s9''
     (snd (persistCloudCollaborationCreatedChat demo_env (demo_hub demo_creating) ''o1'' (demo_row demo_creating) demo_creating
        (cs_Tasks demo_creating ! 0) ''s9''))"
proof -
  let ?p = "persistCloudCollaborationCreatedChat demo_env (demo_hub demo_creating) ''o1'' (demo_row demo_creating) demo_creating
        (cs_Tasks demo_creating ! 0) ''s9''"
  have ok: "is_ok (fst ?p)" by code_simp
  have trim: "trim_space ''c1'' = ''c1''" by code_simp
  have "wf_state demo_creating" using demo_creating_holds by (simp add: holds_def)
  then show ?thesis
    using created_chat_bound [OF demo_hub_ok demo_creating_holds _ _ prod.collapse [symmetric], of "''s9''" demo_env "cs_Tasks demo_creating ! 0"] ok
    by (simp add: demo_row_def trim)
qed

section \<open>Completion\<close>










text \<open>The scheduler and the operation agree on when a collaboration with tasks is finished: \<open>event.ack\<close>
  closes it at once exactly when \<open>close\<close> would not be refused.\<close>

theorem ready_is_not_refused:
  "cloudCollaborationReadyToClose st \<longleftrightarrow> cs_Tasks st \<noteq> [] \<and> \<not> close_refused st"
  by (auto simp: cloudCollaborationReadyToClose_def close_refused_def settled_def list_all_iff list_ex_iff)

section \<open>The limit on created CHATs\<close>

definition demo_spent :: collab_state where
  "demo_spent = demo_queued\<lparr>cs_MaxCreates := 1, cs_CreateCount := 1\<rparr>"

definition demo_losing :: env where
  "demo_losing = demo_env\<lparr>en_node := (\<lambda>w c. if cc_Action c = ''session.create'' then (Transport ErrConnectionLost, w) else en_node demo_env w c)\<rparr>"

definition create_counts :: "hub \<Rightarrow> (int \<times> int) list" where
  "create_counts w = map (\<lambda>r. case cb_State r of Stored s \<Rightarrow> (cs_MaxCreates s, cs_CreateCount s) | Unreadable \<Rightarrow> (0, 0)) (hb_collabs w)"

text \<open>A dispatch is not held to the collaboration's limit of created CHATs: on a well-formed state whose
  limit is used up by earlier creations, dispatching a queued task counts one more and goes on to ask the
  Node for it. (The limit is checked when a task is added, while the count grows when a task is
  dispatched.)\<close>

theorem creates_overrun:
  "wf_state demo_spent
   \<and> (case cloudCollaborationDispatchTask demo_losing (demo_hub demo_spent) ''o1'' (demo_row demo_spent) demo_spent
          (demo_req ''task.dispatch'') ''dispatcher'' of (r, w) \<Rightarrow> is_ok r \<and> create_counts w = [(1, 2)])"
  by (rule conjI) code_simp+

end
