(* ===== verification/Completion_Store.thy ===== *)
theory Completion_Store
  imports Collab_Store "HOL-Library.List_Lexorder" "HOL-Library.Char_ord" "HOL-Library.Product_Lexorder"
begin

text \<open>
  The durable notifications of finished tasks (\<open>cloud_completion_notifications\<close>): the statements of
  \<open>store.go\<close> that enqueue, upgrade, claim and acknowledge them, with the constraints of the migrations
  016 to 018. A transaction that fails leaves the Hub as it was.
\<close>

section \<open>Validation\<close>

definition text_max_runes :: int where "text_max_runes = 2000"
definition text_max_bytes :: int where "text_max_bytes = 8192"
definition claim_max_text_bytes :: int where "claim_max_text_bytes = 65536"

definition valid_text :: "string \<Rightarrow> bool" where
  "valid_text v = (case rune_count v of None \<Rightarrow> False
     | Some n \<Rightarrow> CHR 0x00 \<notin> set v \<and> int (length v) \<le> text_max_bytes \<and> int n \<le> text_max_runes)"

definition callback_default :: "notif_row \<Rightarrow> notif_row" where
  "callback_default rec =
     (if nt_CallbackType rec = [] then rec\<lparr>nt_CallbackType := if nt_DeliverablePath rec \<noteq> [] then ''local_file'' else ''status''\<rparr>
      else rec)"

text \<open>What each callback type carries: a file its path, a text its text, a status nothing.\<close>

definition payload_ok :: "string \<Rightarrow> string \<Rightarrow> string \<Rightarrow> string \<Rightarrow> bool" where
  "payload_ok callbackType path txt outcome =
     (if callbackType = ''local_file'' then path \<noteq> [] \<and> txt = []
      else if callbackType = ''text'' then path = [] \<and> valid_text txt \<and> (outcome = ''completed'' \<longrightarrow> trim_space txt \<noteq> [])
      else callbackType = ''status'' \<and> path = [] \<and> txt = [])"

definition normalizeAndValidateCloudCompletionRecord :: "notif_row \<Rightarrow> hub_error + notif_row" where
  "normalizeAndValidateCloudCompletionRecord rec =
     (let n = callback_default rec
      in if payload_ok (nt_CallbackType n) (nt_DeliverablePath n) (nt_ResultText n) (nt_Outcome n) then Inr n else Inl ErrConflict)"

lemma payload_callback: "payload_ok c p t k \<Longrightarrow> c \<noteq> []"
  by (auto simp: payload_ok_def split: if_splits)

lemma normalized_iff:
  "normalizeAndValidateCloudCompletionRecord n = Inr n \<longleftrightarrow> payload_ok (nt_CallbackType n) (nt_DeliverablePath n) (nt_ResultText n) (nt_Outcome n)"
proof (cases "nt_CallbackType n = []")
  case True
  then have "callback_default n \<noteq> n" by (auto simp: callback_default_def dest: arg_cong [of _ _ nt_CallbackType])
  then show ?thesis using True payload_callback by (auto simp: normalizeAndValidateCloudCompletionRecord_def Let_def)
qed (simp add: normalizeAndValidateCloudCompletionRecord_def Let_def callback_default_def)

lemma normalize_Inr:
  assumes "normalizeAndValidateCloudCompletionRecord rec = Inr n"
  shows "payload_ok (nt_CallbackType n) (nt_DeliverablePath n) (nt_ResultText n) (nt_Outcome n)"
    "\<exists>c. n = rec\<lparr>nt_CallbackType := c\<rparr>"
proof -
  have n: "n = callback_default rec" "payload_ok (nt_CallbackType n) (nt_DeliverablePath n) (nt_ResultText n) (nt_Outcome n)"
    using assms by (auto simp: normalizeAndValidateCloudCompletionRecord_def Let_def split: if_splits)
  then show "payload_ok (nt_CallbackType n) (nt_DeliverablePath n) (nt_ResultText n) (nt_Outcome n)" by blast
  have "rec = rec\<lparr>nt_CallbackType := nt_CallbackType rec\<rparr>" by simp
  then show "\<exists>c. n = rec\<lparr>nt_CallbackType := c\<rparr>" unfolding n(1) callback_default_def by metis
qed

definition notif_columns_ok :: "notif_row \<Rightarrow> bool" where
  "notif_columns_ok n = (0 < nt_Generation n \<and> nt_NotificationKind n \<in> {''completion'', ''recovery''}
     \<and> nt_Outcome n \<in> {''completed'', ''blocked'', ''failed''} \<and> nt_State n \<in> {''pending'', ''claimed'', ''acked''}
     \<and> nt_CallbackType n \<in> {''local_file'', ''text'', ''status''})"

section \<open>Enqueue and upgrade\<close>

definition notif_key :: "notif_row \<Rightarrow> string \<times> string \<times> string \<times> int \<times> string" where
  "notif_key n = (nt_OwnerID n, nt_CollaborationID n, nt_TaskID n, nt_Generation n, nt_NotificationKind n)"

definition getCloudCompletionNotificationByTask :: "hub \<Rightarrow> string \<times> string \<times> string \<times> int \<times> string \<Rightarrow> hub_error + notif_row" where
  "getCloudCompletionNotificationByTask w k =
     (case find (\<lambda>n. notif_key n = k) (hb_notifs w) of None \<Rightarrow> Inl ErrNotFound | Some n \<Rightarrow> Inr n)"

text \<open>The content of a notification, which a repeated enqueue must repeat.\<close>

definition notif_content :: "notif_row \<Rightarrow> string \<times> string \<times> string \<times> string \<times> string \<times> string \<times> string" where
  "notif_content n = (nt_NotificationID n, nt_Outcome n, nt_CallbackType n, nt_ResultText n, nt_SourceSessionID n,
     nt_TargetSessionID n, nt_DeliverablePath n)"

definition pending_row :: "notif_row \<Rightarrow> notif_row" where
  "pending_row n = n\<lparr>nt_State := ''pending'', nt_ClaimID := [], nt_ClaimedAt := None, nt_AckedAt := None\<rparr>"

definition insert_notification :: "hub \<Rightarrow> notif_row \<Rightarrow> hub_error + bool \<times> hub" where
  "insert_notification w n =
     (if \<not> notif_columns_ok n \<or> nt_CollaborationID n \<notin> cb_CollaborationID ` set (hb_collabs w) then Inl constraint_error
      else if list_ex (\<lambda>m. notif_key m = notif_key n) (hb_notifs w) then Inr (False, w)
      else if list_ex (\<lambda>m. nt_NotificationID m = nt_NotificationID n) (hb_notifs w) then Inl constraint_error
      else Inr (True, w\<lparr>hb_notifs := hb_notifs w @ [n]\<rparr>))"

definition EnqueueCloudCompletionNotification :: "hub \<Rightarrow> notif_row \<Rightarrow> (hub_error + notif_row \<times> bool) \<times> hub" where
  "EnqueueCloudCompletionNotification w rec =
     (case normalizeAndValidateCloudCompletionRecord rec of
        Inl e \<Rightarrow> (Inl e, w)
      | Inr n \<Rightarrow>
      (case insert_notification w (pending_row n) of
        Inl e \<Rightarrow> (Inl e, w)
      | Inr (inserted, w) \<Rightarrow>
      (case getCloudCompletionNotificationByTask w (notif_key n) of
        Inl e \<Rightarrow> (Inl e, w)
      | Inr stored \<Rightarrow> (if notif_content stored \<noteq> notif_content n then Inl ErrConflict else Inr (stored, \<not> inserted), w))))"

definition claim_expired :: "int \<Rightarrow> notif_row \<Rightarrow> bool" where
  "claim_expired cutoff n = (nt_State n = ''claimed'' \<and> (case nt_ClaimedAt n of Some t \<Rightarrow> t \<le> cutoff | None \<Rightarrow> False))"

definition release_row :: "int \<Rightarrow> notif_row \<Rightarrow> notif_row" where
  "release_row now n = n\<lparr>nt_State := ''pending'', nt_ClaimID := [], nt_ClaimedAt := None, nt_UpdatedAt := now\<rparr>"

definition upgradable :: "notif_row \<Rightarrow> int \<Rightarrow> notif_row \<Rightarrow> bool" where
  "upgradable n cutoff m = (notif_key m = notif_key n \<and> nt_NotificationID m = nt_NotificationID n \<and> nt_CallbackType m = nt_CallbackType n
     \<and> nt_SourceSessionID m = nt_SourceSessionID n \<and> nt_TargetSessionID m = nt_TargetSessionID n
     \<and> nt_DeliverablePath m = nt_DeliverablePath n \<and> (nt_Outcome m = ''failed'' \<or> nt_Outcome m = ''blocked'')
     \<and> (nt_State m = ''pending'' \<or> claim_expired cutoff m))"

definition upgrade_row :: "notif_row \<Rightarrow> notif_row \<Rightarrow> notif_row" where
  "upgrade_row n m = (release_row (nt_UpdatedAt n) m)\<lparr>nt_Outcome := ''completed'', nt_ResultText := nt_ResultText n\<rparr>"

definition UpgradeCloudCompletionNotification ::
    "hub \<Rightarrow> notif_row \<Rightarrow> instant \<Rightarrow> (hub_error + notif_row \<times> bool) \<times> hub" where
  "UpgradeCloudCompletionNotification w rec expiredClaimCutoff =
     (case normalizeAndValidateCloudCompletionRecord rec of
        Inl e \<Rightarrow> (Inl e, w)
      | Inr n \<Rightarrow>
      let c = upgradable n (unix expiredClaimCutoff); affected = sql_affected c (hb_notifs w);
          w = w\<lparr>hb_notifs := sql_update c (upgrade_row n) (hb_notifs w)\<rparr>
      in case getCloudCompletionNotificationByTask w (notif_key n) of
        Inl e \<Rightarrow> (Inl e, w)
      | Inr stored \<Rightarrow>
          (if affected \<noteq> 1 \<or> nt_Outcome stored \<noteq> ''completed''
              \<or> notif_content stored \<noteq> notif_content (n\<lparr>nt_Outcome := ''completed''\<rparr>)
           then Inl ErrConflict else Inr (stored, False), w))"

section \<open>Claims\<close>

text \<open>\<open>ORDER BY created_at, notification_id\<close>\<close>

definition in_order :: "notif_row list \<Rightarrow> notif_row list" where
  "in_order = sort_key (\<lambda>n. (nt_CreatedAt n, nt_NotificationID n))"

definition of_target :: "string \<Rightarrow> string \<Rightarrow> notif_row \<Rightarrow> bool" where
  "of_target ownerID targetSessionID n = (nt_OwnerID n = ownerID \<and> nt_TargetSessionID n = targetSessionID)"

text \<open>The first notifications whose texts fit together; the first one must fit by itself.\<close>

fun select_texts :: "int \<Rightarrow> int \<Rightarrow> bool \<Rightarrow> notif_row list \<Rightarrow> hub_error + notif_row list" where
  "select_texts maxBytes used picked [] = Inr []"
| "select_texts maxBytes used picked (n # ns) =
     (let total = used + int (length (nt_ResultText n))
      in if picked \<and> maxBytes < total then Inr []
         else if maxBytes < total then Inl ErrResourceLimit
         else case select_texts maxBytes total True ns of Inl e \<Rightarrow> Inl e | Inr ms \<Rightarrow> Inr (n # ms))"

definition claim_row :: "string \<Rightarrow> int \<Rightarrow> notif_row \<Rightarrow> notif_row" where
  "claim_row claimID now n = n\<lparr>nt_State := ''claimed'', nt_ClaimID := claimID, nt_ClaimedAt := Some now, nt_UpdatedAt := now\<rparr>"

fun claim_rows :: "string \<Rightarrow> string \<Rightarrow> int \<Rightarrow> notif_row list \<Rightarrow> notif_row list \<Rightarrow> hub_error + notif_row list" where
  "claim_rows ownerID claimID now [] t = Inr t"
| "claim_rows ownerID claimID now (n # ns) t =
     (case sql_cas (\<lambda>m. nt_NotificationID m = nt_NotificationID n \<and> nt_OwnerID m = ownerID \<and> nt_State m = ''pending'')
         (claim_row claimID now) t of
        Inl e \<Rightarrow> Inl e
      | Inr t \<Rightarrow> claim_rows ownerID claimID now ns t)"

text \<open>The statement that gives back the expired claims of the session; the fields other than state, claim and
  time stay.\<close>

definition release_expired :: "string \<Rightarrow> string \<Rightarrow> instant \<Rightarrow> duration \<Rightarrow> notif_row list \<Rightarrow> notif_row list" where
  "release_expired ownerID targetSessionID now lease =
     sql_update (\<lambda>n. of_target ownerID targetSessionID n \<and> claim_expired (unix (now - lease)) n) (release_row (unix now))"

definition ClaimCloudCompletionNotifications ::
    "hub \<Rightarrow> string \<Rightarrow> string \<Rightarrow> string \<Rightarrow> int \<Rightarrow> int \<Rightarrow> instant \<Rightarrow> duration \<Rightarrow> (hub_error + notif_row list) \<times> hub" where
  "ClaimCloudCompletionNotifications w ownerID targetSessionID claimID limit maxTextBytes now lease =
     (let t = release_expired ownerID targetSessionID now lease (hb_notifs w); mine = of_target ownerID targetSessionID;
          existing = filter (\<lambda>n. mine n \<and> nt_ClaimID n = claimID \<and> nt_State n = ''claimed'') t
      in if existing \<noteq> [] then (Inr (in_order existing), w\<lparr>hb_notifs := t\<rparr>)
      else if list_ex (\<lambda>n. mine n \<and> nt_ClaimID n = claimID \<and> nt_State n = ''acked'') t then (Inr [], w\<lparr>hb_notifs := t\<rparr>)
      else let available = take (nat limit) (in_order (filter (\<lambda>n. mine n \<and> nt_State n = ''pending'') t))
      in case (if 0 < maxTextBytes then select_texts maxTextBytes 0 False available else Inr available) of
        Inl e \<Rightarrow> (Inl e, w)
      | Inr selected \<Rightarrow>
      (case claim_rows ownerID claimID (unix now) selected t of
        Inl e \<Rightarrow> (Inl e, w)
      | Inr t \<Rightarrow> (Inr (map (claim_row claimID (unix now)) selected), w\<lparr>hb_notifs := t\<rparr>)))"

definition claim_live :: "instant \<Rightarrow> duration \<Rightarrow> notif_row \<Rightarrow> bool" where
  "claim_live now lease n = (nt_State n = ''claimed'' \<and> (case nt_ClaimedAt n of Some t \<Rightarrow> now < from_unix t + lease | None \<Rightarrow> False))"

definition GetCloudCompletionClaim ::
    "hub \<Rightarrow> string \<Rightarrow> string \<Rightarrow> string \<Rightarrow> instant \<Rightarrow> duration \<Rightarrow> hub_error + notif_row list \<times> bool" where
  "GetCloudCompletionClaim w ownerID targetSessionID claimID now lease =
     (let rows = in_order (filter (\<lambda>n. of_target ownerID targetSessionID n \<and> nt_ClaimID n = claimID) (hb_notifs w))
      in if rows = [] then Inl ErrNotFound
         else if list_ex (\<lambda>n. nt_State n \<noteq> ''acked'' \<and> \<not> claim_live now lease n) rows then Inl ErrExpired
         else Inr (rows, list_all (\<lambda>n. nt_State n = ''acked'') rows))"

definition ack_row :: "int \<Rightarrow> notif_row \<Rightarrow> notif_row" where
  "ack_row now n = n\<lparr>nt_State := ''acked'', nt_AckedAt := Some now, nt_UpdatedAt := now\<rparr>"

definition AcknowledgeCloudCompletionClaim ::
    "hub \<Rightarrow> string \<Rightarrow> string \<Rightarrow> string \<Rightarrow> instant \<Rightarrow> duration \<Rightarrow> (hub_error + int) \<times> hub" where
  "AcknowledgeCloudCompletionClaim w ownerID targetSessionID claimID now lease =
     (let cutoff = unix (now - lease); mine = (\<lambda>n. of_target ownerID targetSessionID n \<and> nt_ClaimID n = claimID);
          c = (\<lambda>n. mine n \<and> nt_State n = ''claimed'' \<and> (case nt_ClaimedAt n of Some t \<Rightarrow> cutoff < t | None \<Rightarrow> False));
          acked = sql_affected c (hb_notifs w)
      in if 0 < acked then (Inr (int acked), w\<lparr>hb_notifs := sql_update c (ack_row (unix now)) (hb_notifs w)\<rparr>)
         else if list_ex (\<lambda>n. mine n \<and> nt_State n = ''acked'') (hb_notifs w) then (Inr 0, w)
         else if list_ex (\<lambda>n. mine n \<and> claim_expired cutoff n) (hb_notifs w) then (Inl ErrExpired, w)
         else (Inl ErrNotFound, w))"

end
