(* ===== verification/Completion_Life.thy ===== *)
theory Completion_Life
  imports Completion_Store
begin

text \<open>
  The life of a notification as a state machine (\<open>moves\<close>: pending, claimed for five minutes, acknowledged
  for ever; upgraded at most once), and the proof that the statements of \<open>Completion_Store\<close> implement it:
  every statement, successful or not, moves each stored row along the machine and adds only pending ones.
\<close>

definition cloudCompletionClaimLease :: duration where "cloudCompletionClaimLease = 5 * minute"

definition payload_of :: "notif_row \<Rightarrow> bool" where
  "payload_of n = payload_ok (nt_CallbackType n) (nt_DeliverablePath n) (nt_ResultText n) (nt_Outcome n)"

section \<open>The machine\<close>

inductive moves :: "instant \<Rightarrow> notif_row \<Rightarrow> notif_row \<Rightarrow> bool" for now where
  claim: "nt_State n = ''pending'' \<Longrightarrow> c \<noteq> [] \<Longrightarrow> moves now n (claim_row c (unix now) n)"
| release: "claim_expired (unix (now - cloudCompletionClaimLease)) n \<Longrightarrow> moves now n (release_row (unix now) n)"
| upgrade: "s \<le> now \<Longrightarrow> payload_of m \<Longrightarrow> nt_Outcome m = ''completed'' \<Longrightarrow>
    upgradable m (unix (s - cloudCompletionClaimLease)) n \<Longrightarrow> moves now n (upgrade_row m n)"
| ack: "nt_State n = ''claimed'' \<Longrightarrow> moves now n (ack_row s n)"

definition wf_notif :: "notif_row \<Rightarrow> bool" where
  "wf_notif n = (notif_columns_ok n \<and> payload_of n
     \<and> (nt_State n = ''pending'' \<longrightarrow> nt_ClaimID n = [] \<and> nt_ClaimedAt n = None)
     \<and> (nt_State n \<noteq> ''pending'' \<longrightarrow> nt_ClaimID n \<noteq> [] \<and> nt_ClaimedAt n \<noteq> None)
     \<and> (nt_State n = ''acked'' \<longleftrightarrow> nt_AckedAt n \<noteq> None))"

text \<open>What never changes.\<close>

definition notif_ident where
  "notif_ident n = (nt_NotificationID n, notif_key n, nt_CallbackType n, nt_SourceSessionID n, nt_TargetSessionID n,
     nt_DeliverablePath n, nt_CreatedAt n)"

lemma moves_ident: "moves now n n' \<Longrightarrow> notif_ident n' = notif_ident n"
  by (induction rule: moves.induct)
     (simp_all add: notif_ident_def notif_key_def claim_row_def release_row_def upgrade_row_def ack_row_def)

lemma wf_notif_pending: "wf_notif n \<Longrightarrow> nt_State n \<noteq> ''acked'' \<Longrightarrow> wf_notif (release_row s n)"
  by (simp add: wf_notif_def release_row_def notif_columns_ok_def payload_of_def)

lemma moves_wf: "moves now n n' \<Longrightarrow> wf_notif n \<Longrightarrow> wf_notif n'"
proof (induction rule: moves.induct)
  case (claim n c)
  then show ?case
    by (simp add: wf_notif_def claim_row_def notif_columns_ok_def payload_of_def)
next
  case (release n)
  then show ?case by (intro wf_notif_pending) (simp_all add: claim_expired_def)
next
  case (upgrade s m n)
  then have "nt_State n \<noteq> ''acked''" "payload_of (upgrade_row m n)"
    by (auto simp: upgradable_def claim_expired_def payload_of_def upgrade_row_def release_row_def)
  moreover have "wf_notif (release_row (nt_UpdatedAt m) n)" using upgrade calculation by (intro wf_notif_pending)
  ultimately show ?case
    by (simp add: wf_notif_def upgrade_row_def release_row_def notif_columns_ok_def payload_of_def)
next
  case (ack n s)
  then show ?case
    by (simp add: wf_notif_def ack_row_def notif_columns_ok_def payload_of_def)
qed

lemma not_expired:
  "now < from_unix t + cloudCompletionClaimLease \<Longrightarrow> s \<le> now \<Longrightarrow> \<not> t \<le> unix (s - cloudCompletionClaimLease)"
proof
  assume a: "now < from_unix t + cloudCompletionClaimLease" "s \<le> now" "t \<le> unix (s - cloudCompletionClaimLease)"
  then have "from_unix t \<le> from_unix (unix (s - cloudCompletionClaimLease))" by (simp add: from_unix_def second_def)
  also have "\<dots> \<le> s - cloudCompletionClaimLease" by (rule unix_bounds)
  finally show False using a by simp
qed

lemma moves_acked: "moves now n n' \<Longrightarrow> nt_State n = ''acked'' \<Longrightarrow> False"
  by (induction rule: moves.induct) (auto simp: claim_expired_def upgradable_def)

lemma moves_claimed:
  "moves now n n' \<Longrightarrow> nt_State n = ''claimed'' \<Longrightarrow> nt_ClaimedAt n = Some t \<Longrightarrow> now < from_unix t + cloudCompletionClaimLease \<Longrightarrow>
     \<exists>s. n' = ack_row s n"
  by (induction rule: moves.induct) (auto simp: claim_expired_def upgradable_def not_expired)

section \<open>Runs of one row\<close>

definition row_run :: "instant \<Rightarrow> notif_row \<Rightarrow> notif_row \<Rightarrow> bool" where
  "row_run now = (moves now)\<^sup>*\<^sup>*"

lemma row_run_refl [simp]: "row_run now n n"
  by (simp add: row_run_def)

lemma row_run_move: "moves now n n' \<Longrightarrow> row_run now n n'"
  by (simp add: row_run_def)

lemma row_run_trans: "row_run now a b \<Longrightarrow> row_run now b c \<Longrightarrow> row_run now a c"
  by (simp add: row_run_def)

lemma row_run_keeps: "row_run now n n' \<Longrightarrow> wf_notif n \<Longrightarrow> wf_notif n' \<and> notif_ident n' = notif_ident n"
  unfolding row_run_def
  by (induction rule: rtranclp_induct) (auto dest: moves_wf moves_ident)

lemma row_run_acked: "row_run now n n' \<Longrightarrow> nt_State n = ''acked'' \<Longrightarrow> n' = n"
  unfolding row_run_def by (erule converse_rtranclpE) (auto dest: moves_acked)

lemma row_run_claimed:
  assumes "row_run now n n'" "nt_State n = ''claimed''" "nt_ClaimedAt n = Some t" "now < from_unix t + cloudCompletionClaimLease"
  shows "n' = n \<or> (\<exists>s. n' = ack_row s n)"
  using assms(1) unfolding row_run_def
proof (cases rule: converse_rtranclpE)
  case (step m)
  from moves_claimed [OF step(1) assms(2-4)] obtain s where m: "m = ack_row s n" by blast
  then have "n' = m" using row_run_acked [of now m n'] step(2) by (simp add: row_run_def ack_row_def)
  then show ?thesis using m by blast
qed simp

section \<open>Tables\<close>

definition table_moves :: "instant \<Rightarrow> notif_row list \<Rightarrow> notif_row list \<Rightarrow> bool" where
  "table_moves now t t' = (\<exists>u new. t' = u @ new \<and> list_all2 (row_run now) t u \<and> list_all (\<lambda>n. nt_State n = ''pending'') new)"

definition wf_notifs :: "notif_row list \<Rightarrow> bool" where
  "wf_notifs t = (distinct (map nt_NotificationID t) \<and> distinct (map notif_key t) \<and> list_all wf_notif t)"

lemma table_moves_all2: "list_all2 (row_run now) t t' \<Longrightarrow> table_moves now t t'"
  unfolding table_moves_def by (intro exI [of _ t'] exI [of _ "[]"]) simp

lemma table_moves_refl [simp]: "table_moves now t t"
  by (simp add: table_moves_all2 list_all2_refl)

lemma update_moves:
  assumes "\<And>n. n \<in> set t \<Longrightarrow> c n \<Longrightarrow> row_run now n (f n)"
  shows "list_all2 (row_run now) t (sql_update c f t)"
  using assms by (simp add: sql_update_def list_all2_map2 list_all2_same)

lemma all2_trans: "list_all2 (row_run now) a b \<Longrightarrow> list_all2 (row_run now) b c \<Longrightarrow> list_all2 (row_run now) a c"
  by (rule list_all2_trans [of "row_run now" "row_run now"]) (rule row_run_trans)

lemma all2_wf:
  assumes "list_all2 (row_run now) t u" "wf_notifs t"
  shows "wf_notifs u"
proof -
  have rows: "wf_notif (u ! i) \<and> notif_ident (u ! i) = notif_ident (t ! i)" if "i < length t" for i
    using row_run_keeps [of now "t ! i" "u ! i"] assms that by (auto simp: list_all2_conv_all_nth wf_notifs_def list_all_length)
  have len: "length u = length t" using assms(1) by (simp add: list_all2_lengthD)
  have "map notif_ident u = map notif_ident t" using len rows by (intro nth_equalityI) auto
  then have "map (fst \<circ> notif_ident) u = map (fst \<circ> notif_ident) t" "map (fst \<circ> (snd \<circ> notif_ident)) u = map (fst \<circ> (snd \<circ> notif_ident)) t"
    by (simp_all flip: map_map)
  then have "map nt_NotificationID u = map nt_NotificationID t" "map notif_key u = map notif_key t"
    by (simp_all add: notif_ident_def comp_def)
  with assms(2) rows len show ?thesis by (auto simp: wf_notifs_def list_all_length)
qed

section \<open>The statements\<close>

lemma claim_rows_moves:
  assumes "c \<noteq> []"
  shows "claim_rows ownerID c (unix now) ns t = Inr t' \<Longrightarrow> list_all2 (row_run now) t t'"
proof (induction ns arbitrary: t)
  case (Cons n ns)
  then obtain t1 where t1: "sql_cas (\<lambda>m. nt_NotificationID m = nt_NotificationID n \<and> nt_OwnerID m = ownerID \<and> nt_State m = ''pending'')
         (claim_row c (unix now)) t = Inr t1" "claim_rows ownerID c (unix now) ns t1 = Inr t'"
    by (auto split: sum.splits)
  then have "list_all2 (row_run now) t t1"
    unfolding sql_cas_Inr by (auto intro!: update_moves row_run_move moves.claim assms)
  then show ?case using Cons.IH [OF t1(2)] by (rule all2_trans)
qed (simp add: list_all2_refl)

lemma release_moves:
  "list_all2 (row_run now) t (release_expired ownerID target now cloudCompletionClaimLease t)"
  unfolding release_expired_def by (intro update_moves row_run_move moves.release) simp

lemma claim_moves:
  assumes "c \<noteq> []" "ClaimCloudCompletionNotifications w ownerID target c limit maxBytes now cloudCompletionClaimLease = (r, w')"
  shows "list_all2 (row_run now) (hb_notifs w) (hb_notifs w') \<and> w' = w\<lparr>hb_notifs := hb_notifs w'\<rparr>"
  using assms(2) release_moves [of now "hb_notifs w" ownerID target]
  by (auto simp: ClaimCloudCompletionNotifications_def Let_def list_all2_refl split: if_splits sum.splits
      dest!: claim_rows_moves [OF assms(1)] intro: all2_trans)

lemma ack_moves:
  assumes "AcknowledgeCloudCompletionClaim w ownerID target c s cloudCompletionClaimLease = (r, w')"
  shows "list_all2 (row_run now) (hb_notifs w) (hb_notifs w') \<and> w' = w\<lparr>hb_notifs := hb_notifs w'\<rparr>"
  using assms by (auto simp: AcknowledgeCloudCompletionClaim_def Let_def list_all2_refl split: if_splits
      intro!: update_moves row_run_move moves.ack)

lemma normalized_row:
  "normalizeAndValidateCloudCompletionRecord rec = Inr n \<Longrightarrow> payload_of n \<and> nt_Outcome n = nt_Outcome rec \<and> notif_key n = notif_key rec"
  using normalize_Inr [of rec n] by (auto simp: payload_of_def notif_key_def)

lemma upgrade_moves:
  assumes "UpgradeCloudCompletionNotification w rec (s - cloudCompletionClaimLease) = (r, w')" "nt_Outcome rec = ''completed''" "s \<le> now"
  shows "list_all2 (row_run now) (hb_notifs w) (hb_notifs w') \<and> w' = w\<lparr>hb_notifs := hb_notifs w'\<rparr>"
  using assms by (auto simp: UpgradeCloudCompletionNotification_def Let_def list_all2_refl split: if_splits sum.splits
      intro!: update_moves row_run_move moves.upgrade dest: normalized_row)

lemma enqueue_moves:
  assumes "EnqueueCloudCompletionNotification w rec = (r, w')"
  shows "w' = w \<or> (\<exists>n. w' = w\<lparr>hb_notifs := hb_notifs w @ [pending_row n]\<rparr> \<and> normalizeAndValidateCloudCompletionRecord rec = Inr n
    \<and> notif_columns_ok (pending_row n) \<and> notif_key n \<notin> notif_key ` set (hb_notifs w)
    \<and> nt_NotificationID n \<notin> nt_NotificationID ` set (hb_notifs w))"
  using assms
  by (auto simp: EnqueueCloudCompletionNotification_def insert_notification_def list_ex_iff pending_row_def notif_key_def image_iff
      split: sum.splits if_splits)

lemma wf_enqueue:
  assumes "wf_notifs (hb_notifs w)" "EnqueueCloudCompletionNotification w rec = (r, w')"
  shows "wf_notifs (hb_notifs w')"
proof -
  have "wf_notif (pending_row n)" if "normalizeAndValidateCloudCompletionRecord rec = Inr n" "notif_columns_ok (pending_row n)" for n
    using normalized_row [OF that(1)] that(2) by (auto simp: wf_notif_def pending_row_def payload_of_def)
  then show ?thesis
    using enqueue_moves [OF assms(2)] assms(1) by (auto simp: wf_notifs_def pending_row_def notif_key_def)
qed

section \<open>Runs of the store\<close>

text \<open>The statements in any order and with any arguments, the clock going on between them; an upgrade or an
  acknowledgement may use an earlier reading of the clock, a claim uses the current one.\<close>

inductive notif_step :: "hub \<Rightarrow> hub \<Rightarrow> bool" where
  enqueue: "EnqueueCloudCompletionNotification w rec = (r, w') \<Longrightarrow> notif_step w w'"
| upgrade: "nt_Outcome rec = ''completed'' \<Longrightarrow> s \<le> hb_now w \<Longrightarrow>
    UpgradeCloudCompletionNotification w rec (s - cloudCompletionClaimLease) = (r, w') \<Longrightarrow> notif_step w w'"
| claim: "claimID \<noteq> [] \<Longrightarrow>
    ClaimCloudCompletionNotifications w ownerID target claimID limit maxBytes (hb_now w) cloudCompletionClaimLease = (r2, w') \<Longrightarrow> notif_step w w'"
| ack: "AcknowledgeCloudCompletionClaim w ownerID target claimID s cloudCompletionClaimLease = (r3, w') \<Longrightarrow> notif_step w w'"
| tick: "hb_now w \<le> t \<Longrightarrow> notif_step w (w\<lparr>hb_now := t\<rparr>)"

inductive_cases notif_stepE: "notif_step w w'"

lemma notif_table_step:
  assumes "notif_step w w'" "wf_notifs (hb_notifs w)"
  shows "table_moves (hb_now w) (hb_notifs w) (hb_notifs w') \<and> wf_notifs (hb_notifs w') \<and> hb_now w \<le> hb_now w'"
proof -
  have all2: "table_moves (hb_now w) (hb_notifs w) (hb_notifs w') \<and> wf_notifs (hb_notifs w') \<and> hb_now w \<le> hb_now w'"
    if "list_all2 (row_run (hb_now w)) (hb_notifs w) (hb_notifs w') \<and> w' = w\<lparr>hb_notifs := hb_notifs w'\<rparr>"
  proof -
    from that have e: "w' = w\<lparr>hb_notifs := hb_notifs w'\<rparr>" ..
    have "hb_now w' = hb_now w" by (subst e) simp
    then show ?thesis using that all2_wf [OF conjunct1 [OF that] assms(2)] by (simp add: table_moves_all2)
  qed
  show ?thesis
    using assms(1)
  proof (cases rule: notif_step.cases)
    case (enqueue rec r)
    have "table_moves (hb_now w) (hb_notifs w) (hb_notifs w @ [pending_row n])" for n
      unfolding table_moves_def
      by (intro exI [of _ "hb_notifs w"] exI [of _ "[pending_row n]"]) (simp add: list_all2_refl pending_row_def)
    then show ?thesis
      using enqueue_moves [OF enqueue] wf_enqueue [OF assms(2) enqueue] by auto
  next
    case (upgrade rec s r)
    show ?thesis by (rule all2) (rule upgrade_moves [OF upgrade(3,1,2)])
  next
    case claim
    show ?thesis by (rule all2) (rule claim_moves [OF claim])
  next
    case ack
    show ?thesis by (rule all2) (rule ack_moves [OF ack])
  next
    case tick
    then show ?thesis using assms(2) by simp
  qed
qed

text \<open>Property C12: the store implements the state machine of a notification: in each step, successful or not, every
  stored row keeps its place and moves along the machine (pending, claimed, acknowledged; a claim is given
  back only when it has expired; a failed or blocked outcome can be upgraded), rows added are pending, and
  the table stays well-formed with unique identifiers and one notification per task generation and kind.\<close>

theorem notif_step_refines:
  assumes "notif_step w w'" "wf_notifs (hb_notifs w)"
  shows "table_moves (hb_now w) (hb_notifs w) (hb_notifs w') \<and> wf_notifs (hb_notifs w') \<and> hb_now w \<le> hb_now w'"
  using notif_table_step [OF assms] .

lemma demo_empty_notifs [simp]: "wf_notifs []"
  by (simp add: wf_notifs_def)

lemma step_keeps_wf: "notif_step\<^sup>*\<^sup>* w w' \<Longrightarrow> wf_notifs (hb_notifs w) \<Longrightarrow> wf_notifs (hb_notifs w') \<and> hb_now w \<le> hb_now w'"
proof (induction rule: rtranclp_induct)
  case (step v u)
  then show ?case using notif_table_step by fastforce
qed simp

lemma table_moves_row: "table_moves now t t' \<Longrightarrow> n \<in> set t \<Longrightarrow> \<exists>n' \<in> set t'. row_run now n n'"
proof -
  assume "table_moves now t t'" "n \<in> set t"
  then obtain u new i where u: "t' = u @ new" "list_all2 (row_run now) t u" "i < length t" "n = t ! i"
    by (auto simp: table_moves_def in_set_conv_nth)
  then show ?thesis by (intro bexI [of _ "u ! i"]) (auto simp: list_all2_conv_all_nth)
qed

text \<open>an acknowledged notification is final: no later statement, whatever its arguments, changes a
  field of it or removes it.\<close>

theorem acknowledged_final:
  assumes "notif_step\<^sup>*\<^sup>* w w'" "wf_notifs (hb_notifs w)" "n \<in> set (hb_notifs w)" "nt_State n = ''acked''"
  shows "n \<in> set (hb_notifs w')"
  using assms(1)
proof (induction rule: rtranclp_induct)
  case (step v u)
  have "table_moves (hb_now v) (hb_notifs v) (hb_notifs u)"
    using notif_table_step [OF step(2)] step_keeps_wf [OF step(1) assms(2)] by blast
  from table_moves_row [OF this step.IH] show ?case using row_run_acked [OF _ assms(4)] by auto
qed (rule assms(3))

text \<open>Property C13: a claim excludes other claims for its five minutes: until it expires a claimed notification stays
  with its claim unchanged, or is acknowledged under that same claim, whatever statements run.\<close>

theorem claim_exclusive:
  assumes "notif_step\<^sup>*\<^sup>* w w'" "wf_notifs (hb_notifs w)" "n \<in> set (hb_notifs w)" "nt_State n = ''claimed''" "nt_ClaimedAt n = Some t"
    and "hb_now w' < from_unix t + cloudCompletionClaimLease"
  shows "n \<in> set (hb_notifs w') \<or> (\<exists>s. ack_row s n \<in> set (hb_notifs w'))"
  using assms(1,6)
proof (induction rule: rtranclp_induct)
  case (step v u)
  have wf: "wf_notifs (hb_notifs v)" using step_keeps_wf [OF step(1) assms(2)] by blast
  have vu: "table_moves (hb_now v) (hb_notifs v) (hb_notifs u)" "hb_now v \<le> hb_now u"
    using notif_table_step [OF step(2) wf] by auto
  then have now: "hb_now v < from_unix t + cloudCompletionClaimLease" using step.prems by simp
  from step.IH [OF now] show ?case
  proof
    assume "n \<in> set (hb_notifs v)"
    from table_moves_row [OF vu(1) this] row_run_claimed [OF _ assms(4,5) now] show ?thesis by metis
  next
    assume "\<exists>s. ack_row s n \<in> set (hb_notifs v)"
    then obtain s where s: "ack_row s n \<in> set (hb_notifs v)" ..
    from table_moves_row [OF vu(1) s] row_run_acked [of "hb_now v" "ack_row s n"] show ?thesis by (auto simp: ack_row_def)
  qed
qed (use assms(3) in blast)

end
