(* ===== verification/Completion_Claims.thy ===== *)
theory Completion_Claims
  imports Completion_Life
begin

text \<open>
  What a claim and an enqueue return: a fresh claim takes the oldest pending notifications of the session
  up to the limits, a repeated claim returns the same ones, a repeated enqueue the stored one.
\<close>

section \<open>Choosing a batch\<close>

lemma select_texts_prefix:
  "select_texts mb used picked ns = Inr ms \<Longrightarrow> used \<le> mb \<Longrightarrow>
     \<exists>k. ms = take k ns \<and> used + sum_list (map (\<lambda>n. int (length (nt_ResultText n))) ms) \<le> mb"
proof (induction ns arbitrary: used picked ms)
  case (Cons n ns)
  show ?case
  proof (cases "mb < used + int (length (nt_ResultText n))")
    case True
    then have "ms = []" using Cons.prems(1) by (auto simp: Let_def split: if_splits)
    then show ?thesis using Cons.prems(2) by (intro exI [of _ 0]) simp
  next
    case False
    then obtain ms' where ms': "select_texts mb (used + int (length (nt_ResultText n))) True ns = Inr ms'" "ms = n # ms'"
      using Cons.prems(1) by (auto simp: Let_def split: sum.splits)
    from Cons.IH [OF ms'(1)] False obtain k where "ms' = take k ns"
        "used + int (length (nt_ResultText n)) + sum_list (map (\<lambda>n. int (length (nt_ResultText n))) ms') \<le> mb" by auto
    then show ?thesis unfolding ms'(2) by (intro exI [of _ "Suc k"]) simp
  qed
qed simp

lemma select_texts_ok:
  "\<forall>n \<in> set ns. int (length (nt_ResultText n)) \<le> mb \<Longrightarrow> picked \<or> used = 0 \<Longrightarrow> \<exists>ms. select_texts mb used picked ns = Inr ms \<and> (\<not> picked \<and> ns \<noteq> [] \<longrightarrow> ms \<noteq> [])"
proof (induction ns arbitrary: used picked)
  case (Cons n ns)
  from Cons.IH [of True "used + int (length (nt_ResultText n))"] Cons.prems(1)
  obtain ms where "select_texts mb (used + int (length (nt_ResultText n))) True ns = Inr ms" by auto
  then show ?case using Cons.prems by (auto simp: Let_def)
qed simp

section \<open>Marking the batch\<close>

lemma claim_rows_ok:
  "distinct (map nt_NotificationID t) \<Longrightarrow> distinct (map nt_NotificationID ns) \<Longrightarrow>
     \<forall>n \<in> set ns. n \<in> set t \<and> nt_OwnerID n = ownerID \<and> nt_State n = ''pending'' \<Longrightarrow>
     \<exists>t'. claim_rows ownerID c now ns t = Inr t' \<and> (\<forall>n \<in> set ns. claim_row c now n \<in> set t')
       \<and> (\<forall>m \<in> set t. nt_NotificationID m \<notin> nt_NotificationID ` set ns \<longrightarrow> m \<in> set t')"
proof (induction ns arbitrary: t)
  case (Cons n ns)
  let ?p = "\<lambda>m. nt_NotificationID m = nt_NotificationID n \<and> nt_OwnerID m = ownerID \<and> nt_State m = ''pending''"
  let ?t = "sql_update ?p (claim_row c now) t"
  have n: "n \<in> set t" "?p n" using Cons.prems(3) by auto
  have "sql_affected ?p t = 1"
    using n by (subst sql_affected_key_eq [OF Cons.prems(1), of _ "nt_NotificationID n"]) auto
  then have cas: "sql_cas ?p (claim_row c now) t = Inr ?t" by (simp add: sql_cas_Inr)
  have ids: "map nt_NotificationID ?t = map nt_NotificationID t" by (rule map_sql_update) (simp add: claim_row_def)
  have keep: "m \<in> set ?t" if "m \<in> set t" "nt_NotificationID m \<noteq> nt_NotificationID n" for m
    using that unfolding set_sql_update by (intro image_eqI [of _ _ m]) simp_all
  have "\<forall>m \<in> set ns. m \<in> set ?t \<and> nt_OwnerID m = ownerID \<and> nt_State m = ''pending''"
    using Cons.prems(2,3) keep by (auto simp: image_iff)
  moreover have "distinct (map nt_NotificationID ?t)" "distinct (map nt_NotificationID ns)"
    using Cons.prems(1,2) by (simp_all only: ids) simp
  ultimately obtain t' where t': "claim_rows ownerID c now ns ?t = Inr t'" "\<forall>m \<in> set ns. claim_row c now m \<in> set t'"
      "\<forall>m \<in> set ?t. nt_NotificationID m \<notin> nt_NotificationID ` set ns \<longrightarrow> m \<in> set t'"
    using Cons.IH [of ?t] by blast
  have "claim_row c now n \<in> set ?t" using n unfolding set_sql_update by (intro image_eqI [of _ _ n]) simp_all
  then have "claim_row c now n \<in> set t'" using t'(3) Cons.prems(2) by (simp add: claim_row_def image_iff)
  then show ?case using t' keep by (auto simp: cas)
qed simp

lemma in_order_set [simp]: "set (in_order t) = set t" "length (in_order t) = length t" "in_order t = [] \<longleftrightarrow> t = []"
  by (simp_all add: in_order_def flip: length_0_conv)

lemma in_order_distinct: "distinct (map f t) \<Longrightarrow> distinct (map f (in_order t))"
proof -
  assume "distinct (map f t)"
  then have d: "distinct t" "inj_on f (set t)" by (simp_all add: distinct_map)
  have "distinct (in_order t)" using d(1) by (simp add: in_order_def)
  then show ?thesis using d(2) by (simp add: distinct_map)
qed

lemma released_row: "n \<in> set (release_expired o' tg now lease t) \<Longrightarrow> \<exists>m \<in> set t. nt_ResultText n = nt_ResultText m
    \<and> (nt_ClaimID n = nt_ClaimID m \<or> nt_ClaimID n = []) \<and> nt_OwnerID n = nt_OwnerID m \<and> nt_TargetSessionID n = nt_TargetSessionID m"
  by (auto simp: release_expired_def set_sql_update release_row_def)

lemma payload_text: "payload_of n \<Longrightarrow> int (length (nt_ResultText n)) \<le> text_max_bytes"
  by (auto simp: payload_of_def payload_ok_def valid_text_def text_max_bytes_def split: if_splits option.splits)

text \<open>a claim under a new identifier succeeds and takes the oldest pending notifications of the session
  (expired claims given back first): a prefix of them in order of creation, within the batch limit and
  the text limit, at least one when there is any, each recorded as claimed under the identifier now.\<close>

theorem claim_takes_oldest:
  assumes "wf_notifs (hb_notifs w)" "claimID \<noteq> []" "0 < limit" "text_max_bytes \<le> maxBytes"
    and "\<forall>n \<in> set (hb_notifs w). of_target ownerID target n \<longrightarrow> nt_ClaimID n \<noteq> claimID"
    and "ClaimCloudCompletionNotifications w ownerID target claimID limit maxBytes now cloudCompletionClaimLease = (r, w')"
  shows "\<exists>k. let queue = in_order (filter (\<lambda>n. of_target ownerID target n \<and> nt_State n = ''pending'')
            (release_expired ownerID target now cloudCompletionClaimLease (hb_notifs w)));
          batch = map (claim_row claimID (unix now)) (take k queue)
      in r = Inr batch \<and> k \<le> nat limit \<and> (queue \<noteq> [] \<longrightarrow> batch \<noteq> []) \<and> set batch \<subseteq> set (hb_notifs w')
         \<and> sum_list (map (\<lambda>n. int (length (nt_ResultText n))) batch) \<le> maxBytes"
proof -
  define t where "t = release_expired ownerID target now cloudCompletionClaimLease (hb_notifs w)"
  define q where "q = in_order (filter (\<lambda>n. of_target ownerID target n \<and> nt_State n = ''pending'') t)"
  have wf: "wf_notifs t" unfolding t_def by (rule all2_wf [OF release_moves assms(1)])
  have fresh: "\<not> (of_target ownerID target n \<and> nt_ClaimID n = claimID)" if "n \<in> set t" for n
    using released_row [of n ownerID target now cloudCompletionClaimLease "hb_notifs w"] that assms(2,5)
    by (auto simp: t_def of_target_def)
  have "\<forall>n \<in> set q. int (length (nt_ResultText n)) \<le> maxBytes"
    using wf assms(4) payload_text by (fastforce simp: q_def wf_notifs_def wf_notif_def list_all_iff)
  then have "\<forall>n \<in> set (take (nat limit) q). int (length (nt_ResultText n)) \<le> maxBytes" by (meson in_set_takeD)
  from select_texts_ok [OF this, of False 0] obtain ms where ms: "select_texts maxBytes 0 False (take (nat limit) q) = Inr ms"
      "take (nat limit) q \<noteq> [] \<longrightarrow> ms \<noteq> []" by auto
  from select_texts_prefix [OF ms(1)] obtain k0 where k0: "ms = take k0 (take (nat limit) q)"
      "sum_list (map (\<lambda>n. int (length (nt_ResultText n))) ms) \<le> maxBytes" using assms(4) by (auto simp: text_max_bytes_def)
  define k where "k = min k0 (nat limit)"
  have k: "ms = take k q" using k0(1) by (simp add: k_def)
  have "distinct (map nt_NotificationID q)" unfolding q_def
    by (rule in_order_distinct) (use wf in \<open>simp add: wf_notifs_def distinct_map_filter\<close>)
  then have "distinct (map nt_NotificationID ms)" by (simp add: k distinct_take flip: take_map)
  moreover have "\<forall>n \<in> set ms. n \<in> set t \<and> nt_OwnerID n = ownerID \<and> nt_State n = ''pending''"
    by (auto simp: k q_def of_target_def dest!: in_set_takeD)
  ultimately obtain t' where t': "claim_rows ownerID claimID (unix now) ms t = Inr t'" "\<forall>n \<in> set ms. claim_row claimID (unix now) n \<in> set t'"
    using claim_rows_ok [of t ms ownerID claimID "unix now"] wf by (auto simp: wf_notifs_def)
  have "0 < maxBytes" using assms(4) by (simp add: text_max_bytes_def)
  then have "ClaimCloudCompletionNotifications w ownerID target claimID limit maxBytes now cloudCompletionClaimLease
      = (Inr (map (claim_row claimID (unix now)) ms), w\<lparr>hb_notifs := t'\<rparr>)"
    using fresh ms(1) t'(1)
    by (auto simp: ClaimCloudCompletionNotifications_def Let_def t_def [symmetric] q_def [symmetric] filter_empty_conv list_ex_iff)
  then have r: "r = Inr (map (claim_row claimID (unix now)) ms)" "hb_notifs w' = t'" using assms(6) by auto
  have "q \<noteq> [] \<longrightarrow> ms \<noteq> []" using ms(2) assms(3) by (cases q) (auto simp: take_Cons' split: if_splits)
  moreover have "sum_list (map (\<lambda>n. int (length (nt_ResultText n))) (map (claim_row claimID (unix now)) ms)) \<le> maxBytes"
    using k0(2) by (simp add: claim_row_def comp_def)
  ultimately show ?thesis
    unfolding t_def [symmetric] q_def [symmetric] using r t'(2) k by (intro exI [of _ k]) (auto simp: Let_def k_def)
qed

section \<open>Enqueueing again\<close>

lemma find_key: "wf_notifs t \<Longrightarrow> n \<in> set t \<Longrightarrow> find (\<lambda>m. notif_key m = notif_key n) t = Some n"
  by (rule find_key_distinct) (simp_all add: wf_notifs_def)

lemma enqueue_cases:
  assumes "EnqueueCloudCompletionNotification w rec = (Inr (stored, replayed), w')" "wf_notifs (hb_notifs w)"
  obtains n where "normalizeAndValidateCloudCompletionRecord rec = Inr n" "notif_key stored = notif_key n"
    "notif_content stored = notif_content n" "stored \<in> set (hb_notifs w')" "wf_notifs (hb_notifs w')"
    "replayed \<longrightarrow> w' = w" "\<not> replayed \<longrightarrow> stored = pending_row n \<and> hb_notifs w' = hb_notifs w @ [stored]"
    "notif_columns_ok (pending_row n)" "nt_CollaborationID n \<in> cb_CollaborationID ` set (hb_collabs w')"
proof -
  note e = assms(1) [unfolded EnqueueCloudCompletionNotification_def]
  obtain n where n: "normalizeAndValidateCloudCompletionRecord rec = Inr n" using e by (auto split: sum.splits)
  obtain inserted v where ins: "insert_notification w (pending_row n) = Inr (inserted, v)" using e n by (auto split: sum.splits)
  have got: "getCloudCompletionNotificationByTask v (notif_key n) = Inr stored" "w' = v" "notif_content stored = notif_content n"
      "replayed = (\<not> inserted)"
    using e n ins by (auto split: sum.splits if_splits)
  have s: "stored \<in> set (hb_notifs w')" "notif_key stored = notif_key n"
    using got(1,2) by (auto simp: getCloudCompletionNotificationByTask_def split: option.splits dest: find_SomeD)
  have wf: "wf_notifs (hb_notifs w')" by (rule wf_enqueue [OF assms(2,1)])
  have cols: "notif_columns_ok (pending_row n)" "nt_CollaborationID n \<in> cb_CollaborationID ` set (hb_collabs w)"
    using ins by (auto simp: insert_notification_def pending_row_def split: if_splits)
  have v: "if inserted then v = w\<lparr>hb_notifs := hb_notifs w @ [pending_row n]\<rparr> else v = w"
    using ins by (auto simp: insert_notification_def split: if_splits)
  have "stored = pending_row n" if inserted
  proof -
    have "pending_row n \<in> set (hb_notifs w')" using v got(2) that by simp
    from find_key [OF wf this] show ?thesis using got(1,2)
      by (simp add: getCloudCompletionNotificationByTask_def pending_row_def notif_key_def)
  qed
  then show thesis
    using n s got wf cols v by (intro that [of n]) auto
qed

lemma steps_collabs: "notif_step\<^sup>*\<^sup>* w w' \<Longrightarrow> hb_collabs w' = hb_collabs w"
proof (induction rule: rtranclp_induct)
  case (step v u)
  have upd: "hb_collabs x' = hb_collabs x" if "list_all2 (row_run now) (hb_notifs x) (hb_notifs x') \<and> x' = x\<lparr>hb_notifs := hb_notifs x'\<rparr>"
    for now :: instant and x x' :: hub
  proof -
    from that have "x' = x\<lparr>hb_notifs := hb_notifs x'\<rparr>" ..
    then have "hb_collabs x' = hb_collabs (x\<lparr>hb_notifs := hb_notifs x'\<rparr>)" by (rule arg_cong)
    then show ?thesis by simp
  qed
  from step(2) have "hb_collabs u = hb_collabs v"
  proof (cases rule: notif_step.cases)
    case enqueue
    from enqueue_moves [OF enqueue] show ?thesis by auto
  next
    case (upgrade rec s r)
    from upgrade_moves [OF upgrade(3,1,2)] show ?thesis by (rule upd)
  next
    case claim
    from claim_moves [OF claim] show ?thesis by (rule upd)
  next
    case ack
    from ack_moves [OF ack] show ?thesis by (rule upd)
  qed simp
  then show ?case using step.IH by simp
qed simp

text \<open>Enqueueing is idempotent and the first result stands: after an enqueue that succeeded, a second one
  of the same task generation and kind, at once or after any other statements, either returns the stored
  notification as replayed or is refused, and changes nothing in both cases; it is returned exactly when
  its content equals what is stored.\<close>

theorem enqueue_idempotent:
  assumes "wf_notifs (hb_notifs w)" "EnqueueCloudCompletionNotification w rec = (Inr (stored, b), w1)"
    and "notif_step\<^sup>*\<^sup>* w1 w2"
    and "normalizeAndValidateCloudCompletionRecord rec' = Inr n" "notif_key n = notif_key stored" "notif_columns_ok (pending_row n)"
    and "EnqueueCloudCompletionNotification w2 rec' = (r, w3)"
  shows "w3 = w2 \<and> (\<exists>row \<in> set (hb_notifs w2). notif_key row = notif_key n
    \<and> r = (if notif_content row = notif_content n then Inr (row, True) else Inl ErrConflict))"
proof -
  obtain m where m: "stored \<in> set (hb_notifs w1)" "wf_notifs (hb_notifs w1)" "nt_CollaborationID m \<in> cb_CollaborationID ` set (hb_collabs w1)"
      "notif_key stored = notif_key m"
    using enqueue_cases [OF assms(2,1)] by metis
  have row: "\<exists>row \<in> set (hb_notifs w2). notif_key row = notif_key stored" using assms(3)
  proof (induction rule: rtranclp_induct)
    case (step v u)
    then obtain row where v: "row \<in> set (hb_notifs v)" "notif_key row = notif_key stored" by blast
    have wf: "wf_notifs (hb_notifs v)" using step_keeps_wf [OF step(1) m(2)] by blast
    from table_moves_row [OF conjunct1 [OF notif_table_step [OF step(2) wf]] v(1)] obtain row' where
      "row' \<in> set (hb_notifs u)" "row_run (hb_now v) row row'" by blast
    moreover have "wf_notif row" using wf v(1) by (simp add: wf_notifs_def list_all_iff)
    ultimately show ?case using row_run_keeps [of "hb_now v" row row'] v(2) by (intro bexI [of _ row']) (auto simp: notif_ident_def)
  qed (use m(1) in blast)
  then obtain row where row: "row \<in> set (hb_notifs w2)" "notif_key row = notif_key n" using assms(5) by auto
  have wf2: "wf_notifs (hb_notifs w2)" using step_keeps_wf [OF assms(3) m(2)] by blast
  have get: "getCloudCompletionNotificationByTask w2 (notif_key n) = Inr row"
    using find_key [OF wf2 row(1)] row(2) by (simp add: getCloudCompletionNotificationByTask_def)
  have "nt_CollaborationID n = nt_CollaborationID m" using assms(5) m(4) by (simp add: notif_key_def)
  then have fk: "nt_CollaborationID n \<in> cb_CollaborationID ` set (hb_collabs w2)" using m(3) steps_collabs [OF assms(3)] by simp
  have "insert_notification w2 (pending_row n) = Inr (False, w2)"
    using assms(6) fk row by (auto simp: insert_notification_def pending_row_def list_ex_iff notif_key_def)
  then show ?thesis
    using assms(7) row get by (auto simp: EnqueueCloudCompletionNotification_def assms(4))
qed

section \<open>A concrete run\<close>

definition demo_notif :: "string \<Rightarrow> notif_row" where
  "demo_notif outcome = \<lparr>nt_NotificationID = ''completion_1'', nt_OwnerID = ''o1'', nt_CollaborationID = ''c1'', nt_TaskID = ''t1'',
     nt_Generation = 1, nt_NotificationKind = ''completion'', nt_Outcome = outcome, nt_CallbackType = [], nt_ResultText = [],
     nt_SourceSessionID = ''s1'', nt_TargetSessionID = ''dsp'', nt_DeliverablePath = ''/w/r.md'', nt_State = [], nt_ClaimID = [],
     nt_ClaimedAt = None, nt_AckedAt = None, nt_CreatedAt = 1800000000, nt_UpdatedAt = 1800000000\<rparr>"

definition demo_store :: hub where
  "demo_store = \<lparr>hb_machines = [], hb_credentials = [], hb_tokens = [], hb_nonces = [], hb_caps = [],
     hb_collabs = [\<lparr>cb_CollaborationID = ''c1'', cb_OwnerID = ''o1'', cb_MachineID = ''m1'', cb_IdempotencyKey = [], cb_RequestHash = [],
       cb_Status = ''active'', cb_State = Unreadable, cb_Revision = 1, cb_CreatedAt = 0, cb_UpdatedAt = 0\<rparr>],
     hb_notifs = [], hb_audit = [], hb_now = 1800000000 * second\<rparr>"

definition notif_hub :: "notif_row list \<Rightarrow> hub" where "notif_hub t = demo_store\<lparr>hb_notifs := t\<rparr>"

definition row_pending :: notif_row where "row_pending = pending_row ((demo_notif ''blocked'')\<lparr>nt_CallbackType := ''local_file''\<rparr>)"
definition row_claimed :: notif_row where "row_claimed = claim_row ''k1'' 1800000000 row_pending"
definition row_acked :: notif_row where "row_acked = ack_row 1800000000 row_claimed"

lemmas demo_row_defs = row_pending_def row_claimed_def row_acked_def pending_row_def claim_row_def ack_row_def demo_notif_def

lemma demo_enqueue: "EnqueueCloudCompletionNotification (notif_hub []) (demo_notif ''blocked'') = (Inr (row_pending, False), notif_hub [row_pending])"
  by code_simp

lemma demo_claim: "ClaimCloudCompletionNotifications (notif_hub [row_pending]) ''o1'' ''dsp'' ''k1'' 64 claim_max_text_bytes
    (1800000000 * second) cloudCompletionClaimLease = (Inr [row_claimed], notif_hub [row_claimed])"
  by code_simp

lemma demo_ack: "AcknowledgeCloudCompletionClaim (notif_hub [row_claimed]) ''o1'' ''dsp'' ''k1'' (1800000000 * second) cloudCompletionClaimLease
    = (Inr 1, notif_hub [row_acked])"
  by code_simp

lemma demo_wf_notifs: "wf_notifs [row_pending]" "wf_notifs [row_claimed]" "wf_notifs [row_acked]"
  by code_simp+

lemma demo_run: "notif_step (notif_hub [row_pending]) (notif_hub [row_claimed])" "notif_step (notif_hub [row_claimed]) (notif_hub [row_acked])"
proof -
  have now: "hb_now (notif_hub t) = 1800000000 * second" for t by (simp add: notif_hub_def demo_store_def)
  show "notif_step (notif_hub [row_pending]) (notif_hub [row_claimed])"
    by (rule notif_step.claim [OF _ demo_claim [folded now [of "[row_pending]"]]]) simp
  show "notif_step (notif_hub [row_claimed]) (notif_hub [row_acked])" by (rule notif_step.ack [OF demo_ack])
qed

lemma demo_notifs [simp]: "hb_notifs (notif_hub t) = t"
  by (simp add: notif_hub_def)

theorem notif_step_refines_witness: "table_moves (1800000000 * second) [row_pending] [row_claimed] \<and> wf_notifs [row_claimed]"
  using notif_step_refines [OF demo_run(1)] demo_wf_notifs by (simp add: notif_hub_def demo_store_def)

theorem acknowledged_final_witness: "row_acked \<in> set (hb_notifs (snd (ClaimCloudCompletionNotifications (notif_hub [row_acked]) ''o1'' ''dsp''
    ''k2'' 64 claim_max_text_bytes (hb_now (notif_hub [row_acked])) cloudCompletionClaimLease)))"
proof (rule acknowledged_final)
  show "notif_step\<^sup>*\<^sup>* (notif_hub [row_acked]) (snd (ClaimCloudCompletionNotifications (notif_hub [row_acked]) ''o1'' ''dsp''
      ''k2'' 64 claim_max_text_bytes (hb_now (notif_hub [row_acked])) cloudCompletionClaimLease))"
    by (rule r_into_rtranclp, rule notif_step.claim [OF _ prod.collapse [symmetric]]) simp
qed (use demo_wf_notifs(3) in \<open>simp_all\<close>, simp add: demo_row_defs)

theorem claim_exclusive_witness: "row_claimed \<in> {row_acked} \<or> (\<exists>s. ack_row s row_claimed \<in> {row_acked})"
proof -
  have "nt_State row_claimed = ''claimed''" "nt_ClaimedAt row_claimed = Some 1800000000" by (simp_all add: demo_row_defs)
  moreover have "notif_step\<^sup>*\<^sup>* (notif_hub [row_claimed]) (notif_hub [row_acked])" using demo_run(2) by (rule r_into_rtranclp)
  moreover have "hb_now (notif_hub [row_acked]) < from_unix 1800000000 + cloudCompletionClaimLease"
    by (simp add: notif_hub_def demo_store_def from_unix_def cloudCompletionClaimLease_def minute_def second_def)
  ultimately show ?thesis
    using claim_exclusive [of "notif_hub [row_claimed]" "notif_hub [row_acked]" row_claimed 1800000000] demo_wf_notifs by simp
qed

theorem claim_takes_oldest_witness:
  "\<exists>k. take k [row_pending] \<noteq> [] \<and> map (claim_row ''k1'' 1800000000) (take k [row_pending]) = [row_claimed]"
proof -
  have q: "in_order (filter (\<lambda>n. of_target ''o1'' ''dsp'' n \<and> nt_State n = ''pending'')
      (release_expired ''o1'' ''dsp'' (1800000000 * second) cloudCompletionClaimLease [row_pending])) = [row_pending]" by code_simp
  have "text_max_bytes \<le> claim_max_text_bytes" "\<forall>n \<in> set (hb_notifs (notif_hub [row_pending])). nt_ClaimID n \<noteq> ''k1''" "unix (1800000000 * second) = 1800000000"
    by (simp_all add: text_max_bytes_def claim_max_text_bytes_def demo_row_defs unix_def second_def)
  from claim_takes_oldest [OF _ _ _ this(1) _ demo_claim] demo_wf_notifs(1) this(2,3) q
  show ?thesis by (fastforce simp: Let_def)
qed

theorem enqueue_idempotent_witness:
  "EnqueueCloudCompletionNotification (notif_hub [row_acked]) (demo_notif ''failed'') = (Inl ErrConflict, notif_hub [row_acked])"
proof -
  let ?n = "(demo_notif ''failed'')\<lparr>nt_CallbackType := ''local_file''\<rparr>"
  obtain r w3 where e: "EnqueueCloudCompletionNotification (notif_hub [row_acked]) (demo_notif ''failed'') = (r, w3)" by (metis surj_pair)
  have n: "normalizeAndValidateCloudCompletionRecord (demo_notif ''failed'') = Inr ?n" "notif_columns_ok (pending_row ?n)" by code_simp+
  have k: "notif_key ?n = notif_key row_pending" "notif_content row_acked \<noteq> notif_content ?n"
    by (simp_all add: notif_key_def notif_content_def demo_row_defs)
  have "notif_step\<^sup>*\<^sup>* (notif_hub [row_pending]) (notif_hub [row_acked])" using demo_run by simp
  from enqueue_idempotent [OF _ demo_enqueue this n(1) k(1) n(2) e] k(2) e show ?thesis by simp
qed

end
