(* ===== verification/Completion_Guarantee.thy ===== *)
theory Completion_Guarantee
  imports Collab_Guarantee Completion
begin

text \<open>
  What a completion request owes the collaborations: it keeps the tables well-formed and lets every
  collaboration only evolve, like the requests of \<open>CloudCollaboration\<close>. The recorded state is built from
  the event, the task's result and its end, each of which keeps the state well-formed.
\<close>

section \<open>The recorded state\<close>

lemma holds_record: "holds w ownerID rec st \<Longrightarrow> holds w ownerID rec (record_result idx n a rs st)"
  unfolding record_result_def by (rule holds_task) (simp_all add: grant_of_def wf_task_def)

lemma holds_settle: "holds w ownerID rec st \<Longrightarrow> s \<in> {''done'', ''blocked''} \<Longrightarrow> holds w ownerID rec (settle_task idx s now st)"
  by (rule holds_grows) (auto simp: holds_def grows_settle intro: wf_settle_task)

definition bytes_ok :: "ack_item \<Rightarrow> bool" where
  "bytes_ok a = (0 \<le> ak_ResultBytes a \<and> ak_ResultBytes a \<le> max_result_bytes)"

lemma holds_ack_event:
  assumes h: "holds w ownerID rec st" and i: "taskIndex st tid = Some idx" and a: "bytes_ok a"
    and new: "find_index (\<lambda>e. ev_ID e = nt_NotificationID n) (cs_Events st) = None"
  shows "holds w ownerID rec (append_event (ack_event n a rs sig now (cs_Tasks st ! idx)) st)"
proof (rule holds_grows [OF h])
  have wf: "wf_state st" using h by (simp add: holds_def)
  have len: "idx < length (cs_Tasks st)" using taskIndex_Some [OF i] by simp
  show "wf_state (append_event (ack_event n a rs sig now (cs_Tasks st ! idx)) st)"
  proof (rule wf_append_event [OF wf])
    show "wf_event (cs_Generation st) (ack_event n a rs sig now (cs_Tasks st ! idx))"
      using wf_task_nth [OF wf len] a by (simp add: wf_event_def ack_event_def event_statuses_def bytes_ok_def wf_task_def)
    show "\<forall>x \<in> set (cs_Events st). ev_ID x \<noteq> ev_ID (ack_event n a rs sig now (cs_Tasks st ! idx))
        \<and> event_order x (ack_event n a rs sig now (cs_Tasks st ! idx))"
      using new by (simp add: find_index_None_iff ack_event_def event_order_def)
  qed
qed (rule grows_append_event)

lemma holds_mark_acked: "holds w ownerID rec st \<Longrightarrow> holds w ownerID rec (upd_event i (\<lambda>e. e\<lparr>ev_Status := ''acked''\<rparr>) st)"
  by (rule holds_grows) (auto simp: holds_def grows_upd_event intro: wf_mark_acked)

lemma acked_holds:
  assumes "acked_state dg st n a now = Inr st'" "holds w ownerID rec st" "bytes_ok a"
  shows "holds w ownerID rec st'"
proof -
  obtain idx where idx: "taskIndex st (nt_TaskID n) = Some idx" using assms(1) by (auto simp: acked_state_def split: option.splits)
  have fin: "holds w ownerID rec (settle_task idx (if nt_Outcome n = ''completed'' then ''done'' else ''blocked'') now (record_result idx n a rs st1))"
    if "holds w ownerID rec st1" for rs st1
    by (rule holds_settle [OF holds_record [OF that]]) simp
  show ?thesis
    using assms(1) idx fin holds_mark_acked [OF assms(2)] holds_ack_event [OF assms(2) idx assms(3)]
    by (auto simp: acked_state_def Let_def split: option.splits if_splits)
qed

lemma safe_update:
  assumes "hub_ok w" "holds w ownerID rec st"
  shows "safe w (UpdateCloudCollaboration w ownerID (cb_CollaborationID rec) (cs_Status st) st (cb_Revision rec) now)"
proof -
  obtain r w1 where up: "UpdateCloudCollaboration w ownerID (cb_CollaborationID rec) (cs_Status st) st (cb_Revision rec) now = (r, w1)"
    by (metis surj_pair)
  show ?thesis using Update_evolves [OF assms(1) _ _ _ up] assms(2) by (simp add: up safe_pair holds_def)
qed

lemma safe_apply_loop: "hub_ok w \<Longrightarrow> bytes_ok a \<Longrightarrow> safe w (apply_loop k E w ownerID n a now)"
proof (induction k arbitrary: w)
  case (Suc k)
  show ?case
  proof (cases "loadCloudCollaboration (dgs E) w ownerID (nt_CollaborationID n)")
    case (Inr p)
    obtain rec st where p: "p = (rec, st)" by (cases p)
    have h: "holds w ownerID rec st" using load_holds Inr p Suc.prems(1) by blast
    show ?thesis
    proof (cases "acked_state (dgs E) st n a now")
      case (Inr st')
      have "holds w ownerID rec st'" using acked_holds [OF Inr h Suc.prems(2)] .
      then show ?thesis
        using Inr \<open>loadCloudCollaboration _ _ _ _ = Inr p\<close> p Suc
        by (auto intro!: safe_case_sum [OF safe_update])
    qed (use Inr p Suc.prems in simp)
  qed (use Suc.prems in simp)
qed simp

section \<open>The acknowledgements\<close>

lemma resolve_bytes:
  assumes "resolveCloudCompletionAcknowledgement dg n a = Inr r" "payload_of n"
  shows "bytes_ok r"
proof -
  have "int (length (nt_ResultText n)) \<le> max_result_bytes"
    using payload_text [OF assms(2)] by (simp add: text_max_bytes_def max_result_bytes_def)
  then show ?thesis
    using assms(1) by (auto simp: resolveCloudCompletionAcknowledgement_def bytes_ok_def max_file_bytes_def max_result_bytes_def Let_def
        split: if_splits)
qed

lemma safe_fill: "cooperative E \<Longrightarrow> hub_ok w \<Longrightarrow> safe w (fill_ack E w ownerID n a)"
  unfolding fill_ack_def by (auto split: sum.split option.split intro!: safe_run [OF safe_agent])

lemma safe_resolve_loop: "cooperative E \<Longrightarrow> hub_ok w \<Longrightarrow> safe w (resolve_loop E ownerID acks ns acc w)"
proof (induction ns arbitrary: w acc)
  case (Cons n ns)
  then show ?case by (auto split: option.split sum.split intro!: safe_run [OF safe_fill])
qed simp

lemma resolve_loop_bytes:
  assumes "resolve_loop E ownerID acks ns acc w = (Inr resolved, w')" "\<forall>n \<in> set ns. payload_of n" "\<forall>p \<in> set acc. bytes_ok (snd p)"
  shows "(\<forall>p \<in> set resolved. bytes_ok (snd p))"
  using assms
proof (induction ns arbitrary: acc w)
  case (Cons n ns)
  show ?case
  proof (cases "nt_NotificationKind n = ''recovery''")
    case True then show ?thesis using Cons by (auto split: option.splits)
  next
    case False
    then obtain a a' w1 r where s: "fill_ack E w ownerID n a = (Inr a', w1)" "resolveCloudCompletionAcknowledgement (dgs E) n a' = Inr r"
        "resolve_loop E ownerID acks ns ((nt_NotificationID n, r) # acc) w1 = (Inr resolved, w')"
      using Cons.prems(1) by (auto split: option.splits sum.splits dest!: run_eq_Inr)
    have "bytes_ok r" using resolve_bytes [OF s(2)] Cons.prems(2) by simp
    then show ?thesis using Cons.IH [OF s(3)] Cons.prems(2,3) by simp
  qed
qed simp

lemma safe_confirm: "cooperative E \<Longrightarrow> hub_ok w \<Longrightarrow> safe w (confirm_ack E w ownerID n)"
  unfolding confirm_ack_def by (auto split: sum.split intro!: safe_run [OF safe_agent])

lemma bare_bytes: "bytes_ok (bare_ack i)"
  by (simp add: bytes_ok_def bare_ack_def max_result_bytes_def)

lemma safe_apply_all:
  "cooperative E \<Longrightarrow> \<forall>p \<in> set resolved. bytes_ok (snd p) \<Longrightarrow> hub_ok w \<Longrightarrow> safe w (apply_all E ownerID resolved now ns w)"
proof (induction ns arbitrary: w)
  case (Cons n ns)
  have "bytes_ok (case map_of resolved (nt_NotificationID n) of Some a \<Rightarrow> a | None \<Rightarrow> bare_ack [])"
    using Cons.prems(2) bare_bytes by (fastforce split: option.split dest: map_of_SomeD)
  then show ?case
    using Cons by (auto simp: applyCloudCompletionAcknowledgement_def
        intro!: safe_run [OF safe_apply_loop] safe_run [OF safe_confirm])
qed simp

lemma acknowledge_collabs: "AcknowledgeCloudCompletionClaim w ownerID target c now lease = (r, w') \<Longrightarrow> \<exists>t. w' = w\<lparr>hb_notifs := t\<rparr>"
  by (auto simp: AcknowledgeCloudCompletionClaim_def Let_def intro: exI [of _ "hb_notifs w"] split: if_splits)

lemma safe_notifs: "hub_ok w \<Longrightarrow> (\<And>r w'. m = (r, w') \<Longrightarrow> \<exists>t. w' = w\<lparr>hb_notifs := t\<rparr>) \<Longrightarrow> safe w m"
  by (cases m) (fastforce simp: safe_pair)

lemma safe_acknowledge: "hub_ok w \<Longrightarrow> safe w (AcknowledgeCloudCompletionClaim w ownerID target c now lease)"
  by (erule safe_notifs) (rule acknowledge_collabs)

lemma claim_payloads: "GetCloudCompletionClaim w ownerID target c now lease = Inr (ns, b) \<Longrightarrow> wf_notifs (hb_notifs w) \<Longrightarrow> n \<in> set ns \<Longrightarrow> payload_of n"
  by (auto simp: GetCloudCompletionClaim_def Let_def wf_notifs_def wf_notif_def list_all_iff split: if_splits)

lemma safe_ackCompletions:
  assumes "cooperative E" "hub_ok w" "wf_notifs (hb_notifs w)"
  shows "safe w (ackCloudCompletions E w ownerID req)"
proof -
  have main: "safe w (run (resolve_loop E ownerID acks claimed [] w) (\<lambda>resolved w.
        run (apply_all E ownerID resolved now claimed w) (\<lambda>_ w.
          run (AcknowledgeCloudCompletionClaim w ownerID target claimID now lease) (\<lambda>acked w. (Inr (ack_out claimID acked), w)))))"
    if "\<forall>n \<in> set claimed. payload_of n" for acks claimed now target claimID lease
  proof (rule safe_run [OF safe_resolve_loop [OF assms(1,2)]])
    fix resolved w1
    assume "resolve_loop E ownerID acks claimed [] w = (Inr resolved, w1)" and w1: "hub_ok w1"
    then have "\<forall>p \<in> set resolved. bytes_ok (snd p)" using resolve_loop_bytes that by fastforce
    then show "safe w1 (run (apply_all E ownerID resolved now claimed w1) (\<lambda>_ w.
          run (AcknowledgeCloudCompletionClaim w ownerID target claimID now lease) (\<lambda>acked w. (Inr (ack_out claimID acked), w))))"
      using assms(1) w1 by (auto intro!: safe_run [OF safe_apply_all] safe_run [OF safe_acknowledge])
  qed
  show ?thesis
    unfolding ackCloudCompletions_def Let_def
    using assms(2) claim_payloads [OF _ assms(3)]
    by (auto split: option.split sum.split bool.split intro!: main)
qed

section \<open>Reporting and claiming\<close>

lemma Enqueue_collabs: "EnqueueCloudCompletionNotification w n = (r, w') \<Longrightarrow> \<exists>t. w' = w\<lparr>hb_notifs := t\<rparr>"
  using enqueue_moves by (fastforce intro: exI [of _ "hb_notifs w"])

lemma Upgrade_collabs: "UpgradeCloudCompletionNotification w n c = (r, w') \<Longrightarrow> \<exists>t. w' = w\<lparr>hb_notifs := t\<rparr>"
  by (auto simp: UpgradeCloudCompletionNotification_def Let_def intro: exI [of _ "hb_notifs w"] split: if_splits sum.splits option.splits)

lemma safe_enqueue: "hub_ok w \<Longrightarrow> safe w (EnqueueCloudCompletionNotification w n)"
  by (erule safe_notifs) (rule Enqueue_collabs)

lemma safe_upgrade: "hub_ok w \<Longrightarrow> safe w (UpgradeCloudCompletionNotification w n c)"
  by (erule safe_notifs) (rule Upgrade_collabs)

lemma safe_store: "hub_ok w \<Longrightarrow> safe w (store_notification w n b)"
  unfolding store_notification_def
proof (rule safe_case_sum [OF safe_enqueue])
  fix e w1 assume "hub_ok w1"
  then have "safe w1 (if root_error e = ErrConflict \<and> b \<and> nt_Outcome n = ''completed''
      then UpgradeCloudCompletionNotification w1 n (hb_now w1 - cloudCompletionClaimLease) else (Inl e, w1))"
    by (simp add: safe_upgrade)
  then show "safe w1 (case (if root_error e = ErrConflict \<and> b \<and> nt_Outcome n = ''completed''
      then UpgradeCloudCompletionNotification w1 n (hb_now w1 - cloudCompletionClaimLease) else (Inl e, w1)) of
        (Inr sr, w) \<Rightarrow> (Inr sr, w)
      | (Inl e, w) \<Rightarrow> (Inl (if root_error e = ErrConflict then call_error ''TASK_RESULT_CONFLICT''
             ''a different result already exists for this generation; preserve it and reconcile a proven legacy recovery before retrying'' False
             else e), w))"
    by (rule safe_case_sum) simp_all
qed simp_all

lemma safe_enqueue_node: "cooperative E \<Longrightarrow> hub_ok w \<Longrightarrow> safe w (enqueueCloudCompletionOnNode E w ownerID rec t n)"
  unfolding enqueueCloudCompletionOnNode_def by (rule safe_agent)

lemma safe_wake:
  assumes "cooperative E" "hub_ok w"
  shows "safe w (wake_node E w ownerID rec st t stored)"
  unfolding wake_node_def
proof (rule safe_case_sum [OF safe_enqueue_node [OF assms]])
  fix e w1 assume "hub_ok w1"
  moreover obtain r a err w2 where r: "activateCloudCollaborationCallbackRoute E w1 ownerID rec st t [] = ((r, a, err), w2)"
    by (metis surj_pair)
  ultimately have "hub_ok w2 \<and> evolves w1 w2" using safe_route [OF assms(1)] by (metis safe_pair)
  then show "safe w1 (if \<not> capabilityErrorHasCode e [''CALLBACK_ROUTE_NOT_FOUND'', ''CALLBACK_ROUTE_UNARMED''] then (Inl e, w1)
          else (case activateCloudCollaborationCallbackRoute E w1 ownerID rec st t [] of
            ((_, _, Some repairErr), w) \<Rightarrow> (Inl repairErr, w)
          | ((_, _, None), w) \<Rightarrow> enqueueCloudCompletionOnNode E w ownerID rec t stored))"
    using \<open>hub_ok w1\<close> assms(1) by (cases err) (auto simp: r safe_pair intro: safe_after safe_enqueue_node)
qed simp

lemma safe_file: "cooperative E \<Longrightarrow> hub_ok w \<Longrightarrow> safe w (notify_file E w ownerID req rec st t)"
  unfolding notify_file_def by (auto split: option.split intro!: safe_run [OF safe_agent])

lemma safe_notify:
  assumes "cooperative E" "hub_ok w"
  shows "safe w (notifyCloudCompletion E w ownerID req)"
proof (cases "notify_target (dgs E) w ownerID req")
  case (Inr p)
  obtain rec st t where p: "p = (rec, st, t)" by (cases p)
  show ?thesis
    unfolding notifyCloudCompletion_def Let_def Inr p sum.case prod.case
  proof (rule safe_run [OF safe_file [OF assms]], rule safe_run [OF safe_store], simp)
    fix f :: "(string \<times> int \<times> string) option" and w1 w2 :: hub and x :: "notif_row \<times> bool"
    assume w2: "hub_ok w2"
    obtain stored replayed where x: "x = (stored, replayed)" by (cases x)
    show "safe w2 ((case x of (stored, replayed) \<Rightarrow> \<lambda>w.
          if nt_State stored = ''pending'' \<and> \<not> is_recovery st req then
            (case wake_node E w ownerID rec st t stored of
              (Inl e, w) \<Rightarrow> (Inl (delivery_pending stored e), w)
            | (Inr wake, w) \<Rightarrow> (Inr (notify_out (hb_now w1) (is_recovery st req) f stored replayed ''node_queued'' wake), w))
          else (Inr (notify_out (hb_now w1) (is_recovery st req) f stored replayed
                 (if is_recovery st req then ''recovery_recorded'' else ''already_'' @ nt_State stored) []), w)) w2)"
      using w2 by (auto simp: x intro!: safe_case_sum [OF safe_wake [OF assms(1)]])
  qed
qed (use assms in \<open>simp add: notifyCloudCompletion_def\<close>)

lemma Claim_collabs: "ClaimCloudCompletionNotifications w ownerID target c limit maxBytes now lease = (r, w') \<Longrightarrow> \<exists>t. w' = w\<lparr>hb_notifs := t\<rparr>"
  by (auto simp: ClaimCloudCompletionNotifications_def Let_def intro: exI [of _ "hb_notifs w"] split: if_splits sum.splits)

lemma safe_claim_rows: "hub_ok w \<Longrightarrow> safe w (ClaimCloudCompletionNotifications w ownerID target c limit maxBytes now lease)"
  by (erule safe_notifs) (rule Claim_collabs)

lemma safe_claim: "hub_ok w \<Longrightarrow> safe w (claimCloudCompletions E w ownerID req)"
  unfolding claimCloudCompletions_def Let_def
  by (auto split: option.split sum.split intro!: safe_run [OF safe_claim_rows])

lemma safe_CloudCompletion:
  assumes "cooperative E" "hub_ok w" "wf_notifs (hb_notifs w)"
  shows "safe w (CloudCompletion E w ownerID req)"
  unfolding CloudCompletion_def Let_def
  using safe_notify [OF assms(1,2)] safe_claim [OF assms(2)] safe_ackCompletions [OF assms] assms(2) by simp

end
