(* ===== verification/Completion_Retry.thy ===== *)
theory Completion_Retry
  imports Completion_Guarantee
begin

text \<open>Recording an acknowledged result again, after an answer was lost, changes nothing but time stamps.\<close>

section \<open>What settling a task writes\<close>

definition end_task :: "string \<Rightarrow> instant \<Rightarrow> task \<Rightarrow> task" where
  "end_task s now t = t\<lparr>tk_Status := s, tk_UpdatedAt := format_stamp now\<rparr>"

definition end_chat :: "string \<Rightarrow> instant \<Rightarrow> chat \<Rightarrow> chat" where
  "end_chat s now c = c\<lparr>ct_Status := (if s = ''done'' then ''completed'' else ''failed''), ct_LastObservedAt := format_stamp now\<rparr>"

definition end_goal :: "goal \<Rightarrow> goal" where
  "end_goal g = (if gl_Status g \<noteq> ''dropped'' then g\<lparr>gl_Status := ''done''\<rparr> else g)"

definition end_chats :: "nat option \<Rightarrow> string \<Rightarrow> instant \<Rightarrow> chat list \<Rightarrow> chat list" where
  "end_chats c s now cs = (case c of None \<Rightarrow> cs | Some i \<Rightarrow> modify i (end_chat s now) cs)"

definition end_goals :: "task list \<Rightarrow> goal list \<Rightarrow> goal list" where
  "end_goals ts gs = (if list_all (\<lambda>t. settled (tk_Status t)) ts then map end_goal gs else gs)"

lemma settle_form:
  assumes "idx < length (cs_Tasks st)"
  shows "settle_task idx s now st = st\<lparr>cs_Tasks := modify idx (end_task s now) (cs_Tasks st),
     cs_Chats := end_chats (chatTaskIndex st (cs_Tasks st ! idx)) s now (cs_Chats st),
     cs_Goals := end_goals (modify idx (end_task s now) (cs_Tasks st)) (cs_Goals st)\<rparr>"
proof -
  have e: "(\<lambda>t. t\<lparr>tk_Status := s, tk_UpdatedAt := format_stamp now\<rparr>) = end_task s now" "(\<lambda>c. c\<lparr>ct_Status := (if s = ''done'' then ''completed'' else ''failed''),
      ct_LastObservedAt := format_stamp now\<rparr>) = end_chat s now" "(\<lambda>g. if gl_Status g \<noteq> ''dropped'' then g\<lparr>gl_Status := ''done''\<rparr> else g) = end_goal"
    by (simp_all add: fun_eq_iff end_task_def end_chat_def end_goal_def)
  have c: "chatTaskIndex (upd_task idx (end_task s now) st) (cs_Tasks (upd_task idx (end_task s now) st) ! idx) = chatTaskIndex st (cs_Tasks st ! idx)"
    using assms by (simp add: chatTaskIndex_def end_task_def)
  show ?thesis
    unfolding settle_task_def Let_def e finish_goals_def c
    by (cases "chatTaskIndex st (cs_Tasks st ! idx)"; rule collab_state.equality)
       (simp_all add: end_chats_def end_goals_def upd_defs)
qed

section \<open>The recorded state, time stamps erased\<close>

definition timeless :: "collab_state \<Rightarrow> collab_state" where
  "timeless st = st\<lparr>cs_Tasks := map (\<lambda>t. t\<lparr>tk_UpdatedAt := NoStamp\<rparr>) (cs_Tasks st),
     cs_Chats := map (\<lambda>c. c\<lparr>ct_LastObservedAt := NoStamp\<rparr>) (cs_Chats st)\<rparr>"

definition finish_ack :: "nat \<Rightarrow> notif_row \<Rightarrow> ack_item \<Rightarrow> string \<Rightarrow> instant \<Rightarrow> collab_state \<Rightarrow> collab_state" where
  "finish_ack idx n a rs now st = settle_task idx (if nt_Outcome n = ''completed'' then ''done'' else ''blocked'') now (record_result idx n a rs st)"

lemma modify_twice: "modify i f (modify i g xs) = modify i (f \<circ> g) xs"
  by (simp add: modify_def)

lemma map_modify_cong: "(\<And>x. h (f x) = h (g x)) \<Longrightarrow> map h (modify i f xs) = map h (modify i g xs)"
  by (rule nth_equalityI) (simp_all add: nth_modify)

lemma find_index_map: "(\<And>x. P (f x) = P x) \<Longrightarrow> find_index P (modify i f xs) = find_index P xs"
proof -
  assume f: "\<And>x. P (f x) = P x"
  have by_map: "find_index P ys = find_index id (map P ys)" for ys by (induction ys) auto
  show ?thesis using map_modify [of P f i xs] f by (simp only: by_map)
qed

lemma find_last_index_map:
  assumes "\<And>x. P (f x) = P x" shows "find_last_index P (modify i f xs) = find_last_index P xs"
proof -
  have by_map: "find_index P ys = find_index id (map P ys)" for ys by (induction ys) auto
  have "map P (rev (modify i f xs)) = map P (rev xs)" using map_modify [of P f i xs] assms by (simp flip: rev_map)
  then show ?thesis by (simp only: find_last_index_def by_map length_modify)
qed

lemma chatTaskIndex_end: "find_last_index (\<lambda>c. ct_SessionID c = a \<and> ct_TaskID c = b \<and> ct_Generation c = g) (end_chats i s now cs)
    = find_last_index (\<lambda>c. ct_SessionID c = a \<and> ct_TaskID c = b \<and> ct_Generation c = g) cs"
  by (auto simp: end_chats_def end_chat_def intro: find_last_index_map split: option.split)

definition recorded :: "notif_row \<Rightarrow> ack_item \<Rightarrow> string \<Rightarrow> task \<Rightarrow> task" where
  "recorded n a rs t = t\<lparr>tk_ResultID := ak_ResultID a, tk_ResultStatus := rs, tk_ResultSHA256 := ak_ResultSHA256 a,
     tk_ResultText := (if nt_CallbackType n = ''text'' then nt_ResultText n else [])\<rparr>"

definition ended :: "notif_row \<Rightarrow> ack_item \<Rightarrow> string \<Rightarrow> instant \<Rightarrow> task \<Rightarrow> task" where
  "ended n a rs now = end_task (if nt_Outcome n = ''completed'' then ''done'' else ''blocked'') now \<circ> recorded n a rs"

lemmas ended_defs = ended_def end_task_def recorded_def

lemma finish_form:
  assumes "idx < length (cs_Tasks st)"
  shows "finish_ack idx n a rs now st = st\<lparr>cs_Tasks := modify idx (ended n a rs now) (cs_Tasks st),
     cs_Chats := end_chats (chatTaskIndex st (cs_Tasks st ! idx)) (if nt_Outcome n = ''completed'' then ''done'' else ''blocked'') now (cs_Chats st),
     cs_Goals := end_goals (modify idx (ended n a rs now) (cs_Tasks st)) (cs_Goals st)\<rparr>"
proof -
  have r: "record_result idx n a rs st = upd_task idx (recorded n a rs) st"
    by (simp add: record_result_def recorded_def [abs_def])
  have c: "chatTaskIndex (st\<lparr>cs_Tasks := ts\<rparr>) (recorded n a rs t) = chatTaskIndex st t" for ts t
    by (simp add: chatTaskIndex_def recorded_def)
  show ?thesis
    using assms unfolding finish_ack_def r
    by (subst settle_form) (simp_all add: modify_twice upd_task_def c flip: ended_def)
qed

lemma ended_again: "ended n a rs now (ended n a rs now' t) = ended n a rs now t"
  by (simp add: ended_defs)

lemma end_goals_again:
  "list_all (\<lambda>t. settled (tk_Status t)) ts = list_all (\<lambda>t. settled (tk_Status t)) us \<Longrightarrow> end_goals ts (end_goals us gs) = end_goals us gs"
  by (simp add: end_goals_def end_goal_def comp_def)

lemma finish_again:
  assumes "idx < length (cs_Tasks st)"
  shows "timeless (finish_ack idx n a rs now' (finish_ack idx n a rs now st)) = timeless (finish_ack idx n a rs now st)"
proof -
  let ?s = "if nt_Outcome n = ''completed'' then ''done'' else ''blocked''"
  let ?st = "finish_ack idx n a rs now st"
  have len: "idx < length (cs_Tasks ?st)" using assms by (simp add: finish_form)
  have "chatTaskIndex ?st (cs_Tasks ?st ! idx) = chatTaskIndex st (cs_Tasks st ! idx)"
    using assms by (simp add: finish_form chatTaskIndex_def chatTaskIndex_end ended_defs)
  moreover have "modify idx (ended n a rs now') (modify idx (ended n a rs now) (cs_Tasks st)) = modify idx (ended n a rs now') (cs_Tasks st)"
    by (simp add: modify_twice comp_def ended_again)
  moreover have "end_goals (modify idx (ended n a rs now') (cs_Tasks st)) (end_goals (modify idx (ended n a rs now) (cs_Tasks st)) gs)
      = end_goals (modify idx (ended n a rs now) (cs_Tasks st)) gs" for gs
  proof (rule end_goals_again)
    have "map tk_Status (modify idx (ended n a rs now') (cs_Tasks st)) = map tk_Status (modify idx (ended n a rs now) (cs_Tasks st))"
      by (rule map_modify_cong) (simp add: ended_defs)
    moreover have l: "list_all (\<lambda>t. settled (tk_Status t)) ts = list_all settled (map tk_Status ts)" for ts by (induction ts) auto
    ultimately show "list_all (\<lambda>t. settled (tk_Status t)) (modify idx (ended n a rs now') (cs_Tasks st))
        = list_all (\<lambda>t. settled (tk_Status t)) (modify idx (ended n a rs now) (cs_Tasks st))" by (simp only: l)
  qed
  ultimately have again: "finish_ack idx n a rs now' ?st = ?st\<lparr>cs_Tasks := modify idx (ended n a rs now') (cs_Tasks st),
      cs_Chats := end_chats (chatTaskIndex st (cs_Tasks st ! idx)) ?s now' (cs_Chats ?st), cs_Goals := cs_Goals ?st\<rparr>"
    using assms by (subst finish_form [OF len]) (simp add: finish_form)
  have tasks: "map (\<lambda>t. t\<lparr>tk_UpdatedAt := NoStamp\<rparr>) (modify idx (ended n a rs now') ts) = map (\<lambda>t. t\<lparr>tk_UpdatedAt := NoStamp\<rparr>) (modify idx (ended n a rs now) ts)" for ts
    by (rule map_modify_cong) (simp add: ended_defs)
  have chats: "map (\<lambda>c. c\<lparr>ct_LastObservedAt := NoStamp\<rparr>) (end_chats i ?s now' (end_chats i ?s now cs))
      = map (\<lambda>c. c\<lparr>ct_LastObservedAt := NoStamp\<rparr>) (end_chats i ?s now cs)" for i cs
    by (cases i) (auto simp: end_chats_def modify_twice end_chat_def comp_def intro: map_modify_cong)
  show ?thesis
    unfolding again
    by (rule collab_state.equality) (simp_all add: timeless_def finish_form assms tasks chats)
qed

lemma acked_form: "acked_state dg st n a now =
     (case taskIndex st (nt_TaskID n) of
        None \<Rightarrow> Inl ErrNotFound
      | Some idx \<Rightarrow>
      let t = cs_Tasks st ! idx; rs = (if trim_space (ak_ResultStatus a) = [] then outcome_status n else trim_space (ak_ResultStatus a));
          sig = ack_signature dg n a rs
      in if tk_Generation t \<noteq> nt_Generation n \<or> tk_ChatSessionID t \<noteq> nt_SourceSessionID n
            \<or> cloudCollaborationTaskResultPath t \<noteq> nt_DeliverablePath n \<or> cs_DispatcherSessionID st \<noteq> nt_TargetSessionID n
         then Inl ErrUnauthorized
      else case find_index (\<lambda>e. ev_ID e = nt_NotificationID n) (cs_Events st) of
        Some i \<Rightarrow>
          (let e = cs_Events st ! i
           in if ev_Signature e \<noteq> sig \<or> ev_TaskID e \<noteq> tk_ID t \<or> ev_Generation e \<noteq> tk_Generation t \<or> ev_SessionID e \<noteq> tk_ChatSessionID t
              then Inl ErrConflict
              else Inr (finish_ack idx n a rs now (upd_event i (\<lambda>e. e\<lparr>ev_Status := ''acked''\<rparr>) st)))
      | None \<Rightarrow> Inr (finish_ack idx n a rs now (append_event (ack_event n a rs sig now t) st)))"
  unfolding acked_state_def finish_ack_def Let_def ..

section \<open>Twice\<close>

definition holds_event :: "digests \<Rightarrow> notif_row \<Rightarrow> ack_item \<Rightarrow> string \<Rightarrow> task \<Rightarrow> event list \<Rightarrow> bool" where
  "holds_event dg n a rs t es = (\<exists>i. find_index (\<lambda>e. ev_ID e = nt_NotificationID n) es = Some i \<and> ev_Signature (es ! i) = ack_signature dg n a rs
     \<and> ev_TaskID (es ! i) = tk_ID t \<and> ev_Generation (es ! i) = tk_Generation t \<and> ev_SessionID (es ! i) = tk_ChatSessionID t
     \<and> ev_Status (es ! i) = ''acked'')"

lemma find_index_snoc: "\<forall>x \<in> set xs. \<not> P x \<Longrightarrow> P y \<Longrightarrow> find_index P (xs @ [y]) = Some (length xs)"
  by (induction xs) auto

lemma appended_event:
  assumes "find_index (\<lambda>e. ev_ID e = nt_NotificationID n) (cs_Events st) = None"
  shows "holds_event dg n a rs t (cs_Events (append_event (ack_event n a rs (ack_signature dg n a rs) now t) st))"
proof -
  define es where "es = (if 512 \<le> length (cs_Events st) then last_n 384 (cs_Events st) else cs_Events st)"
  have "set es \<subseteq> set (cs_Events st)" unfolding es_def by (rule set_kept_events)
  then have "find_index (\<lambda>e. ev_ID e = nt_NotificationID n) (es @ [ack_event n a rs (ack_signature dg n a rs) now t]) = Some (length es)"
    using assms by (intro find_index_snoc) (auto simp: find_index_None_iff ack_event_def)
  then show ?thesis
    by (simp add: holds_event_def append_event_def ack_event_def flip: es_def)
qed

lemma acked_Inr:
  assumes "acked_state dg st n a now = Inr st'"
  obtains idx rs st1 where "taskIndex st (nt_TaskID n) = Some idx"
    "rs = (if trim_space (ak_ResultStatus a) = [] then outcome_status n else trim_space (ak_ResultStatus a))"
    "tk_Generation (cs_Tasks st ! idx) = nt_Generation n" "tk_ChatSessionID (cs_Tasks st ! idx) = nt_SourceSessionID n"
    "cloudCollaborationTaskResultPath (cs_Tasks st ! idx) = nt_DeliverablePath n" "cs_DispatcherSessionID st = nt_TargetSessionID n"
    "st' = finish_ack idx n a rs now st1" "holds_event dg n a rs (cs_Tasks st ! idx) (cs_Events st1)"
    "st1 = st\<lparr>cs_Events := cs_Events st1\<rparr>"
proof -
  define rs where "rs = (if trim_space (ak_ResultStatus a) = [] then outcome_status n else trim_space (ak_ResultStatus a))"
  obtain idx where idx: "taskIndex st (nt_TaskID n) = Some idx" using assms by (auto simp: acked_form split: option.splits)
  let ?t = "cs_Tasks st ! idx"
  have ok: "tk_Generation ?t = nt_Generation n \<and> tk_ChatSessionID ?t = nt_SourceSessionID n
      \<and> cloudCollaborationTaskResultPath ?t = nt_DeliverablePath n \<and> cs_DispatcherSessionID st = nt_TargetSessionID n"
    using assms idx by (auto simp: acked_form Let_def split: if_splits)
  show thesis
  proof (cases "find_index (\<lambda>e. ev_ID e = nt_NotificationID n) (cs_Events st)")
    case None
    then have "st' = finish_ack idx n a rs now (append_event (ack_event n a rs (ack_signature dg n a rs) now ?t) st)"
      using assms idx ok by (simp add: acked_form Let_def rs_def)
    then show thesis
      using that [OF idx rs_def] ok appended_event [OF None] by (simp add: append_event_def)
  next
    case (Some i)
    let ?st1 = "upd_event i (\<lambda>e. e\<lparr>ev_Status := ''acked''\<rparr>) st"
    have e: "st' = finish_ack idx n a rs now ?st1" "ev_Signature (cs_Events st ! i) = ack_signature dg n a rs"
        "ev_TaskID (cs_Events st ! i) = tk_ID ?t" "ev_Generation (cs_Events st ! i) = tk_Generation ?t" "ev_SessionID (cs_Events st ! i) = tk_ChatSessionID ?t"
      using assms idx ok Some by (auto simp: acked_form Let_def rs_def split: if_splits)
    have "find_index (\<lambda>e. ev_ID e = nt_NotificationID n) (cs_Events ?st1) = Some i"
      using Some by (simp add: find_index_map)
    then have "holds_event dg n a rs ?t (cs_Events ?st1)"
      using e find_index_Some [OF Some] by (auto simp: holds_event_def)
    then show thesis using that [OF idx rs_def] ok e(1) by (simp add: upd_event_def)
  qed
qed

lemma modify_id: "i < length xs \<Longrightarrow> f (xs ! i) = xs ! i \<Longrightarrow> modify i f xs = xs"
  by (simp add: modify_def)

lemma mark_again:
  assumes "find_index P (cs_Events st) = Some i" "ev_Status (cs_Events st ! i) = ''acked''"
  shows "upd_event i (\<lambda>e. e\<lparr>ev_Status := ''acked''\<rparr>) st = st"
  unfolding upd_event_def using assms find_index_Some [OF assms(1)] by (subst modify_id) simp_all

lemma finish_keeps:
  assumes "idx < length (cs_Tasks st)"
  shows "taskIndex (finish_ack idx n a rs now st) = taskIndex st" "cs_Events (finish_ack idx n a rs now st) = cs_Events st"
    "cs_DispatcherSessionID (finish_ack idx n a rs now st) = cs_DispatcherSessionID st"
    "cs_Tasks (finish_ack idx n a rs now st) ! idx = ended n a rs now (cs_Tasks st ! idx)"
proof -
  have "find_index (\<lambda>t. tk_ID t = x) (modify idx (ended n a rs now) ts) = find_index (\<lambda>t. tk_ID t = x) ts" for x ts
    by (rule find_index_map) (simp add: ended_defs)
  then show "taskIndex (finish_ack idx n a rs now st) = taskIndex st" using assms by (simp add: finish_form taskIndex_def fun_eq_iff)
qed (use assms in \<open>simp_all add: finish_form\<close>)

lemma ended_fields [simp]:
  "tk_ID (ended n a rs now t) = tk_ID t" "tk_Generation (ended n a rs now t) = tk_Generation t"
  "tk_ChatSessionID (ended n a rs now t) = tk_ChatSessionID t"
  "cloudCollaborationTaskResultPath (ended n a rs now t) = cloudCollaborationTaskResultPath t"
  by (simp_all add: ended_defs cloudCollaborationTaskResultPath_def)

lemma acked_twice:
  assumes "acked_state dg st n a now = Inr st1"
  shows "\<exists>st2. acked_state dg st1 n a now' = Inr st2 \<and> timeless st2 = timeless st1"
  using assms
proof (rule acked_Inr)
  fix idx rs s
  let ?t = "cs_Tasks st ! idx"
  assume idx: "taskIndex st (nt_TaskID n) = Some idx"
    and rs: "rs = (if trim_space (ak_ResultStatus a) = [] then outcome_status n else trim_space (ak_ResultStatus a))"
    and t: "tk_Generation ?t = nt_Generation n" "tk_ChatSessionID ?t = nt_SourceSessionID n" "cloudCollaborationTaskResultPath ?t = nt_DeliverablePath n"
      "cs_DispatcherSessionID st = nt_TargetSessionID n"
    and st1: "st1 = finish_ack idx n a rs now s" and ev: "holds_event dg n a rs ?t (cs_Events s)" and s: "s = st\<lparr>cs_Events := cs_Events s\<rparr>"
  have same: "cs_Tasks s = cs_Tasks st" "taskIndex s = taskIndex st" "cs_DispatcherSessionID s = cs_DispatcherSessionID st"
    by (subst s, simp add: taskIndex_def fun_eq_iff)+
  have len: "idx < length (cs_Tasks s)" using taskIndex_Some [OF idx] same by simp
  note keeps = finish_keeps [OF len, of n a rs now, folded st1]
  obtain i where i: "find_index (\<lambda>e. ev_ID e = nt_NotificationID n) (cs_Events st1) = Some i" "ev_Signature (cs_Events st1 ! i) = ack_signature dg n a rs"
      "ev_TaskID (cs_Events st1 ! i) = tk_ID ?t" "ev_Generation (cs_Events st1 ! i) = tk_Generation ?t" "ev_SessionID (cs_Events st1 ! i) = tk_ChatSessionID ?t"
      "ev_Status (cs_Events st1 ! i) = ''acked''"
    using ev by (auto simp: holds_event_def keeps)
  have "acked_state dg st1 n a now' = Inr (finish_ack idx n a rs now' st1)"
    using idx t i by (simp add: acked_form Let_def keeps same mark_again [OF i(1,6)] flip: rs)
  then show ?thesis using finish_again [OF len] by (simp add: st1)
qed

end
