(* ===== verification/Completion_Props.thy ===== *)
theory Completion_Props
  imports Completion_Retry Collab_Request
begin

text \<open>Properties of the completion channel: reports, claims and acknowledgements as whole requests.\<close>

section \<open>The collaborations\<close>

text \<open>Property C11: whatever its action and outcome, a completion request leaves every stored collaboration
  well-formed and lets it only evolve, if the requests that run during its Node calls do so too; recording a
  result thus never changes what a task was granted, moves a generation or drops a CHAT.\<close>

theorem completion_guarantee:
  assumes "cooperative E" "hub_ok w" "wf_notifs (hb_notifs w)" "CloudCompletion E w ownerID req = (r, w')"
  shows "hub_ok w' \<and> evolves w w'"
  using safe_CloudCompletion [OF assms(1-3), of ownerID req] assms(4) by (simp add: safe_def)

section \<open>Reports\<close>

text \<open>What other requests must leave alone for a report to last: a notification keeps its identity.\<close>

definition lasting :: "env \<Rightarrow> bool" where
  "lasting E = (\<forall>w c. \<forall>n \<in> set (hb_notifs w). \<exists>m \<in> set (hb_notifs (snd (en_node E w c))). notif_ident m = notif_ident n)"

definition kept :: "hub \<Rightarrow> hub \<Rightarrow> bool" where
  "kept w w' = (\<forall>n \<in> set (hb_notifs w). \<exists>m \<in> set (hb_notifs w'). notif_ident m = notif_ident n)"

lemma kept_refl [simp]: "kept w w"
  by (auto simp: kept_def)

lemma kept_trans: "kept a b \<Longrightarrow> kept b c \<Longrightarrow> kept a c"
  unfolding kept_def by metis

lemma kept_audit [simp]: "kept w (audit_call o' m c a r k w') = kept w w'"
  by (simp add: kept_def audit_call_def)

lemma kept_node: "lasting E \<Longrightarrow> en_node E w c = (r, w') \<Longrightarrow> kept w w'"
  unfolding lasting_def kept_def by (metis snd_conv)

lemma kept_call: "agent_call E w ownerID machineID action params = (r, w') \<Longrightarrow> lasting E \<Longrightarrow> kept w w'"
  unfolding agent_call_def CallCapability_def Let_def
  by (auto split: sum.splits prod.splits node_reply.splits if_splits dest: kept_node)

lemma kept_route: "activateCloudCollaborationCallbackRoute E w ownerID rec st t b = (r, w') \<Longrightarrow> lasting E \<Longrightarrow> kept w w'"
  unfolding activateCloudCollaborationCallbackRoute_def registerCloudCollaborationCallback_def armCloudCollaborationCallback_def Let_def
  by (auto split: sum.splits prod.splits if_splits dest!: kept_call intro: kept_trans)

lemma kept_wake: "wake_node E w ownerID rec st t stored = (r, w') \<Longrightarrow> lasting E \<Longrightarrow> kept w w'"
  unfolding wake_node_def enqueueCloudCompletionOnNode_def
  by (auto split: sum.splits prod.splits option.splits if_splits dest!: kept_call kept_route intro: kept_trans)

text \<open>What a successful store step left in the table.\<close>

lemma enqueue_stored:
  assumes "EnqueueCloudCompletionNotification w rec = (Inr (n, b), w')"
  shows "n \<in> set (hb_notifs w') \<and> notif_key n = notif_key rec \<and> nt_SourceSessionID n = nt_SourceSessionID rec
    \<and> nt_TargetSessionID n = nt_TargetSessionID rec \<and> nt_DeliverablePath n = nt_DeliverablePath rec \<and> nt_NotificationID n = nt_NotificationID rec"
proof -
  obtain m ins where m: "normalizeAndValidateCloudCompletionRecord rec = Inr m" "insert_notification w (pending_row m) = Inr (ins, w')"
      "find (\<lambda>n. notif_key n = notif_key m) (hb_notifs w') = Some n" "notif_content n = notif_content m"
    using assms by (auto simp: EnqueueCloudCompletionNotification_def getCloudCompletionNotificationByTask_def split: sum.splits option.splits if_splits)
  obtain c where c: "m = rec\<lparr>nt_CallbackType := c\<rparr>" using normalize_Inr(2) [OF m(1)] by blast
  have "n \<in> set (hb_notifs w')" "notif_key n = notif_key m" using m(3) by (auto simp: find_Some_iff)
  then show ?thesis using m(4) by (simp add: notif_content_def notif_key_def c)
qed

lemma upgrade_stored:
  assumes "UpgradeCloudCompletionNotification w rec c = (Inr (n, b), w')"
  shows "n \<in> set (hb_notifs w') \<and> notif_key n = notif_key rec \<and> nt_SourceSessionID n = nt_SourceSessionID rec
    \<and> nt_TargetSessionID n = nt_TargetSessionID rec \<and> nt_DeliverablePath n = nt_DeliverablePath rec \<and> nt_NotificationID n = nt_NotificationID rec"
proof -
  obtain m where m: "normalizeAndValidateCloudCompletionRecord rec = Inr m" "find (\<lambda>n. notif_key n = notif_key m) (hb_notifs w') = Some n"
      "notif_content n = notif_content (m\<lparr>nt_Outcome := ''completed''\<rparr>)"
    using assms by (auto simp: UpgradeCloudCompletionNotification_def getCloudCompletionNotificationByTask_def Let_def
        split: sum.splits option.splits if_splits)
  obtain k where k: "m = rec\<lparr>nt_CallbackType := k\<rparr>" using normalize_Inr(2) [OF m(1)] by blast
  have "n \<in> set (hb_notifs w')" "notif_key n = notif_key m" using m(2) by (auto simp: find_Some_iff)
  then show ?thesis using m(3) by (simp add: notif_content_def notif_key_def k)
qed

lemma store_stored:
  assumes "store_notification w rec recovery = (Inr (n, b), w')"
  shows "n \<in> set (hb_notifs w') \<and> notif_key n = notif_key rec \<and> nt_SourceSessionID n = nt_SourceSessionID rec
    \<and> nt_TargetSessionID n = nt_TargetSessionID rec \<and> nt_DeliverablePath n = nt_DeliverablePath rec \<and> nt_NotificationID n = nt_NotificationID rec"
  using assms by (auto simp: store_notification_def split: sum.splits prod.splits if_splits dest!: enqueue_stored upgrade_stored)

text \<open>The identity a report is stored under: the task and generation, the CHAT as its source whoever reported,
  the dispatcher as its target, and the result file the task was assigned.\<close>

definition report_of :: "string \<Rightarrow> collab_row \<Rightarrow> collab_state \<Rightarrow> task \<Rightarrow> string \<Rightarrow> notif_row \<Rightarrow> bool" where
  "report_of ownerID rec st t kind n = (notif_key n = (ownerID, cb_CollaborationID rec, tk_ID t, tk_Generation t, kind)
     \<and> nt_SourceSessionID n = tk_ChatSessionID t \<and> nt_TargetSessionID n = cs_DispatcherSessionID st
     \<and> nt_DeliverablePath n = cloudCollaborationTaskResultPath t)"

lemma report_of_ident: "notif_ident m = notif_ident n \<Longrightarrow> report_of ownerID rec st t kind m = report_of ownerID rec st t kind n"
  by (simp add: notif_ident_def report_of_def)

lemma report_of_kept: "\<exists>n \<in> set (hb_notifs w). report_of ownerID rec st t kind n \<Longrightarrow> kept w w' \<Longrightarrow> \<exists>n \<in> set (hb_notifs w'). report_of ownerID rec st t kind n"
  unfolding kept_def using report_of_ident by meson

lemma stored_report:
  assumes "store_notification w (notification_for dg now ownerID req rec st t) (is_recovery st req) = (Inr (n, b), w')"
  shows "\<exists>n \<in> set (hb_notifs w'). report_of ownerID rec st t (if is_recovery st req then ''recovery'' else ''completion'') n"
  using store_stored [OF assms] by (intro bexI [of _ n]) (simp_all add: report_of_def notification_for_def notif_key_def Let_def)

lemma store_not_pending:
  assumes "store_notification w n b = (Inl e, w')"
  shows "e \<noteq> delivery_pending s e'"
  using assms by (auto simp: store_notification_def EnqueueCloudCompletionNotification_def UpgradeCloudCompletionNotification_def
      insert_notification_def getCloudCompletionNotificationByTask_def normalizeAndValidateCloudCompletionRecord_def delivery_pending_def
      call_error_def constraint_error_def Let_def split: sum.splits prod.splits if_splits option.splits)

text \<open>A report that is accepted, or whose wake-up alone failed, is in the table when the request
  returns, under the task's own CHAT and generation and addressed to the dispatcher, whoever sent it and
  whatever happened while the Node was called.\<close>

theorem notify_durable:
  assumes env: "lasting E" and tgt: "notify_target (dgs E) w ownerID req = Inr (rec, st, t)"
    and n: "notifyCloudCompletion E w ownerID req = (r, w')"
    and ok: "is_ok r \<or> tk_CallbackType t \<noteq> ''local_file'' \<and> (\<exists>s e. r = Inl (delivery_pending s e))"
  shows "\<exists>n \<in> set (hb_notifs w'). report_of ownerID rec st t (if is_recovery st req then ''recovery'' else ''completion'') n"
proof -
  obtain f w1 where f: "notify_file E w ownerID req rec st t = (f, w1)" by (metis surj_pair)
  have fok: "is_ok f"
  proof (cases f)
    case (Inl e)
    then have r: "r = Inl e" using n tgt f by (simp add: notifyCloudCompletion_def)
    then have "tk_CallbackType t \<noteq> ''local_file''" using ok by simp
    then show ?thesis using f by (auto simp: notify_file_def)
  qed simp
  then obtain g where g: "f = Inr g" by (auto simp: is_ok_iff)
  obtain x w2 where x: "store_notification w1 (notification_for (dgs E) (hb_now w1) ownerID req rec st t) (is_recovery st req) = (x, w2)"
    by (metis surj_pair)
  show ?thesis
  proof (cases x)
    case (Inl e)
    then have "r = Inl e" using n tgt f g x by (simp add: notifyCloudCompletion_def Let_def)
    then show ?thesis using store_not_pending [OF x [unfolded Inl]] ok by auto
  next
    case (Inr p)
    obtain stored b where p: "p = (stored, b)" by (cases p)
    note rep = stored_report [OF x [unfolded Inr p]]
    have "kept w2 w'"
      using n tgt f g x Inr p
      by (auto simp: notifyCloudCompletion_def Let_def split: if_splits sum.splits prod.splits intro: kept_wake [OF _ env])
    then show ?thesis using report_of_kept [OF rep] by blast
  qed
qed

section \<open>Acknowledgements\<close>

lemma resolve_recovery:
  assumes "\<forall>n \<in> set ns. nt_NotificationKind n = ''recovery''" "resolve_loop E ownerID acks ns acc w = (r, w')"
  shows "w' = w"
  using assms by (induction ns arbitrary: acc) (auto split: option.splits)

lemma apply_recovery:
  assumes "\<forall>n \<in> set ns. nt_NotificationKind n = ''recovery''"
  shows "apply_all E ownerID resolved now ns w = (Inr (), w)"
  using assms by (induction ns) auto

text \<open>Acknowledging a claim of recovery reports is a receipt only: no collaboration, audit entry or
  other table changes and no Node is asked, whatever the acknowledgement says.\<close>

theorem recovery_only_receipt:
  assumes claim: "GetCloudCompletionClaim w ownerID (trim_space (cq_ActorSessionID req)) (trim_space (cq_ClaimID req)) (hb_now w)
      cloudCompletionClaimLease = Inr (ns, b)"
    and rec: "\<forall>n \<in> set ns. nt_NotificationKind n = ''recovery''"
    and a: "ackCloudCompletions E w ownerID req = (r, w')"
  shows "w' = w\<lparr>hb_notifs := hb_notifs w'\<rparr>"
proof -
  have "w = w\<lparr>hb_notifs := hb_notifs w\<rparr>" by simp
  then have "\<exists>t. w = w\<lparr>hb_notifs := t\<rparr>" by blast
  then have "\<exists>t. w' = w\<lparr>hb_notifs := t\<rparr>"
    using a claim rec
    by (auto simp: ackCloudCompletions_def Let_def apply_recovery run_def split: option.splits sum.splits bool.splits if_splits prod.splits
        dest!: resolve_recovery [OF rec] acknowledge_collabs)
  then show ?thesis by auto
qed

text \<open>An accepted acknowledgement of a text always carries the exact size and digest of the stored
  text and the status of the reported outcome, whatever the caller left out; a status carries no result at all, and a
  completed file is recorded only with a digest and as ready.\<close>

theorem resolve_exact:
  assumes "resolveCloudCompletionAcknowledgement dg n a = Inr r"
  shows "(nt_CallbackType n = ''text'' \<and> ak_ResultBytes r = int (length (nt_ResultText n)) \<and> ak_ResultSHA256 r = text_sha dg (nt_ResultText n)
        \<and> ak_ResultID r = [] \<and> ak_ResultStatus r = outcome_status n)
    \<or> (nt_CallbackType n = ''status'' \<and> ak_ResultBytes r = 0 \<and> ak_ResultSHA256 r = [] \<and> ak_ResultID r = [] \<and> ak_ResultStatus r = outcome_status n)
    \<or> (nt_CallbackType n = ''local_file'' \<and> r = a \<and> (nt_Outcome n \<noteq> ''completed'' \<or> ak_ResultSHA256 r \<noteq> [] \<and> ak_DeliverableStatus r = ''ready''))"
  using assms by (auto simp: resolveCloudCompletionAcknowledgement_def Let_def split: if_splits)

text \<open>Recording an acknowledged result puts an acknowledged event under the notification's identifier
  into the log, gives the task the reported text, digest and end (done for a completed outcome, blocked for any
  other) and touches no other task.\<close>

theorem ack_settles:
  assumes "acked_state dg st n a now = Inr st'"
  shows "\<exists>idx. taskIndex st (nt_TaskID n) = Some idx \<and> tk_Generation (cs_Tasks st ! idx) = nt_Generation n
    \<and> (let t' = cs_Tasks st' ! idx in tk_Status t' = (if nt_Outcome n = ''completed'' then ''done'' else ''blocked'')
         \<and> tk_ResultText t' = (if nt_CallbackType n = ''text'' then nt_ResultText n else []) \<and> tk_ResultSHA256 t' = ak_ResultSHA256 a
         \<and> grant_of t' = grant_of (cs_Tasks st ! idx))
    \<and> (\<exists>e \<in> set (cs_Events st'). ev_ID e = nt_NotificationID n \<and> ev_TaskID e = nt_TaskID n \<and> ev_Status e = ''acked'')
    \<and> (\<forall>j < length (cs_Tasks st). j \<noteq> idx \<longrightarrow> cs_Tasks st' ! j = cs_Tasks st ! j)"
  using assms
proof (rule acked_Inr)
  fix idx rs s
  let ?t = "cs_Tasks st ! idx"
  assume idx: "taskIndex st (nt_TaskID n) = Some idx" and gen: "tk_Generation ?t = nt_Generation n"
    and st': "st' = finish_ack idx n a rs now s" and ev: "holds_event dg n a rs ?t (cs_Events s)" and s: "s = st\<lparr>cs_Events := cs_Events s\<rparr>"
  have tasks: "cs_Tasks s = cs_Tasks st" by (subst s) simp
  have len: "idx < length (cs_Tasks s)" and id: "tk_ID ?t = nt_TaskID n" using taskIndex_Some [OF idx] tasks by simp_all
  obtain i where i: "find_index (\<lambda>e. ev_ID e = nt_NotificationID n) (cs_Events st') = Some i" "ev_TaskID (cs_Events st' ! i) = tk_ID ?t"
      "ev_Status (cs_Events st' ! i) = ''acked''"
    using ev by (auto simp: holds_event_def st' finish_keeps [OF len])
  have event: "\<exists>e \<in> set (cs_Events st'). ev_ID e = nt_NotificationID n \<and> ev_TaskID e = nt_TaskID n \<and> ev_Status e = ''acked''"
    using find_index_Some [OF i(1)] i id by (intro bexI [of _ "cs_Events st' ! i"]) simp_all
  have t': "cs_Tasks st' ! idx = ended n a rs now ?t" using finish_keeps(4) [OF len] by (simp add: st' tasks)
  have "cs_Tasks st' ! j = cs_Tasks st ! j" if "j < length (cs_Tasks st)" "j \<noteq> idx" for j
    using that len by (simp add: st' finish_form tasks nth_modify)
  then show ?thesis
    using idx gen event by (auto simp: t' Let_def ended_defs grant_of_def)
qed

text \<open>An acknowledgement that is retried because the answer to it was lost is accepted again and
  changes nothing but time stamps.\<close>

theorem ack_retry:
  assumes "acked_state dg st n a now = Inr st1"
  shows "\<exists>st2. acked_state dg st1 n a now' = Inr st2 \<and> timeless st2 = timeless st1"
  using acked_twice [OF assms] .

section \<open>Concrete reports\<close>

definition demo_report :: completion_request where
  "demo_report = \<lparr>cq_Action = ''notify'', cq_CollaborationID = ''c1'', cq_TaskID = ''t1'', cq_ActorSessionID = ''dsp'', cq_SourceSessionID = ''s1'',
     cq_ExpectedGeneration = 0, cq_Outcome = ''completed'', cq_CallbackType = [], cq_Text = [], cq_ClaimID = ''k1'', cq_Limit = 0,
     cq_Acknowledgements = []\<rparr>"

definition demo_receipt :: notif_row where
  "demo_receipt = \<lparr>nt_NotificationID = ''recovery_1'', nt_OwnerID = ''o1'', nt_CollaborationID = ''c1'', nt_TaskID = ''t1'', nt_Generation = 1,
     nt_NotificationKind = ''recovery'', nt_Outcome = ''blocked'', nt_CallbackType = ''local_file'', nt_ResultText = [], nt_SourceSessionID = ''s1'',
     nt_TargetSessionID = ''dsp'', nt_DeliverablePath = ''/w/r.md'', nt_State = ''claimed'', nt_ClaimID = ''k1'', nt_ClaimedAt = Some 1800000000,
     nt_AckedAt = None, nt_CreatedAt = 1799990000, nt_UpdatedAt = 1800000000\<rparr>"

definition demo_claimed :: hub where
  "demo_claimed = (demo_hub demo_running)\<lparr>hb_notifs := [demo_receipt]\<rparr>"

lemma demo_lasting: "lasting demo_env"
  by (auto simp: lasting_def demo_env_def)

theorem completion_guarantee_witness:
  "\<exists>r w'. CloudCompletion demo_env (demo_hub demo_running) ''o1'' demo_report = (r, w') \<and> hub_ok w' \<and> evolves (demo_hub demo_running) w'"
proof -
  obtain r w' where e: "CloudCompletion demo_env (demo_hub demo_running) ''o1'' demo_report = (r, w')" by (metis surj_pair)
  have "wf_notifs (hb_notifs (demo_hub demo_running))" by (simp add: demo_hub_def)
  then show ?thesis using completion_guarantee [OF demo_cooperative demo_hub_ok [OF demo_wf(2)] _ e] e by blast
qed

lemma demo_target: "notify_target (dgs demo_env) (demo_hub demo_running) ''o1'' demo_report = Inr (demo_row demo_running, demo_running, demo_task)"
  by code_simp

lemma demo_notify_ok: "is_ok (fst (notifyCloudCompletion demo_env (demo_hub demo_running) ''o1'' demo_report))"
  by code_simp

theorem notify_durable_witness:
  "\<exists>n \<in> set (hb_notifs (snd (notifyCloudCompletion demo_env (demo_hub demo_running) ''o1'' demo_report))).
     report_of ''o1'' (demo_row demo_running) demo_running demo_task ''recovery'' n"
proof -
  have "is_recovery demo_running demo_report" by code_simp
  then show ?thesis
    using notify_durable [OF demo_lasting demo_target prod.collapse [symmetric] disjI1 [OF demo_notify_ok]] by simp
qed

lemma demo_claim_found: "GetCloudCompletionClaim demo_claimed ''o1'' (trim_space (cq_ActorSessionID demo_report)) (trim_space (cq_ClaimID demo_report))
    (hb_now demo_claimed) cloudCompletionClaimLease = Inr ([demo_receipt], False)"
  by code_simp

theorem recovery_only_receipt_witness:
  "hb_collabs (snd (ackCloudCompletions demo_env demo_claimed ''o1'' demo_report)) = hb_collabs demo_claimed"
proof -
  let ?w = "snd (ackCloudCompletions demo_env demo_claimed ''o1'' demo_report)"
  have "?w = demo_claimed\<lparr>hb_notifs := hb_notifs ?w\<rparr>"
    by (rule recovery_only_receipt [OF demo_claim_found _ prod.collapse [symmetric]]) (simp add: demo_receipt_def)
  then have "hb_collabs ?w = hb_collabs (demo_claimed\<lparr>hb_notifs := hb_notifs ?w\<rparr>)" by metis
  then show ?thesis by simp
qed

lemma demo_resolved: "resolveCloudCompletionAcknowledgement demo_digests (demo_receipt\<lparr>nt_CallbackType := ''text'', nt_ResultText := ''late''\<rparr>) (bare_ack ''recovery_1'')
    = Inr ((bare_ack ''recovery_1'')\<lparr>ak_ResultBytes := 4, ak_ResultSHA256 := text_sha demo_digests ''late'', ak_ResultStatus := ''failed''\<rparr>)"
  by code_simp

theorem resolve_exact_witness:
  "ak_ResultBytes ((bare_ack ''recovery_1'')\<lparr>ak_ResultBytes := 4, ak_ResultSHA256 := text_sha demo_digests ''late'', ak_ResultStatus := ''failed''\<rparr>)
    = int (length ''late'')"
  using resolve_exact [OF demo_resolved] by simp

definition demo_recorded :: collab_state where
  "demo_recorded = (case acked_state demo_digests demo_running demo_receipt (bare_ack ''recovery_1'') demo_now of Inr st \<Rightarrow> st | Inl _ \<Rightarrow> demo_state)"

lemma demo_acked: "acked_state demo_digests demo_running demo_receipt (bare_ack ''recovery_1'') demo_now = Inr demo_recorded"
proof -
  have "is_ok (acked_state demo_digests demo_running demo_receipt (bare_ack ''recovery_1'') demo_now)" by code_simp
  then show ?thesis unfolding demo_recorded_def by (auto simp: is_ok_iff)
qed

theorem ack_settles_witness: "tk_Status (cs_Tasks demo_recorded ! 0) = ''blocked''"
proof -
  have "taskIndex demo_running (nt_TaskID demo_receipt) = Some 0" by code_simp
  moreover have "nt_Outcome demo_receipt \<noteq> ''completed''" by (simp add: demo_receipt_def)
  ultimately show ?thesis using ack_settles [OF demo_acked] by (simp add: Let_def)
qed

theorem ack_retry_witness:
  "is_ok (acked_state demo_digests demo_recorded demo_receipt (bare_ack ''recovery_1'') (demo_now + minute))"
  using ack_retry [OF demo_acked] by (auto simp: is_ok_iff)

definition demo_completed :: collab_state where
  "demo_completed = demo_running\<lparr>cs_Status := ''completed'', cs_Tasks := [demo_task\<lparr>tk_Status := ''dropped''\<rparr>], cs_Chats := [demo_chat\<lparr>ct_Status := ''archived''\<rparr>]\<rparr>"

text \<open>Recording looks neither at the state of the collaboration nor at the task's: the late report of a
  blocked CHAT turns a task that was dropped, in a collaboration that is completed, into a blocked one.\<close>

theorem late_ack_unsettles:
  "wf_state demo_completed \<and> map tk_Status (cs_Tasks demo_completed) = [''dropped'']
    \<and> (case acked_state demo_digests demo_completed demo_receipt (bare_ack ''recovery_1'') demo_now of
         Inl _ \<Rightarrow> False
       | Inr st \<Rightarrow> cs_Status st = ''completed'' \<and> map tk_Status (cs_Tasks st) = [''blocked''] \<and> map ct_Status (cs_Chats st) = [''failed''])"
  by code_simp

end
