(* ===== verification/Json_Text.thy ===== *)
theory Json_Text
  imports Task_Ref
begin

text \<open>
  Reading JSON text as \<open>encoding/json\<close> does: the grammar with its white space, escapes and numbers, strings
  with invalid UTF-8 replaced by U+FFFD. The recursion on values takes twice the length of the text as its
  fuel: of two nested calls at least one consumes a character. (The decoder's limit of 10000 nested values is out of reach of
  the texts read here, which are at most 2048 bytes long.)
\<close>

datatype jtext = TNull | TBool bool | TNum string | TStr string | TArr "jtext list" | TObj "(string \<times> jtext) list"

section \<open>Strings\<close>

definition hex_value :: "char \<Rightarrow> nat option" where
  "hex_value c = (let n = of_char c :: nat
     in if 48 \<le> n \<and> n \<le> 57 then Some (n - 48)
        else if 97 \<le> n \<and> n \<le> 102 then Some (n - 87)
        else if 65 \<le> n \<and> n \<le> 70 then Some (n - 55) else None)"

text \<open>\<open>getu4\<close>: the four digits after \<open>\u\<close>.\<close>

fun hex4 :: "string \<Rightarrow> nat option" where
  "hex4 (a # b # c # d # _) =
     (case (hex_value a, hex_value b, hex_value c, hex_value d) of
        (Some p, Some q, Some r, Some s) \<Rightarrow> Some (((p * 16 + q) * 16 + r) * 16 + s)
      | _ \<Rightarrow> None)"
| "hex4 _ = None"

text \<open>\<open>utf8.EncodeRune\<close>; a surrogate half or a value out of range is written as U+FFFD.\<close>

definition encode_rune :: "nat \<Rightarrow> string" where
  "encode_rune r =
     (if r < 128 then [char_of r]
      else if r < 2048 then [char_of (192 + r div 64), char_of (128 + r mod 64)]
      else if 55296 \<le> r \<and> r \<le> 57343 \<or> 1114111 < r then [CHR 0xEF, CHR 0xBF, CHR 0xBD]
      else if r < 65536 then [char_of (224 + r div 4096), char_of (128 + r div 64 mod 64), char_of (128 + r mod 64)]
      else [char_of (240 + r div 262144), char_of (128 + r div 4096 mod 64), char_of (128 + r div 64 mod 64), char_of (128 + r mod 64)])"

definition simple_escape :: "char \<Rightarrow> char option" where
  "simple_escape c = (if c = CHR 0x22 \<or> c = CHR 0x5C \<or> c = CHR ''/'' then Some c
     else if c = CHR ''b'' then Some (CHR 0x08) else if c = CHR ''f'' then Some (CHR 0x0C)
     else if c = CHR ''n'' then Some (CHR 0x0A) else if c = CHR ''r'' then Some (CHR 0x0D)
     else if c = CHR ''t'' then Some (CHR 0x09) else None)"

definition cons_text :: "string \<Rightarrow> (string \<times> string) option \<Rightarrow> (string \<times> string) option" where
  "cons_text t r = (case r of None \<Rightarrow> None | Some (s, rest) \<Rightarrow> Some (t @ s, rest))"

text \<open>A high surrogate followed by an escaped low one is one rune.\<close>

definition surrogate_pair :: "nat \<Rightarrow> string \<Rightarrow> nat option" where
  "surrogate_pair r s =
     (if 55296 \<le> r \<and> r < 56320 \<and> take 2 s = [CHR 0x5C, CHR ''u''] then
        (case hex4 (drop 2 s) of
           Some r2 \<Rightarrow> if 56320 \<le> r2 \<and> r2 < 57344 then Some ((r - 55296) * 1024 + (r2 - 56320) + 65536) else None
         | None \<Rightarrow> None)
      else None)"

text \<open>What follows the opening quote: the string, and the text after the closing one.\<close>

function parse_string :: "string \<Rightarrow> (string \<times> string) option" where
  "parse_string [] = None"
| "parse_string (c # s) =
     (if c = CHR 0x22 then Some ([], s)
      else if c = CHR 0x5C then
        (case s of
           [] \<Rightarrow> None
         | e # s \<Rightarrow>
             if e = CHR ''u'' then
               (case hex4 s of
                  None \<Rightarrow> None
                | Some r \<Rightarrow>
                    (case surrogate_pair r (drop 4 s) of
                       Some r2 \<Rightarrow> cons_text (encode_rune r2) (parse_string (drop 10 s))
                     | None \<Rightarrow> cons_text (encode_rune r) (parse_string (drop 4 s))))
             else (case simple_escape e of None \<Rightarrow> None | Some x \<Rightarrow> cons_text [x] (parse_string s)))
      else if (of_char c :: nat) < 32 then None
      else if (of_char c :: nat) < 128 then cons_text [c] (parse_string s)
      else if utf8_lead (c # s) = 0 then cons_text [CHR 0xEF, CHR 0xBF, CHR 0xBD] (parse_string s)
      else cons_text (take (utf8_lead (c # s)) (c # s)) (parse_string (drop (utf8_lead (c # s)) (c # s))))"
  by pat_completeness auto
termination by (relation "measure length") auto

declare parse_string.simps [simp del]

section \<open>Numbers\<close>

definition digit :: "char \<Rightarrow> bool" where
  "digit c = (48 \<le> (of_char c :: nat) \<and> (of_char c :: nat) \<le> 57)"

definition take_digits :: "string \<Rightarrow> string \<times> string" where
  "take_digits s = (takeWhile digit s, dropWhile digit s)"

definition parse_fraction :: "string \<Rightarrow> (string \<times> string) option" where
  "parse_fraction s = (case s of
     c # t \<Rightarrow> if c = CHR ''.'' then (case take_digits t of (ds, r) \<Rightarrow> if ds = [] then None else Some (c # ds, r)) else Some ([], s)
   | [] \<Rightarrow> Some ([], s))"

definition parse_exponent :: "string \<Rightarrow> (string \<times> string) option" where
  "parse_exponent s = (case s of
     c # t \<Rightarrow>
       if c = CHR ''e'' \<or> c = CHR ''E'' then
         (let sgn = (case t of x # _ \<Rightarrow> if x = CHR ''+'' \<or> x = CHR ''-'' then [x] else [] | [] \<Rightarrow> [])
          in case take_digits (drop (length sgn) t) of (ds, r) \<Rightarrow> if ds = [] then None else Some (c # sgn @ ds, r))
       else Some ([], s)
   | [] \<Rightarrow> Some ([], s))"

definition parse_number :: "string \<Rightarrow> (string \<times> string) option" where
  "parse_number s =
     (let sgn = (case s of c # _ \<Rightarrow> if c = CHR ''-'' then [c] else [] | [] \<Rightarrow> []); t = drop (length sgn) s
      in case t of
           [] \<Rightarrow> None
         | c # u \<Rightarrow>
             if \<not> digit c then None
             else (let (ds, r) = (if c = CHR ''0'' then ([c], u) else take_digits t)
                   in case parse_fraction r of
                        None \<Rightarrow> None
                      | Some (f, r) \<Rightarrow> (case parse_exponent r of None \<Rightarrow> None | Some (e, r) \<Rightarrow> Some (sgn @ ds @ f @ e, r))))"

section \<open>Values\<close>

definition json_space :: "char \<Rightarrow> bool" where
  "json_space c = (c = CHR '' '' \<or> c = CHR 0x09 \<or> c = CHR 0x0A \<or> c = CHR 0x0D)"

definition skip :: "string \<Rightarrow> string" where "skip s = dropWhile json_space s"

definition literal :: "string \<Rightarrow> 'a \<Rightarrow> string \<Rightarrow> ('a \<times> string) option" where
  "literal word v s = (if take (length word) s = word then Some (v, drop (length word) s) else None)"

fun parse_value :: "nat \<Rightarrow> string \<Rightarrow> (jtext \<times> string) option"
  and parse_elems :: "nat \<Rightarrow> string \<Rightarrow> (jtext list \<times> string) option"
  and parse_members :: "nat \<Rightarrow> string \<Rightarrow> ((string \<times> jtext) list \<times> string) option" where
  "parse_value 0 s = None"
| "parse_value (Suc k) s =
     (case skip s of
        [] \<Rightarrow> None
      | c # t \<Rightarrow>
          if c = CHR 0x22 then map_option (\<lambda>(x, r). (TStr x, r)) (parse_string t)
          else if c = CHR 0x7B then
            (case skip t of
               [] \<Rightarrow> None
             | d # u \<Rightarrow> if d = CHR 0x7D then Some (TObj [], u) else map_option (\<lambda>(m, r). (TObj m, r)) (parse_members k (d # u)))
          else if c = CHR 0x5B then
            (case skip t of
               [] \<Rightarrow> None
             | d # u \<Rightarrow> if d = CHR 0x5D then Some (TArr [], u) else map_option (\<lambda>(m, r). (TArr m, r)) (parse_elems k (d # u)))
          else if c = CHR ''n'' then literal ''null'' TNull (c # t)
          else if c = CHR ''t'' then literal ''true'' (TBool True) (c # t)
          else if c = CHR ''f'' then literal ''false'' (TBool False) (c # t)
          else map_option (\<lambda>(x, r). (TNum x, r)) (parse_number (c # t)))"
| "parse_elems 0 s = None"
| "parse_elems (Suc k) s =
     (case parse_value k s of
        None \<Rightarrow> None
      | Some (v, r) \<Rightarrow>
          (case skip r of
             [] \<Rightarrow> None
           | c # t \<Rightarrow> if c = CHR 0x5D then Some ([v], t)
                      else if c = CHR '','' then map_option (\<lambda>(vs, r). (v # vs, r)) (parse_elems k t) else None))"
| "parse_members 0 s = None"
| "parse_members (Suc k) s =
     (case skip s of
        [] \<Rightarrow> None
      | q # t \<Rightarrow>
          if q \<noteq> CHR 0x22 then None
          else (case parse_string t of
             None \<Rightarrow> None
           | Some (name, r) \<Rightarrow>
               (case skip r of
                  [] \<Rightarrow> None
                | c # t \<Rightarrow>
                    if c \<noteq> CHR '':'' then None
                    else (case parse_value k t of
                       None \<Rightarrow> None
                     | Some (v, r) \<Rightarrow>
                         (case skip r of
                            [] \<Rightarrow> None
                          | d # t \<Rightarrow> if d = CHR 0x7D then Some ([(name, v)], t)
                                     else if d = CHR '','' then map_option (\<lambda>(ms, r). ((name, v) # ms, r)) (parse_members k t)
                                     else None)))))"

text \<open>A whole text: one value and nothing but white space after it.\<close>

definition parse_json :: "string \<Rightarrow> jtext option" where
  "parse_json s = (case parse_value (2 * length s + 2) s of Some (v, r) \<Rightarrow> if skip r = [] then Some v else None | None \<Rightarrow> None)"

end
