(* ===== verification/Json_Round.thy ===== *)
theory Json_Round
  imports Json_Text
begin

text \<open>A string that \<open>encoding/json\<close> has written is read back as it was, if it is valid UTF-8.\<close>

section \<open>UTF-8 sequences\<close>

definition two :: "nat \<Rightarrow> nat \<Rightarrow> bool" where
  "two a b = (in_range 0xC2 0xDF a \<and> in_range 0x80 0xBF b)"

definition three :: "nat \<Rightarrow> nat \<Rightarrow> bool" where
  "three a b = (a = 0xE0 \<and> in_range 0xA0 0xBF b \<or> a = 0xED \<and> in_range 0x80 0x9F b
     \<or> (in_range 0xE1 0xEC a \<or> in_range 0xEE 0xEF a) \<and> in_range 0x80 0xBF b)"

definition four :: "nat \<Rightarrow> nat \<Rightarrow> bool" where
  "four a b = (a = 0xF0 \<and> in_range 0x90 0xBF b \<or> in_range 0xF1 0xF3 a \<and> in_range 0x80 0xBF b \<or> a = 0xF4 \<and> in_range 0x80 0x8F b)"

definition cont :: "nat \<Rightarrow> bool" where "cont c = in_range 0x80 0xBF c"

text \<open>The length of the sequence at the front, 0 when there is none.\<close>

fun seq_len :: "nat list \<Rightarrow> nat" where
  "seq_len (a # b # c # d # s) = (if a < 128 then 1 else if two a b then 2 else if \<not> cont c then 0 else if three a b then 3
     else if cont d \<and> four a b then 4 else 0)"
| "seq_len [a, b, c] = (if a < 128 then 1 else if two a b then 2 else if cont c \<and> three a b then 3 else 0)"
| "seq_len [a, b] = (if a < 128 then 1 else if two a b then 2 else 0)"
| "seq_len [a] = (if a < 128 then 1 else 0)"
| "seq_len [] = 0"

lemma count_four: "utf8_count (a # b # c # d # s) = (if a < 128 then map_option Suc (utf8_count (b # c # d # s))
    else if two a b then map_option Suc (utf8_count (c # d # s)) else if \<not> cont c then None
    else if three a b then map_option Suc (utf8_count (d # s)) else if cont d \<and> four a b then map_option Suc (utf8_count s) else None)"
  by (subst utf8_count.simps(2)) (simp only: list.case two_def three_def four_def cont_def)

lemma count_step: "utf8_count xs = (if xs = [] then Some 0 else if seq_len xs = 0 then None else map_option Suc (utf8_count (drop (seq_len xs) xs)))"
proof (cases xs rule: seq_len.cases)
  case (1 a b c d s)
  show ?thesis unfolding 1 count_four by (simp del: utf8_count.simps)
qed (auto simp: two_def three_def cont_def)

lemma seq_le: "seq_len xs \<le> length xs"
  by (cases xs rule: seq_len.cases) simp_all

lemma count_zero: "utf8_count xs = Some 0 \<longleftrightarrow> xs = []"
  by (subst count_step) auto

lemma count_one: "utf8_count xs = Some 1 \<longleftrightarrow> xs \<noteq> [] \<and> seq_len xs = length xs"
  using seq_le [of xs] by (subst count_step) (auto simp: count_zero)

lemma lead_seq: "utf8_lead s = seq_len (map of_char s)"
  by (cases s rule: utf8_lead.cases) (simp_all add: count_one [unfolded One_nat_def] del: utf8_count.simps)

lemma seq_take: "0 < seq_len xs \<Longrightarrow> seq_len (take (seq_len xs) xs @ t) = seq_len xs"
  by (cases xs rule: seq_len.cases; cases t rule: seq_len.cases) (simp_all split: if_splits)

lemma lead_take: "0 < utf8_lead s \<Longrightarrow> utf8_lead (take (utf8_lead s) s @ t) = utf8_lead s"
  unfolding lead_seq using seq_take [of "map of_char s" "map of_char t"] by (simp add: take_map)

lemma lead_le: "utf8_lead s \<le> length s"
  unfolding lead_seq using seq_le [of "map of_char s"] by simp

lemma valid_lead:
  assumes "rune_count s \<noteq> None" "s \<noteq> []"
  shows "0 < utf8_lead s" "rune_count (drop (utf8_lead s) s) \<noteq> None"
  using assms count_step [of "map of_char s"] by (auto simp: rune_count_def lead_seq drop_map split: if_splits)

section \<open>Strings\<close>

lemma nonascii_char: "128 \<le> (of_char c :: nat) \<Longrightarrow> c \<noteq> CHR 0x22 \<and> c \<noteq> CHR 0x5C"
  by auto

lemma hex_digit: "hex_value (hex_char n) = Some (n mod 16)"
proof -
  have "\<forall>m \<in> set [0..<16]. hex_value (''0123456789abcdef'' ! m) = Some m" by code_simp
  then show ?thesis by (simp add: hex_char_def)
qed

lemma hex_chars: "n < 128 \<Longrightarrow> hex4 (''00'' @ [hex_char (n div 16), hex_char n]) = Some n"
proof -
  assume "n < 128"
  then have "n div 16 mod 16 = n div 16" by simp
  moreover have "hex_value (CHR ''0'') = Some 0" by (simp add: hex_value_def)
  ultimately show ?thesis by (simp add: hex_digit)
qed

lemma parse_quote: "parse_string (CHR 0x22 # s) = Some ([], s)"
  by (simp add: parse_string.simps)

lemma parse_u:
  assumes "hex4 [a, b, c, d] = Some n" "n < 55296"
  shows "parse_string (CHR 0x5C # CHR ''u'' # a # b # c # d # s) = cons_text (encode_rune n) (parse_string s)"
proof -
  have "hex4 (a # b # c # d # s) = Some n" using assms(1) by simp
  moreover have "surrogate_pair n s = None" using assms(2) by (simp add: surrogate_pair_def)
  ultimately show ?thesis by (subst parse_string.simps) (simp del: hex4.simps)
qed

lemma parse_simple: "simple_escape e = Some x \<Longrightarrow> parse_string (CHR 0x5C # e # s) = cons_text [x] (parse_string s)"
  by (subst parse_string.simps) (auto simp: simple_escape_def split: if_splits)

lemma parse_ascii:
  assumes "(of_char c :: nat) < 128"
  shows "parse_string (json_ascii c @ s) = cons_text [c] (parse_string s)"
proof -
  have "hex4 (''00'' @ [hex_char (of_char c div 16), hex_char (of_char c)]) = Some (of_char c)" using hex_chars [OF assms] .
  then have "parse_string (u00 (of_char c) @ s) = cons_text (encode_rune (of_char c)) (parse_string s)"
    using parse_u [of "CHR ''0''" "CHR ''0''"] assms by (simp add: u00_def del: hex4.simps)
  then have u: "parse_string (u00 (of_char c) @ s) = cons_text [c] (parse_string s)" using assms by (simp add: encode_rune_def)
  have plain: "parse_string (c # s) = cons_text [c] (parse_string s)" if "c \<noteq> CHR 0x22" "c \<noteq> CHR 0x5C" "\<not> (of_char c :: nat) < 32"
    using that assms by (subst parse_string.simps) simp
  show ?thesis
    unfolding json_ascii_def using u plain by (auto simp: parse_simple simple_escape_def)
qed

lemma parse_wide:
  assumes "128 \<le> (of_char c :: nat)" "0 < utf8_lead (c # s)"
  shows "parse_string (take (utf8_lead (c # s)) (c # s) @ r) = cons_text (take (utf8_lead (c # s)) (c # s)) (parse_string r)"
proof -
  let ?n = "utf8_lead (c # s)" let ?x = "take (utf8_lead (c # s)) (c # s) @ r"
  have len: "length (take ?n (c # s)) = ?n" using lead_le [of "c # s"] by simp
  obtain t where x: "?x = c # t" using assms(2) by (cases ?n) auto
  have n: "utf8_lead ?x = ?n" using lead_take [OF assms(2)] .
  have td: "take ?n ?x = take ?n (c # s)" "drop ?n ?x = r" using len by simp_all
  show ?thesis
    using assms nonascii_char [OF assms(1)] n td unfolding x by (subst parse_string.simps) simp
qed

lemma separators:
  "parse_string ([CHR 0x5C] @ ''u2028'' @ s) = cons_text [CHR 0xE2, CHR 0x80, CHR 0xA8] (parse_string s)"
  "parse_string ([CHR 0x5C] @ ''u2029'' @ s) = cons_text [CHR 0xE2, CHR 0x80, CHR 0xA9] (parse_string s)"
proof -
  have "char_of (226 :: nat) = CHR 0xE2" "char_of (128 :: nat) = CHR 0x80" "char_of (168 :: nat) = CHR 0xA8" "char_of (169 :: nat) = CHR 0xA9"
    by code_simp+
  then have "hex4 ''2028'' = Some 8232" "hex4 ''2029'' = Some 8233" "encode_rune 8232 = [CHR 0xE2, CHR 0x80, CHR 0xA8]" "encode_rune 8233 = [CHR 0xE2, CHR 0x80, CHR 0xA9]"
    by (simp_all add: hex_value_def encode_rune_def)
  then show "parse_string ([CHR 0x5C] @ ''u2028'' @ s) = cons_text [CHR 0xE2, CHR 0x80, CHR 0xA8] (parse_string s)"
    "parse_string ([CHR 0x5C] @ ''u2029'' @ s) = cons_text [CHR 0xE2, CHR 0x80, CHR 0xA9] (parse_string s)"
    using parse_u [of "CHR ''2''" "CHR ''0''" "CHR ''2''"] by (simp_all del: hex4.simps)
qed

lemma cons_text_Some [simp]: "cons_text t (Some (s, r)) = Some (t @ s, r)"
  by (simp add: cons_text_def)

lemma string_round_trip: "rune_count s \<noteq> None \<Longrightarrow> parse_string (json_body s @ CHR 0x22 # r) = Some (s, r)"
proof (induction s rule: json_body.induct)
  case (2 c s)
  let ?n = "utf8_lead (c # s)"
  show ?case
  proof (cases "(of_char c :: nat) < 128")
    case True
    then have "rune_count s \<noteq> None" using "2.prems" by (simp add: rune_count_def)
    then show ?thesis using "2.IH"(1) True parse_ascii [OF True] by (simp add: json_body.simps)
  next
    case False
    have n: "0 < ?n" "rune_count (drop ?n (c # s)) \<noteq> None" using valid_lead [OF "2.prems"] by simp_all
    note IH = "2.IH"(3-5) [OF False]
    have sep: "?n = 3" if "take 3 (c # s) = [CHR 0xE2, CHR 0x80, x]" "x \<in> {CHR 0xA8, CHR 0xA9}" for x
    proof -
      have "seq_len (map of_char ([CHR 0xE2, CHR 0x80, x] @ drop 3 (c # s))) = 3"
        using that(2) seq_take [of "map of_char [CHR 0xE2, CHR 0x80, x]" "map of_char (drop 3 (c # s))"]
        by (auto simp: two_def three_def cont_def in_range_def)
      moreover have "[CHR 0xE2, CHR 0x80, x] @ drop 3 (c # s) = c # s" using that(1) append_take_drop_id [of 3 "c # s"] by metis
      ultimately show ?thesis by (simp only: lead_seq)
    qed
    consider "take 3 (c # s) = [CHR 0xE2, CHR 0x80, CHR 0xA8]" | "take 3 (c # s) = [CHR 0xE2, CHR 0x80, CHR 0xA9]"
      | "take 3 (c # s) \<noteq> [CHR 0xE2, CHR 0x80, CHR 0xA8]" "take 3 (c # s) \<noteq> [CHR 0xE2, CHR 0x80, CHR 0xA9]" by blast
    then show ?thesis
    proof cases
      case 1
      have "parse_string (json_body (drop 3 (c # s)) @ CHR 0x22 # r) = Some (drop 3 (c # s), r)"
        using IH(1) [OF _ 1] n unfolding sep [OF 1, simplified] by blast
      moreover have "json_body (c # s) = [CHR 0x5C] @ ''u2028'' @ json_body (drop 3 (c # s))"
        using False n(1) 1 by (subst json_body.simps) simp
      moreover have "[CHR 0xE2, CHR 0x80, CHR 0xA8] @ drop 3 (c # s) = c # s" using 1 append_take_drop_id [of 3 "c # s"] by metis
      ultimately show ?thesis by (simp only: append_assoc separators(1) cons_text_Some)
    next
      case 2
      have ne: "take 3 (c # s) \<noteq> [CHR 0xE2, CHR 0x80, CHR 0xA8]" using 2 by simp
      have "parse_string (json_body (drop 3 (c # s)) @ CHR 0x22 # r) = Some (drop 3 (c # s), r)"
        using IH(2) [OF _ ne 2] n unfolding sep [OF 2, simplified] by blast
      moreover have "json_body (c # s) = [CHR 0x5C] @ ''u2029'' @ json_body (drop 3 (c # s))"
        using False n(1) 2 by (subst json_body.simps) simp
      moreover have "[CHR 0xE2, CHR 0x80, CHR 0xA9] @ drop 3 (c # s) = c # s" using 2 append_take_drop_id [of 3 "c # s"] by metis
      ultimately show ?thesis by (simp only: append_assoc separators(2) cons_text_Some)
    next
      case 3
      have wide: "128 \<le> (of_char c :: nat)" using False by simp
      have "parse_string (json_body (drop ?n (c # s)) @ CHR 0x22 # r) = Some (drop ?n (c # s), r)"
        using IH(3) [OF _ 3] n by blast
      moreover have "json_body (c # s) = take ?n (c # s) @ json_body (drop ?n (c # s))"
        using False n(1) 3 by (subst json_body.simps) (simp only: if_False if_True, simp)
      ultimately show ?thesis
        by (simp only: append_assoc parse_wide [OF wide n(1)] cons_text_Some append_take_drop_id)
    qed
  qed
qed (simp add: json_body.simps parse_quote)

end
