(* ===== verification/Task_Result.thy ===== *)
theory Task_Result
  imports Json_Round Completion Collab_Demo
begin

text \<open>
  Submitting the result of a task by its reference (\<open>SubmitTaskResult\<close> of \<open>core/task_result.go\<close>): the
  reference is decoded into a collaboration, a task and a generation, and reported by the CHAT itself.
\<close>

section \<open>Decoding a reference\<close>

record task_reference =
  tf_CollaborationID :: string
  tf_TaskID :: string
  tf_Generation :: int

definition digits_value :: "string \<Rightarrow> int" where
  "digits_value s = foldl (\<lambda>n c. n * 10 + (of_char c - 48)) 0 s"

text \<open>\<open>strconv.ParseInt(s, 10, 64)\<close> on a JSON number.\<close>

definition parse_int64 :: "string \<Rightarrow> int option" where
  "parse_int64 s =
     (let neg = (s \<noteq> [] \<and> hd s = CHR ''-''); ds = (if neg then tl s else s);
          v = (if neg then - digits_value ds else digits_value ds)
      in if ds = [] \<or> \<not> list_all digit ds \<or> v < - (2 ^ 63) \<or> 2 ^ 63 \<le> v then None else Some v)"

text \<open>One member of the object: a field of the struct by its name, in either case; a null leaves the field, a value of another
  type is an error, any other name is skipped.\<close>

definition set_field :: "string \<times> jtext \<Rightarrow> task_reference \<Rightarrow> task_reference option" where
  "set_field m r =
     (let k = fst m; v = snd m
      in if v = TNull then Some r
         else if k = ''c'' \<or> k = ''C'' then (case v of TStr s \<Rightarrow> Some (r\<lparr>tf_CollaborationID := s\<rparr>) | _ \<Rightarrow> None)
         else if k = ''t'' \<or> k = ''T'' then (case v of TStr s \<Rightarrow> Some (r\<lparr>tf_TaskID := s\<rparr>) | _ \<Rightarrow> None)
         else if k = ''g'' \<or> k = ''G'' then (case v of TNum s \<Rightarrow> map_option (\<lambda>n. r\<lparr>tf_Generation := n\<rparr>) (parse_int64 s) | _ \<Rightarrow> None)
         else Some r)"

fun set_fields :: "(string \<times> jtext) list \<Rightarrow> task_reference \<Rightarrow> task_reference option" where
  "set_fields [] r = Some r"
| "set_fields (m # ms) r = (case set_field m r of None \<Rightarrow> None | Some r \<Rightarrow> set_fields ms r)"

definition unmarshal_reference :: "string \<Rightarrow> task_reference option" where
  "unmarshal_reference raw =
     (let zero = \<lparr>tf_CollaborationID = [], tf_TaskID = [], tf_Generation = 0\<rparr>
      in case parse_json raw of
           Some (TObj ms) \<Rightarrow> set_fields ms zero
         | Some TNull \<Rightarrow> Some zero
         | _ \<Rightarrow> None)"

definition decode_reference :: "string \<Rightarrow> task_reference option" where
  "decode_reference taskRef =
     (if 2048 < length taskRef \<or> \<not> has_prefix taskRef ''task_'' then None
      else case base64_decode url_alphabet (trim_prefix taskRef ''task_'') of
        None \<Rightarrow> None
      | Some raw \<Rightarrow>
      (case unmarshal_reference raw of
        None \<Rightarrow> None
      | Some r \<Rightarrow>
          if tf_Generation r < 1 \<or> validateCloudCompletionOpaqueID (tf_CollaborationID r) ''collaborationId'' \<noteq> None
             \<or> validateCloudCompletionOpaqueID (tf_TaskID r) ''taskId'' \<noteq> None
          then None else Some r))"

definition submit_request :: "task_reference \<Rightarrow> string \<Rightarrow> string \<Rightarrow> completion_request" where
  "submit_request r status txt =
     \<lparr>cq_Action = ''notify'', cq_CollaborationID = tf_CollaborationID r, cq_TaskID = tf_TaskID r, cq_ActorSessionID = cloudCollaborationSelfActor,
      cq_SourceSessionID = [], cq_ExpectedGeneration = tf_Generation r, cq_Outcome = status, cq_CallbackType = [], cq_Text = txt,
      cq_ClaimID = [], cq_Limit = 0, cq_Acknowledgements = []\<rparr>"

definition oget :: "out \<Rightarrow> string \<Rightarrow> oval" where
  "oget m k = (case map_of m k of Some v \<Rightarrow> v | None \<Rightarrow> OJson JNull)"

definition SubmitTaskResult :: "env \<Rightarrow> hub \<Rightarrow> string \<Rightarrow> string \<Rightarrow> string \<Rightarrow> string \<Rightarrow> (hub_error + out) \<times> hub" where
  "SubmitTaskResult E w ownerID taskRef status txt =
     (let status = trim_space status
      in case decode_reference taskRef of
        None \<Rightarrow> (Inl (call_error ''INVALID_REQUEST'' ''taskRef must be the reference supplied with the assigned task'' False), w)
      | Some r \<Rightarrow>
      run (notifyCloudCompletion E w ownerID (submit_request r status txt)) (\<lambda>result w.
        (Inr [(''status'', ostr status), (''accepted'', obool True), (''replayed'', oget result ''replayed''),
              (''notificationAccepted'', oget result ''activeCallbackAccepted''), (''localFile'', oget result ''localFile'')], w)))"

section \<open>Numbers written and read\<close>

lemma decimal_nat_digits: "list_all digit (decimal_nat n) \<and> decimal_nat n \<noteq> []"
proof (induction n rule: decimal_nat.induct)
  case (1 n)
  have d: "digit (char_of (48 + m))" if "m < 10" for m :: nat
    using that by (simp add: digit_def of_char_of)
  show ?case using 1 d [of n] d [of "n mod 10"] by (subst (1 2) decimal_nat.simps) auto
qed

lemma digits_value_snoc: "digits_value (s @ [c]) = digits_value s * 10 + (of_char c - 48)"
  by (simp add: digits_value_def)

lemma digits_value_decimal: "digits_value (decimal_nat n) = int n"
proof (induction n rule: decimal_nat.induct)
  case (1 n)
  have d: "(of_char (char_of (48 + m) :: char) :: int) = 48 + int m" if "m < 10" for m :: nat
  proof -
    have "(of_char (char_of (48 + m) :: char) :: nat) = 48 + m" using that by (simp add: of_char_of)
    then show ?thesis by (metis of_nat_add of_nat_numeral of_nat_of_char)
  qed
  show ?case
  proof (cases "n < 10")
    case True
    then show ?thesis using d [of n] by (subst decimal_nat.simps) (simp add: digits_value_def)
  next
    case False
    have "int (n div 10) * 10 + int (n mod 10) = int n" by (metis div_mult_mod_eq of_nat_add of_nat_mult of_nat_numeral)
    then show ?thesis using False 1 d [of "n mod 10"] by (subst decimal_nat.simps) (simp add: digits_value_snoc)
  qed
qed

lemma decimal_nat_first: "0 < n \<Longrightarrow> hd (decimal_nat n) \<noteq> CHR ''0''"
proof (induction n rule: decimal_nat.induct)
  case (1 n)
  show ?case
  proof (cases "n < 10")
    case True
    have "(of_char (char_of (48 + n) :: char) :: nat) = 48 + n" using True by simp
    moreover have "(of_char CHR ''0'' :: nat) = 48" by simp
    ultimately have "(char_of (48 + n) :: char) \<noteq> CHR ''0''" using 1(2) by (metis add_cancel_right_right not_gr_zero)
    then show ?thesis using True by (subst decimal_nat.simps) simp
  next
    case False
    then have "0 < n div 10" by simp
    then show ?thesis using False 1(1) decimal_nat_digits [of "n div 10"] by (subst decimal_nat.simps) simp
  qed
qed

lemma parse_int64_decimal:
  assumes "0 \<le> g" "g < 2 ^ 63" shows "parse_int64 (decimal g) = Some g"
proof -
  have ds: "list_all digit (decimal_nat (nat g))" "decimal_nat (nat g) \<noteq> []" using decimal_nat_digits by auto
  then have "hd (decimal_nat (nat g)) \<noteq> CHR ''-''" by (cases "decimal_nat (nat g)") (auto simp: digit_def)
  then show ?thesis using assms ds digits_value_decimal [of "nat g"] by (simp add: parse_int64_def decimal_def Let_def)
qed

section \<open>References written and read\<close>

lemma take_digits_append: "list_all digit ds \<Longrightarrow> \<not> digit x \<Longrightarrow> take_digits (ds @ x # r) = (ds, x # r)"
  by (induction ds) (simp_all add: take_digits_def)

lemma parse_number_decimal:
  assumes "0 < g" shows "parse_number (decimal g @ CHR 0x7D # r) = Some (decimal g, CHR 0x7D # r)"
proof -
  have ds: "list_all digit (decimal_nat (nat g))" "decimal_nat (nat g) \<noteq> []" using decimal_nat_digits by auto
  have d: "decimal g = decimal_nat (nat g)" using assms by (simp add: decimal_def)
  obtain c u where c: "decimal_nat (nat g) = c # u" using ds(2) by (cases "decimal_nat (nat g)") auto
  have "digit c" "c \<noteq> CHR ''0''" using ds(1) decimal_nat_first [of "nat g"] assms c by simp_all
  moreover have "c \<noteq> CHR ''-''" using \<open>digit c\<close> by (auto simp: digit_def)
  moreover have "take_digits ((c # u) @ CHR 0x7D # r) = (c # u, CHR 0x7D # r)"
    using ds(1) c by (intro take_digits_append) (simp_all add: digit_def)
  ultimately show ?thesis
    unfolding d c by (simp add: parse_number_def Let_def parse_fraction_def parse_exponent_def)
qed

lemma skip_stop: "\<not> json_space c \<Longrightarrow> skip (c # s) = c # s"
  by (simp add: skip_def)

lemmas stops = json_space_def skip_stop

lemma member_string:
  assumes "rune_count n \<noteq> None" "rune_count v \<noteq> None"
  shows "parse_members (Suc (Suc k)) (json_quote n @ CHR '':'' # json_quote v @ CHR '','' # rest)
    = map_option (\<lambda>(ms, r). ((n, TStr v) # ms, r)) (parse_members (Suc k) rest)"
  using assms by (simp add: json_quote_def stops string_round_trip)

lemma member_number:
  assumes "rune_count n \<noteq> None" "0 < g"
  shows "parse_members (Suc (Suc k)) (json_quote n @ CHR '':'' # decimal g @ [CHR 0x7D]) = Some ([(n, TNum (decimal g))], [])"
proof -
  have ds: "list_all digit (decimal_nat (nat g))" "decimal_nat (nat g) \<noteq> []" using decimal_nat_digits by auto
  obtain c u where c: "decimal g = c # u" "digit c" using ds assms(2) by (cases "decimal_nat (nat g)") (auto simp: decimal_def)
  have "\<not> json_space c" "c \<notin> {CHR 0x22, CHR 0x7B, CHR 0x5B, CHR ''n'', CHR ''t'', CHR ''f''}"
    using c(2) by (auto simp: digit_def json_space_def)
  then have "parse_value (Suc k) (decimal g @ [CHR 0x7D]) = Some (TNum (decimal g), [CHR 0x7D])"
    using parse_number_decimal [OF assms(2), of "[]"] by (simp add: c(1) skip_stop)
  then show ?thesis
    using assms(1) by (simp add: json_quote_def stops string_round_trip)
qed

definition reference_text :: "string \<Rightarrow> string \<Rightarrow> int \<Rightarrow> string" where
  "reference_text cid tid g = [CHR 0x7B] @ json_quote ''c'' @ '':'' @ json_quote cid @ '','' @ json_quote ''t'' @ '':''
       @ json_quote tid @ '','' @ json_quote ''g'' @ '':'' @ decimal g @ [CHR 0x7D]"

lemma parse_reference:
  assumes "rune_count cid \<noteq> None" "rune_count tid \<noteq> None" "0 < g"
  shows "parse_json (reference_text cid tid g) = Some (TObj [(''c'', TStr cid), (''t'', TStr tid), (''g'', TNum (decimal g))])"
proof -
  let ?m = "json_quote ''c'' @ CHR '':'' # json_quote cid @ CHR '','' # json_quote ''t'' @ CHR '':'' # json_quote tid @ CHR '',''
      # json_quote ''g'' @ CHR '':'' # decimal g @ [CHR 0x7D]"
  have obj: "reference_text cid tid g = CHR 0x7B # ?m" by (simp add: reference_text_def)
  have names: "rune_count ''c'' \<noteq> None" "rune_count ''t'' \<noteq> None" "rune_count ''g'' \<noteq> None" by (simp_all add: rune_count_def)
  obtain k where k: "2 * length (reference_text cid tid g) + 2 = Suc (Suc (Suc (Suc (Suc k))))"
  proof
    show "2 * length (reference_text cid tid g) + 2 = Suc (Suc (Suc (Suc (Suc (2 * length (reference_text cid tid g) - 3)))))"
      by (simp add: obj)
  qed
  have "parse_members (Suc (Suc (Suc (Suc k)))) ?m = Some ([(''c'', TStr cid), (''t'', TStr tid), (''g'', TNum (decimal g))], [])"
    using assms names by (simp add: member_string member_number del: parse_members.simps)
  moreover obtain d u where "?m = d # u" "d = CHR 0x22" by (simp add: json_quote_def)
  ultimately have "parse_value (Suc (Suc (Suc (Suc (Suc k))))) (CHR 0x7B # ?m)
      = Some (TObj [(''c'', TStr cid), (''t'', TStr tid), (''g'', TNum (decimal g))], [])"
    by (simp add: stops del: parse_members.simps)
  then show ?thesis using k by (simp add: parse_json_def obj skip_def del: parse_value.simps)
qed

lemma reference_eq: "cloudTaskResultReference cid t = ''task_'' @ base64_raw url_alphabet (reference_text cid (tk_ID t) (tk_Generation t))"
  by (simp add: cloudTaskResultReference_def reference_text_def)

lemma decode_encoded:
  assumes "rune_count cid \<noteq> None" "rune_count (tk_ID t) \<noteq> None" "1 \<le> tk_Generation t" "tk_Generation t < 2 ^ 63"
    "length (cloudTaskResultReference cid t) \<le> 2048"
    "validateCloudCompletionOpaqueID cid ''collaborationId'' = None" "validateCloudCompletionOpaqueID (tk_ID t) ''taskId'' = None"
  shows "decode_reference (cloudTaskResultReference cid t)
    = Some \<lparr>tf_CollaborationID = cid, tf_TaskID = tk_ID t, tf_Generation = tk_Generation t\<rparr>"
proof -
  have "unmarshal_reference (reference_text cid (tk_ID t) (tk_Generation t))
      = Some \<lparr>tf_CollaborationID = cid, tf_TaskID = tk_ID t, tf_Generation = tk_Generation t\<rparr>"
    using assms(1-4) by (simp add: unmarshal_reference_def parse_reference set_field_def Let_def parse_int64_decimal)
  moreover have "trim_prefix (cloudTaskResultReference cid t) ''task_'' = base64_raw url_alphabet (reference_text cid (tk_ID t) (tk_Generation t))"
    "has_prefix (cloudTaskResultReference cid t) ''task_''"
    by (simp_all add: reference_eq trim_prefix_def has_prefix_def)
  ultimately show ?thesis
    using assms(3,5-7) by (simp add: decode_reference_def base64_round_trip)
qed

section \<open>Properties\<close>

text \<open>Property C26: the reference a task is assigned decodes to exactly its collaboration, identifier and generation, when both
  identifiers are valid UTF-8 and pass validateCloudCompletionOpaqueID, the generation is in 1 to 2^63 - 1 and the reference has at most 2048
  bytes: no escape, quote or multi-byte character of such an identifier is lost on the way through JSON and base64.\<close>

theorem reference_round_trip:
  assumes "rune_count cid \<noteq> None" "rune_count (tk_ID t) \<noteq> None" "1 \<le> tk_Generation t" "tk_Generation t < 2 ^ 63"
    "length (cloudTaskResultReference cid t) \<le> 2048"
    "validateCloudCompletionOpaqueID cid ''collaborationId'' = None" "validateCloudCompletionOpaqueID (tk_ID t) ''taskId'' = None"
  shows "decode_reference (cloudTaskResultReference cid t)
    = Some \<lparr>tf_CollaborationID = cid, tf_TaskID = tk_ID t, tf_Generation = tk_Generation t\<rparr>"
  by (rule decode_encoded [OF assms])

definition quoted_task :: task where
  "quoted_task = demo_task\<lparr>tk_ID := [CHR ''a'', CHR 0x22, CHR 0xC3, CHR 0xA9, CHR ''<'']\<rparr>"

theorem reference_round_trip_witness:
  "decode_reference (cloudTaskResultReference ''c1'' quoted_task)
    = Some \<lparr>tf_CollaborationID = ''c1'', tf_TaskID = tk_ID quoted_task, tf_Generation = tk_Generation quoted_task\<rparr>"
proof -
  have "rune_count ''c1'' \<noteq> None" "rune_count (tk_ID quoted_task) \<noteq> None" "1 \<le> tk_Generation quoted_task" "tk_Generation quoted_task < 2 ^ 63"
    by code_simp+
  moreover have "int (length (cloudTaskResultReference ''c1'' quoted_task)) \<le> 2048" by code_simp
  moreover have "validateCloudCompletionOpaqueID ''c1'' ''collaborationId'' = None"
    "validateCloudCompletionOpaqueID (tk_ID quoted_task) ''taskId'' = None" by code_simp+
  ultimately show ?thesis by (intro reference_round_trip) simp_all
qed

definition spaced_add :: collab_request where
  "spaced_add = demo_add\<lparr>rq_TaskID := ''review notes''\<rparr>"

text \<open>Observation: \<open>task.add\<close> accepts an identifier with a blank in it, but the reference of such a task is refused
  when its result is submitted: the task can be dispatched and never be reported by its reference.\<close>

theorem spaced_task_refused:
  "\<exists>st'. cloudCollaborationAddTask demo_digests demo_now demo_running spaced_add ''dispatcher'' = Inr st'
    \<and> tk_ID (last (cs_Tasks st')) = ''review notes''
    \<and> decode_reference (cloudTaskResultReference ''c1'' (last (cs_Tasks st'))) = None"
proof -
  let ?r = "cloudCollaborationAddTask demo_digests demo_now demo_running spaced_add ''dispatcher''"
  have "case ?r of Inl _ \<Rightarrow> False | Inr st' \<Rightarrow> tk_ID (last (cs_Tasks st')) = ''review notes''
    \<and> decode_reference (cloudTaskResultReference ''c1'' (last (cs_Tasks st'))) = None" by code_simp
  then show ?thesis by (cases ?r) simp_all
qed

end
