(* ===== verification/Lockout.thy ===== *)
theory Lockout
  imports Collab_Types
begin

text \<open>
  The interface of everything that lets a caller in by a stored row: a key (a machine, the hash of a token or of a
  session cookie) that has been shut off at some second admits nobody from that second on, whatever statements run
  later, as long as none of them issues the key anew. Its laws are discharged for every kind of credential in the
  theory that models it; what a sequence of statements can do then follows here once for all of them.
\<close>

definition exec_all :: "('s \<Rightarrow> 'w \<Rightarrow> 'w) \<Rightarrow> 's list \<Rightarrow> 'w \<Rightarrow> 'w" where
  "exec_all f ss w = foldl (\<lambda>w s. f s w) w ss"

lemma exec_all_simps [simp]: "exec_all f [] w = w" "exec_all f (s # ss) w = exec_all f ss (f s w)"
  by (simp_all add: exec_all_def)

lemma exec_all_append: "exec_all f (ss @ ts) w = exec_all f ts (exec_all f ss w)"
  by (simp add: exec_all_def)

lemma exec_all_inv:
  assumes "\<And>s w. P w \<Longrightarrow> P (f s w)" "P w"
  shows "P (exec_all f ss w)"
  using assms(2) by (induction ss arbitrary: w) (simp_all add: assms(1))

locale lockout =
  fixes exec :: "'s \<Rightarrow> 'w \<Rightarrow> 'w"
    and admits :: "'w \<Rightarrow> 'k \<Rightarrow> int \<Rightarrow> bool"
    and shut :: "'w \<Rightarrow> 'k \<Rightarrow> int \<Rightarrow> bool"
    and issues :: "'k \<Rightarrow> 's \<Rightarrow> bool"
  assumes shut_denies: "shut w k t0 \<Longrightarrow> t0 \<le> t \<Longrightarrow> \<not> admits w k t"
    and shut_step: "shut w k t0 \<Longrightarrow> \<not> issues k s \<Longrightarrow> shut (exec s w) k t0"
begin

lemma shut_run:
  assumes "shut w k t0" "\<forall>s \<in> set ss. \<not> issues k s"
  shows "shut (exec_all exec ss w) k t0"
  using assms by (induction ss arbitrary: w) (simp_all add: shut_step)

lemma locked_out:
  assumes "shut w k t0" "\<forall>s \<in> set ss. \<not> issues k s" "t0 \<le> t"
  shows "\<not> admits (exec_all exec ss w) k t"
  using shut_denies [OF shut_run [OF assms(1,2)] assms(3)] .

end

end
