(* ===== verification/Credential_Rows.thy ===== *)
theory Credential_Rows
  imports Lockout Sql_Table
begin

text \<open>
  Credentials the Hub looks up by the hash of the secret a caller presents: the rows of one table, each of which may be
  dead at some second (revoked, deleted, or expired by then). The interface asks that a caller is let in by a row that is
  not dead, that a dead row stays dead, and that a statement which does not issue the hash leaves only rows that
  descend from rows of that hash, dead ones from dead ones. That makes it a \<open>lockout\<close>; the tables of OAuth
  tokens, connection tokens, direct access keys, web sessions and administrator sessions are its instances.
\<close>

section \<open>Rows found by a search\<close>

text \<open>An empty string is stored as NULL.\<close>

definition null_string :: "string \<Rightarrow> string option" where
  "null_string s = (if s = [] then None else Some s)"

lemma find_snoc: "find P (xs @ [x]) = (case find P xs of Some y \<Rightarrow> Some y | None \<Rightarrow> if P x then Some x else None)"
  by (induction xs) simp_all

lemma find_in: "find P xs = Some x \<Longrightarrow> x \<in> set xs \<and> P x"
  by (auto simp: find_Some_iff)

lemma find_sql_update:
  "(\<And>r. P (f r) = P r) \<Longrightarrow> find P (sql_update c f t) = map_option (\<lambda>r. if c r then f r else r) (find P t)"
  by (induction t) (auto simp: sql_update_def)

lemma in_sql_delete [simp]: "r \<in> set (sql_delete c t) \<longleftrightarrow> r \<in> set t \<and> \<not> c r"
  by (auto simp: sql_delete_def)

lemma sql_delete_key: "distinct (map key t) \<Longrightarrow> distinct (map key (sql_delete c t))"
  by (simp add: sql_delete_def distinct_map_filter)

lemma find_key_iff:
  assumes "distinct (map key t)"
  shows "find (\<lambda>r. key r = k) t = Some r \<longleftrightarrow> r \<in> set t \<and> key r = k"
  using find_key_distinct [OF assms, of r] by (auto dest: find_in)

section \<open>The interface\<close>

locale credential_rows =
  fixes exec :: "'s \<Rightarrow> 'w \<Rightarrow> 'w"
    and rows :: "'w \<Rightarrow> 'r list"
    and hash :: "'r \<Rightarrow> string"
    and dead :: "'r \<Rightarrow> int \<Rightarrow> bool"
    and admits :: "'w \<Rightarrow> string \<Rightarrow> int \<Rightarrow> bool"
    and issues :: "string \<Rightarrow> 's \<Rightarrow> bool"
  assumes admits_row: "admits w h t \<Longrightarrow> \<exists>r \<in> set (rows w). hash r = h \<and> \<not> dead r t"
    and dead_mono: "dead r t0 \<Longrightarrow> t0 \<le> t \<Longrightarrow> dead r t"
    and row_step: "\<not> issues h s \<Longrightarrow> r' \<in> set (rows (exec s w)) \<Longrightarrow> hash r' = h
      \<Longrightarrow> \<exists>r \<in> set (rows w). hash r = h \<and> (\<forall>t. dead r t \<longrightarrow> dead r' t)"
begin

definition all_dead :: "'w \<Rightarrow> string \<Rightarrow> int \<Rightarrow> bool" where
  "all_dead w h t0 = (\<forall>r \<in> set (rows w). hash r = h \<longrightarrow> dead r t0)"

end

sublocale credential_rows \<subseteq> lockout exec admits all_dead issues
proof
  show "\<not> admits w h t" if "all_dead w h t0" "t0 \<le> t" for w h t0 t
    using that admits_row dead_mono unfolding all_dead_def by blast
  show "all_dead (exec s w) h t0" if "all_dead w h t0" "\<not> issues h s" for w h t0 s
    using that row_step unfolding all_dead_def by blast
qed

context credential_rows
begin

text \<open>A row that is dead now admits nobody from now on, when hashes are distinct.\<close>

lemma dead_for_good:
  assumes "\<And>r. r \<in> set (rows w) \<Longrightarrow> hash r = h \<Longrightarrow> dead r t0" "\<forall>s \<in> set ss. \<not> issues h s" "t0 \<le> t"
  shows "\<not> admits (exec_all exec ss w) h t"
  using locked_out [OF _ assms(2,3)] assms(1) by (simp add: all_dead_def)

text \<open>So it is for the row of a hash that an update leaves dead.\<close>

lemma updated_dead_for_good:
  assumes u: "rows w' = sql_update c f (rows w)" and f: "\<And>r. hash (f r) = hash r"
    and s: "distinct (map hash (rows w))" "r \<in> set (rows w)" and d: "dead (if c r then f r else r) t"
    and ss: "\<forall>s \<in> set ss. \<not> issues (hash r) s"
  shows "\<not> admits (exec_all exec ss w') (hash r) t"
proof (rule dead_for_good [OF _ ss order_refl])
  fix r' assume r': "r' \<in> set (rows w')" "hash r' = hash r"
  then obtain r0 where r0: "r0 \<in> set (rows w)" "r' = (if c r0 then f r0 else r0)" by (auto simp: u set_sql_update)
  then have "hash r0 = hash r" using r'(2) f by (simp split: if_splits)
  then have eq: "r0 = r" using distinct_key_unique [OF s(1) r0(1) s(2)] by simp
  show "dead r' t" using d unfolding r0(2) eq .
qed

end

end
