(* ===== verification/Device_Store.thy ===== *)
theory Device_Store
  imports Collab_Store Credential_Rows
begin

text \<open>
  Machines and their credentials (\<open>store.go\<close>): registration, device tokens with the nonces that make a request for
  one single-use, connection generations, revocation and deletion, as statements on the tables \<open>machines\<close>,
  \<open>device_credentials\<close>, \<open>device_access_tokens\<close>, \<open>device_nonces\<close> and \<open>machine_capabilities\<close>, with the keys,
  \<open>UNIQUE\<close> and foreign-key constraints of the migrations. A statement that violates one leaves the tables as they
  were. Owners are never deleted, and every caller passes the owner of an authenticated session, so the foreign key
  to \<open>owners\<close> is not written out.
\<close>

section \<open>Registration\<close>

record registration_input =
  ri_MachineID :: string
  ri_CredentialID :: string
  ri_OwnerID :: string
  ri_DisplayName :: string
  ri_OS :: string
  ri_Arch :: string
  ri_NodeVersion :: string
  ri_PublicKey :: string
  ri_Fingerprint :: string
  ri_Now :: instant

record registration_result =
  rs_MachineID :: string
  rs_CredentialID :: string
  rs_OwnerID :: string
  rs_AlreadyDone :: bool

text \<open>\<open>ORDER BY issued_at DESC LIMIT 1\<close>: of equally old rows the first.\<close>

definition newest :: "('r \<Rightarrow> int) \<Rightarrow> 'r list \<Rightarrow> 'r option" where
  "newest f t = foldl (\<lambda>b r. case b of None \<Rightarrow> Some r | Some s \<Rightarrow> if f s < f r then Some r else b) None t"

definition active_pairs :: "hub \<Rightarrow> (machine_row \<times> credential_row) list" where
  "active_pairs w = [(m, c). m \<leftarrow> hb_machines w, c \<leftarrow> hb_credentials w, cr_MachineID c = mr_ID m \<and> cr_Status c = ''active'']"

definition new_machine :: "registration_input \<Rightarrow> machine_row" where
  "new_machine i = \<lparr>mr_ID = ri_MachineID i, mr_OwnerID = ri_OwnerID i, mr_DisplayName = ri_DisplayName i, mr_AdminNote = [],
     mr_Status = ''active'', mr_OS = ri_OS i, mr_Arch = ri_Arch i, mr_NodeVersion = ri_NodeVersion i, mr_CapabilityDigest = [],
     mr_LastSeenAt = None, mr_LastConnectionGeneration = 0, mr_RevokedAt = None, mr_DeletedAt = None, mr_Revision = 1,
     mr_CreatedAt = unix (ri_Now i), mr_UpdatedAt = unix (ri_Now i)\<rparr>"

definition new_credential :: "registration_input \<Rightarrow> credential_row" where
  "new_credential i = \<lparr>cr_ID = ri_CredentialID i, cr_MachineID = ri_MachineID i, cr_PublicKey = ri_PublicKey i,
     cr_Fingerprint = ri_Fingerprint i, cr_Status = ''active'', cr_IssuedAt = unix (ri_Now i), cr_RevokedAt = None\<rparr>"

definition RegisterMachine_row :: "hub \<Rightarrow> registration_input \<Rightarrow> (hub_error + registration_result) \<times> hub" where
  "RegisterMachine_row w i =
     (case newest (\<lambda>(m, c). cr_IssuedAt c)
         (filter (\<lambda>(m, c). mr_OwnerID m = ri_OwnerID i \<and> mr_Status m = ''active'' \<and> cr_PublicKey c = ri_PublicKey i) (active_pairs w)) of
        Some (m, c) \<Rightarrow>
          (Inr \<lparr>rs_MachineID = mr_ID m, rs_CredentialID = cr_ID c, rs_OwnerID = ri_OwnerID i, rs_AlreadyDone = True\<rparr>, w)
      | None \<Rightarrow>
      if list_ex (\<lambda>m. mr_ID m = ri_MachineID i) (hb_machines w)
        \<or> list_ex (\<lambda>c. cr_ID c = ri_CredentialID i
            \<or> cr_MachineID c = ri_MachineID i \<and> cr_Fingerprint c = ri_Fingerprint i) (hb_credentials w)
      then (Inl constraint_error, w)
      else (Inr \<lparr>rs_MachineID = ri_MachineID i, rs_CredentialID = ri_CredentialID i, rs_OwnerID = ri_OwnerID i, rs_AlreadyDone = False\<rparr>,
            w\<lparr>hb_machines := hb_machines w @ [new_machine i], hb_credentials := hb_credentials w @ [new_credential i]\<rparr>))"

section \<open>Device tokens\<close>

record device_identity =
  di_Machine :: machine_row
  di_CredentialID :: string
  di_PublicKey :: string
  di_Fingerprint :: string

definition GetDeviceIdentity :: "hub \<Rightarrow> string \<Rightarrow> hub_error + device_identity" where
  "GetDeviceIdentity w machineID =
     (case newest (\<lambda>(m, c). cr_IssuedAt c) (filter (\<lambda>(m, c). mr_ID m = machineID) (active_pairs w)) of
        None \<Rightarrow> Inl ErrNotFound
      | Some (m, c) \<Rightarrow>
          if mr_Status m \<noteq> ''active'' then Inl ErrRevoked
          else Inr \<lparr>di_Machine = m, di_CredentialID = cr_ID c, di_PublicKey = cr_PublicKey c, di_Fingerprint = cr_Fingerprint c\<rparr>)"

definition IssueDeviceToken_row ::
    "hub \<Rightarrow> string \<Rightarrow> string \<Rightarrow> string \<Rightarrow> string \<Rightarrow> string \<Rightarrow> instant \<Rightarrow> instant \<Rightarrow> (hub_error + unit) \<times> hub" where
  "IssueDeviceToken_row w machineID credentialID nonceHash tokenID tokenHash now expires =
     (let ns = sql_delete (\<lambda>n. nr_ExpiresAt n \<le> unix now) (hb_nonces w)
      in if list_ex (\<lambda>n. nr_MachineID n = machineID \<and> nr_NonceHash n = nonceHash) ns then (Inl ErrReplay, w)
         else if \<not> list_ex (\<lambda>m. mr_ID m = machineID) (hb_machines w) \<or> \<not> list_ex (\<lambda>c. cr_ID c = credentialID) (hb_credentials w)
           \<or> list_ex (\<lambda>t. tr_ID t = tokenID \<or> tr_TokenHash t = tokenHash) (hb_tokens w)
         then (Inl constraint_error, w)
         else (Inr (), w\<lparr>hb_nonces := ns @ [\<lparr>nr_MachineID = machineID, nr_NonceHash = nonceHash, nr_CreatedAt = unix now,
                             nr_ExpiresAt = unix (now + 10 * minute)\<rparr>],
                         hb_tokens := hb_tokens w @ [\<lparr>tr_ID = tokenID, tr_CredentialID = credentialID, tr_MachineID = machineID,
                             tr_TokenHash = tokenHash, tr_IssuedAt = unix now, tr_ExpiresAt = unix expires, tr_RevokedAt = None\<rparr>]\<rparr>))"

record device_session =
  ds_MachineID :: string
  ds_CredentialID :: string
  ds_OwnerID :: string
  ds_DisplayName :: string
  ds_PublicKey :: string
  ds_OS :: string
  ds_Arch :: string
  ds_NodeVersion :: string

definition AuthenticateDeviceToken :: "hub \<Rightarrow> string \<Rightarrow> instant \<Rightarrow> hub_error + device_session" where
  "AuthenticateDeviceToken w tokenHash now =
     (case find (\<lambda>(t, m, c). tr_TokenHash t = tokenHash)
         [(t, m, c). t \<leftarrow> hb_tokens w, m \<leftarrow> hb_machines w, c \<leftarrow> hb_credentials w,
            mr_ID m = tr_MachineID t \<and> cr_ID c = tr_CredentialID t] of
        None \<Rightarrow> Inl ErrUnauthorized
      | Some (t, m, c) \<Rightarrow>
          if tr_RevokedAt t \<noteq> None \<or> cr_RevokedAt c \<noteq> None \<or> mr_Status m \<noteq> ''active'' \<or> cr_Status c \<noteq> ''active'' then Inl ErrRevoked
          else if tr_ExpiresAt t \<le> unix now then Inl ErrExpired
          else Inr \<lparr>ds_MachineID = tr_MachineID t, ds_CredentialID = tr_CredentialID t, ds_OwnerID = mr_OwnerID m,
                 ds_DisplayName = mr_DisplayName m, ds_PublicKey = cr_PublicKey c, ds_OS = mr_OS m, ds_Arch = mr_Arch m,
                 ds_NodeVersion = mr_NodeVersion m\<rparr>)"

section \<open>Connections\<close>

definition NextGeneration :: "hub \<Rightarrow> string \<Rightarrow> instant \<Rightarrow> (hub_error + int) \<times> hub" where
  "NextGeneration w machineID now =
     (let p = (\<lambda>m. mr_ID m = machineID \<and> mr_Status m = ''active'');
          f = (\<lambda>m. m\<lparr>mr_LastConnectionGeneration := mr_LastConnectionGeneration m + 1, mr_LastSeenAt := Some (unix now),
                 mr_UpdatedAt := unix now, mr_Revision := mr_Revision m + 1\<rparr>)
      in case find p (hb_machines w) of
           None \<Rightarrow> (Inl ErrRevoked, w)
         | Some m \<Rightarrow> (Inr (mr_LastConnectionGeneration m + 1), w\<lparr>hb_machines := sql_update p f (hb_machines w)\<rparr>))"

definition TouchMachine ::
    "hub \<Rightarrow> string \<Rightarrow> string \<Rightarrow> string \<Rightarrow> string \<Rightarrow> string \<Rightarrow> string \<Rightarrow> instant \<Rightarrow> (hub_error + unit) \<times> hub" where
  "TouchMachine w machineID displayName osName arch nodeVersion capabilityDigest now =
     (let p = (\<lambda>m. mr_ID m = machineID \<and> mr_Status m = ''active'' \<and> mr_DeletedAt m = None);
          f = (\<lambda>m. m\<lparr>mr_DisplayName := (if displayName \<noteq> [] then displayName else mr_DisplayName m), mr_OS := osName, mr_Arch := arch,
                 mr_NodeVersion := nodeVersion, mr_CapabilityDigest := capabilityDigest, mr_LastSeenAt := Some (unix now),
                 mr_UpdatedAt := unix now\<rparr>);
          w' = w\<lparr>hb_machines := sql_update p f (hb_machines w)\<rparr>
      in if sql_affected p (hb_machines w) \<noteq> 1 then (Inl ErrRevoked, w') else (Inr (), w'))"

text \<open>A descriptor is its identifier, version and actions.\<close>

type_synonym descriptor = "string \<times> string \<times> string list"

fun insert_capabilities :: "string \<Rightarrow> instant \<Rightarrow> descriptor list \<Rightarrow> cap_row list \<Rightarrow> cap_row list option" where
  "insert_capabilities machineID now [] t = Some t"
| "insert_capabilities machineID now ((cid, version, actions) # ds) t =
     (if list_ex (\<lambda>r. cp_MachineID r = machineID \<and> cp_CapabilityID r = cid) t then None
      else insert_capabilities machineID now ds (t @ [\<lparr>cp_MachineID = machineID, cp_CapabilityID = cid, cp_Version = version,
             cp_Actions = actions, cp_UpdatedAt = unix now\<rparr>]))"

definition ReplaceCapabilities :: "hub \<Rightarrow> string \<Rightarrow> descriptor list \<Rightarrow> instant \<Rightarrow> (hub_error + unit) \<times> hub" where
  "ReplaceCapabilities w machineID capabilities now =
     (case insert_capabilities machineID now capabilities (sql_delete (\<lambda>r. cp_MachineID r = machineID) (hb_caps w)) of
        None \<Rightarrow> (Inl constraint_error, w)
      | Some t \<Rightarrow>
          if capabilities \<noteq> [] \<and> \<not> list_ex (\<lambda>m. mr_ID m = machineID) (hb_machines w) then (Inl constraint_error, w)
          else (Inr (), w\<lparr>hb_caps := t\<rparr>))"

text \<open>\<open>ORDER BY capability_id\<close>.\<close>

definition Capabilities :: "hub \<Rightarrow> string \<Rightarrow> descriptor list" where
  "Capabilities w machineID = map (\<lambda>r. (cp_CapabilityID r, cp_Version r, cp_Actions r))
     (sort_key cp_CapabilityID (filter (\<lambda>r. cp_MachineID r = machineID) (hb_caps w)))"

section \<open>Administration\<close>

text \<open>\<open>ORDER BY COALESCE(NULLIF(admin_note,''), display_name), id\<close>, as text in byte order.\<close>

definition machine_order :: "machine_row \<Rightarrow> string \<times> string" where
  "machine_order m = (if mr_AdminNote m \<noteq> [] then mr_AdminNote m else mr_DisplayName m, mr_ID m)"

definition ListMachines_rows :: "hub \<Rightarrow> string \<Rightarrow> machine_row list" where
  "ListMachines_rows w ownerID =
     sort_key machine_order (filter (\<lambda>m. mr_OwnerID m = ownerID \<and> mr_DeletedAt m = None) (hb_machines w))"

text \<open>\<open>LIMIT ? OFFSET ?\<close>, both not negative.\<close>

definition ListMachinesPage_rows :: "hub \<Rightarrow> string \<Rightarrow> nat \<Rightarrow> nat \<Rightarrow> machine_row list" where
  "ListMachinesPage_rows w ownerID ofs limit = take limit (drop ofs (ListMachines_rows w ownerID))"

definition RevokeMachine_row :: "hub \<Rightarrow> string \<Rightarrow> string \<Rightarrow> instant \<Rightarrow> (hub_error + unit) \<times> hub" where
  "RevokeMachine_row w ownerID machineID now =
     (let p = (\<lambda>m. mr_ID m = machineID \<and> mr_OwnerID m = ownerID \<and> mr_Status m \<noteq> ''revoked'' \<and> mr_DeletedAt m = None);
          ms = sql_update p (\<lambda>m. m\<lparr>mr_Status := ''revoked'', mr_RevokedAt := Some (unix now), mr_UpdatedAt := unix now,
                 mr_Revision := mr_Revision m + 1\<rparr>) (hb_machines w)
      in if sql_affected p (hb_machines w) = 0
            \<and> sql_affected (\<lambda>m. mr_ID m = machineID \<and> mr_OwnerID m = ownerID \<and> mr_DeletedAt m = None) (hb_machines w) = 0
         then (Inl ErrNotFound, w)
         else (Inr (), w\<lparr>hb_machines := ms,
             hb_credentials := sql_update (\<lambda>c. cr_MachineID c = machineID \<and> cr_Status c \<noteq> ''revoked'')
               (\<lambda>c. c\<lparr>cr_Status := ''revoked'', cr_RevokedAt := Some (unix now)\<rparr>) (hb_credentials w),
             hb_tokens := sql_update (\<lambda>t. tr_MachineID t = machineID \<and> tr_RevokedAt t = None)
               (\<lambda>t. t\<lparr>tr_RevokedAt := Some (unix now)\<rparr>) (hb_tokens w)\<rparr>))"

definition UpdateMachineAdminNote_row :: "hub \<Rightarrow> string \<Rightarrow> string \<Rightarrow> string \<Rightarrow> instant \<Rightarrow> (hub_error + unit) \<times> hub" where
  "UpdateMachineAdminNote_row w ownerID machineID adminNote now =
     (let p = (\<lambda>m. mr_ID m = machineID \<and> mr_OwnerID m = ownerID \<and> mr_DeletedAt m = None)
      in if sql_affected p (hb_machines w) = 0 then (Inl ErrNotFound, w)
         else (Inr (), w\<lparr>hb_machines := sql_update p (\<lambda>m. m\<lparr>mr_AdminNote := adminNote, mr_UpdatedAt := unix now,
                 mr_Revision := mr_Revision m + 1\<rparr>) (hb_machines w)\<rparr>))"

definition DeleteMachine_row :: "hub \<Rightarrow> string \<Rightarrow> string \<Rightarrow> instant \<Rightarrow> (hub_error + unit) \<times> hub" where
  "DeleteMachine_row w ownerID machineID now =
     (let p = (\<lambda>m. mr_ID m = machineID \<and> mr_OwnerID m = ownerID \<and> mr_Status m = ''revoked'' \<and> mr_DeletedAt m = None)
      in if sql_affected p (hb_machines w) = 0 then (Inl ErrConflict, w)
         else (Inr (), w\<lparr>hb_machines := sql_update p (\<lambda>m. m\<lparr>mr_DeletedAt := Some (unix now), mr_UpdatedAt := unix now,
                 mr_Revision := mr_Revision m + 1\<rparr>) (hb_machines w)\<rparr>))"

text \<open>The part of the periodic clean-up that concerns these tables and the audit trail.\<close>

definition auditRetention :: duration where "auditRetention = 30 * 24 * hour"

definition cleanup_hub_rows :: "instant \<Rightarrow> hub \<Rightarrow> hub" where
  "cleanup_hub_rows now w = w\<lparr>hb_nonces := sql_delete (\<lambda>n. nr_ExpiresAt n \<le> unix now) (hb_nonces w),
     hb_tokens := sql_delete (\<lambda>t. tr_ExpiresAt t \<le> unix now \<or> tr_RevokedAt t \<noteq> None) (hb_tokens w),
     hb_audit := sql_delete (\<lambda>a. ad_CreatedAt a \<le> unix (now - auditRetention)) (hb_audit w)\<rparr>"

end
