(* ===== verification/Device_Steps.thy ===== *)
theory Device_Steps
  imports Device_Store
begin

text \<open>
  The statements on machines and credentials as steps, in any order and interleaving: what they keep of the tables
  (\<open>wf_devices\<close>), and the interpretations of \<open>lockout\<close> for machines and for device tokens.
\<close>

section \<open>Steps\<close>

datatype device_stmt =
    S_Register registration_input
  | S_IssueToken string string string string string instant instant
  | S_NextGeneration string instant
  | S_Touch string string string string string string instant
  | S_ReplaceCapabilities string "descriptor list" instant
  | S_Revoke string string instant
  | S_AdminNote string string string instant
  | S_Delete string string instant
  | S_Cleanup instant

fun exec_device :: "device_stmt \<Rightarrow> hub \<Rightarrow> hub" where
  "exec_device (S_Register i) w = snd (RegisterMachine_row w i)"
| "exec_device (S_IssueToken m c n tid th now ex) w = snd (IssueDeviceToken_row w m c n tid th now ex)"
| "exec_device (S_NextGeneration m now) w = snd (NextGeneration w m now)"
| "exec_device (S_Touch m d os ar v dg now) w = snd (TouchMachine w m d os ar v dg now)"
| "exec_device (S_ReplaceCapabilities m ds now) w = snd (ReplaceCapabilities w m ds now)"
| "exec_device (S_Revoke ow m now) w = snd (RevokeMachine_row w ow m now)"
| "exec_device (S_AdminNote ow m note now) w = snd (UpdateMachineAdminNote_row w ow m note now)"
| "exec_device (S_Delete ow m now) w = snd (DeleteMachine_row w ow m now)"
| "exec_device (S_Cleanup now) w = cleanup_hub_rows now w"

definition machine_by :: "hub \<Rightarrow> string \<Rightarrow> machine_row option" where
  "machine_by w k = find (\<lambda>m. mr_ID m = k) (hb_machines w)"

definition cred_by :: "hub \<Rightarrow> string \<Rightarrow> credential_row option" where
  "cred_by w k = find (\<lambda>c. cr_MachineID c = k) (hb_credentials w)"

section \<open>Lists of rows\<close>

lemma not_in_image: "x \<notin> f ` A \<longleftrightarrow> (\<forall>y \<in> A. f y \<noteq> x)"
  by auto

lemma newest_in: "newest f t = Some r \<Longrightarrow> r \<in> set t"
proof -
  have "foldl (\<lambda>b r. case b of None \<Rightarrow> Some r | Some s \<Rightarrow> if f s < f r then Some r else b) b t = Some r \<Longrightarrow> r \<in> set t \<or> b = Some r" for b
    by (induction t arbitrary: b) (auto split: option.splits if_splits)
  from this [of None] show "newest f t = Some r \<Longrightarrow> r \<in> set t" by (auto simp: newest_def)
qed

lemma newest_Nil [simp]: "newest f [] = None"
  by (simp add: newest_def)

lemma newest_None [simp]: "newest f t = None \<longleftrightarrow> t = []"
proof -
  have "foldl (\<lambda>b r. case b of None \<Rightarrow> Some r | Some s \<Rightarrow> if f s < f r then Some r else b) (Some b) t \<noteq> None" for b t
    by (induction t arbitrary: b) auto
  then show ?thesis by (cases t) (simp_all add: newest_def del: not_None_eq)
qed

lemma active_pairs_iff: "(m, c) \<in> set (active_pairs w) \<longleftrightarrow> m \<in> set (hb_machines w) \<and> c \<in> set (hb_credentials w)
    \<and> cr_MachineID c = mr_ID m \<and> cr_Status c = ''active''"
  by (auto simp: active_pairs_def)

lemma distinct_map_filter_key: "distinct (map f xs) \<Longrightarrow> distinct (map f (sql_delete c xs))"
  by (simp add: sql_delete_def distinct_map_filter)

section \<open>Well-formed device tables\<close>

definition wf_machine :: "machine_row \<Rightarrow> bool" where
  "wf_machine m = (mr_Status m \<in> {''active'', ''revoked''} \<and> (mr_Status m = ''revoked'') = (mr_RevokedAt m \<noteq> None)
     \<and> (mr_DeletedAt m \<noteq> None \<longrightarrow> mr_Status m = ''revoked'') \<and> 0 \<le> mr_LastConnectionGeneration m \<and> 1 \<le> mr_Revision m)"

definition wf_pairing :: "hub \<Rightarrow> bool" where
  "wf_pairing w = (\<forall>c \<in> set (hb_credentials w). \<exists>m \<in> set (hb_machines w). mr_ID m = cr_MachineID c
     \<and> mr_Status m = cr_Status c \<and> (cr_Status c = ''revoked'') = (cr_RevokedAt c \<noteq> None))"

definition one_per_key :: "hub \<Rightarrow> bool" where
  "one_per_key w = (\<forall>(m, c) \<in> set (active_pairs w). \<forall>(m', c') \<in> set (active_pairs w).
     mr_OwnerID m = mr_OwnerID m' \<and> cr_PublicKey c = cr_PublicKey c' \<longrightarrow> mr_ID m = mr_ID m')"

definition wf_keys :: "hub \<Rightarrow> bool" where
  "wf_keys w = (distinct (map mr_ID (hb_machines w)) \<and> distinct (map cr_ID (hb_credentials w)) \<and> distinct (map cr_MachineID (hb_credentials w))
     \<and> distinct (map tr_ID (hb_tokens w)) \<and> distinct (map tr_TokenHash (hb_tokens w))
     \<and> distinct (map (\<lambda>n. (nr_MachineID n, nr_NonceHash n)) (hb_nonces w))
     \<and> distinct (map (\<lambda>r. (cp_MachineID r, cp_CapabilityID r)) (hb_caps w)))"

definition wf_devices :: "hub \<Rightarrow> bool" where
  "wf_devices w = (wf_keys w \<and> (\<forall>m \<in> set (hb_machines w). wf_machine m) \<and> wf_pairing w \<and> one_per_key w)"

text \<open>What the statements do to the machines: they keep the identity of a row and its revocation, and never lower a generation.\<close>

definition machine_le :: "machine_row \<Rightarrow> machine_row \<Rightarrow> bool" where
  "machine_le m m' = (mr_ID m' = mr_ID m \<and> mr_OwnerID m' = mr_OwnerID m \<and> mr_CreatedAt m' = mr_CreatedAt m
     \<and> (mr_Status m \<noteq> ''active'' \<longrightarrow> mr_Status m' \<noteq> ''active'')
     \<and> mr_LastConnectionGeneration m \<le> mr_LastConnectionGeneration m')"

definition machines_le :: "hub \<Rightarrow> hub \<Rightarrow> bool" where
  "machines_le w w' = (\<forall>k m. machine_by w k = Some m \<longrightarrow> (\<exists>m'. machine_by w' k = Some m' \<and> machine_le m m'))"

lemma machine_le_refl [simp]: "machine_le m m"
  by (simp add: machine_le_def)

lemma machine_le_trans: "machine_le a b \<Longrightarrow> machine_le b c \<Longrightarrow> machine_le a c"
  by (auto simp: machine_le_def)

lemma machines_le_refl [simp]: "machines_le w w"
  by (auto simp: machines_le_def)

lemma machines_le_trans: "machines_le a b \<Longrightarrow> machines_le b c \<Longrightarrow> machines_le a c"
  unfolding machines_le_def by (meson machine_le_trans)

lemma machines_le_same: "hb_machines w' = hb_machines w \<Longrightarrow> machines_le w w'"
  by (simp add: machines_le_def machine_by_def)

lemma machines_le_update:
  assumes "hb_machines w' = sql_update c f (hb_machines w)" "\<And>m. mr_ID (f m) = mr_ID m" "\<And>m. c m \<Longrightarrow> machine_le m (f m)"
  shows "machines_le w w'"
  using assms(2,3) by (auto simp: machines_le_def machine_by_def assms(1) find_sql_update)

lemma machines_le_append:
  assumes "hb_machines w' = hb_machines w @ [m]"
  shows "machines_le w w'"
  by (auto simp: machines_le_def machine_by_def assms find_snoc split: option.splits)

lemmas device_stmts = RegisterMachine_row_def IssueDeviceToken_row_def NextGeneration_def TouchMachine_def ReplaceCapabilities_def
  RevokeMachine_row_def UpdateMachineAdminNote_row_def DeleteMachine_row_def cleanup_hub_rows_def

lemma machines_le_exec: "machines_le w (exec_device s w)"
proof (cases s)
  case (S_Register i)
  then show ?thesis
    by (auto simp: RegisterMachine_row_def split: option.splits if_splits intro: machines_le_append)
next
  case (S_IssueToken)
  then show ?thesis by (auto simp: IssueDeviceToken_row_def Let_def intro: machines_le_same)
next
  case (S_NextGeneration)
  then show ?thesis
    by (auto simp: NextGeneration_def Let_def machine_le_def split: option.splits intro!: machines_le_update)
next
  case (S_Touch)
  then show ?thesis by (auto simp: TouchMachine_def Let_def machine_le_def intro!: machines_le_update)
next
  case (S_ReplaceCapabilities)
  then show ?thesis by (auto simp: ReplaceCapabilities_def split: option.splits intro: machines_le_same)
next
  case (S_Revoke)
  then show ?thesis by (auto simp: RevokeMachine_row_def Let_def machine_le_def intro!: machines_le_update)
next
  case (S_AdminNote)
  then show ?thesis by (auto simp: UpdateMachineAdminNote_row_def Let_def machine_le_def intro!: machines_le_update)
next
  case (S_Delete)
  then show ?thesis by (auto simp: DeleteMachine_row_def Let_def machine_le_def intro!: machines_le_update)
next
  case (S_Cleanup)
  then show ?thesis by (auto simp: cleanup_hub_rows_def intro: machines_le_same)
qed

lemma machines_le_run: "machines_le w (exec_all exec_device ss w)"
  by (induction ss arbitrary: w) (auto intro: machines_le_trans machines_le_exec)

section \<open>Every statement keeps the tables well-formed\<close>

lemma dev_parts:
  assumes "wf_devices w"
  shows "wf_keys w" "m \<in> set (hb_machines w) \<Longrightarrow> wf_machine m" "wf_pairing w" "one_per_key w"
  using assms by (auto simp: wf_devices_def)

lemma wf_devices_frame:
  assumes "wf_devices w" "hb_machines w' = hb_machines w" "hb_credentials w' = hb_credentials w" "wf_keys w'"
  shows "wf_devices w'"
  using assms by (simp add: wf_devices_def wf_pairing_def one_per_key_def active_pairs_def)

text \<open>An update of the machines that keeps what the pairing depends on.\<close>

lemma wf_devices_machines:
  assumes w: "wf_devices w" and w': "w' = w\<lparr>hb_machines := sql_update p f (hb_machines w)\<rparr>"
    and f: "\<And>m. mr_ID (f m) = mr_ID m" "\<And>m. mr_OwnerID (f m) = mr_OwnerID m" "\<And>m. mr_Status (f m) = mr_Status m"
    and wf: "\<And>m. p m \<Longrightarrow> wf_machine m \<Longrightarrow> wf_machine (f m)"
  shows "wf_devices w'"
  unfolding wf_devices_def
proof (intro conjI)
  show "wf_keys w'" using dev_parts(1) [OF w] by (simp add: wf_keys_def w' map_sql_update f)
  show "\<forall>m \<in> set (hb_machines w'). wf_machine m" using dev_parts(2) [OF w] wf by (auto simp: w' set_sql_update)
  show "wf_pairing w'" unfolding wf_pairing_def
  proof
    fix c assume "c \<in> set (hb_credentials w')"
    then obtain m where m: "m \<in> set (hb_machines w)" "mr_ID m = cr_MachineID c" "mr_Status m = cr_Status c"
        "(cr_Status c = ''revoked'') = (cr_RevokedAt c \<noteq> None)"
      using dev_parts(3) [OF w] by (auto simp: w' wf_pairing_def)
    then have "(if p m then f m else m) \<in> set (hb_machines w')" by (simp add: w' set_sql_update)
    then show "\<exists>m \<in> set (hb_machines w'). mr_ID m = cr_MachineID c \<and> mr_Status m = cr_Status c
        \<and> (cr_Status c = ''revoked'') = (cr_RevokedAt c \<noteq> None)"
      using m by (intro bexI [of _ "if p m then f m else m"]) (simp_all add: f)
  qed
  have "\<exists>m0. (m0, c) \<in> set (active_pairs w) \<and> mr_ID m0 = mr_ID m \<and> mr_OwnerID m0 = mr_OwnerID m"
    if "(m, c) \<in> set (active_pairs w')" for m c
    using that by (auto simp: w' active_pairs_iff set_sql_update f)
  then show "one_per_key w'"
    using dev_parts(4) [OF w] unfolding one_per_key_def by (simp add: split_beta) (metis fst_conv prod.collapse snd_conv)
qed

lemma wf_Register:
  assumes w: "wf_devices w" shows "wf_devices (snd (RegisterMachine_row w i))"
proof (cases "newest (\<lambda>(m, c). cr_IssuedAt c)
    (filter (\<lambda>(m, c). mr_OwnerID m = ri_OwnerID i \<and> mr_Status m = ''active'' \<and> cr_PublicKey c = ri_PublicKey i) (active_pairs w))
    \<noteq> None \<or> list_ex (\<lambda>m. mr_ID m = ri_MachineID i) (hb_machines w)
      \<or> list_ex (\<lambda>c. cr_ID c = ri_CredentialID i \<or> cr_MachineID c = ri_MachineID i \<and> cr_Fingerprint c = ri_Fingerprint i) (hb_credentials w)")
  case True
  then show ?thesis using w by (auto simp: RegisterMachine_row_def split: option.splits)
next
  case False
  let ?w = "w\<lparr>hb_machines := hb_machines w @ [new_machine i], hb_credentials := hb_credentials w @ [new_credential i]\<rparr>"
  have none: "\<forall>(m, c) \<in> set (active_pairs w). mr_OwnerID m = ri_OwnerID i \<and> mr_Status m = ''active'' \<longrightarrow> cr_PublicKey c \<noteq> ri_PublicKey i"
    using False by (auto simp: filter_empty_conv)
  have fresh: "ri_MachineID i \<notin> mr_ID ` set (hb_machines w)" "ri_CredentialID i \<notin> cr_ID ` set (hb_credentials w)"
    using False by (auto simp: list_ex_iff)
  have cm: "ri_MachineID i \<notin> cr_MachineID ` set (hb_credentials w)"
    using fresh(1) dev_parts(3) [OF w] by (force simp: wf_pairing_def)
  have old: "mr_Status m = ''active''" if "(m, c) \<in> set (active_pairs w)" for m c
    using that dev_parts(1,3) [OF w] by (force simp: active_pairs_iff wf_pairing_def wf_keys_def dest: distinct_key_unique)
  have eq: "snd (RegisterMachine_row w i) = ?w" using False by (auto simp: RegisterMachine_row_def)
  have new: "m \<in> set (hb_machines w) \<Longrightarrow> mr_ID m \<noteq> ri_MachineID i"
      "c \<in> set (hb_credentials w) \<Longrightarrow> cr_MachineID c \<noteq> ri_MachineID i" for m c
    using fresh(1) cm by force+
  have pairs: "set (active_pairs ?w) \<subseteq> insert (new_machine i, new_credential i) (set (active_pairs w))"
    by (auto simp: active_pairs_iff new_machine_def new_credential_def) (metis new)+
  show ?thesis unfolding eq wf_devices_def
  proof (intro conjI)
    show "wf_keys ?w" using dev_parts(1) [OF w] fresh cm by (simp add: wf_keys_def new_machine_def new_credential_def)
    show "\<forall>m \<in> set (hb_machines ?w). wf_machine m"
      using dev_parts(2) [OF w] by (auto simp: new_machine_def wf_machine_def)
    show "wf_pairing ?w"
      using dev_parts(3) [OF w] by (auto simp: wf_pairing_def new_machine_def new_credential_def)
    show "one_per_key ?w" unfolding one_per_key_def
    proof (clarsimp)
      fix m c m' c'
      assume p: "(m, c) \<in> set (active_pairs ?w)" "(m', c') \<in> set (active_pairs ?w)"
        and e: "mr_OwnerID m = mr_OwnerID m'" "cr_PublicKey c = cr_PublicKey c'"
      then consider "(m, c) \<in> set (active_pairs w)" "(m', c') \<in> set (active_pairs w)"
        | "(m, c) = (new_machine i, new_credential i)" "(m', c') \<in> set (active_pairs w)"
        | "(m, c) \<in> set (active_pairs w)" "(m', c') = (new_machine i, new_credential i)"
        | "(m, c) = (new_machine i, new_credential i)" "(m', c') = (new_machine i, new_credential i)"
        using pairs by blast
      then show "mr_ID m = mr_ID m'"
        using none old e dev_parts(4) [OF w]
        by cases (force simp: one_per_key_def new_machine_def new_credential_def)+
    qed
  qed
qed

lemma wf_Revoke:
  assumes w: "wf_devices w" shows "wf_devices (snd (RevokeMachine_row w ow k now))"
proof (cases "fst (RevokeMachine_row w ow k now)")
  case (Inl e)
  then have "snd (RevokeMachine_row w ow k now) = w" by (auto simp: RevokeMachine_row_def Let_def split: if_splits)
  then show ?thesis using w by simp
next
  case (Inr u)
  let ?p = "\<lambda>m. mr_ID m = k \<and> mr_OwnerID m = ow \<and> mr_Status m \<noteq> ''revoked'' \<and> mr_DeletedAt m = None"
  let ?f = "\<lambda>m. m\<lparr>mr_Status := ''revoked'', mr_RevokedAt := Some (unix now), mr_UpdatedAt := unix now, mr_Revision := mr_Revision m + 1\<rparr>"
  let ?q = "\<lambda>c. cr_MachineID c = k \<and> cr_Status c \<noteq> ''revoked''"
  let ?g = "\<lambda>c. c\<lparr>cr_Status := ''revoked'', cr_RevokedAt := Some (unix now)\<rparr>"
  define w' where "w' = snd (RevokeMachine_row w ow k now)"
  have w': "hb_machines w' = sql_update ?p ?f (hb_machines w)" "hb_credentials w' = sql_update ?q ?g (hb_credentials w)"
      "map tr_ID (hb_tokens w') = map tr_ID (hb_tokens w)" "map tr_TokenHash (hb_tokens w') = map tr_TokenHash (hb_tokens w)"
      "hb_nonces w' = hb_nonces w" "hb_caps w' = hb_caps w"
    using Inr by (auto simp: w'_def RevokeMachine_row_def Let_def map_sql_update split: if_splits)
  obtain m0 where m0: "m0 \<in> set (hb_machines w)" "mr_ID m0 = k" "mr_OwnerID m0 = ow" "mr_DeletedAt m0 = None"
    using Inr by (auto simp: RevokeMachine_row_def Let_def split: if_splits)
  have only: "m = m0" if "m \<in> set (hb_machines w)" "mr_ID m = k" for m
    using that m0 dev_parts(1) [OF w] by (auto simp: wf_keys_def dest: distinct_key_unique)
  have pair: "\<exists>m \<in> set (hb_machines w'). mr_ID m = cr_MachineID c \<and> mr_Status m = cr_Status c
      \<and> (cr_Status c = ''revoked'') = (cr_RevokedAt c \<noteq> None)" if c: "c \<in> set (hb_credentials w')" for c
  proof -
    obtain c0 where c0: "c0 \<in> set (hb_credentials w)" "c = (if ?q c0 then ?g c0 else c0)" using c by (auto simp: w' set_sql_update)
    obtain m where m: "m \<in> set (hb_machines w)" "mr_ID m = cr_MachineID c0" "mr_Status m = cr_Status c0"
        "(cr_Status c0 = ''revoked'') = (cr_RevokedAt c0 \<noteq> None)"
      using dev_parts(3) [OF w] c0(1) by (auto simp: wf_pairing_def)
    have "(if ?p m then ?f m else m) \<in> set (hb_machines w')" using m(1) by (simp add: w' set_sql_update)
    moreover have "?p m = ?q c0" using m only [OF m(1)] m0 by auto
    ultimately show ?thesis using m c0(2) by (intro bexI [of _ "if ?p m then ?f m else m"]) auto
  qed
  have sub: "\<exists>m0 c0. (m0, c0) \<in> set (active_pairs w) \<and> mr_ID m0 = mr_ID m \<and> mr_OwnerID m0 = mr_OwnerID m \<and> cr_PublicKey c0 = cr_PublicKey c"
    if "(m, c) \<in> set (active_pairs w')" for m c
    using that by (auto simp: w' active_pairs_iff set_sql_update split: if_splits)
  have "wf_devices w'" unfolding wf_devices_def
  proof (intro conjI)
    show "wf_keys w'" using dev_parts(1) [OF w] by (simp add: wf_keys_def w' map_sql_update)
    have "wf_machine (?f m)" if "m \<in> set (hb_machines w)" for m
      using dev_parts(2) [OF w that] by (auto simp: wf_machine_def)
    then show "\<forall>m \<in> set (hb_machines w'). wf_machine m"
      using dev_parts(2) [OF w] by (auto simp: w' set_sql_update)
    show "wf_pairing w'" unfolding wf_pairing_def using pair by blast
    show "one_per_key w'" using sub dev_parts(4) [OF w] unfolding one_per_key_def
      by (simp add: split_beta) (metis fst_conv prod.collapse snd_conv)
  qed
  then show ?thesis by (simp add: w'_def)
qed

lemma insert_capabilities_keys:
  assumes "insert_capabilities k now ds t = Some t'" "distinct (map (\<lambda>r. (cp_MachineID r, cp_CapabilityID r)) t)"
  shows "distinct (map (\<lambda>r. (cp_MachineID r, cp_CapabilityID r)) t')"
  using assms by (induction k now ds t rule: insert_capabilities.induct) (auto simp: list_ex_iff split: if_splits)

lemma wf_exec:
  assumes w: "wf_devices w" shows "wf_devices (exec_device s w)"
proof (cases s)
  case (S_Register i)
  then show ?thesis using wf_Register [OF w] by simp
next
  case (S_IssueToken)
  then show ?thesis using dev_parts(1) [OF w] w
    by (auto simp: IssueDeviceToken_row_def Let_def list_ex_iff wf_keys_def distinct_map_filter_key not_in_image
        intro!: wf_devices_frame [OF w])
next
  case (S_NextGeneration)
  then show ?thesis using w
    by (auto simp: NextGeneration_def Let_def wf_machine_def split: option.splits intro!: wf_devices_machines [OF w refl])
next
  case (S_Touch)
  then show ?thesis by (auto simp: TouchMachine_def Let_def wf_machine_def intro!: wf_devices_machines [OF w refl])
next
  case (S_ReplaceCapabilities)
  then show ?thesis using dev_parts(1) [OF w] w
    by (auto simp: ReplaceCapabilities_def wf_keys_def distinct_map_filter_key split: option.splits
        intro!: wf_devices_frame [OF w] dest!: insert_capabilities_keys)
next
  case (S_Revoke)
  then show ?thesis using wf_Revoke [OF w] by simp
next
  case (S_AdminNote)
  then show ?thesis using w by (auto simp: UpdateMachineAdminNote_row_def Let_def wf_machine_def intro!: wf_devices_machines [OF w refl])
next
  case (S_Delete)
  then show ?thesis using w by (auto simp: DeleteMachine_row_def Let_def wf_machine_def intro!: wf_devices_machines [OF w refl])
next
  case (S_Cleanup)
  then show ?thesis using dev_parts(1) [OF w] w
    by (auto simp: cleanup_hub_rows_def wf_keys_def distinct_map_filter_key intro!: wf_devices_frame [OF w])
qed

lemma wf_run: "wf_devices w \<Longrightarrow> wf_devices (exec_all exec_device ss w)"
  by (rule exec_all_inv [of wf_devices]) (rule wf_exec)

section \<open>Machines and tokens that are shut\<close>

lemma machine_by_in: "machine_by w k = Some m \<Longrightarrow> m \<in> set (hb_machines w) \<and> mr_ID m = k"
  by (auto simp: machine_by_def dest: find_map_key)

lemma machine_by_eq: "wf_devices w \<Longrightarrow> m \<in> set (hb_machines w) \<Longrightarrow> machine_by w (mr_ID m) = Some m"
  by (auto simp: machine_by_def wf_devices_def wf_keys_def intro: find_key_distinct)

text \<open>What a session that is granted rests on.\<close>

lemma authenticated:
  assumes "AuthenticateDeviceToken w h now = Inr s"
  obtains t m c where "t \<in> set (hb_tokens w)" "m \<in> set (hb_machines w)" "c \<in> set (hb_credentials w)" "tr_TokenHash t = h"
    "mr_ID m = tr_MachineID t" "cr_ID c = tr_CredentialID t" "tr_RevokedAt t = None" "unix now < tr_ExpiresAt t"
    "cr_RevokedAt c = None" "cr_Status c = ''active''" "mr_Status m = ''active''"
    "ds_MachineID s = mr_ID m" "ds_CredentialID s = cr_ID c" "ds_OwnerID s = mr_OwnerID m" "ds_PublicKey s = cr_PublicKey c"
proof -
  let ?j = "[(t, m, c). t \<leftarrow> hb_tokens w, m \<leftarrow> hb_machines w, c \<leftarrow> hb_credentials w, mr_ID m = tr_MachineID t \<and> cr_ID c = tr_CredentialID t]"
  obtain t m c where f: "find (\<lambda>(t, m, c). tr_TokenHash t = h) ?j = Some (t, m, c)"
    and ok: "\<not> (tr_RevokedAt t \<noteq> None \<or> cr_RevokedAt c \<noteq> None \<or> mr_Status m \<noteq> ''active'' \<or> cr_Status c \<noteq> ''active'')"
      "\<not> tr_ExpiresAt t \<le> unix now"
      "s = \<lparr>ds_MachineID = tr_MachineID t, ds_CredentialID = tr_CredentialID t, ds_OwnerID = mr_OwnerID m,
                 ds_DisplayName = mr_DisplayName m, ds_PublicKey = cr_PublicKey c, ds_OS = mr_OS m, ds_Arch = mr_Arch m,
                 ds_NodeVersion = mr_NodeVersion m\<rparr>"
    using assms unfolding AuthenticateDeviceToken_def
    by (auto split: option.splits if_splits)
  from f have "(t, m, c) \<in> set ?j" "tr_TokenHash t = h" using find_in [OF f] by auto
  then show thesis using ok by (intro that [of t m c]) auto
qed

definition machine_admits :: "hub \<Rightarrow> string \<Rightarrow> int \<Rightarrow> bool" where
  "machine_admits w k t = (\<exists>h now s. unix now = t \<and> AuthenticateDeviceToken w h now = Inr s \<and> ds_MachineID s = k)"

definition machine_shut :: "hub \<Rightarrow> string \<Rightarrow> int \<Rightarrow> bool" where
  "machine_shut w k t0 = (wf_devices w \<and> (\<exists>m. machine_by w k = Some m \<and> mr_Status m \<noteq> ''active''))"

lemma machine_shut_run: "machine_shut w k t0 \<Longrightarrow> machine_shut (exec_device s w) k t0"
  using machines_le_exec [of w s] wf_exec [of w s] unfolding machine_shut_def machines_le_def machine_le_def by metis

interpretation machine_lock: lockout exec_device machine_admits machine_shut "\<lambda>k s. False"
proof
  fix w k t0 t assume sh: "machine_shut w k t0"
  show "\<not> machine_admits w k t"
  proof
    assume "machine_admits w k t"
    then obtain h now s where s: "AuthenticateDeviceToken w h now = Inr s" "ds_MachineID s = k" by (auto simp: machine_admits_def)
    from s(1) show False
    proof (rule authenticated)
      fix m assume "m \<in> set (hb_machines w)" "mr_Status m = ''active''" "ds_MachineID s = mr_ID m"
      then show False using sh s(2) machine_by_eq [of w m] by (auto simp: machine_shut_def)
    qed
  qed
qed (rule machine_shut_run)

definition token_admits :: "hub \<Rightarrow> string \<Rightarrow> int \<Rightarrow> bool" where
  "token_admits w h t = (\<exists>now. unix now = t \<and> is_ok (AuthenticateDeviceToken w h now))"

definition token_shut :: "hub \<Rightarrow> string \<Rightarrow> int \<Rightarrow> bool" where
  "token_shut w h t0 = (\<forall>t \<in> set (hb_tokens w). tr_TokenHash t = h \<longrightarrow> tr_RevokedAt t \<noteq> None \<or> tr_ExpiresAt t \<le> t0)"

fun issues_token :: "string \<Rightarrow> device_stmt \<Rightarrow> bool" where
  "issues_token h (S_IssueToken m c n tid th now ex) = (th = h)"
| "issues_token h _ = False"

lemma token_shut_frame: "token_shut w h t0 \<Longrightarrow> set (hb_tokens w') \<subseteq> set (hb_tokens w) \<Longrightarrow> token_shut w' h t0"
  by (auto simp: token_shut_def)

lemma token_shut_step: "token_shut w h t0 \<Longrightarrow> \<not> issues_token h s \<Longrightarrow> token_shut (exec_device s w) h t0"
proof (cases s)
  case (S_Revoke)
  assume "token_shut w h t0"
  then show ?thesis by (auto simp: S_Revoke RevokeMachine_row_def Let_def token_shut_def set_sql_update)
qed (auto simp: device_stmts Let_def token_shut_def sql_delete_def split: option.splits)

interpretation token_lock: lockout exec_device token_admits token_shut issues_token
proof
  fix w h t0 t assume "token_shut w h t0" "t0 \<le> t"
  then show "\<not> token_admits w h t"
    by (auto simp: token_admits_def token_shut_def is_ok_iff elim!: authenticated)
qed (rule token_shut_step)

section \<open>Nonces\<close>

text \<open>The clock of the statements that purge nonces.\<close>

fun purge_clock :: "device_stmt \<Rightarrow> instant option" where
  "purge_clock (S_IssueToken m c n tid th now ex) = Some now"
| "purge_clock (S_Cleanup now) = Some now"
| "purge_clock _ = None"

definition nonce_held :: "int \<Rightarrow> string \<Rightarrow> string \<Rightarrow> hub \<Rightarrow> bool" where
  "nonce_held u k n w = (\<exists>r \<in> set (hb_nonces w). nr_MachineID r = k \<and> nr_NonceHash r = n \<and> u \<le> nr_ExpiresAt r)"

lemma nonce_held_frame: "nonce_held u k n w \<Longrightarrow> hb_nonces w' = hb_nonces w \<Longrightarrow> nonce_held u k n w'"
  by (simp add: nonce_held_def)

lemma nonce_held_step:
  assumes "nonce_held u k n w" "\<forall>now. purge_clock s = Some now \<longrightarrow> unix now < u"
  shows "nonce_held u k n (exec_device s w)"
  using assms by (cases s) (auto simp: device_stmts Let_def nonce_held_def sql_delete_def split: option.splits)

lemma nonce_held_run:
  assumes "nonce_held u k n w" "\<forall>s \<in> set ss. \<forall>now. purge_clock s = Some now \<longrightarrow> unix now < u"
  shows "nonce_held u k n (exec_all exec_device ss w)"
  using assms by (induction ss arbitrary: w) (simp_all add: nonce_held_step)

lemma nonce_held_refused:
  assumes "nonce_held u k n w" "unix now < u"
  shows "IssueDeviceToken_row w k c n tid th now ex = (Inl ErrReplay, w)"
proof -
  have "list_ex (\<lambda>r. nr_MachineID r = k \<and> nr_NonceHash r = n) (sql_delete (\<lambda>r. nr_ExpiresAt r \<le> unix now) (hb_nonces w))"
    using assms by (auto simp: nonce_held_def sql_delete_def list_ex_iff)
  then show ?thesis by (simp add: IssueDeviceToken_row_def)
qed

lemma nonce_held_issued:
  assumes "IssueDeviceToken_row w k c n tid th now ex = (Inr (), w')"
  shows "nonce_held (unix (now + 10 * minute)) k n w'"
  using assms by (auto simp: IssueDeviceToken_row_def Let_def nonce_held_def split: if_splits)

section \<open>Generations\<close>

lemma NextGeneration_Inr:
  assumes "wf_devices w" "NextGeneration w k now = (Inr g, w')"
  obtains m m' where "machine_by w k = Some m" "mr_Status m = ''active''" "g = mr_LastConnectionGeneration m + 1"
    "machine_by w' k = Some m'" "mr_LastConnectionGeneration m' = g"
proof -
  let ?p = "\<lambda>m. mr_ID m = k \<and> mr_Status m = ''active''"
  let ?f = "\<lambda>m. m\<lparr>mr_LastConnectionGeneration := mr_LastConnectionGeneration m + 1, mr_LastSeenAt := Some (unix now),
                 mr_UpdatedAt := unix now, mr_Revision := mr_Revision m + 1\<rparr>"
  obtain m where m: "find ?p (hb_machines w) = Some m" "g = mr_LastConnectionGeneration m + 1"
      "hb_machines w' = sql_update ?p ?f (hb_machines w)"
    using assms(2) by (auto simp: NextGeneration_def Let_def split: option.splits)
  then have in_m: "m \<in> set (hb_machines w)" "?p m" by (auto simp: find_Some_iff)
  then have by_m: "machine_by w k = Some m" using machine_by_eq [OF assms(1)] by auto
  then have "machine_by w' k = Some (?f m)" using in_m(2) by (simp add: machine_by_def m(3) find_sql_update)
  then show thesis using that by_m in_m m(2) by simp
qed

end
