(* ===== verification/Go_Time.thy ===== *)
theory Go_Time
  imports Prelude
begin

text \<open>
  \<open>time.Parse(time.RFC3339Nano, s)\<close>: the date and time fields with their ranges, an hour of one or two digits, an
  optional fraction after a full stop or a comma of which the first nine digits count, and \<open>Z\<close> or an
  offset of hours and minutes. The instant is in nanoseconds since the Unix epoch.
\<close>

definition digit_value :: "char \<Rightarrow> int option" where
  "digit_value c = (let n = of_char c :: int in if 48 \<le> n \<and> n \<le> 57 then Some (n - 48) else None)"

fun digits_number :: "int \<Rightarrow> string \<Rightarrow> int option" where
  "digits_number acc [] = Some acc"
| "digits_number acc (c # s) = (case digit_value c of None \<Rightarrow> None | Some d \<Rightarrow> digits_number (acc * 10 + d) s)"

text \<open>\<open>k\<close> digits between \<open>lo\<close> and \<open>hi\<close>, with the text after them.\<close>

definition field :: "nat \<Rightarrow> int \<Rightarrow> int \<Rightarrow> string \<Rightarrow> (int \<times> string) option" where
  "field k lo hi s =
     (if length s < k then None
      else case digits_number 0 (take k s) of None \<Rightarrow> None | Some n \<Rightarrow> if lo \<le> n \<and> n \<le> hi then Some (n, drop k s) else None)"

text \<open>\<open>getnum\<close> that is not fixed to two digits.\<close>

definition short_field :: "int \<Rightarrow> int \<Rightarrow> string \<Rightarrow> (int \<times> string) option" where
  "short_field lo hi s = (case s of
      a # b # _ \<Rightarrow> if digit_value a \<noteq> None \<and> digit_value b = None then field 1 lo hi s else field 2 lo hi s
    | _ \<Rightarrow> field 1 lo hi s)"

definition expect :: "char \<Rightarrow> string \<Rightarrow> string option" where
  "expect c s = (case s of x # t \<Rightarrow> if x = c then Some t else None | [] \<Rightarrow> None)"

definition leap_year :: "int \<Rightarrow> bool" where
  "leap_year y = (y mod 4 = 0 \<and> (y mod 100 \<noteq> 0 \<or> y mod 400 = 0))"

definition month_lengths :: "int \<Rightarrow> int list" where
  "month_lengths y = [31, if leap_year y then 29 else 28, 31, 30, 31, 30, 31, 31, 30, 31, 30, 31]"

definition epoch_days :: "int \<Rightarrow> int \<Rightarrow> int \<Rightarrow> int" where
  "epoch_days y m d = 365 * (y - 1) + (y - 1) div 4 - (y - 1) div 100 + (y - 1) div 400
     + sum_list (take (nat (m - 1)) (month_lengths y)) + (d - 1) - 719162"

definition fraction :: "string \<Rightarrow> int \<times> string" where
  "fraction s = (case s of
     p # d # t \<Rightarrow>
       if (p = CHR ''.'' \<or> p = CHR '','') \<and> digit_value d \<noteq> None then
         (let ds = takeWhile (\<lambda>c. digit_value c \<noteq> None) (d # t); used = take 9 ds
          in (case digits_number 0 used of Some n \<Rightarrow> n * 10 ^ (9 - length used) | None \<Rightarrow> 0, drop (length ds) (d # t)))
       else (0, s)
   | _ \<Rightarrow> (0, s))"

text \<open>The offset in seconds; the whole rest of the text is the zone.\<close>

definition zone :: "string \<Rightarrow> int option" where
  "zone s =
     (if s = ''Z'' then Some 0
      else if length s \<noteq> 6 \<or> s ! 3 \<noteq> CHR '':'' \<or> (hd s \<noteq> CHR ''+'' \<and> hd s \<noteq> CHR ''-'') then None
      else case (field 2 0 24 (drop 1 s), field 2 0 60 (drop 4 s)) of
             (Some (h, _), Some (m, _)) \<Rightarrow> Some ((if hd s = CHR ''-'' then -1 else 1) * (h * 3600 + m * 60))
           | _ \<Rightarrow> None)"

definition bind2 :: "('a \<times> 'b) option \<Rightarrow> ('a \<Rightarrow> 'b \<Rightarrow> 'c option) \<Rightarrow> 'c option" where
  "bind2 p f = (case p of None \<Rightarrow> None | Some (a, b) \<Rightarrow> f a b)"

definition parse_rfc3339 :: "string \<Rightarrow> instant option" where
  "parse_rfc3339 s =
     bind2 (field 4 0 9999 s) (\<lambda>year s. Option.bind (expect CHR ''-'' s) (\<lambda>s.
     bind2 (field 2 1 12 s) (\<lambda>month s. Option.bind (expect CHR ''-'' s) (\<lambda>s.
     bind2 (field 2 0 99 s) (\<lambda>day s. Option.bind (expect CHR ''T'' s) (\<lambda>s.
     bind2 (short_field 0 23 s) (\<lambda>h s. Option.bind (expect CHR '':'' s) (\<lambda>s.
     bind2 (field 2 0 59 s) (\<lambda>mi s. Option.bind (expect CHR '':'' s) (\<lambda>s.
     bind2 (field 2 0 59 s) (\<lambda>sec s.
       (case fraction s of (ns, s) \<Rightarrow>
         if day < 1 \<or> month_lengths year ! nat (month - 1) < day then None
         else map_option (\<lambda>off. (((epoch_days year month day * 24 + h) * 60 + mi) * 60 + sec - off) * second + ns) (zone s))
     )))))))))))"

lemma parse_examples:
  "parse_rfc3339 ''1970-01-01T00:00:00Z'' = Some 0"
  "parse_rfc3339 ''2024-02-29T12:30:45.25+02:00'' = Some (1709202645 * second + 250000000)"
  "parse_rfc3339 ''2023-02-29T12:30:45Z'' = None"
  "parse_rfc3339 ''2023-02-28 12:30:45Z'' = None"
  "parse_rfc3339 ''0001-01-01T00:00:00Z'' = Some zero_time"
  by code_simp+

end
