(* ===== verification/Device_Service.thy ===== *)
theory Device_Service
  imports Device_Steps Go_Base64 Go_Time
begin

text \<open>
  The service's operations on machines (\<open>core/service.go\<close>) and the keys and opaque identifiers of
  \<open>security/security.go\<close>. \<open>ed25519.Verify\<close> is a parameter; so is what other requests do to the Hub between the
  two store calls of \<open>IssueDeviceToken\<close>.
\<close>

section \<open>Keys and opaque identifiers\<close>

definition RandomOpaque :: "string \<Rightarrow> string \<Rightarrow> string" where
  "RandomOpaque prefix buf = prefix @ base64_raw url_alphabet buf"

definition HashToken :: "env \<Rightarrow> string \<Rightarrow> string" where
  "HashToken E token = dg_text (en_digests E) token"

definition Fingerprint :: "env \<Rightarrow> string \<Rightarrow> string" where
  "Fingerprint E publicKey = ''sha256:'' @ dg_text (en_digests E) publicKey"

definition EncodePublicKey :: "string \<Rightarrow> string" where
  "EncodePublicKey publicKey = base64_raw std_alphabet publicKey"

definition DecodePublicKey :: "string \<Rightarrow> string option" where
  "DecodePublicKey encoded =
     (case base64_decode std_alphabet encoded of None \<Rightarrow> None | Some raw \<Rightarrow> if length raw \<noteq> 32 then None else Some raw)"

definition DecodeSignature :: "string \<Rightarrow> string option" where
  "DecodeSignature encoded =
     (case base64_decode std_alphabet encoded of None \<Rightarrow> None | Some raw \<Rightarrow> if length raw \<noteq> 64 then None else Some raw)"

definition DeviceTokenPayload :: "string \<Rightarrow> string \<Rightarrow> string \<Rightarrow> string" where
  "DeviceTokenPayload machineID nonce timestamp =
     ''fast-spider-device-token-v1'' @ [CHR 0x0A] @ machineID @ [CHR 0x0A] @ nonce @ [CHR 0x0A] @ timestamp"

definition DeviceChallengePayload :: "string \<Rightarrow> string \<Rightarrow> string" where
  "DeviceChallengePayload machineID challenge =
     ''fast-spider-device-challenge-v1'' @ [CHR 0x0A] @ machineID @ [CHR 0x0A] @ challenge"

section \<open>Audit\<close>

definition audit_node :: "string \<Rightarrow> string \<Rightarrow> string \<Rightarrow> string \<Rightarrow> instant \<Rightarrow> hub \<Rightarrow> hub" where
  "audit_node ownerID machineID action remoteAddr now w = w\<lparr>hb_audit := hb_audit w @ [\<lparr>ad_OwnerID = ownerID, ad_MachineID = machineID,
     ad_ActorType = ''node'', ad_ActorID = machineID, ad_Action = action, ad_Result = ''success'', ad_RemoteAddr = remoteAddr,
     ad_ErrorCode = [], ad_CreatedAt = unix now\<rparr>]\<rparr>"

definition audit_owner :: "string \<Rightarrow> string \<Rightarrow> string \<Rightarrow> string \<Rightarrow> instant \<Rightarrow> hub \<Rightarrow> hub" where
  "audit_owner ownerID machineID action remoteAddr now w = w\<lparr>hb_audit := hb_audit w @ [\<lparr>ad_OwnerID = ownerID, ad_MachineID = machineID,
     ad_ActorType = ''owner'', ad_ActorID = ownerID, ad_Action = action, ad_Result = ''success'', ad_RemoteAddr = remoteAddr,
     ad_ErrorCode = [], ad_CreatedAt = unix now\<rparr>]\<rparr>"

section \<open>Registration\<close>

record registration_request =
  rg_DisplayName :: string
  rg_OS :: string
  rg_Arch :: string
  rg_NodeVersion :: string
  rg_PublicKey :: string

definition bounded_field :: "nat \<Rightarrow> string \<Rightarrow> bool" where
  "bounded_field n v = (let v = trim_space v in 1 \<le> length v \<and> length v \<le> n)"

definition validateMachineRegistration :: "registration_request \<Rightarrow> hub_error option" where
  "validateMachineRegistration req =
     (if \<not> bounded_field 128 (rg_DisplayName req) then Some ErrConflict
      else if \<not> bounded_field 64 (rg_OS req) then Some ErrConflict
      else if \<not> bounded_field 64 (rg_Arch req) then Some ErrConflict
      else if \<not> bounded_field 64 (rg_NodeVersion req) then Some ErrConflict else None)"

definition RegisterMachine :: "env \<Rightarrow> hub \<Rightarrow> string \<Rightarrow> registration_request \<Rightarrow> string \<Rightarrow> (hub_error + registration_result) \<times> hub" where
  "RegisterMachine E w ownerID req remoteAddr =
     (case validateMachineRegistration req of
        Some e \<Rightarrow> (Inl e, w)
      | None \<Rightarrow>
      (case DecodePublicKey (rg_PublicKey req) of
        None \<Rightarrow> (Inl ErrUnauthorized, w)
      | Some pub \<Rightarrow>
      let machineID = en_random E w ''mach_''; credentialID = en_random E w ''cred_''; now = hb_now w
      in run (RegisterMachine_row w \<lparr>ri_MachineID = machineID, ri_CredentialID = credentialID, ri_OwnerID = ownerID,
            ri_DisplayName = trim_space (rg_DisplayName req), ri_OS = trim_space (rg_OS req), ri_Arch = trim_space (rg_Arch req),
            ri_NodeVersion = trim_space (rg_NodeVersion req), ri_PublicKey = EncodePublicKey pub,
            ri_Fingerprint = Fingerprint E pub, ri_Now = now\<rparr>)
          (\<lambda>r w. (Inr r, audit_node (rs_OwnerID r) (rs_MachineID r) ''node.register'' remoteAddr now w))))"

section \<open>Device tokens\<close>

record token_request =
  dt_MachineID :: string
  dt_Nonce :: string
  dt_Timestamp :: string
  dt_Signature :: string

definition deviceTokenTTL :: duration where "deviceTokenTTL = 24 * hour"
definition maxClockSkew :: duration where "maxClockSkew = 5 * minute"

text \<open>The checks of a request, up to the signature.\<close>

definition check_token_request ::
    "(string \<Rightarrow> string \<Rightarrow> string \<Rightarrow> bool) \<Rightarrow> hub \<Rightarrow> token_request \<Rightarrow> hub_error + device_identity" where
  "check_token_request verify w req =
     (if 128 < length (dt_MachineID req) \<or> length (dt_Nonce req) < 16 \<or> 256 < length (dt_Nonce req) \<or> 256 < length (dt_Signature req)
      then Inl ErrUnauthorized
      else case parse_rfc3339 (dt_Timestamp req) of
        None \<Rightarrow> Inl ErrUnauthorized
      | Some ts \<Rightarrow>
      if maxClockSkew < time_sub (hb_now w) ts \<or> time_sub (hb_now w) ts < - maxClockSkew then Inl ErrExpired
      else case GetDeviceIdentity w (dt_MachineID req) of
        Inl e \<Rightarrow> Inl e
      | Inr identity \<Rightarrow>
      (case DecodePublicKey (di_PublicKey identity) of
        None \<Rightarrow> Inl ErrUnauthorized
      | Some pub \<Rightarrow>
      (case DecodeSignature (dt_Signature req) of
        None \<Rightarrow> Inl ErrUnauthorized
      | Some sig \<Rightarrow>
          if \<not> verify pub (DeviceTokenPayload (dt_MachineID req) (dt_Nonce req) (dt_Timestamp req)) sig then Inl ErrUnauthorized
          else Inr identity)))"

definition IssueDeviceToken ::
    "env \<Rightarrow> (string \<Rightarrow> string \<Rightarrow> string \<Rightarrow> bool) \<Rightarrow> (hub \<Rightarrow> hub) \<Rightarrow> hub \<Rightarrow> token_request \<Rightarrow> string \<Rightarrow> (hub_error + string \<times> instant) \<times> hub" where
  "IssueDeviceToken E verify others w req remoteAddr =
     (let now = hb_now w
      in case check_token_request verify w req of
        Inl e \<Rightarrow> (Inl e, w)
      | Inr identity \<Rightarrow>
      let token = en_random E w ''dev_''; tokenID = en_random E w ''dtok_''; expires = now + deviceTokenTTL
      in run (IssueDeviceToken_row (others w) (dt_MachineID req) (di_CredentialID identity) (dg_text (en_digests E) (dt_Nonce req))
            tokenID (HashToken E token) now expires)
          (\<lambda>_ w. (Inr (token, expires),
             audit_node (mr_OwnerID (di_Machine identity)) (dt_MachineID req) ''device_token.issue'' remoteAddr now w)))"

definition AuthenticateDevice :: "env \<Rightarrow> hub \<Rightarrow> string \<Rightarrow> hub_error + device_session" where
  "AuthenticateDevice E w bearer =
     (if \<not> has_prefix bearer ''dev_'' \<or> 256 < length bearer then Inl ErrUnauthorized
      else AuthenticateDeviceToken w (HashToken E bearer) (hb_now w))"

section \<open>Administration\<close>

definition UpdateMachineAdminNote :: "hub \<Rightarrow> string \<Rightarrow> string \<Rightarrow> string \<Rightarrow> string \<Rightarrow> (hub_error + unit) \<times> hub" where
  "UpdateMachineAdminNote w ownerID machineID adminNote remoteAddr =
     (let adminNote = trim_space adminNote; now = hb_now w
      in if 128 < length adminNote then (Inl ErrConflict, w)
         else run (UpdateMachineAdminNote_row w ownerID machineID adminNote now)
           (\<lambda>_ w. (Inr (), audit_owner ownerID machineID ''machine.admin_note.update'' remoteAddr now w)))"

definition DeleteMachine :: "hub \<Rightarrow> string \<Rightarrow> string \<Rightarrow> string \<Rightarrow> (hub_error + unit) \<times> hub" where
  "DeleteMachine w ownerID machineID remoteAddr =
     (let now = hb_now w
      in run (DeleteMachine_row w ownerID machineID now)
        (\<lambda>_ w. (Inr (), audit_owner ownerID machineID ''machine.delete'' remoteAddr now w)))"

section \<open>Errors of the service\<close>

definition IsClientError :: "hub_error \<Rightarrow> bool" where
  "IsClientError e = (case root_error e of
     CallError _ \<Rightarrow> True
   | r \<Rightarrow> r \<in> {ErrUnauthorized, ErrExpired, ErrConsumed, ErrRevoked, ErrReplay, ErrConflict, ErrNotFound})"

definition ErrorCode :: "hub_error \<Rightarrow> string" where
  "ErrorCode e = (case root_error e of
     CallError c \<Rightarrow> ce_Code c
   | ErrUnauthorized \<Rightarrow> ''UNAUTHORIZED''
   | ErrExpired \<Rightarrow> ''EXPIRED''
   | ErrConsumed \<Rightarrow> ''TOKEN_CONSUMED''
   | ErrRevoked \<Rightarrow> ''REVOKED''
   | ErrReplay \<Rightarrow> ''REPLAY_DETECTED''
   | ErrConflict \<Rightarrow> ''CONFLICT''
   | ErrNotFound \<Rightarrow> ''NOT_FOUND''
   | _ \<Rightarrow> ''INTERNAL'')"

definition ErrorStatus :: "hub_error \<Rightarrow> int" where
  "ErrorStatus e = (case root_error e of
     CallError c \<Rightarrow>
       (if ce_Code c \<in> {''MACHINE_OFFLINE'', ''CONNECTION_LOST''} then 503
        else if ce_Code c \<in> {''DEADLINE_EXCEEDED'', ''TIMEOUT''} then 504
        else if ce_Code c = ''PERMISSION_DENIED'' then 403
        else if ce_Code c \<in> {''NOT_FOUND'', ''COLLABORATION_NOT_FOUND'', ''TASK_NOT_FOUND''} then 404
        else if ce_Code c = ''INVALID_REQUEST'' then 400 else 409)
   | ErrUnauthorized \<Rightarrow> 401
   | ErrExpired \<Rightarrow> 409
   | ErrConsumed \<Rightarrow> 409
   | ErrRevoked \<Rightarrow> 409
   | ErrReplay \<Rightarrow> 409
   | ErrConflict \<Rightarrow> 409
   | ErrNotFound \<Rightarrow> 404
   | _ \<Rightarrow> 500)"

end
