(* ===== verification/Node_Registry.thy ===== *)
theory Node_Registry
  imports Device_Service
begin

text \<open>
  The Hub's table of live Node connections (\<open>registry/registry.go\<close>). Connections are shared between the table, the
  read loop of the connection and the calls in flight, so they live in a store of connections and are passed by
  their index in it; the table maps a machine to one of them. A connection's closed channel is a flag that is only ever
  set. What an operation does under the table's lock is one step (\<open>Register_table\<close>, \<open>Remove_table\<close>), marking the
  connection it took out as lost is another; the websocket itself is not modelled.
\<close>

record connection =
  cn_MachineID :: string
  cn_ConnectionID :: string
  cn_Generation :: int
  cn_ConnectedAt :: instant
  cn_LastSeenAt :: instant
  cn_Status :: string
  cn_Capabilities :: "descriptor list"
  cn_pending :: "(string \<times> nat) list"
  cn_closed :: bool

record registry =
  rg_store :: "connection list"
  rg_conns :: "(string \<times> nat) list"

definition NewConnection :: "string \<Rightarrow> string \<Rightarrow> int \<Rightarrow> instant \<Rightarrow> connection" where
  "NewConnection machineID connectionID generation now = \<lparr>cn_MachineID = machineID, cn_ConnectionID = connectionID,
     cn_Generation = generation, cn_ConnectedAt = now, cn_LastSeenAt = now, cn_Status = ''ready'', cn_Capabilities = [],
     cn_pending = [], cn_closed = False\<rparr>"

definition update_conn :: "nat \<Rightarrow> (connection \<Rightarrow> connection) \<Rightarrow> registry \<Rightarrow> registry" where
  "update_conn i f r = r\<lparr>rg_store := (rg_store r)[i := f (rg_store r ! i)]\<rparr>"

definition MarkLost :: "nat \<Rightarrow> registry \<Rightarrow> registry" where
  "MarkLost i = update_conn i (\<lambda>c. c\<lparr>cn_closed := True\<rparr>)"

definition Register_table :: "registry \<Rightarrow> nat \<Rightarrow> (nat option \<times> bool) \<times> registry" where
  "Register_table r i =
     (let c = rg_store r ! i; put = r\<lparr>rg_conns := AList.update (cn_MachineID c) i (rg_conns r)\<rparr>
      in case map_of (rg_conns r) (cn_MachineID c) of
           None \<Rightarrow> ((None, True), put)
         | Some j \<Rightarrow> if cn_Generation c \<le> cn_Generation (rg_store r ! j) then ((None, False), r) else ((Some j, True), put))"

definition mark_opt :: "nat option \<Rightarrow> registry \<Rightarrow> registry" where
  "mark_opt x r = (case x of None \<Rightarrow> r | Some j \<Rightarrow> MarkLost j r)"

definition Register :: "registry \<Rightarrow> nat \<Rightarrow> (nat option \<times> bool) \<times> registry" where
  "Register r i = (case Register_table r i of ((replaced, accepted), r) \<Rightarrow> ((replaced, accepted), mark_opt replaced r))"

definition Remove_table :: "registry \<Rightarrow> string \<Rightarrow> int \<Rightarrow> nat option \<times> registry" where
  "Remove_table r machineID generation =
     (case map_of (rg_conns r) machineID of
        None \<Rightarrow> (None, r)
      | Some j \<Rightarrow>
          if cn_Generation (rg_store r ! j) = generation
          then (Some j, r\<lparr>rg_conns := AList.delete machineID (rg_conns r)\<rparr>) else (None, r))"

definition Remove :: "registry \<Rightarrow> string \<Rightarrow> int \<Rightarrow> registry" where
  "Remove r machineID generation = (case Remove_table r machineID generation of (removed, r) \<Rightarrow> mark_opt removed r)"

definition Touch :: "registry \<Rightarrow> string \<Rightarrow> int \<Rightarrow> string \<Rightarrow> instant \<Rightarrow> bool \<times> registry" where
  "Touch r machineID generation status now =
     (case map_of (rg_conns r) machineID of
        None \<Rightarrow> (False, r)
      | Some j \<Rightarrow>
          if cn_Generation (rg_store r ! j) \<noteq> generation then (False, r)
          else (True, update_conn j (\<lambda>c. c\<lparr>cn_LastSeenAt := now, cn_Status := (if status \<noteq> [] then status else cn_Status c)\<rparr>) r))"

definition SetCapabilities :: "registry \<Rightarrow> string \<Rightarrow> int \<Rightarrow> descriptor list \<Rightarrow> bool \<times> registry" where
  "SetCapabilities r machineID generation capabilities =
     (case map_of (rg_conns r) machineID of
        None \<Rightarrow> (False, r)
      | Some j \<Rightarrow>
          if cn_Generation (rg_store r ! j) \<noteq> generation then (False, r)
          else (True, update_conn j (\<lambda>c. c\<lparr>cn_Capabilities := capabilities\<rparr>) r))"

record snapshot =
  sn_MachineID :: string
  sn_ConnectionID :: string
  sn_Generation :: int
  sn_ConnectedAt :: instant
  sn_LastSeenAt :: instant
  sn_Status :: string
  sn_Capabilities :: "descriptor list"

definition snapshot_of :: "connection \<Rightarrow> snapshot" where
  "snapshot_of c = \<lparr>sn_MachineID = cn_MachineID c, sn_ConnectionID = cn_ConnectionID c, sn_Generation = cn_Generation c,
     sn_ConnectedAt = cn_ConnectedAt c, sn_LastSeenAt = cn_LastSeenAt c, sn_Status = cn_Status c, sn_Capabilities = cn_Capabilities c\<rparr>"

definition Get :: "registry \<Rightarrow> string \<Rightarrow> snapshot option" where
  "Get r machineID = map_option (\<lambda>j. snapshot_of (rg_store r ! j)) (map_of (rg_conns r) machineID)"

definition List_snapshots :: "registry \<Rightarrow> snapshot list" where
  "List_snapshots r = map (\<lambda>(k, j). snapshot_of (rg_store r ! j)) (rg_conns r)"

definition CloseMachine :: "registry \<Rightarrow> string \<Rightarrow> bool \<times> registry" where
  "CloseMachine r machineID =
     (case map_of (rg_conns r) machineID of None \<Rightarrow> (False, r) | Some j \<Rightarrow> (True, MarkLost j r))"

definition stale_refs :: "registry \<Rightarrow> instant \<Rightarrow> nat list" where
  "stale_refs r before = filter (\<lambda>j. cn_LastSeenAt (rg_store r ! j) < before) (map snd (rg_conns r))"

definition CloseStale :: "registry \<Rightarrow> instant \<Rightarrow> nat \<times> registry" where
  "CloseStale r before = (let stale = stale_refs r before in (length stale, foldl (\<lambda>r j. MarkLost j r) r stale))"

section \<open>The table and the connections\<close>

text \<open>Every machine has one entry, and it is a connection of that machine.\<close>

definition wf_registry :: "registry \<Rightarrow> bool" where
  "wf_registry r = (distinct (map fst (rg_conns r))
     \<and> (\<forall>(k, j) \<in> set (rg_conns r). j < length (rg_store r) \<and> cn_MachineID (rg_store r ! j) = k))"

text \<open>What every operation keeps of a connection: its identity, and that it is lost once it is.\<close>

definition conn_le :: "connection \<Rightarrow> connection \<Rightarrow> bool" where
  "conn_le c c' = (cn_MachineID c' = cn_MachineID c \<and> cn_ConnectionID c' = cn_ConnectionID c
     \<and> cn_Generation c' = cn_Generation c \<and> (cn_closed c \<longrightarrow> cn_closed c'))"

definition registry_le :: "registry \<Rightarrow> registry \<Rightarrow> bool" where
  "registry_le r r' = (length (rg_store r) \<le> length (rg_store r')
     \<and> (\<forall>j < length (rg_store r). conn_le (rg_store r ! j) (rg_store r' ! j)))"

lemma conn_le_refl [simp]: "conn_le c c"
  by (simp add: conn_le_def)

lemma registry_le_refl [simp]: "registry_le r r"
  by (simp add: registry_le_def)

lemma conn_le_trans: "conn_le a b \<Longrightarrow> conn_le b c \<Longrightarrow> conn_le a c"
  by (simp add: conn_le_def)

lemma registry_le_trans: "registry_le a b \<Longrightarrow> registry_le b c \<Longrightarrow> registry_le a c"
  unfolding registry_le_def by (meson conn_le_trans less_le_trans order_trans)

lemma update_conn_simps [simp]:
  "rg_conns (update_conn i f r) = rg_conns r"
  "length (rg_store (update_conn i f r)) = length (rg_store r)"
  "j < length (rg_store r) \<Longrightarrow> rg_store (update_conn i f r) ! j = (if j = i then f (rg_store r ! j) else rg_store r ! j)"
  by (auto simp: update_conn_def nth_list_update)

lemma registry_le_update: "(\<And>c. conn_le c (f c)) \<Longrightarrow> registry_le r (update_conn i f r)"
  by (simp add: registry_le_def)

lemma registry_le_store: "rg_store r' = rg_store r \<Longrightarrow> registry_le r r'"
  by (simp add: registry_le_def)

lemma MarkLost_simps [simp]:
  "rg_conns (MarkLost i r) = rg_conns r" "length (rg_store (MarkLost i r)) = length (rg_store r)"
  "j < length (rg_store r) \<Longrightarrow> rg_store (MarkLost i r) ! j = (if j = i then (rg_store r ! j)\<lparr>cn_closed := True\<rparr> else rg_store r ! j)"
  by (simp_all add: MarkLost_def)

lemma registry_le_MarkLost: "registry_le r (MarkLost i r)"
  unfolding MarkLost_def by (rule registry_le_update) (simp add: conn_le_def)

lemma wf_update_conn: "wf_registry r \<Longrightarrow> (\<And>c. cn_MachineID (f c) = cn_MachineID c) \<Longrightarrow> wf_registry (update_conn i f r)"
  by (auto simp: wf_registry_def)

lemma wf_MarkLost: "wf_registry r \<Longrightarrow> wf_registry (MarkLost i r)"
  unfolding MarkLost_def by (rule wf_update_conn) simp_all

lemma wf_entry:
  assumes "wf_registry r" "map_of (rg_conns r) k = Some j"
  shows "j < length (rg_store r)" "cn_MachineID (rg_store r ! j) = k"
  using map_of_SomeD [OF assms(2)] assms(1) by (auto simp: wf_registry_def)

lemma wf_put:
  assumes "wf_registry r" "i < length (rg_store r)"
  shows "wf_registry (r\<lparr>rg_conns := AList.update (cn_MachineID (rg_store r ! i)) i (rg_conns r)\<rparr>)"
proof -
  have "set (AList.update k i t) \<subseteq> insert (k, i) (set t)" for k and t :: "(string \<times> nat) list"
    by (induction t) auto
  then show ?thesis using assms by (fastforce simp: wf_registry_def distinct_update)
qed

lemma wf_delete: "wf_registry r \<Longrightarrow> wf_registry (r\<lparr>rg_conns := AList.delete k (rg_conns r)\<rparr>)"
  by (auto simp: wf_registry_def AList.delete_eq distinct_map_filter)

section \<open>Registering and removing\<close>

lemma Register_table_wf: "wf_registry r \<Longrightarrow> i < length (rg_store r) \<Longrightarrow> wf_registry (snd (Register_table r i))"
  by (auto simp: Register_table_def Let_def split: option.split intro: wf_put)

lemma Register_table_store: "rg_store (snd (Register_table r i)) = rg_store r"
  by (auto simp: Register_table_def Let_def split: option.split)

text \<open>A registration takes the machine's entry unless one at least as new holds it, and hands the earlier entry out.\<close>

lemma Register_accepted:
  assumes "Register_table r i = ((x, True), r')"
  shows "map_of (rg_conns r') (cn_MachineID (rg_store r ! i)) = Some i
    \<and> (\<forall>k. k \<noteq> cn_MachineID (rg_store r ! i) \<longrightarrow> map_of (rg_conns r') k = map_of (rg_conns r) k)
    \<and> x = map_of (rg_conns r) (cn_MachineID (rg_store r ! i))
    \<and> (\<forall>j. x = Some j \<longrightarrow> cn_Generation (rg_store r ! j) < cn_Generation (rg_store r ! i))"
  using assms by (auto simp: Register_table_def Let_def update_conv' split: option.splits if_splits)

lemma Register_rejected: "Register_table r i = ((x, False), r') \<Longrightarrow> r' = r \<and> x = None"
  by (auto simp: Register_table_def Let_def split: option.splits if_splits)

lemma Remove_table_wf: "wf_registry r \<Longrightarrow> wf_registry (snd (Remove_table r k g))"
  by (auto simp: Remove_table_def split: option.split intro: wf_delete)

lemma Remove_table_store: "rg_store (snd (Remove_table r k g)) = rg_store r"
  by (auto simp: Remove_table_def split: option.split)

text \<open>An entry disappears only by being handed out.\<close>

lemma Remove_entry:
  assumes "map_of (rg_conns r) k' = Some j"
  shows "map_of (rg_conns (snd (Remove_table r k g))) k' = Some j \<or> fst (Remove_table r k g) = Some j"
  using assms by (auto simp: Remove_table_def AList.delete_conv' split: option.split)

lemma Touch_frame: "wf_registry r \<Longrightarrow> wf_registry (snd (Touch r k g st now))" "registry_le r (snd (Touch r k g st now))"
  "rg_conns (snd (Touch r k g st now)) = rg_conns r"
  by (auto simp: Touch_def conn_le_def split: option.split intro: wf_update_conn registry_le_update)

lemma SetCapabilities_frame: "wf_registry r \<Longrightarrow> wf_registry (snd (SetCapabilities r k g ds))" "registry_le r (snd (SetCapabilities r k g ds))"
  "rg_conns (snd (SetCapabilities r k g ds)) = rg_conns r"
  by (auto simp: SetCapabilities_def conn_le_def split: option.split intro: wf_update_conn registry_le_update)

lemma CloseMachine_frame: "wf_registry r \<Longrightarrow> wf_registry (snd (CloseMachine r k))" "registry_le r (snd (CloseMachine r k))"
  "rg_conns (snd (CloseMachine r k)) = rg_conns r"
  by (auto simp: CloseMachine_def split: option.split intro: wf_MarkLost registry_le_MarkLost)

lemma CloseMachine_closed:
  "wf_registry r \<Longrightarrow> map_of (rg_conns r) k = Some j \<Longrightarrow> cn_closed (rg_store (snd (CloseMachine r k)) ! j)"
  using wf_entry [of r k j] by (simp add: CloseMachine_def)

lemma mark_all:
  "wf_registry r \<Longrightarrow> wf_registry (foldl (\<lambda>r j. MarkLost j r) r js)" "registry_le r (foldl (\<lambda>r j. MarkLost j r) r js)"
  "rg_conns (foldl (\<lambda>r j. MarkLost j r) r js) = rg_conns r"
  by (induction js arbitrary: r) (auto intro: wf_MarkLost registry_le_trans [OF registry_le_MarkLost])

lemma CloseStale_frame: "wf_registry r \<Longrightarrow> wf_registry (snd (CloseStale r b))" "registry_le r (snd (CloseStale r b))"
  "rg_conns (snd (CloseStale r b)) = rg_conns r"
  using mark_all by (simp_all add: CloseStale_def Let_def)

end
