(* ===== verification/Node_Sessions.thy ===== *)
theory Node_Sessions
  imports Node_Registry
begin

text \<open>
  A Node's websocket session (\<open>server/node_ws.go\<close>) from the bearer token to the end of its read loop, for any number
  of sessions, revocations (\<open>RevokeMachine\<close> of \<open>core/service.go\<close>), maintenance runs and other statements
  that interleave. A session is a thread with a program counter; every step is one store statement, one critical section of the
  registry, or one marking of a connection as lost. Connections that a finished critical section still has to mark are
  kept in \<open>ns_marks\<close>, machines whose revocation has been stored but not yet looked up in \<open>ns_closers\<close>.
\<close>

section \<open>The client's hello\<close>

record client_hello =
  ch_MessageType :: string
  ch_MachineId :: string
  ch_ProtocolVersions :: "string list"
  ch_Capabilities :: "descriptor list"
  ch_NodeVersion :: string
  ch_Os :: string
  ch_Arch :: string
  ch_DisplayName :: string
  ch_Timestamp :: string
  ch_ChallengeSignature :: string

text \<open>Negation of an \<open>int64\<close> wraps around.\<close>

definition wrap64 :: "int \<Rightarrow> int" where
  "wrap64 v = (v + 2 ^ 63) mod 2 ^ 64 - 2 ^ 63"

definition absDuration :: "duration \<Rightarrow> duration" where
  "absDuration v = (if v < 0 then wrap64 (- v) else v)"

definition verifyClientHello ::
    "(string \<Rightarrow> string \<Rightarrow> string \<Rightarrow> bool) \<Rightarrow> instant \<Rightarrow> string \<Rightarrow> string \<Rightarrow> string \<Rightarrow> client_hello \<Rightarrow> string option" where
  "verifyClientHello verify now machineID encodedPublicKey challenge hello =
     (if ch_MessageType hello \<noteq> ''client.hello'' \<or> ch_MachineId hello \<noteq> machineID then Some ''invalid client hello identity''
      else if ''1.0'' \<notin> set (ch_ProtocolVersions hello) then Some ''no common protocol version''
      else if 128 < length (ch_Capabilities hello) \<or> 64 < length (ch_NodeVersion hello) \<or> 64 < length (ch_Os hello)
        \<or> 64 < length (ch_Arch hello) \<or> 128 < length (trim_space (ch_DisplayName hello)) then Some ''client hello exceeds limits''
      else if (case parse_rfc3339 (ch_Timestamp hello) of None \<Rightarrow> True | Some ts \<Rightarrow> 5 * minute < absDuration (time_sub now ts))
      then Some ''client hello timestamp outside allowed skew''
      else case DecodePublicKey encodedPublicKey of
        None \<Rightarrow> Some ''decode public key''
      | Some pub \<Rightarrow>
      (case DecodeSignature (ch_ChallengeSignature hello) of
        None \<Rightarrow> Some ''decode signature''
      | Some sig \<Rightarrow>
          if \<not> verify pub (DeviceChallengePayload machineID challenge) sig then Some ''challenge signature invalid'' else None))"

definition validRuntimeStatus :: "string \<Rightarrow> bool" where
  "validRuntimeStatus status = (status = ''ready'' \<or> status = ''busy'')"

section \<open>Sessions as threads\<close>

datatype phase =
    Authenticated device_session
  | Greeted device_session client_hello
  | Numbered device_session client_hello int
  | Entered nat client_hello
  | Described nat client_hello
  | Live nat client_hello
  | Leaving nat
  | Gone

fun conn_of :: "phase \<Rightarrow> nat option" where
  "conn_of (Entered i _) = Some i"
| "conn_of (Described i _) = Some i"
| "conn_of (Live i _) = Some i"
| "conn_of (Leaving i) = Some i"
| "conn_of _ = None"

fun present :: "phase \<Rightarrow> nat option" where
  "present (Entered i _) = Some i"
| "present (Described i _) = Some i"
| "present (Live i _) = Some i"
| "present _ = None"

record node_sys =
  ns_hub :: hub
  ns_reg :: registry
  ns_threads :: "phase list"
  ns_marks :: "nat list"
  ns_closers :: "string list"

definition opt_list :: "'a option \<Rightarrow> 'a list" where
  "opt_list x = (case x of None \<Rightarrow> [] | Some y \<Rightarrow> [y])"

definition goes :: "node_sys \<Rightarrow> nat \<Rightarrow> phase \<Rightarrow> node_sys" where
  "goes s t p = s\<lparr>ns_threads := (ns_threads s)[t := p]\<rparr>"

text \<open>\<open>handleNodeConnect\<close> up to the hello; the hello is judged by the key of the session that was authenticated.\<close>

definition handle_auth :: "env \<Rightarrow> node_sys \<Rightarrow> string \<Rightarrow> string \<Rightarrow> node_sys" where
  "handle_auth E s bearer requested =
     (case AuthenticateDevice E (ns_hub s) bearer of
        Inl e \<Rightarrow> s
      | Inr session \<Rightarrow>
          if requested = [] \<or> requested \<noteq> ds_MachineID session then s
          else s\<lparr>ns_threads := ns_threads s @ [Authenticated session]\<rparr>)"

definition handle_hello :: "(string \<Rightarrow> string \<Rightarrow> string \<Rightarrow> bool) \<Rightarrow> node_sys \<Rightarrow> nat \<Rightarrow> device_session \<Rightarrow> string \<Rightarrow> client_hello \<Rightarrow> node_sys" where
  "handle_hello verify s t session challenge hello =
     goes s t (if verifyClientHello verify (hb_now (ns_hub s)) (ds_MachineID session) (ds_PublicKey session) challenge hello \<noteq> None
       then Gone else Greeted session hello)"

definition handle_number :: "node_sys \<Rightarrow> nat \<Rightarrow> device_session \<Rightarrow> client_hello \<Rightarrow> node_sys" where
  "handle_number s t session hello =
     (case NextGeneration (ns_hub s) (ds_MachineID session) (hb_now (ns_hub s)) of
        (Inl e, w) \<Rightarrow> goes (s\<lparr>ns_hub := w\<rparr>) t Gone
      | (Inr g, w) \<Rightarrow> goes (s\<lparr>ns_hub := w\<rparr>) t (Numbered session hello g))"

definition handle_register :: "node_sys \<Rightarrow> nat \<Rightarrow> device_session \<Rightarrow> client_hello \<Rightarrow> int \<Rightarrow> string \<Rightarrow> node_sys" where
  "handle_register s t session hello g connectionID =
     (let r = ns_reg s; i = length (rg_store r);
          r = r\<lparr>rg_store := rg_store r @ [NewConnection (ds_MachineID session) connectionID g (hb_now (ns_hub s))]\<rparr>
      in case Register_table r i of
           ((replaced, accepted), r) \<Rightarrow>
             goes (s\<lparr>ns_reg := r, ns_marks := ns_marks s @ opt_list replaced\<rparr>) t (if accepted then Entered i hello else Gone))"

definition handle_describe :: "node_sys \<Rightarrow> nat \<Rightarrow> nat \<Rightarrow> client_hello \<Rightarrow> node_sys" where
  "handle_describe s t i hello =
     (let c = rg_store (ns_reg s) ! i; r = snd (SetCapabilities (ns_reg s) (cn_MachineID c) (cn_Generation c) (ch_Capabilities hello))
      in case ReplaceCapabilities (ns_hub s) (cn_MachineID c) (ch_Capabilities hello) (hb_now (ns_hub s)) of
           (Inl e, w) \<Rightarrow> goes (s\<lparr>ns_reg := r, ns_hub := w\<rparr>) t (Leaving i)
         | (Inr _, w) \<Rightarrow> goes (s\<lparr>ns_reg := r, ns_hub := w\<rparr>) t (Described i hello))"

definition touch_hub :: "(descriptor list \<Rightarrow> string) \<Rightarrow> node_sys \<Rightarrow> nat \<Rightarrow> client_hello \<Rightarrow> (hub_error + unit) \<times> hub" where
  "touch_hub capabilityDigest s i hello =
     TouchMachine (ns_hub s) (cn_MachineID (rg_store (ns_reg s) ! i)) (trim_space (ch_DisplayName hello)) (ch_Os hello) (ch_Arch hello)
       (ch_NodeVersion hello) (capabilityDigest (ch_Capabilities hello)) (hb_now (ns_hub s))"

definition handle_touch :: "(descriptor list \<Rightarrow> string) \<Rightarrow> node_sys \<Rightarrow> nat \<Rightarrow> nat \<Rightarrow> client_hello \<Rightarrow> node_sys" where
  "handle_touch capabilityDigest s t i hello =
     (case touch_hub capabilityDigest s i hello of
        (Inl e, w) \<Rightarrow> goes (s\<lparr>ns_hub := w\<rparr>) t (Leaving i)
      | (Inr _, w) \<Rightarrow> goes (s\<lparr>ns_hub := w\<rparr>) t (Live i hello))"

text \<open>One heartbeat of the read loop; whether a minute has passed since the last one that was stored is an argument. An
  error of that store call is ignored.\<close>

definition read_heartbeat :: "(descriptor list \<Rightarrow> string) \<Rightarrow> node_sys \<Rightarrow> nat \<Rightarrow> nat \<Rightarrow> client_hello \<Rightarrow> string \<Rightarrow> bool \<Rightarrow> node_sys" where
  "read_heartbeat capabilityDigest s t i hello status persist =
     (if \<not> validRuntimeStatus status then goes (s\<lparr>ns_reg := MarkLost i (ns_reg s)\<rparr>) t (Leaving i)
      else let c = rg_store (ns_reg s) ! i
           in case Touch (ns_reg s) (cn_MachineID c) (cn_Generation c) status (hb_now (ns_hub s)) of
                (False, r) \<Rightarrow> goes (s\<lparr>ns_reg := r\<rparr>) t (Leaving i)
              | (True, r) \<Rightarrow> s\<lparr>ns_reg := r, ns_hub := (if persist then snd (touch_hub capabilityDigest s i hello) else ns_hub s)\<rparr>)"

definition handle_remove :: "node_sys \<Rightarrow> nat \<Rightarrow> nat \<Rightarrow> node_sys" where
  "handle_remove s t i =
     (let c = rg_store (ns_reg s) ! i
      in case Remove_table (ns_reg s) (cn_MachineID c) (cn_Generation c) of
           (removed, r) \<Rightarrow> goes (s\<lparr>ns_reg := r, ns_marks := ns_marks s @ opt_list removed\<rparr>) t Gone)"

text \<open>The service's revocation: the statement, the connection the registry holds, the audit entry.\<close>

definition RevokeMachine :: "hub \<Rightarrow> registry \<Rightarrow> string \<Rightarrow> string \<Rightarrow> string \<Rightarrow> (hub_error + unit) \<times> hub \<times> registry" where
  "RevokeMachine w r ownerID machineID remoteAddr =
     (let now = hb_now w
      in case RevokeMachine_row w ownerID machineID now of
           (Inl e, w) \<Rightarrow> (Inl e, w, r)
         | (Inr _, w) \<Rightarrow> (Inr (), audit_owner ownerID machineID ''machine.revoke'' remoteAddr now w, snd (CloseMachine r machineID)))"

definition quiet :: "device_stmt \<Rightarrow> bool" where
  "quiet s = (case s of S_Revoke _ _ _ \<Rightarrow> False | S_NextGeneration _ _ \<Rightarrow> False | _ \<Rightarrow> True)"

inductive node_step ::
    "env \<Rightarrow> (string \<Rightarrow> string \<Rightarrow> string \<Rightarrow> bool) \<Rightarrow> (descriptor list \<Rightarrow> string) \<Rightarrow> node_sys \<Rightarrow> node_sys \<Rightarrow> bool"
  for E :: env and verify :: "string \<Rightarrow> string \<Rightarrow> string \<Rightarrow> bool" and dg :: "descriptor list \<Rightarrow> string" where
  auth: "node_step E verify dg s (handle_auth E s bearer requested)"
| hello: "t < length (ns_threads s) \<Longrightarrow> ns_threads s ! t = Authenticated session \<Longrightarrow>
    node_step E verify dg s (handle_hello verify s t session challenge h)"
| number: "t < length (ns_threads s) \<Longrightarrow> ns_threads s ! t = Greeted session h \<Longrightarrow>
    node_step E verify dg s (handle_number s t session h)"
| register: "t < length (ns_threads s) \<Longrightarrow> ns_threads s ! t = Numbered session h g \<Longrightarrow>
    node_step E verify dg s (handle_register s t session h g connectionID)"
| describe: "t < length (ns_threads s) \<Longrightarrow> ns_threads s ! t = Entered i h \<Longrightarrow> node_step E verify dg s (handle_describe s t i h)"
| touch: "t < length (ns_threads s) \<Longrightarrow> ns_threads s ! t = Described i h \<Longrightarrow> node_step E verify dg s (handle_touch dg s t i h)"
| heartbeat: "t < length (ns_threads s) \<Longrightarrow> ns_threads s ! t = Live i h \<Longrightarrow> node_step E verify dg s (read_heartbeat dg s t i h status persist)"
| give_up: "t < length (ns_threads s) \<Longrightarrow> conn_of (ns_threads s ! t) = Some i \<Longrightarrow>
    node_step E verify dg s (goes (s\<lparr>ns_reg := MarkLost i (ns_reg s)\<rparr>) t (Leaving i))"
| abandon: "t < length (ns_threads s) \<Longrightarrow> conn_of (ns_threads s ! t) = None \<Longrightarrow> node_step E verify dg s (goes s t Gone)"
| remove: "t < length (ns_threads s) \<Longrightarrow> ns_threads s ! t = Leaving i \<Longrightarrow> node_step E verify dg s (handle_remove s t i)"
| mark: "i \<in> set (ns_marks s) \<Longrightarrow>
    node_step E verify dg s (s\<lparr>ns_reg := MarkLost i (ns_reg s), ns_marks := remove1 i (ns_marks s)\<rparr>)"
| lose: "i < length (rg_store (ns_reg s)) \<Longrightarrow> node_step E verify dg s (s\<lparr>ns_reg := MarkLost i (ns_reg s)\<rparr>)"
| revoke: "RevokeMachine_row (ns_hub s) ow k (hb_now (ns_hub s)) = (Inr (), w) \<Longrightarrow>
    node_step E verify dg s (s\<lparr>ns_hub := w, ns_closers := ns_closers s @ [k]\<rparr>)"
| close: "k \<in> set (ns_closers s) \<Longrightarrow>
    node_step E verify dg s (s\<lparr>ns_marks := ns_marks s @ opt_list (map_of (rg_conns (ns_reg s)) k), ns_closers := remove1 k (ns_closers s)\<rparr>)"
| stale: "node_step E verify dg s (s\<lparr>ns_marks := ns_marks s @ stale_refs (ns_reg s) before\<rparr>)"
| other: "quiet st \<Longrightarrow> node_step E verify dg s (s\<lparr>ns_hub := exec_device st (ns_hub s)\<rparr>)"
| clock: "node_step E verify dg s (s\<lparr>ns_hub := (ns_hub s)\<lparr>hb_now := now\<rparr>\<rparr>)"

inductive_cases node_stepE: "node_step E verify dg s s'"

definition node_start :: "hub \<Rightarrow> node_sys" where
  "node_start w = \<lparr>ns_hub = w, ns_reg = \<lparr>rg_store = [], rg_conns = []\<rparr>, ns_threads = [], ns_marks = [], ns_closers = []\<rparr>"

end
