(* ===== verification/Node_Invariant.thy ===== *)
theory Node_Invariant
  imports Node_Sessions
begin

text \<open>
  What holds of the sessions in every interleaving (\<open>node_inv\<close>): a connection that its thread believes registered is the
  entry of its machine or lost, and a live one belongs to an active machine unless the machine's revocation is still
  on its way to it.
\<close>

definition is_active :: "hub \<Rightarrow> string \<Rightarrow> bool" where
  "is_active w k = (\<exists>m. machine_by w k = Some m \<and> mr_Status m = ''active'')"

abbreviation conn_at :: "node_sys \<Rightarrow> nat \<Rightarrow> connection" where
  "conn_at s i \<equiv> rg_store (ns_reg s) ! i"

definition lost :: "node_sys \<Rightarrow> nat \<Rightarrow> bool" where
  "lost s i = (cn_closed (conn_at s i) \<or> i \<in> set (ns_marks s))"

definition phase_ok :: "node_sys \<Rightarrow> phase \<Rightarrow> bool" where
  "phase_ok s p = ((\<forall>i. conn_of p = Some i \<longrightarrow> i < length (rg_store (ns_reg s)))
     \<and> (\<forall>i. present p = Some i \<longrightarrow> lost s i \<or> map_of (rg_conns (ns_reg s)) (cn_MachineID (conn_at s i)) = Some i)
     \<and> (\<forall>i h. p = Live i h \<longrightarrow> lost s i \<or> cn_MachineID (conn_at s i) \<in> set (ns_closers s)
         \<or> is_active (ns_hub s) (cn_MachineID (conn_at s i))))"

definition node_inv :: "node_sys \<Rightarrow> bool" where
  "node_inv s = (wf_devices (ns_hub s) \<and> wf_registry (ns_reg s) \<and> (\<forall>i \<in> set (ns_marks s). i < length (rg_store (ns_reg s)))
     \<and> (\<forall>p \<in> set (ns_threads s). phase_ok s p))"

text \<open>How far one step may move what the phases of the other threads rest on.\<close>

definition node_moves :: "node_sys \<Rightarrow> node_sys \<Rightarrow> bool" where
  "node_moves s s' = (registry_le (ns_reg s) (ns_reg s')
     \<and> (\<forall>k j. map_of (rg_conns (ns_reg s)) k = Some j \<longrightarrow> map_of (rg_conns (ns_reg s')) k = Some j \<or> lost s' j)
     \<and> (\<forall>i \<in> set (ns_marks s). lost s' i)
     \<and> (\<forall>k \<in> set (ns_closers s). k \<in> set (ns_closers s') \<or> (\<forall>j. map_of (rg_conns (ns_reg s)) k = Some j \<longrightarrow> lost s' j))
     \<and> (\<forall>k. is_active (ns_hub s) k \<longrightarrow> is_active (ns_hub s') k \<or> k \<in> set (ns_closers s')))"

lemma present_conn: "present p = Some i \<Longrightarrow> conn_of p = Some i"
  by (cases p) auto

lemma node_moves_conn:
  assumes "node_moves s s'" "i < length (rg_store (ns_reg s))"
  shows "i < length (rg_store (ns_reg s'))" "cn_MachineID (conn_at s' i) = cn_MachineID (conn_at s i)" "lost s i \<Longrightarrow> lost s' i"
  using assms by (auto simp: node_moves_def registry_le_def conn_le_def lost_def)

lemma node_moves_entry: "node_moves s s' \<Longrightarrow> map_of (rg_conns (ns_reg s)) k = Some j \<Longrightarrow> map_of (rg_conns (ns_reg s')) k = Some j \<or> lost s' j"
  by (simp add: node_moves_def)

lemma node_moves_closers: "node_moves s s' \<Longrightarrow> k \<in> set (ns_closers s) \<Longrightarrow> map_of (rg_conns (ns_reg s)) k = Some j \<Longrightarrow>
    k \<in> set (ns_closers s') \<or> lost s' j"
  by (simp add: node_moves_def) blast

lemma node_moves_active: "node_moves s s' \<Longrightarrow> is_active (ns_hub s) k \<Longrightarrow> is_active (ns_hub s') k \<or> k \<in> set (ns_closers s')"
  by (simp add: node_moves_def)

lemma node_moves_ok:
  assumes p: "phase_ok s p" and m: "node_moves s s'"
  shows "phase_ok s' p"
proof (cases "conn_of p")
  case None
  then show ?thesis by (cases p) (auto simp: phase_ok_def)
next
  case (Some i)
  have i: "i < length (rg_store (ns_reg s))" using p Some by (simp add: phase_ok_def)
  note keep = node_moves_conn [OF m i]
  let ?k = "cn_MachineID (conn_at s i)"
  have pr: "lost s' i \<or> map_of (rg_conns (ns_reg s')) ?k = Some i" if "present p = Some i"
  proof -
    have "lost s i \<or> map_of (rg_conns (ns_reg s)) ?k = Some i" using p that by (simp add: phase_ok_def)
    then show ?thesis using keep(3) node_moves_entry [OF m, of ?k i] by blast
  qed
  have lv: "lost s' i \<or> ?k \<in> set (ns_closers s') \<or> is_active (ns_hub s') ?k" if "p = Live i h" for h
  proof -
    have "lost s i \<or> map_of (rg_conns (ns_reg s)) ?k = Some i" using p that by (simp add: phase_ok_def)
    moreover have "lost s i \<or> ?k \<in> set (ns_closers s) \<or> is_active (ns_hub s) ?k" using p that by (auto simp: phase_ok_def)
    ultimately show ?thesis using keep(3) node_moves_entry [OF m, of ?k i] node_moves_closers [OF m, of ?k i] node_moves_active [OF m, of ?k] by blast
  qed
  show ?thesis unfolding phase_ok_def
  proof (intro conjI allI impI)
    fix j assume "conn_of p = Some j"
    then show "j < length (rg_store (ns_reg s'))" using Some keep(1) by simp
  next
    fix j assume j: "present p = Some j"
    then have "j = i" using present_conn [OF j] Some by simp
    then show "lost s' j \<or> map_of (rg_conns (ns_reg s')) (cn_MachineID (conn_at s' j)) = Some j" using pr j by (simp only: keep(2))
  next
    fix j h assume j: "p = Live j h"
    then have "j = i" using Some by simp
    then show "lost s' j \<or> cn_MachineID (conn_at s' j) \<in> set (ns_closers s') \<or> is_active (ns_hub s') (cn_MachineID (conn_at s' j))"
      using lv j by (simp only: keep(2))
  qed
qed

lemma inv_step:
  assumes "node_inv s" "node_moves s s'" "wf_devices (ns_hub s')" "wf_registry (ns_reg s')"
    "\<forall>i \<in> set (ns_marks s'). i < length (rg_store (ns_reg s'))"
    "\<And>p. p \<in> set (ns_threads s') \<Longrightarrow> p \<in> set (ns_threads s) \<or> phase_ok s' p"
  shows "node_inv s'"
proof -
  have "phase_ok s' p" if "p \<in> set (ns_threads s')" for p
    using assms(6) [OF that] assms(1) node_moves_ok [OF _ assms(2), of p] by (auto simp: node_inv_def)
  then show ?thesis using assms(3-5) by (simp add: node_inv_def)
qed

text \<open>The same for a step that leaves the registry's entries, the marks and the closers alone.\<close>

lemma node_moves_frame:
  assumes "registry_le (ns_reg s) (ns_reg s')" "rg_conns (ns_reg s') = rg_conns (ns_reg s)" "ns_marks s' = ns_marks s" "ns_closers s' = ns_closers s"
    "\<And>k. is_active (ns_hub s) k \<Longrightarrow> is_active (ns_hub s') k"
  shows "node_moves s s'"
  using assms by (simp add: node_moves_def lost_def)

lemma registry_le_mark: "registry_le r (MarkLost i r)"
  by (rule registry_le_MarkLost)

lemma threads_goes: "p \<in> set (ns_threads (goes s t q)) \<Longrightarrow> p \<in> set (ns_threads s) \<or> p = q"
  using set_update_subset_insert [of "ns_threads s" t q] by (auto simp: goes_def)

lemma goes_simps [simp]: "ns_hub (goes s t q) = ns_hub s" "ns_reg (goes s t q) = ns_reg s" "ns_marks (goes s t q) = ns_marks s"
  "ns_closers (goes s t q) = ns_closers s"
  by (simp_all add: goes_def)

lemma phase_ok_goes [simp]: "phase_ok (goes s t q) = phase_ok s"
  by (rule ext) (simp add: phase_ok_def lost_def)

lemma phase_ok_silent: "conn_of p = None \<Longrightarrow> phase_ok s p"
  by (cases p) (auto simp: phase_ok_def)

lemma phase_ok_leaving [simp]: "phase_ok s (Leaving i) = (i < length (rg_store (ns_reg s)))"
  by (simp add: phase_ok_def)

lemma inv_conn: "node_inv s \<Longrightarrow> t < length (ns_threads s) \<Longrightarrow> conn_of (ns_threads s ! t) = Some i \<Longrightarrow> i < length (rg_store (ns_reg s))"
  using nth_mem [of t "ns_threads s"] by (auto simp: node_inv_def phase_ok_def)

section \<open>Machines that stay active\<close>

lemma is_active_frame: "is_active w k \<Longrightarrow> hb_machines w' = hb_machines w \<Longrightarrow> is_active w' k"
  by (simp add: is_active_def machine_by_def)

lemma is_active_update:
  assumes "is_active w k" "hb_machines w' = sql_update c f (hb_machines w)" "\<And>m. mr_ID (f m) = mr_ID m" "\<And>m. c m \<Longrightarrow> mr_Status (f m) = mr_Status m"
  shows "is_active w' k"
proof -
  obtain m where m: "machine_by w k = Some m" "mr_Status m = ''active''" using assms(1) by (auto simp: is_active_def)
  then have "machine_by w' k = Some (if c m then f m else m)" by (simp add: machine_by_def assms(2,3) find_sql_update)
  then show ?thesis using m assms(4) by (auto simp: is_active_def)
qed

lemma is_active_quiet:
  assumes a: "is_active w k" and q: "quiet s"
  shows "is_active (exec_device s w) k"
proof (cases s)
  case (S_Register i)
  then show ?thesis using a by (auto simp: RegisterMachine_row_def is_active_def machine_by_def find_snoc split: option.splits)
next
  case (S_Touch)
  then show ?thesis by (auto simp: TouchMachine_def Let_def intro!: is_active_update [OF a])
next
  case (S_AdminNote)
  then show ?thesis using a by (auto simp: UpdateMachineAdminNote_row_def Let_def intro!: is_active_update [OF a])
next
  case (S_Delete)
  then show ?thesis using a by (auto simp: DeleteMachine_row_def Let_def intro!: is_active_update [OF a])
next
  case (S_IssueToken)
  then show ?thesis using a by (auto simp: IssueDeviceToken_row_def Let_def intro: is_active_frame [OF a])
next
  case (S_ReplaceCapabilities)
  then show ?thesis using a by (auto simp: ReplaceCapabilities_def split: option.splits intro: is_active_frame [OF a])
next
  case (S_Cleanup)
  then show ?thesis by (auto simp: cleanup_hub_rows_def intro: is_active_frame [OF a])
qed (use q in \<open>simp_all add: quiet_def\<close>)

lemma is_active_number: "is_active w k \<Longrightarrow> is_active (snd (NextGeneration w k' now)) k"
  by (auto simp: NextGeneration_def Let_def split: option.splits elim: is_active_update)

lemma is_active_revoke:
  assumes "is_active w k" "k \<noteq> k'" shows "is_active (snd (RevokeMachine_row w ow k' now)) k"
  using assms by (auto simp: is_active_def machine_by_def RevokeMachine_row_def Let_def find_sql_update dest: find_map_key)

lemma touched_active:
  assumes "wf_devices w" "TouchMachine w k d os ar v dg now = (Inr (), w')"
  shows "is_active w' k"
proof -
  let ?p = "\<lambda>m. mr_ID m = k \<and> mr_Status m = ''active'' \<and> mr_DeletedAt m = None"
  have "sql_affected ?p (hb_machines w) = 1" "w' = exec_device (S_Touch k d os ar v dg now) w"
    using assms(2) by (auto simp: TouchMachine_def Let_def split: if_splits)
  then have "sql_affected ?p (hb_machines w) \<noteq> 0" by simp
  then obtain m where "m \<in> set (hb_machines w)" "?p m" by auto
  then have "is_active w k" using machine_by_eq [OF assms(1)] by (auto simp: is_active_def)
  then show ?thesis using is_active_quiet [of w k "S_Touch k d os ar v dg now"] \<open>w' = _\<close> by (simp add: quiet_def)
qed

section \<open>Every step keeps the invariant\<close>

lemma inv_parts:
  assumes "node_inv s"
  shows "wf_devices (ns_hub s)" "wf_registry (ns_reg s)" "i \<in> set (ns_marks s) \<Longrightarrow> i < length (rg_store (ns_reg s))"
    "p \<in> set (ns_threads s) \<Longrightarrow> phase_ok s p"
  using assms by (auto simp: node_inv_def)

text \<open>A step that node_moves a thread to a phase without demands, with the Hub and the registry in order.\<close>

lemma inv_goes:
  assumes "node_inv s" "node_moves s s1" "wf_devices (ns_hub s1)" "wf_registry (ns_reg s1)"
    "\<forall>i \<in> set (ns_marks s1). i < length (rg_store (ns_reg s1))" "ns_threads s1 = ns_threads s" "phase_ok s1 q"
  shows "node_inv (goes s1 t q)"
proof (rule inv_step [OF assms(1)])
  show "node_moves s (goes s1 t q)" using assms(2) by (simp add: node_moves_def lost_def)
  show "p \<in> set (ns_threads s) \<or> phase_ok (goes s1 t q) p" if "p \<in> set (ns_threads (goes s1 t q))" for p
    using threads_goes [OF that] assms(6,7) by auto
qed (use assms in simp_all)

lemma node_moves_refl [simp]: "node_moves s s"
  by (rule node_moves_frame) simp_all

lemma node_moves_hub:
  assumes "s' = s\<lparr>ns_hub := w\<rparr>" "\<And>k. is_active (ns_hub s) k \<Longrightarrow> is_active w k"
  shows "node_moves s s'"
  using assms by (intro node_moves_frame) simp_all

lemma inv_hub:
  assumes "node_inv s" "\<And>k. is_active (ns_hub s) k \<Longrightarrow> is_active w k" "wf_devices w"
  shows "node_inv (s\<lparr>ns_hub := w\<rparr>)"
  using assms by (intro inv_step [OF assms(1) node_moves_hub [OF refl assms(2)]]) (auto dest: inv_parts)

lemma inv_reg:
  assumes "node_inv s" "registry_le (ns_reg s) r" "rg_conns r = rg_conns (ns_reg s)" "wf_registry r"
  shows "node_inv (s\<lparr>ns_reg := r\<rparr>)"
  using assms inv_parts(3) [OF assms(1)]
  by (intro inv_step [OF assms(1) node_moves_frame]) (auto simp: registry_le_def dest: inv_parts intro: less_le_trans)

lemma inv_mark: "node_inv s \<Longrightarrow> node_inv (s\<lparr>ns_reg := MarkLost i (ns_reg s)\<rparr>)"
  by (rule inv_reg) (auto intro: registry_le_MarkLost wf_MarkLost dest: inv_parts)

text \<open>Moving a thread of a state that already satisfies the invariant.\<close>

lemma inv_go:
  assumes "node_inv s" "phase_ok s q" shows "node_inv (goes s t q)"
  using assms by (intro inv_goes [OF assms(1) node_moves_refl]) (auto dest: inv_parts)

lemma inv_auth: "node_inv s \<Longrightarrow> node_inv (handle_auth E s bearer requested)"
proof -
  assume i: "node_inv s"
  have "node_inv (s\<lparr>ns_threads := ns_threads s @ [Authenticated session]\<rparr>)" for session
  proof (rule inv_step [OF i])
    show "node_moves s (s\<lparr>ns_threads := ns_threads s @ [Authenticated session]\<rparr>)" by (rule node_moves_frame) simp_all
  qed (use i in \<open>auto dest: inv_parts simp: phase_ok_silent\<close>)
  then show ?thesis using i by (simp add: handle_auth_def split: sum.split)
qed

lemma inv_hello: "node_inv s \<Longrightarrow> node_inv (handle_hello verify s t session challenge h)"
  by (simp add: handle_hello_def inv_go phase_ok_silent)

lemma inv_number:
  assumes i: "node_inv s" shows "node_inv (handle_number s t session h)"
proof -
  let ?n = "NextGeneration (ns_hub s) (ds_MachineID session) (hb_now (ns_hub s))"
  have "wf_devices (snd ?n)" using wf_exec [OF inv_parts(1) [OF i], of "S_NextGeneration (ds_MachineID session) (hb_now (ns_hub s))"] by simp
  then have n: "node_inv (s\<lparr>ns_hub := snd ?n\<rparr>)" by (intro inv_hub [OF i] is_active_number)
  show ?thesis
  proof (cases ?n)
    case (Pair r w)
    then show ?thesis using n by (cases r) (simp_all add: handle_number_def inv_go phase_ok_silent)
  qed
qed

lemma inv_register:
  assumes i: "node_inv s" shows "node_inv (handle_register s t session h g c)"
proof -
  let ?r0 = "ns_reg s" let ?n = "length (rg_store ?r0)"
  let ?c = "NewConnection (ds_MachineID session) c g (hb_now (ns_hub s))"
  let ?r1 = "?r0\<lparr>rg_store := rg_store ?r0 @ [?c]\<rparr>"
  have w1: "wf_registry ?r1" using inv_parts(2) [OF i] by (auto simp: wf_registry_def nth_append)
  obtain x acc r2 where t: "Register_table ?r1 ?n = ((x, acc), r2)" by (metis surj_pair)
  let ?s1 = "s\<lparr>ns_reg := r2, ns_marks := ns_marks s @ opt_list x\<rparr>"
  have w2: "wf_registry r2" "rg_store r2 = rg_store ?r0 @ [?c]"
    using Register_table_wf [OF w1, of ?n] Register_table_store [of ?r1 ?n] t by simp_all
  have le: "registry_le ?r0 r2" by (simp add: registry_le_def w2(2) nth_append)
  have x: "j < ?n \<and> j < length (rg_store r2)" if "x = Some j" for j
    using that t Register_accepted [of ?r1 ?n x r2] Register_rejected [of ?r1 ?n x r2] wf_entry(1) [OF inv_parts(2) [OF i]]
    by (cases acc) (auto simp: w2(2) less_SucI dest!: sym [of "Some j"])
  have mv: "node_moves s ?s1"
  proof (cases acc)
    case True
    then have "map_of (rg_conns r2) k = map_of (rg_conns ?r0) k \<or> x = map_of (rg_conns ?r0) k" for k
      using Register_accepted [of ?r1 ?n x r2] t by (cases "k = cn_MachineID ?c") simp_all
    then have "map_of (rg_conns r2) k = Some j \<or> x = Some j" if "map_of (rg_conns ?r0) k = Some j" for k j using that by metis
    then show ?thesis using le by (fastforce simp: node_moves_def lost_def opt_list_def)
  next
    case False
    then show ?thesis using Register_rejected [of ?r1 ?n x r2] t le by (auto simp: node_moves_def lost_def opt_list_def)
  qed
  have ok: "phase_ok ?s1 (if acc then Entered ?n h else Gone)"
  proof (cases acc)
    case True
    then show ?thesis using Register_accepted [of ?r1 ?n x r2] t w2(2) by (simp add: phase_ok_def)
  qed (simp add: phase_ok_silent)
  have "node_inv (goes ?s1 t (if acc then Entered ?n h else Gone))"
    using x w2 inv_parts [OF i] by (intro inv_goes [OF i mv _ _ _ _ ok]) (auto simp: opt_list_def less_SucI split: option.splits)
  then show ?thesis using t by (simp add: handle_register_def Let_def)
qed

lemma inv_describe:
  assumes i: "node_inv s" and t: "t < length (ns_threads s)" "ns_threads s ! t = Entered j h"
  shows "node_inv (handle_describe s t j h)"
proof -
  have p: "phase_ok s (Entered j h)" using inv_parts(4) [OF i] nth_mem [OF t(1)] t(2) by simp
  let ?c = "conn_at s j" let ?k = "cn_MachineID ?c"
  let ?r = "snd (SetCapabilities (ns_reg s) ?k (cn_Generation ?c) (ch_Capabilities h))"
  let ?d = "ReplaceCapabilities (ns_hub s) ?k (ch_Capabilities h) (hb_now (ns_hub s))"
  have q: "quiet (S_ReplaceCapabilities ?k (ch_Capabilities h) (hb_now (ns_hub s)))" by (simp add: quiet_def)
  have a: "is_active (snd ?d) k" if "is_active (ns_hub s) k" for k using is_active_quiet [OF that q] by simp
  have wf: "wf_devices (snd ?d)" using wf_exec [OF inv_parts(1) [OF i], of "S_ReplaceCapabilities ?k (ch_Capabilities h) (hb_now (ns_hub s))"] by simp
  have i1: "node_inv (s\<lparr>ns_reg := ?r\<rparr>)" by (rule inv_reg [OF i]) (auto simp: SetCapabilities_frame inv_parts(2) [OF i])
  have m1: "node_moves s (s\<lparr>ns_reg := ?r\<rparr>)" by (rule node_moves_frame) (simp_all add: SetCapabilities_frame)
  have i2: "node_inv (s\<lparr>ns_reg := ?r, ns_hub := snd ?d\<rparr>)"
    using inv_hub [OF i1, of "snd ?d"] a wf by simp
  have "node_moves s (s\<lparr>ns_reg := ?r, ns_hub := snd ?d\<rparr>)" by (rule node_moves_frame) (simp_all add: SetCapabilities_frame a)
  from node_moves_ok [OF p this] have "phase_ok (s\<lparr>ns_reg := ?r, ns_hub := snd ?d\<rparr>) (Entered j h)" .
  then have ok: "phase_ok (s\<lparr>ns_reg := ?r, ns_hub := snd ?d\<rparr>) (Described j h)" "phase_ok (s\<lparr>ns_reg := ?r, ns_hub := snd ?d\<rparr>) (Leaving j)"
    by (simp_all add: phase_ok_def)
  obtain x w where d: "?d = (x, w)" by (cases ?d)
  then show ?thesis using d inv_go [OF i2 ok(1)] inv_go [OF i2 ok(2)] by (cases x) (simp_all add: handle_describe_def Let_def)
qed

lemma touch_hub_frame:
  assumes i: "node_inv s"
  shows "wf_devices (snd (touch_hub dg s j h))" "is_active (ns_hub s) k \<Longrightarrow> is_active (snd (touch_hub dg s j h)) k"
proof -
  let ?st = "S_Touch (cn_MachineID (conn_at s j)) (trim_space (ch_DisplayName h)) (ch_Os h) (ch_Arch h) (ch_NodeVersion h)
    (dg (ch_Capabilities h)) (hb_now (ns_hub s))"
  show "wf_devices (snd (touch_hub dg s j h))" using wf_exec [OF inv_parts(1) [OF i], of ?st] by (simp add: touch_hub_def)
  show "is_active (snd (touch_hub dg s j h)) k" if "is_active (ns_hub s) k"
    using is_active_quiet [OF that, of ?st] by (simp add: touch_hub_def quiet_def)
qed

lemma inv_touch:
  assumes i: "node_inv s" and t: "t < length (ns_threads s)" "ns_threads s ! t = Described j h"
  shows "node_inv (handle_touch dg s t j h)"
proof -
  have p: "phase_ok s (Described j h)" using inv_parts(4) [OF i] nth_mem [OF t(1)] t(2) by simp
  obtain x w where w: "touch_hub dg s j h = (x, w)" by (metis surj_pair)
  have i1: "node_inv (s\<lparr>ns_hub := w\<rparr>)" using inv_hub [OF i touch_hub_frame(2) [OF i] touch_hub_frame(1) [OF i], of dg j h] w by simp
  have "node_moves s (s\<lparr>ns_hub := w\<rparr>)" using touch_hub_frame(2) [OF i, of _ dg j h] w by (intro node_moves_hub [OF refl]) simp
  from node_moves_ok [OF p this] have d: "phase_ok (s\<lparr>ns_hub := w\<rparr>) (Described j h)" .
  show ?thesis
  proof (cases x)
    case (Inl e)
    then show ?thesis using w d inv_go [OF i1, where q = "Leaving j"] by (simp add: handle_touch_def phase_ok_def)
  next
    case (Inr u)
    then have "is_active w (cn_MachineID (conn_at s j))"
      using touched_active [OF inv_parts(1) [OF i]] w by (simp add: touch_hub_def)
    then have "phase_ok (s\<lparr>ns_hub := w\<rparr>) (Live j h)" using d by (simp add: phase_ok_def)
    then show ?thesis using Inr w inv_go [OF i1] by (simp add: handle_touch_def)
  qed
qed

lemma inv_heartbeat:
  assumes i: "node_inv s" and t: "t < length (ns_threads s)" "ns_threads s ! t = Live j h"
  shows "node_inv (read_heartbeat dg s t j h status persist)"
proof -
  have j: "j < length (rg_store (ns_reg s))" using inv_conn [OF i t(1)] t(2) by simp
  let ?c = "conn_at s j"
  let ?t = "Touch (ns_reg s) (cn_MachineID ?c) (cn_Generation ?c) status (hb_now (ns_hub s))"
  have r: "node_inv (s\<lparr>ns_reg := snd ?t\<rparr>)" by (rule inv_reg [OF i]) (auto simp: Touch_frame inv_parts(2) [OF i])
  have len: "length (rg_store (snd ?t)) = length (rg_store (ns_reg s))" by (auto simp: Touch_def split: option.split)
  have h: "node_inv (s\<lparr>ns_reg := snd ?t, ns_hub := snd (touch_hub dg s j h)\<rparr>)"
    using inv_hub [OF r, of "snd (touch_hub dg s j h)"] touch_hub_frame [OF i] by simp
  show ?thesis
  proof (cases "validRuntimeStatus status")
    case False
    then show ?thesis using inv_go [OF inv_mark [OF i], where q = "Leaving j"] j by (simp add: read_heartbeat_def)
  next
    case True
    obtain b u where u: "?t = (b, u)" by (metis surj_pair)
    show ?thesis using True u r h len j inv_go [OF r, where q = "Leaving j"]
      by (cases b; cases persist) (simp_all add: read_heartbeat_def Let_def)
  qed
qed

lemma inv_remove:
  assumes i: "node_inv s" shows "node_inv (handle_remove s t j)"
proof -
  let ?c = "conn_at s j"
  obtain x r where r: "Remove_table (ns_reg s) (cn_MachineID ?c) (cn_Generation ?c) = (x, r)" by (metis surj_pair)
  let ?s1 = "s\<lparr>ns_reg := r, ns_marks := ns_marks s @ opt_list x\<rparr>"
  have w: "wf_registry r" "rg_store r = rg_store (ns_reg s)"
    using Remove_table_wf [OF inv_parts(2) [OF i]] Remove_table_store r by (metis snd_conv)+
  have e: "map_of (rg_conns r) k = Some i' \<or> x = Some i'" if "map_of (rg_conns (ns_reg s)) k = Some i'" for k i'
    using Remove_entry [OF that] r by (metis fst_conv snd_conv)
  have b: "x = Some i' \<Longrightarrow> i' < length (rg_store (ns_reg s))" for i'
    using r wf_entry(1) [OF inv_parts(2) [OF i]] by (auto simp: Remove_table_def split: option.splits if_splits)
  have "node_moves s ?s1" using e w(2) by (fastforce simp: node_moves_def lost_def registry_le_def opt_list_def)
  then have "node_inv (goes ?s1 t Gone)"
    using w b inv_parts [OF i] by (intro inv_goes [OF i]) (auto simp: opt_list_def phase_ok_silent split: option.splits)
  then show ?thesis using r by (simp add: handle_remove_def Let_def)
qed

lemma inv_revoke:
  assumes i: "node_inv s" and r: "RevokeMachine_row (ns_hub s) ow k (hb_now (ns_hub s)) = (Inr (), w)"
  shows "node_inv (s\<lparr>ns_hub := w, ns_closers := ns_closers s @ [k]\<rparr>)"
proof (rule inv_step [OF i])
  have "is_active w k'" if "is_active (ns_hub s) k'" "k' \<noteq> k" for k' using is_active_revoke [OF that, of ow "hb_now (ns_hub s)"] r by simp
  then show "node_moves s (s\<lparr>ns_hub := w, ns_closers := ns_closers s @ [k]\<rparr>)" by (auto simp: node_moves_def lost_def)
  show "wf_devices (ns_hub (s\<lparr>ns_hub := w, ns_closers := ns_closers s @ [k]\<rparr>))" using wf_Revoke [OF inv_parts(1) [OF i], of ow k "hb_now (ns_hub s)"] r by simp
qed (use inv_parts [OF i] in auto)

lemma in_remove1: "k' \<in> set ks \<Longrightarrow> k' \<noteq> k \<Longrightarrow> k' \<in> set (remove1 k ks)"
  by (metis in_set_remove1)

lemma removed1: "k' \<in> set ks \<Longrightarrow> k' \<notin> set (remove1 k ks) \<Longrightarrow> k' = k"
  using in_remove1 by metis

lemma inv_close:
  assumes i: "node_inv s"
  shows "node_inv (s\<lparr>ns_marks := ns_marks s @ opt_list (map_of (rg_conns (ns_reg s)) k), ns_closers := remove1 k (ns_closers s)\<rparr>)"
proof (rule inv_step [OF i])
  show "node_moves s (s\<lparr>ns_marks := ns_marks s @ opt_list (map_of (rg_conns (ns_reg s)) k), ns_closers := remove1 k (ns_closers s)\<rparr>)"
    by (auto simp: node_moves_def lost_def opt_list_def dest: removed1)
qed (use inv_parts [OF i] wf_entry(1) [OF inv_parts(2) [OF i]] in \<open>auto simp: opt_list_def split: option.splits\<close>)

lemma inv_take_mark:
  assumes i: "node_inv s" and j: "j \<in> set (ns_marks s)"
  shows "node_inv (s\<lparr>ns_reg := MarkLost j (ns_reg s), ns_marks := remove1 j (ns_marks s)\<rparr>)"
proof (rule inv_step [OF i])
  have "j < length (rg_store (ns_reg s))" using inv_parts(3) [OF i j] .
  then show "node_moves s (s\<lparr>ns_reg := MarkLost j (ns_reg s), ns_marks := remove1 j (ns_marks s)\<rparr>)"
    using in_remove1 [of _ "ns_marks s" j] inv_parts(3) [OF i] registry_le_MarkLost [of "ns_reg s" j]
    by (auto simp: node_moves_def lost_def)
qed (use inv_parts [OF i] in \<open>auto intro: wf_MarkLost dest: notin_set_remove1 [THEN contrapos_nn]\<close>)

lemma inv_stale: "node_inv s \<Longrightarrow> node_inv (s\<lparr>ns_marks := ns_marks s @ stale_refs (ns_reg s) before\<rparr>)"
proof -
  assume i: "node_inv s"
  have "j < length (rg_store (ns_reg s))" if "j \<in> set (stale_refs (ns_reg s) before)" for j
    using that inv_parts(2) [OF i] by (auto simp: stale_refs_def wf_registry_def)
  then show ?thesis using inv_parts [OF i] by (intro inv_step [OF i]) (auto simp: node_moves_def lost_def)
qed

lemma wf_clock: "wf_devices (w\<lparr>hb_now := now\<rparr>) = wf_devices w"
  by (simp add: wf_devices_def wf_keys_def wf_pairing_def one_per_key_def active_pairs_def)

lemma inv_node_step: "node_step E verify dg s s' \<Longrightarrow> node_inv s \<Longrightarrow> node_inv s'"
proof (induction rule: node_step.induct)
  case (hello t s) then show ?case by (simp add: inv_hello)
next
  case (give_up t s i) then show ?case using inv_conn [of s t i] by (intro inv_go inv_mark) simp_all
next
  case (abandon t s) then show ?case by (simp add: inv_go phase_ok_silent)
next
  case (other st s) then show ?case by (auto intro: inv_hub is_active_quiet wf_exec dest: inv_parts(1))
next
  case (clock s now) then show ?case by (auto intro!: inv_hub simp: wf_clock is_active_def machine_by_def dest: inv_parts(1))
qed (simp_all add: inv_auth inv_number inv_register inv_describe inv_touch inv_heartbeat inv_remove inv_take_mark inv_mark
    inv_revoke inv_close inv_stale)

lemma inv_start: "wf_devices w \<Longrightarrow> node_inv (node_start w)"
  by (simp add: node_inv_def node_start_def wf_registry_def)

lemma inv_reachable: "(node_step E verify dg)\<^sup>*\<^sup>* s s' \<Longrightarrow> node_inv s \<Longrightarrow> node_inv s'"
  by (induction rule: rtranclp_induct) (auto intro: inv_node_step)

end
