(* ===== verification/Device_Props.thy ===== *)
theory Device_Props
  imports Device_Service
begin

text \<open>Properties of machines, their credentials and tokens, over any sequence of statements.\<close>

section \<open>A machine on trial\<close>

definition dev_key :: string where "dev_key = ''key''"

definition dev_machine :: string where "dev_machine = ''m1''"
definition dev_credential :: string where "dev_credential = ''c1''"

definition dev_env :: env where
  "dev_env = \<lparr>en_digests = \<lparr>dg_text = (\<lambda>s. s), dg_json = (\<lambda>v. []), dg_lower = (\<lambda>s. s)\<rparr>,
     en_node = (\<lambda>w c. (Transport ErrMachineOffline, w)),
     en_random = (\<lambda>w p. p @ (if hb_now w < 1800000000 * second then ''1'' else ''2'')),
     en_timing = (\<lambda>w. (0, 0, 0)), en_callerDeadline = None\<rparr>"

definition dev_registered :: hub where
  "dev_registered = \<lparr>hb_machines = [\<lparr>mr_ID = dev_machine, mr_OwnerID = ''own'', mr_DisplayName = ''Node'', mr_AdminNote = [],
       mr_Status = ''active'', mr_OS = ''linux'', mr_Arch = ''amd64'', mr_NodeVersion = ''1'', mr_CapabilityDigest = [],
       mr_LastSeenAt = None, mr_LastConnectionGeneration = 0, mr_RevokedAt = None, mr_DeletedAt = None, mr_Revision = 1,
       mr_CreatedAt = 1800000000, mr_UpdatedAt = 1800000000\<rparr>],
     hb_credentials = [\<lparr>cr_ID = dev_credential, cr_MachineID = dev_machine, cr_PublicKey = dev_key, cr_Fingerprint = ''f'',
       cr_Status = ''active'', cr_IssuedAt = 1800000000, cr_RevokedAt = None\<rparr>],
     hb_tokens = [], hb_nonces = [], hb_caps = [], hb_collabs = [], hb_notifs = [],
     hb_audit = [], hb_now = 1800000000 * second\<rparr>"

definition dev_run :: "device_stmt list" where
  "dev_run = [S_NextGeneration dev_machine (1800000001 * second), S_IssueToken dev_machine dev_credential ''n1'' ''t1'' ''h1''
       (1800000002 * second) (1800086402 * second), S_Cleanup (1800000030 * second)]"

lemma dev_wf: "wf_devices dev_registered"
  by code_simp

lemma done_unit: "is_ok (fst r) \<Longrightarrow> r = (Inr (), snd r)"
  by (cases r) (auto simp: is_ok_iff)

section \<open>Tables\<close>

text \<open>Property C19: every sequence of statements keeps the tables of machines, credentials, tokens, nonces and
  capabilities well-formed: keys are unique, a machine is active or revoked and revoked when deleted, its only
  credential is active exactly as long as it is, and no owner has two active machines with one public key.\<close>

theorem devices_wf:
  assumes "wf_devices w" shows "wf_devices (exec_all exec_device ss w)"
  using assms by (rule wf_run)

theorem devices_wf_witness: "wf_devices (exec_all exec_device dev_run dev_registered)"
  by (rule devices_wf [OF dev_wf])

section \<open>Revocation\<close>

lemma revoked_shut:
  assumes w: "wf_devices w" and r: "RevokeMachine_row w ow k now = (Inr (), w1)"
  shows "machine_shut w1 k 0"
proof -
  let ?p = "\<lambda>m. mr_ID m = k \<and> mr_OwnerID m = ow \<and> mr_Status m \<noteq> ''revoked'' \<and> mr_DeletedAt m = None"
  let ?f = "\<lambda>m. m\<lparr>mr_Status := ''revoked'', mr_RevokedAt := Some (unix now), mr_UpdatedAt := unix now, mr_Revision := mr_Revision m + 1\<rparr>"
  have ms: "hb_machines w1 = sql_update ?p ?f (hb_machines w)"
    and ex: "\<exists>m \<in> set (hb_machines w). mr_ID m = k \<and> mr_OwnerID m = ow \<and> mr_DeletedAt m = None"
    using r by (auto simp: RevokeMachine_row_def Let_def split: if_splits)
  then obtain m where m: "m \<in> set (hb_machines w)" "mr_ID m = k" "mr_OwnerID m = ow" "mr_DeletedAt m = None" by blast
  have "machine_by w k = Some m" using machine_by_eq [OF w m(1)] m(2) by simp
  then have "machine_by w1 k = Some (if ?p m then ?f m else m)" by (simp add: machine_by_def ms find_sql_update)
  moreover have "wf_devices w1" using wf_Revoke [OF w, of ow k now] r by simp
  ultimately show ?thesis using m by (auto simp: machine_shut_def)
qed

lemma shut_refuses:
  assumes "machine_shut w k t0"
  shows "NextGeneration w k now = (Inl ErrRevoked, w)" "\<not> is_ok (GetDeviceIdentity w k)" "TouchMachine w k d os ar v dg now = (Inl ErrRevoked, w)"
proof -
  have none: "mr_Status m \<noteq> ''active''" if "m \<in> set (hb_machines w)" "mr_ID m = k" for m
    using assms machine_by_eq [of w m] that by (auto simp: machine_shut_def)
  then show "NextGeneration w k now = (Inl ErrRevoked, w)"
    by (auto simp: NextGeneration_def Let_def find_None_iff split: option.splits dest!: find_in)
  show "\<not> is_ok (GetDeviceIdentity w k)"
    using none by (auto simp: GetDeviceIdentity_def is_ok_iff active_pairs_iff split: option.splits if_splits dest!: newest_in)
  have "sql_update (\<lambda>m. mr_ID m = k \<and> mr_Status m = ''active'' \<and> mr_DeletedAt m = None) f (hb_machines w) = hb_machines w" for f
    using none by (auto intro: sql_update_none)
  moreover have "sql_affected (\<lambda>m. mr_ID m = k \<and> mr_Status m = ''active'' \<and> mr_DeletedAt m = None) (hb_machines w) \<noteq> 1"
    using none sql_affected_0 [of "\<lambda>m. mr_ID m = k \<and> mr_Status m = ''active'' \<and> mr_DeletedAt m = None" "hb_machines w"]
    by (metis (no_types, lifting) zero_neq_one)
  ultimately show "TouchMachine w k d os ar v dg now = (Inl ErrRevoked, w)"
    by (simp only: TouchMachine_def Let_def) simp
qed

text \<open>Property C14: once a machine is revoked it is locked out for good, whatever statements follow (a token request
  that was already past its checks, a new registration, a clean-up included): no token authenticates as it, it gets
  no connection generation, it cannot report itself and no token request finds its key.\<close>

theorem revoked_locked_out:
  assumes w: "wf_devices w" and r: "RevokeMachine_row w ow k now = (Inr (), w1)" and w2: "w2 = exec_all exec_device ss w1"
  shows "(\<forall>h now s. AuthenticateDeviceToken w2 h now = Inr s \<longrightarrow> ds_MachineID s \<noteq> k) \<and> NextGeneration w2 k now' = (Inl ErrRevoked, w2)
    \<and> TouchMachine w2 k d os ar v dg now' = (Inl ErrRevoked, w2) \<and> \<not> is_ok (GetDeviceIdentity w2 k)"
proof -
  have sh: "machine_shut w2 k 0" using machine_lock.shut_run [OF revoked_shut [OF w r]] by (simp add: w2)
  have "ds_MachineID s \<noteq> k" if "AuthenticateDeviceToken w2 h now = Inr s" for h now s
    using machine_lock.shut_denies [of w2 k "min 0 (unix now)" "unix now"] sh that
    by (auto simp: machine_admits_def machine_shut_def)
  then show ?thesis using shut_refuses [OF sh] by auto
qed

theorem revoked_locked_out_witness:
  "NextGeneration (exec_all exec_device dev_run (snd (RevokeMachine_row dev_registered ''own'' dev_machine 0))) dev_machine 0
      = (Inl ErrRevoked, exec_all exec_device dev_run (snd (RevokeMachine_row dev_registered ''own'' dev_machine 0)))
    \<and> \<not> is_ok (GetDeviceIdentity (exec_all exec_device dev_run (snd (RevokeMachine_row dev_registered ''own'' dev_machine 0))) dev_machine)"
proof -
  have "is_ok (fst (RevokeMachine_row dev_registered ''own'' dev_machine 0))" by code_simp
  then have "RevokeMachine_row dev_registered ''own'' dev_machine 0 = (Inr (), snd (RevokeMachine_row dev_registered ''own'' dev_machine 0))"
    by (rule done_unit)
  from revoked_locked_out [OF dev_wf this refl, where now' = 0 and ss = dev_run] show ?thesis by blast
qed

section \<open>Nonces\<close>

text \<open>Property C18: a nonce that a token was issued for is refused for ten minutes (in whole seconds): whatever
  statements run in between, a second token request of the machine with it changes nothing and reports a replay.\<close>

theorem nonce_once:
  assumes "IssueDeviceToken_row w k c n tid th now ex = (Inr (), w1)"
    and "\<forall>s \<in> set ss. \<forall>t. purge_clock s = Some t \<longrightarrow> unix t < unix (now + 10 * minute)" "unix now' < unix (now + 10 * minute)"
  shows "IssueDeviceToken_row (exec_all exec_device ss w1) k c' n tid' th' now' ex' = (Inl ErrReplay, exec_all exec_device ss w1)"
  using nonce_held_refused [OF nonce_held_run [OF nonce_held_issued [OF assms(1)] assms(2)] assms(3)] .

theorem nonce_once_witness:
  "IssueDeviceToken_row (exec_all exec_device dev_run
      (snd (IssueDeviceToken_row dev_registered dev_machine dev_credential ''n0'' ''t0'' ''h0'' (1800000000 * second) 0)))
      dev_machine dev_credential ''n0'' ''t9'' ''h9'' (1800000599 * second) 0
    = (Inl ErrReplay, exec_all exec_device dev_run
      (snd (IssueDeviceToken_row dev_registered dev_machine dev_credential ''n0'' ''t0'' ''h0'' (1800000000 * second) 0)))"
proof -
  let ?r = "IssueDeviceToken_row dev_registered dev_machine dev_credential ''n0'' ''t0'' ''h0'' (1800000000 * second) 0"
  have "is_ok (fst ?r)" by (simp add: IssueDeviceToken_row_def dev_registered_def sql_delete_def Let_def)
  then have "?r = (Inr (), snd ?r)" by (rule done_unit)
  from nonce_once [OF this, of dev_run "1800000599 * second"] show ?thesis
    by (simp add: dev_run_def unix_def second_def minute_def)
qed

section \<open>Generations\<close>

text \<open>The connection generations a machine is given grow strictly, whatever statements run between two
  connections: of two connections the registry can always tell which is newer.\<close>

theorem generations_increase:
  assumes w: "wf_devices w" and g: "NextGeneration w k now = (Inr g, w1)"
    and g': "NextGeneration (exec_all exec_device ss w1) k now' = (Inr g', w2)"
  shows "g < g'"
proof -
  have w1: "wf_devices w1" using wf_exec [OF w, of "S_NextGeneration k now"] g by simp
  obtain m1 where m1: "machine_by w1 k = Some m1" "mr_LastConnectionGeneration m1 = g" using NextGeneration_Inr [OF w g] by metis
  obtain m2 where m2: "machine_by (exec_all exec_device ss w1) k = Some m2" "g' = mr_LastConnectionGeneration m2 + 1"
    using NextGeneration_Inr [OF wf_run [OF w1] g'] by metis
  have "machine_le m1 m2" using machines_le_run [of w1 ss] m1(1) m2(1) unfolding machines_le_def by (metis option.inject)
  then show ?thesis using m1(2) m2(2) by (simp add: machine_le_def)
qed

theorem generations_increase_witness:
  "\<exists>g g'. fst (NextGeneration dev_registered dev_machine 0) = Inr g
    \<and> fst (NextGeneration (exec_all exec_device dev_run (snd (NextGeneration dev_registered dev_machine 0))) dev_machine 0) = Inr g' \<and> g < g'"
proof -
  let ?r = "NextGeneration dev_registered dev_machine 0"
  let ?s = "NextGeneration (exec_all exec_device dev_run (snd ?r)) dev_machine 0"
  have "is_ok (fst ?r)" "is_ok (fst ?s)"
    by (simp_all add: NextGeneration_def dev_registered_def dev_run_def IssueDeviceToken_row_def cleanup_hub_rows_def sql_update_def
        sql_delete_def dev_machine_def Let_def)
  then obtain g g' where "?r = (Inr g, snd ?r)" "?s = (Inr g', snd ?s)" by (metis is_ok_iff prod.collapse)
  moreover from generations_increase [OF dev_wf this] have "g < g'" .
  ultimately show ?thesis by (metis fst_conv)
qed

section \<open>Registration\<close>

text \<open>What makes a registration a repetition: an active machine of the owner with the key.\<close>

definition enrolled :: "string \<Rightarrow> string \<Rightarrow> string \<Rightarrow> string \<Rightarrow> hub \<Rightarrow> bool" where
  "enrolled ow key k cid w = (\<exists>(m, c) \<in> set (active_pairs w). mr_OwnerID m = ow \<and> mr_Status m = ''active''
     \<and> cr_PublicKey c = key \<and> mr_ID m = k \<and> cr_ID c = cid)"

fun revokes :: "string \<Rightarrow> device_stmt \<Rightarrow> bool" where
  "revokes k (S_Revoke ow m now) = (m = k)"
| "revokes k _ = False"

lemma enrolled_frame:
  assumes "enrolled ow key k cid w" "set (hb_machines w) \<subseteq> set (hb_machines w')" "set (hb_credentials w) \<subseteq> set (hb_credentials w')"
  shows "enrolled ow key k cid w'"
  using assms unfolding enrolled_def by (fastforce simp: active_pairs_iff)

lemma enrolled_machines:
  assumes e: "enrolled ow key k cid w" and w': "w' = w\<lparr>hb_machines := sql_update p f (hb_machines w)\<rparr>"
    and f: "\<And>m. mr_ID (f m) = mr_ID m" "\<And>m. mr_OwnerID (f m) = mr_OwnerID m" "\<And>m. mr_Status (f m) = mr_Status m"
  shows "enrolled ow key k cid w'"
proof -
  obtain m c where mc: "(m, c) \<in> set (active_pairs w)" "mr_OwnerID m = ow" "mr_Status m = ''active''" "cr_PublicKey c = key" "mr_ID m = k" "cr_ID c = cid"
    using e by (auto simp: enrolled_def)
  then have "(if p m then f m else m, c) \<in> set (active_pairs w')" by (auto simp: w' active_pairs_iff set_sql_update f)
  then show ?thesis unfolding enrolled_def using mc f by (intro bexI [of _ "(if p m then f m else m, c)"]) auto
qed

lemma enrolled_step:
  assumes "enrolled ow key k cid w" "\<not> revokes k s"
  shows "enrolled ow key k cid (exec_device s w)"
proof (cases s)
  case (S_Revoke ow' k' now)
  obtain m c where mc: "(m, c) \<in> set (active_pairs w)" "mr_OwnerID m = ow" "mr_Status m = ''active''" "cr_PublicKey c = key" "mr_ID m = k" "cr_ID c = cid"
    using assms(1) by (auto simp: enrolled_def)
  have "(m, c) \<in> set (active_pairs (exec_device s w))"
    using mc assms(2) by (force simp: S_Revoke RevokeMachine_row_def Let_def active_pairs_iff set_sql_update)
  then show ?thesis unfolding enrolled_def using mc by (intro bexI [of _ "(m, c)"]) auto
qed (use assms in \<open>auto simp: RegisterMachine_row_def IssueDeviceToken_row_def ReplaceCapabilities_def cleanup_hub_rows_def NextGeneration_def
    TouchMachine_def UpdateMachineAdminNote_row_def DeleteMachine_row_def Let_def split: option.splits
    intro: enrolled_frame intro!: enrolled_machines [OF assms(1) refl]\<close>)

lemma enrolled_run: "enrolled ow key k cid w \<Longrightarrow> \<forall>s \<in> set ss. \<not> revokes k s \<Longrightarrow> enrolled ow key k cid (exec_all exec_device ss w)"
  by (induction ss arbitrary: w) (simp_all add: enrolled_step)

lemma enrolled_by_row:
  assumes "RegisterMachine_row w i = (Inr r, w1)"
  shows "enrolled (ri_OwnerID i) (ri_PublicKey i) (rs_MachineID r) (rs_CredentialID r) w1"
proof (cases "newest (\<lambda>(m, c). cr_IssuedAt c)
    (filter (\<lambda>(m, c). mr_OwnerID m = ri_OwnerID i \<and> mr_Status m = ''active'' \<and> cr_PublicKey c = ri_PublicKey i) (active_pairs w))")
  case (Some p)
  then show ?thesis using newest_in [OF Some] assms unfolding enrolled_def by (force simp: RegisterMachine_row_def)
next
  case None
  then have "(new_machine i, new_credential i) \<in> set (active_pairs w1)" "r = \<lparr>rs_MachineID = ri_MachineID i, rs_CredentialID = ri_CredentialID i,
      rs_OwnerID = ri_OwnerID i, rs_AlreadyDone = False\<rparr>"
    using assms by (auto simp: RegisterMachine_row_def active_pairs_iff new_machine_def new_credential_def split: if_splits)
  then show ?thesis unfolding enrolled_def by (intro bexI [of _ "(new_machine i, new_credential i)"]) (auto simp: new_machine_def new_credential_def)
qed

lemma register_enrolled:
  assumes w: "wf_devices w" and e: "enrolled (ri_OwnerID i) (ri_PublicKey i) k cid w"
  shows "RegisterMachine_row w i = (Inr \<lparr>rs_MachineID = k, rs_CredentialID = cid, rs_OwnerID = ri_OwnerID i, rs_AlreadyDone = True\<rparr>, w)"
proof -
  let ?ps = "filter (\<lambda>(m, c). mr_OwnerID m = ri_OwnerID i \<and> mr_Status m = ''active'' \<and> cr_PublicKey c = ri_PublicKey i) (active_pairs w)"
  obtain m c where mc: "(m, c) \<in> set (active_pairs w)" "mr_OwnerID m = ri_OwnerID i" "mr_Status m = ''active''"
      "cr_PublicKey c = ri_PublicKey i" "mr_ID m = k" "cr_ID c = cid"
    using e by (auto simp: enrolled_def)
  then have "(m, c) \<in> set ?ps" by simp
  then have "?ps \<noteq> []" by (metis empty_iff empty_set)
  then have "newest (\<lambda>(m, c). cr_IssuedAt c) ?ps \<noteq> None" by (subst newest_None)
  then obtain x where x: "newest (\<lambda>(m, c). cr_IssuedAt c) ?ps = Some x" unfolding not_None_eq by blast
  obtain m' c' where "x = (m', c')" by (cases x)
  note n = x [unfolded this]
  have p': "(m', c') \<in> set (active_pairs w)" "mr_OwnerID m' = ri_OwnerID i" "cr_PublicKey c' = ri_PublicKey i" using newest_in [OF n] by auto
  have "mr_ID m' = k" using bspec [OF bspec [OF dev_parts(4) [OF w, unfolded one_per_key_def] p'(1), simplified] mc(1)] p' mc by simp
  moreover have "c' = c"
    using p'(1) mc(1,5) calculation dev_parts(1) [OF w] by (auto simp: active_pairs_iff wf_keys_def dest: distinct_key_unique)
  ultimately show ?thesis using n mc(6) by (simp add: RegisterMachine_row_def)
qed

text \<open>Registering a key again gives the machine and credential of the first registration back and adds no row,
  however much later and whatever ran in between, unless the machine was revoked meanwhile.\<close>

theorem registration_idempotent:
  assumes w: "wf_devices w" and r: "RegisterMachine_row w i = (Inr r, w1)" and ss: "\<forall>s \<in> set ss. \<not> revokes (rs_MachineID r) s"
    and same: "ri_OwnerID j = ri_OwnerID i" "ri_PublicKey j = ri_PublicKey i"
  shows "RegisterMachine_row (exec_all exec_device ss w1) j
    = (Inr \<lparr>rs_MachineID = rs_MachineID r, rs_CredentialID = rs_CredentialID r, rs_OwnerID = ri_OwnerID i, rs_AlreadyDone = True\<rparr>,
       exec_all exec_device ss w1)"
proof -
  have "wf_devices w1" using wf_exec [OF w, of "S_Register i"] r by simp
  then have "wf_devices (exec_all exec_device ss w1)" by (rule wf_run)
  moreover have "enrolled (ri_OwnerID j) (ri_PublicKey j) (rs_MachineID r) (rs_CredentialID r) (exec_all exec_device ss w1)"
    using enrolled_run [OF enrolled_by_row [OF r] ss] by (simp add: same)
  ultimately show ?thesis using register_enrolled same(1) by simp
qed

definition dev_input :: registration_input where
  "dev_input = \<lparr>ri_MachineID = ''m2'', ri_CredentialID = ''c2'', ri_OwnerID = ''own'', ri_DisplayName = ''Two'', ri_OS = ''linux'',
     ri_Arch = ''arm64'', ri_NodeVersion = ''1'', ri_PublicKey = ''key2'', ri_Fingerprint = ''f2'', ri_Now = 1800000000 * second\<rparr>"

theorem registration_idempotent_witness:
  "fst (RegisterMachine_row (exec_all exec_device dev_run (snd (RegisterMachine_row dev_registered dev_input)))
      (dev_input\<lparr>ri_MachineID := ''m3'', ri_CredentialID := ''c3''\<rparr>))
    = Inr \<lparr>rs_MachineID = ''m2'', rs_CredentialID = ''c2'', rs_OwnerID = ''own'', rs_AlreadyDone = True\<rparr>"
proof -
  let ?r = "RegisterMachine_row dev_registered dev_input"
  have r: "fst ?r = Inr \<lparr>rs_MachineID = ''m2'', rs_CredentialID = ''c2'', rs_OwnerID = ''own'', rs_AlreadyDone = False\<rparr>"
    by code_simp
  have "RegisterMachine_row dev_registered dev_input
      = (Inr \<lparr>rs_MachineID = ''m2'', rs_CredentialID = ''c2'', rs_OwnerID = ''own'', rs_AlreadyDone = False\<rparr>, snd ?r)"
    using r by (rule prod_eqI [OF _ snd_conv [symmetric], simplified])
  from registration_idempotent [OF dev_wf this, of dev_run "dev_input\<lparr>ri_MachineID := ''m3'', ri_CredentialID := ''c3''\<rparr>"]
  show ?thesis by (simp add: dev_run_def dev_input_def)
qed

section \<open>Token requests\<close>

lemma check_token_request_Inr:
  assumes "check_token_request verify w req = Inr d"
  obtains ts m c pub sig where "parse_rfc3339 (dt_Timestamp req) = Some ts" "\<bar>hb_now w - ts\<bar> \<le> maxClockSkew"
    "(m, c) \<in> set (active_pairs w)" "mr_ID m = dt_MachineID req" "mr_Status m = ''active''" "DecodePublicKey (cr_PublicKey c) = Some pub"
    "DecodeSignature (dt_Signature req) = Some sig"
    "verify pub (DeviceTokenPayload (dt_MachineID req) (dt_Nonce req) (dt_Timestamp req)) sig"
    "di_Machine d = m" "di_CredentialID d = cr_ID c"
proof -
  obtain ts pub sig where a: "parse_rfc3339 (dt_Timestamp req) = Some ts" "GetDeviceIdentity w (dt_MachineID req) = Inr d"
      "DecodePublicKey (di_PublicKey d) = Some pub" "DecodeSignature (dt_Signature req) = Some sig"
      "verify pub (DeviceTokenPayload (dt_MachineID req) (dt_Nonce req) (dt_Timestamp req)) sig"
      and skew: "time_sub (hb_now w) ts \<le> maxClockSkew" "- maxClockSkew \<le> time_sub (hb_now w) ts"
    using assms by (auto simp: check_token_request_def split: option.splits sum.splits if_splits)
  obtain m c where n: "newest (\<lambda>(m, c). cr_IssuedAt c) (filter (\<lambda>(m, c). mr_ID m = dt_MachineID req) (active_pairs w)) = Some (m, c)"
      "mr_Status m = ''active''" "d = \<lparr>di_Machine = m, di_CredentialID = cr_ID c, di_PublicKey = cr_PublicKey c, di_Fingerprint = cr_Fingerprint c\<rparr>"
    using a(2) by (auto simp: GetDeviceIdentity_def split: option.splits if_splits)
  have "\<bar>hb_now w - ts\<bar> \<le> maxClockSkew" using skew by (auto simp: time_sub_def maxClockSkew_def minute_def second_def)
  moreover have "(m, c) \<in> set (active_pairs w)" "mr_ID m = dt_MachineID req" using newest_in [OF n(1)] by auto
  ultimately show thesis using a n by (intro that [of ts m c pub sig]) auto
qed

text \<open>Property C17: a device token is issued only for a request dated within five minutes of the Hub's clock whose
  signature over machine, nonce and date verifies under the key registered for an active machine; what is stored of the
  token is its hash, bound to that machine and credential, for twenty-four hours.\<close>

theorem token_request_sound:
  assumes "IssueDeviceToken E verify others w req ra = (Inr (token, expires), w')"
  shows "\<exists>ts m c pub sig. parse_rfc3339 (dt_Timestamp req) = Some ts \<and> \<bar>hb_now w - ts\<bar> \<le> maxClockSkew
    \<and> (m, c) \<in> set (active_pairs w) \<and> mr_ID m = dt_MachineID req \<and> mr_Status m = ''active'' \<and> DecodePublicKey (cr_PublicKey c) = Some pub
    \<and> DecodeSignature (dt_Signature req) = Some sig
    \<and> verify pub (DeviceTokenPayload (dt_MachineID req) (dt_Nonce req) (dt_Timestamp req)) sig
    \<and> expires = hb_now w + 24 * hour
    \<and> (\<exists>t \<in> set (hb_tokens w'). tr_TokenHash t = HashToken E token \<and> tr_MachineID t = mr_ID m \<and> tr_CredentialID t = cr_ID c
        \<and> tr_ExpiresAt t = unix expires \<and> tr_RevokedAt t = None)"
proof -
  obtain d w1 where d: "check_token_request verify w req = Inr d"
    "IssueDeviceToken_row (others w) (dt_MachineID req) (di_CredentialID d) (dg_text (en_digests E) (dt_Nonce req))
        (en_random E w ''dtok_'') (HashToken E token) (hb_now w) expires = (Inr (), w1)"
    "expires = hb_now w + 24 * hour" "hb_tokens w' = hb_tokens w1"
    using assms by (auto simp: IssueDeviceToken_def Let_def run_Inr_iff deviceTokenTTL_def audit_node_def split: sum.splits)
  have "\<exists>t \<in> set (hb_tokens w1). tr_TokenHash t = HashToken E token \<and> tr_MachineID t = dt_MachineID req
      \<and> tr_CredentialID t = di_CredentialID d \<and> tr_ExpiresAt t = unix expires \<and> tr_RevokedAt t = None"
    using d(2) by (auto simp: IssueDeviceToken_row_def Let_def split: if_splits)
  then show ?thesis using d(1) by (rule_tac check_token_request_Inr [OF d(1)]) (metis d(3,4))
qed

definition signed_registered :: hub where
  "signed_registered = dev_registered\<lparr>hb_credentials := map (\<lambda>c. c\<lparr>cr_PublicKey := replicate 43 CHR ''A''\<rparr>) (hb_credentials dev_registered)\<rparr>"

definition dev_request :: token_request where
  "dev_request = \<lparr>dt_MachineID = dev_machine, dt_Nonce = ''0123456789abcdef'', dt_Timestamp = ''2027-01-15T08:00:00Z'',
     dt_Signature = replicate 86 CHR ''A''\<rparr>"

definition early_hub :: hub where "early_hub = signed_registered\<lparr>hb_now := (1800000000 - 300) * second\<rparr>"

definition anyone :: "string \<Rightarrow> string \<Rightarrow> string \<Rightarrow> bool" where "anyone k m s = True"

lemma early_token: "is_ok (fst (IssueDeviceToken dev_env anyone (\<lambda>w. w) early_hub dev_request []))"
  by code_simp

theorem token_request_sound_witness:
  "\<exists>token expires ts. fst (IssueDeviceToken dev_env anyone (\<lambda>w. w) early_hub dev_request []) = Inr (token, expires)
    \<and> parse_rfc3339 (dt_Timestamp dev_request) = Some ts \<and> \<bar>hb_now early_hub - ts\<bar> \<le> maxClockSkew"
proof -
  obtain token expires w' where r: "IssueDeviceToken dev_env anyone (\<lambda>w. w) early_hub dev_request [] = (Inr (token, expires), w')"
    using early_token by (metis is_ok_iff prod.collapse)
  from token_request_sound [OF r] r show ?thesis by auto
qed

text \<open>Observation: a request dated at the end of the allowed skew can be replayed: it is accepted five minutes before its date and once more,
  with the same nonce, five minutes after it, because the nonce is dropped in the very second in which the request is still admitted.\<close>

theorem nonce_replayed:
  "is_ok (fst (IssueDeviceToken dev_env anyone (\<lambda>w. w) early_hub dev_request []))
    \<and> is_ok (fst (IssueDeviceToken dev_env anyone (\<lambda>w. w)
        ((snd (IssueDeviceToken dev_env anyone (\<lambda>w. w) early_hub dev_request []))\<lparr>hb_now := (1800000000 + 300) * second\<rparr>) dev_request []))"
  by code_simp

end
