(* ===== verification/Node_Props.thy ===== *)
theory Node_Props
  imports Node_Invariant Device_Props
begin

text \<open>Properties of the Node sessions that hold in every interleaving.\<close>

section \<open>A session on trial\<close>

definition live_hub :: hub where
  "live_hub = signed_registered\<lparr>hb_tokens := [\<lparr>tr_ID = ''t'', tr_CredentialID = dev_credential, tr_MachineID = dev_machine,
     tr_TokenHash = ''dev_x'', tr_IssuedAt = 1800000000, tr_ExpiresAt = 1800086400, tr_RevokedAt = None\<rparr>]\<rparr>"

definition live_session :: device_session where
  "live_session = \<lparr>ds_MachineID = dev_machine, ds_CredentialID = dev_credential, ds_OwnerID = ''own'', ds_DisplayName = ''Node'',
     ds_PublicKey = replicate 43 CHR ''A'', ds_OS = ''linux'', ds_Arch = ''amd64'', ds_NodeVersion = ''1''\<rparr>"

definition live_hello :: client_hello where
  "live_hello = \<lparr>ch_MessageType = ''client.hello'', ch_MachineId = dev_machine, ch_ProtocolVersions = [''1.0''],
     ch_Capabilities = [(''file.read'', ''1.0'', [''read''])], ch_NodeVersion = ''2'', ch_Os = ''linux'', ch_Arch = ''amd64'',
     ch_DisplayName = ''Node'', ch_Timestamp = ''2027-01-15T08:00:00Z'', ch_ChallengeSignature = replicate 86 CHR ''A''\<rparr>"

definition flat :: "descriptor list \<Rightarrow> string" where "flat ds = concat (map fst ds)"

definition sys1 :: node_sys where "sys1 = handle_auth dev_env (node_start live_hub) ''dev_x'' dev_machine"
definition sys2 :: node_sys where "sys2 = handle_hello anyone sys1 0 live_session ''chl'' live_hello"
definition sys3 :: node_sys where "sys3 = handle_number sys2 0 live_session live_hello"
definition sys4 :: node_sys where "sys4 = handle_register sys3 0 live_session live_hello 1 ''conn''"
definition sys5 :: node_sys where "sys5 = handle_describe sys4 0 0 live_hello"
definition sys6 :: node_sys where "sys6 = handle_touch flat sys5 0 0 live_hello"
definition sys7 :: node_sys where
  "sys7 = sys6\<lparr>ns_hub := snd (RevokeMachine_row (ns_hub sys6) ''own'' dev_machine (hb_now (ns_hub sys6))), ns_closers := ns_closers sys6 @ [dev_machine]\<rparr>"
definition sys8 :: node_sys where
  "sys8 = sys7\<lparr>ns_marks := ns_marks sys7 @ opt_list (map_of (rg_conns (ns_reg sys7)) dev_machine), ns_closers := remove1 dev_machine (ns_closers sys7)\<rparr>"

lemma live_wf: "wf_devices live_hub" by code_simp
lemma threads1: "ns_threads sys1 = [Authenticated live_session]" by code_simp
lemma threads2: "ns_threads sys2 = [Greeted live_session live_hello]" by code_simp
lemma threads3: "ns_threads sys3 = [Numbered live_session live_hello 1]" by code_simp
lemma threads4: "ns_threads sys4 = [Entered 0 live_hello]" by code_simp
lemma threads5: "ns_threads sys5 = [Described 0 live_hello]" by code_simp
lemma threads6: "ns_threads sys6 = [Live 0 live_hello]" by code_simp

lemma table6: "ns_marks sys6 = []" "ns_closers sys6 = []" "rg_conns (ns_reg sys6) = [(dev_machine, 0)]"
  "cn_closed (conn_at sys6 0) = False" "cn_MachineID (conn_at sys6 0) = dev_machine"
  by code_simp+

lemma machines6: "map (\<lambda>m. (mr_ID m, mr_OwnerID m, mr_DeletedAt m)) (hb_machines (ns_hub sys6)) = [(dev_machine, ''own'', None)]"
  by code_simp

abbreviation steps :: "node_sys \<Rightarrow> node_sys \<Rightarrow> bool" where "steps \<equiv> (node_step dev_env anyone flat)\<^sup>*\<^sup>*"

text \<open>A second session of the same machine, which replaces the first.\<close>

definition again1 :: node_sys where "again1 = handle_auth dev_env sys6 ''dev_x'' dev_machine"
definition again_session :: device_session where "again_session = live_session\<lparr>ds_NodeVersion := ''2''\<rparr>"
definition again2 :: node_sys where "again2 = handle_hello anyone again1 1 again_session ''chl'' live_hello"
definition again3 :: node_sys where "again3 = handle_number again2 1 again_session live_hello"
definition again4 :: node_sys where "again4 = handle_register again3 1 again_session live_hello 2 ''conn2''"
definition again5 :: node_sys where "again5 = handle_describe again4 1 1 live_hello"
definition again6 :: node_sys where "again6 = handle_touch flat again5 1 1 live_hello"

lemma again_threads: "ns_threads again1 = [Live 0 live_hello, Authenticated again_session]"
  "ns_threads again2 = [Live 0 live_hello, Greeted again_session live_hello]"
  "ns_threads again3 = [Live 0 live_hello, Numbered again_session live_hello 2]"
  "ns_threads again4 = [Live 0 live_hello, Entered 1 live_hello]" "ns_threads again5 = [Live 0 live_hello, Described 1 live_hello]"
  "ns_threads again6 = [Live 0 live_hello, Live 1 live_hello]"
  by code_simp+

lemma again_conns: "ns_marks again6 = [0]" "cn_closed (conn_at again6 1) = False" "cn_MachineID (conn_at again6 0) = dev_machine"
  "cn_MachineID (conn_at again6 1) = dev_machine"
  by code_simp+

lemma reach6: "steps (node_start live_hub) sys6"
proof -
  have "steps (node_start live_hub) sys1" unfolding sys1_def by (intro r_into_rtranclp node_step.auth)
  then have "steps (node_start live_hub) sys2"
    by (rule rtranclp.rtrancl_into_rtrancl) (auto simp: sys2_def threads1 intro!: node_step.hello)
  then have "steps (node_start live_hub) sys3"
    by (rule rtranclp.rtrancl_into_rtrancl) (auto simp: sys3_def threads2 intro!: node_step.number)
  then have "steps (node_start live_hub) sys4"
    by (rule rtranclp.rtrancl_into_rtrancl) (auto simp: sys4_def threads3 intro!: node_step.register)
  then have "steps (node_start live_hub) sys5"
    by (rule rtranclp.rtrancl_into_rtrancl) (auto simp: sys5_def threads4 intro!: node_step.describe)
  then show ?thesis
    by (rule rtranclp.rtrancl_into_rtrancl) (auto simp: sys6_def threads5 intro!: node_step.touch)
qed

lemma reach_again: "steps (node_start live_hub) again6"
proof -
  have "steps (node_start live_hub) again1" using reach6 unfolding again1_def by (rule rtranclp.rtrancl_into_rtrancl) (rule node_step.auth)
  then have "steps (node_start live_hub) again2"
    by (rule rtranclp.rtrancl_into_rtrancl) (auto simp: again2_def again_threads intro!: node_step.hello)
  then have "steps (node_start live_hub) again3"
    by (rule rtranclp.rtrancl_into_rtrancl) (auto simp: again3_def again_threads intro!: node_step.number)
  then have "steps (node_start live_hub) again4"
    by (rule rtranclp.rtrancl_into_rtrancl) (auto simp: again4_def again_threads intro!: node_step.register)
  then have "steps (node_start live_hub) again5"
    by (rule rtranclp.rtrancl_into_rtrancl) (auto simp: again5_def again_threads intro!: node_step.describe)
  then show ?thesis
    by (rule rtranclp.rtrancl_into_rtrancl) (auto simp: again6_def again_threads intro!: node_step.touch)
qed

lemma revoke6: "RevokeMachine_row (ns_hub sys6) ''own'' dev_machine (hb_now (ns_hub sys6))
    = (Inr (), snd (RevokeMachine_row (ns_hub sys6) ''own'' dev_machine (hb_now (ns_hub sys6))))"
proof (rule done_unit)
  obtain m where "hb_machines (ns_hub sys6) = [m]" "mr_ID m = dev_machine" "mr_OwnerID m = ''own''" "mr_DeletedAt m = None"
    using machines6 by (auto simp: map_eq_Cons_conv)
  then show "is_ok (fst (RevokeMachine_row (ns_hub sys6) ''own'' dev_machine (hb_now (ns_hub sys6))))"
    by (simp add: RevokeMachine_row_def Let_def)
qed

lemma reach8: "steps (node_start live_hub) sys8"
proof -
  have "steps (node_start live_hub) sys7"
    using reach6 unfolding sys7_def by (rule rtranclp.rtrancl_into_rtrancl) (rule node_step.revoke [OF revoke6])
  moreover have "node_step dev_env anyone flat sys7 sys8" unfolding sys8_def by (rule node_step.close) (simp add: sys7_def)
  ultimately show ?thesis by (rule rtranclp.rtrancl_into_rtrancl)
qed

section \<open>Connections\<close>

lemma live_entry: "phase_ok s (Live i h) \<Longrightarrow> \<not> lost s i \<Longrightarrow> map_of (rg_conns (ns_reg s)) (cn_MachineID (conn_at s i)) = Some i"
  by (simp add: phase_ok_def)

text \<open>Property C15: a machine never has two live connections: of the sessions that have passed the handshake at most one
  has a connection that is neither lost nor about to be marked lost by the session or request that took it out of the
  table, however handshakes, removals, revocations, maintenance runs and other statements interleave.\<close>

theorem single_live_connection:
  assumes "wf_devices w" "(node_step E verify dg)\<^sup>*\<^sup>* (node_start w) s"
    "Live i h \<in> set (ns_threads s)" "Live j h' \<in> set (ns_threads s)" "cn_MachineID (conn_at s i) = cn_MachineID (conn_at s j)"
    "\<not> lost s i" "\<not> lost s j"
  shows "i = j"
proof -
  have inv: "node_inv s" using inv_reachable [OF assms(2) inv_start [OF assms(1)]] .
  show ?thesis
    using live_entry [OF inv_parts(4) [OF inv assms(3)] assms(6)] live_entry [OF inv_parts(4) [OF inv assms(4)] assms(7)] assms(5)
    by (metis option.inject)
qed

theorem single_live_connection_witness: "lost again6 0"
proof (rule ccontr)
  assume n: "\<not> lost again6 0"
  have "\<not> lost again6 1" using again_conns by (simp add: lost_def)
  from single_live_connection [OF live_wf reach_again _ _ _ n this, of live_hello live_hello] show False
    using again_conns by (simp add: again_threads)
qed

text \<open>Property C16: a revoked machine does not stay connected: once every revocation of it that was stored has looked up its
  connection, each of its sessions that passed the handshake has a connection that is lost or is about to be marked so; a handshake
  that overtook the revocation does not get past its last check.\<close>

theorem revoked_disconnected:
  assumes "wf_devices w" "(node_step E verify dg)\<^sup>*\<^sup>* (node_start w) s"
    "\<not> is_active (ns_hub s) (cn_MachineID (conn_at s i))" "cn_MachineID (conn_at s i) \<notin> set (ns_closers s)" "Live i h \<in> set (ns_threads s)"
  shows "lost s i"
proof -
  have inv: "node_inv s" using inv_reachable [OF assms(2) inv_start [OF assms(1)]] .
  show ?thesis using inv_parts(4) [OF inv assms(5)] assms(3,4) by (simp add: phase_ok_def)
qed

theorem revoked_disconnected_witness: "lost sys8 0"
proof (rule revoked_disconnected [OF live_wf reach8])
  have k: "cn_MachineID (conn_at sys8 0) = dev_machine" by (simp add: sys8_def sys7_def table6)
  have "wf_devices (ns_hub sys6)" using inv_parts(1) [OF inv_reachable [OF reach6 inv_start [OF live_wf]]] .
  then have "machine_shut (ns_hub sys7) dev_machine 0" using revoked_shut [OF _ revoke6] by (simp add: sys7_def)
  then show "\<not> is_active (ns_hub sys8) (cn_MachineID (conn_at sys8 0))"
    by (simp add: k) (auto simp: sys8_def machine_shut_def is_active_def)
  show "cn_MachineID (conn_at sys8 0) \<notin> set (ns_closers sys8)" by (simp add: k sys8_def sys7_def table6)
  show "Live 0 live_hello \<in> set (ns_threads sys8)" by (simp add: sys8_def sys7_def threads6)
qed

section \<open>The clock of a hello\<close>

text \<open>A hello dated in the year 9999 passes the five-minute skew check: the difference of the two times
  saturates at the least duration, whose negation overflows to itself and so is not larger than five minutes.\<close>

theorem far_future_hello:
  "verifyClientHello anyone (1800000000 * second) dev_machine (replicate 43 CHR ''A'') ''chl''
     (live_hello\<lparr>ch_Timestamp := ''9999-12-31T23:59:59Z''\<rparr>) = None
   \<and> verifyClientHello anyone (1800000000 * second) dev_machine (replicate 43 CHR ''A'') ''chl''
     (live_hello\<lparr>ch_Timestamp := ''2027-01-15T08:05:01Z''\<rparr>) \<noteq> None"
  by code_simp

end
