(* ===== verification/OAuth_Store.thy ===== *)
theory OAuth_Store
  imports Collab_Store Credential_Rows
begin

text \<open>
  OAuth clients, authorizations and tokens (\<open>store/oauth.go\<close>): the tables \<open>oauth_clients\<close>,
  \<open>oauth_authorizations\<close>, \<open>oauth_access_tokens\<close> and \<open>oauth_refresh_tokens\<close>, with their keys and the foreign
  key to the client, which deletes the rows of a client with it (\<open>ON DELETE CASCADE\<close>). A JSON column is the list of
  texts it encodes. A transaction that fails leaves the tables as they were. Owners are never deleted and every caller
  passes the owner of a session, so the foreign key to \<open>owners\<close> is not written out.
\<close>

section \<open>Rows\<close>

record oauth_client_row =
  ocr_ClientID :: string
  ocr_ClientName :: string
  ocr_RedirectURIs :: "string list"
  ocr_GrantTypes :: "string list"
  ocr_ResponseTypes :: "string list"
  ocr_Scope :: string
  ocr_SourceHash :: "string option"
  ocr_CreatedAt :: int

record authorization_row =
  oar_ID :: string
  oar_OwnerID :: string
  oar_ClientID :: string
  oar_Scopes :: "string list"
  oar_Resource :: string
  oar_CreatedAt :: int
  oar_LastUsedAt :: "int option"
  oar_ExpiresAt :: int
  oar_RevokedAt :: "int option"
  oar_DeletedAt :: "int option"

record oauth_token_row =
  otr_TokenHash :: string
  otr_OwnerID :: string
  otr_ClientID :: string
  otr_Scopes :: "string list"
  otr_Resource :: string
  otr_CreatedAt :: int
  otr_ExpiresAt :: int
  otr_AuthorizationID :: "string option"

record oauth_db =
  od_clients :: "oauth_client_row list"
  od_authz :: "authorization_row list"
  od_access :: "oauth_token_row list"
  od_refresh :: "oauth_token_row list"

section \<open>Clients\<close>

record oauth_client =
  oc_ClientID :: string
  oc_ClientName :: string
  oc_RedirectURIs :: "string list"
  oc_GrantTypes :: "string list"
  oc_ResponseTypes :: "string list"
  oc_Scope :: string
  oc_RegistrationSourceHash :: string
  oc_CreatedAt :: instant

record registration_limits =
  rl_MaxClients :: int
  rl_MaxOrphans :: int
  rl_MaxSourceOrphans :: int
  rl_OrphanCutoff :: instant

definition new_client_row :: "oauth_client \<Rightarrow> oauth_client_row" where
  "new_client_row c = \<lparr>ocr_ClientID = oc_ClientID c, ocr_ClientName = oc_ClientName c, ocr_RedirectURIs = oc_RedirectURIs c,
     ocr_GrantTypes = oc_GrantTypes c, ocr_ResponseTypes = oc_ResponseTypes c, ocr_Scope = oc_Scope c,
     ocr_SourceHash = null_string (oc_RegistrationSourceHash c), ocr_CreatedAt = unix (oc_CreatedAt c)\<rparr>"

definition insert_client :: "oauth_db \<Rightarrow> oauth_client \<Rightarrow> (hub_error + unit) \<times> oauth_db" where
  "insert_client w c =
     (if list_ex (\<lambda>r. ocr_ClientID r = oc_ClientID c) (od_clients w) then (Inl constraint_error, w)
      else (Inr (), w\<lparr>od_clients := od_clients w @ [new_client_row c]\<rparr>))"

definition RegisterOAuthClient :: "oauth_db \<Rightarrow> oauth_client \<Rightarrow> (hub_error + unit) \<times> oauth_db" where
  "RegisterOAuthClient w c = insert_client w c"

text \<open>No row of the three other tables names the client.\<close>

definition unreferenced :: "oauth_db \<Rightarrow> string \<Rightarrow> bool" where
  "unreferenced w cid = (\<not> list_ex (\<lambda>a. oar_ClientID a = cid) (od_authz w)
     \<and> \<not> list_ex (\<lambda>t. otr_ClientID t = cid) (od_access w) \<and> \<not> list_ex (\<lambda>t. otr_ClientID t = cid) (od_refresh w))"

definition delete_stale_clients :: "int \<Rightarrow> oauth_db \<Rightarrow> oauth_db" where
  "delete_stale_clients cutoff w =
     w\<lparr>od_clients := sql_delete (\<lambda>c. ocr_CreatedAt c \<le> cutoff \<and> unreferenced w (ocr_ClientID c)) (od_clients w)\<rparr>"

text \<open>A client is an orphan at a second at which it has no authorization in force and no unexpired token.\<close>

definition orphan :: "oauth_db \<Rightarrow> int \<Rightarrow> oauth_client_row \<Rightarrow> bool" where
  "orphan w now c =
     (\<not> list_ex (\<lambda>a. oar_ClientID a = ocr_ClientID c \<and> oar_DeletedAt a = None \<and> oar_RevokedAt a = None \<and> now < oar_ExpiresAt a) (od_authz w)
      \<and> \<not> list_ex (\<lambda>t. otr_ClientID t = ocr_ClientID c \<and> now < otr_ExpiresAt t) (od_access w)
      \<and> \<not> list_ex (\<lambda>t. otr_ClientID t = ocr_ClientID c \<and> now < otr_ExpiresAt t) (od_refresh w))"

definition count_orphans :: "oauth_db \<Rightarrow> int \<Rightarrow> int" where
  "count_orphans w now = int (sql_affected (orphan w now) (od_clients w))"

definition count_source_orphans :: "oauth_db \<Rightarrow> string \<Rightarrow> int \<Rightarrow> int" where
  "count_source_orphans w src now = int (sql_affected (\<lambda>c. ocr_SourceHash c = Some src \<and> orphan w now c) (od_clients w))"

definition RegisterOAuthClientWithinLimits ::
    "oauth_db \<Rightarrow> oauth_client \<Rightarrow> registration_limits \<Rightarrow> (hub_error + unit) \<times> oauth_db" where
  "RegisterOAuthClientWithinLimits w c limits =
     (if rl_MaxClients limits \<le> 0 \<or> rl_MaxOrphans limits \<le> 0 \<or> rl_MaxSourceOrphans limits \<le> 0 \<or> oc_RegistrationSourceHash c = []
      then (Inl ErrResourceLimit, w)
      else let now = unix (oc_CreatedAt c); w1 = delete_stale_clients (unix (rl_OrphanCutoff limits)) w
      in if rl_MaxClients limits \<le> int (length (od_clients w1)) then (Inl ErrResourceLimit, w)
      else if rl_MaxOrphans limits \<le> count_orphans w1 now then (Inl ErrResourceLimit, w)
      else if rl_MaxSourceOrphans limits \<le> count_source_orphans w1 (oc_RegistrationSourceHash c) now then (Inl ErrResourceLimit, w)
      else case insert_client w1 c of (Inl e, _) \<Rightarrow> (Inl e, w) | (Inr u, w2) \<Rightarrow> (Inr u, w2))"

definition CountOrphanOAuthClients :: "oauth_db \<Rightarrow> instant \<Rightarrow> int" where
  "CountOrphanOAuthClients w now = count_orphans w (unix now)"

text \<open>What a query reads back: the source of a registration is not among its columns.\<close>

definition client_of_row :: "oauth_client_row \<Rightarrow> oauth_client" where
  "client_of_row r = \<lparr>oc_ClientID = ocr_ClientID r, oc_ClientName = ocr_ClientName r, oc_RedirectURIs = ocr_RedirectURIs r,
     oc_GrantTypes = ocr_GrantTypes r, oc_ResponseTypes = ocr_ResponseTypes r, oc_Scope = ocr_Scope r,
     oc_RegistrationSourceHash = [], oc_CreatedAt = from_unix (ocr_CreatedAt r)\<rparr>"

definition query_clients :: "(oauth_client_row \<Rightarrow> bool) \<Rightarrow> oauth_db \<Rightarrow> oauth_client list" where
  "query_clients p w = map client_of_row (sort_key (\<lambda>r. (- ocr_CreatedAt r, ocr_ClientID r)) (filter p (od_clients w)))"

definition ListOAuthClients :: "oauth_db \<Rightarrow> oauth_client list" where
  "ListOAuthClients w = query_clients (\<lambda>_. True) w"

definition ListOAuthClientsForOwner :: "oauth_db \<Rightarrow> string \<Rightarrow> oauth_client list" where
  "ListOAuthClientsForOwner w ownerID = query_clients (\<lambda>c. list_ex (\<lambda>a. oar_ClientID a = ocr_ClientID c
     \<and> oar_OwnerID a = ownerID \<and> oar_DeletedAt a = None) (od_authz w)) w"

definition GetOAuthClient :: "oauth_db \<Rightarrow> string \<Rightarrow> hub_error + oauth_client" where
  "GetOAuthClient w clientID =
     (case find (\<lambda>r. ocr_ClientID r = clientID) (od_clients w) of None \<Rightarrow> Inl ErrNotFound | Some r \<Rightarrow> Inr (client_of_row r))"

text \<open>Deleting a client deletes what references it.\<close>

definition cascade_client :: "string \<Rightarrow> oauth_db \<Rightarrow> oauth_db" where
  "cascade_client cid w = w\<lparr>od_clients := sql_delete (\<lambda>c. ocr_ClientID c = cid) (od_clients w),
     od_authz := sql_delete (\<lambda>a. oar_ClientID a = cid) (od_authz w),
     od_access := sql_delete (\<lambda>t. otr_ClientID t = cid) (od_access w),
     od_refresh := sql_delete (\<lambda>t. otr_ClientID t = cid) (od_refresh w)\<rparr>"

definition DeleteOAuthClient :: "oauth_db \<Rightarrow> string \<Rightarrow> (hub_error + unit) \<times> oauth_db" where
  "DeleteOAuthClient w clientID =
     (if list_ex (\<lambda>c. ocr_ClientID c = clientID) (od_clients w) then (Inr (), cascade_client clientID w) else (Inl ErrNotFound, w))"

definition DeleteOAuthClientForOwner :: "oauth_db \<Rightarrow> string \<Rightarrow> string \<Rightarrow> (hub_error + unit) \<times> oauth_db" where
  "DeleteOAuthClientForOwner w ownerID clientID =
     (if \<not> list_ex (\<lambda>a. oar_OwnerID a = ownerID \<and> oar_ClientID a = clientID \<and> oar_DeletedAt a = None) (od_authz w)
      then (Inl ErrNotFound, w)
      else let w1 = w\<lparr>od_access := sql_delete (\<lambda>t. otr_OwnerID t = ownerID \<and> otr_ClientID t = clientID) (od_access w),
                 od_refresh := sql_delete (\<lambda>t. otr_OwnerID t = ownerID \<and> otr_ClientID t = clientID) (od_refresh w),
                 od_authz := sql_delete (\<lambda>a. oar_OwnerID a = ownerID \<and> oar_ClientID a = clientID) (od_authz w)\<rparr>
      in (Inr (), if unreferenced w1 clientID then cascade_client clientID w1 else w1))"

section \<open>Authorizations\<close>

record oauth_authorization =
  oa_AuthorizationID :: string
  oa_OwnerID :: string
  oa_ClientID :: string
  oa_ClientName :: string
  oa_Scopes :: "string list"
  oa_Resource :: string
  oa_CreatedAt :: instant
  oa_LastUsedAt :: "instant option"
  oa_ExpiresAt :: instant
  oa_RevokedAt :: "instant option"

definition oauthMaxClientsPerOwner :: nat where "oauthMaxClientsPerOwner = 128"

text \<open>\<open>COUNT(DISTINCT client_id)\<close> of an owner.\<close>

definition owner_clients :: "oauth_db \<Rightarrow> string \<Rightarrow> nat" where
  "owner_clients w ownerID = length (remdups (map oar_ClientID (filter (\<lambda>a. oar_OwnerID a = ownerID) (od_authz w))))"

definition new_authorization :: "oauth_authorization \<Rightarrow> authorization_row" where
  "new_authorization a = \<lparr>oar_ID = oa_AuthorizationID a, oar_OwnerID = oa_OwnerID a, oar_ClientID = oa_ClientID a,
     oar_Scopes = oa_Scopes a, oar_Resource = oa_Resource a, oar_CreatedAt = unix (oa_CreatedAt a), oar_LastUsedAt = None,
     oar_ExpiresAt = unix (oa_ExpiresAt a), oar_RevokedAt = None, oar_DeletedAt = None\<rparr>"

definition CreateOAuthAuthorization :: "oauth_db \<Rightarrow> oauth_authorization \<Rightarrow> (hub_error + unit) \<times> oauth_db" where
  "CreateOAuthAuthorization w a =
     (if \<not> list_ex (\<lambda>r. oar_OwnerID r = oa_OwnerID a \<and> oar_ClientID r = oa_ClientID a) (od_authz w)
         \<and> oauthMaxClientsPerOwner \<le> owner_clients w (oa_OwnerID a) then (Inl ErrResourceLimit, w)
      else if list_ex (\<lambda>r. oar_ID r = oa_AuthorizationID a) (od_authz w)
         \<or> \<not> list_ex (\<lambda>c. ocr_ClientID c = oa_ClientID a) (od_clients w) then (Inl constraint_error, w)
      else (Inr (), w\<lparr>od_authz := od_authz w @ [new_authorization a]\<rparr>))"

definition ListOAuthAuthorizations :: "oauth_db \<Rightarrow> string \<Rightarrow> oauth_authorization list" where
  "ListOAuthAuthorizations w ownerID =
     map (\<lambda>(a, c). \<lparr>oa_AuthorizationID = oar_ID a, oa_OwnerID = oar_OwnerID a, oa_ClientID = oar_ClientID a,
          oa_ClientName = ocr_ClientName c, oa_Scopes = oar_Scopes a, oa_Resource = oar_Resource a,
          oa_CreatedAt = from_unix (oar_CreatedAt a), oa_LastUsedAt = map_option from_unix (oar_LastUsedAt a),
          oa_ExpiresAt = from_unix (oar_ExpiresAt a), oa_RevokedAt = map_option from_unix (oar_RevokedAt a)\<rparr>)
       (sort_key (\<lambda>(a, c). (- oar_CreatedAt a, oar_ID a))
         [(a, c). a \<leftarrow> od_authz w, c \<leftarrow> od_clients w, ocr_ClientID c = oar_ClientID a \<and> oar_OwnerID a = ownerID \<and> oar_DeletedAt a = None])"

definition TouchOAuthAuthorization :: "oauth_db \<Rightarrow> string \<Rightarrow> instant \<Rightarrow> oauth_db" where
  "TouchOAuthAuthorization w authorizationID now =
     (if authorizationID = [] then w
      else w\<lparr>od_authz := sql_update (\<lambda>a. oar_ID a = authorizationID \<and> oar_RevokedAt a = None \<and> oar_DeletedAt a = None
             \<and> (case oar_LastUsedAt a of None \<Rightarrow> True | Some u \<Rightarrow> u \<le> unix (now - 5 * minute)))
           (\<lambda>a. a\<lparr>oar_LastUsedAt := Some (unix now)\<rparr>) (od_authz w)\<rparr>)"

definition live_authorization :: "string \<Rightarrow> string \<Rightarrow> authorization_row \<Rightarrow> bool" where
  "live_authorization authorizationID ownerID a =
     (oar_ID a = authorizationID \<and> oar_OwnerID a = ownerID \<and> oar_RevokedAt a = None \<and> oar_DeletedAt a = None)"

definition mark_revoked :: "string \<Rightarrow> string \<Rightarrow> instant \<Rightarrow> oauth_db \<Rightarrow> oauth_db" where
  "mark_revoked ownerID authorizationID now w =
     w\<lparr>od_authz := sql_update (live_authorization authorizationID ownerID) (\<lambda>a. a\<lparr>oar_RevokedAt := Some (unix now)\<rparr>) (od_authz w)\<rparr>"

definition drop_tokens :: "string \<Rightarrow> oauth_db \<Rightarrow> oauth_db" where
  "drop_tokens authorizationID w =
     w\<lparr>od_access := sql_delete (\<lambda>t. otr_AuthorizationID t = Some authorizationID) (od_access w),
       od_refresh := sql_delete (\<lambda>t. otr_AuthorizationID t = Some authorizationID) (od_refresh w)\<rparr>"

definition RevokeOAuthAuthorization :: "oauth_db \<Rightarrow> string \<Rightarrow> string \<Rightarrow> instant \<Rightarrow> (hub_error + unit) \<times> oauth_db" where
  "RevokeOAuthAuthorization w ownerID authorizationID now =
     (if sql_affected (live_authorization authorizationID ownerID) (od_authz w) = 0 then (Inl ErrNotFound, w)
      else (Inr (), drop_tokens authorizationID (mark_revoked ownerID authorizationID now w)))"

definition DeleteOAuthAuthorization :: "oauth_db \<Rightarrow> string \<Rightarrow> string \<Rightarrow> instant \<Rightarrow> (hub_error + unit) \<times> oauth_db" where
  "DeleteOAuthAuthorization w ownerID authorizationID now =
     (let p = (\<lambda>a. oar_ID a = authorizationID \<and> oar_OwnerID a = ownerID \<and> oar_DeletedAt a = None
            \<and> (oar_RevokedAt a \<noteq> None \<or> oar_ExpiresAt a \<le> unix now))
      in if sql_affected p (od_authz w) = 0 then (Inl ErrConflict, w)
         else (Inr (), w\<lparr>od_authz := sql_update p (\<lambda>a. a\<lparr>oar_DeletedAt := Some (unix now)\<rparr>) (od_authz w)\<rparr>))"

section \<open>Tokens\<close>

record oauth_token =
  ok_AuthorizationID :: string
  ok_OwnerID :: string
  ok_ClientID :: string
  ok_Scopes :: "string list"
  ok_Resource :: string
  ok_ExpiresAt :: instant

definition pair_row :: "string \<Rightarrow> oauth_token \<Rightarrow> instant \<Rightarrow> instant \<Rightarrow> oauth_token_row" where
  "pair_row h rec now expires = \<lparr>otr_TokenHash = h, otr_OwnerID = ok_OwnerID rec, otr_ClientID = ok_ClientID rec,
     otr_Scopes = ok_Scopes rec, otr_Resource = ok_Resource rec, otr_CreatedAt = unix now, otr_ExpiresAt = unix expires,
     otr_AuthorizationID = Some (ok_AuthorizationID rec)\<rparr>"

definition consumable :: "string \<Rightarrow> oauth_token \<Rightarrow> instant \<Rightarrow> oauth_token_row \<Rightarrow> bool" where
  "consumable h rec now t = (otr_TokenHash t = h \<and> otr_ClientID t = ok_ClientID rec \<and> otr_OwnerID t = ok_OwnerID rec
     \<and> unix now < otr_ExpiresAt t \<and> otr_AuthorizationID t = Some (ok_AuthorizationID rec))"

record token_pair =
  pr_AccessHash :: string
  pr_RefreshHash :: string
  pr_Record :: oauth_token
  pr_AccessExpires :: instant
  pr_RefreshExpires :: instant
  pr_ConsumedRefreshHash :: string
  pr_Now :: instant

definition SaveOAuthTokenPair :: "oauth_db \<Rightarrow> token_pair \<Rightarrow> (hub_error + unit) \<times> oauth_db" where
  "SaveOAuthTokenPair w p =
     (let rec = pr_Record p; now = pr_Now p;
          expires = (if pr_RefreshHash p \<noteq> [] then pr_RefreshExpires p else pr_AccessExpires p);
          c = (\<lambda>a. oar_ID a = ok_AuthorizationID rec \<and> oar_OwnerID a = ok_OwnerID rec \<and> oar_ClientID a = ok_ClientID rec
            \<and> oar_RevokedAt a = None);
          authz = sql_update c (\<lambda>a. a\<lparr>oar_LastUsedAt := Some (unix now), oar_ExpiresAt := unix expires\<rparr>) (od_authz w);
          consumed = pr_ConsumedRefreshHash p;
          refresh = (if consumed = [] then od_refresh w else sql_delete (consumable consumed rec now) (od_refresh w))
      in if ok_AuthorizationID rec = [] then (Inl ErrUnauthorized, w)
         else if sql_affected c (od_authz w) \<noteq> 1 then (Inl ErrUnauthorized, w)
         else if consumed \<noteq> [] \<and> sql_affected (consumable consumed rec now) (od_refresh w) \<noteq> 1 then (Inl ErrUnauthorized, w)
         else if list_ex (\<lambda>t. otr_TokenHash t = pr_AccessHash p) (od_access w)
           \<or> \<not> list_ex (\<lambda>r. ocr_ClientID r = ok_ClientID rec) (od_clients w) then (Inl constraint_error, w)
         else if pr_RefreshHash p \<noteq> [] \<and> list_ex (\<lambda>t. otr_TokenHash t = pr_RefreshHash p) refresh then (Inl constraint_error, w)
         else (Inr (), w\<lparr>od_authz := authz,
                od_access := od_access w @ [pair_row (pr_AccessHash p) rec now (pr_AccessExpires p)],
                od_refresh := (if pr_RefreshHash p \<noteq> [] then refresh @ [pair_row (pr_RefreshHash p) rec now (pr_RefreshExpires p)]
                               else refresh)\<rparr>))"

definition oauthTokenRecord :: "oauth_token_row list \<Rightarrow> string \<Rightarrow> instant \<Rightarrow> hub_error + oauth_token" where
  "oauthTokenRecord t tokenHash now =
     (case find (\<lambda>r. otr_TokenHash r = tokenHash \<and> otr_AuthorizationID r \<noteq> None \<and> otr_AuthorizationID r \<noteq> Some []) t of
        None \<Rightarrow> Inl ErrUnauthorized
      | Some r \<Rightarrow>
          if otr_ExpiresAt r \<le> unix now then Inl ErrExpired
          else Inr \<lparr>ok_AuthorizationID = the (otr_AuthorizationID r), ok_OwnerID = otr_OwnerID r, ok_ClientID = otr_ClientID r,
                 ok_Scopes = otr_Scopes r, ok_Resource = otr_Resource r, ok_ExpiresAt = from_unix (otr_ExpiresAt r)\<rparr>)"

definition AuthenticateOAuthAccessToken :: "oauth_db \<Rightarrow> string \<Rightarrow> instant \<Rightarrow> hub_error + oauth_token" where
  "AuthenticateOAuthAccessToken w tokenHash now = oauthTokenRecord (od_access w) tokenHash now"

definition GetOAuthRefreshToken :: "oauth_db \<Rightarrow> string \<Rightarrow> instant \<Rightarrow> hub_error + oauth_token" where
  "GetOAuthRefreshToken w tokenHash now = oauthTokenRecord (od_refresh w) tokenHash now"

text \<open>The rows of the union in the order of its two parts, the first of them (\<open>LIMIT 1\<close>).\<close>

definition RevokeOAuthToken :: "oauth_db \<Rightarrow> string \<Rightarrow> instant \<Rightarrow> oauth_db" where
  "RevokeOAuthToken w tokenHash now =
     (let plain = w\<lparr>od_access := sql_delete (\<lambda>t. otr_TokenHash t = tokenHash) (od_access w),
            od_refresh := sql_delete (\<lambda>t. otr_TokenHash t = tokenHash) (od_refresh w)\<rparr>
      in case find (\<lambda>t. otr_TokenHash t = tokenHash) (od_access w @ od_refresh w) of
           None \<Rightarrow> plain
         | Some t \<Rightarrow>
             (case otr_AuthorizationID t of
                None \<Rightarrow> plain
              | Some a \<Rightarrow> if a = [] then plain else drop_tokens a (mark_revoked (otr_OwnerID t) a now w)))"

section \<open>Maintenance\<close>

definition oauthAuthorizationHistoryRetention :: duration where "oauthAuthorizationHistoryRetention = 90 * 24 * hour"
definition oauthClientOrphanRetention :: duration where "oauthClientOrphanRetention = 30 * minute"

definition cleanup_oauth_rows :: "oauth_db \<Rightarrow> instant \<Rightarrow> oauth_db" where
  "cleanup_oauth_rows w now =
     (let w1 = w\<lparr>od_access := sql_delete (\<lambda>t. otr_ExpiresAt t \<le> unix now) (od_access w),
                od_refresh := sql_delete (\<lambda>t. otr_ExpiresAt t \<le> unix now) (od_refresh w)\<rparr>;
          past = unix (now - oauthAuthorizationHistoryRetention);
          w2 = w1\<lparr>od_authz := sql_delete (\<lambda>a. (case oar_RevokedAt a of None \<Rightarrow> False | Some r \<Rightarrow> r \<le> past) \<or> oar_ExpiresAt a \<le> past)
                 (od_authz w1)\<rparr>
      in delete_stale_clients (unix (now - oauthClientOrphanRetention)) w2)"

end
