(* ===== verification/OAuth_Steps.thy ===== *)
theory OAuth_Steps
  imports OAuth_Store
begin

text \<open>
  The statements of the OAuth tables as steps, the invariant every sequence of them keeps (keys, references to clients,
  no token of a revoked authorization, the number of clients of an owner), and what stays shut: a revoked authorization,
  an access token that is gone or expired, a refresh token that was consumed.
\<close>

datatype oauth_stmt =
    O_Register oauth_client
  | O_RegisterLimited oauth_client registration_limits
  | O_DeleteClient string
  | O_DeleteClientFor string string
  | O_CreateAuthorization oauth_authorization
  | O_Touch string instant
  | O_RevokeAuthorization string string instant
  | O_DeleteAuthorization string string instant
  | O_SavePair token_pair
  | O_RevokeToken string instant
  | O_Cleanup instant

fun exec_oauth :: "oauth_stmt \<Rightarrow> oauth_db \<Rightarrow> oauth_db" where
  "exec_oauth (O_Register c) w = snd (RegisterOAuthClient w c)"
| "exec_oauth (O_RegisterLimited c l) w = snd (RegisterOAuthClientWithinLimits w c l)"
| "exec_oauth (O_DeleteClient k) w = snd (DeleteOAuthClient w k)"
| "exec_oauth (O_DeleteClientFor ow k) w = snd (DeleteOAuthClientForOwner w ow k)"
| "exec_oauth (O_CreateAuthorization a) w = snd (CreateOAuthAuthorization w a)"
| "exec_oauth (O_Touch k now) w = TouchOAuthAuthorization w k now"
| "exec_oauth (O_RevokeAuthorization ow k now) w = snd (RevokeOAuthAuthorization w ow k now)"
| "exec_oauth (O_DeleteAuthorization ow k now) w = snd (DeleteOAuthAuthorization w ow k now)"
| "exec_oauth (O_SavePair p) w = snd (SaveOAuthTokenPair w p)"
| "exec_oauth (O_RevokeToken h now) w = RevokeOAuthToken w h now"
| "exec_oauth (O_Cleanup now) w = cleanup_oauth_rows w now"

lemmas oauth_defs = RegisterOAuthClient_def RegisterOAuthClientWithinLimits_def DeleteOAuthClient_def
  DeleteOAuthClientForOwner_def CreateOAuthAuthorization_def TouchOAuthAuthorization_def RevokeOAuthAuthorization_def
  DeleteOAuthAuthorization_def SaveOAuthTokenPair_def RevokeOAuthToken_def cleanup_oauth_rows_def
  insert_client_def delete_stale_clients_def cascade_client_def mark_revoked_def drop_tokens_def Let_def

section \<open>The invariant\<close>

definition oauth_keys :: "oauth_db \<Rightarrow> bool" where
  "oauth_keys w = (distinct (map ocr_ClientID (od_clients w)) \<and> distinct (map oar_ID (od_authz w))
     \<and> distinct (map otr_TokenHash (od_access w)) \<and> distinct (map otr_TokenHash (od_refresh w)))"

definition client_ids :: "oauth_db \<Rightarrow> string set" where
  "client_ids w = ocr_ClientID ` set (od_clients w)"

definition oauth_refs :: "oauth_db \<Rightarrow> bool" where
  "oauth_refs w = ((\<forall>a \<in> set (od_authz w). oar_ClientID a \<in> client_ids w)
     \<and> (\<forall>t \<in> set (od_access w) \<union> set (od_refresh w). otr_ClientID t \<in> client_ids w))"

text \<open>A token names an authorization, and none that is revoked.\<close>

definition revoked_in :: "oauth_db \<Rightarrow> string \<Rightarrow> bool" where
  "revoked_in w i = (\<exists>a \<in> set (od_authz w). oar_ID a = i \<and> oar_RevokedAt a \<noteq> None)"

definition tokens_in_force :: "oauth_db \<Rightarrow> bool" where
  "tokens_in_force w = (\<forall>t \<in> set (od_access w) \<union> set (od_refresh w).
     \<exists>i. otr_AuthorizationID t = Some i \<and> i \<noteq> [] \<and> \<not> revoked_in w i)"

definition clients_of :: "oauth_db \<Rightarrow> string \<Rightarrow> string set" where
  "clients_of w ow = oar_ClientID ` {a \<in> set (od_authz w). oar_OwnerID a = ow}"

lemma owner_clients_card: "owner_clients w ow = card (clients_of w ow)"
  by (simp add: owner_clients_def length_remdups_card_conv clients_of_def)

definition owners_bounded :: "oauth_db \<Rightarrow> bool" where
  "owners_bounded w = (\<forall>ow. card (clients_of w ow) \<le> oauthMaxClientsPerOwner)"

lemma client_ids_iff: "k \<in> client_ids w \<longleftrightarrow> (\<exists>c \<in> set (od_clients w). ocr_ClientID c = k)"
  by (auto simp: client_ids_def)

lemma clients_of_iff: "k \<in> clients_of w ow \<longleftrightarrow> (\<exists>a \<in> set (od_authz w). oar_OwnerID a = ow \<and> oar_ClientID a = k)"
  by (auto simp: clients_of_def)

lemma finite_clients_of [simp]: "finite (clients_of w ow)"
  by (simp add: clients_of_def)

definition wf_oauth :: "oauth_db \<Rightarrow> bool" where
  "wf_oauth w = (oauth_keys w \<and> oauth_refs w \<and> tokens_in_force w \<and> owners_bounded w)"

lemmas oauth_inv_defs = oauth_keys_def oauth_refs_def tokens_in_force_def owners_bounded_def client_ids_def

section \<open>What a statement leaves\<close>

text \<open>The rows of authorizations after a statement: old ones, with at most their times changed, and a new one.\<close>

definition later_authz :: "authorization_row \<Rightarrow> authorization_row \<Rightarrow> bool" where
  "later_authz a b = (oar_ID b = oar_ID a \<and> oar_OwnerID b = oar_OwnerID a \<and> oar_ClientID b = oar_ClientID a
     \<and> (oar_RevokedAt a \<noteq> None \<longrightarrow> oar_RevokedAt b = oar_RevokedAt a))"

definition authz_from :: "authorization_row list \<Rightarrow> authorization_row list \<Rightarrow> bool" where
  "authz_from t t' = (\<forall>b \<in> set t'. \<exists>a \<in> set t. later_authz a b)"

lemma authz_from_refl [simp]: "authz_from t t"
  by (auto simp: authz_from_def later_authz_def)

lemma authz_from_delete [simp]: "authz_from t (sql_delete c t)"
  by (auto simp: authz_from_def later_authz_def)

lemma authz_from_update: "(\<And>a. c a \<Longrightarrow> later_authz a (f a)) \<Longrightarrow> authz_from t (sql_update c f t)"
  by (force simp: authz_from_def set_sql_update later_authz_def)

definition creates_authorization :: "oauth_stmt \<Rightarrow> oauth_db \<Rightarrow> bool" where
  "creates_authorization s w = (\<exists>r. s = O_CreateAuthorization r \<and> is_ok (fst (CreateOAuthAuthorization w r)))"

lemma authz_step: "\<not> creates_authorization s w \<Longrightarrow> authz_from (od_authz w) (od_authz (exec_oauth s w))"
proof (cases s)
  case (O_Register c)
  then show ?thesis by (simp add: oauth_defs)
next
  case (O_RegisterLimited c l)
  then show ?thesis by (simp add: oauth_defs)
next
  case (O_DeleteClient k)
  then show ?thesis by (simp add: oauth_defs)
next
  case (O_DeleteClientFor ow k)
  then show ?thesis by (auto simp: oauth_defs authz_from_def later_authz_def)
next
  case (O_CreateAuthorization r)
  moreover assume "\<not> creates_authorization s w"
  ultimately show ?thesis by (auto simp: oauth_defs creates_authorization_def)
next
  case (O_Touch k now)
  then show ?thesis by (auto simp: oauth_defs later_authz_def intro: authz_from_update)
next
  case (O_RevokeAuthorization ow k now)
  then show ?thesis by (auto simp: oauth_defs live_authorization_def later_authz_def intro!: authz_from_update)
next
  case (O_DeleteAuthorization ow k now)
  then show ?thesis by (auto simp: oauth_defs later_authz_def intro!: authz_from_update)
next
  case (O_SavePair p)
  then show ?thesis by (auto simp: oauth_defs later_authz_def intro!: authz_from_update)
next
  case (O_RevokeToken h now)
  then show ?thesis
    by (auto simp: oauth_defs live_authorization_def later_authz_def split: option.splits intro!: authz_from_update)
next
  case (O_Cleanup now)
  then show ?thesis by (simp add: oauth_defs)
qed

lemma CreateOAuthAuthorization_ok:
  assumes "is_ok (fst (CreateOAuthAuthorization w a))"
  shows "snd (CreateOAuthAuthorization w a) = w\<lparr>od_authz := od_authz w @ [new_authorization a]\<rparr>"
    and "oa_AuthorizationID a \<notin> oar_ID ` set (od_authz w)" and "oa_ClientID a \<in> client_ids w"
    and "oa_ClientID a \<in> clients_of w (oa_OwnerID a) \<or> owner_clients w (oa_OwnerID a) < oauthMaxClientsPerOwner"
  using assms by (auto simp: CreateOAuthAuthorization_def list_ex_iff client_ids_iff clients_of_iff split: if_splits)

lemma new_authorization_simps [simp]:
  "oar_ID (new_authorization a) = oa_AuthorizationID a" "oar_OwnerID (new_authorization a) = oa_OwnerID a"
  "oar_ClientID (new_authorization a) = oa_ClientID a" "oar_RevokedAt (new_authorization a) = None"
  by (simp_all add: new_authorization_def)

text \<open>The tokens after a statement: old ones, and those of a pair that was saved.\<close>

lemma sql_affected_1: "sql_affected c t = Suc 0 \<Longrightarrow> \<exists>r \<in> set t. c r"
  by (metis sql_affected_0 Zero_not_Suc)

lemma SaveOAuthTokenPair_ok:
  assumes "is_ok (fst (SaveOAuthTokenPair w p))"
  shows "\<exists>a \<in> set (od_authz w). oar_ID a = ok_AuthorizationID (pr_Record p) \<and> oar_RevokedAt a = None
      \<and> oar_OwnerID a = ok_OwnerID (pr_Record p) \<and> oar_ClientID a = ok_ClientID (pr_Record p)"
    and "ok_AuthorizationID (pr_Record p) \<noteq> []" and "ok_ClientID (pr_Record p) \<in> client_ids w"
    and "pr_AccessHash p \<notin> otr_TokenHash ` set (od_access w)"
    and "od_access (snd (SaveOAuthTokenPair w p)) = od_access w @ [pair_row (pr_AccessHash p) (pr_Record p) (pr_Now p) (pr_AccessExpires p)]"
  using assms
  by (auto simp: SaveOAuthTokenPair_def Let_def list_ex_iff client_ids_iff split: if_splits dest!: sql_affected_1)

lemma tokens_step:
  assumes "t \<in> set (od_access (exec_oauth s w)) \<union> set (od_refresh (exec_oauth s w))"
  shows "t \<in> set (od_access w) \<union> set (od_refresh w)
    \<or> (\<exists>p h ex. s = O_SavePair p \<and> is_ok (fst (SaveOAuthTokenPair w p)) \<and> t = pair_row h (pr_Record p) (pr_Now p) ex)"
  using assms by (cases s) (auto simp: oauth_defs split: if_splits option.splits)

section \<open>The invariant is kept\<close>

lemma keys_step: "oauth_keys w \<Longrightarrow> oauth_keys (exec_oauth s w)"
  by (cases s) (auto simp: oauth_defs oauth_keys_def map_sql_update sql_delete_key list_ex_iff new_client_row_def pair_row_def
      split: option.splits)

lemma unreferenced_iff: "unreferenced w k \<longleftrightarrow> (\<forall>a \<in> set (od_authz w). oar_ClientID a \<noteq> k)
    \<and> (\<forall>t \<in> set (od_access w) \<union> set (od_refresh w). otr_ClientID t \<noteq> k)"
  by (auto simp: unreferenced_def list_ex_iff)

lemma refs_delete_stale: "oauth_refs w \<Longrightarrow> oauth_refs (delete_stale_clients k w)"
  by (fastforce simp: delete_stale_clients_def oauth_refs_def client_ids_iff unreferenced_iff)

lemma refs_insert_client: "oauth_refs w \<Longrightarrow> oauth_refs (snd (insert_client w c))"
  by (auto simp: insert_client_def oauth_refs_def client_ids_iff)

lemma refs_cascade: "oauth_refs w \<Longrightarrow> oauth_refs (cascade_client k w)"
  by (fastforce simp: cascade_client_def oauth_refs_def client_ids_iff)

lemma refs_shrink:
  assumes "oauth_refs w" "od_clients w' = od_clients w" "oar_ClientID ` set (od_authz w') \<subseteq> oar_ClientID ` set (od_authz w)"
    "set (od_access w') \<subseteq> set (od_access w)" "set (od_refresh w') \<subseteq> set (od_refresh w)"
  shows "oauth_refs w'"
  using assms by (auto simp: oauth_refs_def client_ids_def subset_iff image_iff)

lemma authz_from_clients: "authz_from t t' \<Longrightarrow> oar_ClientID ` set t' \<subseteq> oar_ClientID ` set t"
  by (fastforce simp: authz_from_def later_authz_def image_iff)

lemma refs_tables:
  assumes w: "oauth_refs w" and s: "\<not> creates_authorization s w" "od_clients (exec_oauth s w) = od_clients w"
    and t: "\<And>t. t \<in> set (od_access (exec_oauth s w)) \<union> set (od_refresh (exec_oauth s w)) \<Longrightarrow> otr_ClientID t \<in> client_ids w"
  shows "oauth_refs (exec_oauth s w)"
proof -
  have "client_ids (exec_oauth s w) = client_ids w" by (simp add: client_ids_def s(2))
  moreover have "\<forall>a \<in> set (od_authz (exec_oauth s w)). oar_ClientID a \<in> client_ids w"
    using authz_from_clients [OF authz_step [OF s(1)]] w by (auto simp: oauth_refs_def)
  ultimately show ?thesis using t by (auto simp: oauth_refs_def)
qed

lemma refs_tokens:
  assumes "oauth_refs w" "t \<in> set (od_access (exec_oauth s w)) \<union> set (od_refresh (exec_oauth s w))"
  shows "otr_ClientID t \<in> client_ids w"
  using tokens_step [OF assms(2)] assms(1) SaveOAuthTokenPair_ok(3) by (auto simp: oauth_refs_def pair_row_def)

fun touches_clients :: "oauth_stmt \<Rightarrow> bool" where
  "touches_clients (O_Register c) = True"
| "touches_clients (O_RegisterLimited c l) = True"
| "touches_clients (O_DeleteClient k) = True"
| "touches_clients (O_DeleteClientFor ow k) = True"
| "touches_clients (O_Cleanup now) = True"
| "touches_clients _ = False"

lemma clients_frame: "\<not> touches_clients s \<Longrightarrow> od_clients (exec_oauth s w) = od_clients w"
  by (cases s) (simp_all add: oauth_defs split: option.splits)

lemma refs_step: "oauth_refs w \<Longrightarrow> oauth_refs (exec_oauth s w)"
proof (cases "touches_clients s")
  case False
  assume w: "oauth_refs w"
  show ?thesis
  proof (cases "creates_authorization s w")
    case True
    then obtain a where a: "s = O_CreateAuthorization a" "is_ok (fst (CreateOAuthAuthorization w a))"
      by (auto simp: creates_authorization_def)
    then show ?thesis using w CreateOAuthAuthorization_ok(1,3) [OF a(2)] by (auto simp: oauth_refs_def client_ids_def)
  qed (intro refs_tables w clients_frame False refs_tokens [OF w])
next
  case True
  assume w: "oauth_refs w"
  from True consider c where "s = O_Register c" | c l where "s = O_RegisterLimited c l" | k where "s = O_DeleteClient k"
    | ow k where "s = O_DeleteClientFor ow k" | now where "s = O_Cleanup now"
    by (cases s) auto
  then show ?thesis
  proof cases
    case 1 then show ?thesis using w by (simp add: RegisterOAuthClient_def refs_insert_client)
  next
    case (2 c l)
    then show ?thesis
      using w refs_delete_stale [of w "unix (rl_OrphanCutoff l)"]
        refs_insert_client [of "delete_stale_clients (unix (rl_OrphanCutoff l)) w" c]
      by (auto simp: RegisterOAuthClientWithinLimits_def Let_def split: prod.splits sum.splits)
  next
    case 3 then show ?thesis using w by (simp add: DeleteOAuthClient_def refs_cascade)
  next
    case (4 ow k)
    have "oauth_refs (w\<lparr>od_access := sql_delete p (od_access w), od_refresh := sql_delete q (od_refresh w),
        od_authz := sql_delete r (od_authz w)\<rparr>)" for p q r
      by (rule refs_shrink [OF w]) auto
    then show ?thesis by (simp add: 4 DeleteOAuthClientForOwner_def Let_def refs_cascade w)
  next
    case (5 now)
    have "oauth_refs (w\<lparr>od_access := sql_delete p (od_access w), od_refresh := sql_delete q (od_refresh w),
        od_authz := sql_delete r (od_authz w)\<rparr>)" for p q r
      by (rule refs_shrink [OF w]) auto
    then show ?thesis by (simp add: 5 cleanup_oauth_rows_def Let_def refs_delete_stale)
  qed
qed

section \<open>Tokens of revoked authorizations\<close>

definition no_token :: "oauth_db \<Rightarrow> string \<Rightarrow> bool" where
  "no_token w i = (\<forall>t \<in> set (od_access w) \<union> set (od_refresh w). otr_AuthorizationID t \<noteq> Some i)"

lemma no_token_drop: "no_token (drop_tokens i w) i"
  by (auto simp: no_token_def drop_tokens_def)

lemma revoked_mark: "revoked_in (mark_revoked ow k now w) i \<Longrightarrow> revoked_in w i \<or> i = k"
  by (auto simp: mark_revoked_def revoked_in_def set_sql_update live_authorization_def split: if_splits)

lemma revoked_drop [simp]: "revoked_in (drop_tokens k w) i = revoked_in w i"
  by (simp add: drop_tokens_def revoked_in_def)

lemma revoked_subset: "revoked_in w' i \<Longrightarrow> set (od_authz w') \<subseteq> set (od_authz w) \<Longrightarrow> revoked_in w i"
  by (auto simp: revoked_in_def)

lemma revoked_update:
  assumes "revoked_in w' i" "od_authz w' = sql_update c f (od_authz w)"
    "\<And>a. oar_ID (f a) = oar_ID a" "\<And>a. oar_RevokedAt (f a) = oar_RevokedAt a"
  shows "revoked_in w i"
  using assms by (auto simp: revoked_in_def set_sql_update split: if_splits)

lemma revoked_step:
  assumes r: "revoked_in (exec_oauth s w) i"
  shows "revoked_in w i \<or> no_token (exec_oauth s w) i"
proof (cases s)
  case (O_CreateAuthorization a)
  then show ?thesis using r by (auto simp: CreateOAuthAuthorization_def revoked_in_def split: if_splits)
next
  case (O_Touch k now)
  then show ?thesis using r by (auto simp: TouchOAuthAuthorization_def split: if_splits elim: revoked_update)
next
  case (O_RevokeAuthorization ow k now)
  then show ?thesis using r revoked_mark [of ow k now w i] no_token_drop [of i]
    by (cases "i = k") (auto simp: RevokeOAuthAuthorization_def split: if_splits)
next
  case (O_DeleteAuthorization ow k now)
  then show ?thesis using r by (auto simp: DeleteOAuthAuthorization_def Let_def split: if_splits elim: revoked_update)
next
  case (O_SavePair p)
  then show ?thesis using r by (auto simp: SaveOAuthTokenPair_def Let_def split: if_splits elim: revoked_update)
next
  case (O_RevokeToken h now)
  show ?thesis
  proof (cases "\<exists>a ow. exec_oauth s w = drop_tokens a (mark_revoked ow a now w)")
    case True
    then show ?thesis using r revoked_mark [of _ _ now w i] no_token_drop [of i] by (metis revoked_drop)
  next
    case False
    then have "od_authz (exec_oauth s w) = od_authz w"
      by (auto simp: O_RevokeToken RevokeOAuthToken_def Let_def split: option.splits) blast
    then show ?thesis using r by (auto elim: revoked_subset)
  qed
qed (use r in \<open>auto simp: oauth_defs split: if_splits sum.splits prod.splits elim!: revoked_subset\<close>)

lemma in_force_step:
  assumes keys: "oauth_keys w" and t: "tokens_in_force w"
  shows "tokens_in_force (exec_oauth s w)"
  unfolding tokens_in_force_def
proof
  fix t assume in_t: "t \<in> set (od_access (exec_oauth s w)) \<union> set (od_refresh (exec_oauth s w))"
  have alive: "\<not> revoked_in (exec_oauth s w) i" if "otr_AuthorizationID t = Some i" "\<not> revoked_in w i" for i
    using revoked_step [of s w i] that in_t by (auto simp: no_token_def)
  from tokens_step [OF in_t] show "\<exists>i. otr_AuthorizationID t = Some i \<and> i \<noteq> [] \<and> \<not> revoked_in (exec_oauth s w) i"
  proof
    assume "t \<in> set (od_access w) \<union> set (od_refresh w)"
    then show ?thesis using assms(2) alive by (auto simp: tokens_in_force_def)
  next
    assume "\<exists>p h ex. s = O_SavePair p \<and> is_ok (fst (SaveOAuthTokenPair w p)) \<and> t = pair_row h (pr_Record p) (pr_Now p) ex"
    then obtain p h ex where p: "is_ok (fst (SaveOAuthTokenPair w p))" "t = pair_row h (pr_Record p) (pr_Now p) ex" by blast
    have "\<not> revoked_in w (ok_AuthorizationID (pr_Record p))"
      using SaveOAuthTokenPair_ok(1) [OF p(1)] keys distinct_key_unique [of oar_ID "od_authz w"]
      by (auto simp: oauth_keys_def revoked_in_def) (metis option.distinct(1))
    then show ?thesis using alive SaveOAuthTokenPair_ok(2) [OF p(1)] by (auto simp: p(2) pair_row_def)
  qed
qed

section \<open>Clients of an owner\<close>

lemma owners_step:
  assumes "owners_bounded w" shows "owners_bounded (exec_oauth s w)"
  unfolding owners_bounded_def
proof
  fix ow
  show "card (clients_of (exec_oauth s w) ow) \<le> oauthMaxClientsPerOwner"
  proof (cases "creates_authorization s w")
    case True
    then obtain a where a: "s = O_CreateAuthorization a" "is_ok (fst (CreateOAuthAuthorization w a))"
      by (auto simp: creates_authorization_def)
    have "clients_of (exec_oauth s w) ow = (if ow = oa_OwnerID a then insert (oa_ClientID a) (clients_of w ow) else clients_of w ow)"
      using CreateOAuthAuthorization_ok(1) [OF a(2)] by (auto simp: a(1) clients_of_iff)
    then show ?thesis using CreateOAuthAuthorization_ok(4) [OF a(2)] assms
      by (auto simp: owners_bounded_def owner_clients_card card_insert_if)
  next
    case False
    have "clients_of (exec_oauth s w) ow \<subseteq> clients_of w ow"
      using authz_step [OF False] by (fastforce simp: clients_of_iff authz_from_def later_authz_def)
    then have "card (clients_of (exec_oauth s w) ow) \<le> card (clients_of w ow)" by (intro card_mono) simp_all
    then show ?thesis using assms by (auto simp: owners_bounded_def intro: order_trans)
  qed
qed

lemma wf_oauth_exec: "wf_oauth w \<Longrightarrow> wf_oauth (exec_oauth s w)"
  by (simp add: wf_oauth_def keys_step refs_step in_force_step owners_step)

lemma wf_oauth_run: "wf_oauth w \<Longrightarrow> wf_oauth (exec_all exec_oauth ss w)"
  by (rule exec_all_inv [of wf_oauth]) (rule wf_oauth_exec)

section \<open>Credentials that are shut\<close>

lemma token_record_ok:
  assumes "oauthTokenRecord t h now = Inr rec"
  shows "\<exists>r \<in> set t. otr_TokenHash r = h \<and> otr_AuthorizationID r = Some (ok_AuthorizationID rec) \<and> ok_AuthorizationID rec \<noteq> []
    \<and> unix now < otr_ExpiresAt r \<and> ok_OwnerID rec = otr_OwnerID r \<and> ok_ClientID rec = otr_ClientID r
    \<and> ok_Scopes rec = otr_Scopes r \<and> ok_Resource rec = otr_Resource r"
  using assms by (auto simp: oauthTokenRecord_def split: option.splits if_splits dest!: find_in)

text \<open>An authorization lets a caller in by an access or a refresh token of its own.\<close>

definition authorization_admits :: "oauth_db \<Rightarrow> string \<Rightarrow> int \<Rightarrow> bool" where
  "authorization_admits w k t = (\<exists>h now rec. unix now = t \<and> ok_AuthorizationID rec = k
     \<and> (AuthenticateOAuthAccessToken w h now = Inr rec \<or> GetOAuthRefreshToken w h now = Inr rec))"

definition authorization_shut :: "oauth_db \<Rightarrow> string \<Rightarrow> int \<Rightarrow> bool" where
  "authorization_shut w k t0 = (no_token w k \<and> (\<forall>a \<in> set (od_authz w). oar_ID a = k \<longrightarrow> oar_RevokedAt a \<noteq> None))"

definition creates_id :: "string \<Rightarrow> oauth_stmt \<Rightarrow> bool" where
  "creates_id k s = (\<exists>a. s = O_CreateAuthorization a \<and> oa_AuthorizationID a = k)"

lemma authorization_shut_step:
  assumes sh: "authorization_shut w k t0" and s: "\<not> creates_id k s"
  shows "authorization_shut (exec_oauth s w) k t0"
  unfolding authorization_shut_def
proof
  have dead: "\<not> (\<exists>a \<in> set (od_authz w). oar_ID a = k \<and> oar_RevokedAt a = None)" using sh by (auto simp: authorization_shut_def)
  show "no_token (exec_oauth s w) k" unfolding no_token_def
  proof
    fix t assume "t \<in> set (od_access (exec_oauth s w)) \<union> set (od_refresh (exec_oauth s w))"
    from tokens_step [OF this] show "otr_AuthorizationID t \<noteq> Some k"
    proof
      assume "t \<in> set (od_access w) \<union> set (od_refresh w)"
      then show ?thesis using sh by (auto simp: authorization_shut_def no_token_def)
    next
      assume "\<exists>p h ex. s = O_SavePair p \<and> is_ok (fst (SaveOAuthTokenPair w p)) \<and> t = pair_row h (pr_Record p) (pr_Now p) ex"
      then show ?thesis using SaveOAuthTokenPair_ok(1) dead by (fastforce simp: pair_row_def)
    qed
  qed
  show "\<forall>a \<in> set (od_authz (exec_oauth s w)). oar_ID a = k \<longrightarrow> oar_RevokedAt a \<noteq> None"
  proof (cases "creates_authorization s w")
    case True
    then obtain a where a: "s = O_CreateAuthorization a" "is_ok (fst (CreateOAuthAuthorization w a))"
      by (auto simp: creates_authorization_def)
    then show ?thesis using CreateOAuthAuthorization_ok(1) [OF a(2)] s dead by (auto simp: creates_id_def)
  next
    case False
    show ?thesis using authz_step [OF False] dead by (force simp: authz_from_def later_authz_def)
  qed
qed

interpretation authorization_lock: lockout exec_oauth authorization_admits authorization_shut creates_id
proof
  show "\<not> authorization_admits w k t" if "authorization_shut w k t0" "t0 \<le> t" for w k t0 t
    using that by (auto simp: authorization_admits_def authorization_shut_def no_token_def
        AuthenticateOAuthAccessToken_def GetOAuthRefreshToken_def dest!: token_record_ok)
qed (rule authorization_shut_step)

text \<open>A token of either table is dead when it has expired; the statement that issues its hash saves a pair.\<close>

fun issues_access :: "string \<Rightarrow> oauth_stmt \<Rightarrow> bool" where
  "issues_access h (O_SavePair p) = (pr_AccessHash p = h)"
| "issues_access h _ = False"

fun issues_refresh :: "string \<Rightarrow> oauth_stmt \<Rightarrow> bool" where
  "issues_refresh h (O_SavePair p) = (pr_RefreshHash p = h)"
| "issues_refresh h _ = False"

definition token_expired :: "oauth_token_row \<Rightarrow> int \<Rightarrow> bool" where
  "token_expired r t = (otr_ExpiresAt r \<le> t)"

definition access_admits :: "oauth_db \<Rightarrow> string \<Rightarrow> int \<Rightarrow> bool" where
  "access_admits w h t = (\<exists>now. unix now = t \<and> is_ok (AuthenticateOAuthAccessToken w h now))"

text \<open>A refresh token is used by reading its record or by trading it in for a pair.\<close>

definition refresh_admits :: "oauth_db \<Rightarrow> string \<Rightarrow> int \<Rightarrow> bool" where
  "refresh_admits w h t = (\<exists>now. unix now = t \<and> (is_ok (GetOAuthRefreshToken w h now)
     \<or> (\<exists>rec. sql_affected (consumable h rec now) (od_refresh w) \<noteq> 0)))"

lemma access_rows_step:
  "\<not> issues_access h s \<Longrightarrow> r \<in> set (od_access (exec_oauth s w)) \<Longrightarrow> otr_TokenHash r = h \<Longrightarrow> r \<in> set (od_access w)"
  by (cases s) (auto simp: oauth_defs pair_row_def split: if_splits option.splits)

lemma refresh_rows_step:
  "\<not> issues_refresh h s \<Longrightarrow> r \<in> set (od_refresh (exec_oauth s w)) \<Longrightarrow> otr_TokenHash r = h \<Longrightarrow> r \<in> set (od_refresh w)"
  by (cases s) (auto simp: oauth_defs pair_row_def split: if_splits option.splits)

interpretation access_lock: credential_rows exec_oauth od_access otr_TokenHash token_expired access_admits issues_access
  by unfold_locales
    (auto simp: access_admits_def token_expired_def is_ok_iff AuthenticateOAuthAccessToken_def not_le
      dest!: token_record_ok dest: access_rows_step)

interpretation refresh_lock: credential_rows exec_oauth od_refresh otr_TokenHash token_expired refresh_admits issues_refresh
  by unfold_locales
    (auto simp: refresh_admits_def token_expired_def is_ok_iff GetOAuthRefreshToken_def consumable_def not_le
      dest!: token_record_ok dest: refresh_rows_step)

end
