(* ===== verification/Rate_Limits.thy ===== *)
theory Rate_Limits
  imports Lockout
begin

text \<open>
  The limiters of the Hub server: failed logins by source (\<open>server/login_limiter.go\<close>) and OAuth client
  registrations by source (\<open>allow\<close> in \<open>server/oauth_registration_limiter.go\<close>). Both count in fixed
  windows, a counter and the start of its window per source, in a Go map of bounded size, here the association list of its
  entries. Each call is atomic, under the limiter's mutex. What a fixed window gives when the check and the count are one call, at most twice the
  limit in any stretch as long as the window, is proved in the interface \<open>fixed_window\<close>, whose instance is the guard of registrations. A login
  checks and counts in two calls; its attempts in flight are a state of their own, and the bound there counts them.
\<close>

section \<open>Fixed windows\<close>

text \<open>How many of a sequence of events have a property when they happen.\<close>

fun tally :: "('e \<Rightarrow> 'm \<Rightarrow> 'm) \<Rightarrow> ('e \<Rightarrow> 'm \<Rightarrow> bool) \<Rightarrow> 'm \<Rightarrow> 'e list \<Rightarrow> nat" where
  "tally step p m [] = 0"
| "tally step p m (e # es) = (if p e m then 1 else 0) + tally step p (step e m) es"

lemma tally_append: "tally step p m (es @ es') = tally step p m es + tally step p (exec_all step es m) es'"
  by (induction es arbitrary: m) simp_all

text \<open>
  The entry of a source is a count and the start of its window; an event that counts raises the count of a live entry below
  the limit or starts a window; any other event keeps a live entry. A lapse (an entry removed early, or not recorded)
  breaks the count.
\<close>

locale fixed_window =
  fixes inv :: "'m \<Rightarrow> bool"
    and step :: "'e \<Rightarrow> 'm \<Rightarrow> 'm"
    and entry :: "'m \<Rightarrow> 'k \<Rightarrow> (int \<times> int) option"
    and clock :: "'e \<Rightarrow> int"
    and counts :: "'k \<Rightarrow> 'e \<Rightarrow> 'm \<Rightarrow> bool"
    and lapses :: "'k \<Rightarrow> 'e \<Rightarrow> 'm \<Rightarrow> bool"
    and L :: nat and W :: int
  assumes limit_pos: "1 \<le> L"
    and inv_step: "inv m \<Longrightarrow> inv (step e m)"
    and counts_live: "inv m \<Longrightarrow> counts k e m \<Longrightarrow> \<not> lapses k e m \<Longrightarrow> entry m k = Some (n, s) \<Longrightarrow> clock e - s < W
      \<Longrightarrow> n < int L \<and> entry (step e m) k = Some (n + 1, s)"
    and counts_fresh: "inv m \<Longrightarrow> counts k e m \<Longrightarrow> \<not> lapses k e m \<Longrightarrow> (\<And>n s. entry m k = Some (n, s) \<Longrightarrow> W \<le> clock e - s)
      \<Longrightarrow> entry (step e m) k = Some (1, clock e)"
    and keeps: "inv m \<Longrightarrow> \<not> counts k e m \<Longrightarrow> \<not> lapses k e m \<Longrightarrow> entry m k = Some (n, s) \<Longrightarrow> clock e - s < W
      \<Longrightarrow> entry (step e m) k = Some (n, s)"
    and invents: "inv m \<Longrightarrow> \<not> counts k e m \<or> lapses k e m \<Longrightarrow> entry (step e m) k = Some x \<Longrightarrow> entry m k = Some x"
begin

lemma inv_steps: "inv m \<Longrightarrow> inv (exec_all step es m)"
  by (induction es arbitrary: m) (simp_all add: inv_step)

definition sound_entry :: "'m \<Rightarrow> 'k \<Rightarrow> bool" where
  "sound_entry m k = (\<forall>n s. entry m k = Some (n, s) \<longrightarrow> 1 \<le> n \<and> n \<le> int L)"

text \<open>An event that counts and does not lapse either goes on in a live window or starts one.\<close>

lemma counting_cases:
  assumes "inv m" "counts k e m" "\<not> lapses k e m"
  obtains n s where "entry m k = Some (n, s)" "clock e - s < W" "n < int L" "entry (step e m) k = Some (n + 1, s)"
    | "entry (step e m) k = Some (1, clock e)"
  using counts_live [OF assms] counts_fresh [OF assms] by (metis not_less)

lemma sound_entry_step: "inv m \<Longrightarrow> sound_entry m k \<Longrightarrow> sound_entry (step e m) k"
proof (cases "counts k e m \<and> \<not> lapses k e m")
  case True
  assume "inv m" "sound_entry m k"
  from \<open>inv m\<close> True show ?thesis
    by (elim conjE counting_cases) (use \<open>sound_entry m k\<close> limit_pos in \<open>auto simp: sound_entry_def\<close>)
next
  case False
  assume "inv m" "sound_entry m k"
  then show ?thesis using False invents [of m k e] by (auto simp: sound_entry_def)
qed

lemma sound_entry_steps: "inv m \<Longrightarrow> sound_entry m k \<Longrightarrow> sound_entry (exec_all step es m) k"
  by (induction es arbitrary: m) (simp_all add: sound_entry_step inv_step)

text \<open>What is left of one window.\<close>

lemma tally_window:
  assumes "inv m" "entry m k = Some (n, s)" "n \<le> int L" "\<forall>e \<in> set es. clock e - s < W" "tally step (lapses k) m es = 0"
  shows "int (tally step (counts k) m es) \<le> int L - n"
  using assms
proof (induction es arbitrary: m n)
  case (Cons e es)
  have nl: "\<not> lapses k e m" "tally step (lapses k) (step e m) es = 0" using Cons.prems(5) by (auto split: if_splits)
  have live: "clock e - s < W" "\<forall>e \<in> set es. clock e - s < W" using Cons.prems(4) by auto
  note inv = inv_step [OF Cons.prems(1), of e]
  show ?case
  proof (cases "counts k e m")
    case True
    with counts_live [OF Cons.prems(1) True nl(1) Cons.prems(2) live(1)] Cons.IH [of "step e m" "n + 1"] nl(2) live(2) inv
    show ?thesis by simp
  next
    case False
    with keeps [OF Cons.prems(1) False nl(1) Cons.prems(2) live(1)] Cons.IH [of "step e m" n] Cons.prems(3) nl(2) live(2) inv
    show ?thesis by simp
  qed
qed simp

definition left_over :: "'m \<Rightarrow> 'k \<Rightarrow> int" where
  "left_over m k = (case entry m k of Some (n, s) \<Rightarrow> int L - n | None \<Rightarrow> 0)"

lemma left_over_range: "sound_entry m k \<Longrightarrow> 0 \<le> left_over m k \<and> left_over m k < int L"
  using limit_pos by (auto simp: left_over_def sound_entry_def split: option.splits)

lemma tally_stretch:
  assumes "inv m" "sound_entry m k" "\<forall>e \<in> set es. t \<le> clock e \<and> clock e < t + W" "tally step (lapses k) m es = 0"
  shows "int (tally step (counts k) m es) \<le> left_over m k + int L"
  using assms
proof (induction es arbitrary: m)
  case Nil
  then show ?case using left_over_range [of m k] by simp
next
  case (Cons e es)
  have nl: "\<not> lapses k e m" "tally step (lapses k) (step e m) es = 0" using Cons.prems(4) by (auto split: if_splits)
  note inv = inv_step [OF Cons.prems(1), of e]
  have IH: "int (tally step (counts k) (step e m) es) \<le> left_over (step e m) k + int L"
    using Cons.IH [OF inv sound_entry_step [OF Cons.prems(1,2)]] Cons.prems(3) nl(2) by simp
  show ?case
  proof (cases "counts k e m")
    case False
    then have "left_over (step e m) k \<le> left_over m k"
      using invents [OF Cons.prems(1), of k e] left_over_range [OF Cons.prems(2)] by (auto simp: left_over_def split: option.splits)
    then show ?thesis using IH False by simp
  next
    case c: True
    from Cons.prems(1) c nl(1) show ?thesis
    proof (cases rule: counting_cases)
      case (1 n s)
      then show ?thesis using IH c by (simp add: left_over_def)
    next
      case 2
      moreover have "\<forall>e' \<in> set es. clock e' - clock e < W" using Cons.prems(3) by force
      ultimately have "int (tally step (counts k) (step e m) es) \<le> int L - 1"
        using limit_pos nl(2) inv by (intro tally_window) auto
      then show ?thesis using c left_over_range [OF Cons.prems(2)] by simp
    qed
  qed
qed

lemma at_most_twice:
  assumes "inv m" "entry m k = None" "\<forall>e \<in> set es. t \<le> clock e \<and> clock e < t + W"
    "tally step (lapses k) (exec_all step pre m) es = 0"
  shows "tally step (counts k) (exec_all step pre m) es \<le> 2 * L"
proof -
  have "sound_entry (exec_all step pre m) k" using assms(1,2) by (intro sound_entry_steps) (simp_all add: sound_entry_def)
  then show ?thesis using tally_stretch [OF inv_steps [OF assms(1)] _ assms(3,4)] left_over_range by fastforce
qed

end

text \<open>Maps with an entry set, an entry deleted or entries filtered.\<close>

lemma map_of_filter_key:
  "distinct (map fst l) \<Longrightarrow> map_of (filter P l) k = (case map_of l k of None \<Rightarrow> None | Some e \<Rightarrow> if P (k, e) then Some e else None)"
proof (induction l)
  case (Cons x l)
  then show ?case by (cases x) (auto simp: map_of_eq_None_iff [THEN iffD2] split: option.splits dest: map_of_SomeD intro: rev_image_eqI)
qed simp

lemma map_fst_filter: "distinct (map fst l) \<Longrightarrow> distinct (map fst (filter P l))"
  by (simp add: distinct_map_filter)

lemma int_length_filter: "int (length (filter P l)) \<le> int (length l)"
  by simp

lemma length_update: "length (AList.update k v l) = (if k \<in> fst ` set l then length l else Suc (length l))"
  by (induction l) auto

section \<open>Failed logins\<close>

record limiter_entry =
  le_count :: int
  le_windowStart :: instant

type_synonym limiter = "(string \<times> limiter_entry) list"

definition loginFailureWindow :: duration where "loginFailureWindow = 15 * minute"
definition loginFailureLimit :: int where "loginFailureLimit = 10"
definition loginFailureMaxEntries :: nat where "loginFailureMaxEntries = 4096"

definition source_key :: "string \<Rightarrow> string" where
  "source_key key = (if key = [] then ''unknown'' else key)"

definition pruneExpired :: "limiter \<Rightarrow> instant \<Rightarrow> limiter" where
  "pruneExpired l now = filter (\<lambda>(key, e). \<not> loginFailureWindow \<le> time_sub now (le_windowStart e)) l"

definition login_blocked :: "limiter \<Rightarrow> string \<Rightarrow> instant \<Rightarrow> bool \<times> limiter" where
  "login_blocked l key now =
     (let k = source_key key; l1 = pruneExpired l now
      in case map_of l1 k of
           None \<Rightarrow> (False, l1)
         | Some e \<Rightarrow>
             if loginFailureWindow \<le> time_sub now (le_windowStart e) then (False, AList.delete k l1)
             else (loginFailureLimit \<le> le_count e, l1))"

definition login_failure :: "limiter \<Rightarrow> string \<Rightarrow> instant \<Rightarrow> limiter" where
  "login_failure l key now =
     (let k = source_key key; l1 = pruneExpired l now
      in case map_of l1 k of
           None \<Rightarrow> if loginFailureMaxEntries \<le> length l1 then l1 else AList.update k \<lparr>le_count = 1, le_windowStart = now\<rparr> l1
         | Some e \<Rightarrow> AList.update k (e\<lparr>le_count := le_count e + 1\<rparr>) l1)"

definition login_success :: "limiter \<Rightarrow> string \<Rightarrow> limiter" where
  "login_success l key = AList.delete (source_key key) l"

datatype limiter_call = L_Blocked string instant | L_Failure string instant | L_Success string

fun limiter_step :: "limiter_call \<Rightarrow> limiter \<Rightarrow> limiter" where
  "limiter_step (L_Blocked key now) l = snd (login_blocked l key now)"
| "limiter_step (L_Failure key now) l = login_failure l key now"
| "limiter_step (L_Success key) l = login_success l key"

lemma login_window_less: "loginFailureWindow \<le> time_sub a b \<longleftrightarrow> loginFailureWindow \<le> a - b"
  by (auto simp: loginFailureWindow_def time_units time_sub_def)

lemma map_of_prune:
  "distinct (map fst l) \<Longrightarrow> map_of (pruneExpired l now) k =
     (case map_of l k of None \<Rightarrow> None | Some e \<Rightarrow> if now - le_windowStart e < loginFailureWindow then Some e else None)"
  by (simp add: pruneExpired_def map_of_filter_key login_window_less not_le cong: option.case_cong if_cong)

definition wf_limiter :: "limiter \<Rightarrow> bool" where
  "wf_limiter l = (distinct (map fst l) \<and> length l \<le> loginFailureMaxEntries)"

lemma wf_prune: "wf_limiter l \<Longrightarrow> wf_limiter (pruneExpired l now)"
  by (auto simp: wf_limiter_def pruneExpired_def map_fst_filter intro: order_trans [OF length_filter_le])

lemma wf_limiter_delete: "wf_limiter l \<Longrightarrow> wf_limiter (AList.delete k l)"
  by (auto simp: wf_limiter_def AList.delete_eq map_fst_filter intro: order_trans [OF length_filter_le])

lemma wf_update: "wf_limiter l \<Longrightarrow> k \<in> fst ` set l \<or> length l < loginFailureMaxEntries \<Longrightarrow> wf_limiter (AList.update k v l)"
  by (auto simp: wf_limiter_def AList.distinct_update length_update)

lemma wf_limiter_step:
  assumes "wf_limiter l" shows "wf_limiter (limiter_step c l)"
proof (cases c)
  case (L_Blocked key now)
  then show ?thesis using wf_prune [OF assms, of now]
    by (auto simp: login_blocked_def Let_def wf_limiter_delete split: option.splits)
next
  case (L_Failure key now)
  then show ?thesis using wf_prune [OF assms, of now]
    by (auto simp: login_failure_def Let_def wf_update map_of_eq_None_iff not_le dest: map_of_SomeD intro!: wf_update intro: rev_image_eqI
        split: option.splits)
next
  case (L_Success key)
  then show ?thesis using assms by (simp add: login_success_def wf_limiter_delete)
qed

lemma login_blocked_wf:
  assumes "wf_limiter l"
  shows "login_blocked l key now =
    (case map_of (pruneExpired l now) (source_key key) of None \<Rightarrow> False | Some e \<Rightarrow> loginFailureLimit \<le> le_count e, pruneExpired l now)"
  using assms by (auto simp: login_blocked_def Let_def map_of_prune wf_limiter_def login_window_less not_le split: option.splits if_splits)

section \<open>Logins in flight\<close>

text \<open>
  The handlers of a login (\<open>handleLogin\<close> in \<open>server/web.go\<close>, \<open>handleAdminLogin\<close> in \<open>server/admin.go\<close>) ask the limiter whether the source is
  blocked and take its mutex again only when the password has been looked at: other requests run in between. An attempt that was not blocked is
  pending, with the time it came at, until it is dropped (the form cannot be read) or its password turns out wrong or right; each event is what runs
  under the mutex.
\<close>

record login_gate =
  lg_limiter :: limiter
  lg_pending :: "(string \<times> instant) list"

datatype login_event = Login_arrives string instant | Login_dropped nat | Login_wrong nat | Login_right nat

definition without_nth :: "nat \<Rightarrow> 'a list \<Rightarrow> 'a list" where
  "without_nth i xs = take i xs @ drop (Suc i) xs"

definition settle_login :: "nat \<Rightarrow> (string \<Rightarrow> instant \<Rightarrow> limiter \<Rightarrow> limiter) \<Rightarrow> login_gate \<Rightarrow> login_gate" where
  "settle_login i f g =
     (if length (lg_pending g) \<le> i then g
      else case lg_pending g ! i of
        (key, now) \<Rightarrow> g\<lparr>lg_limiter := f key now (lg_limiter g), lg_pending := without_nth i (lg_pending g)\<rparr>)"

fun gate_step :: "login_event \<Rightarrow> login_gate \<Rightarrow> login_gate" where
  "gate_step (Login_arrives key now) g =
     (case login_blocked (lg_limiter g) key now of
        (True, l) \<Rightarrow> g\<lparr>lg_limiter := l\<rparr>
      | (False, l) \<Rightarrow> g\<lparr>lg_limiter := l, lg_pending := lg_pending g @ [(key, now)]\<rparr>)"
| "gate_step (Login_dropped i) g = settle_login i (\<lambda>key now l. l) g"
| "gate_step (Login_wrong i) g = settle_login i (\<lambda>key now l. login_failure l key now) g"
| "gate_step (Login_right i) g = settle_login i (\<lambda>key now l. login_success l key) g"

definition new_gate :: login_gate where
  "new_gate = \<lparr>lg_limiter = [], lg_pending = []\<rparr>"

text \<open>A wrong password of a source that is looked at; what spoils the count (a right one clears the source, a full table records no new one); how many
  attempts of the source are in flight, and the most there are along a run.\<close>

definition pending_from :: "string \<Rightarrow> nat \<Rightarrow> login_gate \<Rightarrow> bool" where
  "pending_from k i g = (i < length (lg_pending g) \<and> source_key (fst (lg_pending g ! i)) = k)"

fun wrong_guess :: "string \<Rightarrow> login_event \<Rightarrow> login_gate \<Rightarrow> bool" where
  "wrong_guess k (Login_wrong i) g = pending_from k i g"
| "wrong_guess k e g = False"

fun login_lapse :: "string \<Rightarrow> login_event \<Rightarrow> login_gate \<Rightarrow> bool" where
  "login_lapse k (Login_right i) g = pending_from k i g"
| "login_lapse k (Login_wrong i) g =
     (pending_from k i g \<and> (let l = pruneExpired (lg_limiter g) (snd (lg_pending g ! i)) in map_of l k = None \<and> loginFailureMaxEntries \<le> length l))"
| "login_lapse k e g = False"

definition in_flight_from :: "string \<Rightarrow> login_gate \<Rightarrow> nat" where
  "in_flight_from k g = length (filter (\<lambda>p. source_key (fst p) = k) (lg_pending g))"

fun peak :: "string \<Rightarrow> login_gate \<Rightarrow> login_event list \<Rightarrow> nat" where
  "peak k g [] = in_flight_from k g"
| "peak k g (e # es) = max (in_flight_from k g) (peak k (gate_step e g) es)"

fun arrives_within :: "instant \<Rightarrow> instant \<Rightarrow> login_event \<Rightarrow> bool" where
  "arrives_within t u (Login_arrives key now) = (t \<le> now \<and> now < u)"
| "arrives_within t u e = True"

fun arrives_before :: "instant \<Rightarrow> login_event \<Rightarrow> bool" where
  "arrives_before u (Login_arrives key now) = (now < u)"
| "arrives_before u e = True"

subsection \<open>Accounting for guesses\<close>

text \<open>\<open>guesses_left\<close> bounds the wrong passwords still to be looked at in the stretch from \<open>t\<close> on, with at most \<open>P\<close> attempts in flight: what the
  entry leaves, and another window when it started before the stretch.\<close>

definition guesses_left :: "string \<Rightarrow> instant \<Rightarrow> int \<Rightarrow> login_gate \<Rightarrow> int" where
  "guesses_left k t P g =
     (case map_of (lg_limiter g) k of
        None \<Rightarrow> 9 + P
      | Some e \<Rightarrow> (if le_count e \<le> 9 then 9 + P - le_count e else int (in_flight_from k g)) + (if le_windowStart e < t then 9 + P else 0))"

definition gate_ok :: "string \<Rightarrow> instant \<Rightarrow> login_gate \<Rightarrow> bool" where
  "gate_ok k t g =
     (wf_limiter (lg_limiter g) \<and> (\<forall>e. map_of (lg_limiter g) k = Some e \<longrightarrow> 0 \<le> le_count e)
      \<and> (\<forall>p \<in> set (lg_pending g). snd p < t + loginFailureWindow \<and> (source_key (fst p) = k \<longrightarrow> t \<le> snd p)))"

lemma set_without_nth: "set (without_nth i xs) \<subseteq> set xs"
  by (auto simp: without_nth_def dest: in_set_takeD in_set_dropD)

lemma in_flight_without:
  assumes "i < length (lg_pending g)"
  shows "length (filter (\<lambda>p. source_key (fst p) = k) (without_nth i (lg_pending g))) + (if pending_from k i g then 1 else 0) = in_flight_from k g"
proof -
  have "lg_pending g = take i (lg_pending g) @ lg_pending g ! i # drop (Suc i) (lg_pending g)" using id_take_nth_drop [OF assms] .
  then have "in_flight_from k g = length (filter (\<lambda>p. source_key (fst p) = k) (take i (lg_pending g) @ lg_pending g ! i # drop (Suc i) (lg_pending g)))"
    by (simp add: in_flight_from_def)
  then show ?thesis using assms by (simp add: without_nth_def pending_from_def)
qed

text \<open>An operation at a time before the end of the stretch keeps the entry of the source, or removes one from before the stretch.\<close>

lemma prune_entry:
  assumes "wf_limiter l" "now < t + loginFailureWindow"
  shows "map_of (pruneExpired l now) k = map_of l k \<or> map_of (pruneExpired l now) k = None \<and> (\<exists>e. map_of l k = Some e \<and> le_windowStart e < t)"
  using assms by (auto simp: map_of_prune wf_limiter_def split: option.split)

lemma prune_left:
  assumes ok: "gate_ok k t g" and P: "int (in_flight_from k g) \<le> P" and now: "now < t + loginFailureWindow"
    and same: "map_of l k = map_of (pruneExpired (lg_limiter g) now) k" and fewer: "in_flight_from k g' \<le> in_flight_from k g" and l: "lg_limiter g' = l"
  shows "guesses_left k t P g' \<le> guesses_left k t P g"
  using prune_entry [of "lg_limiter g" now t k] ok P now same fewer l
  by (auto simp: guesses_left_def gate_ok_def split: option.split)

lemma arrives_step:
  assumes ok: "gate_ok k t g" and P: "int (in_flight_from k g) \<le> P" and e: "t \<le> now" "now < t + loginFailureWindow"
  shows "gate_ok k t (gate_step (Login_arrives key now) g) \<and> guesses_left k t P (gate_step (Login_arrives key now) g) \<le> guesses_left k t P g"
proof -
  let ?l = "pruneExpired (lg_limiter g) now"
  have wf: "wf_limiter (lg_limiter g)" using ok by (simp add: gate_ok_def)
  define b where "b = (case map_of ?l (source_key key) of None \<Rightarrow> False | Some e \<Rightarrow> loginFailureLimit \<le> le_count e)"
  have step: "gate_step (Login_arrives key now) g = (if b then g\<lparr>lg_limiter := ?l\<rparr> else g\<lparr>lg_limiter := ?l, lg_pending := lg_pending g @ [(key, now)]\<rparr>)"
    by (simp add: login_blocked_wf [OF wf] b_def)
  have counts: "\<forall>e. map_of ?l k = Some e \<longrightarrow> 0 \<le> le_count e" using prune_entry [OF wf e(2), of k] ok by (auto simp: gate_ok_def)
  have ok': "gate_ok k t (gate_step (Login_arrives key now) g)"
    unfolding step using ok wf_prune [OF wf, of now] counts e by (auto simp: gate_ok_def)
  have less: "guesses_left k t P (g\<lparr>lg_limiter := ?l\<rparr>) \<le> guesses_left k t P g"
    by (rule prune_left [OF ok P e(2), of ?l]) (simp_all add: in_flight_from_def)
  show ?thesis
  proof (cases "b \<or> source_key key \<noteq> k")
    case True
    then have "guesses_left k t P (gate_step (Login_arrives key now) g) = guesses_left k t P (g\<lparr>lg_limiter := ?l\<rparr>)"
      unfolding step by (auto simp: guesses_left_def in_flight_from_def split: option.split)
    then show ?thesis using ok' less by simp
  next
    case False
    then have "\<forall>e. map_of ?l k = Some e \<longrightarrow> le_count e \<le> 9" by (auto simp: b_def loginFailureLimit_def)
    then have "guesses_left k t P (gate_step (Login_arrives key now) g) = guesses_left k t P (g\<lparr>lg_limiter := ?l\<rparr>)"
      unfolding step using False by (auto simp: guesses_left_def split: option.split)
    then show ?thesis using ok' less by simp
  qed
qed

lemma settle_step:
  assumes ok: "gate_ok k t g" and i: "i < length (lg_pending g)" and at: "lg_pending g ! i = (key, now)"
    and wf: "wf_limiter (f key now (lg_limiter g))" and count: "\<forall>e. map_of (f key now (lg_limiter g)) k = Some e \<longrightarrow> 0 \<le> le_count e"
  shows "gate_ok k t (settle_login i f g)"
  using assms set_without_nth [of i "lg_pending g"] by (auto simp: settle_login_def gate_ok_def)

lemma wrong_step:
  assumes ok: "gate_ok k t g" and P: "int (in_flight_from k g) \<le> P" and nl: "\<not> login_lapse k (Login_wrong i) g"
  shows "gate_ok k t (gate_step (Login_wrong i) g)
    \<and> (if wrong_guess k (Login_wrong i) g then 1 else 0) + guesses_left k t P (gate_step (Login_wrong i) g) \<le> guesses_left k t P g"
proof (cases "i < length (lg_pending g)")
  case False then show ?thesis using ok by (simp add: settle_login_def pending_from_def)
next
  case i: True
  obtain key now where at: "lg_pending g ! i = (key, now)" by fastforce
  let ?l = "pruneExpired (lg_limiter g) now" and ?f = "login_failure (lg_limiter g) key now"
  have wf: "wf_limiter (lg_limiter g)" using ok by (simp add: gate_ok_def)
  have now: "now < t + loginFailureWindow" "source_key key = k \<longrightarrow> t \<le> now" using ok nth_mem [OF i] at by (auto simp: gate_ok_def)
  have counts: "\<forall>e. map_of ?l k = Some e \<longrightarrow> 0 \<le> le_count e" using prune_entry [OF wf now(1), of k] ok by (auto simp: gate_ok_def)
  have f: "map_of ?f j = (if j \<noteq> source_key key then map_of ?l j
      else case map_of ?l j of
        None \<Rightarrow> if loginFailureMaxEntries \<le> length ?l then None else Some \<lparr>le_count = 1, le_windowStart = now\<rparr>
      | Some e \<Rightarrow> Some (e\<lparr>le_count := le_count e + 1\<rparr>))" for j
    by (auto simp: login_failure_def Let_def AList.update_conv' split: option.split)
  have step: "gate_step (Login_wrong i) g = g\<lparr>lg_limiter := ?f, lg_pending := without_nth i (lg_pending g)\<rparr>"
    using i at by (simp add: settle_login_def)
  have flight: "in_flight_from k (gate_step (Login_wrong i) g) + (if pending_from k i g then 1 else 0) = in_flight_from k g"
    using in_flight_without [OF i, of k] unfolding step by (simp add: in_flight_from_def)
  have ok': "gate_ok k t (gate_step (Login_wrong i) g)"
    unfolding gate_step.simps by (rule settle_step [OF ok i at])
      (use wf_limiter_step [OF wf, of "L_Failure key now"] counts in \<open>auto simp: f split: option.splits if_splits\<close>)
  show ?thesis
  proof (cases "source_key key = k")
    case False
    then have "\<not> pending_from k i g" using at by (simp add: pending_from_def)
    moreover have "guesses_left k t P (gate_step (Login_wrong i) g) \<le> guesses_left k t P g"
      by (rule prune_left [OF ok P now(1), of ?f]) (use False flight in \<open>simp_all add: f step del: gate_step.simps\<close>)
    ultimately show ?thesis using ok' by simp
  next
    case True
    then have mine: "pending_from k i g" using i at by (simp add: pending_from_def)
    then have room: "map_of ?l k = None \<longrightarrow> \<not> loginFailureMaxEntries \<le> length ?l" using nl at by (auto simp: Let_def)
    have lim: "lg_limiter (gate_step (Login_wrong i) g) = ?f" unfolding step by simp
    have "1 + guesses_left k t P (gate_step (Login_wrong i) g) \<le> guesses_left k t P g"
    proof (cases "map_of ?l k")
      case None
      then have new: "map_of ?f k = Some \<lparr>le_count = 1, le_windowStart = now\<rparr>" using room True by (simp add: f)
      have "map_of (lg_limiter g) k = None \<or> (\<exists>e. map_of (lg_limiter g) k = Some e \<and> le_windowStart e < t)"
        using prune_entry [OF wf now(1), of k] None by auto
      then have "9 + P \<le> guesses_left k t P g" using P by (auto simp: guesses_left_def)
      moreover have "guesses_left k t P (gate_step (Login_wrong i) g) = 8 + P" using new now(2) True by (simp add: guesses_left_def lim del: gate_step.simps)
      ultimately show ?thesis by simp
    next
      case (Some e)
      then have old: "map_of (lg_limiter g) k = Some e" using prune_entry [OF wf now(1), of k] by auto
      have new: "map_of ?f k = Some (e\<lparr>le_count := le_count e + 1\<rparr>)" using Some True by (simp add: f)
      have fl: "int (in_flight_from k (gate_step (Login_wrong i) g)) + 1 = int (in_flight_from k g)" using flight mine by simp
      show ?thesis using fl P by (auto simp: guesses_left_def lim new old simp del: gate_step.simps)
    qed
    then show ?thesis using ok' mine by simp
  qed
qed

lemma dropped_step:
  assumes ok: "gate_ok k t g" and P: "int (in_flight_from k g) \<le> P"
  shows "gate_ok k t (gate_step (Login_dropped i) g) \<and> guesses_left k t P (gate_step (Login_dropped i) g) \<le> guesses_left k t P g"
proof (cases "i < length (lg_pending g)")
  case False then show ?thesis using ok by (simp add: settle_login_def)
next
  case i: True
  obtain key now where at: "lg_pending g ! i = (key, now)" by fastforce
  have step: "gate_step (Login_dropped i) g = g\<lparr>lg_pending := without_nth i (lg_pending g)\<rparr>" using i at by (simp add: settle_login_def)
  have "gate_ok k t (gate_step (Login_dropped i) g)"
    unfolding gate_step.simps by (rule settle_step [OF ok i at]) (use ok in \<open>simp_all add: gate_ok_def\<close>)
  moreover have "in_flight_from k (gate_step (Login_dropped i) g) \<le> in_flight_from k g"
    using in_flight_without [OF i, of k] unfolding step by (simp add: in_flight_from_def split: if_splits)
  ultimately show ?thesis unfolding step by (auto simp: guesses_left_def split: option.split)
qed

lemma right_step:
  assumes ok: "gate_ok k t g" and P: "int (in_flight_from k g) \<le> P" and nl: "\<not> login_lapse k (Login_right i) g"
  shows "gate_ok k t (gate_step (Login_right i) g) \<and> guesses_left k t P (gate_step (Login_right i) g) \<le> guesses_left k t P g"
proof (cases "i < length (lg_pending g)")
  case False then show ?thesis using ok by (simp add: settle_login_def)
next
  case i: True
  obtain key now where at: "lg_pending g ! i = (key, now)" by fastforce
  have other: "source_key key \<noteq> k" using nl i at by (simp add: pending_from_def)
  have step: "gate_step (Login_right i) g = g\<lparr>lg_limiter := login_success (lg_limiter g) key, lg_pending := without_nth i (lg_pending g)\<rparr>"
    using i at by (simp add: settle_login_def)
  have same: "map_of (login_success (lg_limiter g) key) k = map_of (lg_limiter g) k"
    using other by (simp add: login_success_def AList.delete_conv')
  have "gate_ok k t (gate_step (Login_right i) g)"
    unfolding gate_step.simps by (rule settle_step [OF ok i at])
      (use ok same wf_limiter_step [of "lg_limiter g" "L_Success key"] in \<open>simp_all add: gate_ok_def\<close>)
  moreover have "in_flight_from k (gate_step (Login_right i) g) \<le> in_flight_from k g"
    using in_flight_without [OF i, of k] unfolding step by (simp add: in_flight_from_def split: if_splits)
  ultimately show ?thesis unfolding step by (auto simp: guesses_left_def same split: option.split)
qed

lemma tally_guesses:
  assumes "gate_ok k t g" "int (peak k g es) \<le> P" "\<forall>e \<in> set es. arrives_within t (t + loginFailureWindow) e" "tally gate_step (login_lapse k) g es = 0"
  shows "int (tally gate_step (wrong_guess k) g es) \<le> guesses_left k t P g"
  using assms
proof (induction es arbitrary: g)
  case Nil
  then show ?case by (auto simp: guesses_left_def gate_ok_def split: option.split)
next
  case (Cons e es)
  have P: "int (in_flight_from k g) \<le> P" "int (peak k (gate_step e g) es) \<le> P" using Cons.prems(2) by simp_all
  have nl: "\<not> login_lapse k e g" "tally gate_step (login_lapse k) (gate_step e g) es = 0" using Cons.prems(4) by (auto split: if_splits)
  have "gate_ok k t (gate_step e g) \<and> (if wrong_guess k e g then 1 else 0) + guesses_left k t P (gate_step e g) \<le> guesses_left k t P g"
  proof (cases e)
    case (Login_arrives key now) then show ?thesis using arrives_step [OF Cons.prems(1) P(1), of now key] Cons.prems(3) by simp
  next
    case (Login_dropped i) then show ?thesis using dropped_step [OF Cons.prems(1) P(1), of i] by simp
  next
    case (Login_wrong i) then show ?thesis using wrong_step [OF Cons.prems(1) P(1), of i] nl(1) by simp
  next
    case (Login_right i) then show ?thesis using right_step [OF Cons.prems(1) P(1), of i] nl(1) by simp
  qed
  then have step: "gate_ok k t (gate_step e g)" "(if wrong_guess k e g then 1 else 0) + guesses_left k t P (gate_step e g) \<le> guesses_left k t P g"
    by simp_all
  have "int (tally gate_step (wrong_guess k) (gate_step e g) es) \<le> guesses_left k t P (gate_step e g)"
    using Cons.IH [OF step(1) P(2) _ nl(2)] Cons.prems(3) by simp
  then show ?case using step(2) by (simp split: if_splits)
qed

text \<open>What holds of the pending attempts before a stretch.\<close>

definition gate_before :: "instant \<Rightarrow> login_gate \<Rightarrow> bool" where
  "gate_before u g = (wf_limiter (lg_limiter g) \<and> (\<forall>e \<in> snd ` set (lg_limiter g). 0 \<le> le_count e) \<and> (\<forall>p \<in> set (lg_pending g). snd p < u))"

lemma snd_update: "snd ` set (AList.update k v l) \<subseteq> insert v (snd ` set l)"
  by (induction l) auto

lemma gate_before_step:
  assumes g: "gate_before u g" and e: "arrives_before u e" shows "gate_before u (gate_step e g)"
proof -
  have wf: "wf_limiter (lg_limiter g)" and le: "\<forall>e \<in> snd ` set (lg_limiter g). 0 \<le> le_count e" and pd: "\<forall>p \<in> set (lg_pending g). snd p < u"
    using g by (simp_all add: gate_before_def)
  have pr: "\<forall>e \<in> snd ` set (pruneExpired (lg_limiter g) now). 0 \<le> le_count e" for now using le by (auto simp: pruneExpired_def)
  have settle: "gate_before u (settle_login i f g)"
    if "\<And>key now. wf_limiter (f key now (lg_limiter g)) \<and> (\<forall>e \<in> snd ` set (f key now (lg_limiter g)). 0 \<le> le_count e)" for i f
    using that g set_without_nth [of i "lg_pending g"] by (auto simp: settle_login_def gate_before_def split: prod.split)
  have fail: "\<forall>e \<in> snd ` set (login_failure (lg_limiter g) key now). 0 \<le> le_count e" for key now
  proof -
    let ?l = "pruneExpired (lg_limiter g) now"
    have upd: "\<forall>e \<in> snd ` set (AList.update (source_key key) v ?l). 0 \<le> le_count e" if "0 \<le> le_count v" for v :: limiter_entry
      using that pr [of now] snd_update [of "source_key key" v ?l] by blast
    show ?thesis
    proof (cases "map_of ?l (source_key key)")
      case None then show ?thesis using upd [of "\<lparr>le_count = 1, le_windowStart = now\<rparr>"] pr [of now] by (simp add: login_failure_def Let_def)
    next
      case (Some e)
      have "0 \<le> le_count e" using map_of_SomeD [OF Some] pr [of now] by force
      then show ?thesis using upd [of "e\<lparr>le_count := le_count e + 1\<rparr>"] Some by (simp add: login_failure_def Let_def)
    qed
  qed
  show ?thesis
  proof (cases e)
    case (Login_arrives key now)
    then show ?thesis using e g wf_prune [OF wf, of now] pr by (auto simp: login_blocked_wf [OF wf] gate_before_def split: bool.split)
  next
    case (Login_dropped i) then show ?thesis using settle [of "\<lambda>key now l. l"] wf le by simp
  next
    case (Login_wrong i)
    then show ?thesis using settle [of "\<lambda>key now l. login_failure l key now"] wf_limiter_step [OF wf, of "L_Failure key now" for key now] fail by simp
  next
    case (Login_right i)
    have "snd ` set (AList.delete k (lg_limiter g)) \<subseteq> snd ` set (lg_limiter g)" for k by (auto simp: AList.delete_eq)
    then show ?thesis using Login_right settle [of "\<lambda>key now l. login_success l key"] wf_limiter_step [OF wf, of "L_Success key" for key] le
      by (fastforce simp: login_success_def)
  qed
qed

lemma gate_before_run: "\<forall>e \<in> set es. arrives_before u e \<Longrightarrow> gate_before u g \<Longrightarrow> gate_before u (exec_all gate_step es g)"
  by (induction es arbitrary: g) (simp_all add: gate_before_step)

lemma gate_start:
  assumes "gate_before (t + loginFailureWindow) g" "in_flight_from k g = 0"
  shows "gate_ok k t g"
proof -
  have "source_key (fst p) \<noteq> k" if "p \<in> set (lg_pending g)" for p using assms(2) that by (auto simp: in_flight_from_def filter_empty_conv)
  then show ?thesis using assms(1) by (fastforce simp: gate_before_def gate_ok_def dest: map_of_SomeD)
qed

text \<open>A source that has reached the limit stays blocked until its window ends, whatever other sources do.\<close>

definition blocked_since :: "limiter \<Rightarrow> string \<Rightarrow> instant \<Rightarrow> bool" where
  "blocked_since l k s = (wf_limiter l \<and> (\<exists>e. map_of l k = Some e \<and> loginFailureLimit \<le> le_count e \<and> le_windowStart e = s))"

fun call_within :: "instant \<Rightarrow> limiter_call \<Rightarrow> bool" where
  "call_within u (L_Blocked key now) = (now < u)"
| "call_within u (L_Failure key now) = (now < u)"
| "call_within u (L_Success key) = True"

lemma blocked_since_step:
  assumes b: "blocked_since l k s" and c: "call_within (s + loginFailureWindow) c" "\<forall>key. c = L_Success key \<longrightarrow> source_key key \<noteq> k"
  shows "blocked_since (limiter_step c l) k s"
proof -
  have d: "distinct (map fst l)" and wf: "wf_limiter l" using b by (simp_all add: blocked_since_def wf_limiter_def)
  have "wf_limiter (limiter_step c l)" by (rule wf_limiter_step) (rule wf)
  moreover have "\<exists>e. map_of (limiter_step c l) k = Some e \<and> loginFailureLimit \<le> le_count e \<and> le_windowStart e = s"
    using b c by (cases c) (auto simp: blocked_since_def login_blocked_wf [OF wf] login_failure_def login_success_def Let_def
        map_of_prune [OF d] AList.update_conv' AList.delete_conv' split: option.splits)
  ultimately show ?thesis by (simp add: blocked_since_def)
qed

lemma blocked_since_run:
  assumes "blocked_since l k s" "\<forall>c \<in> set cs. call_within (s + loginFailureWindow) c"
    "\<forall>key. L_Success key \<in> set cs \<longrightarrow> source_key key \<noteq> k"
  shows "blocked_since (exec_all limiter_step cs l) k s"
  using assms by (induction cs arbitrary: l) (simp_all add: blocked_since_step)

lemma blocked_since_blocks:
  assumes "blocked_since l (source_key key) s" "now < s + loginFailureWindow"
  shows "fst (login_blocked l key now)"
  using assms by (auto simp: blocked_since_def login_blocked_wf map_of_prune wf_limiter_def)

section \<open>Registrations of OAuth clients\<close>

record window_entry =
  we_count :: int
  we_windowStart :: instant

record registration_guard =
  rg_entries :: "(string \<times> window_entry) list"
  rg_window :: duration
  rg_perWindow :: int
  rg_maxSources :: int
  rg_maxClients :: int
  rg_maxOrphans :: int
  rg_maxSourceOrphans :: int
  rg_orphanRetention :: duration
  rg_nextSweep :: instant

definition oauthRegistrationWindow :: duration where "oauthRegistrationWindow = minute"
definition oauthRegistrationsPerWindow :: nat where "oauthRegistrationsPerWindow = 30"
definition oauthRegistrationMaxSources :: int where "oauthRegistrationMaxSources = 4096"
definition oauthMaxRegisteredClients :: int where "oauthMaxRegisteredClients = 4096"
definition oauthMaxOrphanClients :: int where "oauthMaxOrphanClients = 1024"
definition oauthMaxSourceOrphanClients :: int where "oauthMaxSourceOrphanClients = 32"
definition oauthOrphanClientRetention :: duration where "oauthOrphanClientRetention = 30 * minute"

definition newOAuthRegistrationGuard :: registration_guard where
  "newOAuthRegistrationGuard = \<lparr>rg_entries = [], rg_window = oauthRegistrationWindow, rg_perWindow = int oauthRegistrationsPerWindow,
     rg_maxSources = oauthRegistrationMaxSources, rg_maxClients = oauthMaxRegisteredClients, rg_maxOrphans = oauthMaxOrphanClients,
     rg_maxSourceOrphans = oauthMaxSourceOrphanClients, rg_orphanRetention = oauthOrphanClientRetention, rg_nextSweep = zero_time\<rparr>"

definition allow_registration :: "registration_guard \<Rightarrow> string \<Rightarrow> instant \<Rightarrow> bool \<times> registration_guard" where
  "allow_registration g source now =
     (let src = source_key source;
          g1 = (if is_zero (rg_nextSweep g) \<or> \<not> now < rg_nextSweep g
                then g\<lparr>rg_entries := filter (\<lambda>(key, e). \<not> rg_window g \<le> time_sub now (we_windowStart e)) (rg_entries g),
                       rg_nextSweep := now + rg_window g\<rparr> else g);
          fresh = (if rg_maxSources g1 \<le> int (length (rg_entries g1)) then (False, g1)
                   else (True, g1\<lparr>rg_entries := AList.update src \<lparr>we_count = 1, we_windowStart = now\<rparr> (rg_entries g1)\<rparr>))
      in case map_of (rg_entries g1) src of
           None \<Rightarrow> fresh
         | Some e \<Rightarrow>
             if time_sub now (we_windowStart e) < rg_window g1 then
               if rg_perWindow g1 \<le> we_count e then (False, g1)
               else (True, g1\<lparr>rg_entries := AList.update src (e\<lparr>we_count := we_count e + 1\<rparr>) (rg_entries g1)\<rparr>)
             else fresh)"

type_synonym registration_call = "string \<times> instant"

fun guard_step :: "registration_call \<Rightarrow> registration_guard \<Rightarrow> registration_guard" where
  "guard_step (source, now) g = snd (allow_registration g source now)"

fun registration_allowed :: "string \<Rightarrow> registration_call \<Rightarrow> registration_guard \<Rightarrow> bool" where
  "registration_allowed k (source, now) g = (source_key source = k \<and> fst (allow_registration g source now))"

definition wf_guard :: "registration_guard \<Rightarrow> bool" where
  "wf_guard g = (distinct (map fst (rg_entries g)) \<and> rg_window g = oauthRegistrationWindow
     \<and> rg_perWindow g = int oauthRegistrationsPerWindow \<and> rg_maxSources g = oauthRegistrationMaxSources
     \<and> int (length (rg_entries g)) \<le> rg_maxSources g)"

definition guard_entry :: "registration_guard \<Rightarrow> string \<Rightarrow> (int \<times> int) option" where
  "guard_entry g k = map_option (\<lambda>e. (we_count e, we_windowStart e)) (map_of (rg_entries g) k)"

definition swept :: "registration_guard \<Rightarrow> instant \<Rightarrow> registration_guard" where
  "swept g now = (if is_zero (rg_nextSweep g) \<or> \<not> now < rg_nextSweep g
     then g\<lparr>rg_entries := filter (\<lambda>(key, e). \<not> rg_window g \<le> time_sub now (we_windowStart e)) (rg_entries g),
            rg_nextSweep := now + rg_window g\<rparr> else g)"

lemma registration_window_le: "oauthRegistrationWindow \<le> time_sub a b \<longleftrightarrow> oauthRegistrationWindow \<le> a - b"
  by (auto simp: oauthRegistrationWindow_def time_units time_sub_def)

lemma wf_swept: "wf_guard g \<Longrightarrow> wf_guard (swept g now)"
  by (auto simp: wf_guard_def swept_def map_fst_filter intro: order_trans [OF int_length_filter])

lemma swept_entry:
  assumes "wf_guard g"
  shows "map_of (rg_entries (swept g now)) k = map_of (rg_entries g) k
    \<or> map_of (rg_entries (swept g now)) k = None \<and> (\<exists>e. map_of (rg_entries g) k = Some e \<and> oauthRegistrationWindow \<le> now - we_windowStart e)"
  using assms by (auto simp: wf_guard_def swept_def map_of_filter_key registration_window_le split: option.splits)

lemma allow_swept: "allow_registration g source now =
   (let g1 = swept g now; src = source_key source;
        fresh = (if rg_maxSources g1 \<le> int (length (rg_entries g1)) then (False, g1)
                 else (True, g1\<lparr>rg_entries := AList.update src \<lparr>we_count = 1, we_windowStart = now\<rparr> (rg_entries g1)\<rparr>))
    in case map_of (rg_entries g1) src of
         None \<Rightarrow> fresh
       | Some e \<Rightarrow>
           if time_sub now (we_windowStart e) < rg_window g1 then
             if rg_perWindow g1 \<le> we_count e then (False, g1)
             else (True, g1\<lparr>rg_entries := AList.update src (e\<lparr>we_count := we_count e + 1\<rparr>) (rg_entries g1)\<rparr>)
           else fresh)"
  by (simp add: allow_registration_def swept_def Let_def)

lemma wf_guard_step:
  assumes "wf_guard g" shows "wf_guard (guard_step c g)"
proof -
  obtain source now where c: "c = (source, now)" by (cases c)
  show ?thesis using wf_swept [OF assms, of now]
    by (auto simp: c allow_swept Let_def wf_guard_def AList.distinct_update length_update dest: map_of_SomeD intro: rev_image_eqI
        split: option.splits)
qed

interpretation registration_window: fixed_window wf_guard guard_step guard_entry snd registration_allowed "\<lambda>k c g. False"
  oauthRegistrationsPerWindow oauthRegistrationWindow
proof
  fix g :: registration_guard and k and c :: registration_call and n s x
  obtain source now where c: "c = (source, now)" by (cases c)
  assume wf: "wf_guard g"
  note sw = wf_swept [OF wf, of now] and se = swept_entry [OF wf, of now k]
  have W: "rg_window (swept g now) = oauthRegistrationWindow" "rg_perWindow (swept g now) = int oauthRegistrationsPerWindow"
    using sw by (simp_all add: wf_guard_def)
  have lt: "time_sub a b < oauthRegistrationWindow \<longleftrightarrow> a - b < oauthRegistrationWindow" for a b
    using registration_window_le [of a b] by linarith
  note defs = guard_entry_def allow_swept Let_def AList.update_conv' W lt c
  show "wf_guard (guard_step c g)" by (rule wf_guard_step) (rule wf)
  show "n < int oauthRegistrationsPerWindow \<and> guard_entry (guard_step c g) k = Some (n + 1, s)"
    if "registration_allowed k c g" "guard_entry g k = Some (n, s)" "snd c - s < oauthRegistrationWindow"
    using that se by (auto simp: defs split: if_splits option.splits)
  show "guard_entry (guard_step c g) k = Some (1, snd c)"
    if "registration_allowed k c g" and old: "\<And>n s. guard_entry g k = Some (n, s) \<Longrightarrow> oauthRegistrationWindow \<le> snd c - s"
  proof -
    have "oauthRegistrationWindow \<le> now - we_windowStart e" if "map_of (rg_entries (swept g now)) k = Some e" for e
    proof -
      have "map_of (rg_entries g) k = Some e" using se that by (elim disjE) simp_all
      then have "guard_entry g k = Some (we_count e, we_windowStart e)" by (simp add: guard_entry_def)
      then show ?thesis using old by (fastforce simp: c)
    qed
    then show ?thesis using that(1) by (fastforce simp: defs split: if_splits option.splits)
  qed
  show "guard_entry (guard_step c g) k = Some (n, s)"
    if "\<not> registration_allowed k c g" "guard_entry g k = Some (n, s)" "snd c - s < oauthRegistrationWindow"
    using that se by (auto simp: defs split: if_splits option.splits)
  show "guard_entry g k = Some x"
    if "\<not> registration_allowed k c g \<or> False" "guard_entry (guard_step c g) k = Some x"
  proof -
    have "guard_entry (swept g now) k = Some x"
      using that by (auto simp: defs split: if_splits option.splits)
    then show ?thesis using se by (elim disjE) (simp_all add: guard_entry_def)
  qed
qed (simp_all add: oauthRegistrationsPerWindow_def)

section \<open>Properties\<close>

lemma tally_False [simp]: "tally step (\<lambda>e m. False) m es = 0"
  by (induction es arbitrary: m) simp_all

text \<open>Whatever requests came before, from this source or from others, in any stretch of requests that spans less than the
  registration window of one minute the guard admits at most twice the limit of thirty registrations from one source:
  a sweep or an entry that starts anew in between never lets a source exceed that.
\<close>

theorem registration_rate:
  assumes "\<forall>c \<in> set cs. t \<le> snd c \<and> snd c < t + oauthRegistrationWindow"
  shows "tally guard_step (registration_allowed k) (exec_all guard_step pre newOAuthRegistrationGuard) cs
    \<le> 2 * oauthRegistrationsPerWindow"
  by (rule registration_window.at_most_twice [OF _ _ assms])
    (simp_all add: wf_guard_def guard_entry_def newOAuthRegistrationGuard_def oauthRegistrationMaxSources_def)

definition registration_demo :: "registration_call list" where
  "registration_demo = [(''a'', 0), (''b'', 1), (''a'', 2), ([], 3)]"

lemma registration_demo_tally:
  "tally guard_step (registration_allowed ''a'') (exec_all guard_step [(''a'', - 1)] newOAuthRegistrationGuard) registration_demo = 2"
  unfolding exec_all_def by code_simp

lemma registration_rate_witness:
  "let n = tally guard_step (registration_allowed ''a'') (exec_all guard_step [(''a'', - 1)] newOAuthRegistrationGuard) registration_demo
   in n = 2 \<and> n \<le> 2 * oauthRegistrationsPerWindow"
  using registration_rate [of registration_demo 0 "''a''" "[(''a'', - 1)]"]
  unfolding registration_demo_tally Let_def by (simp add: registration_demo_def oauthRegistrationWindow_def time_units)

text \<open>Property C24: Whatever requests run between the check and the record of an attempt, the wrong passwords of one source that are looked at in a
  stretch of requests that come within less than fifteen minutes are at most twice nine plus twice the most attempts of that source in flight at once
  (with one at a time, twenty), whatever happened before and whatever other sources do; provided none was in flight when the stretch began, none of the
  source is right in it, and the table has room for the source when it first fails.
\<close>

theorem login_guesses:
  assumes "\<forall>e \<in> set pre. arrives_before (t + loginFailureWindow) e" "in_flight_from k (exec_all gate_step pre new_gate) = 0"
    and "\<forall>e \<in> set es. arrives_within t (t + loginFailureWindow) e"
    and "tally gate_step (login_lapse k) (exec_all gate_step pre new_gate) es = 0"
  shows "int (tally gate_step (wrong_guess k) (exec_all gate_step pre new_gate) es)
    \<le> 2 * (loginFailureLimit - 1 + int (peak k (exec_all gate_step pre new_gate) es))"
proof -
  let ?g = "exec_all gate_step pre new_gate"
  have "gate_before (t + loginFailureWindow) new_gate" by (simp add: gate_before_def new_gate_def wf_limiter_def)
  then have ok: "gate_ok k t ?g" by (intro gate_start gate_before_run assms(1,2))
  then have "int (tally gate_step (wrong_guess k) ?g es) \<le> guesses_left k t (int (peak k ?g es)) ?g"
    by (rule tally_guesses [OF _ order_refl assms(3,4)])
  also have "\<dots> \<le> 2 * (9 + int (peak k ?g es))" using ok assms(2) by (auto simp: guesses_left_def gate_ok_def split: option.split)
  finally show ?thesis by (simp add: loginFailureLimit_def)
qed

definition guessing_demo :: "login_event list" where
  "guessing_demo = concat (replicate 12 [Login_arrives ''a'' 5, Login_wrong 0])"

definition guessing_before :: "login_event list" where
  "guessing_before = [Login_arrives ''b'' 0, Login_wrong 0, Login_arrives ''a'' 0, Login_right 0]"

lemma guessing_demo_tally:
  "tally gate_step (wrong_guess ''a'') (exec_all gate_step guessing_before new_gate) guessing_demo = 10"
  "tally gate_step (login_lapse ''a'') (exec_all gate_step guessing_before new_gate) guessing_demo = 0"
  "in_flight_from ''a'' (exec_all gate_step guessing_before new_gate) = 0"
  "peak ''a'' (exec_all gate_step guessing_before new_gate) guessing_demo = 1"
  unfolding exec_all_def by code_simp+

lemma login_guesses_witness:
  "let n = tally gate_step (wrong_guess ''a'') (exec_all gate_step guessing_before new_gate) guessing_demo in n = 10 \<and> int n \<le> 20"
proof -
  have before: "\<forall>e \<in> set guessing_before. arrives_before (0 + loginFailureWindow) e"
    by (simp add: guessing_before_def loginFailureWindow_def time_units)
  have within: "\<forall>e \<in> set guessing_demo. arrives_within 0 (0 + loginFailureWindow) e"
    by (auto simp: guessing_demo_def loginFailureWindow_def time_units)
  note bound = login_guesses [OF before guessing_demo_tally(3) within guessing_demo_tally(2)]
  show ?thesis using bound unfolding guessing_demo_tally(1,4) Let_def by (simp add: loginFailureLimit_def)
qed

text \<open>
  Observations. The check and the record of an attempt are not one step: thirty attempts that come at once all have their passwords looked at, though ten
  failures block the source. And one successful login from a source clears the failures of every account tried from it: with a success after
  every nine failures nobody is ever blocked.
\<close>

lemma concurrent_guesses:
  "let es = replicate 30 (Login_arrives ''a'' 5) @ replicate 30 (Login_wrong 0)
   in tally gate_step (wrong_guess ''a'') new_gate es = 30 \<and> fst (login_blocked (lg_limiter (exec_all gate_step es new_gate)) ''a'' 5)"
  unfolding exec_all_def by code_simp

lemma success_resets_guessing:
  "tally gate_step (wrong_guess ''a'') new_gate
     (concat (replicate 3 (concat (replicate 9 [Login_arrives ''a'' 5, Login_wrong 0]) @ [Login_arrives ''a'' 5, Login_right 0]))) = 27"
  by code_simp

end
