(* ===== verification/Go_Text.thy ===== *)
theory Go_Text
  imports Collab_Ops
begin

text \<open>\<open>strings.Split\<close> at one byte, and hexadecimal text: what \<open>hex.EncodeToString\<close> writes, with its length and characters.\<close>

section \<open>Splitting\<close>

fun split_on :: "char \<Rightarrow> string \<Rightarrow> string list" where
  "split_on d [] = [[]]"
| "split_on d (c # s) = (if c = d then [] # split_on d s else (case split_on d s of w # ws \<Rightarrow> (c # w) # ws | [] \<Rightarrow> [[c]]))"

lemma split_on_ne [simp]: "split_on d s \<noteq> []"
  by (induction s) (auto split: list.splits)

lemma split_on_part: "d \<notin> set a \<Longrightarrow> split_on d (a @ d # b) = a # split_on d b"
  by (induction a) (auto split: list.splits)

lemma split_on_last: "d \<notin> set a \<Longrightarrow> split_on d a = [a]"
  by (induction a) auto

section \<open>Hexadecimal\<close>

definition hash_digit :: "nat \<Rightarrow> char" where
  "hash_digit n = ''0123456789abcdef'' ! n"

definition hex_text :: "string \<Rightarrow> string" where
  "hex_text bs = concat (map (\<lambda>c. let n = of_char c :: nat in [hash_digit (n div 16), hash_digit (n mod 16)]) bs)"

lemma length_hex_text [simp]: "length (hex_text bs) = 2 * length bs"
  by (induction bs) (simp_all add: hex_text_def Let_def)

text \<open>The digits are lower case.\<close>

definition plain_digit :: "char \<Rightarrow> bool" where
  "plain_digit c = (c \<in> set ''0123456789abcdef'')"

lemma plain_digit_hex: "plain_digit c \<Longrightarrow> hex_digit c \<and> lower_byte c = c \<and> (of_char c :: nat) < 128 \<and> c \<noteq> CHR ''/''"
  unfolding plain_digit_def by (auto simp: hex_digit_def in_range_def lower_byte_def)

lemma hash_digit_plain: "n < 16 \<Longrightarrow> plain_digit (hash_digit n)"
proof -
  have "list_all (\<lambda>n. plain_digit (hash_digit n)) [0..<16]" by code_simp
  then show "n < 16 \<Longrightarrow> plain_digit (hash_digit n)" by (simp add: list_all_iff)
qed

lemma hex_text_plain: "list_all plain_digit (hex_text bs)"
proof (induction bs)
  case (Cons c bs)
  have "(of_char c :: nat) div 16 < 16"
    using nat_of_char_less_256 [of c] by (simp add: less_mult_imp_div_less)
  with Cons show ?case by (simp add: hex_text_def Let_def hash_digit_plain)
qed (simp add: hex_text_def)

lemma plain_lower: "list_all plain_digit s \<Longrightarrow> to_lower uni s = s"
  by (simp add: to_lower_def is_ascii_def list_all_iff plain_digit_hex map_idI)

lemma plain_hex: "list_all plain_digit s \<Longrightarrow> list_all hex_digit s"
  by (auto simp: list_all_iff plain_digit_hex)

end
