(* ===== verification/OAuth_Server.thy ===== *)
theory OAuth_Server
  imports OAuth_Steps Rate_Limits Go_Base64 Go_Text
begin

text \<open>
  The OAuth endpoints of the Hub (\<open>server/oauth.go\<close>, \<open>register\<close> in \<open>server/oauth_registration_limiter.go\<close>):
  dynamic client registration, authorization codes with PKCE, the token endpoint with its two grants, revocation, and the check
  of a bearer token on \<open>/mcp\<close>. A handler is a function of what the request carries (the values \<open>url.Values.Get\<close>
  returns), the tables and the pending codes. Between two calls of the store other requests may change the tables: that is
  the parameter \<open>ov_others\<close>. SHA-256, the random source, the clock, \<open>url.Parse\<close> and the comparison of
  \<open>strings.EqualFold\<close> are parameters; so is the resource URL, which the server computes from its configuration
  and the request.
\<close>

section \<open>Helpers\<close>

text \<open>\<open>strings.Fields\<close>: the words between runs of white space; \<open>acc\<close> is the word being read.\<close>

function string_fields_from :: "string \<Rightarrow> string \<Rightarrow> string list" where
  "string_fields_from acc [] = (if acc = [] then [] else [acc])"
| "string_fields_from acc (c # s) =
     (case leading space_runes (c # s) of
        Some p \<Rightarrow> (if acc = [] then [] else [acc]) @ string_fields_from [] (drop (length p) (c # s))
      | None \<Rightarrow> string_fields_from (acc @ [c]) s)"
  by pat_completeness auto
termination
  by (relation "measure (\<lambda>(acc, s). length s)") (auto dest!: leading_Some simp: has_prefix_iff)

definition string_fields :: "string \<Rightarrow> string list" where
  "string_fields s = string_fields_from [] s"

fun join_spaces :: "string list \<Rightarrow> string" where
  "join_spaces [] = []"
| "join_spaces [s] = s"
| "join_spaces (s # t # ss) = s @ '' '' @ join_spaces (t # ss)"

record parsed_url =
  pu_Scheme :: string
  pu_Hostname :: string
  pu_Fragment :: string
  pu_HasUser :: bool
  pu_Opaque :: string

record oauth_env =
  ov_sha256 :: "string \<Rightarrow> string"
  ov_random :: "string \<Rightarrow> string option"
  ov_clock :: "nat \<Rightarrow> instant"
  ov_others :: "nat \<Rightarrow> oauth_db \<Rightarrow> oauth_db"
  ov_parse_url :: "string \<Rightarrow> parsed_url option"
  ov_lower :: "string \<Rightarrow> string"
  ov_equal_fold :: "string \<Rightarrow> string \<Rightarrow> bool"
  ov_redirect_hosts :: "string list"

definition OAuth_HashToken :: "oauth_env \<Rightarrow> string \<Rightarrow> string" where
  "OAuth_HashToken E token = hex_text (ov_sha256 E token)"

definition oauthScope :: string where "oauthScope = ''fast-spider''"
definition oauthCodeTTL :: duration where "oauthCodeTTL = 5 * minute"
definition oauthMaxPendingCodes :: nat where "oauthMaxPendingCodes = 1024"
definition oauthAccessTokenTTL :: duration where "oauthAccessTokenTTL = hour"
definition oauthRefreshTokenTTL :: duration where "oauthRefreshTokenTTL = 30 * 24 * hour"
definition oauthMaxRegistrationMetadataBytes :: nat where "oauthMaxRegistrationMetadataBytes = 16384"
definition oauthMaxRedirectURIBytes :: nat where "oauthMaxRedirectURIBytes = 2048"
definition defaultOAuthRedirectHosts :: "string list" where
  "defaultOAuthRedirectHosts = [''chatgpt.com'', ''localhost'', ''127.0.0.1'', ''::1'']"

definition scopeAllowed :: "string \<Rightarrow> bool" where
  "scopeAllowed scope = (length (string_fields scope) = 1 \<and> string_fields scope ! 0 = oauthScope)"

definition scopeSubset :: "string list \<Rightarrow> string list \<Rightarrow> bool" where
  "scopeSubset requested existing = list_all (\<lambda>s. s \<in> set existing) requested"

definition verifyPKCE :: "oauth_env \<Rightarrow> string \<Rightarrow> string \<Rightarrow> bool" where
  "verifyPKCE E challenge verifier =
     (if challenge = [] \<or> length verifier < 43 \<or> 128 < length verifier then False
      else base64_raw url_alphabet (ov_sha256 E verifier) = challenge)"

definition normalizeOAuthValues :: "string list \<Rightarrow> string list \<Rightarrow> string list" where
  "normalizeOAuthValues values defaults =
     (if values = [] then defaults
      else foldl (\<lambda>result value. let v = trim_space value in if v \<noteq> [] \<and> v \<notin> set result then result @ [v] else result) [] values)"

definition allOAuthValuesSupported :: "string list \<Rightarrow> string list \<Rightarrow> bool" where
  "allOAuthValuesSupported values supported = list_all (\<lambda>v. v \<in> set supported) values"

definition validOAuthRedirectURI :: "oauth_env \<Rightarrow> string \<Rightarrow> bool" where
  "validOAuthRedirectURI E raw =
     (case ov_parse_url E raw of
        None \<Rightarrow> False
      | Some u \<Rightarrow>
          if pu_Hostname u = [] \<or> pu_Fragment u \<noteq> [] \<or> pu_HasUser u \<or> pu_Opaque u \<noteq> [] then False
          else let host = to_lower (ov_lower E) (pu_Hostname u);
                   allowed = (if ov_redirect_hosts E = [] then defaultOAuthRedirectHosts else ov_redirect_hosts E)
               in if \<not> list_ex (\<lambda>item. ov_equal_fold E (trim_space item) host) allowed then False
                  else if host = ''localhost'' \<or> host = ''127.0.0.1'' \<or> host = ''::1'' then pu_Scheme u = ''http'' \<or> pu_Scheme u = ''https''
                  else pu_Scheme u = ''https'')"

record oauth_error =
  er_Status :: int
  er_Error :: string
  er_Description :: string

definition writeOAuthError :: "int \<Rightarrow> string \<Rightarrow> string \<Rightarrow> oauth_error" where
  "writeOAuthError status code description = \<lparr>er_Status = status, er_Error = code, er_Description = description\<rparr>"

section \<open>Client registration\<close>

record client_registration =
  cg_ClientName :: string
  cg_RedirectURIs :: "string list"
  cg_TokenEndpointAuthMethod :: string
  cg_GrantTypes :: "string list"
  cg_ResponseTypes :: "string list"
  cg_Scope :: string

datatype registration_error = Quota | StoreError hub_error

definition register_within_guard :: "registration_guard \<Rightarrow> oauth_db \<Rightarrow> oauth_client \<Rightarrow> instant \<Rightarrow> (registration_error + unit) \<times> oauth_db" where
  "register_within_guard g w c now =
     (case RegisterOAuthClientWithinLimits w c \<lparr>rl_MaxClients = rg_maxClients g, rl_MaxOrphans = rg_maxOrphans g,
          rl_MaxSourceOrphans = rg_maxSourceOrphans g, rl_OrphanCutoff = now - rg_orphanRetention g\<rparr> of
        (Inl e, w') \<Rightarrow> (Inl (if e = ErrResourceLimit then Quota else StoreError e), w')
      | (Inr u, w') \<Rightarrow> (Inr u, w'))"

definition metadata_bytes :: "client_registration \<Rightarrow> nat" where
  "metadata_bytes req = length (cg_ClientName req) + length (cg_TokenEndpointAuthMethod req) + length (cg_Scope req)
     + sum_list (map length (cg_GrantTypes req)) + sum_list (map length (cg_ResponseTypes req)) + sum_list (map length (cg_RedirectURIs req))"

text \<open>The checks of a registration, up to the scope, and the record it asks for.\<close>

definition check_registration ::
    "oauth_env \<Rightarrow> client_registration \<Rightarrow> oauth_error + string list \<times> string list \<times> string" where
  "check_registration E req =
     (let grants = normalizeOAuthValues (cg_GrantTypes req) [''authorization_code'', ''refresh_token''];
          responses = normalizeOAuthValues (cg_ResponseTypes req) [''code''];
          scope = (if trim_space (cg_Scope req) = [] then oauthScope else trim_space (cg_Scope req))
      in if cg_RedirectURIs req = [] \<or> 8 < length (cg_RedirectURIs req)
         then Inl (writeOAuthError 400 ''invalid_redirect_uri'' ''at least one redirect URI is required'')
         else if cg_TokenEndpointAuthMethod req \<noteq> [] \<and> cg_TokenEndpointAuthMethod req \<noteq> ''none''
         then Inl (writeOAuthError 400 ''invalid_client_metadata'' ''only public PKCE clients are supported'')
         else if \<not> allOAuthValuesSupported grants [''authorization_code'', ''refresh_token''] \<or> ''authorization_code'' \<notin> set grants
         then Inl (writeOAuthError 400 ''invalid_client_metadata'' ''unsupported grant type'')
         else if \<not> allOAuthValuesSupported responses [''code''] \<or> ''code'' \<notin> set responses
         then Inl (writeOAuthError 400 ''invalid_client_metadata'' ''unsupported response type'')
         else if \<not> scopeAllowed scope
         then Inl (writeOAuthError 400 ''invalid_client_metadata'' ''unsupported scope'')
         else if list_ex (\<lambda>raw. raw = [] \<or> oauthMaxRedirectURIBytes < length raw \<or> \<not> validOAuthRedirectURI E raw) (cg_RedirectURIs req)
         then Inl (writeOAuthError 400 ''invalid_redirect_uri'' ''redirect URI is not allowed'')
         else if oauthMaxRegistrationMetadataBytes < metadata_bytes req
         then Inl (writeOAuthError 400 ''invalid_client_metadata'' ''client registration metadata is too large'')
         else Inr (grants, responses, scope))"

text \<open>
  The body decodes to a registration or not, and holds one JSON value or more. The answer to a registration that is made
  repeats the stored record.
\<close>

definition handleOAuthRegister ::
    "oauth_env \<Rightarrow> registration_guard \<Rightarrow> oauth_db \<Rightarrow> string \<Rightarrow> client_registration option \<Rightarrow> bool
      \<Rightarrow> (oauth_error + oauth_client) \<times> registration_guard \<times> oauth_db" where
  "handleOAuthRegister E g w source decoded single =
     (let now = ov_clock E 0
      in case allow_registration g source now of
        (False, g1) \<Rightarrow> (Inl (writeOAuthError 429 ''temporarily_unavailable'' ''OAuth client registration rate limit exceeded''), g1, w)
      | (True, g1) \<Rightarrow>
      (case decoded of
        None \<Rightarrow> (Inl (writeOAuthError 400 ''invalid_client_metadata'' ''invalid client registration request''), g1, w)
      | Some req \<Rightarrow>
      if \<not> single then
        (Inl (writeOAuthError 400 ''invalid_client_metadata'' ''client registration must contain exactly one JSON value''), g1, w)
      else (case check_registration E req of
        Inl e \<Rightarrow> (Inl e, g1, w)
      | Inr (grants, responses, scope) \<Rightarrow>
      (case ov_random E ''mcpcli_'' of
        None \<Rightarrow> (Inl (writeOAuthError 500 ''server_error'' ''failed to create client''), g1, w)
      | Some clientID \<Rightarrow>
      let name = (if trim_space (cg_ClientName req) = [] then ''MCP client'' else trim_space (cg_ClientName req));
          c = \<lparr>oc_ClientID = clientID, oc_ClientName = name, oc_RedirectURIs = cg_RedirectURIs req, oc_GrantTypes = grants,
               oc_ResponseTypes = responses, oc_Scope = scope, oc_RegistrationSourceHash = source, oc_CreatedAt = now\<rparr>
      in if 128 < length name then
           (Inl (writeOAuthError 400 ''invalid_client_metadata'' ''client name is too long''), g1, w)
         else (case register_within_guard g1 w c now of
           (Inl Quota, w1) \<Rightarrow>
             (Inl (writeOAuthError 503 ''temporarily_unavailable'' ''OAuth client registration capacity is temporarily exhausted''), g1, w1)
         | (Inl (StoreError e), w1) \<Rightarrow> (Inl (writeOAuthError 500 ''server_error'' ''failed to register client''), g1, w1)
         | (Inr _, w1) \<Rightarrow> (Inr c, g1, w1))))))"

section \<open>Authorization codes\<close>

record oauth_code =
  cd_ClientID :: string
  cd_OwnerID :: string
  cd_RedirectURI :: string
  cd_CodeChallenge :: string
  cd_Scope :: string
  cd_Resource :: string
  cd_ExpiresAt :: instant

type_synonym oauth_codes = "(string \<times> oauth_code) list"

definition prune_codes :: "oauth_codes \<Rightarrow> instant \<Rightarrow> oauth_codes" where
  "prune_codes codes now = filter (\<lambda>(code, r). now < cd_ExpiresAt r) codes"

record authorize_request =
  az_ResponseType :: string
  az_ClientID :: string
  az_RedirectURI :: string
  az_CodeChallenge :: string
  az_CodeChallengeMethod :: string
  az_Scope :: string
  az_State :: string
  az_Resource :: string
  az_Decision :: string

definition validateOAuthAuthorizationRequest ::
    "oauth_db \<Rightarrow> string option \<Rightarrow> authorize_request \<Rightarrow> string + oauth_client \<times> string \<times> string" where
  "validateOAuthAuthorizationRequest w server_resource q =
     (if az_ResponseType q \<noteq> ''code'' then Inl ''response_type must be code''
      else case GetOAuthClient w (az_ClientID q) of
        Inl _ \<Rightarrow> Inl ''unknown client''
      | Inr client \<Rightarrow>
      if ''code'' \<notin> set (oc_ResponseTypes client) then Inl ''client did not register the code response type''
      else if az_RedirectURI q \<notin> set (oc_RedirectURIs client) then Inl ''redirect_uri is not registered''
      else if az_CodeChallengeMethod q \<noteq> ''S256'' \<or> az_CodeChallenge q = [] then Inl ''PKCE S256 is required''
      else let scope = (if trim_space (az_Scope q) = [] then oc_Scope client else trim_space (az_Scope q))
      in if \<not> scopeAllowed scope \<or> \<not> scopeSubset (string_fields scope) (string_fields (oc_Scope client)) then Inl ''unsupported scope''
         else case server_resource of
           None \<Rightarrow> Inl ''invalid public base URL''
         | Some resource \<Rightarrow>
             if trim_space (az_Resource q) \<noteq> [] \<and> trim_space (az_Resource q) \<noteq> resource then Inl ''invalid OAuth resource''
             else Inr (client, resource, scope))"

datatype authorize_reply =
    AuthorizeError oauth_error
  | LoginFirst
  | ConsentPage
  | InvalidForm
  | RedirectDenied string string
  | RedirectCode string string string

text \<open>Storing a code: expired ones are dropped, and the table is bounded.\<close>

definition put_code :: "oauth_codes \<Rightarrow> instant \<Rightarrow> string \<Rightarrow> oauth_code \<Rightarrow> bool \<times> oauth_codes" where
  "put_code codes now code r =
     (let codes1 = prune_codes codes now
      in if oauthMaxPendingCodes \<le> length codes1 then (False, codes1) else (True, AList.update code r codes1))"

definition handleOAuthAuthorize ::
    "oauth_env \<Rightarrow> oauth_db \<Rightarrow> oauth_codes \<Rightarrow> string option \<Rightarrow> bool \<Rightarrow> string option \<Rightarrow> bool \<Rightarrow> authorize_request
      \<Rightarrow> authorize_reply \<times> oauth_codes" where
  "handleOAuthAuthorize E w codes server_resource is_post session csrf q =
     (case validateOAuthAuthorizationRequest w server_resource q of
        Inl msg \<Rightarrow> (AuthorizeError (writeOAuthError 400 ''invalid_request'' msg), codes)
      | Inr (client, resource, scope) \<Rightarrow>
      (case session of
        None \<Rightarrow> (LoginFirst, codes)
      | Some ownerID \<Rightarrow>
      if \<not> is_post then (ConsentPage, codes)
      else if \<not> csrf then (InvalidForm, codes)
      else if az_Decision q = ''deny'' then (RedirectDenied (az_RedirectURI q) (az_State q), codes)
      else (case ov_random E ''code_'' of
        None \<Rightarrow> (AuthorizeError (writeOAuthError 500 ''server_error'' ''failed to create authorization code''), codes)
      | Some code \<Rightarrow>
          (case put_code codes (ov_clock E 0) code \<lparr>cd_ClientID = oc_ClientID client, cd_OwnerID = ownerID,
              cd_RedirectURI = az_RedirectURI q, cd_CodeChallenge = az_CodeChallenge q, cd_Scope = scope, cd_Resource = resource,
              cd_ExpiresAt = ov_clock E 0 + oauthCodeTTL\<rparr> of
             (False, codes1) \<Rightarrow>
               (AuthorizeError (writeOAuthError 503 ''temporarily_unavailable'' ''too many pending authorization requests''), codes1)
           | (True, codes1) \<Rightarrow> (RedirectCode (az_RedirectURI q) code (az_State q), codes1)))))"

section \<open>The token endpoint\<close>

record token_form =
  tf_ClientID :: string
  tf_GrantType :: string
  tf_Code :: string
  tf_RedirectURI :: string
  tf_Resource :: string
  tf_CodeVerifier :: string
  tf_RefreshToken :: string
  tf_Scope :: string

record token_response =
  te_AccessToken :: string
  te_TokenType :: string
  te_ExpiresIn :: int
  te_RefreshToken :: string
  te_Scope :: string

text \<open>The check of a code and its removal are one step under the mutex.\<close>

definition take_code ::
    "oauth_env \<Rightarrow> oauth_codes \<Rightarrow> instant \<Rightarrow> string \<Rightarrow> token_form \<Rightarrow> (string + oauth_code) \<times> oauth_codes" where
  "take_code E codes now clientID f =
     (let codes1 = prune_codes codes now
      in case map_of codes1 (tf_Code f) of
           None \<Rightarrow> (Inl ''invalid authorization code'', codes1)
         | Some r \<Rightarrow>
             if cd_ClientID r \<noteq> clientID then (Inl ''invalid authorization code'', codes1)
             else if tf_RedirectURI f \<noteq> [] \<and> tf_RedirectURI f \<noteq> cd_RedirectURI r then (Inl ''redirect_uri does not match'', codes1)
             else if tf_Resource f \<noteq> [] \<and> tf_Resource f \<noteq> cd_Resource r then (Inl ''resource does not match'', codes1)
             else if \<not> verifyPKCE E (cd_CodeChallenge r) (tf_CodeVerifier f) then (Inl ''PKCE verification failed'', codes1)
             else (Inr r, AList.delete (tf_Code f) codes1))"

text \<open>Saving the pair; an authorization that was just created is revoked when that fails.\<close>

definition save_pair ::
    "oauth_env \<Rightarrow> oauth_db \<Rightarrow> token_pair \<Rightarrow> bool \<Rightarrow> string \<Rightarrow> string \<Rightarrow> (oauth_error + token_response) \<times> oauth_db" where
  "save_pair E w p created access refresh =
     (case SaveOAuthTokenPair w p of
        (Inl e, w1) \<Rightarrow>
          (Inl (if pr_ConsumedRefreshHash p \<noteq> [] \<and> e = ErrUnauthorized
                then writeOAuthError 400 ''invalid_grant'' ''invalid refresh token''
                else writeOAuthError 500 ''server_error'' ''failed to persist OAuth token''),
           if created then snd (RevokeOAuthAuthorization (ov_others E 3 w1) (ok_OwnerID (pr_Record p)) (ok_AuthorizationID (pr_Record p)) (pr_Now p))
           else w1)
      | (Inr _, w1) \<Rightarrow>
          (Inr \<lparr>te_AccessToken = access, te_TokenType = ''Bearer'', te_ExpiresIn = oauthAccessTokenTTL div second,
                te_RefreshToken = refresh, te_Scope = join_spaces (ok_Scopes (pr_Record p))\<rparr>, w1))"

definition token_pair_for ::
    "oauth_env \<Rightarrow> string \<Rightarrow> oauth_client \<Rightarrow> string \<Rightarrow> string \<Rightarrow> string \<Rightarrow> string \<Rightarrow> string \<Rightarrow> string \<Rightarrow> token_pair" where
  "token_pair_for E ownerID client scope resource consumedRefreshHash authorizationID access refresh =
     (let now = ov_clock E 1
      in \<lparr>pr_AccessHash = OAuth_HashToken E access,
          pr_RefreshHash = (if ''refresh_token'' \<in> set (oc_GrantTypes client) then OAuth_HashToken E refresh else []),
          pr_Record = \<lparr>ok_AuthorizationID = authorizationID, ok_OwnerID = ownerID, ok_ClientID = oc_ClientID client,
            ok_Scopes = string_fields scope, ok_Resource = resource, ok_ExpiresAt = zero_time\<rparr>,
          pr_AccessExpires = now + oauthAccessTokenTTL, pr_RefreshExpires = now + oauthRefreshTokenTTL,
          pr_ConsumedRefreshHash = consumedRefreshHash, pr_Now = now\<rparr>)"

definition issueOAuthTokens ::
    "oauth_env \<Rightarrow> oauth_db \<Rightarrow> string \<Rightarrow> oauth_client \<Rightarrow> string \<Rightarrow> string \<Rightarrow> string \<Rightarrow> string
      \<Rightarrow> (oauth_error + token_response) \<times> oauth_db" where
  "issueOAuthTokens E w ownerID client scope resource authorizationID consumedRefreshHash =
     (case ov_random E ''oat_'' of
        None \<Rightarrow> (Inl (writeOAuthError 500 ''server_error'' ''failed to issue access token''), w)
      | Some access \<Rightarrow>
      let now = ov_clock E 1; accessExpires = now + oauthAccessTokenTTL; refreshExpires = now + oauthRefreshTokenTTL
      in case (if ''refresh_token'' \<in> set (oc_GrantTypes client) then ov_random E ''ort_'' else Some []) of
        None \<Rightarrow> (Inl (writeOAuthError 500 ''server_error'' ''failed to issue refresh token''), w)
      | Some refresh \<Rightarrow>
      let expires = (if refresh \<noteq> [] then refreshExpires else accessExpires);
          pair = (\<lambda>authz. token_pair_for E ownerID client scope resource consumedRefreshHash authz access refresh)
      in if authorizationID \<noteq> [] then save_pair E (ov_others E 2 w) (pair authorizationID) False access refresh
         else case ov_random E ''authz_'' of
           None \<Rightarrow> (Inl (writeOAuthError 500 ''server_error'' ''failed to create authorization''), w)
         | Some authz \<Rightarrow>
             (case CreateOAuthAuthorization w \<lparr>oa_AuthorizationID = authz, oa_OwnerID = ownerID, oa_ClientID = oc_ClientID client,
                  oa_ClientName = [], oa_Scopes = string_fields scope, oa_Resource = resource, oa_CreatedAt = now, oa_LastUsedAt = None,
                  oa_ExpiresAt = expires, oa_RevokedAt = None\<rparr> of
                (Inl e, w1) \<Rightarrow>
                  (Inl (if e = ErrResourceLimit
                        then writeOAuthError 400 ''invalid_grant'' ''authorization code cannot be exchanged because the owner's client limit is reached''
                        else writeOAuthError 500 ''server_error'' ''failed to persist authorization''), w1)
              | (Inr _, w1) \<Rightarrow> save_pair E (ov_others E 2 w1) (pair authz) True access refresh))"

definition handleOAuthAuthorizationCodeExchange ::
    "oauth_env \<Rightarrow> oauth_db \<Rightarrow> oauth_codes \<Rightarrow> oauth_client \<Rightarrow> token_form \<Rightarrow> (oauth_error + token_response) \<times> oauth_db \<times> oauth_codes" where
  "handleOAuthAuthorizationCodeExchange E w codes client f =
     (case take_code E codes (ov_clock E 0) (oc_ClientID client) f of
        (Inl failure, codes1) \<Rightarrow> (Inl (writeOAuthError 400 ''invalid_grant'' failure), w, codes1)
      | (Inr r, codes1) \<Rightarrow>
          (case issueOAuthTokens E (ov_others E 1 w) (cd_OwnerID r) client (cd_Scope r) (cd_Resource r) [] [] of
             (reply, w1) \<Rightarrow> (reply, w1, codes1)))"

definition handleOAuthRefreshExchange ::
    "oauth_env \<Rightarrow> oauth_db \<Rightarrow> oauth_client \<Rightarrow> token_form \<Rightarrow> (oauth_error + token_response) \<times> oauth_db" where
  "handleOAuthRefreshExchange E w client f =
     (case GetOAuthRefreshToken w (OAuth_HashToken E (tf_RefreshToken f)) (ov_clock E 0) of
        Inl _ \<Rightarrow> (Inl (writeOAuthError 400 ''invalid_grant'' ''invalid refresh token''), w)
      | Inr r \<Rightarrow>
          if ok_ClientID r \<noteq> oc_ClientID client then (Inl (writeOAuthError 400 ''invalid_grant'' ''invalid refresh token''), w)
          else if tf_Resource f \<noteq> [] \<and> tf_Resource f \<noteq> ok_Resource r
          then (Inl (writeOAuthError 400 ''invalid_grant'' ''resource does not match''), w)
          else let scope = (if trim_space (tf_Scope f) = [] then join_spaces (ok_Scopes r) else trim_space (tf_Scope f))
          in if \<not> scopeAllowed scope \<or> \<not> scopeSubset (string_fields scope) (ok_Scopes r)
             then (Inl (writeOAuthError 400 ''invalid_scope'' ''refresh token cannot grant requested scope''), w)
             else issueOAuthTokens E (ov_others E 1 w) (ok_OwnerID r) client scope (ok_Resource r) (ok_AuthorizationID r)
                    (OAuth_HashToken E (tf_RefreshToken f)))"

definition handleOAuthToken ::
    "oauth_env \<Rightarrow> oauth_db \<Rightarrow> oauth_codes \<Rightarrow> token_form \<Rightarrow> (oauth_error + token_response) \<times> oauth_db \<times> oauth_codes" where
  "handleOAuthToken E w codes f =
     (case GetOAuthClient w (trim_space (tf_ClientID f)) of
        Inl _ \<Rightarrow> (Inl (writeOAuthError 401 ''invalid_client'' ''unknown client''), w, codes)
      | Inr client \<Rightarrow>
          if tf_GrantType f \<notin> set (oc_GrantTypes client)
          then (Inl (writeOAuthError 400 ''unauthorized_client'' ''client did not register this grant type''), w, codes)
          else if tf_GrantType f = ''authorization_code'' then handleOAuthAuthorizationCodeExchange E (ov_others E 0 w) codes client f
          else if tf_GrantType f = ''refresh_token'' then
            (case handleOAuthRefreshExchange E (ov_others E 0 w) client f of (reply, w1) \<Rightarrow> (reply, w1, codes))
          else (Inl (writeOAuthError 400 ''unsupported_grant_type'' ''unsupported grant type''), w, codes))"

section \<open>Revocation and bearer tokens\<close>

definition handleOAuthRevoke :: "oauth_env \<Rightarrow> oauth_db \<Rightarrow> string \<Rightarrow> oauth_db" where
  "handleOAuthRevoke E w token =
     (let t = trim_space token in if t \<noteq> [] then RevokeOAuthToken w (OAuth_HashToken E t) (ov_clock E 0) else w)"

record token_info =
  ti_Scopes :: "string list"
  ti_Expiration :: instant
  ti_UserID :: string
  ti_ClientID :: string
  ti_Resource :: string
  ti_AuthorizationID :: string

definition mcpTokenVerifier :: "oauth_env \<Rightarrow> oauth_db \<Rightarrow> string option \<Rightarrow> string \<Rightarrow> (string + token_info) \<times> oauth_db" where
  "mcpTokenVerifier E w server_resource token =
     (let now = ov_clock E 0
      in case AuthenticateOAuthAccessToken w (OAuth_HashToken E token) now of
        Inl _ \<Rightarrow> (Inl ''invalid bearer token'', w)
      | Inr r \<Rightarrow>
          if oauthScope \<notin> set (ok_Scopes r) then (Inl ''invalid bearer token'', w)
          else if server_resource \<noteq> Some (ok_Resource r) then (Inl ''OAuth resource mismatch'', w)
          else (Inr \<lparr>ti_Scopes = ok_Scopes r, ti_Expiration = ok_ExpiresAt r, ti_UserID = ok_OwnerID r, ti_ClientID = ok_ClientID r,
                  ti_Resource = ok_Resource r, ti_AuthorizationID = ok_AuthorizationID r\<rparr>,
                TouchOAuthAuthorization (ov_others E 0 w) (ok_AuthorizationID r) now))"

end
