(* ===== verification/OAuth_Props.thy ===== *)
theory OAuth_Props
  imports OAuth_Server
begin

text \<open>The properties of the OAuth tables and endpoints.\<close>

section \<open>The invariant\<close>

text \<open>
  Whatever statements run on the OAuth tables, keys stay unique, every authorization and token names a stored client,
  no stored token belongs to a revoked authorization, and no owner has authorized more than 128 clients.
\<close>

theorem oauth_invariant:
  assumes "wf_oauth w" shows "wf_oauth (exec_all exec_oauth ss w)"
  by (rule wf_oauth_run) (rule assms)

definition demo_client :: oauth_client where
  "demo_client = \<lparr>oc_ClientID = ''c1'', oc_ClientName = ''MCP'', oc_RedirectURIs = [''https://chatgpt.com/cb''],
     oc_GrantTypes = [''authorization_code'', ''refresh_token''], oc_ResponseTypes = [''code''], oc_Scope = ''fast-spider'',
     oc_RegistrationSourceHash = ''s'', oc_CreatedAt = 0\<rparr>"

definition demo_limits :: registration_limits where
  "demo_limits = \<lparr>rl_MaxClients = 2, rl_MaxOrphans = 2, rl_MaxSourceOrphans = 1, rl_OrphanCutoff = - 5 * minute\<rparr>"

definition demo_authorization :: oauth_authorization where
  "demo_authorization = \<lparr>oa_AuthorizationID = ''a1'', oa_OwnerID = ''o1'', oa_ClientID = ''c1'', oa_ClientName = [],
     oa_Scopes = [''fast-spider''], oa_Resource = ''/mcp'', oa_CreatedAt = 0, oa_LastUsedAt = None, oa_ExpiresAt = hour,
     oa_RevokedAt = None\<rparr>"

definition demo_pair :: "string \<Rightarrow> string \<Rightarrow> string \<Rightarrow> instant \<Rightarrow> token_pair" where
  "demo_pair access refresh consumed now = \<lparr>pr_AccessHash = access, pr_RefreshHash = refresh,
     pr_Record = \<lparr>ok_AuthorizationID = ''a1'', ok_OwnerID = ''o1'', ok_ClientID = ''c1'', ok_Scopes = [''fast-spider''],
       ok_Resource = ''/mcp'', ok_ExpiresAt = zero_time\<rparr>,
     pr_AccessExpires = now + hour, pr_RefreshExpires = now + 30 * 24 * hour, pr_ConsumedRefreshHash = consumed, pr_Now = now\<rparr>"

definition no_oauth :: oauth_db where
  "no_oauth = \<lparr>od_clients = [], od_authz = [], od_access = [], od_refresh = []\<rparr>"

lemma wf_no_oauth: "wf_oauth no_oauth"
  by (simp add: wf_oauth_def oauth_inv_defs clients_of_def no_oauth_def)

definition demo_statements :: "oauth_stmt list" where
  "demo_statements = [O_RegisterLimited demo_client demo_limits, O_CreateAuthorization demo_authorization,
     O_SavePair (demo_pair ''h1'' ''r1'' [] 0)]"

definition demo_oauth :: oauth_db where
  "demo_oauth = exec_all exec_oauth demo_statements no_oauth"

lemma wf_demo_oauth: "wf_oauth demo_oauth"
  unfolding demo_oauth_def by (rule wf_oauth_run) (rule wf_no_oauth)

lemma oauth_invariant_witness:
  "wf_oauth (exec_all exec_oauth demo_statements no_oauth) \<and> map otr_TokenHash (od_refresh demo_oauth) = [''r1'']"
proof
  show "wf_oauth (exec_all exec_oauth demo_statements no_oauth)" by (rule oauth_invariant) (rule wf_no_oauth)
  show "map otr_TokenHash (od_refresh demo_oauth) = [''r1'']" unfolding demo_oauth_def exec_all_def by code_simp
qed

section \<open>Refresh tokens are used once\<close>

lemma consumed_gone:
  assumes "SaveOAuthTokenPair w p = (Inr (), w')" "wf_oauth w" "pr_ConsumedRefreshHash p = h" "h \<noteq> []" "pr_RefreshHash p \<noteq> h"
  shows "\<forall>r \<in> set (od_refresh w'). otr_TokenHash r \<noteq> h"
proof -
  have d: "distinct (map otr_TokenHash (od_refresh w))" using assms(2) by (simp add: wf_oauth_def oauth_keys_def)
  have "sql_affected (consumable h (pr_Record p) (pr_Now p)) (od_refresh w) = 1"
    using assms(1,3,4) by (auto simp: SaveOAuthTokenPair_def Let_def split: if_splits)
  then obtain c where c: "c \<in> set (od_refresh w)" "consumable h (pr_Record p) (pr_Now p) c" using sql_affected_1 by auto
  have "r \<notin> set (sql_delete (consumable h (pr_Record p) (pr_Now p)) (od_refresh w))" if "otr_TokenHash r = h" for r
    using distinct_key_unique [OF d _ c(1), of r] c(2) that by (auto simp: consumable_def)
  then show ?thesis using assms(1,3-5) by (auto simp: SaveOAuthTokenPair_def Let_def pair_row_def split: if_splits)
qed

lemma unconsumable_refused:
  assumes "sql_affected (consumable (pr_ConsumedRefreshHash p) (pr_Record p) (pr_Now p)) (od_refresh w) \<noteq> 1"
    "pr_ConsumedRefreshHash p \<noteq> []"
  shows "SaveOAuthTokenPair w p = (Inl ErrUnauthorized, w)"
  using assms by (simp add: SaveOAuthTokenPair_def Let_def)

text \<open>Property C20: a refresh token is traded in at most once. When a pair was saved in exchange for it, every later attempt to trade
  it in, at any time and whatever statements ran in between (other than one that issues the very same token), is refused as
  unauthorized and changes nothing.
\<close>

theorem refresh_single_use:
  assumes "wf_oauth w" and "SaveOAuthTokenPair w p = (Inr (), w')" and "pr_ConsumedRefreshHash p \<noteq> []"
    and "pr_RefreshHash p \<noteq> pr_ConsumedRefreshHash p"
    and "\<forall>s \<in> set ss. \<not> issues_refresh (pr_ConsumedRefreshHash p) s"
    and "pr_ConsumedRefreshHash q = pr_ConsumedRefreshHash p"
  shows "SaveOAuthTokenPair (exec_all exec_oauth ss w') q = (Inl ErrUnauthorized, exec_all exec_oauth ss w')"
proof -
  have gone: "\<forall>r \<in> set (od_refresh w'). otr_TokenHash r \<noteq> pr_ConsumedRefreshHash p"
    by (rule consumed_gone [OF assms(2,1) refl assms(3,4)])
  have "\<not> refresh_admits (exec_all exec_oauth ss w') (pr_ConsumedRefreshHash p) (unix (pr_Now q))"
    by (rule refresh_lock.dead_for_good [OF _ assms(5) order_refl]) (use gone in blast)
  then have "sql_affected (consumable (pr_ConsumedRefreshHash q) (pr_Record q) (pr_Now q)) (od_refresh (exec_all exec_oauth ss w')) = 0"
    unfolding refresh_admits_def assms(6) by blast
  then show ?thesis using assms(3,6) by (intro unconsumable_refused) (simp_all only: zero_neq_one not_False_eq_True)
qed

definition demo_rotated :: oauth_db where
  "demo_rotated = snd (SaveOAuthTokenPair demo_oauth (demo_pair ''h2'' ''r2'' ''r1'' minute))"

lemma demo_rotation: "SaveOAuthTokenPair demo_oauth (demo_pair ''h2'' ''r2'' ''r1'' minute) = (Inr (), demo_rotated)"
proof -
  have "is_ok (fst (SaveOAuthTokenPair demo_oauth (demo_pair ''h2'' ''r2'' ''r1'' minute)))"
    unfolding demo_oauth_def exec_all_def by code_simp
  then show ?thesis unfolding demo_rotated_def by (auto simp: is_ok_iff prod_eq_iff)
qed

lemma refresh_single_use_witness:
  "SaveOAuthTokenPair (exec_all exec_oauth [O_Cleanup hour] demo_rotated) (demo_pair ''h3'' ''r3'' ''r1'' hour)
    = (Inl ErrUnauthorized, exec_all exec_oauth [O_Cleanup hour] demo_rotated)"
  by (rule refresh_single_use [OF wf_demo_oauth demo_rotation]) (simp_all add: demo_pair_def)

section \<open>Revocation\<close>

text \<open>Property C23: revoking an authorization is final. From then on no access token and no refresh token lets anyone in by that
  authorization, whatever statements run later, a rotation that was under way included, unless an authorization is created
  under the same identifier.
\<close>

theorem revoked_authorization_dead:
  assumes "wf_oauth w" and "RevokeOAuthAuthorization w ow k now = (Inr (), w')"
    and "\<forall>s \<in> set ss. \<not> creates_id k s"
  shows "\<not> authorization_admits (exec_all exec_oauth ss w') k t"
proof (rule authorization_lock.locked_out [OF _ assms(3) order_refl])
  have d: "distinct (map oar_ID (od_authz w))" using assms(1) by (simp add: wf_oauth_def oauth_keys_def)
  obtain a where a: "a \<in> set (od_authz w)" "live_authorization k ow a"
    using assms(2) by (auto simp: RevokeOAuthAuthorization_def split: if_splits)
  have w': "w' = drop_tokens k (mark_revoked ow k now w)" using assms(2) by (auto simp: RevokeOAuthAuthorization_def split: if_splits)
  have "oar_RevokedAt b \<noteq> None" if b: "b \<in> set (od_authz w')" "oar_ID b = k" for b
  proof -
    obtain c where c: "c \<in> set (od_authz w)" "b = (if live_authorization k ow c then c\<lparr>oar_RevokedAt := Some (unix now)\<rparr> else c)"
      using b(1) by (auto simp: w' drop_tokens_def mark_revoked_def set_sql_update)
    then have "oar_ID c = oar_ID a" using b(2) a(2) by (simp add: live_authorization_def split: if_splits)
    then have "c = a" using distinct_key_unique [OF d c(1) a(1)] by simp
    then show ?thesis using c(2) a(2) by simp
  qed
  then show "authorization_shut w' k t" by (simp add: authorization_shut_def w' no_token_drop)
qed

lemma demo_revocation: "RevokeOAuthAuthorization demo_oauth ''o1'' ''a1'' minute
   = (Inr (), snd (RevokeOAuthAuthorization demo_oauth ''o1'' ''a1'' minute))"
proof -
  have "is_ok (fst (RevokeOAuthAuthorization demo_oauth ''o1'' ''a1'' minute))"
    unfolding demo_oauth_def exec_all_def by code_simp
  then show ?thesis by (auto simp: is_ok_iff prod_eq_iff)
qed

lemma revoked_authorization_dead_witness:
  "\<not> authorization_admits (exec_all exec_oauth [O_SavePair (demo_pair ''h2'' ''r2'' ''r1'' hour)]
      (snd (RevokeOAuthAuthorization demo_oauth ''o1'' ''a1'' minute))) ''a1'' 90"
  by (rule revoked_authorization_dead [OF wf_demo_oauth demo_revocation]) (simp add: creates_id_def)

section \<open>Limits\<close>

lemma orphan_clients [simp]: "orphan (w\<lparr>od_clients := cs\<rparr>) now = orphan w now"
  by (rule ext) (simp add: orphan_def)

lemma sql_affected_snoc: "sql_affected p (t @ [r]) = sql_affected p t + (if p r then 1 else 0)"
  by (simp add: sql_affected_def)

lemma registration_within_limits_size:
  "RegisterOAuthClientWithinLimits w c l = (Inr (), w') \<Longrightarrow> int (length (od_clients w')) \<le> rl_MaxClients l"
  by (auto simp: RegisterOAuthClientWithinLimits_def Let_def insert_client_def split: if_splits)

text \<open>
  A registration that is made leaves the client table within all three limits: its size, the clients without a
  live authorization or token, and those of them registered from the same source.
\<close>

theorem registration_within_limits:
  assumes "RegisterOAuthClientWithinLimits w c l = (Inr (), w')"
  shows "int (length (od_clients w')) \<le> rl_MaxClients l \<and> count_orphans w' (unix (oc_CreatedAt c)) \<le> rl_MaxOrphans l
    \<and> count_source_orphans w' (oc_RegistrationSourceHash c) (unix (oc_CreatedAt c)) \<le> rl_MaxSourceOrphans l"
  using assms by (auto simp: RegisterOAuthClientWithinLimits_def Let_def insert_client_def count_orphans_def
      count_source_orphans_def sql_affected_snoc split: if_splits)

lemma registration_within_limits_witness:
  "is_ok (fst (RegisterOAuthClientWithinLimits no_oauth demo_client demo_limits))
   \<and> count_orphans (snd (RegisterOAuthClientWithinLimits no_oauth demo_client demo_limits)) 0 \<le> 2"
proof
  show ok: "is_ok (fst (RegisterOAuthClientWithinLimits no_oauth demo_client demo_limits))" by code_simp
  then have "RegisterOAuthClientWithinLimits no_oauth demo_client demo_limits
      = (Inr (), snd (RegisterOAuthClientWithinLimits no_oauth demo_client demo_limits))"
    by (auto simp: is_ok_iff prod_eq_iff)
  from registration_within_limits [OF this]
  show "count_orphans (snd (RegisterOAuthClientWithinLimits no_oauth demo_client demo_limits)) 0 \<le> 2"
    by (simp add: demo_client_def demo_limits_def unix_def)
qed

text \<open>However the statements follow each other, the table never outgrows the largest limit they were given.\<close>

fun registers_within :: "int \<Rightarrow> oauth_stmt \<Rightarrow> bool" where
  "registers_within M (O_Register c) = False"
| "registers_within M (O_RegisterLimited c l) = (rl_MaxClients l \<le> M)"
| "registers_within M _ = True"

lemma length_delete_le: "length (sql_delete c t) \<le> length t"
  by (simp add: sql_delete_def)

lemma clients_within:
  assumes "int (length (od_clients w)) \<le> M" "\<forall>s \<in> set ss. registers_within M s"
  shows "int (length (od_clients (exec_all exec_oauth ss w))) \<le> M"
  using assms
proof (induction ss arbitrary: w)
  case (Cons s ss)
  have "int (length (od_clients (exec_oauth s w))) \<le> M"
  proof (cases "\<exists>c l. s = O_RegisterLimited c l \<and> is_ok (fst (RegisterOAuthClientWithinLimits w c l))")
    case True
    then obtain c l where s: "s = O_RegisterLimited c l" "is_ok (fst (RegisterOAuthClientWithinLimits w c l))" by blast
    then have "RegisterOAuthClientWithinLimits w c l = (Inr (), exec_oauth s w)" by (auto simp: is_ok_iff prod_eq_iff)
    then show ?thesis using Cons.prems(2) s(1) registration_within_limits_size by fastforce
  next
    case False
    then have "length (od_clients (exec_oauth s w)) \<le> length (od_clients w)"
      using Cons.prems(2) length_delete_le le_trans
      by (cases s) (auto simp: oauth_defs is_ok_iff split: option.splits if_splits sum.splits prod.splits)
    then show ?thesis using Cons.prems(1) by linarith
  qed
  then show ?case using Cons by simp
qed simp

section \<open>Cleaning up\<close>

lemma token_record_delete:
  assumes "distinct (map otr_TokenHash t)" "now \<le> now'"
  shows "oauthTokenRecord (sql_delete (\<lambda>r. otr_ExpiresAt r \<le> unix now) t) h now' = Inr rec \<longleftrightarrow> oauthTokenRecord t h now' = Inr rec"
proof -
  let ?P = "\<lambda>r. otr_TokenHash r = h \<and> otr_AuthorizationID r \<noteq> None \<and> otr_AuthorizationID r \<noteq> Some []"
  let ?t = "sql_delete (\<lambda>r. otr_ExpiresAt r \<le> unix now) t"
  have found: "find ?P u = Some r \<longleftrightarrow> r \<in> set u \<and> ?P r" if u: "distinct (map otr_TokenHash u)" for u r
  proof
    assume r: "r \<in> set u \<and> ?P r"
    then obtain r' where r': "find ?P u = Some r'" using find_None_iff [of ?P u] by (cases "find ?P u") auto
    then have "r' \<in> set u" "?P r'" using find_in [OF r'] by auto
    then show "find ?P u = Some r" using r' distinct_key_unique [OF u, of r' r] r by simp
  next
    assume "find ?P u = Some r"
    then show "r \<in> set u \<and> ?P r" by (rule find_in)
  qed
  have rec: "oauthTokenRecord u h now' = Inr rec \<longleftrightarrow> (\<exists>r. find ?P u = Some r \<and> \<not> otr_ExpiresAt r \<le> unix now'
      \<and> rec = \<lparr>ok_AuthorizationID = the (otr_AuthorizationID r), ok_OwnerID = otr_OwnerID r, ok_ClientID = otr_ClientID r,
                 ok_Scopes = otr_Scopes r, ok_Resource = otr_Resource r, ok_ExpiresAt = from_unix (otr_ExpiresAt r)\<rparr>)" for u
    by (auto simp: oauthTokenRecord_def split: option.splits)
  have "unix now \<le> unix now'" using assms(2) by (rule unix_mono)
  then show ?thesis unfolding rec found [OF assms(1)] found [OF sql_delete_key [OF assms(1)]] by auto
qed

text \<open>
  The periodic clean-up is invisible to callers: from its time on exactly the same access and refresh tokens are
  accepted, with the same record, as without it.
\<close>

theorem cleanup_transparent:
  assumes "wf_oauth w" "now \<le> now'"
  shows "(AuthenticateOAuthAccessToken (cleanup_oauth_rows w now) h now' = Inr rec \<longleftrightarrow> AuthenticateOAuthAccessToken w h now' = Inr rec)
    \<and> (GetOAuthRefreshToken (cleanup_oauth_rows w now) h now' = Inr rec \<longleftrightarrow> GetOAuthRefreshToken w h now' = Inr rec)"
  using assms token_record_delete [OF _ assms(2)]
  by (simp add: AuthenticateOAuthAccessToken_def GetOAuthRefreshToken_def cleanup_oauth_rows_def delete_stale_clients_def Let_def
      wf_oauth_def oauth_keys_def)

lemma cleanup_transparent_witness:
  "is_ok (AuthenticateOAuthAccessToken (cleanup_oauth_rows demo_oauth minute) ''h1'' (2 * minute))"
proof -
  have "is_ok (AuthenticateOAuthAccessToken demo_oauth ''h1'' (2 * minute))" unfolding demo_oauth_def exec_all_def by code_simp
  then obtain rec where "AuthenticateOAuthAccessToken demo_oauth ''h1'' (2 * minute) = Inr rec" by (auto simp: is_ok_iff)
  then show ?thesis
    using cleanup_transparent [OF wf_demo_oauth, of minute "2 * minute" "''h1''" rec] by (simp add: minute_def second_def)
qed

section \<open>Authorization codes\<close>

datatype code_event = C_Put instant string oauth_code | C_Take instant string token_form

fun exec_code :: "oauth_env \<Rightarrow> code_event \<Rightarrow> oauth_codes \<Rightarrow> oauth_codes" where
  "exec_code E (C_Put now code r) codes = snd (put_code codes now code r)"
| "exec_code E (C_Take now clientID f) codes = snd (take_code E codes now clientID f)"

fun puts_code :: "string \<Rightarrow> code_event \<Rightarrow> bool" where
  "puts_code k (C_Put now code r) = (code = k)"
| "puts_code k (C_Take now clientID f) = False"

definition code_admits :: "oauth_env \<Rightarrow> oauth_codes \<Rightarrow> string \<Rightarrow> int \<Rightarrow> bool" where
  "code_admits E codes k now = (\<exists>clientID f. tf_Code f = k \<and> fst (take_code E codes now clientID f) \<noteq> Inl ''invalid authorization code'')"

definition code_shut :: "oauth_codes \<Rightarrow> string \<Rightarrow> int \<Rightarrow> bool" where
  "code_shut codes k t0 = (k \<notin> fst ` set codes)"

lemma prune_keys: "fst ` set (prune_codes codes now) \<subseteq> fst ` set codes"
  by (auto simp: prune_codes_def)

lemma take_code_set: "set (snd (take_code E codes now clientID f)) \<subseteq> set codes"
  by (auto simp: take_code_def Let_def prune_codes_def AList.delete_eq split: option.splits)

lemma take_code_keys: "fst ` set (snd (take_code E codes now clientID f)) \<subseteq> fst ` set codes"
  using take_code_set by (rule image_mono)

interpretation code_lock: lockout "exec_code E" "code_admits E" code_shut puts_code for E
proof
  show "\<not> code_admits E codes k t" if "code_shut codes k t0" "t0 \<le> t" for codes k t0 t
  proof -
    have "map_of (prune_codes codes t) k = None" using that(1) prune_keys [of codes t] by (auto simp: code_shut_def map_of_eq_None_iff)
    then show ?thesis by (auto simp: code_admits_def take_code_def Let_def)
  qed
  show "code_shut (exec_code E e codes) k t0" if "code_shut codes k t0" "\<not> puts_code k e" for codes k t0 e
  proof (cases e)
    case (C_Put now code r)
    then show ?thesis using that prune_keys [of codes now]
      by (auto simp: code_shut_def put_code_def Let_def AList.dom_update)
  next
    case (C_Take now clientID f)
    then show ?thesis using that take_code_keys [of E codes now clientID f] by (auto simp: code_shut_def)
  qed
qed

lemma take_code_ok:
  assumes "take_code E codes now clientID f = (Inr r, codes')"
  shows "(tf_Code f, r) \<in> set codes" and "now < cd_ExpiresAt r" and "cd_ClientID r = clientID"
    and "tf_RedirectURI f \<noteq> [] \<longrightarrow> tf_RedirectURI f = cd_RedirectURI r"
    and "tf_Resource f \<noteq> [] \<longrightarrow> tf_Resource f = cd_Resource r"
    and "verifyPKCE E (cd_CodeChallenge r) (tf_CodeVerifier f)" and "tf_Code f \<notin> fst ` set codes'"
  using assms AList.delete_notin_dom [of "tf_Code f" "prune_codes codes now"]
  by (auto simp: take_code_def Let_def prune_codes_def split: option.splits if_splits dest!: map_of_SomeD)

text \<open>Property C21: an authorization code is exchanged at most once. After an exchange succeeded, every later one with the same code
  fails, at any time, for any client and verifier, and whatever other codes are granted or exchanged in between.
\<close>

theorem code_single_use:
  assumes "take_code E codes now clientID f = (Inr r, codes')"
    and "\<forall>e \<in> set es. \<not> puts_code (tf_Code f) e" and "tf_Code f' = tf_Code f"
  shows "fst (take_code E (exec_all (exec_code E) es codes') now' clientID' f') = Inl ''invalid authorization code''"
proof -
  have "code_shut codes' (tf_Code f) now'" using take_code_ok(7) [OF assms(1)] by (simp add: code_shut_def)
  from code_lock.locked_out [OF this assms(2) order_refl] show ?thesis using assms(3) unfolding code_admits_def by blast
qed

text \<open>The number of pending codes is bounded.\<close>

lemma pending_codes_bounded:
  assumes "length codes \<le> oauthMaxPendingCodes" shows "length (exec_code E e codes) \<le> oauthMaxPendingCodes"
proof -
  have p: "length (prune_codes codes now) \<le> oauthMaxPendingCodes" for now
    using assms order_trans [OF length_filter_le] by (simp add: prune_codes_def)
  show ?thesis
  proof (cases e)
    case (C_Put now code r)
    then show ?thesis using p [of now] by (auto simp: put_code_def Let_def length_update)
  next
    case (C_Take now clientID f)
    then show ?thesis using p [of now] order_trans [OF AList.length_delete_le [of "tf_Code f" "prune_codes codes now"]]
      by (auto simp: take_code_def Let_def split: option.splits)
  qed
qed

definition demo_oauth_env :: oauth_env where
  "demo_oauth_env = \<lparr>ov_sha256 = take 3, ov_random = (\<lambda>p. Some (p @ ''1'')), ov_clock = (\<lambda>_. minute), ov_others = (\<lambda>_ w. w),
     ov_parse_url = (\<lambda>_. None), ov_lower = id, ov_equal_fold = (=), ov_redirect_hosts = []\<rparr>"

definition demo_form :: token_form where
  "demo_form = \<lparr>tf_ClientID = ''c1'', tf_GrantType = ''authorization_code'', tf_Code = ''code_1'', tf_RedirectURI = [],
     tf_Resource = [], tf_CodeVerifier = replicate 43 (CHR ''a''), tf_RefreshToken = [], tf_Scope = []\<rparr>"

definition demo_codes :: oauth_codes where
  "demo_codes = [(''code_1'', \<lparr>cd_ClientID = ''c1'', cd_OwnerID = ''o1'', cd_RedirectURI = ''https://chatgpt.com/cb'',
     cd_CodeChallenge = ''YWFh'', cd_Scope = ''fast-spider'', cd_Resource = ''/mcp'', cd_ExpiresAt = 5 * minute\<rparr>)]"

lemma demo_take: "\<exists>r codes'. take_code demo_oauth_env demo_codes minute ''c1'' demo_form = (Inr r, codes')"
proof -
  have "is_ok (fst (take_code demo_oauth_env demo_codes minute ''c1'' demo_form))" by code_simp
  then show ?thesis by (auto simp: is_ok_iff) (metis prod.collapse)
qed

lemma code_single_use_witness:
  "fst (take_code demo_oauth_env (exec_all (exec_code demo_oauth_env) [C_Take minute ''c2'' demo_form]
      (snd (take_code demo_oauth_env demo_codes minute ''c1'' demo_form))) minute ''c1'' demo_form) = Inl ''invalid authorization code''"
proof -
  obtain r codes' where "take_code demo_oauth_env demo_codes minute ''c1'' demo_form = (Inr r, codes')" using demo_take by blast
  from code_single_use [OF this, of "[C_Take minute ''c2'' demo_form]" demo_form minute "''c1''"] this show ?thesis by simp
qed

section \<open>The token endpoint\<close>

lemma GetOAuthClient_ok: "GetOAuthClient w k = Inr c \<Longrightarrow> oc_ClientID c = k"
  by (auto simp: GetOAuthClient_def client_of_row_def split: option.splits dest!: find_in)

lemma save_pair_ok:
  assumes "save_pair E w p created access refresh = (Inr te, w')"
  shows "SaveOAuthTokenPair w p = (Inr (), w')" and "te_AccessToken te = access" and "te_RefreshToken te = refresh"
  using assms by (auto simp: save_pair_def split: prod.splits sum.splits)

lemma saved_access_token:
  assumes "SaveOAuthTokenPair w p = (Inr (), w')" and "unix now < unix (pr_AccessExpires p)"
  shows "AuthenticateOAuthAccessToken w' (pr_AccessHash p) now =
    Inr (pr_Record p\<lparr>ok_ExpiresAt := from_unix (unix (pr_AccessExpires p))\<rparr>)"
proof -
  have ok: "is_ok (fst (SaveOAuthTokenPair w p))" by (simp add: assms(1))
  note s = SaveOAuthTokenPair_ok(2,4,5) [OF ok]
  let ?r = "pair_row (pr_AccessHash p) (pr_Record p) (pr_Now p) (pr_AccessExpires p)"
  have "od_access w' = od_access w @ [?r]" using s(3) assms(1) by simp
  moreover have "find (\<lambda>r. otr_TokenHash r = pr_AccessHash p \<and> otr_AuthorizationID r \<noteq> None \<and> otr_AuthorizationID r \<noteq> Some []) (od_access w) = None"
    using s(2) by (auto simp: find_None_iff intro: rev_image_eqI)
  ultimately show ?thesis using s(1) assms(2)
    by (simp add: AuthenticateOAuthAccessToken_def oauthTokenRecord_def find_snoc pair_row_def)
qed

lemma token_pair_for_simps [simp]:
  "pr_AccessHash (token_pair_for E ow c sc res con a acc ref) = OAuth_HashToken E acc"
  "pr_AccessExpires (token_pair_for E ow c sc res con a acc ref) = ov_clock E 1 + oauthAccessTokenTTL"
  "pr_ConsumedRefreshHash (token_pair_for E ow c sc res con a acc ref) = con"
  "pr_Record (token_pair_for E ow c sc res con a acc ref) = \<lparr>ok_AuthorizationID = a, ok_OwnerID = ow, ok_ClientID = oc_ClientID c,
     ok_Scopes = string_fields sc, ok_Resource = res, ok_ExpiresAt = zero_time\<rparr>"
  by (simp_all add: token_pair_for_def Let_def)

lemma issueOAuthTokens_ok:
  assumes "issueOAuthTokens E w ownerID client scope resource authorizationID consumed = (Inr te, w')"
  shows "\<exists>w1 a refresh. SaveOAuthTokenPair w1 (token_pair_for E ownerID client scope resource consumed a (te_AccessToken te) refresh) = (Inr (), w')
    \<and> (authorizationID \<noteq> [] \<longrightarrow> a = authorizationID)"
proof -
  have "\<exists>w1 a created access refresh. save_pair E w1 (token_pair_for E ownerID client scope resource consumed a access refresh) created access refresh = (Inr te, w')
      \<and> (authorizationID \<noteq> [] \<longrightarrow> a = authorizationID)"
    using assms by (auto simp: issueOAuthTokens_def Let_def split: option.splits if_splits prod.splits sum.splits) blast+
  then show ?thesis using save_pair_ok by blast
qed

text \<open>Property C22: a token answer to an authorization code rests on a pending code that had not expired, was granted to this very
  client, and whose PKCE challenge the verifier meets; the code is gone afterwards; and the new access token authenticates for the
  next hour, as the owner who granted the code, for the granted scopes and resource.
\<close>

theorem code_exchange:
  assumes "handleOAuthToken E w codes f = (Inr te, w', codes')" and "tf_GrantType f = ''authorization_code''"
    and "unix now < unix (ov_clock E 1 + oauthAccessTokenTTL)"
  shows "\<exists>r. (tf_Code f, r) \<in> set codes \<and> ov_clock E 0 < cd_ExpiresAt r \<and> cd_ClientID r = trim_space (tf_ClientID f)
    \<and> verifyPKCE E (cd_CodeChallenge r) (tf_CodeVerifier f) \<and> tf_Code f \<notin> fst ` set codes'
    \<and> (\<exists>i. AuthenticateOAuthAccessToken w' (OAuth_HashToken E (te_AccessToken te)) now = Inr i \<and> ok_OwnerID i = cd_OwnerID r
         \<and> ok_ClientID i = cd_ClientID r \<and> ok_Scopes i = string_fields (cd_Scope r) \<and> ok_Resource i = cd_Resource r)"
proof -
  obtain client where c: "oc_ClientID client = trim_space (tf_ClientID f)"
    and x: "handleOAuthAuthorizationCodeExchange E (ov_others E 0 w) codes client f = (Inr te, w', codes')"
    using assms(1,2) by (auto simp: handleOAuthToken_def split: sum.splits if_splits dest!: GetOAuthClient_ok)
  obtain r where t: "take_code E codes (ov_clock E 0) (oc_ClientID client) f = (Inr r, codes')"
    and i: "issueOAuthTokens E (ov_others E 1 (ov_others E 0 w)) (cd_OwnerID r) client (cd_Scope r) (cd_Resource r) [] [] = (Inr te, w')"
    using x by (auto simp: handleOAuthAuthorizationCodeExchange_def split: prod.splits sum.splits)
  obtain w1 a refresh where s: "SaveOAuthTokenPair w1
      (token_pair_for E (cd_OwnerID r) client (cd_Scope r) (cd_Resource r) [] a (te_AccessToken te) refresh) = (Inr (), w')"
    using issueOAuthTokens_ok [OF i] by blast
  have "AuthenticateOAuthAccessToken w' (OAuth_HashToken E (te_AccessToken te)) now
      = Inr \<lparr>ok_AuthorizationID = a, ok_OwnerID = cd_OwnerID r, ok_ClientID = oc_ClientID client, ok_Scopes = string_fields (cd_Scope r),
          ok_Resource = cd_Resource r, ok_ExpiresAt = from_unix (unix (ov_clock E 1 + oauthAccessTokenTTL))\<rparr>"
    using saved_access_token [OF s, of now] assms(3) by simp
  then show ?thesis using take_code_ok [OF t] c by (intro exI [of _ r]) simp
qed

lemma demo_exchange: "\<exists>te w' codes'. handleOAuthToken demo_oauth_env demo_oauth demo_codes demo_form = (Inr te, w', codes')"
proof -
  have "is_ok (fst (handleOAuthToken demo_oauth_env demo_oauth demo_codes demo_form))"
    unfolding demo_oauth_def exec_all_def by code_simp
  then show ?thesis by (auto simp: is_ok_iff) (metis prod.collapse)
qed

lemma code_exchange_witness:
  "\<exists>te w' codes' i. handleOAuthToken demo_oauth_env demo_oauth demo_codes demo_form = (Inr te, w', codes')
    \<and> AuthenticateOAuthAccessToken w' (OAuth_HashToken demo_oauth_env (te_AccessToken te)) hour = Inr i \<and> ok_OwnerID i = ''o1''"
proof -
  obtain te w' codes' where h: "handleOAuthToken demo_oauth_env demo_oauth demo_codes demo_form = (Inr te, w', codes')"
    using demo_exchange by blast
  have f: "tf_GrantType demo_form = ''authorization_code''" by (simp add: demo_form_def)
  have t: "unix hour < unix (ov_clock demo_oauth_env 1 + oauthAccessTokenTTL)"
    by (simp add: demo_oauth_env_def oauthAccessTokenTTL_def time_units unix_def)
  from code_exchange [OF h f t] show ?thesis using h by (auto simp: demo_codes_def)
qed

section \<open>Bearer tokens\<close>

text \<open>A request on \<open>/mcp\<close> is admitted only by a stored access token that has not expired, carries the scope of the
  Hub, was issued for this server's resource and belongs to an authorization that is not revoked; it acts for the owner of that token.
\<close>

theorem bearer_sound:
  assumes "wf_oauth w" and "mcpTokenVerifier E w server_resource token = (Inr i, w')"
  shows "\<exists>t \<in> set (od_access w). otr_TokenHash t = OAuth_HashToken E token \<and> unix (ov_clock E 0) < otr_ExpiresAt t
    \<and> oauthScope \<in> set (otr_Scopes t) \<and> server_resource = Some (otr_Resource t) \<and> otr_OwnerID t = ti_UserID i
    \<and> otr_AuthorizationID t = Some (ti_AuthorizationID i) \<and> \<not> revoked_in w (ti_AuthorizationID i)"
proof -
  obtain r where r: "AuthenticateOAuthAccessToken w (OAuth_HashToken E token) (ov_clock E 0) = Inr r" "oauthScope \<in> set (ok_Scopes r)"
      "server_resource = Some (ok_Resource r)" "ti_UserID i = ok_OwnerID r" "ti_AuthorizationID i = ok_AuthorizationID r"
    using assms(2) by (auto simp: mcpTokenVerifier_def Let_def split: sum.splits if_splits)
  obtain t where t: "t \<in> set (od_access w)" "otr_TokenHash t = OAuth_HashToken E token"
      "otr_AuthorizationID t = Some (ok_AuthorizationID r)" "unix (ov_clock E 0) < otr_ExpiresAt t" "ok_OwnerID r = otr_OwnerID t"
      "ok_Scopes r = otr_Scopes t" "ok_Resource r = otr_Resource t"
    using token_record_ok [OF r(1) [unfolded AuthenticateOAuthAccessToken_def]] by blast
  have "\<not> revoked_in w (ok_AuthorizationID r)"
    using assms(1) t(1) unfolding wf_oauth_def tokens_in_force_def t(3) by (metis UnI1 option.inject t(3))
  then show ?thesis using r t by auto
qed

definition demo_bearer :: oauth_db where
  "demo_bearer = exec_all exec_oauth [O_RegisterLimited demo_client demo_limits, O_CreateAuthorization demo_authorization,
     O_SavePair (demo_pair (OAuth_HashToken demo_oauth_env ''oat'') ''r1'' [] 0)] no_oauth"

lemma bearer_sound_witness:
  "is_ok (fst (mcpTokenVerifier demo_oauth_env demo_bearer (Some ''/mcp'') ''oat'')) \<and> \<not> revoked_in demo_bearer ''a1''"
proof
  have wf: "wf_oauth demo_bearer" unfolding demo_bearer_def by (rule wf_oauth_run) (rule wf_no_oauth)
  show ok: "is_ok (fst (mcpTokenVerifier demo_oauth_env demo_bearer (Some ''/mcp'') ''oat''))"
    unfolding demo_bearer_def exec_all_def by code_simp
  then obtain i w' where i: "mcpTokenVerifier demo_oauth_env demo_bearer (Some ''/mcp'') ''oat'' = (Inr i, w')"
    by (auto simp: is_ok_iff) (metis prod.collapse)
  have "map otr_AuthorizationID (od_access demo_bearer) = [Some ''a1'']" unfolding demo_bearer_def exec_all_def by code_simp
  then have "\<forall>t \<in> set (od_access demo_bearer). otr_AuthorizationID t = Some ''a1''"
    by (auto simp: map_eq_Cons_conv)
  with bearer_sound [OF wf i] show "\<not> revoked_in demo_bearer ''a1''" by auto
qed

end
