(* ===== verification/Account_Store.thy ===== *)
theory Account_Store
  imports Collab_Store Credential_Rows
begin

text \<open>
  Owners and administrators with the credentials they sign in with (\<open>store/accounts.go\<close>, \<open>store/admin.go\<close>, the
  bootstrap and connection tokens of \<open>store/store.go\<close>): the tables \<open>owners\<close>, \<open>bootstrap_tokens\<close>,
  \<open>connection_tokens\<close>, \<open>direct_access_keys\<close>, \<open>web_sessions\<close>, \<open>admin_accounts\<close> and
  \<open>admin_sessions\<close>, with their primary keys, \<open>UNIQUE\<close> columns and foreign keys. A statement that violates
  one leaves the tables as they were. Nothing deletes an owner or an administrator.
\<close>

section \<open>Rows\<close>

record owner_row =
  ow_ID :: string
  ow_DisplayName :: string
  ow_Username :: "string option"
  ow_PasswordHash :: "string option"
  ow_CreatedAt :: int

record bootstrap_row =
  bt_ID :: string
  bt_TokenHash :: string
  bt_CreatedAt :: int
  bt_ExpiresAt :: int
  bt_ConsumedAt :: "int option"

record connection_row =
  ct_ID :: string
  ct_OwnerID :: string
  ct_TokenHash :: string
  ct_Label :: "string option"
  ct_CreatedAt :: int
  ct_LastUsedAt :: "int option"
  ct_ExpiresAt :: "int option"
  ct_RevokedAt :: "int option"
  ct_DeletedAt :: "int option"

record direct_row =
  dk_ID :: string
  dk_OwnerID :: string
  dk_TokenHash :: string
  dk_TokenHint :: string
  dk_Label :: string
  dk_Scopes :: "string list"
  dk_MachineID :: "string option"
  dk_RateLimitPerMinute :: int
  dk_CreatedAt :: int
  dk_LastUsedAt :: "int option"
  dk_ExpiresAt :: int
  dk_RevokedAt :: "int option"
  dk_DeletedAt :: "int option"

record web_row =
  ws_ID :: string
  ws_OwnerID :: string
  ws_TokenHash :: string
  ws_CSRFToken :: string
  ws_CreatedAt :: int
  ws_LastSeenAt :: int
  ws_ExpiresAt :: int
  ws_RevokedAt :: "int option"

record admin_row =
  am_ID :: string
  am_Username :: string
  am_PasswordHash :: string
  am_PasswordVersion :: int
  am_CreatedAt :: int
  am_UpdatedAt :: int

record admin_session_row =
  as_ID :: string
  as_AdminID :: string
  as_TokenHash :: string
  as_CSRFToken :: string
  as_CreatedAt :: int
  as_LastSeenAt :: int
  as_ExpiresAt :: int
  as_RevokedAt :: "int option"

record accounts =
  ac_owners :: "owner_row list"
  ac_bootstrap :: "bootstrap_row list"
  ac_connections :: "connection_row list"
  ac_direct :: "direct_row list"
  ac_web :: "web_row list"
  ac_admins :: "admin_row list"
  ac_admin_sessions :: "admin_session_row list"

definition owner_exists :: "accounts \<Rightarrow> string \<Rightarrow> bool" where
  "owner_exists w k = list_ex (\<lambda>u. ow_ID u = k) (ac_owners w)"

section \<open>Owners\<close>

record owner_account =
  oo_Owner :: string
  oo_Username :: string
  oo_DisplayName :: string
  oo_PasswordHash :: string
  oo_Created :: instant

definition given :: "string option \<Rightarrow> bool" where
  "given v = (v \<noteq> None \<and> v \<noteq> Some [])"

definition HasOwnerAccount :: "accounts \<Rightarrow> bool" where
  "HasOwnerAccount w = list_ex (\<lambda>u. given (ow_Username u) \<and> given (ow_PasswordHash u)) (ac_owners w)"

definition HasOwner :: "accounts \<Rightarrow> bool" where
  "HasOwner w = (ac_owners w \<noteq> [])"

text \<open>The first time, the Hub writes one bootstrap token; once there is an owner, none.\<close>

definition EnsureBootstrapToken :: "accounts \<Rightarrow> string \<Rightarrow> string \<Rightarrow> instant \<Rightarrow> instant \<Rightarrow> bool \<times> accounts" where
  "EnsureBootstrapToken w k h now expires =
     (if ac_owners w \<noteq> [] then (False, w)
      else (True, w\<lparr>ac_bootstrap := [\<lparr>bt_ID = k, bt_TokenHash = h, bt_CreatedAt = unix now, bt_ExpiresAt = unix expires,
             bt_ConsumedAt = None\<rparr>]\<rparr>))"

definition insert_owner :: "accounts \<Rightarrow> string \<Rightarrow> string \<Rightarrow> string \<Rightarrow> string \<Rightarrow> instant \<Rightarrow> (hub_error + unit) \<times> accounts" where
  "insert_owner w ownerID username displayName passwordHash now =
     (if list_ex (\<lambda>u. ow_ID u = ownerID \<or> ow_Username u = Some username) (ac_owners w) then (Inl constraint_error, w)
      else (Inr (), w\<lparr>ac_owners := ac_owners w @ [\<lparr>ow_ID = ownerID, ow_DisplayName = displayName, ow_Username = Some username,
             ow_PasswordHash = Some passwordHash, ow_CreatedAt = unix now\<rparr>]\<rparr>))"

definition BootstrapOwnerAccount ::
    "accounts \<Rightarrow> string \<Rightarrow> string \<Rightarrow> string \<Rightarrow> string \<Rightarrow> string \<Rightarrow> instant \<Rightarrow> (hub_error + string) \<times> accounts" where
  "BootstrapOwnerAccount w bootstrapHash ownerID username displayName passwordHash now =
     (case find (\<lambda>b. bt_TokenHash b = bootstrapHash) (ac_bootstrap w) of
        None \<Rightarrow> (Inl ErrUnauthorized, w)
      | Some b \<Rightarrow>
          if bt_ConsumedAt b \<noteq> None then (Inl ErrConsumed, w)
          else if bt_ExpiresAt b \<le> unix now then (Inl ErrExpired, w)
          else if ac_owners w \<noteq> [] then (Inl ErrConflict, w)
          else (case insert_owner w ownerID username displayName passwordHash now of
            (Inl e, _) \<Rightarrow> (Inl e, w)
          | (Inr _, w1) \<Rightarrow>
              let p = (\<lambda>c. bt_ID c = bt_ID b \<and> bt_ConsumedAt c = None)
              in if sql_affected p (ac_bootstrap w1) \<noteq> 1 then (Inl ErrConflict, w)
                 else (Inr ownerID, w1\<lparr>ac_bootstrap := sql_update p (\<lambda>c. c\<lparr>bt_ConsumedAt := Some (unix now)\<rparr>) (ac_bootstrap w1)\<rparr>)))"

definition owner_account_of :: "owner_row option \<Rightarrow> hub_error + owner_account" where
  "owner_account_of r =
     (case r of
        None \<Rightarrow> Inl ErrNotFound
      | Some u \<Rightarrow>
          if \<not> given (ow_Username u) \<or> \<not> given (ow_PasswordHash u) then Inl ErrUnauthorized
          else Inr \<lparr>oo_Owner = ow_ID u, oo_Username = the (ow_Username u), oo_DisplayName = ow_DisplayName u,
                 oo_PasswordHash = the (ow_PasswordHash u), oo_Created = from_unix (ow_CreatedAt u)\<rparr>)"

definition OwnerAccountByUsername :: "accounts \<Rightarrow> string \<Rightarrow> hub_error + owner_account" where
  "OwnerAccountByUsername w username = owner_account_of (find (\<lambda>u. ow_Username u = Some username) (ac_owners w))"

definition OwnerAccountByID :: "accounts \<Rightarrow> string \<Rightarrow> hub_error + owner_account" where
  "OwnerAccountByID w ownerID = owner_account_of (find (\<lambda>u. ow_ID u = ownerID) (ac_owners w))"

definition ChangeOwnerPassword_row :: "accounts \<Rightarrow> string \<Rightarrow> string \<Rightarrow> string \<Rightarrow> instant \<Rightarrow> (hub_error + unit) \<times> accounts" where
  "ChangeOwnerPassword_row w ownerID passwordHash keepSessionID now =
     (let p = (\<lambda>u. ow_ID u = ownerID)
      in if sql_affected p (ac_owners w) \<noteq> 1 then (Inl ErrNotFound, w)
         else (Inr (), w\<lparr>ac_owners := sql_update p (\<lambda>u. u\<lparr>ow_PasswordHash := Some passwordHash\<rparr>) (ac_owners w),
                ac_web := sql_update (\<lambda>s. ws_OwnerID s = ownerID \<and> ws_ID s \<noteq> keepSessionID \<and> ws_RevokedAt s = None)
                  (\<lambda>s. s\<lparr>ws_RevokedAt := Some (unix now)\<rparr>) (ac_web w)\<rparr>))"

definition CreateOwnerAccount :: "accounts \<Rightarrow> string \<Rightarrow> string \<Rightarrow> string \<Rightarrow> string \<Rightarrow> instant \<Rightarrow> (hub_error + unit) \<times> accounts" where
  "CreateOwnerAccount w ownerID username displayName passwordHash now = insert_owner w ownerID username displayName passwordHash now"

text \<open>\<open>ORDER BY created_at DESC, id ASC\<close>.\<close>

definition ListOwnerAccounts :: "accounts \<Rightarrow> (string \<times> string \<times> string \<times> instant) list" where
  "ListOwnerAccounts w = map (\<lambda>u. (ow_ID u, case ow_Username u of None \<Rightarrow> [] | Some name \<Rightarrow> name, ow_DisplayName u, from_unix (ow_CreatedAt u)))
     (sort_key (\<lambda>u. (- ow_CreatedAt u, ow_ID u)) (ac_owners w))"

definition ClearBootstrapTokens :: "accounts \<Rightarrow> accounts" where
  "ClearBootstrapTokens w = w\<lparr>ac_bootstrap := []\<rparr>"

section \<open>Connection tokens\<close>

record connection_token =
  cn_ID :: string
  cn_OwnerID :: string
  cn_Label :: string
  cn_CreatedAt :: instant
  cn_LastUsedAt :: "instant option"
  cn_ExpiresAt :: "instant option"
  cn_RevokedAt :: "instant option"

definition CreateConnectionToken_row :: "accounts \<Rightarrow> connection_token \<Rightarrow> string \<Rightarrow> (hub_error + unit) \<times> accounts" where
  "CreateConnectionToken_row w c h =
     (if list_ex (\<lambda>r. ct_ID r = cn_ID c \<or> ct_TokenHash r = h) (ac_connections w) \<or> \<not> owner_exists w (cn_OwnerID c)
      then (Inl constraint_error, w)
      else (Inr (), w\<lparr>ac_connections := ac_connections w @ [\<lparr>ct_ID = cn_ID c, ct_OwnerID = cn_OwnerID c, ct_TokenHash = h,
             ct_Label = null_string (cn_Label c), ct_CreatedAt = unix (cn_CreatedAt c), ct_LastUsedAt = None,
             ct_ExpiresAt = map_option unix (cn_ExpiresAt c), ct_RevokedAt = None, ct_DeletedAt = None\<rparr>]\<rparr>))"

definition ListConnectionTokens_rows :: "accounts \<Rightarrow> string \<Rightarrow> connection_token list" where
  "ListConnectionTokens_rows w ownerID =
     map (\<lambda>r. \<lparr>cn_ID = ct_ID r, cn_OwnerID = ct_OwnerID r, cn_Label = (case ct_Label r of None \<Rightarrow> [] | Some l \<Rightarrow> l),
          cn_CreatedAt = from_unix (ct_CreatedAt r), cn_LastUsedAt = map_option from_unix (ct_LastUsedAt r),
          cn_ExpiresAt = map_option from_unix (ct_ExpiresAt r), cn_RevokedAt = map_option from_unix (ct_RevokedAt r)\<rparr>)
       (sort_key (\<lambda>r. (- ct_CreatedAt r, ct_ID r))
         (filter (\<lambda>r. ct_OwnerID r = ownerID \<and> ct_DeletedAt r = None) (ac_connections w)))"

text \<open>The use of a token is noted at most every five minutes, and whether that works does not matter.\<close>

definition AuthenticateConnectionToken_row :: "accounts \<Rightarrow> string \<Rightarrow> instant \<Rightarrow> (hub_error + string) \<times> accounts" where
  "AuthenticateConnectionToken_row w h now =
     (case find (\<lambda>r. ct_TokenHash r = h \<and> ct_DeletedAt r = None) (ac_connections w) of
        None \<Rightarrow> (Inl ErrUnauthorized, w)
      | Some r \<Rightarrow>
          if ct_RevokedAt r \<noteq> None then (Inl ErrRevoked, w)
          else if (case ct_ExpiresAt r of None \<Rightarrow> False | Some e \<Rightarrow> e \<le> unix now) then (Inl ErrExpired, w)
          else (Inr (ct_OwnerID r),
            if (case ct_LastUsedAt r of None \<Rightarrow> True | Some u \<Rightarrow> 300 \<le> unix now - u) then
              w\<lparr>ac_connections := sql_update (\<lambda>c. ct_ID c = ct_ID r \<and> ct_RevokedAt c = None \<and> ct_DeletedAt c = None)
                 (\<lambda>c. c\<lparr>ct_LastUsedAt := Some (unix now)\<rparr>) (ac_connections w)\<rparr>
            else w))"

definition RevokeConnectionToken_row :: "accounts \<Rightarrow> string \<Rightarrow> string \<Rightarrow> instant \<Rightarrow> (hub_error + unit) \<times> accounts" where
  "RevokeConnectionToken_row w ownerID tokenID now =
     (let p = (\<lambda>r. ct_ID r = tokenID \<and> ct_OwnerID r = ownerID \<and> ct_RevokedAt r = None \<and> ct_DeletedAt r = None)
      in if sql_affected p (ac_connections w) = 0 then (Inl ErrNotFound, w)
         else (Inr (), w\<lparr>ac_connections := sql_update p (\<lambda>r. r\<lparr>ct_RevokedAt := Some (unix now)\<rparr>) (ac_connections w)\<rparr>))"

definition DeleteConnectionToken_row :: "accounts \<Rightarrow> string \<Rightarrow> string \<Rightarrow> instant \<Rightarrow> (hub_error + unit) \<times> accounts" where
  "DeleteConnectionToken_row w ownerID tokenID now =
     (let p = (\<lambda>r. ct_ID r = tokenID \<and> ct_OwnerID r = ownerID \<and> ct_DeletedAt r = None
            \<and> (ct_RevokedAt r \<noteq> None \<or> (case ct_ExpiresAt r of None \<Rightarrow> False | Some e \<Rightarrow> e \<le> unix now)))
      in if sql_affected p (ac_connections w) = 0 then (Inl ErrConflict, w)
         else (Inr (), w\<lparr>ac_connections := sql_update p (\<lambda>r. r\<lparr>ct_DeletedAt := Some (unix now)\<rparr>) (ac_connections w)\<rparr>))"

section \<open>Direct access keys\<close>

record direct_key =
  da_ID :: string
  da_OwnerID :: string
  da_TokenHint :: string
  da_Label :: string
  da_Scopes :: "string list"
  da_MachineID :: string
  da_RateLimitPerMinute :: int
  da_CreatedAt :: instant
  da_LastUsedAt :: "instant option"
  da_ExpiresAt :: instant
  da_RevokedAt :: "instant option"

definition CreateDirectAccessKey_row :: "accounts \<Rightarrow> direct_key \<Rightarrow> string \<Rightarrow> (hub_error + unit) \<times> accounts" where
  "CreateDirectAccessKey_row w c h =
     (if list_ex (\<lambda>r. dk_ID r = da_ID c \<or> dk_TokenHash r = h) (ac_direct w) \<or> \<not> owner_exists w (da_OwnerID c)
        \<or> da_RateLimitPerMinute c < 1 \<or> 600 < da_RateLimitPerMinute c
      then (Inl constraint_error, w)
      else (Inr (), w\<lparr>ac_direct := ac_direct w @ [\<lparr>dk_ID = da_ID c, dk_OwnerID = da_OwnerID c, dk_TokenHash = h,
             dk_TokenHint = da_TokenHint c, dk_Label = da_Label c, dk_Scopes = da_Scopes c, dk_MachineID = null_string (da_MachineID c),
             dk_RateLimitPerMinute = da_RateLimitPerMinute c, dk_CreatedAt = unix (da_CreatedAt c), dk_LastUsedAt = None,
             dk_ExpiresAt = unix (da_ExpiresAt c), dk_RevokedAt = None, dk_DeletedAt = None\<rparr>]\<rparr>))"

definition direct_key_of :: "direct_row \<Rightarrow> direct_key" where
  "direct_key_of r = \<lparr>da_ID = dk_ID r, da_OwnerID = dk_OwnerID r, da_TokenHint = dk_TokenHint r, da_Label = dk_Label r,
     da_Scopes = dk_Scopes r, da_MachineID = (case dk_MachineID r of None \<Rightarrow> [] | Some m \<Rightarrow> m),
     da_RateLimitPerMinute = dk_RateLimitPerMinute r, da_CreatedAt = from_unix (dk_CreatedAt r),
     da_LastUsedAt = map_option from_unix (dk_LastUsedAt r), da_ExpiresAt = from_unix (dk_ExpiresAt r),
     da_RevokedAt = map_option from_unix (dk_RevokedAt r)\<rparr>"

definition ListDirectAccessKeys_rows :: "accounts \<Rightarrow> string \<Rightarrow> direct_key list" where
  "ListDirectAccessKeys_rows w ownerID =
     map direct_key_of (sort_key (\<lambda>r. (- dk_CreatedAt r, dk_ID r))
       (filter (\<lambda>r. dk_OwnerID r = ownerID \<and> dk_DeletedAt r = None) (ac_direct w)))"

definition AuthenticateDirectAccessKey_row :: "accounts \<Rightarrow> string \<Rightarrow> instant \<Rightarrow> (hub_error + direct_key) \<times> accounts" where
  "AuthenticateDirectAccessKey_row w h now =
     (case find (\<lambda>r. dk_TokenHash r = h \<and> dk_DeletedAt r = None) (ac_direct w) of
        None \<Rightarrow> (Inl ErrUnauthorized, w)
      | Some r \<Rightarrow>
          if dk_RevokedAt r \<noteq> None then (Inl ErrRevoked, w)
          else if dk_ExpiresAt r \<le> unix now then (Inl ErrExpired, w)
          else if (case dk_LastUsedAt r of None \<Rightarrow> True | Some u \<Rightarrow> 60 \<le> unix now - u) then
            (Inr ((direct_key_of r)\<lparr>da_LastUsedAt := Some now\<rparr>),
             w\<lparr>ac_direct := sql_update (\<lambda>c. dk_ID c = dk_ID r \<and> dk_RevokedAt c = None \<and> dk_DeletedAt c = None)
                 (\<lambda>c. c\<lparr>dk_LastUsedAt := Some (unix now)\<rparr>) (ac_direct w)\<rparr>)
          else (Inr (direct_key_of r), w))"

definition RevokeDirectAccessKey_row :: "accounts \<Rightarrow> string \<Rightarrow> string \<Rightarrow> instant \<Rightarrow> (hub_error + unit) \<times> accounts" where
  "RevokeDirectAccessKey_row w ownerID keyID now =
     (let p = (\<lambda>r. dk_ID r = keyID \<and> dk_OwnerID r = ownerID \<and> dk_RevokedAt r = None \<and> dk_DeletedAt r = None)
      in if sql_affected p (ac_direct w) = 0 then (Inl ErrNotFound, w)
         else (Inr (), w\<lparr>ac_direct := sql_update p (\<lambda>r. r\<lparr>dk_RevokedAt := Some (unix now)\<rparr>) (ac_direct w)\<rparr>))"

definition DeleteDirectAccessKey_row :: "accounts \<Rightarrow> string \<Rightarrow> string \<Rightarrow> instant \<Rightarrow> (hub_error + unit) \<times> accounts" where
  "DeleteDirectAccessKey_row w ownerID keyID now =
     (let p = (\<lambda>r. dk_ID r = keyID \<and> dk_OwnerID r = ownerID \<and> dk_DeletedAt r = None
            \<and> (dk_RevokedAt r \<noteq> None \<or> dk_ExpiresAt r \<le> unix now))
      in if sql_affected p (ac_direct w) = 0 then (Inl ErrConflict, w)
         else (Inr (), w\<lparr>ac_direct := sql_update p (\<lambda>r. r\<lparr>dk_DeletedAt := Some (unix now)\<rparr>) (ac_direct w)\<rparr>))"

section \<open>Web sessions\<close>

record web_session =
  sn_ID :: string
  sn_OwnerID :: string
  sn_Username :: string
  sn_DisplayName :: string
  sn_CSRFToken :: string
  sn_CreatedAt :: instant
  sn_LastSeenAt :: instant
  sn_ExpiresAt :: instant

definition CreateWebSession_row :: "accounts \<Rightarrow> web_session \<Rightarrow> string \<Rightarrow> (hub_error + unit) \<times> accounts" where
  "CreateWebSession_row w c h =
     (if list_ex (\<lambda>r. ws_ID r = sn_ID c \<or> ws_TokenHash r = h) (ac_web w) \<or> \<not> owner_exists w (sn_OwnerID c)
      then (Inl constraint_error, w)
      else (Inr (), w\<lparr>ac_web := ac_web w @ [\<lparr>ws_ID = sn_ID c, ws_OwnerID = sn_OwnerID c, ws_TokenHash = h, ws_CSRFToken = sn_CSRFToken c,
             ws_CreatedAt = unix (sn_CreatedAt c), ws_LastSeenAt = unix (sn_LastSeenAt c), ws_ExpiresAt = unix (sn_ExpiresAt c),
             ws_RevokedAt = None\<rparr>]\<rparr>))"

text \<open>An owner without a username cannot be scanned into the record.\<close>

definition AuthenticateWebSession_row :: "accounts \<Rightarrow> string \<Rightarrow> instant \<Rightarrow> hub_error + web_session" where
  "AuthenticateWebSession_row w h now =
     (case find (\<lambda>(s, u). ws_TokenHash s = h) [(s, u). s \<leftarrow> ac_web w, u \<leftarrow> ac_owners w, ow_ID u = ws_OwnerID s] of
        None \<Rightarrow> Inl ErrUnauthorized
      | Some (s, u) \<Rightarrow>
          (case ow_Username u of
             None \<Rightarrow> Inl (OtherError ''scan'')
           | Some username \<Rightarrow>
               if ws_RevokedAt s \<noteq> None then Inl ErrRevoked
               else if ws_ExpiresAt s \<le> unix now then Inl ErrExpired
               else Inr \<lparr>sn_ID = ws_ID s, sn_OwnerID = ws_OwnerID s, sn_Username = username, sn_DisplayName = ow_DisplayName u,
                      sn_CSRFToken = ws_CSRFToken s, sn_CreatedAt = from_unix (ws_CreatedAt s), sn_LastSeenAt = from_unix (ws_LastSeenAt s),
                      sn_ExpiresAt = from_unix (ws_ExpiresAt s)\<rparr>))"

definition TouchWebSession :: "accounts \<Rightarrow> string \<Rightarrow> instant \<Rightarrow> accounts" where
  "TouchWebSession w sessionID now =
     w\<lparr>ac_web := sql_update (\<lambda>s. ws_ID s = sessionID \<and> ws_RevokedAt s = None \<and> unix now < ws_ExpiresAt s)
        (\<lambda>s. s\<lparr>ws_LastSeenAt := unix now\<rparr>) (ac_web w)\<rparr>"

definition RevokeWebSession_row :: "accounts \<Rightarrow> string \<Rightarrow> string \<Rightarrow> instant \<Rightarrow> (hub_error + unit) \<times> accounts" where
  "RevokeWebSession_row w sessionID ownerID now =
     (let p = (\<lambda>s. ws_ID s = sessionID \<and> ws_OwnerID s = ownerID \<and> ws_RevokedAt s = None)
      in if sql_affected p (ac_web w) = 0 then (Inl ErrNotFound, w)
         else (Inr (), w\<lparr>ac_web := sql_update p (\<lambda>s. s\<lparr>ws_RevokedAt := Some (unix now)\<rparr>) (ac_web w)\<rparr>))"

definition DeleteExpiredWebSessions :: "accounts \<Rightarrow> instant \<Rightarrow> accounts" where
  "DeleteExpiredWebSessions w now =
     w\<lparr>ac_web := sql_delete (\<lambda>s. ws_ExpiresAt s \<le> unix now \<or> ws_RevokedAt s \<noteq> None) (ac_web w)\<rparr>"

section \<open>Administrators\<close>

record admin_account =
  an_ID :: string
  an_Username :: string
  an_PasswordHash :: string
  an_PasswordVersion :: int
  an_CreatedAt :: instant

record admin_session =
  ae_ID :: string
  ae_AdminID :: string
  ae_Username :: string
  ae_CSRFToken :: string
  ae_CreatedAt :: instant
  ae_LastSeenAt :: instant
  ae_ExpiresAt :: instant

definition HasAdminAccount :: "accounts \<Rightarrow> string \<Rightarrow> bool" where
  "HasAdminAccount w username = list_ex (\<lambda>a. am_Username a = username) (ac_admins w)"

text \<open>\<open>ON CONFLICT(username) DO NOTHING\<close>.\<close>

definition CreateAdminAccountIfAbsent :: "accounts \<Rightarrow> string \<Rightarrow> string \<Rightarrow> string \<Rightarrow> instant \<Rightarrow> (hub_error + unit) \<times> accounts" where
  "CreateAdminAccountIfAbsent w k username passwordHash now =
     (if list_ex (\<lambda>a. am_Username a = username) (ac_admins w) then (Inr (), w)
      else if list_ex (\<lambda>a. am_ID a = k) (ac_admins w) then (Inl constraint_error, w)
      else (Inr (), w\<lparr>ac_admins := ac_admins w @ [\<lparr>am_ID = k, am_Username = username, am_PasswordHash = passwordHash,
             am_PasswordVersion = 1, am_CreatedAt = unix now, am_UpdatedAt = unix now\<rparr>]\<rparr>))"

definition AdminAccountByUsername :: "accounts \<Rightarrow> string \<Rightarrow> hub_error + admin_account" where
  "AdminAccountByUsername w username =
     (case find (\<lambda>a. am_Username a = username) (ac_admins w) of
        None \<Rightarrow> Inl ErrNotFound
      | Some a \<Rightarrow> Inr \<lparr>an_ID = am_ID a, an_Username = am_Username a, an_PasswordHash = am_PasswordHash a,
                   an_PasswordVersion = am_PasswordVersion a, an_CreatedAt = from_unix (am_CreatedAt a)\<rparr>)"

definition RotateAdminPassword :: "accounts \<Rightarrow> string \<Rightarrow> string \<Rightarrow> instant \<Rightarrow> (hub_error + unit) \<times> accounts" where
  "RotateAdminPassword w adminID passwordHash now =
     (let p = (\<lambda>a. am_ID a = adminID \<and> am_PasswordVersion a = 0)
      in if sql_affected p (ac_admins w) = 0 then (Inl ErrConflict, w)
         else (Inr (), w\<lparr>ac_admins := sql_update p (\<lambda>a. a\<lparr>am_PasswordHash := passwordHash, am_PasswordVersion := 1,
                  am_UpdatedAt := unix now\<rparr>) (ac_admins w),
                ac_admin_sessions := sql_update (\<lambda>s. as_AdminID s = adminID \<and> as_RevokedAt s = None)
                  (\<lambda>s. s\<lparr>as_RevokedAt := Some (unix now)\<rparr>) (ac_admin_sessions w)\<rparr>))"

definition CreateAdminSession_row :: "accounts \<Rightarrow> admin_session \<Rightarrow> string \<Rightarrow> (hub_error + unit) \<times> accounts" where
  "CreateAdminSession_row w c h =
     (if list_ex (\<lambda>r. as_ID r = ae_ID c \<or> as_TokenHash r = h) (ac_admin_sessions w)
        \<or> \<not> list_ex (\<lambda>a. am_ID a = ae_AdminID c) (ac_admins w)
      then (Inl constraint_error, w)
      else (Inr (), w\<lparr>ac_admin_sessions := ac_admin_sessions w @ [\<lparr>as_ID = ae_ID c, as_AdminID = ae_AdminID c, as_TokenHash = h,
             as_CSRFToken = ae_CSRFToken c, as_CreatedAt = unix (ae_CreatedAt c), as_LastSeenAt = unix (ae_LastSeenAt c),
             as_ExpiresAt = unix (ae_ExpiresAt c), as_RevokedAt = None\<rparr>]\<rparr>))"

definition AuthenticateAdminSession_row :: "accounts \<Rightarrow> string \<Rightarrow> instant \<Rightarrow> (hub_error + admin_session) \<times> accounts" where
  "AuthenticateAdminSession_row w h now =
     (case find (\<lambda>(s, a). as_TokenHash s = h) [(s, a). s \<leftarrow> ac_admin_sessions w, a \<leftarrow> ac_admins w, am_ID a = as_AdminID s] of
        None \<Rightarrow> (Inl ErrUnauthorized, w)
      | Some (s, a) \<Rightarrow>
          if as_RevokedAt s \<noteq> None then (Inl ErrRevoked, w)
          else if as_ExpiresAt s \<le> unix now then (Inl ErrExpired, w)
          else let stale = 60 \<le> unix now - as_LastSeenAt s
          in (Inr \<lparr>ae_ID = as_ID s, ae_AdminID = as_AdminID s, ae_Username = am_Username a, ae_CSRFToken = as_CSRFToken s,
                ae_CreatedAt = from_unix (as_CreatedAt s),
                ae_LastSeenAt = from_unix (if stale then unix now else as_LastSeenAt s), ae_ExpiresAt = from_unix (as_ExpiresAt s)\<rparr>,
              if stale then w\<lparr>ac_admin_sessions := sql_update (\<lambda>c. as_ID c = as_ID s \<and> as_RevokedAt c = None)
                  (\<lambda>c. c\<lparr>as_LastSeenAt := unix now\<rparr>) (ac_admin_sessions w)\<rparr>
              else w))"

definition RevokeAdminSession_row :: "accounts \<Rightarrow> string \<Rightarrow> instant \<Rightarrow> accounts" where
  "RevokeAdminSession_row w sessionID now =
     w\<lparr>ac_admin_sessions := sql_update (\<lambda>s. as_ID s = sessionID \<and> as_RevokedAt s = None)
        (\<lambda>s. s\<lparr>as_RevokedAt := Some (unix now)\<rparr>) (ac_admin_sessions w)\<rparr>"

section \<open>Maintenance\<close>

definition credentialHistoryRetention :: duration where "credentialHistoryRetention = 90 * 24 * hour"

definition cleanup_account_rows :: "accounts \<Rightarrow> instant \<Rightarrow> accounts" where
  "cleanup_account_rows w now =
     (let past = unix (now - credentialHistoryRetention); gone = (\<lambda>v. case v of None \<Rightarrow> False | Some t \<Rightarrow> t \<le> past)
      in w\<lparr>ac_bootstrap := sql_delete (\<lambda>b. bt_ExpiresAt b \<le> unix now) (ac_bootstrap w),
           ac_web := sql_delete (\<lambda>s. ws_ExpiresAt s \<le> unix now \<or> ws_RevokedAt s \<noteq> None) (ac_web w),
           ac_admin_sessions := sql_delete (\<lambda>s. as_ExpiresAt s \<le> unix now \<or> as_RevokedAt s \<noteq> None) (ac_admin_sessions w),
           ac_connections := sql_delete (\<lambda>c. gone (ct_RevokedAt c) \<or> gone (ct_ExpiresAt c)) (ac_connections w),
           ac_direct := sql_delete (\<lambda>d. gone (dk_RevokedAt d) \<or> dk_ExpiresAt d \<le> past) (ac_direct w)\<rparr>)"

end
