(* ===== verification/Account_Steps.thy ===== *)
theory Account_Steps
  imports Account_Store
begin

text \<open>
  The statements of the account tables as steps, the invariant every sequence of them keeps, and what stays shut: connection
  tokens, direct access keys, web sessions and administrator sessions are four instances of \<open>credential_rows\<close>.
\<close>

datatype account_stmt =
    A_EnsureBootstrap string string instant instant
  | A_Bootstrap string string string string string instant
  | A_CreateOwner string string string string instant
  | A_ClearBootstrap
  | A_ChangePassword string string string instant
  | A_CreateConnection connection_token string
  | A_UseConnection string instant
  | A_RevokeConnection string string instant
  | A_DeleteConnection string string instant
  | A_CreateDirect direct_key string
  | A_UseDirect string instant
  | A_RevokeDirect string string instant
  | A_DeleteDirect string string instant
  | A_CreateWeb web_session string
  | A_TouchWeb string instant
  | A_RevokeWeb string string instant
  | A_DeleteExpiredWeb instant
  | A_CreateAdmin string string string instant
  | A_RotateAdmin string string instant
  | A_CreateAdminSession admin_session string
  | A_UseAdminSession string instant
  | A_RevokeAdminSession string instant
  | A_CleanupAccounts instant

fun exec_account :: "account_stmt \<Rightarrow> accounts \<Rightarrow> accounts" where
  "exec_account (A_EnsureBootstrap k h now ex) w = snd (EnsureBootstrapToken w k h now ex)"
| "exec_account (A_Bootstrap h k un dn ph now) w = snd (BootstrapOwnerAccount w h k un dn ph now)"
| "exec_account (A_CreateOwner k un dn ph now) w = snd (CreateOwnerAccount w k un dn ph now)"
| "exec_account A_ClearBootstrap w = ClearBootstrapTokens w"
| "exec_account (A_ChangePassword k ph keep now) w = snd (ChangeOwnerPassword_row w k ph keep now)"
| "exec_account (A_CreateConnection c h) w = snd (CreateConnectionToken_row w c h)"
| "exec_account (A_UseConnection h now) w = snd (AuthenticateConnectionToken_row w h now)"
| "exec_account (A_RevokeConnection ow k now) w = snd (RevokeConnectionToken_row w ow k now)"
| "exec_account (A_DeleteConnection ow k now) w = snd (DeleteConnectionToken_row w ow k now)"
| "exec_account (A_CreateDirect c h) w = snd (CreateDirectAccessKey_row w c h)"
| "exec_account (A_UseDirect h now) w = snd (AuthenticateDirectAccessKey_row w h now)"
| "exec_account (A_RevokeDirect ow k now) w = snd (RevokeDirectAccessKey_row w ow k now)"
| "exec_account (A_DeleteDirect ow k now) w = snd (DeleteDirectAccessKey_row w ow k now)"
| "exec_account (A_CreateWeb c h) w = snd (CreateWebSession_row w c h)"
| "exec_account (A_TouchWeb k now) w = TouchWebSession w k now"
| "exec_account (A_RevokeWeb k ow now) w = snd (RevokeWebSession_row w k ow now)"
| "exec_account (A_DeleteExpiredWeb now) w = DeleteExpiredWebSessions w now"
| "exec_account (A_CreateAdmin k un ph now) w = snd (CreateAdminAccountIfAbsent w k un ph now)"
| "exec_account (A_RotateAdmin k ph now) w = snd (RotateAdminPassword w k ph now)"
| "exec_account (A_CreateAdminSession c h) w = snd (CreateAdminSession_row w c h)"
| "exec_account (A_UseAdminSession h now) w = snd (AuthenticateAdminSession_row w h now)"
| "exec_account (A_RevokeAdminSession k now) w = RevokeAdminSession_row w k now"
| "exec_account (A_CleanupAccounts now) w = cleanup_account_rows w now"

lemmas account_defs = EnsureBootstrapToken_def BootstrapOwnerAccount_def CreateOwnerAccount_def insert_owner_def
  ClearBootstrapTokens_def ChangeOwnerPassword_row_def CreateConnectionToken_row_def AuthenticateConnectionToken_row_def
  RevokeConnectionToken_row_def DeleteConnectionToken_row_def CreateDirectAccessKey_row_def AuthenticateDirectAccessKey_row_def
  RevokeDirectAccessKey_row_def DeleteDirectAccessKey_row_def CreateWebSession_row_def TouchWebSession_def RevokeWebSession_row_def
  DeleteExpiredWebSessions_def CreateAdminAccountIfAbsent_def RotateAdminPassword_def CreateAdminSession_row_def
  AuthenticateAdminSession_row_def RevokeAdminSession_row_def cleanup_account_rows_def Let_def

section \<open>The invariant\<close>

definition owner_keys :: "accounts \<Rightarrow> bool" where
  "owner_keys w = (distinct (map ow_ID (ac_owners w))
     \<and> distinct (filter (\<lambda>name. name \<noteq> None) (map ow_Username (ac_owners w))))"

definition credential_keys :: "accounts \<Rightarrow> bool" where
  "credential_keys w = (distinct (map ct_ID (ac_connections w)) \<and> distinct (map ct_TokenHash (ac_connections w))
     \<and> distinct (map dk_ID (ac_direct w)) \<and> distinct (map dk_TokenHash (ac_direct w))
     \<and> distinct (map ws_ID (ac_web w)) \<and> distinct (map ws_TokenHash (ac_web w))
     \<and> distinct (map as_ID (ac_admin_sessions w)) \<and> distinct (map as_TokenHash (ac_admin_sessions w)))"

definition admin_keys :: "accounts \<Rightarrow> bool" where
  "admin_keys w = (distinct (map am_ID (ac_admins w)) \<and> distinct (map am_Username (ac_admins w)))"

definition owner_ids :: "accounts \<Rightarrow> string set" where
  "owner_ids w = ow_ID ` set (ac_owners w)"

definition account_refs :: "accounts \<Rightarrow> bool" where
  "account_refs w = ((\<forall>r \<in> set (ac_connections w). ct_OwnerID r \<in> owner_ids w) \<and> (\<forall>r \<in> set (ac_direct w). dk_OwnerID r \<in> owner_ids w)
     \<and> (\<forall>r \<in> set (ac_web w). ws_OwnerID r \<in> owner_ids w) \<and> (\<forall>r \<in> set (ac_admin_sessions w). as_AdminID r \<in> am_ID ` set (ac_admins w)))"

definition wf_accounts :: "accounts \<Rightarrow> bool" where
  "wf_accounts w = (owner_keys w \<and> credential_keys w \<and> admin_keys w \<and> account_refs w)"

lemma owners_cases:
  "ac_owners (exec_account s w) = ac_owners w
   \<or> (\<exists>u. ac_owners (exec_account s w) = ac_owners w @ [u] \<and> ow_ID u \<notin> owner_ids w \<and> ow_Username u \<notin> ow_Username ` set (ac_owners w))
   \<or> (\<exists>k p. ac_owners (exec_account s w) = sql_update (\<lambda>u. ow_ID u = k) (\<lambda>u. u\<lparr>ow_PasswordHash := Some p\<rparr>) (ac_owners w))"
  by (cases s) (auto simp: account_defs owner_ids_def list_ex_iff split: option.splits sum.splits prod.splits)

lemma admins_cases:
  "ac_admins (exec_account s w) = ac_admins w
   \<or> (\<exists>a. ac_admins (exec_account s w) = ac_admins w @ [a] \<and> am_ID a \<notin> am_ID ` set (ac_admins w) \<and> am_Username a \<notin> am_Username ` set (ac_admins w))
   \<or> (\<exists>k p now. ac_admins (exec_account s w) = sql_update (\<lambda>a. am_ID a = k \<and> am_PasswordVersion a = 0)
        (\<lambda>a. a\<lparr>am_PasswordHash := p, am_PasswordVersion := 1, am_UpdatedAt := now\<rparr>) (ac_admins w))"
  by (cases s) (auto simp: account_defs list_ex_iff split: option.splits sum.splits prod.splits)

lemma owner_ids_step: "owner_ids w \<subseteq> owner_ids (exec_account s w)"
proof -
  have "set (map ow_ID (ac_owners w)) \<subseteq> set (map ow_ID (ac_owners (exec_account s w)))"
    using owners_cases [of s w]
  proof (elim disjE exE conjE)
    fix k p assume "ac_owners (exec_account s w) = sql_update (\<lambda>u. ow_ID u = k) (\<lambda>u. u\<lparr>ow_PasswordHash := Some p\<rparr>) (ac_owners w)"
    then have "map ow_ID (ac_owners (exec_account s w)) = map ow_ID (ac_owners w)" by (simp add: map_sql_update)
    then show ?thesis by simp
  qed auto
  then show ?thesis by (simp add: owner_ids_def)
qed

lemma admin_ids_step: "am_ID ` set (ac_admins w) \<subseteq> am_ID ` set (ac_admins (exec_account s w))"
proof -
  have "set (map am_ID (ac_admins w)) \<subseteq> set (map am_ID (ac_admins (exec_account s w)))"
    using admins_cases [of s w]
  proof (elim disjE exE conjE)
    fix k p now assume "ac_admins (exec_account s w) = sql_update (\<lambda>a. am_ID a = k \<and> am_PasswordVersion a = 0)
        (\<lambda>a. a\<lparr>am_PasswordHash := p, am_PasswordVersion := 1, am_UpdatedAt := now\<rparr>) (ac_admins w)"
    then have "map am_ID (ac_admins (exec_account s w)) = map am_ID (ac_admins w)" by (simp add: map_sql_update)
    then show ?thesis by simp
  qed auto
  then show ?thesis by simp
qed

lemma owner_keys_step:
  assumes "owner_keys w" shows "owner_keys (exec_account s w)"
  using owners_cases [of s w]
proof (elim disjE exE conjE)
  fix u assume u: "ac_owners (exec_account s w) = ac_owners w @ [u]" "ow_ID u \<notin> owner_ids w" "ow_Username u \<notin> ow_Username ` set (ac_owners w)"
  then show ?thesis using assms by (simp add: owner_keys_def owner_ids_def)
qed (use assms in \<open>simp_all add: owner_keys_def map_sql_update\<close>)

lemma admin_keys_step:
  assumes "admin_keys w" shows "admin_keys (exec_account s w)"
  using admins_cases [of s w] assms by (elim disjE exE conjE) (simp_all add: admin_keys_def map_sql_update)

lemma credential_keys_step: "credential_keys w \<Longrightarrow> credential_keys (exec_account s w)"
  by (cases s) (auto simp: account_defs credential_keys_def map_sql_update sql_delete_key list_ex_iff
      split: option.splits sum.splits prod.splits)

text \<open>The owner of a row after a statement: that of an old row, or one that exists.\<close>

lemma credential_owners:
  assumes "account_refs w"
  shows "\<forall>r \<in> set (ac_connections (exec_account s w)). ct_OwnerID r \<in> owner_ids w"
    and "\<forall>r \<in> set (ac_direct (exec_account s w)). dk_OwnerID r \<in> owner_ids w"
    and "\<forall>r \<in> set (ac_web (exec_account s w)). ws_OwnerID r \<in> owner_ids w"
    and "\<forall>r \<in> set (ac_admin_sessions (exec_account s w)). as_AdminID r \<in> am_ID ` set (ac_admins w)"
proof -
  have ex: "owner_exists w k \<longleftrightarrow> k \<in> owner_ids w" for k by (auto simp: owner_exists_def owner_ids_def list_ex_iff)
  show "\<forall>r \<in> set (ac_connections (exec_account s w)). ct_OwnerID r \<in> owner_ids w"
    using assms by (cases s) (auto simp: account_defs account_refs_def set_sql_update ex split: option.splits sum.splits prod.splits)
  show "\<forall>r \<in> set (ac_direct (exec_account s w)). dk_OwnerID r \<in> owner_ids w"
    using assms by (cases s) (auto simp: account_defs account_refs_def set_sql_update ex split: option.splits sum.splits prod.splits)
  show "\<forall>r \<in> set (ac_web (exec_account s w)). ws_OwnerID r \<in> owner_ids w"
    using assms by (cases s) (auto simp: account_defs account_refs_def set_sql_update ex split: option.splits sum.splits prod.splits)
  show "\<forall>r \<in> set (ac_admin_sessions (exec_account s w)). as_AdminID r \<in> am_ID ` set (ac_admins w)"
    using assms by (cases s) (auto simp: account_defs account_refs_def set_sql_update list_ex_iff intro: rev_image_eqI
        split: option.splits sum.splits prod.splits)
qed

lemma account_refs_step: "account_refs w \<Longrightarrow> account_refs (exec_account s w)"
  using credential_owners [of w s] owner_ids_step [of w s] admin_ids_step [of w s] unfolding account_refs_def by blast

lemma wf_account_exec: "wf_accounts w \<Longrightarrow> wf_accounts (exec_account s w)"
  by (simp add: wf_accounts_def owner_keys_step credential_keys_step admin_keys_step account_refs_step)

lemma wf_account_run: "wf_accounts w \<Longrightarrow> wf_accounts (exec_all exec_account ss w)"
  by (rule exec_all_inv [of wf_accounts]) (rule wf_account_exec)

section \<open>Credentials that are shut\<close>

fun issues_connection :: "string \<Rightarrow> account_stmt \<Rightarrow> bool" where
  "issues_connection h (A_CreateConnection c k) = (k = h)"
| "issues_connection h _ = False"

fun issues_direct :: "string \<Rightarrow> account_stmt \<Rightarrow> bool" where
  "issues_direct h (A_CreateDirect c k) = (k = h)"
| "issues_direct h _ = False"

fun issues_web :: "string \<Rightarrow> account_stmt \<Rightarrow> bool" where
  "issues_web h (A_CreateWeb c k) = (k = h)"
| "issues_web h _ = False"

fun issues_admin_session :: "string \<Rightarrow> account_stmt \<Rightarrow> bool" where
  "issues_admin_session h (A_CreateAdminSession c k) = (k = h)"
| "issues_admin_session h _ = False"

definition connection_dead :: "connection_row \<Rightarrow> int \<Rightarrow> bool" where
  "connection_dead r t = (ct_RevokedAt r \<noteq> None \<or> ct_DeletedAt r \<noteq> None \<or> (\<exists>e. ct_ExpiresAt r = Some e \<and> e \<le> t))"

definition direct_dead :: "direct_row \<Rightarrow> int \<Rightarrow> bool" where
  "direct_dead r t = (dk_RevokedAt r \<noteq> None \<or> dk_DeletedAt r \<noteq> None \<or> dk_ExpiresAt r \<le> t)"

definition web_dead :: "web_row \<Rightarrow> int \<Rightarrow> bool" where
  "web_dead r t = (ws_RevokedAt r \<noteq> None \<or> ws_ExpiresAt r \<le> t)"

definition admin_session_dead :: "admin_session_row \<Rightarrow> int \<Rightarrow> bool" where
  "admin_session_dead r t = (as_RevokedAt r \<noteq> None \<or> as_ExpiresAt r \<le> t)"

definition connection_admits :: "accounts \<Rightarrow> string \<Rightarrow> int \<Rightarrow> bool" where
  "connection_admits w h t = (\<exists>now. unix now = t \<and> is_ok (fst (AuthenticateConnectionToken_row w h now)))"

definition direct_admits :: "accounts \<Rightarrow> string \<Rightarrow> int \<Rightarrow> bool" where
  "direct_admits w h t = (\<exists>now. unix now = t \<and> is_ok (fst (AuthenticateDirectAccessKey_row w h now)))"

definition web_admits :: "accounts \<Rightarrow> string \<Rightarrow> int \<Rightarrow> bool" where
  "web_admits w h t = (\<exists>now. unix now = t \<and> is_ok (AuthenticateWebSession_row w h now))"

definition admin_session_admits :: "accounts \<Rightarrow> string \<Rightarrow> int \<Rightarrow> bool" where
  "admin_session_admits w h t = (\<exists>now. unix now = t \<and> is_ok (fst (AuthenticateAdminSession_row w h now)))"

lemma connection_row_step:
  assumes "\<not> issues_connection h s" "r' \<in> set (ac_connections (exec_account s w))" "ct_TokenHash r' = h"
  shows "\<exists>r \<in> set (ac_connections w). ct_TokenHash r = h \<and> (\<forall>t. connection_dead r t \<longrightarrow> connection_dead r' t)"
  using assms by (cases s) (auto simp: account_defs set_sql_update connection_dead_def split: option.splits sum.splits prod.splits if_splits)

lemma direct_row_step:
  assumes "\<not> issues_direct h s" "r' \<in> set (ac_direct (exec_account s w))" "dk_TokenHash r' = h"
  shows "\<exists>r \<in> set (ac_direct w). dk_TokenHash r = h \<and> (\<forall>t. direct_dead r t \<longrightarrow> direct_dead r' t)"
  using assms by (cases s) (auto simp: account_defs set_sql_update direct_dead_def split: option.splits sum.splits prod.splits if_splits)

lemma web_row_step:
  assumes "\<not> issues_web h s" "r' \<in> set (ac_web (exec_account s w))" "ws_TokenHash r' = h"
  shows "\<exists>r \<in> set (ac_web w). ws_TokenHash r = h \<and> (\<forall>t. web_dead r t \<longrightarrow> web_dead r' t)"
  using assms by (cases s) (auto simp: account_defs set_sql_update web_dead_def split: option.splits sum.splits prod.splits if_splits)

lemma admin_session_row_step:
  assumes "\<not> issues_admin_session h s" "r' \<in> set (ac_admin_sessions (exec_account s w))" "as_TokenHash r' = h"
  shows "\<exists>r \<in> set (ac_admin_sessions w). as_TokenHash r = h \<and> (\<forall>t. admin_session_dead r t \<longrightarrow> admin_session_dead r' t)"
  using assms
  by (cases s) (auto simp: account_defs set_sql_update admin_session_dead_def split: option.splits sum.splits prod.splits if_splits)

text \<open>Who is let in, by which row.\<close>

lemma connection_admitted:
  assumes "is_ok (fst (AuthenticateConnectionToken_row w h now))"
  shows "\<exists>r \<in> set (ac_connections w). ct_TokenHash r = h \<and> \<not> connection_dead r (unix now)"
proof (cases "find (\<lambda>r. ct_TokenHash r = h \<and> ct_DeletedAt r = None) (ac_connections w)")
  case None
  then show ?thesis using assms by (simp add: AuthenticateConnectionToken_row_def)
next
  case (Some r)
  then have "\<not> connection_dead r (unix now)"
    using assms find_in [OF Some] by (auto simp: AuthenticateConnectionToken_row_def connection_dead_def split: if_splits)
  then show ?thesis using find_in [OF Some] by blast
qed

lemma direct_admitted:
  assumes "is_ok (fst (AuthenticateDirectAccessKey_row w h now))"
  shows "\<exists>r \<in> set (ac_direct w). dk_TokenHash r = h \<and> \<not> direct_dead r (unix now)"
proof (cases "find (\<lambda>r. dk_TokenHash r = h \<and> dk_DeletedAt r = None) (ac_direct w)")
  case None
  then show ?thesis using assms by (simp add: AuthenticateDirectAccessKey_row_def)
next
  case (Some r)
  then have "\<not> direct_dead r (unix now)"
    using assms find_in [OF Some] by (auto simp: AuthenticateDirectAccessKey_row_def direct_dead_def split: if_splits)
  then show ?thesis using find_in [OF Some] by blast
qed

lemma web_admitted:
  assumes "AuthenticateWebSession_row w h now = Inr e"
  shows "\<exists>r \<in> set (ac_web w). ws_TokenHash r = h \<and> \<not> web_dead r (unix now) \<and> sn_ID e = ws_ID r \<and> sn_OwnerID e = ws_OwnerID r
    \<and> sn_CSRFToken e = ws_CSRFToken r"
  using assms by (auto simp: AuthenticateWebSession_row_def web_dead_def split: option.splits if_splits dest!: find_in) blast

lemma admin_session_admitted:
  assumes "is_ok (fst (AuthenticateAdminSession_row w h now))"
  shows "\<exists>r \<in> set (ac_admin_sessions w). as_TokenHash r = h \<and> \<not> admin_session_dead r (unix now)"
  using assms by (auto simp: AuthenticateAdminSession_row_def admin_session_dead_def Let_def split: option.splits if_splits dest!: find_in)

interpretation connection_lock: credential_rows exec_account ac_connections ct_TokenHash connection_dead connection_admits issues_connection
  by unfold_locales (auto simp: connection_admits_def connection_row_step dest: connection_admitted,
    auto simp: connection_dead_def intro: order_trans)

interpretation direct_lock: credential_rows exec_account ac_direct dk_TokenHash direct_dead direct_admits issues_direct
  by unfold_locales (auto simp: direct_admits_def direct_row_step dest: direct_admitted, auto simp: direct_dead_def)

interpretation web_lock: credential_rows exec_account ac_web ws_TokenHash web_dead web_admits issues_web
  by unfold_locales (auto simp: web_admits_def web_row_step is_ok_iff dest: web_admitted, auto simp: web_dead_def)

interpretation admin_session_lock: credential_rows exec_account ac_admin_sessions as_TokenHash admin_session_dead admin_session_admits issues_admin_session
  by unfold_locales (auto simp: admin_session_admits_def admin_session_row_step dest: admin_session_admitted, auto simp: admin_session_dead_def)

section \<open>Owners are there to stay\<close>

lemma owners_stay: "HasOwner w \<Longrightarrow> HasOwner (exec_account s w)"
  using owner_ids_step [of w s] by (auto simp: HasOwner_def owner_ids_def)

lemma owners_stay_run: "HasOwner w \<Longrightarrow> HasOwner (exec_all exec_account ss w)"
  by (rule exec_all_inv [of HasOwner]) (rule owners_stay)

end
