(* ===== verification/Account_Service.thy ===== *)
theory Account_Service
  imports Account_Steps Go_Base64 Go_Time Go_Text
begin

text \<open>
  Signing in (\<open>core/accounts.go\<close>, \<open>core/admin.go\<close>, \<open>security/password.go\<close>): password hashes, owner
  accounts, connection tokens, direct access keys, web and administrator sessions, with the audit entries the operations leave.
  PBKDF2, the hash of a token, the random source, lower case beyond ASCII, and what other requests do to the tables between two
  store calls are parameters. The bootstrap token's file is not modelled.
\<close>

section \<open>Passwords\<close>

text \<open>\<open>strconv.Atoi\<close>: an optional sign, digits, within 64 bits.\<close>

definition atoi :: "string \<Rightarrow> int option" where
  "atoi s =
     (let (neg, ds) = (case s of c # t \<Rightarrow> if c = CHR ''-'' then (True, t) else if c = CHR ''+'' then (False, t) else (False, s) | [] \<Rightarrow> (False, s))
      in if ds = [] then None
         else case digits_number 0 ds of
           None \<Rightarrow> None
         | Some n \<Rightarrow> let v = (if neg then - n else n) in if - (2 ^ 63) \<le> v \<and> v < 2 ^ 63 then Some v else None)"

record sign_env =
  se_pbkdf2 :: "string \<Rightarrow> string \<Rightarrow> int \<Rightarrow> nat \<Rightarrow> string option"
  se_salt :: "string option"
  se_random :: "string \<Rightarrow> string option"
  se_hash_token :: "string \<Rightarrow> string"
  se_lower :: "string \<Rightarrow> string"
  se_others :: "accounts \<Rightarrow> accounts"
  se_now :: instant

definition passwordAlgorithm :: string where "passwordAlgorithm = ''pbkdf2-sha256''"
definition passwordIterations :: int where "passwordIterations = 600000"
definition passwordSaltBytes :: nat where "passwordSaltBytes = 16"
definition passwordKeyBytes :: nat where "passwordKeyBytes = 32"

definition ValidatePassword :: "string \<Rightarrow> bool" where
  "ValidatePassword password = (10 \<le> length password \<and> length password \<le> 256)"

definition HashPassword :: "sign_env \<Rightarrow> string \<Rightarrow> string option" where
  "HashPassword E password =
     (if \<not> ValidatePassword password then None
      else case se_salt E of
        None \<Rightarrow> None
      | Some salt \<Rightarrow>
          (case se_pbkdf2 E password salt passwordIterations passwordKeyBytes of
             None \<Rightarrow> None
           | Some key \<Rightarrow> Some (passwordAlgorithm @ ''$'' @ decimal passwordIterations @ ''$'' @ base64_raw url_alphabet salt
               @ ''$'' @ base64_raw url_alphabet key)))"

text \<open>The comparison is in constant time; its outcome is equality.\<close>

definition VerifyPassword :: "sign_env \<Rightarrow> string \<Rightarrow> string \<Rightarrow> bool" where
  "VerifyPassword E encoded password =
     (case split_on (CHR ''$'') encoded of
        [a, n, s, k] \<Rightarrow>
          if a \<noteq> passwordAlgorithm then False
          else (case atoi n of
             None \<Rightarrow> False
           | Some iterations \<Rightarrow>
               if iterations < 100000 \<or> 2000000 < iterations then False
               else (case base64_decode url_alphabet s of
                  None \<Rightarrow> False
                | Some salt \<Rightarrow>
                    if length salt < 16 \<or> 64 < length salt then False
                    else (case base64_decode url_alphabet k of
                       None \<Rightarrow> False
                     | Some expected \<Rightarrow>
                         if length expected < 16 \<or> 64 < length expected then False
                         else se_pbkdf2 E password salt iterations (length expected) = Some expected)))
      | _ \<Rightarrow> False)"

section \<open>The audited tables\<close>

record sign_world =
  si_accounts :: accounts
  si_audit :: "audit_row list"

definition audited :: "string \<Rightarrow> string \<Rightarrow> string \<Rightarrow> string \<Rightarrow> string \<Rightarrow> string \<Rightarrow> string \<Rightarrow> instant \<Rightarrow> sign_world \<Rightarrow> sign_world" where
  "audited ownerID machineID actorType actorID action result remoteAddr now w =
     w\<lparr>si_audit := si_audit w @ [\<lparr>ad_OwnerID = ownerID, ad_MachineID = machineID, ad_ActorType = actorType, ad_ActorID = actorID,
        ad_Action = action, ad_Result = result, ad_RemoteAddr = remoteAddr, ad_ErrorCode = [], ad_CreatedAt = unix now\<rparr>]\<rparr>"

definition set_accounts :: "sign_world \<Rightarrow> accounts \<Rightarrow> sign_world" where
  "set_accounts w a = w\<lparr>si_accounts := a\<rparr>"

text \<open>A store call, and an audit entry of the owner when it succeeds.\<close>

definition owner_action ::
    "sign_env \<Rightarrow> string \<Rightarrow> string \<Rightarrow> string \<Rightarrow> (hub_error + unit) \<times> accounts \<Rightarrow> sign_world \<Rightarrow> (hub_error + unit) \<times> sign_world" where
  "owner_action E ownerID action remoteAddr r w =
     (case r of
        (Inl e, a) \<Rightarrow> (Inl e, set_accounts w a)
      | (Inr u, a) \<Rightarrow> (Inr u, audited ownerID [] ''web'' ownerID action ''success'' remoteAddr (se_now E) (set_accounts w a)))"

section \<open>Owner accounts\<close>

definition username_byte :: "bool \<Rightarrow> char \<Rightarrow> bool" where
  "username_byte first c = (let n = of_char c :: nat
     in 97 \<le> n \<and> n \<le> 122 \<or> 48 \<le> n \<and> n \<le> 57 \<or> \<not> first \<and> c \<in> set ''._-'')"

text \<open>\<open>^[a-z0-9][a-z0-9._-]{2,63}$\<close>.\<close>

definition username_pattern :: "string \<Rightarrow> bool" where
  "username_pattern s = (case s of [] \<Rightarrow> False
     | c # t \<Rightarrow> username_byte True c \<and> list_all (username_byte False) t \<and> 2 \<le> length t \<and> length t \<le> 63)"

definition normalizeUsername :: "sign_env \<Rightarrow> string \<Rightarrow> string option" where
  "normalizeUsername E value = (let v = to_lower (se_lower E) (trim_space value) in if username_pattern v then Some v else None)"

definition bad_username :: hub_error where
  "bad_username = OtherError ''username must be 3-64 lowercase letters, numbers, dot, underscore or dash''"

definition random_failed :: hub_error where "random_failed = OtherError ''random id''"

definition BootstrapAccount ::
    "sign_env \<Rightarrow> sign_world \<Rightarrow> string \<Rightarrow> string \<Rightarrow> string \<Rightarrow> string \<Rightarrow> string \<Rightarrow> (hub_error + owner_account) \<times> sign_world" where
  "BootstrapAccount E w bootstrapToken username displayName password remoteAddr =
     (case normalizeUsername E username of
        None \<Rightarrow> (Inl bad_username, w)
      | Some name \<Rightarrow>
      let display = (if trim_space displayName = [] then name else trim_space displayName)
      in if 128 < length display \<or> 256 < length bootstrapToken then (Inl ErrConflict, w)
         else case HashPassword E password of
           None \<Rightarrow> (Inl ErrConflict, w)
         | Some hash \<Rightarrow>
         (case se_random E ''usr_'' of
           None \<Rightarrow> (Inl random_failed, w)
         | Some proposed \<Rightarrow>
         (case BootstrapOwnerAccount (si_accounts w) (se_hash_token E bootstrapToken) proposed name display hash (se_now E) of
           (Inl e, a) \<Rightarrow> (Inl e, set_accounts w a)
         | (Inr ownerID, a) \<Rightarrow>
             (OwnerAccountByID (se_others E a) ownerID,
              audited ownerID [] ''bootstrap'' ownerID ''owner.account.setup'' ''success'' remoteAddr (se_now E)
                (set_accounts w (se_others E a))))))"

definition LoginAccount ::
    "sign_env \<Rightarrow> sign_world \<Rightarrow> string \<Rightarrow> string \<Rightarrow> string \<Rightarrow> (hub_error + owner_account) \<times> sign_world" where
  "LoginAccount E w username password remoteAddr =
     (case normalizeUsername E username of
        None \<Rightarrow> (Inl ErrUnauthorized, w)
      | Some name \<Rightarrow>
      (case OwnerAccountByUsername (si_accounts w) name of
        Inl e \<Rightarrow> (Inl ErrUnauthorized, audited [] [] ''web'' name ''owner.login'' ''rejected'' remoteAddr (se_now E) w)
      | Inr r \<Rightarrow>
          if \<not> VerifyPassword E (oo_PasswordHash r) password
          then (Inl ErrUnauthorized, audited [] [] ''web'' name ''owner.login'' ''rejected'' remoteAddr (se_now E) w)
          else (Inr r, audited (oo_Owner r) [] ''web'' (oo_Owner r) ''owner.login'' ''success'' remoteAddr (se_now E) w)))"

definition ChangeOwnerPassword ::
    "sign_env \<Rightarrow> sign_world \<Rightarrow> string \<Rightarrow> string \<Rightarrow> string \<Rightarrow> string \<Rightarrow> string \<Rightarrow> (hub_error + unit) \<times> sign_world" where
  "ChangeOwnerPassword E w ownerID current new keepSessionID remoteAddr =
     (let rejected = (Inl ErrUnauthorized, audited ownerID [] ''web'' ownerID ''owner.password.change'' ''rejected'' remoteAddr (se_now E) w)
      in case OwnerAccountByID (si_accounts w) ownerID of
           Inl e \<Rightarrow> rejected
         | Inr r \<Rightarrow>
             if \<not> VerifyPassword E (oo_PasswordHash r) current then rejected
             else (case HashPassword E new of
                None \<Rightarrow> (Inl ErrConflict, w)
              | Some hash \<Rightarrow>
                  owner_action E ownerID ''owner.password.change'' remoteAddr
                    (ChangeOwnerPassword_row (se_others E (si_accounts w)) ownerID hash keepSessionID (se_now E)) w))"

section \<open>Connection tokens\<close>

definition active_connections :: "accounts \<Rightarrow> string \<Rightarrow> instant \<Rightarrow> nat" where
  "active_connections a ownerID now = length (filter (\<lambda>c. cn_RevokedAt c = None
     \<and> (case cn_ExpiresAt c of None \<Rightarrow> True | Some e \<Rightarrow> now < e)) (ListConnectionTokens_rows a ownerID))"

definition maxConnectionTTL :: duration where "maxConnectionTTL = 5 * 365 * 24 * hour"

definition CreateConnectionToken ::
    "sign_env \<Rightarrow> sign_world \<Rightarrow> string \<Rightarrow> string \<Rightarrow> duration \<Rightarrow> string \<Rightarrow> (hub_error + string \<times> connection_token) \<times> sign_world" where
  "CreateConnectionToken E w ownerID label ttl remoteAddr =
     (let label = (if trim_space label = [] then ''Connection token'' else trim_space label); now = se_now E
      in if 80 < length label \<or> ttl < 0 \<or> maxConnectionTTL < ttl then (Inl ErrConflict, w)
         else if 64 \<le> active_connections (si_accounts w) ownerID now then (Inl ErrConflict, w)
         else case se_random E ''tok_'' of
           None \<Rightarrow> (Inl random_failed, w)
         | Some k \<Rightarrow>
         (case se_random E ''ctk_'' of
           None \<Rightarrow> (Inl random_failed, w)
         | Some token \<Rightarrow>
         let c = \<lparr>cn_ID = k, cn_OwnerID = ownerID, cn_Label = label, cn_CreatedAt = now, cn_LastUsedAt = None,
               cn_ExpiresAt = (if 0 < ttl then Some (now + ttl) else None), cn_RevokedAt = None\<rparr>
         in case owner_action E ownerID ''connection.token.create'' remoteAddr
                (CreateConnectionToken_row (se_others E (si_accounts w)) c (se_hash_token E token)) w of
              (Inl e, w1) \<Rightarrow> (Inl e, w1)
            | (Inr _, w1) \<Rightarrow> (Inr (token, c), w1)))"

definition AuthenticateConnectionToken :: "sign_env \<Rightarrow> accounts \<Rightarrow> string \<Rightarrow> (hub_error + string) \<times> accounts" where
  "AuthenticateConnectionToken E a bearer =
     (if \<not> has_prefix bearer ''ctk_'' \<or> 256 < length bearer then (Inl ErrUnauthorized, a)
      else AuthenticateConnectionToken_row a (se_hash_token E bearer) (se_now E))"

definition RevokeConnectionToken :: "sign_env \<Rightarrow> sign_world \<Rightarrow> string \<Rightarrow> string \<Rightarrow> string \<Rightarrow> (hub_error + unit) \<times> sign_world" where
  "RevokeConnectionToken E w ownerID tokenID remoteAddr =
     owner_action E ownerID ''connection.token.revoke'' remoteAddr (RevokeConnectionToken_row (si_accounts w) ownerID tokenID (se_now E)) w"

definition DeleteConnectionToken :: "sign_env \<Rightarrow> sign_world \<Rightarrow> string \<Rightarrow> string \<Rightarrow> string \<Rightarrow> (hub_error + unit) \<times> sign_world" where
  "DeleteConnectionToken E w ownerID tokenID remoteAddr =
     owner_action E ownerID ''connection.token.delete'' remoteAddr (DeleteConnectionToken_row (si_accounts w) ownerID tokenID (se_now E)) w"

section \<open>Direct access keys\<close>

definition directAccessScopes :: "string list" where
  "directAccessScopes = [''files.write'', ''shell'', ''jobs'', ''git'', ''browser'', ''ai'', ''context.write'', ''artifacts.write'',
     ''results.write'', ''pages.read'']"

fun collect_scopes :: "string list \<Rightarrow> string list \<Rightarrow> string list option" where
  "collect_scopes result [] = Some result"
| "collect_scopes result (s # scopes) =
     (let s = trim_space s
      in if s = [] then collect_scopes result scopes
         else if s \<notin> set directAccessScopes then None
         else if s \<in> set result then collect_scopes result scopes
         else collect_scopes (result @ [s]) scopes)"

definition normalizeDirectAccessScopes :: "string list \<Rightarrow> string list option" where
  "normalizeDirectAccessScopes scopes = map_option sort (collect_scopes [] scopes)"

text \<open>The ellipsis is the rune U+2026.\<close>

definition ellipsis :: string where "ellipsis = [CHR 0xE2, CHR 0x80, CHR 0xA6]"

definition directAccessTokenHint :: "string \<Rightarrow> string" where
  "directAccessTokenHint token =
     (let t = trim_space token; suffix = (if 4 < length t then drop (length t - 4) t else t)
      in if t = [] then []
         else if has_prefix t ''fsp_tmp_'' then ''fsp_tmp_'' @ ellipsis @ suffix
         else ellipsis @ suffix)"

definition active_direct_keys :: "accounts \<Rightarrow> string \<Rightarrow> instant \<Rightarrow> nat" where
  "active_direct_keys a ownerID now =
     length (filter (\<lambda>c. da_RevokedAt c = None \<and> now < da_ExpiresAt c) (ListDirectAccessKeys_rows a ownerID))"

definition defaultDirectKeyLabel :: string where
  "defaultDirectKeyLabel = [CHR 0xE4, CHR 0xB8, CHR 0xB4, CHR 0xE6, CHR 0x97, CHR 0xB6, CHR 0xE7, CHR 0x9B, CHR 0xB4,
     CHR 0xE8, CHR 0xBF, CHR 0x9E, CHR 0xE5, CHR 0xAF, CHR 0x86, CHR 0xE9, CHR 0x92, CHR 0xA5]"

definition CreateDirectAccessKey ::
    "sign_env \<Rightarrow> hub \<Rightarrow> sign_world \<Rightarrow> string \<Rightarrow> string \<Rightarrow> string \<Rightarrow> string list \<Rightarrow> duration \<Rightarrow> int \<Rightarrow> string
      \<Rightarrow> (hub_error + string \<times> direct_key) \<times> sign_world" where
  "CreateDirectAccessKey E hub w ownerID label machineID scopes ttl rateLimit remoteAddr =
     (let label = (if trim_space label = [] then defaultDirectKeyLabel else trim_space label);
          machineID = trim_space machineID;
          rate = (if rateLimit = 0 then 120 else rateLimit); now = se_now E
      in if 80 < length label \<or> ttl \<le> 0 \<or> 7 * 24 * hour < ttl then (Inl ErrConflict, w)
         else if rate < 1 \<or> 600 < rate then (Inl ErrConflict, w)
         else case normalizeDirectAccessScopes scopes of
           None \<Rightarrow> (Inl ErrConflict, w)
         | Some normalized \<Rightarrow>
         if normalized \<noteq> [] \<and> 24 * hour < ttl then (Inl ErrConflict, w)
         else if machineID \<noteq> [] \<and> (case GetMachine hub ownerID machineID of Inl _ \<Rightarrow> True | Inr m \<Rightarrow> mr_Status m \<noteq> ''active'')
         then (Inl ErrConflict, w)
         else if 64 \<le> active_direct_keys (si_accounts w) ownerID now then (Inl ErrConflict, w)
         else case se_random E ''dak_'' of
           None \<Rightarrow> (Inl random_failed, w)
         | Some k \<Rightarrow>
         (case se_random E ''fsp_tmp_'' of
           None \<Rightarrow> (Inl random_failed, w)
         | Some token \<Rightarrow>
         let c = \<lparr>da_ID = k, da_OwnerID = ownerID, da_TokenHint = directAccessTokenHint token, da_Label = label, da_Scopes = normalized,
               da_MachineID = machineID, da_RateLimitPerMinute = rate, da_CreatedAt = now, da_LastUsedAt = None,
               da_ExpiresAt = now + ttl, da_RevokedAt = None\<rparr>
         in case CreateDirectAccessKey_row (se_others E (si_accounts w)) c (se_hash_token E token) of
              (Inl e, a) \<Rightarrow> (Inl e, set_accounts w a)
            | (Inr _, a) \<Rightarrow>
                (Inr (token, c\<lparr>da_TokenHint := directAccessTokenHint (da_TokenHint c)\<rparr>),
                 audited ownerID machineID ''web'' ownerID ''direct.key.create'' ''success'' remoteAddr now (set_accounts w a))))"

definition AuthenticateDirectAccessKey :: "sign_env \<Rightarrow> accounts \<Rightarrow> string \<Rightarrow> (hub_error + direct_key) \<times> accounts" where
  "AuthenticateDirectAccessKey E a bearer =
     (if \<not> has_prefix bearer ''fsp_tmp_'' \<or> 256 < length bearer then (Inl ErrUnauthorized, a)
      else AuthenticateDirectAccessKey_row a (se_hash_token E bearer) (se_now E))"

definition RevokeDirectAccessKey :: "sign_env \<Rightarrow> sign_world \<Rightarrow> string \<Rightarrow> string \<Rightarrow> string \<Rightarrow> (hub_error + unit) \<times> sign_world" where
  "RevokeDirectAccessKey E w ownerID keyID remoteAddr =
     owner_action E ownerID ''direct.key.revoke'' remoteAddr (RevokeDirectAccessKey_row (si_accounts w) ownerID keyID (se_now E)) w"

definition DeleteDirectAccessKey :: "sign_env \<Rightarrow> sign_world \<Rightarrow> string \<Rightarrow> string \<Rightarrow> string \<Rightarrow> (hub_error + unit) \<times> sign_world" where
  "DeleteDirectAccessKey E w ownerID keyID remoteAddr =
     owner_action E ownerID ''direct.key.delete'' remoteAddr (DeleteDirectAccessKey_row (si_accounts w) ownerID keyID (se_now E)) w"

definition DirectAccessKeyHasScope :: "direct_key \<Rightarrow> string \<Rightarrow> bool" where
  "DirectAccessKeyHasScope r scope = list_ex (\<lambda>s. s = scope) (da_Scopes r)"

section \<open>Sessions\<close>

definition webSessionTTL :: duration where "webSessionTTL = 30 * 24 * hour"
definition adminSessionTTL :: duration where "adminSessionTTL = 12 * hour"

definition CreateWebSession :: "sign_env \<Rightarrow> accounts \<Rightarrow> string \<Rightarrow> (hub_error + string \<times> string \<times> web_session) \<times> accounts" where
  "CreateWebSession E a ownerID =
     (case (se_random E ''wbs_'', se_random E ''ses_'', se_random E ''csrf_'') of
        (Some k, Some token, Some csrf) \<Rightarrow>
          let now = se_now E;
              c = \<lparr>sn_ID = k, sn_OwnerID = ownerID, sn_Username = [], sn_DisplayName = [], sn_CSRFToken = csrf, sn_CreatedAt = now,
                sn_LastSeenAt = now, sn_ExpiresAt = now + webSessionTTL\<rparr>
          in (case CreateWebSession_row a c (se_hash_token E token) of
                (Inl e, a1) \<Rightarrow> (Inl e, a1)
              | (Inr _, a1) \<Rightarrow>
                  (case OwnerAccountByID (se_others E a1) ownerID of
                     Inl e \<Rightarrow> (Inl e, se_others E a1)
                   | Inr r \<Rightarrow> (Inr (token, csrf, c\<lparr>sn_Username := oo_Username r, sn_DisplayName := oo_DisplayName r\<rparr>), se_others E a1)))
      | _ \<Rightarrow> (Inl random_failed, a))"

definition AuthenticateWebSession :: "sign_env \<Rightarrow> accounts \<Rightarrow> string \<Rightarrow> (hub_error + web_session) \<times> accounts" where
  "AuthenticateWebSession E a token =
     (if \<not> has_prefix token ''ses_'' \<or> 256 < length token then (Inl ErrUnauthorized, a)
      else case AuthenticateWebSession_row a (se_hash_token E token) (se_now E) of
        Inl e \<Rightarrow> (Inl e, a)
      | Inr r \<Rightarrow>
          if 5 * minute \<le> time_sub (se_now E) (sn_LastSeenAt r)
          then (Inr (r\<lparr>sn_LastSeenAt := se_now E\<rparr>), TouchWebSession (se_others E a) (sn_ID r) (se_now E))
          else (Inr r, a))"

definition RevokeWebSession :: "sign_env \<Rightarrow> accounts \<Rightarrow> string \<Rightarrow> string \<Rightarrow> (hub_error + unit) \<times> accounts" where
  "RevokeWebSession E a sessionID ownerID = RevokeWebSession_row a sessionID ownerID (se_now E)"

section \<open>Administrators\<close>

definition DefaultAdminUsername :: string where "DefaultAdminUsername = ''admin''"

definition admin_password_required :: hub_error where
  "admin_password_required = OtherError ''admin password initialization required''"

definition admin_rotation_required :: hub_error where
  "admin_rotation_required = OtherError ''admin password rotation required''"

definition EnsureAdminAccount :: "sign_env \<Rightarrow> accounts \<Rightarrow> string \<Rightarrow> (hub_error + unit) \<times> accounts" where
  "EnsureAdminAccount E a password =
     (case AdminAccountByUsername a DefaultAdminUsername of
        Inl e \<Rightarrow>
          if e \<noteq> ErrNotFound then (Inl e, a)
          else if \<not> ValidatePassword password then (Inl admin_password_required, a)
          else (case (HashPassword E password, se_random E ''adm_'') of
            (Some hash, Some k) \<Rightarrow> CreateAdminAccountIfAbsent (se_others E a) k DefaultAdminUsername hash (se_now E)
          | _ \<Rightarrow> (Inl random_failed, a))
      | Inr r \<Rightarrow>
          if 0 < an_PasswordVersion r then (Inr (), a)
          else if \<not> ValidatePassword password then (Inl admin_rotation_required, a)
          else (case HashPassword E password of
            None \<Rightarrow> (Inl random_failed, a)
          | Some hash \<Rightarrow>
              (case RotateAdminPassword (se_others E a) (an_ID r) hash (se_now E) of
                 (Inl e, a1) \<Rightarrow> if e = ErrConflict then (Inr (), a1) else (Inl e, a1)
               | (Inr u, a1) \<Rightarrow> (Inr u, a1))))"

definition LoginAdmin :: "sign_env \<Rightarrow> sign_world \<Rightarrow> string \<Rightarrow> string \<Rightarrow> string \<Rightarrow> (hub_error + admin_account) \<times> sign_world" where
  "LoginAdmin E w username password remoteAddr =
     (let name = trim_space username;
          rejected = (Inl ErrUnauthorized, audited [] [] ''admin'' name ''admin.login'' ''rejected'' remoteAddr (se_now E) w)
      in case AdminAccountByUsername (si_accounts w) name of
           Inl e \<Rightarrow> rejected
         | Inr r \<Rightarrow>
             if an_PasswordVersion r = 0 \<or> \<not> VerifyPassword E (an_PasswordHash r) password then rejected
             else (Inr r, audited [] [] ''admin'' (an_ID r) ''admin.login'' ''success'' remoteAddr (se_now E) w))"

definition CreateAdminSession :: "sign_env \<Rightarrow> accounts \<Rightarrow> string \<Rightarrow> (hub_error + string \<times> admin_session) \<times> accounts" where
  "CreateAdminSession E a adminID =
     (case (se_random E ''ads_'', se_random E ''adst_'', se_random E ''adcsrf_'') of
        (Some k, Some token, Some csrf) \<Rightarrow>
          let now = se_now E;
              c = \<lparr>ae_ID = k, ae_AdminID = adminID, ae_Username = [], ae_CSRFToken = csrf, ae_CreatedAt = now, ae_LastSeenAt = now,
                ae_ExpiresAt = now + adminSessionTTL\<rparr>
          in (case CreateAdminSession_row a c (se_hash_token E token) of
                (Inl e, a1) \<Rightarrow> (Inl e, a1)
              | (Inr _, a1) \<Rightarrow> (Inr (token, c), a1))
      | _ \<Rightarrow> (Inl random_failed, a))"

definition AuthenticateAdminSession :: "sign_env \<Rightarrow> accounts \<Rightarrow> string \<Rightarrow> (hub_error + admin_session) \<times> accounts" where
  "AuthenticateAdminSession E a token =
     (if trim_space token = [] then (Inl ErrUnauthorized, a) else AuthenticateAdminSession_row a (se_hash_token E token) (se_now E))"

definition RevokeAdminSession :: "sign_env \<Rightarrow> accounts \<Rightarrow> string \<Rightarrow> accounts" where
  "RevokeAdminSession E a sessionID = RevokeAdminSession_row a sessionID (se_now E)"

definition CreateUser ::
    "sign_env \<Rightarrow> sign_world \<Rightarrow> string \<Rightarrow> string \<Rightarrow> string \<Rightarrow> string \<Rightarrow> string \<Rightarrow> (hub_error + owner_account) \<times> sign_world" where
  "CreateUser E w adminID username displayName password remoteAddr =
     (case normalizeUsername E username of
        None \<Rightarrow> (Inl bad_username, w)
      | Some name \<Rightarrow>
      let display = (if trim_space displayName = [] then name else trim_space displayName)
      in if 128 < length display then (Inl ErrConflict, w)
         else case HashPassword E password of
           None \<Rightarrow> (Inl (OtherError ''password''), w)
         | Some hash \<Rightarrow>
         (case se_random E ''usr_'' of
           None \<Rightarrow> (Inl random_failed, w)
         | Some ownerID \<Rightarrow>
         (case CreateOwnerAccount (si_accounts w) ownerID name display hash (se_now E) of
           (Inl e, a) \<Rightarrow> (Inl ErrConflict, set_accounts w a)
         | (Inr _, a) \<Rightarrow>
             (Inr \<lparr>oo_Owner = ownerID, oo_Username = name, oo_DisplayName = display, oo_PasswordHash = [], oo_Created = se_now E\<rparr>,
              audited ownerID [] ''admin'' adminID ''admin.user.create'' ''success'' remoteAddr (se_now E)
                (set_accounts w (ClearBootstrapTokens (se_others E a)))))))"

end
