(* ===== verification/Account_Props.thy ===== *)
theory Account_Props
  imports Account_Service
begin

text \<open>The properties of signing in.\<close>

section \<open>Passwords\<close>

lemma dollar_free: "CHR ''$'' \<notin> set (base64_raw url_alphabet s)"
proof -
  have "CHR ''$'' \<notin> set url_alphabet" by code_simp
  then show ?thesis using base64_raw_chars [of url_alphabet s] by auto
qed

lemma iterations_text: "decimal passwordIterations = ''600000''"
  by (simp add: decimal_def passwordIterations_def decimal_nat.simps, code_simp)

lemma iterations_parse: "atoi ''600000'' = Some passwordIterations"
  by code_simp

text \<open>A stored password hash accepts exactly the passwords with the same derived key as the one it was made from, so
  that password in particular: writing the hash and reading it back loses neither the salt nor the key. PBKDF2 returns
  a key of the length asked for.
\<close>

theorem password_round_trip:
  assumes "HashPassword E pw = Some encoded" and "se_salt E = Some salt" and "length salt = passwordSaltBytes"
    and "\<And>p s n l k. se_pbkdf2 E p s n l = Some k \<Longrightarrow> length k = l"
  shows "VerifyPassword E encoded pw' \<longleftrightarrow>
    se_pbkdf2 E pw' salt passwordIterations passwordKeyBytes = se_pbkdf2 E pw salt passwordIterations passwordKeyBytes"
proof -
  obtain key where key: "se_pbkdf2 E pw salt passwordIterations passwordKeyBytes = Some key"
    and enc: "encoded = passwordAlgorithm @ CHR ''$'' # ''600000'' @ CHR ''$'' # base64_raw url_alphabet salt
        @ CHR ''$'' # base64_raw url_alphabet key"
    using assms(1,2) by (auto simp: HashPassword_def iterations_text split: if_splits option.splits)
  have len: "length key = 32" using assms(4) [OF key] by (simp add: passwordKeyBytes_def)
  have parts: "split_on (CHR ''$'') encoded = [passwordAlgorithm, ''600000'', base64_raw url_alphabet salt, base64_raw url_alphabet key]"
    by (simp add: enc split_on_part split_on_last dollar_free passwordAlgorithm_def del: append_Cons append.simps(2))
  show ?thesis
    using len assms(3) key
    by (simp add: VerifyPassword_def parts iterations_parse base64_round_trip passwordIterations_def passwordSaltBytes_def passwordKeyBytes_def)
qed

definition stretch :: "string \<Rightarrow> string \<Rightarrow> int \<Rightarrow> nat \<Rightarrow> string option" where
  "stretch p s n l = Some (take l (p @ s @ replicate l (CHR ''x'')))"

definition demo_sign :: sign_env where
  "demo_sign = \<lparr>se_pbkdf2 = stretch, se_salt = Some (replicate 16 (CHR ''s'')), se_random = (\<lambda>p. Some (p @ ''1'')), se_hash_token = id,
     se_lower = id, se_others = id, se_now = 0\<rparr>"

lemma demo_sign_simps:
  "se_random demo_sign p = Some (p @ ''1'')" "se_hash_token demo_sign = id" "se_others demo_sign = id" "se_now demo_sign = 0"
  by (simp_all add: demo_sign_def)

lemma demo_hash: "\<exists>encoded. HashPassword demo_sign ''correct horse'' = Some encoded"
  by (simp add: HashPassword_def demo_sign_def ValidatePassword_def stretch_def)

lemma password_round_trip_witness:
  "\<exists>encoded. HashPassword demo_sign ''correct horse'' = Some encoded \<and> VerifyPassword demo_sign encoded ''correct horse''
    \<and> \<not> VerifyPassword demo_sign encoded ''wrong horse''"
proof -
  obtain encoded where e: "HashPassword demo_sign ''correct horse'' = Some encoded" using demo_hash by blast
  have l: "length k = l" if "se_pbkdf2 demo_sign p s n l = Some k" for p s n l k
    using that by (auto simp: demo_sign_def stretch_def)
  have "se_salt demo_sign = Some (replicate 16 (CHR ''s''))" by (simp add: demo_sign_def)
  then have verify: "VerifyPassword demo_sign encoded p \<longleftrightarrow>
      se_pbkdf2 demo_sign p (replicate 16 (CHR ''s'')) passwordIterations passwordKeyBytes
      = se_pbkdf2 demo_sign ''correct horse'' (replicate 16 (CHR ''s'')) passwordIterations passwordKeyBytes" for p
    by (rule password_round_trip [OF e]) (simp add: passwordSaltBytes_def, rule l)
  have "se_pbkdf2 demo_sign ''wrong horse'' (replicate 16 (CHR ''s'')) passwordIterations passwordKeyBytes
      \<noteq> se_pbkdf2 demo_sign ''correct horse'' (replicate 16 (CHR ''s'')) passwordIterations passwordKeyBytes"
    unfolding demo_sign_def stretch_def passwordKeyBytes_def by code_simp
  then show ?thesis using e verify by blast
qed

section \<open>The first account\<close>

lemma HasOwner_refuses:
  assumes "HasOwner a" shows "\<not> is_ok (fst (BootstrapOwnerAccount a h k un dn ph now))" and "\<not> fst (EnsureBootstrapToken a i h now ex)"
  using assms by (auto simp: HasOwner_def BootstrapOwnerAccount_def EnsureBootstrapToken_def split: option.splits)

text \<open>the Hub is claimed at most once. After a bootstrap token created the first owner, no bootstrap token, old or new,
  ever creates another owner, and none is issued again, whatever statements run in between.
\<close>

theorem bootstrap_once:
  assumes "BootstrapAccount E w token username displayName password remoteAddr = (Inr account, w')"
  shows "\<not> is_ok (fst (BootstrapOwnerAccount (exec_all exec_account ss (si_accounts w')) h k un dn ph now))
    \<and> \<not> fst (EnsureBootstrapToken (exec_all exec_account ss (si_accounts w')) i h now ex)"
proof -
  have "HasOwner (si_accounts w')"
    using assms by (auto simp: BootstrapAccount_def Let_def set_accounts_def audited_def OwnerAccountByID_def owner_account_of_def
        HasOwner_def split: option.splits if_splits prod.splits sum.splits dest!: find_in)
  then have "HasOwner (exec_all exec_account ss (si_accounts w'))" by (rule owners_stay_run)
  then show ?thesis using HasOwner_refuses by blast
qed

definition no_accounts :: accounts where
  "no_accounts = \<lparr>ac_owners = [], ac_bootstrap = [], ac_connections = [], ac_direct = [], ac_web = [], ac_admins = [], ac_admin_sessions = []\<rparr>"

lemma wf_no_accounts: "wf_accounts no_accounts"
  by (simp add: wf_accounts_def owner_keys_def credential_keys_def admin_keys_def account_refs_def no_accounts_def)

definition demo_world :: sign_world where
  "demo_world = \<lparr>si_accounts = exec_account (A_EnsureBootstrap ''b1'' ''boot'' 0 hour) no_accounts, si_audit = []\<rparr>"

definition demo_bootstrapped :: "(hub_error + owner_account) \<times> sign_world" where
  "demo_bootstrapped = BootstrapAccount demo_sign demo_world ''boot'' ''Alice'' [] ''correct horse'' ''::1''"

lemma demo_bootstrapped_ok: "is_ok (fst demo_bootstrapped)"
proof -
  have n: "normalizeUsername demo_sign ''Alice'' = Some ''alice''" by code_simp
  obtain h where h: "HashPassword demo_sign ''correct horse'' = Some h" using demo_hash by blast
  then have "h \<noteq> []" by (auto simp: HashPassword_def passwordAlgorithm_def split: if_splits option.splits)
  then show ?thesis
    by (simp add: demo_bootstrapped_def BootstrapAccount_def n h demo_sign_simps demo_world_def no_accounts_def EnsureBootstrapToken_def
        BootstrapOwnerAccount_def insert_owner_def sql_affected_def OwnerAccountByID_def owner_account_of_def given_def unix_def time_units
        Let_def)
qed

lemma bootstrap_once_witness:
  "\<not> is_ok (fst (BootstrapOwnerAccount (si_accounts (snd demo_bootstrapped)) ''boot'' ''o2'' ''bob'' ''Bob'' ''h'' 1))"
proof -
  obtain account w' where d: "demo_bootstrapped = (Inr account, w')" using demo_bootstrapped_ok by (auto simp: is_ok_iff) (metis prod.collapse)
  have "\<not> is_ok (fst (BootstrapOwnerAccount (si_accounts w') ''boot'' ''o2'' ''bob'' ''Bob'' ''h'' 1))"
    using bootstrap_once [OF d [unfolded demo_bootstrapped_def], where ss = "[]"] by simp
  then show ?thesis by (simp add: d)
qed

section \<open>Ending sessions\<close>

text \<open>Property C25: changing the password of an owner ends every other web session of the owner for good: each one that was
  stored and is not the session kept lets nobody in again, whatever statements run later, unless its very token is issued anew.
\<close>

theorem password_change_ends_sessions:
  assumes "ChangeOwnerPassword E w ownerID current new keep remoteAddr = (Inr (), w')"
    and "s \<in> set (ac_web (se_others E (si_accounts w)))" and "wf_accounts (se_others E (si_accounts w))"
    and "ws_OwnerID s = ownerID" and "ws_ID s \<noteq> keep" and "\<forall>t \<in> set ss. \<not> issues_web (ws_TokenHash s) t"
  shows "\<not> web_admits (exec_all exec_account ss (si_accounts w')) (ws_TokenHash s) t"
proof (rule web_lock.updated_dead_for_good [OF _ _ _ assms(2) _ assms(6)])
  show "ac_web (si_accounts w') = sql_update (\<lambda>s. ws_OwnerID s = ownerID \<and> ws_ID s \<noteq> keep \<and> ws_RevokedAt s = None)
      (\<lambda>s. s\<lparr>ws_RevokedAt := Some (unix (se_now E))\<rparr>) (ac_web (se_others E (si_accounts w)))"
    using assms(1) by (auto simp: ChangeOwnerPassword_def ChangeOwnerPassword_row_def owner_action_def audited_def set_accounts_def Let_def
        split: sum.splits if_splits option.splits)
qed (use assms(3-5) in \<open>auto simp: wf_accounts_def credential_keys_def web_dead_def\<close>)

text \<open>The session from which the password was changed goes on.\<close>

lemma kept_session_stays:
  assumes "ChangeOwnerPassword_row a ownerID ph keep now = (Inr (), a')" "s \<in> set (ac_web a)" "ws_ID s = keep"
  shows "s \<in> set (ac_web a')"
  using assms by (force simp: ChangeOwnerPassword_row_def Let_def set_sql_update split: if_splits)

definition zero_key :: "string \<Rightarrow> string \<Rightarrow> int \<Rightarrow> nat \<Rightarrow> string option" where
  "zero_key p s n l = Some (replicate l (CHR 0x00))"

definition plain_sign :: sign_env where
  "plain_sign = demo_sign\<lparr>se_pbkdf2 := zero_key\<rparr>"

definition demo_stored :: string where
  "demo_stored = ''pbkdf2-sha256$100000$'' @ replicate 22 (CHR ''A'') @ ''$'' @ replicate 22 (CHR ''A'')"

definition demo_session :: web_row where
  "demo_session = \<lparr>ws_ID = ''s1'', ws_OwnerID = ''o1'', ws_TokenHash = ''h1'', ws_CSRFToken = ''x'', ws_CreatedAt = 0, ws_LastSeenAt = 0,
     ws_ExpiresAt = 3600, ws_RevokedAt = None\<rparr>"

definition demo_signed_in :: sign_world where
  "demo_signed_in = \<lparr>si_accounts = no_accounts\<lparr>ac_owners := [\<lparr>ow_ID = ''o1'', ow_DisplayName = ''A'', ow_Username = Some ''alice'',
     ow_PasswordHash = Some demo_stored, ow_CreatedAt = 0\<rparr>], ac_web := [demo_session]\<rparr>, si_audit = []\<rparr>"

lemma demo_verify: "VerifyPassword plain_sign demo_stored ''correct horse''"
  unfolding demo_stored_def plain_sign_def zero_key_def demo_sign_def by code_simp

lemma demo_change: "\<exists>w'. ChangeOwnerPassword plain_sign demo_signed_in ''o1'' ''correct horse'' ''battery staple'' [] ''::1'' = (Inr (), w')"
proof -
  have "\<exists>h. HashPassword plain_sign ''battery staple'' = Some h"
    by (simp add: HashPassword_def plain_sign_def demo_sign_def ValidatePassword_def zero_key_def)
  then obtain h where h: "HashPassword plain_sign ''battery staple'' = Some h" by blast
  have "demo_stored \<noteq> []" by (simp add: demo_stored_def)
  moreover have "se_others plain_sign = id" by (simp add: plain_sign_def demo_sign_def)
  ultimately show ?thesis
    by (simp add: ChangeOwnerPassword_def OwnerAccountByID_def owner_account_of_def given_def demo_signed_in_def demo_verify h
        owner_action_def ChangeOwnerPassword_row_def sql_affected_def)
qed

lemma password_change_ends_sessions_witness:
  "web_admits (si_accounts demo_signed_in) ''h1'' 60 \<and> (\<exists>w'.
     ChangeOwnerPassword plain_sign demo_signed_in ''o1'' ''correct horse'' ''battery staple'' [] ''::1'' = (Inr (), w')
     \<and> \<not> web_admits (exec_all exec_account [A_TouchWeb ''s1'' minute] (si_accounts w')) ''h1'' 60)"
proof
  have "is_ok (AuthenticateWebSession_row (si_accounts demo_signed_in) ''h1'' minute)"
    by (simp add: AuthenticateWebSession_row_def demo_signed_in_def demo_session_def no_accounts_def unix_def time_units)
  moreover have "unix minute = 60" by (simp add: unix_def time_units)
  ultimately show "web_admits (si_accounts demo_signed_in) ''h1'' 60" unfolding web_admits_def by blast
  obtain w' where w': "ChangeOwnerPassword plain_sign demo_signed_in ''o1'' ''correct horse'' ''battery staple'' [] ''::1'' = (Inr (), w')"
    using demo_change by blast
  have o: "se_others plain_sign (si_accounts demo_signed_in) = si_accounts demo_signed_in" by (simp add: plain_sign_def demo_sign_def)
  have s: "demo_session \<in> set (ac_web (se_others plain_sign (si_accounts demo_signed_in)))" unfolding o by (simp add: demo_signed_in_def)
  have "wf_accounts (se_others plain_sign (si_accounts demo_signed_in))" unfolding o
    by (simp add: demo_signed_in_def wf_accounts_def owner_keys_def credential_keys_def admin_keys_def account_refs_def owner_ids_def
        no_accounts_def demo_session_def)
  from password_change_ends_sessions [OF w' s this, of "[A_TouchWeb ''s1'' minute]" 60]
  have "\<not> web_admits (exec_all exec_account [A_TouchWeb ''s1'' minute] (si_accounts w')) ''h1'' 60" by (simp add: demo_session_def)
  then show "\<exists>w'. ChangeOwnerPassword plain_sign demo_signed_in ''o1'' ''correct horse'' ''battery staple'' [] ''::1'' = (Inr (), w')
     \<and> \<not> web_admits (exec_all exec_account [A_TouchWeb ''s1'' minute] (si_accounts w')) ''h1'' 60" using w' by blast
qed

text \<open>What is revoked is dead for good: a web session, a connection token, a direct access key, an administrator's sessions.\<close>

lemma logged_out_for_good:
  assumes "RevokeWebSession_row a (ws_ID s) (ws_OwnerID s) now = (Inr (), a')" "s \<in> set (ac_web a)" "wf_accounts a"
    "\<forall>t \<in> set ss. \<not> issues_web (ws_TokenHash s) t"
  shows "\<not> web_admits (exec_all exec_account ss a') (ws_TokenHash s) t"
proof (rule web_lock.updated_dead_for_good [OF _ _ _ assms(2) _ assms(4)])
  show "ac_web a' = sql_update (\<lambda>r. ws_ID r = ws_ID s \<and> ws_OwnerID r = ws_OwnerID s \<and> ws_RevokedAt r = None)
      (\<lambda>r. r\<lparr>ws_RevokedAt := Some (unix now)\<rparr>) (ac_web a)"
    using assms(1) by (auto simp: RevokeWebSession_row_def Let_def split: if_splits)
qed (use assms(3) in \<open>auto simp: wf_accounts_def credential_keys_def web_dead_def\<close>)

lemma connection_revoked_for_good:
  assumes "RevokeConnectionToken_row a (ct_OwnerID s) (ct_ID s) now = (Inr (), a')" "s \<in> set (ac_connections a)" "wf_accounts a"
    "\<forall>t \<in> set ss. \<not> issues_connection (ct_TokenHash s) t"
  shows "\<not> connection_admits (exec_all exec_account ss a') (ct_TokenHash s) t"
proof (rule connection_lock.updated_dead_for_good [OF _ _ _ assms(2) _ assms(4)])
  show "ac_connections a' = sql_update (\<lambda>r. ct_ID r = ct_ID s \<and> ct_OwnerID r = ct_OwnerID s \<and> ct_RevokedAt r = None \<and> ct_DeletedAt r = None)
      (\<lambda>r. r\<lparr>ct_RevokedAt := Some (unix now)\<rparr>) (ac_connections a)"
    using assms(1) by (auto simp: RevokeConnectionToken_row_def Let_def split: if_splits)
qed (use assms(3) in \<open>auto simp: wf_accounts_def credential_keys_def connection_dead_def\<close>)

lemma direct_revoked_for_good:
  assumes "RevokeDirectAccessKey_row a (dk_OwnerID s) (dk_ID s) now = (Inr (), a')" "s \<in> set (ac_direct a)" "wf_accounts a"
    "\<forall>t \<in> set ss. \<not> issues_direct (dk_TokenHash s) t"
  shows "\<not> direct_admits (exec_all exec_account ss a') (dk_TokenHash s) t"
proof (rule direct_lock.updated_dead_for_good [OF _ _ _ assms(2) _ assms(4)])
  show "ac_direct a' = sql_update (\<lambda>r. dk_ID r = dk_ID s \<and> dk_OwnerID r = dk_OwnerID s \<and> dk_RevokedAt r = None \<and> dk_DeletedAt r = None)
      (\<lambda>r. r\<lparr>dk_RevokedAt := Some (unix now)\<rparr>) (ac_direct a)"
    using assms(1) by (auto simp: RevokeDirectAccessKey_row_def Let_def split: if_splits)
qed (use assms(3) in \<open>auto simp: wf_accounts_def credential_keys_def direct_dead_def\<close>)

lemma rotation_ends_admin_sessions:
  assumes "RotateAdminPassword a (as_AdminID s) ph now = (Inr (), a')" "s \<in> set (ac_admin_sessions a)" "wf_accounts a"
    "\<forall>t \<in> set ss. \<not> issues_admin_session (as_TokenHash s) t"
  shows "\<not> admin_session_admits (exec_all exec_account ss a') (as_TokenHash s) t"
proof (rule admin_session_lock.updated_dead_for_good [OF _ _ _ assms(2) _ assms(4)])
  show "ac_admin_sessions a' = sql_update (\<lambda>r. as_AdminID r = as_AdminID s \<and> as_RevokedAt r = None)
      (\<lambda>r. r\<lparr>as_RevokedAt := Some (unix now)\<rparr>) (ac_admin_sessions a)"
    using assms(1) by (auto simp: RotateAdminPassword_def Let_def split: if_splits)
qed (use assms(3) in \<open>auto simp: wf_accounts_def credential_keys_def admin_session_dead_def\<close>)

section \<open>Direct access keys\<close>

lemma collect_scopes_ok:
  assumes "collect_scopes result scopes = Some r" "set result \<subseteq> set directAccessScopes" "distinct result"
  shows "set r \<subseteq> set directAccessScopes \<and> distinct r"
  using assms by (induction result scopes rule: collect_scopes.induct) (auto simp: Let_def split: if_splits)

lemma new_direct_key_opens:
  assumes "CreateDirectAccessKey_row a0 d h = (Inr (), a)" and "unix now < unix (da_ExpiresAt d)"
  shows "\<exists>k. fst (AuthenticateDirectAccessKey_row a h now) = Inr k \<and> da_ID k = da_ID d \<and> da_OwnerID k = da_OwnerID d
    \<and> da_Scopes k = da_Scopes d \<and> da_MachineID k = da_MachineID d"
proof -
  obtain r where a: "ac_direct a = ac_direct a0 @ [r]" and new: "\<forall>x \<in> set (ac_direct a0). dk_TokenHash x \<noteq> h"
    and r: "dk_TokenHash r = h" "dk_DeletedAt r = None" "dk_RevokedAt r = None" "dk_LastUsedAt r = None" "dk_ExpiresAt r = unix (da_ExpiresAt d)"
      "dk_ID r = da_ID d" "dk_OwnerID r = da_OwnerID d" "dk_Scopes r = da_Scopes d" "dk_MachineID r = null_string (da_MachineID d)"
    using assms(1) by (auto simp: CreateDirectAccessKey_row_def list_ex_iff split: if_splits)
  have "find (\<lambda>x. dk_TokenHash x = h \<and> dk_DeletedAt x = None) (ac_direct a0) = None" using new by (auto simp: find_None_iff)
  then have "find (\<lambda>x. dk_TokenHash x = h \<and> dk_DeletedAt x = None) (ac_direct a) = Some r" using r by (simp add: a find_snoc)
  then show ?thesis
    using r assms(2) by (simp add: AuthenticateDirectAccessKey_row_def direct_key_of_def null_string_def)
qed

text \<open>A direct access key is created only within the limits: at most seven days, one day when it carries any scope, 1 to 600
  requests a minute, its scopes sorted, without duplicates and all known, an active machine of the owner when it
  names one; and the returned token opens exactly that key until it expires.
\<close>

theorem direct_key_grant:
  assumes "CreateDirectAccessKey E hub w ownerID label machineID scopes ttl rate remoteAddr = (Inr (token, c), w')"
    and "unix now < unix (se_now E + ttl)"
  shows "0 < ttl \<and> ttl \<le> 7 * 24 * hour \<and> (da_Scopes c \<noteq> [] \<longrightarrow> ttl \<le> 24 * hour)
    \<and> 1 \<le> da_RateLimitPerMinute c \<and> da_RateLimitPerMinute c \<le> 600
    \<and> set (da_Scopes c) \<subseteq> set directAccessScopes \<and> sorted (da_Scopes c) \<and> distinct (da_Scopes c)
    \<and> (da_MachineID c \<noteq> [] \<longrightarrow> (\<exists>m. GetMachine hub ownerID (da_MachineID c) = Inr m \<and> mr_Status m = ''active''))
    \<and> (\<exists>k. fst (AuthenticateDirectAccessKey_row (si_accounts w') (se_hash_token E token) now) = Inr k
         \<and> da_ID k = da_ID c \<and> da_OwnerID k = ownerID \<and> da_Scopes k = da_Scopes c \<and> da_MachineID k = da_MachineID c)"
proof -
  obtain d a where row: "CreateDirectAccessKey_row (se_others E (si_accounts w)) d (se_hash_token E token) = (Inr (), a)"
    and w': "si_accounts w' = a" and c: "c = d\<lparr>da_TokenHint := directAccessTokenHint (da_TokenHint d)\<rparr>"
    and d: "da_OwnerID d = ownerID" "da_ExpiresAt d = se_now E + ttl" "normalizeDirectAccessScopes scopes = Some (da_Scopes d)"
    and lim: "0 < ttl" "ttl \<le> 7 * 24 * hour" "da_Scopes d \<noteq> [] \<longrightarrow> ttl \<le> 24 * hour" "1 \<le> da_RateLimitPerMinute d" "da_RateLimitPerMinute d \<le> 600"
    and m: "da_MachineID d \<noteq> [] \<longrightarrow> (\<exists>m. GetMachine hub ownerID (da_MachineID d) = Inr m \<and> mr_Status m = ''active'')"
    using assms(1)
    by (auto simp: CreateDirectAccessKey_def Let_def set_accounts_def audited_def not_le not_less
        split: option.splits if_splits prod.splits sum.splits)
  obtain r where r: "collect_scopes [] scopes = Some r" "da_Scopes d = sort r" using d(3) by (auto simp: normalizeDirectAccessScopes_def)
  have s: "set (da_Scopes d) \<subseteq> set directAccessScopes \<and> sorted (da_Scopes d) \<and> distinct (da_Scopes d)"
    using collect_scopes_ok [OF r(1)] r(2) by simp
  show ?thesis using new_direct_key_opens [OF row, of now] assms(2) d(1,2) s lim m by (simp add: w' c)
qed

lemma demo_direct:
  "\<exists>a. CreateDirectAccessKey demo_sign hub demo_signed_in ''o1'' ''laptop'' [] [''jobs'', ''git''] hour 0 ''::1''
     = (Inr (''fsp_tmp_1'', \<lparr>da_ID = ''dak_1'', da_OwnerID = ''o1'', da_TokenHint = directAccessTokenHint (directAccessTokenHint ''fsp_tmp_1''),
          da_Label = ''laptop'', da_Scopes = [''git'', ''jobs''], da_MachineID = [], da_RateLimitPerMinute = 120, da_CreatedAt = 0,
          da_LastUsedAt = None, da_ExpiresAt = hour, da_RevokedAt = None\<rparr>), a)"
proof -
  have n: "normalizeDirectAccessScopes [''jobs'', ''git''] = Some [''git'', ''jobs'']" by code_simp
  have t: "trim_space ''laptop'' = ''laptop''" "trim_space [] = []" by code_simp+
  show ?thesis
    by (simp add: CreateDirectAccessKey_def n t demo_sign_simps time_units CreateDirectAccessKey_row_def demo_signed_in_def no_accounts_def
        owner_exists_def active_direct_keys_def ListDirectAccessKeys_rows_def Let_def)
qed

lemma direct_key_grant_witness:
  "\<forall>hub. \<exists>token c w'. CreateDirectAccessKey demo_sign hub demo_signed_in ''o1'' ''laptop'' [] [''jobs'', ''git''] hour 0 ''::1'' = (Inr (token, c), w')
     \<and> (\<exists>k. fst (AuthenticateDirectAccessKey_row (si_accounts w') (se_hash_token demo_sign token) minute) = Inr k
         \<and> da_ID k = ''dak_1'' \<and> da_Scopes k = [''git'', ''jobs''])"
proof
  fix hub
  obtain token c w' where d: "CreateDirectAccessKey demo_sign hub demo_signed_in ''o1'' ''laptop'' [] [''jobs'', ''git''] hour 0 ''::1'' = (Inr (token, c), w')"
    and c: "da_ID c = ''dak_1''" "da_Scopes c = [''git'', ''jobs'']"
    using demo_direct [of hub] by fastforce
  have "unix minute < unix (se_now demo_sign + hour)" by (simp add: demo_sign_simps unix_def time_units)
  from direct_key_grant [OF d this] show "\<exists>token c w'. CreateDirectAccessKey demo_sign hub demo_signed_in ''o1'' ''laptop'' [] [''jobs'', ''git''] hour 0 ''::1'' = (Inr (token, c), w')
     \<and> (\<exists>k. fst (AuthenticateDirectAccessKey_row (si_accounts w') (se_hash_token demo_sign token) minute) = Inr k
         \<and> da_ID k = ''dak_1'' \<and> da_Scopes k = [''git'', ''jobs''])" using d c by auto
qed

end
