(* ===== verification/Artifact_Store.thy ===== *)
theory Artifact_Store
  imports Collab_Store Credential_Rows Go_Text
begin

text \<open>
  The store of artifacts (files a Node hands to the Hub) and of the queue of files to delete: the statements of
  \<open>internal/hub/store/store.go\<close> on the tables \<open>artifacts\<close>, \<open>artifact_uploads\<close>, \<open>artifact_file_deletions\<close>, and
  of maintenance. Times are whole seconds as the columns hold them. The tables of results are here too, since their pages
  reference artifacts; their statements are in \<open>Result_Store\<close>. A foreign key without \<open>CASCADE\<close> makes a deletion fail.
\<close>

record artifact_row =
  ar_ID :: string
  ar_OwnerID :: string
  ar_MachineID :: string
  ar_JobID :: "string option"
  ar_LogicalName :: string
  ar_ContentType :: string
  ar_SizeBytes :: int
  ar_SHA256 :: string
  ar_StorageKey :: "string option"
  ar_Status :: string
  ar_CreatedAt :: int
  ar_CompletedAt :: "int option"
  ar_ExpiresAt :: int

record upload_row =
  up_ID :: string
  up_ArtifactID :: string
  up_MachineID :: string
  up_ExpectedSize :: int
  up_ExpectedSHA256 :: string
  up_ReceivedSize :: int
  up_Status :: string
  up_CreatedAt :: int
  up_ExpiresAt :: int

record deletion_row =
  dl_Kind :: string
  dl_PathKey :: string
  dl_Attempts :: int
  dl_LastError :: "string option"
  dl_NextAttemptAt :: int
  dl_CreatedAt :: int
  dl_UpdatedAt :: int

record result_row =
  rr_ResultID :: string
  rr_OwnerID :: string
  rr_MachineID :: string
  rr_IdempotencyKey :: string
  rr_RequestHash :: string
  rr_Status :: string
  rr_ManifestJSON :: string
  rr_Revision :: int
  rr_ErrorCode :: string
  rr_ErrorMessage :: string
  rr_CreatedAt :: int
  rr_CommittedAt :: "int option"
  rr_ExpiresAt :: int

record page_row =
  pg_ResultID :: string
  pg_PageNo :: int
  pg_OwnerID :: string
  pg_ArtifactID :: string
  pg_CreatedAt :: int

record artifact_db =
  af_machines :: "machine_row list"
  af_artifacts :: "artifact_row list"
  af_uploads :: "upload_row list"
  af_deletions :: "deletion_row list"
  af_results :: "result_row list"
  af_pages :: "page_row list"

section \<open>Uploads\<close>

definition coalesce :: "string option \<Rightarrow> string" where
  "coalesce v = (case v of None \<Rightarrow> [] | Some s \<Rightarrow> s)"

definition FindResumableArtifactUpload ::
    "artifact_db \<Rightarrow> string \<Rightarrow> string \<Rightarrow> string \<Rightarrow> string \<Rightarrow> string \<Rightarrow> int \<Rightarrow> string \<Rightarrow> instant \<Rightarrow> upload_row option" where
  "FindResumableArtifactUpload w ownerID machineID jobID logicalName contentType sizeBytes sha256 now =
     (case sort_key (\<lambda>u. - up_CreatedAt u)
        (filter (\<lambda>u. up_Status u = ''active'' \<and> unix now < up_ExpiresAt u
             \<and> list_ex (\<lambda>a. ar_ID a = up_ArtifactID u \<and> ar_OwnerID a = ownerID \<and> ar_MachineID a = machineID
                  \<and> coalesce (ar_JobID a) = jobID \<and> ar_LogicalName a = logicalName \<and> ar_ContentType a = contentType
                  \<and> ar_SizeBytes a = sizeBytes \<and> ar_SHA256 a = sha256 \<and> ar_Status a = ''uploading'') (af_artifacts w))
           (af_uploads w)) of
        [] \<Rightarrow> None
      | u # _ \<Rightarrow> Some u)"

record artifact_usage =
  us_ActiveUploads :: int
  us_MachineBytes :: int
  us_OwnerBytes :: int

definition live_upload :: "int \<Rightarrow> upload_row \<Rightarrow> bool" where
  "live_upload t u = (up_Status u = ''active'' \<and> t < up_ExpiresAt u)"

definition machine_uploads :: "artifact_db \<Rightarrow> string \<Rightarrow> int \<Rightarrow> upload_row list" where
  "machine_uploads w machineID t = filter (\<lambda>u. up_MachineID u = machineID \<and> live_upload t u) (af_uploads w)"

definition machine_artifacts :: "artifact_db \<Rightarrow> string \<Rightarrow> int \<Rightarrow> artifact_row list" where
  "machine_artifacts w machineID t =
     filter (\<lambda>a. ar_MachineID a = machineID \<and> ar_Status a = ''complete'' \<and> t < ar_ExpiresAt a) (af_artifacts w)"

definition owner_artifacts :: "artifact_db \<Rightarrow> string \<Rightarrow> int \<Rightarrow> artifact_row list" where
  "owner_artifacts w ownerID t =
     filter (\<lambda>a. ar_OwnerID a = ownerID \<and> (ar_Status a = ''complete'' \<and> t < ar_ExpiresAt a
        \<or> ar_Status a = ''uploading'' \<and> list_ex (\<lambda>u. up_ArtifactID u = ar_ID a \<and> live_upload t u) (af_uploads w))) (af_artifacts w)"

definition ArtifactUsage :: "artifact_db \<Rightarrow> string \<Rightarrow> string \<Rightarrow> int \<Rightarrow> artifact_usage" where
  "ArtifactUsage w ownerID machineID t =
     \<lparr>us_ActiveUploads = int (length (machine_uploads w machineID t)),
      us_MachineBytes = sum_list (map up_ExpectedSize (machine_uploads w machineID t))
        + sum_list (map ar_SizeBytes (machine_artifacts w machineID t)),
      us_OwnerBytes = sum_list (map ar_SizeBytes (owner_artifacts w ownerID t))\<rparr>"

record artifact_quota =
  qu_MaxActiveUploads :: int
  qu_MaxMachineBytes :: int
  qu_MaxOwnerBytes :: int

definition CreateArtifactUpload_row ::
    "artifact_db \<Rightarrow> artifact_row \<Rightarrow> upload_row \<Rightarrow> artifact_quota \<Rightarrow> (hub_error + unit) \<times> artifact_db" where
  "CreateArtifactUpload_row w a u q =
     (case find (\<lambda>m. mr_ID m = ar_MachineID a) (af_machines w) of
        None \<Rightarrow> (Inl ErrNotFound, w)
      | Some m \<Rightarrow>
      if mr_OwnerID m \<noteq> ar_OwnerID a \<or> mr_Status m \<noteq> ''active'' \<or> up_MachineID u \<noteq> ar_MachineID a \<or> up_ArtifactID u \<noteq> ar_ID a
      then (Inl ErrUnauthorized, w)
      else let usage = ArtifactUsage w (ar_OwnerID a) (ar_MachineID a) (ar_CreatedAt a)
      in if qu_MaxActiveUploads q \<le> us_ActiveUploads usage
            \<or> qu_MaxMachineBytes q < us_MachineBytes usage + ar_SizeBytes a
            \<or> qu_MaxOwnerBytes q < us_OwnerBytes usage + ar_SizeBytes a
         then (Inl ErrResourceLimit, w)
         else if list_ex (\<lambda>r. ar_ID r = ar_ID a) (af_artifacts w)
            \<or> list_ex (\<lambda>r. up_ID r = up_ID u \<or> up_ArtifactID r = up_ArtifactID u) (af_uploads w)
         then (Inl constraint_error, w)
         else (Inr (), w\<lparr>af_artifacts := af_artifacts w @ [a\<lparr>ar_Status := ''uploading'', ar_StorageKey := None, ar_CompletedAt := None\<rparr>],
                af_uploads := af_uploads w @ [u\<lparr>up_ReceivedSize := 0, up_Status := ''active'', up_CreatedAt := ar_CreatedAt a\<rparr>]\<rparr>))"

definition GetArtifactUploadState :: "artifact_db \<Rightarrow> string \<Rightarrow> string \<Rightarrow> hub_error + upload_row" where
  "GetArtifactUploadState w machineID uploadID =
     (case find (\<lambda>u. up_ID u = uploadID \<and> up_MachineID u = machineID) (af_uploads w) of None \<Rightarrow> Inl ErrNotFound | Some u \<Rightarrow> Inr u)"

definition GetArtifactUpload :: "artifact_db \<Rightarrow> string \<Rightarrow> string \<Rightarrow> instant \<Rightarrow> hub_error + upload_row" where
  "GetArtifactUpload w machineID uploadID now =
     (case GetArtifactUploadState w machineID uploadID of
        Inl e \<Rightarrow> Inl e
      | Inr u \<Rightarrow> if up_Status u \<noteq> ''active'' then Inl ErrConflict
                 else if \<not> now < from_unix (up_ExpiresAt u) then Inl ErrExpired else Inr u)"

definition AdvanceArtifactUpload :: "artifact_db \<Rightarrow> string \<Rightarrow> string \<Rightarrow> int \<Rightarrow> int \<Rightarrow> instant \<Rightarrow> (hub_error + unit) \<times> artifact_db" where
  "AdvanceArtifactUpload w machineID uploadID expectedOffset newOffset now =
     (let p = (\<lambda>u. up_ID u = uploadID \<and> up_MachineID u = machineID \<and> up_Status u = ''active'' \<and> up_ReceivedSize u = expectedOffset
            \<and> unix now < up_ExpiresAt u)
      in if sql_affected p (af_uploads w) \<noteq> 1 then (Inl ErrConflict, w)
         else (Inr (), w\<lparr>af_uploads := sql_update p (\<lambda>u. u\<lparr>up_ReceivedSize := newOffset\<rparr>) (af_uploads w)\<rparr>))"

text \<open>The scope column is \<open>owner_id\<close> or \<open>machine_id\<close>.\<close>

definition getArtifact :: "(artifact_row \<Rightarrow> string) \<Rightarrow> artifact_db \<Rightarrow> string \<Rightarrow> string \<Rightarrow> hub_error + artifact_row" where
  "getArtifact scope w scopeID artifactID =
     (case find (\<lambda>a. ar_ID a = artifactID \<and> scope a = scopeID) (af_artifacts w) of None \<Rightarrow> Inl ErrNotFound | Some a \<Rightarrow> Inr a)"

definition GetArtifact_row :: "artifact_db \<Rightarrow> string \<Rightarrow> string \<Rightarrow> hub_error + artifact_row" where
  "GetArtifact_row w ownerID artifactID = getArtifact ar_OwnerID w ownerID artifactID"

definition GetArtifactByMachine :: "artifact_db \<Rightarrow> string \<Rightarrow> string \<Rightarrow> hub_error + artifact_row" where
  "GetArtifactByMachine w machineID artifactID = getArtifact ar_MachineID w machineID artifactID"

definition CompleteArtifactUpload_row ::
    "artifact_db \<Rightarrow> string \<Rightarrow> string \<Rightarrow> string \<Rightarrow> instant \<Rightarrow> (hub_error + artifact_row) \<times> artifact_db" where
  "CompleteArtifactUpload_row w machineID uploadID storageKey now =
     (case find (\<lambda>u. up_ID u = uploadID \<and> up_MachineID u = machineID) (af_uploads w) of
        None \<Rightarrow> (Inl ErrNotFound, w)
      | Some u \<Rightarrow>
      if up_Status u \<noteq> ''active'' \<or> up_ExpectedSize u \<noteq> up_ReceivedSize u then (Inl ErrConflict, w)
      else if up_ExpiresAt u \<le> unix now then (Inl ErrExpired, w)
      else let p = (\<lambda>a. ar_ID a = up_ArtifactID u \<and> ar_MachineID a = machineID \<and> ar_Status a = ''uploading'');
               w1 = w\<lparr>af_uploads := sql_update (\<lambda>x. up_ID x = uploadID) (\<lambda>x. x\<lparr>up_Status := ''complete''\<rparr>) (af_uploads w),
                  af_artifacts := sql_update p (\<lambda>a. a\<lparr>ar_Status := ''complete'', ar_StorageKey := Some storageKey,
                    ar_CompletedAt := Some (unix now)\<rparr>) (af_artifacts w)\<rparr>
      in if sql_affected p (af_artifacts w) \<noteq> 1 then (Inl ErrConflict, w)
         else (GetArtifactByMachine w1 machineID (up_ArtifactID u), w1))"

definition AbortArtifactUpload_row :: "artifact_db \<Rightarrow> string \<Rightarrow> string \<Rightarrow> (hub_error + unit) \<times> artifact_db" where
  "AbortArtifactUpload_row w machineID uploadID =
     (case find (\<lambda>u. up_ID u = uploadID \<and> up_MachineID u = machineID) (af_uploads w) of
        None \<Rightarrow> (Inl ErrNotFound, w)
      | Some u \<Rightarrow>
      if up_Status u = ''aborted'' then (Inr (), w)
      else if up_Status u \<noteq> ''active'' then (Inl ErrConflict, w)
      else (Inr (), w\<lparr>af_uploads := sql_update (\<lambda>x. up_ID x = uploadID \<and> up_Status x = ''active'') (\<lambda>x. x\<lparr>up_Status := ''aborted''\<rparr>)
                        (af_uploads w),
                     af_artifacts := sql_update (\<lambda>a. ar_ID a = up_ArtifactID u \<and> ar_Status a = ''uploading'')
                        (\<lambda>a. a\<lparr>ar_Status := ''aborted''\<rparr>) (af_artifacts w)\<rparr>))"

section \<open>Maintenance\<close>

fun uniqueStrings_from :: "string list \<Rightarrow> string list \<Rightarrow> string list" where
  "uniqueStrings_from seen [] = []"
| "uniqueStrings_from seen (v # vs) =
     (if v = [] \<or> v \<in> set seen then uniqueStrings_from seen vs else v # uniqueStrings_from (v # seen) vs)"

definition uniqueStrings :: "string list \<Rightarrow> string list" where
  "uniqueStrings values = uniqueStrings_from [] values"

lemma set_uniqueStrings [simp]: "set (uniqueStrings vs) = set vs - {[]}"
proof -
  have "set (uniqueStrings_from seen vs) = set vs - set seen - {[]}" for seen
    by (induction vs arbitrary: seen) auto
  then show ?thesis by (simp add: uniqueStrings_def)
qed

text \<open>The columns of the two tables \<open>deleteByIDs\<close> is used on, from \<open>migrations/002_artifacts.sql\<close> and
  \<open>migrations/014_result_pool.sql\<close>; a statement that names another column fails.\<close>

definition table_columns :: "string \<Rightarrow> string list" where
  "table_columns table =
     (if table = ''artifact_uploads'' then [''id'', ''artifact_id'', ''machine_id'', ''expected_size'', ''expected_sha256'', ''received_size'',
        ''status'', ''created_at'', ''expires_at'']
      else [''result_id'', ''owner_id'', ''machine_id'', ''idempotency_key'', ''request_hash'', ''status'', ''manifest_json'', ''revision'',
        ''error_code'', ''error_message'', ''created_at'', ''committed_at'', ''expires_at''])"

definition no_such_column :: hub_error where "no_such_column = OtherError ''SQL logic error: no such column: id''"

definition deleteByIDs :: "string \<Rightarrow> string list \<Rightarrow> artifact_db \<Rightarrow> (hub_error + artifact_db)" where
  "deleteByIDs table ids w =
     (let keys = uniqueStrings ids
      in if keys = [] then Inr w
         else if table \<noteq> ''artifact_uploads'' \<and> table \<noteq> ''result_records'' then Inl ErrUnauthorized
         else if ''id'' \<notin> set (table_columns table) then Inl no_such_column
         else Inr (w\<lparr>af_uploads := sql_delete (\<lambda>u. up_ID u \<in> set keys) (af_uploads w)\<rparr>))"

definition CleanupResults :: "artifact_db \<Rightarrow> instant \<Rightarrow> int \<Rightarrow> (hub_error + unit) \<times> artifact_db" where
  "CleanupResults w now limit =
     (if limit \<le> 0 then (Inr (), w)
      else let ids = map rr_ResultID (take (nat limit) (sort_key (\<lambda>r. (rr_ExpiresAt r, rr_ResultID r))
              (filter (\<lambda>r. rr_ExpiresAt r \<le> unix now) (af_results w))))
      in if ids = [] then (Inr (), w)
         else case deleteByIDs ''result_records'' ids w of Inl e \<Rightarrow> (Inl e, w) | Inr w1 \<Rightarrow> (Inr (), w1))"

text \<open>An upload goes with its artifact (\<open>ON DELETE CASCADE\<close>); an artifact that a page references cannot be deleted.\<close>

definition deleteArtifactsByIDs :: "string list \<Rightarrow> bool \<Rightarrow> artifact_db \<Rightarrow> hub_error + artifact_db" where
  "deleteArtifactsByIDs ids nonCompleteOnly w =
     (let p = (\<lambda>a. ar_ID a \<in> set (uniqueStrings ids) \<and> (nonCompleteOnly \<longrightarrow> ar_Status a \<noteq> ''complete''));
          gone = map ar_ID (filter p (af_artifacts w))
      in if uniqueStrings ids = [] then Inr w
         else if list_ex (\<lambda>r. pg_ArtifactID r \<in> set gone) (af_pages w) then Inl constraint_error
         else Inr (w\<lparr>af_artifacts := sql_delete p (af_artifacts w), af_uploads := sql_delete (\<lambda>u. up_ArtifactID u \<in> set gone) (af_uploads w)\<rparr>))"

definition artifactStorageKeyFromSHA256 :: "(string \<Rightarrow> string) \<Rightarrow> string \<Rightarrow> string option" where
  "artifactStorageKeyFromSHA256 uni v =
     (if length v \<noteq> 71 \<or> \<not> has_prefix v ''sha256:'' \<or> to_lower uni v \<noteq> v then None
      else let digest = trim_prefix v ''sha256:''
      in if \<not> list_all hex_digit digest then None
         else Some (take 2 digest @ ''/'' @ take 2 (drop 2 digest) @ ''/'' @ digest))"

definition filterUnreferencedStorageKeys :: "artifact_db \<Rightarrow> string list \<Rightarrow> string list" where
  "filterUnreferencedStorageKeys w candidates =
     filter (\<lambda>k. \<not> list_ex (\<lambda>a. ar_StorageKey a = Some k) (af_artifacts w)) (uniqueStrings candidates)"

definition ArtifactStorageKeyReferenced :: "artifact_db \<Rightarrow> string \<Rightarrow> bool" where
  "ArtifactStorageKeyReferenced w storageKey = list_ex (\<lambda>a. ar_StorageKey a = Some storageKey) (af_artifacts w)"

definition enqueueArtifactFileDeletions :: "string \<Rightarrow> string list \<Rightarrow> instant \<Rightarrow> artifact_db \<Rightarrow> artifact_db" where
  "enqueueArtifactFileDeletions kind keys now w =
     w\<lparr>af_deletions := af_deletions w @ map (\<lambda>k. \<lparr>dl_Kind = kind, dl_PathKey = k, dl_Attempts = 0, dl_LastError = None,
          dl_NextAttemptAt = unix now, dl_CreatedAt = unix now, dl_UpdatedAt = unix now\<rparr>)
        (filter (\<lambda>k. \<not> list_ex (\<lambda>d. dl_Kind d = kind \<and> dl_PathKey d = k) (af_deletions w)) (uniqueStrings keys))\<rparr>"

definition dueArtifactFileDeletions :: "artifact_db \<Rightarrow> instant \<Rightarrow> nat \<Rightarrow> deletion_row list" where
  "dueArtifactFileDeletions w now limit =
     take limit (sort_key (\<lambda>d. (dl_NextAttemptAt d, dl_Kind d, dl_PathKey d)) (filter (\<lambda>d. dl_NextAttemptAt d \<le> unix now) (af_deletions w)))"

definition stale_uploads :: "artifact_db \<Rightarrow> instant \<Rightarrow> nat \<Rightarrow> upload_row list" where
  "stale_uploads w now limit = take limit (sort_key (\<lambda>u. (up_ExpiresAt u, up_ID u))
     (filter (\<lambda>u. up_ExpiresAt u \<le> unix now \<or> up_Status u = ''aborted'') (af_uploads w)))"

definition upload_storage_key :: "(string \<Rightarrow> string) \<Rightarrow> artifact_db \<Rightarrow> upload_row \<Rightarrow> string list" where
  "upload_storage_key uni w u =
     (case find (\<lambda>a. ar_ID a = up_ArtifactID u) (af_artifacts w) of
        None \<Rightarrow> []
      | Some a \<Rightarrow> (case artifactStorageKeyFromSHA256 uni (ar_SHA256 a) of None \<Rightarrow> [] | Some k \<Rightarrow> [k]))"

definition dead_artifacts :: "artifact_db \<Rightarrow> instant \<Rightarrow> nat \<Rightarrow> artifact_row list" where
  "dead_artifacts w now limit = take limit (sort_key (\<lambda>a. (ar_ExpiresAt a, ar_ID a))
     (filter (\<lambda>a. ar_Status a = ''complete'' \<and> ar_ExpiresAt a \<le> unix now \<and> \<not> list_ex (\<lambda>r. pg_ArtifactID r = ar_ID a) (af_pages w)
        \<or> ar_Status a \<noteq> ''complete'' \<and> \<not> list_ex (\<lambda>u. up_ArtifactID u = ar_ID a) (af_uploads w)) (af_artifacts w)))"

definition CleanupArtifacts ::
    "(string \<Rightarrow> string) \<Rightarrow> artifact_db \<Rightarrow> instant \<Rightarrow> int \<Rightarrow> (hub_error + deletion_row list) \<times> artifact_db" where
  "CleanupArtifacts uni w now limit =
     (if limit \<le> 0 then (Inr [], w)
      else let n = nat limit; ups = stale_uploads w now n; stale = filter (\<lambda>u. up_Status u \<noteq> ''complete'') ups;
               w1 = enqueueArtifactFileDeletions ''upload'' (map up_ID ups) now w
      in case deleteByIDs ''artifact_uploads'' (map up_ID ups) w1 of Inl e \<Rightarrow> (Inl e, w) | Inr w2 \<Rightarrow>
        (case deleteArtifactsByIDs (map up_ArtifactID stale) True w2 of Inl e \<Rightarrow> (Inl e, w) | Inr w3 \<Rightarrow>
        let dead = dead_artifacts w3 now n
        in (case deleteArtifactsByIDs (map ar_ID dead) False w3 of Inl e \<Rightarrow> (Inl e, w) | Inr w4 \<Rightarrow>
        let candidates = concat (map (upload_storage_key uni w) stale) @ filter (\<lambda>k. k \<noteq> []) (map (\<lambda>a. coalesce (ar_StorageKey a)) dead);
            w5 = enqueueArtifactFileDeletions ''blob'' (filterUnreferencedStorageKeys w4 candidates) now w4
        in (Inr (dueArtifactFileDeletions w5 now n), w5))))"

definition CompleteArtifactFileDeletions :: "artifact_db \<Rightarrow> deletion_row list \<Rightarrow> artifact_db" where
  "CompleteArtifactFileDeletions w deletions =
     w\<lparr>af_deletions := sql_delete (\<lambda>d. list_ex (\<lambda>x. dl_Kind d = dl_Kind x \<and> dl_PathKey d = dl_PathKey x) deletions) (af_deletions w)\<rparr>"

text \<open>The loop that doubles the delay once per earlier attempt, up to an hour.\<close>

fun retry_delay :: "nat \<Rightarrow> duration \<Rightarrow> duration" where
  "retry_delay 0 delay = delay"
| "retry_delay (Suc n) delay = (if delay < hour then retry_delay n (if hour < delay * 2 then hour else delay * 2) else delay)"

definition FailArtifactFileDeletion :: "artifact_db \<Rightarrow> deletion_row \<Rightarrow> string \<Rightarrow> instant \<Rightarrow> artifact_db" where
  "FailArtifactFileDeletion w d message now =
     w\<lparr>af_deletions := sql_update (\<lambda>x. dl_Kind x = dl_Kind d \<and> dl_PathKey x = dl_PathKey d)
        (\<lambda>x. x\<lparr>dl_Attempts := dl_Attempts x + 1, dl_LastError := Some (take 512 message),
           dl_NextAttemptAt := unix (now + retry_delay (nat (dl_Attempts d)) (30 * second)), dl_UpdatedAt := unix now\<rparr>) (af_deletions w)\<rparr>"

end
