(* ===== verification/Artifact_Service.thy ===== *)
theory Artifact_Service
  imports Artifact_Store
begin

text \<open>
  Artifacts (\<open>core/artifacts.go\<close>): a Node announces a file, sends it in chunks that are appended to a part file, and completes
  the upload; the file then becomes a blob named by its SHA-256, which artifacts with the same content share. Maintenance
  (\<open>cleanupArtifacts\<close> of \<open>core/service.go\<close>) deletes what is stale. A \<open>vault\<close> is the tables with the two directories;
  a file is the string of its bytes, and is named by its upload or storage key.

  Every operation is given as the pieces between which other requests may run, and as the request that runs its pieces in
  order; \<open>Artifact_Steps\<close> interleaves the pieces under the locks the code takes. Each file operation of a request may fail
  (\<open>ve_fault\<close>, by number). SHA-256, the random source, the parser of media types and lower case beyond ASCII are parameters.
\<close>

record vault =
  vt_db :: artifact_db
  vt_parts :: "string \<Rightarrow> string option"
  vt_blobs :: "string \<Rightarrow> string option"
  vt_audit :: "audit_row list"

record vault_env =
  ve_sha :: "string \<Rightarrow> string"
  ve_random :: "string \<Rightarrow> string option"
  ve_lower :: "string \<Rightarrow> string"
  ve_media_ok :: "string \<Rightarrow> bool"
  ve_fault :: "nat \<Rightarrow> bool"
  ve_written :: nat
  ve_others :: "nat \<Rightarrow> vault \<Rightarrow> vault"
  ve_now :: instant

definition io_failed :: hub_error where "io_failed = OtherError ''input/output error''"
definition file_missing :: hub_error where "file_missing = OtherError ''file does not exist''"

definition artifact_error :: "string \<Rightarrow> string \<Rightarrow> hub_error" where
  "artifact_error code message = CallError \<lparr>ce_Code = code, ce_Message = message, ce_Retryable = False, ce_Details = []\<rparr>"

definition set_db :: "vault \<Rightarrow> artifact_db \<Rightarrow> vault" where
  "set_db v d = v\<lparr>vt_db := d\<rparr>"

definition put_part :: "string \<Rightarrow> string option \<Rightarrow> vault \<Rightarrow> vault" where
  "put_part k c v = v\<lparr>vt_parts := (vt_parts v)(k := c)\<rparr>"

definition put_blob :: "string \<Rightarrow> string option \<Rightarrow> vault \<Rightarrow> vault" where
  "put_blob k c v = v\<lparr>vt_blobs := (vt_blobs v)(k := c)\<rparr>"

definition vault_audit :: "string \<Rightarrow> string \<Rightarrow> string \<Rightarrow> instant \<Rightarrow> vault \<Rightarrow> vault" where
  "vault_audit ownerID machineID action now v =
     v\<lparr>vt_audit := vt_audit v @ [\<lparr>ad_OwnerID = ownerID, ad_MachineID = machineID, ad_ActorType = ''node'', ad_ActorID = machineID,
        ad_Action = action, ad_Result = ''success'', ad_RemoteAddr = [], ad_ErrorCode = [], ad_CreatedAt = unix now\<rparr>]\<rparr>"

definition MaxArtifactBytes :: int where "MaxArtifactBytes = 104857600"
definition MaxArtifactChunkBytes :: int where "MaxArtifactChunkBytes = 1048576"
definition MaxActiveArtifactUploads :: int where "MaxActiveArtifactUploads = 4"
definition MaxMachineArtifactBytes :: int where "MaxMachineArtifactBytes = 536870912"
definition MaxOwnerArtifactBytes :: int where "MaxOwnerArtifactBytes = 2147483648"
definition artifactUploadTTL :: duration where "artifactUploadTTL = 30 * minute"
definition artifactRetention :: duration where "artifactRetention = 30 * 24 * hour"

definition artifact_quotas :: artifact_quota where
  "artifact_quotas = \<lparr>qu_MaxActiveUploads = MaxActiveArtifactUploads, qu_MaxMachineBytes = MaxMachineArtifactBytes,
     qu_MaxOwnerBytes = MaxOwnerArtifactBytes\<rparr>"

section \<open>Names and digests\<close>

definition opaque_byte :: "char \<Rightarrow> bool" where
  "opaque_byte c = (let n = of_char c :: nat
     in in_range 97 122 n \<or> in_range 65 90 n \<or> in_range 48 57 n \<or> c = CHR ''-'' \<or> c = CHR ''_'')"

definition validArtifactUploadID :: "string \<Rightarrow> bool" where
  "validArtifactUploadID v = (length v = 36 \<and> has_prefix v ''upl_'' \<and> list_all opaque_byte (trim_prefix v ''upl_''))"

definition artifactStorageKey :: "string \<Rightarrow> string" where
  "artifactStorageKey sha = (let digest = trim_prefix sha ''sha256:'' in take 2 digest @ ''/'' @ take 2 (drop 2 digest) @ ''/'' @ digest)"

definition validArtifactStorageKey :: "(string \<Rightarrow> string) \<Rightarrow> string \<Rightarrow> bool" where
  "validArtifactStorageKey uni v =
     (case split_on (CHR ''/'') v of
        [a, b, c] \<Rightarrow> length a = 2 \<and> length b = 2 \<and> length c = 64 \<and> a = take 2 c \<and> b = take 2 (drop 2 c)
          \<and> list_all hex_digit c \<and> to_lower uni v = v
      | _ \<Rightarrow> False)"

definition content_sha :: "vault_env \<Rightarrow> string \<Rightarrow> string" where
  "content_sha E c = ''sha256:'' @ hex_text (ve_sha E c)"

section \<open>Announcing a file\<close>

record artifact_request =
  aq_JobID :: string
  aq_LogicalName :: string
  aq_ContentType :: string
  aq_SizeBytes :: int
  aq_SHA256 :: string

definition check_artifact_request :: "vault_env \<Rightarrow> artifact_request \<Rightarrow> artifact_request option" where
  "check_artifact_request E req =
     (let name = trim_space (aq_LogicalName req); sha = to_lower (ve_lower E) (trim_space (aq_SHA256 req));
          ctype = (if trim_space (aq_ContentType req) = [] then ''application/octet-stream'' else trim_space (aq_ContentType req))
      in if name = [] \<or> 255 < length name \<or> contains_any name [CHR 0x00, CHR 0x0D, CHR 0x0A, CHR 0x2F, CHR 0x5C] then None
         else if aq_SizeBytes req < 0 \<or> MaxArtifactBytes < aq_SizeBytes req then None
         else if \<not> valid_sha256 sha then None
         else if 128 < length ctype \<or> \<not> ve_media_ok E ctype \<or> 128 < length (aq_JobID req) then None
         else Some \<lparr>aq_JobID = trim_space (aq_JobID req), aq_LogicalName = name, aq_ContentType = ctype,
                aq_SizeBytes = aq_SizeBytes req, aq_SHA256 = sha\<rparr>)"

record artifact_created =
  rc_ArtifactID :: string
  rc_UploadID :: string
  rc_ChunkBytes :: int
  rc_ReceivedBytes :: int
  rc_ExpiresAt :: instant

datatype resume = Fresh | Refused | Resumed upload_row | Stale upload_row

definition part_matches :: "vault_env \<Rightarrow> vault \<Rightarrow> upload_row \<Rightarrow> bool" where
  "part_matches E v u = (\<not> ve_fault E 0 \<and>
     (case vt_parts v (up_ID u) of Some c \<Rightarrow> int (length c) = up_ReceivedSize u | None \<Rightarrow> up_ReceivedSize u = 0))"

definition resume_upload :: "vault_env \<Rightarrow> vault \<Rightarrow> string \<Rightarrow> string \<Rightarrow> artifact_request \<Rightarrow> resume" where
  "resume_upload E v ownerID machineID q =
     (case FindResumableArtifactUpload (vt_db v) ownerID machineID (aq_JobID q) (aq_LogicalName q) (aq_ContentType q) (aq_SizeBytes q)
        (aq_SHA256 q) (ve_now E) of
        None \<Rightarrow> Fresh
      | Some u \<Rightarrow> if \<not> validArtifactUploadID (up_ID u) then Refused else if part_matches E v u then Resumed u else Stale u)"

definition abort_upload :: "string \<Rightarrow> string \<Rightarrow> vault \<Rightarrow> (hub_error + unit) \<times> vault" where
  "abort_upload machineID uploadID v = (case AbortArtifactUpload_row (vt_db v) machineID uploadID of (r, d) \<Rightarrow> (r, set_db v d))"

definition drop_part :: "vault_env \<Rightarrow> string \<Rightarrow> vault \<Rightarrow> vault" where
  "drop_part E uploadID v = (if ve_fault E 1 then v else put_part uploadID None v)"

definition insert_upload ::
    "vault_env \<Rightarrow> string \<Rightarrow> string \<Rightarrow> artifact_request \<Rightarrow> vault \<Rightarrow> (hub_error + artifact_created) \<times> vault" where
  "insert_upload E ownerID machineID q v =
     (case (ve_random E ''art_'', ve_random E ''upl_'') of
        (Some artifactID, Some uploadID) \<Rightarrow>
          let now = ve_now E; expires = now + artifactUploadTTL;
              a = \<lparr>ar_ID = artifactID, ar_OwnerID = ownerID, ar_MachineID = machineID, ar_JobID = null_string (aq_JobID q),
                   ar_LogicalName = aq_LogicalName q, ar_ContentType = aq_ContentType q, ar_SizeBytes = aq_SizeBytes q,
                   ar_SHA256 = aq_SHA256 q, ar_StorageKey = None, ar_Status = ''uploading'', ar_CreatedAt = unix now,
                   ar_CompletedAt = None, ar_ExpiresAt = unix (now + artifactRetention)\<rparr>;
              u = \<lparr>up_ID = uploadID, up_ArtifactID = artifactID, up_MachineID = machineID, up_ExpectedSize = aq_SizeBytes q,
                   up_ExpectedSHA256 = aq_SHA256 q, up_ReceivedSize = 0, up_Status = ''active'', up_CreatedAt = unix now,
                   up_ExpiresAt = unix expires\<rparr>
          in (case CreateArtifactUpload_row (vt_db v) a u artifact_quotas of
                (Inl e, _) \<Rightarrow>
                  (Inl (if e = ErrResourceLimit
                        then artifact_error ''ARTIFACT_QUOTA_EXCEEDED'' ''artifact quota exceeded''
                        else e), v)
              | (Inr _, d) \<Rightarrow>
                  if ve_fault E 2 then (Inl io_failed, snd (abort_upload machineID uploadID (set_db v d)))
                  else (Inr \<lparr>rc_ArtifactID = artifactID, rc_UploadID = uploadID, rc_ChunkBytes = MaxArtifactChunkBytes,
                          rc_ReceivedBytes = 0, rc_ExpiresAt = expires\<rparr>,
                        vault_audit ownerID machineID ''artifact.create'' now (set_db v d)))
      | _ \<Rightarrow> (Inl (OtherError ''random id''), v))"

definition CreateArtifactUpload ::
    "vault_env \<Rightarrow> vault \<Rightarrow> string \<Rightarrow> string \<Rightarrow> artifact_request \<Rightarrow> (hub_error + artifact_created) \<times> vault" where
  "CreateArtifactUpload E v ownerID machineID req =
     (case check_artifact_request E req of
        None \<Rightarrow> (Inl ErrConflict, v)
      | Some q \<Rightarrow>
      (case resume_upload E v ownerID machineID q of
        Refused \<Rightarrow> (Inl ErrConflict, v)
      | Resumed u \<Rightarrow>
          (Inr \<lparr>rc_ArtifactID = up_ArtifactID u, rc_UploadID = up_ID u, rc_ChunkBytes = MaxArtifactChunkBytes,
             rc_ReceivedBytes = up_ReceivedSize u, rc_ExpiresAt = from_unix (up_ExpiresAt u)\<rparr>, v)
      | Stale u \<Rightarrow>
          insert_upload E ownerID machineID q
            (ve_others E 2 (drop_part E (up_ID u) (ve_others E 1 (snd (abort_upload machineID (up_ID u) (ve_others E 0 v))))))
      | Fresh \<Rightarrow> insert_upload E ownerID machineID q (ve_others E 0 v)))"

section \<open>Chunks\<close>

text \<open>The checks of the request and of the row.\<close>

definition check_chunk :: "string \<Rightarrow> int \<Rightarrow> string \<Rightarrow> bool" where
  "check_chunk uploadID offset chunk =
     (0 \<le> offset \<and> chunk \<noteq> [] \<and> int (length chunk) \<le> MaxArtifactChunkBytes \<and> validArtifactUploadID uploadID)"

definition admit_chunk :: "vault_env \<Rightarrow> vault \<Rightarrow> string \<Rightarrow> string \<Rightarrow> int \<Rightarrow> string \<Rightarrow> hub_error + upload_row" where
  "admit_chunk E v machineID uploadID offset chunk =
     (case GetArtifactUpload (vt_db v) machineID uploadID (ve_now E) of
        Inl e \<Rightarrow> Inl e
      | Inr u \<Rightarrow> if up_ReceivedSize u \<noteq> offset \<or> up_ExpectedSize u < offset + int (length chunk) then Inl ErrConflict else Inr u)"

text \<open>The part file: opened or created, as long as the offset, extended; after a failed write it is cut back.\<close>

definition write_part :: "vault_env \<Rightarrow> string \<Rightarrow> int \<Rightarrow> string \<Rightarrow> vault \<Rightarrow> (hub_error + unit) \<times> vault" where
  "write_part E uploadID offset chunk v =
     (let c = coalesce (vt_parts v uploadID); v1 = put_part uploadID (Some c) v
      in if ve_fault E 1 then (Inl io_failed, v)
         else if ve_fault E 2 then (Inl io_failed, v1)
         else if int (length c) \<noteq> offset then (Inl ErrConflict, v1)
         else if ve_fault E 3 then (Inl io_failed, v1)
         else if ve_fault E 4
         then (Inl io_failed, if ve_fault E 6 then put_part uploadID (Some (c @ take (ve_written E) chunk)) v else v1)
         else if ve_fault E 5 then (Inl io_failed, if ve_fault E 6 then put_part uploadID (Some (c @ chunk)) v else v1)
         else (Inr (), put_part uploadID (Some (c @ chunk)) v))"

definition commit_chunk :: "vault_env \<Rightarrow> string \<Rightarrow> string \<Rightarrow> int \<Rightarrow> string \<Rightarrow> vault \<Rightarrow> (hub_error + int) \<times> vault" where
  "commit_chunk E machineID uploadID offset chunk v =
     (case AdvanceArtifactUpload (vt_db v) machineID uploadID offset (offset + int (length chunk)) (ve_now E) of
        (Inl e, _) \<Rightarrow> (Inl e, if ve_fault E 6 then v else put_part uploadID (map_option (take (nat offset)) (vt_parts v uploadID)) v)
      | (Inr _, d) \<Rightarrow> (Inr (offset + int (length chunk)), set_db v d))"

definition UploadArtifactChunk :: "vault_env \<Rightarrow> vault \<Rightarrow> string \<Rightarrow> string \<Rightarrow> int \<Rightarrow> string \<Rightarrow> (hub_error + int) \<times> vault" where
  "UploadArtifactChunk E v machineID uploadID offset chunk =
     (if \<not> check_chunk uploadID offset chunk then (Inl ErrConflict, v)
      else case admit_chunk E v machineID uploadID offset chunk of
        Inl e \<Rightarrow> (Inl e, v)
      | Inr _ \<Rightarrow>
          (case write_part E uploadID offset chunk (ve_others E 0 v) of
             (Inl e, v1) \<Rightarrow> (Inl e, v1)
           | (Inr _, v1) \<Rightarrow> commit_chunk E machineID uploadID offset chunk (ve_others E 1 v1)))"

section \<open>Completing an upload\<close>

datatype completion_check = Refuse hub_error | Done artifact_row | Proceed upload_row

definition check_complete :: "vault_env \<Rightarrow> vault \<Rightarrow> string \<Rightarrow> string \<Rightarrow> completion_check" where
  "check_complete E v machineID uploadID =
     (case GetArtifactUploadState (vt_db v) machineID uploadID of
        Inl e \<Rightarrow> Refuse e
      | Inr u \<Rightarrow>
          if up_Status u = ''complete'' then
            (case GetArtifactByMachine (vt_db v) machineID (up_ArtifactID u) of
               Inl e \<Rightarrow> Refuse e
             | Inr a \<Rightarrow> if ar_Status a \<noteq> ''complete'' \<or> coalesce (ar_StorageKey a) = [] then Refuse ErrConflict else Done a)
          else if \<not> ve_now E < from_unix (up_ExpiresAt u) then Refuse ErrExpired
          else if up_Status u \<noteq> ''active'' then Refuse ErrConflict
          else if up_ReceivedSize u \<noteq> up_ExpectedSize u then Refuse ErrConflict
          else Proceed u)"

text \<open>The part file is read up to one byte past the largest artifact; a file of no bytes may never have been created.\<close>

definition limited_read :: "string \<Rightarrow> string" where
  "limited_read c = take (nat (MaxArtifactBytes + 1)) c"

lemma limited_read_all: "int (length (limited_read c)) \<le> MaxArtifactBytes \<Longrightarrow> limited_read c = c"
  by (auto simp: limited_read_def MaxArtifactBytes_def)

lemma limited_read_small: "int (length c) \<le> MaxArtifactBytes \<Longrightarrow> limited_read c = c"
  by (simp add: limited_read_def)

lemma limited_read_code [code]:
  "limited_read c = (if int (length c) \<le> MaxArtifactBytes then c else take (nat (MaxArtifactBytes + 1)) c)"
  by (simp add: limited_read_def)

definition hash_part :: "vault_env \<Rightarrow> upload_row \<Rightarrow> vault \<Rightarrow> (hub_error + string) \<times> vault" where
  "hash_part E u v =
     (if ve_fault E 2 then (Inl io_failed, v)
      else let missing = vt_parts v (up_ID u) = None
      in if missing \<and> up_ExpectedSize u \<noteq> 0 then (Inl file_missing, v)
         else if missing \<and> ve_fault E 3 then (Inl io_failed, v)
         else let c = coalesce (vt_parts v (up_ID u)); v1 = put_part (up_ID u) (Some c) v;
                  readable = limited_read c
         in if ve_fault E 4 then (Inl io_failed, v1)
            else if int (length readable) \<noteq> up_ExpectedSize u \<or> MaxArtifactBytes < int (length readable) then (Inl ErrConflict, v1)
            else (Inr (content_sha E readable), v1))"

text \<open>Under the lock of the blob: an equal blob is reused, else the part file becomes the blob.\<close>

definition place_blob :: "vault_env \<Rightarrow> upload_row \<Rightarrow> string \<Rightarrow> vault \<Rightarrow> (hub_error + bool) \<times> vault" where
  "place_blob E u sha v =
     (let key = artifactStorageKey sha
      in if \<not> validArtifactStorageKey (ve_lower E) key then (Inl ErrConflict, v)
         else if ve_fault E 5 then (Inl io_failed, v)
         else case vt_blobs v key of
           Some c \<Rightarrow>
             if int (length c) \<noteq> up_ExpectedSize u then (Inl ErrConflict, v)
             else if ve_fault E 6 then (Inl io_failed, v)
             else if MaxArtifactBytes < int (length c) then (Inl ErrConflict, v)
             else if content_sha E c \<noteq> sha
             then (Inl (artifact_error ''ARTIFACT_BLOB_CORRUPT'' ''existing artifact blob failed integrity verification''), v)
             else (Inr False, v)
         | None \<Rightarrow>
             (case vt_parts v (up_ID u) of
                None \<Rightarrow> (Inl file_missing, v)
              | Some c \<Rightarrow> if ve_fault E 7 then (Inl io_failed, v)
                          else (Inr True, put_blob key (Some c) (put_part (up_ID u) None v))))"

text \<open>The rows; when that fails a blob made from the part file goes back.\<close>

definition commit_upload ::
    "vault_env \<Rightarrow> string \<Rightarrow> string \<Rightarrow> string \<Rightarrow> bool \<Rightarrow> vault \<Rightarrow> (hub_error + artifact_row) \<times> vault" where
  "commit_upload E machineID uploadID key created v =
     (case CompleteArtifactUpload_row (vt_db v) machineID uploadID key (ve_now E) of
        (Inl e, d) \<Rightarrow>
          (Inl e, if created \<and> \<not> ve_fault E 8 then put_blob key None (put_part uploadID (vt_blobs v key) (set_db v d)) else set_db v d)
      | (Inr a, d) \<Rightarrow> (Inr a, set_db v d))"

definition finish_upload :: "vault_env \<Rightarrow> string \<Rightarrow> string \<Rightarrow> string \<Rightarrow> bool \<Rightarrow> vault \<Rightarrow> vault" where
  "finish_upload E ownerID machineID uploadID created v =
     vault_audit ownerID machineID ''artifact.complete'' (ve_now E) (if created then v else drop_part E uploadID v)"

definition CompleteArtifactUpload ::
    "vault_env \<Rightarrow> vault \<Rightarrow> string \<Rightarrow> string \<Rightarrow> string \<Rightarrow> (hub_error + artifact_row) \<times> vault" where
  "CompleteArtifactUpload E v ownerID machineID uploadID =
     (if \<not> validArtifactUploadID uploadID then (Inl ErrConflict, v)
      else case check_complete E v machineID uploadID of
        Refuse e \<Rightarrow> (Inl e, v)
      | Done a \<Rightarrow> (Inr a, v)
      | Proceed u \<Rightarrow>
      (case hash_part E u (ve_others E 0 v) of
        (Inl e, v1) \<Rightarrow> (Inl e, v1)
      | (Inr sha, v1) \<Rightarrow>
      if sha \<noteq> up_ExpectedSHA256 u then
        (Inl (artifact_error ''HASH_MISMATCH'' ''artifact SHA-256 mismatch''),
         drop_part E uploadID (ve_others E 2 (snd (abort_upload machineID uploadID (ve_others E 1 v1)))))
      else (case place_blob E u sha (ve_others E 3 v1) of
        (Inl e, v2) \<Rightarrow> (Inl e, v2)
      | (Inr created, v2) \<Rightarrow>
      (case commit_upload E machineID uploadID (artifactStorageKey sha) created (ve_others E 4 v2) of
        (Inl e, v3) \<Rightarrow> (Inl e, v3)
      | (Inr a, v3) \<Rightarrow> (Inr a, finish_upload E ownerID machineID uploadID created (ve_others E 5 v3))))))"

section \<open>Aborting and reading\<close>

definition AbortArtifactUpload :: "vault_env \<Rightarrow> vault \<Rightarrow> string \<Rightarrow> string \<Rightarrow> string \<Rightarrow> (hub_error + unit) \<times> vault" where
  "AbortArtifactUpload E v ownerID machineID uploadID =
     (if \<not> validArtifactUploadID uploadID then (Inl ErrConflict, v)
      else case abort_upload machineID uploadID v of
        (Inl e, v1) \<Rightarrow> (Inl e, v1)
      | (Inr _, v1) \<Rightarrow>
          (Inr (), vault_audit ownerID machineID ''artifact.abort'' (ve_now E) (drop_part E uploadID (ve_others E 0 v1))))"

definition GetArtifact :: "vault_env \<Rightarrow> artifact_db \<Rightarrow> string \<Rightarrow> string \<Rightarrow> hub_error + artifact_row" where
  "GetArtifact E w ownerID artifactID =
     (case GetArtifact_row w ownerID artifactID of
        Inl e \<Rightarrow> Inl e
      | Inr a \<Rightarrow> if ar_Status a \<noteq> ''complete'' \<or> \<not> ve_now E < from_unix (ar_ExpiresAt a) \<or> coalesce (ar_StorageKey a) = []
                 then Inl ErrNotFound else Inr a)"

definition OpenArtifact :: "vault_env \<Rightarrow> vault \<Rightarrow> string \<Rightarrow> string \<Rightarrow> hub_error + artifact_row \<times> string" where
  "OpenArtifact E v ownerID artifactID =
     (case GetArtifact E (vt_db v) ownerID artifactID of
        Inl e \<Rightarrow> Inl e
      | Inr a \<Rightarrow>
          let key = coalesce (ar_StorageKey a)
          in if \<not> validArtifactStorageKey (ve_lower E) key then Inl ErrConflict
             else if ve_fault E 0 then Inl io_failed
             else (case vt_blobs (ve_others E 0 v) key of
                None \<Rightarrow> Inl ErrNotFound
              | Some c \<Rightarrow> if int (length c) \<noteq> ar_SizeBytes a
                          then Inl (artifact_error ''ARTIFACT_BLOB_CORRUPT'' ''artifact blob size does not match metadata'')
                          else Inr (a, c)))"

section \<open>Deleting files\<close>

text \<open>Under the lock of the upload or the blob: whether the file is to go (\<open>Inr\<close>), the entry is dropped, or it has failed.\<close>

datatype deletion_check = Invalid string | Stale_entry | Remove_part string | Remove_blob string

definition check_deletion :: "vault_env \<Rightarrow> artifact_db \<Rightarrow> deletion_row \<Rightarrow> deletion_check" where
  "check_deletion E w d =
     (if dl_Kind d = ''upload'' then
        if \<not> validArtifactUploadID (dl_PathKey d) then Invalid (''invalid managed artifact upload path key '' @ dl_PathKey d)
        else Remove_part (dl_PathKey d)
      else if dl_Kind d = ''blob'' then
        if \<not> validArtifactStorageKey (ve_lower E) (dl_PathKey d) then Invalid ''conflict''
        else if ArtifactStorageKeyReferenced w (dl_PathKey d) then Stale_entry else Remove_blob (dl_PathKey d)
      else Invalid (''invalid artifact file deletion kind '' @ dl_Kind d))"

definition fail_deletion :: "vault_env \<Rightarrow> deletion_row \<Rightarrow> string \<Rightarrow> vault \<Rightarrow> vault" where
  "fail_deletion E d message v = set_db v (FailArtifactFileDeletion (vt_db v) d message (ve_now E))"

text \<open>\<open>fault\<close>: the removal fails other than because the file is not there.\<close>

definition cleanupArtifactDeletion :: "vault_env \<Rightarrow> bool \<Rightarrow> deletion_row \<Rightarrow> vault \<Rightarrow> bool \<times> vault" where
  "cleanupArtifactDeletion E fault d v =
     (case check_deletion E (vt_db v) d of
        Invalid message \<Rightarrow> (False, fail_deletion E d message v)
      | Stale_entry \<Rightarrow> (True, v)
      | Remove_part k \<Rightarrow> if fault then (False, fail_deletion E d ''remove'' v) else (True, put_part k None v)
      | Remove_blob k \<Rightarrow> if fault then (False, fail_deletion E d ''remove'' v) else (True, put_blob k None v))"

fun cleanup_deletions :: "vault_env \<Rightarrow> nat \<Rightarrow> deletion_row list \<Rightarrow> vault \<Rightarrow> deletion_row list \<times> vault" where
  "cleanup_deletions E i [] v = ([], v)"
| "cleanup_deletions E i (d # ds) v =
     (case cleanupArtifactDeletion E (ve_fault E i) d (ve_others E i v) of
        (done, v1) \<Rightarrow> (case cleanup_deletions E (Suc i) ds v1 of (completed, v2) \<Rightarrow> (if done then d # completed else completed, v2)))"

definition cleanup_batch :: int where "cleanup_batch = 128"

definition cleanupArtifacts :: "vault_env \<Rightarrow> vault \<Rightarrow> (hub_error + unit) \<times> vault" where
  "cleanupArtifacts E v =
     (case CleanupArtifacts (ve_lower E) (vt_db v) (ve_now E) cleanup_batch of
        (Inl e, d) \<Rightarrow> (Inl e, set_db v d)
      | (Inr deletions, d) \<Rightarrow>
          (case cleanup_deletions E 0 deletions (set_db v d) of
             (completed, v1) \<Rightarrow> (Inr (), set_db v1 (CompleteArtifactFileDeletions (vt_db v1) completed))))"

end
