(* ===== verification/Artifact_Steps.thy ===== *)
theory Artifact_Steps
  imports Artifact_Service
begin

text \<open>
  Requests on artifacts and maintenance as interleaved steps. A task stands before the next piece of its request and
  holds the locks the code holds there: of its upload (\<open>upload\<close> and its identifier), of a blob, and, all requests, the shared
  side of the maintenance lock, which \<open>CleanupArtifacts\<close> takes exclusively. A step that would wait for a lock changes nothing.
  The lock of equal announcements is left out: that only allows more interleavings. The process may crash at any point, which ends
  all tasks and releases the locks. \<open>yard_inv\<close> holds in every reachable state.
\<close>

datatype vault_task =
    Idle
  | Chunk_Admitted string string int string
  | Chunk_Written string string int string
  | Completing string string upload_row
  | Hashed string string upload_row string
  | Mismatched string string
  | Dropping string
  | Aborted string string string
  | Placed string string upload_row string bool
  | Committed string string string string bool
  | Restarting string string artifact_request string
  | Redropping string string artifact_request string
  | Creating string string artifact_request
  | Sweeping "deletion_row list" "deletion_row list"
  | Removing deletion_row "deletion_row list" "deletion_row list"

definition deletion_parts :: "deletion_row \<Rightarrow> string set" where
  "deletion_parts d = (if dl_Kind d = ''upload'' then {dl_PathKey d} else {})"

definition deletion_blobs :: "deletion_row \<Rightarrow> string set" where
  "deletion_blobs d = (if dl_Kind d = ''blob'' then {dl_PathKey d} else {})"

fun part_locks :: "vault_task \<Rightarrow> string set" where
  "part_locks (Chunk_Admitted _ k _ _) = {k}"
| "part_locks (Chunk_Written _ k _ _) = {k}"
| "part_locks (Completing _ _ u) = {up_ID u}"
| "part_locks (Hashed _ _ u _) = {up_ID u}"
| "part_locks (Mismatched _ k) = {k}"
| "part_locks (Dropping k) = {k}"
| "part_locks (Aborted _ _ k) = {k}"
| "part_locks (Placed _ _ u _ _) = {up_ID u}"
| "part_locks (Committed _ _ k _ _) = {k}"
| "part_locks (Removing d _ _) = deletion_parts d"
| "part_locks _ = {}"

fun blob_locks :: "vault_task \<Rightarrow> string set" where
  "blob_locks (Placed _ _ _ sha _) = {artifactStorageKey sha}"
| "blob_locks (Committed _ _ _ key _) = {key}"
| "blob_locks (Removing d _ _) = deletion_blobs d"
| "blob_locks _ = {}"

fun is_request :: "vault_task \<Rightarrow> bool" where
  "is_request Idle = False"
| "is_request (Sweeping _ _) = False"
| "is_request (Removing _ _ _) = False"
| "is_request _ = True"

record yard =
  yd_vault :: vault
  yd_tasks :: "vault_task list"

definition part_locked :: "yard \<Rightarrow> string \<Rightarrow> bool" where
  "part_locked s k = list_ex (\<lambda>t. k \<in> part_locks t) (yd_tasks s)"

definition blob_locked :: "yard \<Rightarrow> string \<Rightarrow> bool" where
  "blob_locked s k = list_ex (\<lambda>t. k \<in> blob_locks t) (yd_tasks s)"

text \<open>What a step finds: the time, which file operations fail, and the identifiers drawn.\<close>

record weather =
  we_now :: instant
  we_fault :: "nat \<Rightarrow> bool"
  we_written :: nat
  we_random :: "string \<Rightarrow> string option"

definition under :: "vault_env \<Rightarrow> weather \<Rightarrow> vault_env" where
  "under E w = E\<lparr>ve_now := we_now w, ve_fault := we_fault w, ve_written := we_written w, ve_random := we_random w\<rparr>"

lemma under_simps [simp]:
  "ve_sha (under E w) = ve_sha E" "ve_lower (under E w) = ve_lower E" "ve_now (under E w) = we_now w" "content_sha (under E w) c = content_sha E c"
  by (simp_all add: under_def content_sha_def)

datatype yard_event =
    Y_Chunk nat weather string string int string
  | Y_Complete nat weather string string string
  | Y_Abort nat weather string string string
  | Y_Create nat weather string string artifact_request
  | Y_Clean nat weather
  | Y_Next nat weather
  | Y_Crash
  | Y_Other "machine_row list" "result_row list" "page_row list"

definition yard_goes :: "yard \<Rightarrow> nat \<Rightarrow> vault_task \<Rightarrow> vault \<Rightarrow> yard" where
  "yard_goes s i k v = s\<lparr>yd_vault := v, yd_tasks := (yd_tasks s)[i := k]\<rparr>"

text \<open>The next piece of a task: what it becomes, and the files and tables after it.\<close>

fun next_piece :: "vault_env \<Rightarrow> yard \<Rightarrow> vault_task \<Rightarrow> vault_task \<times> vault" where
  "next_piece E s Idle = (Idle, yd_vault s)"
| "next_piece E s (Chunk_Admitted m k off c) =
     (case write_part E k off c (yd_vault s) of (Inl _, v) \<Rightarrow> (Idle, v) | (Inr _, v) \<Rightarrow> (Chunk_Written m k off c, v))"
| "next_piece E s (Chunk_Written m k off c) = (Idle, snd (commit_chunk E m k off c (yd_vault s)))"
| "next_piece E s (Completing o' m u) =
     (case hash_part E u (yd_vault s) of
        (Inl _, v) \<Rightarrow> (Idle, v)
      | (Inr sha, v) \<Rightarrow> (if sha \<noteq> up_ExpectedSHA256 u then Mismatched m (up_ID u) else Hashed o' m u sha, v))"
| "next_piece E s (Mismatched m k) = (Dropping k, snd (abort_upload m k (yd_vault s)))"
| "next_piece E s (Dropping k) = (Idle, drop_part E k (yd_vault s))"
| "next_piece E s (Aborted o' m k) = (Idle, vault_audit o' m ''artifact.abort'' (ve_now E) (drop_part E k (yd_vault s)))"
| "next_piece E s (Hashed o' m u sha) =
     (if blob_locked s (artifactStorageKey sha) then (Hashed o' m u sha, yd_vault s)
      else case place_blob E u sha (yd_vault s) of
        (Inl _, v) \<Rightarrow> (Idle, v) | (Inr created, v) \<Rightarrow> (Placed o' m u sha created, v))"
| "next_piece E s (Placed o' m u sha created) =
     (case commit_upload E m (up_ID u) (artifactStorageKey sha) created (yd_vault s) of
        (Inl _, v) \<Rightarrow> (Idle, v) | (Inr _, v) \<Rightarrow> (Committed o' m (up_ID u) (artifactStorageKey sha) created, v))"
| "next_piece E s (Committed o' m k key created) = (Idle, finish_upload E o' m k created (yd_vault s))"
| "next_piece E s (Restarting o' m q k) = (Redropping o' m q k, snd (abort_upload m k (yd_vault s)))"
| "next_piece E s (Redropping o' m q k) = (Creating o' m q, drop_part E k (yd_vault s))"
| "next_piece E s (Creating o' m q) = (Idle, snd (insert_upload E o' m q (yd_vault s)))"
| "next_piece E s (Sweeping [] done) = (Idle, set_db (yd_vault s) (CompleteArtifactFileDeletions (vt_db (yd_vault s)) done))"
| "next_piece E s (Sweeping (d # ds) done) =
     (if \<exists>k \<in> deletion_parts d. part_locked s k then (Sweeping (d # ds) done, yd_vault s)
      else if \<exists>k \<in> deletion_blobs d. blob_locked s k then (Sweeping (d # ds) done, yd_vault s)
      else case check_deletion E (vt_db (yd_vault s)) d of
        Invalid msg \<Rightarrow> (Sweeping ds done, fail_deletion E d msg (yd_vault s))
      | Stale_entry \<Rightarrow> (Sweeping ds (d # done), yd_vault s)
      | _ \<Rightarrow> (Removing d ds done, yd_vault s))"
| "next_piece E s (Removing d ds done) =
     (if ve_fault E 0 then (Sweeping ds done, fail_deletion E d ''remove'' (yd_vault s))
      else (Sweeping ds (d # done),
        if dl_Kind d = ''upload'' then put_part (dl_PathKey d) None (yd_vault s)
        else if dl_Kind d = ''blob'' then put_blob (dl_PathKey d) None (yd_vault s) else yd_vault s))"

definition idle_at :: "yard \<Rightarrow> nat \<Rightarrow> bool" where
  "idle_at s i = (i < length (yd_tasks s) \<and> yd_tasks s ! i = Idle)"

fun yard_step :: "vault_env \<Rightarrow> yard_event \<Rightarrow> yard \<Rightarrow> yard" where
  "yard_step E (Y_Chunk i w m k off c) s =
     (if \<not> idle_at s i \<or> part_locked s k \<or> \<not> check_chunk k off c \<or> \<not> is_ok (admit_chunk (under E w) (yd_vault s) m k off c) then s
      else yard_goes s i (Chunk_Admitted m k off c) (yd_vault s))"
| "yard_step E (Y_Complete i w o' m k) s =
     (if \<not> idle_at s i \<or> part_locked s k \<or> \<not> validArtifactUploadID k then s
      else case check_complete (under E w) (yd_vault s) m k of Proceed u \<Rightarrow> yard_goes s i (Completing o' m u) (yd_vault s) | _ \<Rightarrow> s)"
| "yard_step E (Y_Abort i w o' m k) s =
     (if \<not> idle_at s i \<or> part_locked s k \<or> \<not> validArtifactUploadID k then s
      else case abort_upload m k (yd_vault s) of
        (Inl _, v) \<Rightarrow> s | (Inr _, v) \<Rightarrow> yard_goes s i (Aborted o' m k) v)"
| "yard_step E (Y_Create i w o' m req) s =
     (if \<not> idle_at s i then s
      else case check_artifact_request (under E w) req of
        None \<Rightarrow> s
      | Some q \<Rightarrow>
          (case resume_upload (under E w) (yd_vault s) o' m q of
             Stale u \<Rightarrow> yard_goes s i (Restarting o' m q (up_ID u)) (yd_vault s)
           | Fresh \<Rightarrow> yard_goes s i (Creating o' m q) (yd_vault s)
           | _ \<Rightarrow> s))"
| "yard_step E (Y_Clean i w) s =
     (if \<not> idle_at s i \<or> list_ex is_request (yd_tasks s) then s
      else case CleanupArtifacts (ve_lower E) (vt_db (yd_vault s)) (we_now w) cleanup_batch of
        (Inl _, d) \<Rightarrow> s | (Inr ds, d) \<Rightarrow> yard_goes s i (Sweeping ds []) (set_db (yd_vault s) d))"
| "yard_step E (Y_Next i w) s =
     (if i < length (yd_tasks s) then (case next_piece (under E w) s (yd_tasks s ! i) of (k, v) \<Rightarrow> yard_goes s i k v) else s)"
| "yard_step E Y_Crash s = s\<lparr>yd_tasks := replicate (length (yd_tasks s)) Idle\<rparr>"
| "yard_step E (Y_Other ms rs ps) s =
     s\<lparr>yd_vault := set_db (yd_vault s) ((vt_db (yd_vault s))\<lparr>af_machines := ms, af_results := rs, af_pages := ps\<rparr>)\<rparr>"

section \<open>The tables\<close>

definition static_upload :: "upload_row \<Rightarrow> string \<times> string \<times> int \<times> string" where
  "static_upload u = (up_ID u, up_ArtifactID u, up_ExpectedSize u, up_ExpectedSHA256 u)"

definition complete_of :: "artifact_db \<Rightarrow> artifact_row set" where
  "complete_of w = {a \<in> set (af_artifacts w). ar_Status a = ''complete''}"

text \<open>An upload expects what its artifact announced; only a complete artifact has a storage key.\<close>

definition wf_artifacts :: "artifact_db \<Rightarrow> bool" where
  "wf_artifacts w =
     (distinct (map ar_ID (af_artifacts w)) \<and> distinct (map up_ID (af_uploads w)) \<and> distinct (map up_ArtifactID (af_uploads w))
      \<and> (\<forall>u \<in> set (af_uploads w). \<forall>a \<in> set (af_artifacts w). ar_ID a = up_ArtifactID u
            \<longrightarrow> ar_SizeBytes a = up_ExpectedSize u \<and> ar_SHA256 a = up_ExpectedSHA256 u)
      \<and> (\<forall>a \<in> set (af_artifacts w). ar_Status a \<noteq> ''complete'' \<longrightarrow> ar_StorageKey a = None))"

text \<open>A change that leaves the complete artifacts and the announced uploads as they are.\<close>

definition calm :: "artifact_db \<Rightarrow> artifact_db \<Rightarrow> bool" where
  "calm w w' = (wf_artifacts w' \<and> complete_of w' = complete_of w \<and> static_upload ` set (af_uploads w) \<subseteq> static_upload ` set (af_uploads w'))"

lemma calm_refl: "wf_artifacts w \<Longrightarrow> calm w w"
  by (simp add: calm_def)

lemma calm_others:
  assumes "wf_artifacts w" "af_artifacts w' = af_artifacts w" "af_uploads w' = af_uploads w"
  shows "calm w w'"
  using assms by (simp add: calm_def wf_artifacts_def complete_of_def)

lemma calm_trans:
  assumes "calm w w'" "calm w' w''" shows "calm w w''"
proof -
  have "static_upload ` set (af_uploads w) \<subseteq> static_upload ` set (af_uploads w'')"
    by (rule subset_trans [of _ "static_upload ` set (af_uploads w')"]) (use assms in \<open>simp_all add: calm_def\<close>)
  then show ?thesis using assms by (simp add: calm_def)
qed

lemma image_sql_update: "(\<And>r. g (f r) = g r) \<Longrightarrow> g ` set (sql_update p f t) = g ` set t"
  by (metis list.set_map map_sql_update)

lemma find_unique:
  assumes "y \<in> set t" "p y" "\<And>z. z \<in> set t \<Longrightarrow> p z \<Longrightarrow> z = y"
  shows "find p t = Some y"
proof (cases "find p t")
  case None then show ?thesis using assms(1,2) by (auto simp: find_None_iff)
next
  case (Some z) then show ?thesis using assms(3) find_in [OF Some] by blast
qed

lemma set_sql_update_one:
  assumes "b \<in> set t" "p b" "\<And>y. y \<in> set t \<Longrightarrow> p y \<Longrightarrow> y = b"
  shows "set (sql_update p f t) = insert (f b) (set t - {b})"
proof -
  have "p r \<longleftrightarrow> r = b" if "r \<in> set t" for r using assms that by blast
  then have "set (sql_update p f t) = (\<lambda>r. if r = b then f b else r) ` set t"
    unfolding set_sql_update by (intro image_cong) auto
  then show ?thesis using assms(1) by auto
qed

lemma upd_rows_calm:
  assumes "wf_artifacts w" "af_artifacts w' = af_artifacts w" "af_uploads w' = sql_update p f (af_uploads w)"
    and "\<And>u. static_upload (f u) = static_upload u"
  shows "calm w w'"
proof -
  have s: "up_ID (f u) = up_ID u" "up_ArtifactID (f u) = up_ArtifactID u" "up_ExpectedSize (f u) = up_ExpectedSize u"
      "up_ExpectedSHA256 (f u) = up_ExpectedSHA256 u" for u
    using assms(4) [of u] by (simp_all add: static_upload_def)
  have st: "static_upload ` set (sql_update p f (af_uploads w)) = static_upload ` set (af_uploads w)"
    using assms(4) by (rule image_sql_update)
  have "wf_artifacts w'"
    using assms(1-3) by (auto simp: wf_artifacts_def map_sql_update s set_sql_update)
  then show ?thesis using assms(2,3) st by (simp add: calm_def complete_of_def)
qed

lemma AdvanceArtifactUpload_calm:
  assumes "wf_artifacts w" shows "calm w (snd (AdvanceArtifactUpload w m k a b now))"
  using assms upd_rows_calm [OF assms, of _ _ "\<lambda>u. u\<lparr>up_ReceivedSize := b\<rparr>"]
  by (auto simp: AdvanceArtifactUpload_def Let_def calm_refl static_upload_def)

lemma upd_artifacts_calm:
  assumes "wf_artifacts w"
  shows "calm w (w\<lparr>af_artifacts := sql_update (\<lambda>a. ar_ID a = i \<and> ar_Status a = ''uploading'') (\<lambda>a. a\<lparr>ar_Status := ''aborted''\<rparr>) (af_artifacts w)\<rparr>)"
  using assms by (auto simp: calm_def wf_artifacts_def complete_of_def map_sql_update set_sql_update)

lemma AbortArtifactUpload_calm:
  assumes "wf_artifacts w" shows "calm w (snd (AbortArtifactUpload_row w m k))"
proof -
  have "calm w (w\<lparr>af_uploads := sql_update p (\<lambda>x. x\<lparr>up_Status := ''aborted''\<rparr>) (af_uploads w),
      af_artifacts := sql_update (\<lambda>a. ar_ID a = i \<and> ar_Status a = ''uploading'') (\<lambda>a. a\<lparr>ar_Status := ''aborted''\<rparr>) (af_artifacts w)\<rparr>)" for p i
  proof -
    let ?w = "w\<lparr>af_uploads := sql_update p (\<lambda>x. x\<lparr>up_Status := ''aborted''\<rparr>) (af_uploads w)\<rparr>"
    have 1: "calm w ?w" by (rule upd_rows_calm [OF assms, of _ p "\<lambda>x. x\<lparr>up_Status := ''aborted''\<rparr>"]) (simp_all add: static_upload_def)
    then have "wf_artifacts ?w" by (simp add: calm_def)
    from calm_trans [OF 1 upd_artifacts_calm [OF this, of i]] show ?thesis by simp
  qed
  then show ?thesis by (auto simp: AbortArtifactUpload_row_def calm_refl [OF assms] split: option.splits)
qed

lemma CreateArtifactUpload_calm:
  assumes "wf_artifacts w" "ar_SizeBytes a = up_ExpectedSize u" "ar_SHA256 a = up_ExpectedSHA256 u"
  shows "calm w (snd (CreateArtifactUpload_row w a u q))"
  using assms
  by (auto simp: CreateArtifactUpload_row_def Let_def calm_refl list_ex_iff calm_def wf_artifacts_def complete_of_def static_upload_def
      split: option.splits)

text \<open>Completing an upload makes its artifact complete, under the announced size and digest.\<close>

lemma CompleteArtifactUpload_ok:
  assumes wf: "wf_artifacts w" and x: "x \<in> set (af_uploads w)" "up_ID x = k"
    and c: "CompleteArtifactUpload_row w m k key now = (r, w')"
  shows "w' = w \<and> \<not> is_ok r \<or> (\<exists>a. r = Inr a \<and> wf_artifacts w' \<and> complete_of w' = insert a (complete_of w)
    \<and> static_upload ` set (af_uploads w) \<subseteq> static_upload ` set (af_uploads w')
    \<and> ar_StorageKey a = Some key \<and> ar_SHA256 a = up_ExpectedSHA256 x \<and> ar_SizeBytes a = up_ExpectedSize x)"
proof (cases "w' = w \<and> \<not> is_ok r")
  case False
  let ?p = "\<lambda>i a. ar_ID a = i \<and> ar_MachineID a = m \<and> ar_Status a = ''uploading''"
  let ?f = "\<lambda>a. a\<lparr>ar_Status := ''complete'', ar_StorageKey := Some key, ar_CompletedAt := Some (unix now)\<rparr>"
  obtain u where u: "find (\<lambda>u. up_ID u = k \<and> up_MachineID u = m) (af_uploads w) = Some u"
  proof (cases "find (\<lambda>u. up_ID u = k \<and> up_MachineID u = m) (af_uploads w)")
    case None then show thesis using c False by (auto simp: CompleteArtifactUpload_row_def)
  qed
  let ?w = "w\<lparr>af_uploads := sql_update (\<lambda>x. up_ID x = k) (\<lambda>x. x\<lparr>up_Status := ''complete''\<rparr>) (af_uploads w),
        af_artifacts := sql_update (?p (up_ArtifactID u)) ?f (af_artifacts w)\<rparr>"
  have c': "CompleteArtifactUpload_row w m k key now =
      (if up_Status u \<noteq> ''active'' \<or> up_ExpectedSize u \<noteq> up_ReceivedSize u then (Inl ErrConflict, w)
       else if up_ExpiresAt u \<le> unix now then (Inl ErrExpired, w)
       else if sql_affected (?p (up_ArtifactID u)) (af_artifacts w) \<noteq> 1 then (Inl ErrConflict, w)
       else (GetArtifactByMachine ?w m (up_ArtifactID u), ?w))"
    unfolding CompleteArtifactUpload_row_def u option.case Let_def ..
  have n: "sql_affected (?p (up_ArtifactID u)) (af_artifacts w) = 1" and w': "w' = ?w"
    and r: "r = GetArtifactByMachine w' m (up_ArtifactID u)"
    using c False unfolding c' by (auto split: if_splits)
  have "up_ID u = k" "u \<in> set (af_uploads w)" using find_in [OF u] by auto
  then have ux: "u = x" using wf x distinct_key_unique [of up_ID "af_uploads w" u x] by (auto simp: wf_artifacts_def)
  obtain b where b: "b \<in> set (af_artifacts w)" "?p (up_ArtifactID u) b"
  proof -
    have "sql_affected (?p (up_ArtifactID u)) (af_artifacts w) \<noteq> 0" using n by simp
    then show thesis using that by auto
  qed
  have only: "y = b" if "y \<in> set (af_artifacts w)" "ar_ID y = up_ArtifactID u" for y
    using that b wf distinct_key_unique [of ar_ID "af_artifacts w" y b] by (auto simp: wf_artifacts_def)
  have "set (sql_update (?p (up_ArtifactID u)) ?f (af_artifacts w)) = insert (?f b) (set (af_artifacts w) - {b})"
    by (rule set_sql_update_one [of b "af_artifacts w" "?p (up_ArtifactID u)" ?f, OF b]) (rule only, assumption, erule conjunct1)
  then have arts: "set (af_artifacts w') = insert (?f b) (set (af_artifacts w) - {b})" by (simp add: w')
  have ids: "map ar_ID (af_artifacts w') = map ar_ID (af_artifacts w)" by (simp add: w' map_sql_update)
  have d: "distinct (map ar_ID (af_artifacts w'))" using wf by (simp add: ids wf_artifacts_def)
  have "find (\<lambda>a. ar_ID a = up_ArtifactID u \<and> ar_MachineID a = m) (af_artifacts w') = Some (?f b)"
  proof (rule find_unique)
    fix z assume "z \<in> set (af_artifacts w')" "ar_ID z = up_ArtifactID u \<and> ar_MachineID z = m"
    then show "z = ?f b" using only [of z] by (auto simp: arts)
  qed (use b in \<open>simp_all add: arts\<close>)
  then have r': "r = Inr (?f b)" by (simp add: r GetArtifactByMachine_def getArtifact_def)
  have key: "ar_SHA256 b = up_ExpectedSHA256 u \<and> ar_SizeBytes b = up_ExpectedSize u"
    using wf b \<open>u \<in> set (af_uploads w)\<close> by (auto simp: wf_artifacts_def)
  have st: "static_upload ` set (af_uploads w') = static_upload ` set (af_uploads w)"
    unfolding w' by simp (rule image_sql_update, simp add: static_upload_def)
  have "wf_artifacts w'"
    using wf d b by (auto simp: wf_artifacts_def arts w' map_sql_update set_sql_update)
  moreover have "complete_of w' = insert (?f b) (complete_of w)" using b by (auto simp: complete_of_def arts)
  ultimately show ?thesis using r' st key ux by auto
qed auto

text \<open>Maintenance only takes rows away.\<close>

definition fewer :: "artifact_db \<Rightarrow> artifact_db \<Rightarrow> bool" where
  "fewer w w' = (wf_artifacts w \<longrightarrow> wf_artifacts w' \<and> complete_of w' \<subseteq> complete_of w)"

lemma fewer_trans: "fewer w w' \<Longrightarrow> fewer w' w'' \<Longrightarrow> fewer w w''"
  by (auto simp: fewer_def)

lemma fewer_rows: "fewer w (w\<lparr>af_artifacts := sql_delete p (af_artifacts w), af_uploads := sql_delete q (af_uploads w)\<rparr>)"
  by (auto simp: fewer_def wf_artifacts_def complete_of_def sql_delete_key)

lemma fewer_uploads: "fewer w (w\<lparr>af_uploads := sql_delete q (af_uploads w)\<rparr>)"
  by (auto simp: fewer_def wf_artifacts_def complete_of_def sql_delete_key)

lemma fewer_same: "af_artifacts w' = af_artifacts w \<Longrightarrow> af_uploads w' = af_uploads w \<Longrightarrow> fewer w w'"
  by (auto simp: fewer_def wf_artifacts_def complete_of_def)

lemma deleteByIDs_fewer: "deleteByIDs t ids w = Inr w' \<Longrightarrow> fewer w w'"
  unfolding deleteByIDs_def Let_def using fewer_uploads fewer_same [of w w] by (auto split: if_splits)

lemma deleteArtifactsByIDs_fewer: "deleteArtifactsByIDs ids n w = Inr w' \<Longrightarrow> fewer w w'"
  unfolding deleteArtifactsByIDs_def Let_def using fewer_rows fewer_same [of w w] by (auto split: if_splits)

lemma enqueue_fewer: "fewer w (enqueueArtifactFileDeletions k ks now w)"
  by (rule fewer_same) (simp_all add: enqueueArtifactFileDeletions_def)

lemma CleanupArtifacts_fewer:
  assumes "CleanupArtifacts uni w now n = (Inr ds, w')" shows "fewer w w'"
proof (cases "n \<le> 0")
  case False
  let ?ups = "stale_uploads w now (nat n)"
  let ?w1 = "enqueueArtifactFileDeletions ''upload'' (map up_ID ?ups) now w"
  obtain w2 w3 w4 keys where d: "deleteByIDs ''artifact_uploads'' (map up_ID ?ups) ?w1 = Inr w2"
      "deleteArtifactsByIDs (map up_ArtifactID (filter (\<lambda>u. up_Status u \<noteq> ''complete'') ?ups)) True w2 = Inr w3"
      "deleteArtifactsByIDs (map ar_ID (dead_artifacts w3 now (nat n))) False w3 = Inr w4"
      "w' = enqueueArtifactFileDeletions ''blob'' keys now w4"
    using assms False unfolding CleanupArtifacts_def Let_def by (auto split: sum.splits)
  show ?thesis unfolding d(4)
    by (rule fewer_trans [OF fewer_trans [OF fewer_trans [OF fewer_trans [OF enqueue_fewer deleteByIDs_fewer [OF d(1)]]
          deleteArtifactsByIDs_fewer [OF d(2)]] deleteArtifactsByIDs_fewer [OF d(3)]] enqueue_fewer])
qed (use assms fewer_same [of w w] in \<open>auto simp: CleanupArtifacts_def\<close>)

section \<open>The invariant\<close>

text \<open>Every complete artifact has its blob, of its size and digest; every blob stands at the key of its digest.\<close>

definition stored_ok :: "vault_env \<Rightarrow> artifact_db \<Rightarrow> (string \<Rightarrow> string option) \<Rightarrow> bool" where
  "stored_ok E w blobs = (\<forall>a \<in> complete_of w. \<exists>c. ar_StorageKey a = Some (artifactStorageKey (ar_SHA256 a))
     \<and> blobs (artifactStorageKey (ar_SHA256 a)) = Some c \<and> content_sha E c = ar_SHA256 a \<and> int (length c) = ar_SizeBytes a)"

definition addressed :: "vault_env \<Rightarrow> (string \<Rightarrow> string option) \<Rightarrow> bool" where
  "addressed E blobs = (\<forall>k c. blobs k = Some c \<longrightarrow> k = artifactStorageKey (content_sha E c))"

definition unreferenced_key :: "artifact_db \<Rightarrow> string \<Rightarrow> bool" where
  "unreferenced_key w key = (\<forall>a \<in> complete_of w. ar_StorageKey a \<noteq> Some key)"

definition fits :: "vault_env \<Rightarrow> upload_row \<Rightarrow> string \<Rightarrow> bool" where
  "fits E u c = (content_sha E c = up_ExpectedSHA256 u \<and> int (length c) = up_ExpectedSize u)"

definition has_row :: "artifact_db \<Rightarrow> upload_row \<Rightarrow> bool" where
  "has_row w u = (static_upload u \<in> static_upload ` set (af_uploads w))"

text \<open>What a task relies on at its next piece.\<close>

fun task_ok :: "vault_env \<Rightarrow> vault \<Rightarrow> vault_task \<Rightarrow> bool" where
  "task_ok E v (Completing _ _ u) = has_row (vt_db v) u"
| "task_ok E v (Hashed _ _ u sha) =
     (has_row (vt_db v) u \<and> sha = up_ExpectedSHA256 u \<and> (\<forall>c. vt_parts v (up_ID u) = Some c \<longrightarrow> fits E u c))"
| "task_ok E v (Placed _ _ u sha created) =
     (has_row (vt_db v) u \<and> sha = up_ExpectedSHA256 u \<and> (\<exists>c. vt_blobs v (artifactStorageKey sha) = Some c \<and> fits E u c)
      \<and> (created \<longrightarrow> unreferenced_key (vt_db v) (artifactStorageKey sha)))"
| "task_ok E v (Removing d _ _) = (\<forall>k \<in> deletion_blobs d. unreferenced_key (vt_db v) k)"
| "task_ok E v _ = True"

definition exclusive :: "(vault_task \<Rightarrow> string set) \<Rightarrow> vault_task list \<Rightarrow> bool" where
  "exclusive locks ts = (\<forall>i j. i < length ts \<and> j < length ts \<and> i \<noteq> j \<longrightarrow> locks (ts ! i) \<inter> locks (ts ! j) = {})"

definition vault_ok :: "vault_env \<Rightarrow> vault \<Rightarrow> bool" where
  "vault_ok E v = (wf_artifacts (vt_db v) \<and> stored_ok E (vt_db v) (vt_blobs v) \<and> addressed E (vt_blobs v))"

definition yard_inv :: "vault_env \<Rightarrow> yard \<Rightarrow> bool" where
  "yard_inv E s = (vault_ok E (yd_vault s) \<and> exclusive part_locks (yd_tasks s) \<and> exclusive blob_locks (yd_tasks s)
     \<and> list_all (task_ok E (yd_vault s)) (yd_tasks s))"

text \<open>What a piece run by a task with the locks \<open>ps\<close> and \<open>bs\<close>, besides locks nobody holds, may do to the others.\<close>

definition moves_vault :: "string set \<Rightarrow> string set \<Rightarrow> (string \<Rightarrow> bool) \<Rightarrow> vault \<Rightarrow> vault \<Rightarrow> bool" where
  "moves_vault ps bs held v v' =
     (static_upload ` set (af_uploads (vt_db v)) \<subseteq> static_upload ` set (af_uploads (vt_db v'))
      \<and> (\<forall>a \<in> complete_of (vt_db v'). a \<in> complete_of (vt_db v) \<or> (\<exists>b \<in> bs. ar_StorageKey a = Some b))
      \<and> (\<forall>k. k \<notin> ps \<longrightarrow> vt_parts v' k = vt_parts v k \<or> vt_parts v' k = None)
      \<and> (\<forall>k. k \<notin> bs \<longrightarrow> held k \<longrightarrow> vt_blobs v' k = vt_blobs v k))"

lemma task_ok_moves:
  assumes "task_ok E v k" "moves_vault ps bs held v v'" "part_locks k \<inter> ps = {}" "blob_locks k \<inter> bs = {}" "\<forall>b \<in> blob_locks k. held b"
  shows "task_ok E v' k"
proof -
  have row: "has_row (vt_db v) u \<Longrightarrow> has_row (vt_db v') u" for u
    using assms(2) unfolding moves_vault_def has_row_def by blast
  have un: "b \<in> blob_locks k \<Longrightarrow> unreferenced_key (vt_db v) b \<Longrightarrow> unreferenced_key (vt_db v') b" for b
  proof (unfold unreferenced_key_def, intro ballI notI)
    fix a assume h: "b \<in> blob_locks k" "\<forall>a \<in> complete_of (vt_db v). ar_StorageKey a \<noteq> Some b" "a \<in> complete_of (vt_db v')" "ar_StorageKey a = Some b"
    have "a \<in> complete_of (vt_db v) \<or> (\<exists>x \<in> bs. ar_StorageKey a = Some x)" using assms(2) h(3) by (simp add: moves_vault_def)
    then show False using h assms(4) by auto
  qed
  have blob: "b \<in> blob_locks k \<Longrightarrow> vt_blobs v' b = vt_blobs v b" for b
    using assms(2,4,5) unfolding moves_vault_def by blast
  have part: "p \<in> part_locks k \<Longrightarrow> vt_parts v' p = Some c \<Longrightarrow> vt_parts v p = Some c" for p c
    using assms(2,3) unfolding moves_vault_def by (metis disjoint_iff option.distinct(1))
  show ?thesis
  proof (cases k)
    case (Completing o' m u) then show ?thesis using assms(1) row by simp
  next
    case (Hashed o' m u sha) then show ?thesis using assms(1) row [of u] part [of "up_ID u"] by auto
  next
    case (Placed o' m u sha created)
    then have "artifactStorageKey sha \<in> blob_locks k" by simp
    note b = blob [OF this] un [OF this]
    show ?thesis using assms(1) row [of u] b unfolding Placed by auto
  next
    case (Removing d ds fin)
    then have "deletion_blobs d \<subseteq> blob_locks k" by simp
    then have "\<forall>x \<in> deletion_blobs d. unreferenced_key (vt_db v) x \<longrightarrow> unreferenced_key (vt_db v') x" using un by blast
    then show ?thesis using assms(1) unfolding Removing by simp
  qed simp_all
qed

lemma exclusive_update:
  assumes "exclusive locks ts" "i < length ts" "locks k \<subseteq> locks (ts ! i) \<union> {x. \<not> list_ex (\<lambda>t. x \<in> locks t) ts}"
  shows "exclusive locks (ts[i := k])"
proof -
  have d: "locks k \<inter> locks (ts ! j) = {}" if "j < length ts" "j \<noteq> i" for j
  proof -
    have "locks (ts ! i) \<inter> locks (ts ! j) = {}" using assms(1,2) that by (auto simp: exclusive_def)
    moreover have "\<forall>x \<in> locks (ts ! j). list_ex (\<lambda>t. x \<in> locks t) ts" using that(1) by (auto simp: list_ex_iff intro: nth_mem)
    ultimately show ?thesis using assms(3) by blast
  qed
  show ?thesis unfolding exclusive_def
  proof (intro allI impI)
    fix a b assume ab: "a < length (ts[i := k]) \<and> b < length (ts[i := k]) \<and> a \<noteq> b"
    have "locks (ts ! a) \<inter> locks (ts ! b) = {}" using assms(1) ab by (simp add: exclusive_def)
    then show "locks (ts[i := k] ! a) \<inter> locks (ts[i := k] ! b) = {}"
      using d [of a] d [of b] ab by (cases "a = i"; cases "b = i") (simp_all add: Int_commute)
  qed
qed

lemma yard_inv_goes:
  assumes inv: "yard_inv E s" and i: "i < length (yd_tasks s)"
    and v: "vault_ok E v'" "task_ok E v' k"
    and mv: "moves_vault (part_locks (yd_tasks s ! i)) (blob_locks (yd_tasks s ! i)) (blob_locked s) (yd_vault s) v'"
    and ps: "part_locks k \<subseteq> part_locks (yd_tasks s ! i) \<union> {x. \<not> part_locked s x}"
    and bs: "blob_locks k \<subseteq> blob_locks (yd_tasks s ! i) \<union> {x. \<not> blob_locked s x}"
  shows "yard_inv E (yard_goes s i k v')"
proof -
  have others: "task_ok E v' (yd_tasks s ! j)" if j: "j < length (yd_tasks s)" "j \<noteq> i" for j
  proof (rule task_ok_moves [OF _ mv])
    show "task_ok E (yd_vault s) (yd_tasks s ! j)" using inv j by (auto simp: yard_inv_def list_all_length)
    show "\<forall>b \<in> blob_locks (yd_tasks s ! j). blob_locked s b" using j by (auto simp: blob_locked_def list_ex_iff intro: nth_mem)
  qed (use inv i j in \<open>auto simp: yard_inv_def exclusive_def\<close>)
  have "exclusive part_locks ((yd_tasks s)[i := k])" "exclusive blob_locks ((yd_tasks s)[i := k])"
    using exclusive_update [of part_locks "yd_tasks s" i k] exclusive_update [of blob_locks "yd_tasks s" i k] inv i ps bs
    by (auto simp: yard_inv_def part_locked_def blob_locked_def)
  then show ?thesis using v others i by (auto simp: yard_inv_def yard_goes_def list_all_length nth_list_update)
qed

section \<open>The pieces\<close>

text \<open>Most pieces leave the blobs and the complete artifacts alone.\<close>

definition quiet_move :: "string set \<Rightarrow> vault \<Rightarrow> vault \<Rightarrow> bool" where
  "quiet_move ps v v' = (calm (vt_db v) (vt_db v') \<and> vt_blobs v' = vt_blobs v
     \<and> (\<forall>k. k \<notin> ps \<longrightarrow> vt_parts v' k = vt_parts v k \<or> vt_parts v' k = None))"

lemma quiet_trans: "quiet_move ps v v' \<Longrightarrow> quiet_move ps v' v'' \<Longrightarrow> quiet_move ps v v''"
  unfolding quiet_move_def using calm_trans by metis

lemma quiet_moves:
  assumes "vault_ok E v" "quiet_move ps v v'" shows "vault_ok E v' \<and> moves_vault ps bs held v v'"
  using assms by (simp add: vault_ok_def quiet_move_def moves_vault_def calm_def stored_ok_def)

named_theorems quiet_intros

lemma quiet_same [quiet_intros]: "wf_artifacts (vt_db v) \<Longrightarrow> quiet_move ps v v"
  by (simp add: quiet_move_def calm_refl)

lemma quiet_part [quiet_intros]: "wf_artifacts (vt_db v) \<Longrightarrow> k \<in> ps \<Longrightarrow> quiet_move ps v (put_part k c v)"
  by (auto simp: quiet_move_def calm_refl put_part_def)

lemma quiet_drop [quiet_intros]: "wf_artifacts (vt_db v) \<Longrightarrow> quiet_move ps v (drop_part E k v)"
  by (auto simp: quiet_move_def calm_refl put_part_def drop_part_def)

lemma quiet_db [quiet_intros]: "calm (vt_db v) d \<Longrightarrow> quiet_move ps v (set_db v d)"
  by (simp add: quiet_move_def set_db_def)

lemma quiet_audit [quiet_intros]: "quiet_move ps v v' \<Longrightarrow> quiet_move ps v (vault_audit o' m a t v')"
  by (simp add: quiet_move_def vault_audit_def)

lemma quiet_abort [quiet_intros]: "wf_artifacts (vt_db v) \<Longrightarrow> quiet_move ps v (snd (abort_upload m k v))"
  using AbortArtifactUpload_calm [of "vt_db v" m k] by (auto simp: abort_upload_def intro: quiet_db split: prod.splits)

lemma write_part_quiet:
  "wf_artifacts (vt_db v) \<Longrightarrow> quiet_move {k} v (snd (write_part E k off c v))"
  by (simp add: write_part_def Let_def quiet_intros)

lemma commit_chunk_quiet:
  assumes "wf_artifacts (vt_db v)" shows "quiet_move {k} v (snd (commit_chunk E m k off c v))"
proof -
  have "quiet_move {k} v (set_db v (snd (AdvanceArtifactUpload (vt_db v) m k a b t)))" for a b t
    using AdvanceArtifactUpload_calm [OF assms] by (rule quiet_db)
  then show ?thesis using assms by (auto simp: commit_chunk_def intro: quiet_intros split: prod.splits sum.splits) (metis snd_conv)
qed

lemma hash_part_quiet:
  "wf_artifacts (vt_db v) \<Longrightarrow> quiet_move {up_ID u} v (snd (hash_part E u v))"
  by (simp add: hash_part_def Let_def quiet_intros)

lemma hash_part_fits:
  assumes "hash_part E u v = (Inr sha, v')" "sha = up_ExpectedSHA256 u"
  shows "\<forall>c. vt_parts v' (up_ID u) = Some c \<longrightarrow> fits E u c"
proof -
  let ?c = "coalesce (vt_parts v (up_ID u))"
  have r: "sha = content_sha E (limited_read ?c)" "v' = put_part (up_ID u) (Some ?c) v"
    "int (length (limited_read ?c)) = up_ExpectedSize u" "int (length (limited_read ?c)) \<le> MaxArtifactBytes"
    using assms(1) by (auto simp: hash_part_def Let_def split: if_splits)
  from limited_read_all [OF r(4)] have "limited_read ?c = ?c" .
  then show ?thesis using r assms(2) by (simp add: fits_def put_part_def)
qed

lemma insert_upload_quiet:
  assumes "wf_artifacts (vt_db v)" shows "quiet_move ps v (snd (insert_upload E o' m q v))"
proof (cases "ve_random E ''art_''"; cases "ve_random E ''upl_''")
  fix aid uid assume ids: "ve_random E ''art_'' = Some aid" "ve_random E ''upl_'' = Some uid"
  obtain a u where cr: "insert_upload E o' m q v = (case CreateArtifactUpload_row (vt_db v) a u artifact_quotas of
          (Inl e, _) \<Rightarrow> (Inl (if e = ErrResourceLimit then artifact_error ''ARTIFACT_QUOTA_EXCEEDED'' ''artifact quota exceeded'' else e), v)
        | (Inr _, d) \<Rightarrow>
            if ve_fault E 2 then (Inl io_failed, snd (abort_upload m uid (set_db v d)))
            else (Inr \<lparr>rc_ArtifactID = aid, rc_UploadID = uid, rc_ChunkBytes = MaxArtifactChunkBytes,
                    rc_ReceivedBytes = 0, rc_ExpiresAt = ve_now E + artifactUploadTTL\<rparr>,
                  vault_audit o' m ''artifact.create'' (ve_now E) (set_db v d)))"
      and au: "ar_SizeBytes a = up_ExpectedSize u" "ar_SHA256 a = up_ExpectedSHA256 u"
    unfolding insert_upload_def ids by (simp add: Let_def)
  obtain r d where rd: "CreateArtifactUpload_row (vt_db v) a u artifact_quotas = (r, d)" by fastforce
  have c: "calm (vt_db v) d" using CreateArtifactUpload_calm [OF assms au, of artifact_quotas] rd by simp
  then have q: "quiet_move ps v (set_db v d)" "wf_artifacts (vt_db (set_db v d))" by (rule quiet_db) (use c in \<open>simp add: set_db_def calm_def\<close>)
  show ?thesis unfolding cr rd
    using quiet_trans [OF q(1) quiet_abort [OF q(2)]] quiet_audit [OF q(1)] quiet_same [OF assms] by (cases r) simp_all
qed (simp_all add: insert_upload_def quiet_same [OF assms])

text \<open>The two pieces that change blobs.\<close>

lemma place_blob_ok:
  assumes ok: "vault_ok E v" and fit: "\<forall>c. vt_parts v (up_ID u) = Some c \<longrightarrow> fits E u c"
    and sha: "sha = up_ExpectedSHA256 u" and free: "\<not> held (artifactStorageKey sha)"
    and p: "place_blob (under E w) u sha v = (r, v')"
  shows "vault_ok E v' \<and> moves_vault {up_ID u} {} held v v' \<and> vt_db v' = vt_db v
    \<and> (\<forall>created. r = Inr created \<longrightarrow> (\<exists>c. vt_blobs v' (artifactStorageKey sha) = Some c \<and> fits E u c)
        \<and> (created \<longrightarrow> unreferenced_key (vt_db v) (artifactStorageKey sha)))"
proof (cases "r = Inr True")
  case True
  let ?key = "artifactStorageKey sha"
  obtain c where c: "vt_blobs v ?key = None" "vt_parts v (up_ID u) = Some c" "v' = put_blob ?key (Some c) (put_part (up_ID u) None v)"
    using p True by (auto simp: place_blob_def Let_def split: if_splits option.splits)
  have f: "fits E u c" using fit c(2) by blast
  have un: "unreferenced_key (vt_db v) ?key"
    using ok c(1) by (auto simp: vault_ok_def stored_ok_def unreferenced_key_def)
  have "stored_ok E (vt_db v') (vt_blobs v')"
    using ok un c(1) by (fastforce simp: vault_ok_def stored_ok_def unreferenced_key_def c(3) put_blob_def put_part_def)
  moreover have "addressed E (vt_blobs v')"
    using ok f sha by (auto simp: vault_ok_def addressed_def fits_def c(3) put_blob_def put_part_def)
  ultimately show ?thesis
    using ok f un free True by (auto simp: vault_ok_def moves_vault_def c(3) put_blob_def put_part_def)
next
  case False
  then have v': "v' = v" using p by (auto simp: place_blob_def Let_def split: if_splits option.splits)
  have "\<exists>c. vt_blobs v (artifactStorageKey sha) = Some c \<and> fits E u c" if "r = Inr created" for created
    using p False that sha by (auto simp: place_blob_def Let_def fits_def split: if_splits option.splits)
  then show ?thesis using ok False v' by (auto simp: moves_vault_def)
qed

lemma commit_upload_ok:
  assumes ok: "vault_ok E v" and t: "task_ok E v (Placed o' m u sha created)"
    and p: "commit_upload (under E w) m (up_ID u) (artifactStorageKey sha) created v = (r, v')"
  shows "vault_ok E v' \<and> moves_vault {up_ID u} {artifactStorageKey sha} held v v'"
proof -
  let ?key = "artifactStorageKey sha"
  obtain x where x: "x \<in> set (af_uploads (vt_db v))" "static_upload x = static_upload u"
    using t by (force simp: has_row_def)
  have st: "up_ID x = up_ID u" "up_ExpectedSHA256 x = sha" "up_ExpectedSize x = up_ExpectedSize u"
    using x(2) t by (simp_all add: static_upload_def)
  have wf: "wf_artifacts (vt_db v)" using ok by (simp add: vault_ok_def)
  obtain c where c: "vt_blobs v ?key = Some c" "content_sha E c = sha" "int (length c) = up_ExpectedSize u"
    using t by (auto simp: fits_def)
  obtain r' d where rd: "CompleteArtifactUpload_row (vt_db v) m (up_ID u) ?key (we_now w) = (r', d)" by fastforce
  note fin = CompleteArtifactUpload_ok [OF wf x(1) st(1) rd]
  show ?thesis
  proof (cases r')
    case (Inl e)
    then have "d = vt_db v" using fin by auto
    then have v': "v' = (if created \<and> \<not> we_fault w 8 then put_blob ?key None (put_part (up_ID u) (vt_blobs v ?key) v) else v)"
      using p rd Inl by (auto simp: commit_upload_def set_db_def under_def put_blob_def put_part_def split: if_splits)
    show ?thesis
    proof (cases "created \<and> \<not> we_fault w 8")
      case True
      then have "unreferenced_key (vt_db v) ?key" using t by auto
      then have "stored_ok E (vt_db v') (vt_blobs v')"
        using ok True by (fastforce simp: vault_ok_def stored_ok_def unreferenced_key_def v' put_blob_def put_part_def)
      then show ?thesis using ok True
        by (auto simp: v' vault_ok_def addressed_def moves_vault_def put_blob_def put_part_def)
    qed (use ok v' in \<open>auto simp: moves_vault_def\<close>)
  next
    case (Inr a0)
    then obtain a where a: "wf_artifacts d" "complete_of d = insert a (complete_of (vt_db v))"
        "static_upload ` set (af_uploads (vt_db v)) \<subseteq> static_upload ` set (af_uploads d)"
        "ar_StorageKey a = Some ?key" "ar_SHA256 a = sha" "ar_SizeBytes a = up_ExpectedSize u"
      using fin st by auto
    have v': "v' = set_db v d" using p rd Inr by (simp add: commit_upload_def under_def)
    have "stored_ok E d (vt_blobs v)" using ok a c by (auto simp: vault_ok_def stored_ok_def)
    then show ?thesis using ok a by (auto simp: v' vault_ok_def moves_vault_def set_db_def)
  qed
qed

lemma remove_blob_ok:
  assumes "vault_ok E v" "unreferenced_key (vt_db v) k"
  shows "vault_ok E (put_blob k None v) \<and> moves_vault ps {k} held v (put_blob k None v)"
proof -
  have "stored_ok E (vt_db v) ((vt_blobs v)(k := None))"
    using assms by (fastforce simp: vault_ok_def stored_ok_def unreferenced_key_def)
  then show ?thesis using assms(1) by (auto simp: vault_ok_def addressed_def moves_vault_def put_blob_def)
qed

lemma check_deletion_unreferenced:
  "check_deletion E w d = Remove_blob k \<Longrightarrow> unreferenced_key w k"
  by (auto simp: check_deletion_def ArtifactStorageKeyReferenced_def unreferenced_key_def complete_of_def list_ex_iff split: if_splits)

lemma check_deletion_removes:
  assumes "check_deletion E w d \<in> {Remove_part k, Remove_blob k}"
  shows "\<forall>b \<in> deletion_blobs d. unreferenced_key w b"
proof (cases "dl_Kind d = ''blob''")
  case True
  then have "check_deletion E w d = Remove_blob (dl_PathKey d)"
    using assms by (auto simp: check_deletion_def split: if_splits)
  from check_deletion_unreferenced [OF this] show ?thesis by (simp add: deletion_blobs_def)
qed (simp add: deletion_blobs_def)

definition piece_ok :: "vault_env \<Rightarrow> yard \<Rightarrow> vault_task \<Rightarrow> vault_task \<Rightarrow> vault \<Rightarrow> bool" where
  "piece_ok E s K k v' =
     (vault_ok E v' \<and> task_ok E v' k \<and> moves_vault (part_locks K) (blob_locks K) (blob_locked s) (yd_vault s) v'
      \<and> part_locks k \<subseteq> part_locks K \<union> {x. \<not> part_locked s x} \<and> blob_locks k \<subseteq> blob_locks K \<union> {x. \<not> blob_locked s x})"

lemma piece_quiet:
  assumes "vault_ok E (yd_vault s)" "quiet_move (part_locks K) (yd_vault s) v'" "task_ok E v' k"
    and "part_locks k \<subseteq> part_locks K \<union> {x. \<not> part_locked s x}" "blob_locks k \<subseteq> blob_locks K \<union> {x. \<not> blob_locked s x}"
  shows "piece_ok E s K k v'"
proof -
  have "moves_vault (part_locks K) {} held (yd_vault s) v'" for held using quiet_moves [OF assms(1,2)] by blast
  then show ?thesis using quiet_moves [OF assms(1,2)] assms by (auto simp: piece_ok_def)
qed

lemma has_row_quiet: "quiet_move ps v v' \<Longrightarrow> has_row (vt_db v) u \<Longrightarrow> has_row (vt_db v') u"
  unfolding quiet_move_def calm_def has_row_def by blast

lemma fail_deletion_quiet: "wf_artifacts (vt_db v) \<Longrightarrow> quiet_move ps v (fail_deletion E d msg v)"
  unfolding fail_deletion_def FailArtifactFileDeletion_def by (rule quiet_db) (simp add: calm_others)

lemma next_piece_ok:
  assumes inv: "vault_ok E (yd_vault s)" "task_ok E (yd_vault s) K" and p: "next_piece (under E w) s K = (k, v')"
  shows "piece_ok E s K k v'"
proof -
  let ?v = "yd_vault s" and ?E = "under E w"
  have wf: "wf_artifacts (vt_db ?v)" using inv(1) by (simp add: vault_ok_def)
  note quiet_move = piece_quiet [OF inv(1)]
  show ?thesis
  proof (cases K)
    case (Chunk_Admitted m i off c)
    then show ?thesis using p write_part_quiet [OF wf, of i ?E off c] by (auto intro!: quiet_move split: prod.splits sum.splits)
  next
    case (Chunk_Written m i off c)
    then show ?thesis using p commit_chunk_quiet [OF wf, of i ?E m off c] by (auto intro!: quiet_move)
  next
    case (Completing o' m u)
    obtain r v1 where h: "hash_part ?E u ?v = (r, v1)" by fastforce
    have q: "quiet_move {up_ID u} ?v v1" using hash_part_quiet [OF wf, of u ?E] h by simp
    show ?thesis
    proof (cases r)
      case (Inl e) then show ?thesis using p h q Completing by (auto intro!: quiet_move)
    next
      case (Inr sha)
      have "task_ok E v1 k" using p h Inr Completing inv(2) has_row_quiet [OF q] hash_part_fits [of ?E u ?v sha v1]
        by (auto simp: fits_def split: if_splits)
      then show ?thesis using p h q Inr Completing by (auto intro!: quiet_move split: if_splits)
    qed
  next
    case (Hashed o' m u sha)
    show ?thesis
    proof (cases "blob_locked s (artifactStorageKey sha)")
      case True then show ?thesis using p Hashed inv(2) quiet_same [OF wf] by (auto intro!: quiet_move)
    next
      case False
      obtain r v1 where h: "place_blob ?E u sha ?v = (r, v1)" by fastforce
      have t: "\<forall>c. vt_parts ?v (up_ID u) = Some c \<longrightarrow> fits E u c" "sha = up_ExpectedSHA256 u" "has_row (vt_db ?v) u"
        using inv(2) by (simp_all add: Hashed)
      note b = place_blob_ok [where held = "blob_locked s", OF inv(1) t(1,2) False h]
      show ?thesis
      proof (cases r)
        case (Inl e) then show ?thesis using p h b Hashed False by (auto simp: piece_ok_def)
      next
        case (Inr created)
        have "task_ok E v1 (Placed o' m u sha created)" using b t(2,3) Inr by simp
        then show ?thesis using p h b Hashed False Inr by (auto simp: piece_ok_def)
      qed
    qed
  next
    case (Placed o' m u sha created)
    obtain r v1 where h: "commit_upload ?E m (up_ID u) (artifactStorageKey sha) created ?v = (r, v1)" by fastforce
    have "task_ok E ?v (Placed o' m u sha created)" using inv(2) by (simp only: Placed)
    note b = commit_upload_ok [where held = "blob_locked s", OF inv(1) this h]
    show ?thesis using p h b Placed by (cases r) (auto simp: piece_ok_def)
  next
    case (Sweeping ds fin)
    show ?thesis
    proof (cases ds)
      case Nil
      have "quiet_move (part_locks K) ?v (set_db ?v (CompleteArtifactFileDeletions (vt_db ?v) fin))"
        by (rule quiet_db) (simp add: CompleteArtifactFileDeletions_def calm_others wf)
      then show ?thesis using p Sweeping Nil by (auto intro!: quiet_move)
    next
      case (Cons d ds')
      have rm: "check_deletion ?E (vt_db ?v) d = Remove_part x \<or> check_deletion ?E (vt_db ?v) d = Remove_blob x
          \<Longrightarrow> \<forall>b \<in> deletion_blobs d. unreferenced_key (vt_db ?v) b" for x
        by (rule check_deletion_removes [of ?E _ d x]) auto
      have wait: "piece_ok E s K (Sweeping xs ys) ?v" "piece_ok E s K (Sweeping xs ys) (fail_deletion ?E d msg ?v)" for xs ys msg
        by (rule quiet_move [OF quiet_same [OF wf]] quiet_move [OF fail_deletion_quiet [OF wf]]; simp)+
      show ?thesis
      proof (cases "(\<exists>k \<in> deletion_parts d. part_locked s k) \<or> (\<exists>k \<in> deletion_blobs d. blob_locked s k)")
        case True
        then have "k = Sweeping (d # ds') fin \<and> v' = ?v" using p by (simp add: Sweeping Cons split: if_splits)
        then show ?thesis using wait(1) by simp
      next
        case free: False
        have remove: "piece_ok E s K (Removing d ds' fin) ?v" if "\<forall>b \<in> deletion_blobs d. unreferenced_key (vt_db ?v) b"
          by (rule quiet_move [OF quiet_same [OF wf]]) (use free that in auto)
        show ?thesis
          by (cases "check_deletion ?E (vt_db ?v) d") (use p free wait remove rm in \<open>auto simp: Sweeping Cons\<close>)
      qed
    qed
  next
    case (Removing d ds fin)
    have q: "quiet_move (part_locks K) ?v (put_part (dl_PathKey d) None ?v)" if "dl_Kind d = ''upload''"
      by (rule quiet_part [OF wf]) (simp add: Removing deletion_parts_def that)
    have u: "unreferenced_key (vt_db ?v) (dl_PathKey d)" if "dl_Kind d = ''blob''"
      using inv(2) that by (simp add: Removing deletion_blobs_def)
    note b = remove_blob_ok [OF inv(1) u, of "part_locks K" "blob_locked s"]
    have wait: "piece_ok E s K (Sweeping xs ys) ?v" "piece_ok E s K (Sweeping xs ys) (fail_deletion ?E d msg ?v)" for xs ys msg
      by (rule quiet_move [OF quiet_same [OF wf]] quiet_move [OF fail_deletion_quiet [OF wf]]; simp)+
    have part: "piece_ok E s K (Sweeping xs ys) (put_part (dl_PathKey d) None ?v)" if "dl_Kind d = ''upload''" for xs ys
      by (rule quiet_move [OF q [OF that]]) simp_all
    have blob: "piece_ok E s K (Sweeping xs ys) (put_blob (dl_PathKey d) None ?v)" if "dl_Kind d = ''blob''" for xs ys
      using b [OF that] that by (simp add: piece_ok_def Removing deletion_blobs_def)
    show ?thesis using p wait part blob by (simp add: Removing split: if_splits) metis+
  qed (use p wf in \<open>auto intro!: quiet_move quiet_intros insert_upload_quiet simp: finish_upload_def\<close>)
qed

section \<open>Steps and runs\<close>

lemma yard_inv_next:
  assumes "yard_inv E s" "i < length (yd_tasks s)" "next_piece (under E w) s (yd_tasks s ! i) = (k, v)"
  shows "yard_inv E (yard_goes s i k v)"
proof -
  have "vault_ok E (yd_vault s)" "task_ok E (yd_vault s) (yd_tasks s ! i)"
    using assms(1,2) by (auto simp: yard_inv_def list_all_length)
  from next_piece_ok [OF this assms(3)] show ?thesis
    using yard_inv_goes [OF assms(1,2)] by (simp add: piece_ok_def)
qed

text \<open>A request begins at an idle task, quietly, and takes at most the lock of its upload.\<close>

lemma yard_inv_begin:
  assumes inv: "yard_inv E s" and i: "idle_at s i" and q: "quiet_move {} (yd_vault s) v" and t: "task_ok E v k"
    and l: "part_locks k \<subseteq> {x. \<not> part_locked s x}" "blob_locks k = {}"
  shows "yard_inv E (yard_goes s i k v)"
proof -
  have "vault_ok E (yd_vault s)" using inv by (simp add: yard_inv_def)
  note m = quiet_moves [OF this q, of "{}" "blob_locked s"]
  have i': "i < length (yd_tasks s)" "yd_tasks s ! i = Idle" using i by (simp_all add: idle_at_def)
  show ?thesis
    by (rule yard_inv_goes [OF inv i'(1)]) (use m t l i' quiet_moves [OF \<open>vault_ok E (yd_vault s)\<close> q] in auto)
qed

lemma yard_inv_clean:
  assumes inv: "yard_inv E s" and i: "idle_at s i" and r: "\<not> list_ex is_request (yd_tasks s)"
    and c: "CleanupArtifacts uni (vt_db (yd_vault s)) now n = (Inr ds, d)"
  shows "yard_inv E (yard_goes s i (Sweeping ds []) (set_db (yd_vault s) d))"
proof -
  let ?v = "set_db (yd_vault s) d"
  have f: "wf_artifacts d" "complete_of d \<subseteq> complete_of (vt_db (yd_vault s))"
    using CleanupArtifacts_fewer [OF c] inv by (auto simp: yard_inv_def vault_ok_def fewer_def)
  have v: "vault_ok E ?v" using inv f by (auto simp: yard_inv_def vault_ok_def stored_ok_def set_db_def)
  have t: "task_ok E ?v k" if "k \<in> set (yd_tasks s)" for k
  proof -
    have "\<not> is_request k" "task_ok E (yd_vault s) k" using r inv that by (auto simp: yard_inv_def list_ex_iff list_all_iff)
    then show ?thesis using f by (cases k) (auto simp: unreferenced_key_def set_db_def)
  qed
  have e: "exclusive l ((yd_tasks s)[i := Sweeping ds []])" if "exclusive l (yd_tasks s)" "l (Sweeping ds []) = {}" for l
    by (rule exclusive_update [OF that(1)]) (use i that in \<open>auto simp: idle_at_def\<close>)
  show ?thesis
    using v t e [of part_locks] e [of blob_locks] inv set_update_subset_insert [of "yd_tasks s" i "Sweeping ds []"]
    by (auto simp: yard_inv_def yard_goes_def list_all_iff)
qed

lemma yard_step_inv:
  assumes inv: "yard_inv E s" shows "yard_inv E (yard_step E e s)"
proof -
  let ?v = "yd_vault s"
  have ok: "vault_ok E ?v" and wf: "wf_artifacts (vt_db ?v)" using inv by (auto simp: yard_inv_def vault_ok_def)
  note same = yard_inv_begin [OF inv _ quiet_same [OF wf]]
  show ?thesis
  proof (cases e)
    case (Y_Chunk i w m k off c)
    then show ?thesis using inv same [of i "Chunk_Admitted m k off c"] by auto
  next
    case (Y_Complete i w o' m k)
    show ?thesis
    proof (cases "check_complete (under E w) ?v m k")
      case (Proceed u)
      then have "u \<in> set (af_uploads (vt_db ?v))" "up_ID u = k"
        by (auto simp: check_complete_def GetArtifactUploadState_def dest: find_in split: sum.splits option.splits if_splits)
      then have "task_ok E ?v (Completing o' m u)" "part_locks (Completing o' m u) = {k}" by (auto simp: has_row_def)
      then show ?thesis using inv same [of i "Completing o' m u"] Y_Complete Proceed by auto
    qed (use inv Y_Complete in auto)
  next
    case (Y_Abort i w o' m k)
    obtain r v where a: "abort_upload m k ?v = (r, v)" by fastforce
    have q: "quiet_move {} ?v v" using quiet_abort [OF wf, of "{}" m k] a by simp
    show ?thesis using inv yard_inv_begin [OF inv _ q, of i "Aborted o' m k"] Y_Abort a by (cases r) auto
  next
    case (Y_Create i w o' m req)
    then show ?thesis using inv same [of i "Creating o' m q" for q] same [of i "Restarting o' m q k" for q k]
      by (auto split: option.splits resume.splits)
  next
    case (Y_Clean i w)
    then show ?thesis using inv yard_inv_clean [OF inv, of i] by (auto split: prod.splits sum.splits)
  next
    case (Y_Next i w)
    then show ?thesis using inv yard_inv_next [OF inv, of i w] by (auto split: prod.splits)
  next
    case Y_Crash
    then show ?thesis using ok by (auto simp: yard_inv_def exclusive_def list_all_iff)
  next
    case (Y_Other ms rs ps)
    let ?d = "(vt_db ?v)\<lparr>af_machines := ms, af_results := rs, af_pages := ps\<rparr>"
    have "quiet_move {} ?v (set_db ?v ?d)" by (rule quiet_db) (simp add: calm_others wf)
    then have m: "vault_ok E (set_db ?v ?d)" "moves_vault {} {} (\<lambda>_. True) ?v (set_db ?v ?d)" using quiet_moves [OF ok] by auto
    have "task_ok E (set_db ?v ?d) k" if "k \<in> set (yd_tasks s)" for k
      by (rule task_ok_moves [OF _ m(2)]) (use inv that in \<open>auto simp: yard_inv_def list_all_iff\<close>)
    then show ?thesis using inv m(1) Y_Other by (simp add: yard_inv_def list_all_iff)
  qed
qed

inductive yard_run :: "vault_env \<Rightarrow> yard \<Rightarrow> yard \<Rightarrow> bool" for E where
  here: "yard_run E s s"
| there: "yard_run E s s' \<Longrightarrow> yard_run E s (yard_step E e s')"

text \<open>The start: empty tables and directories, and a task slot for each of \<open>n\<close> requests at a time.\<close>

definition new_vault :: vault where
  "new_vault = \<lparr>vt_db = \<lparr>af_machines = [], af_artifacts = [], af_uploads = [], af_deletions = [], af_results = [], af_pages = []\<rparr>,
     vt_parts = (\<lambda>_. None), vt_blobs = (\<lambda>_. None), vt_audit = []\<rparr>"

definition new_yard :: "nat \<Rightarrow> yard" where
  "new_yard n = \<lparr>yd_vault = new_vault, yd_tasks = replicate n Idle\<rparr>"

lemma new_yard_inv: "yard_inv E (new_yard n)"
  by (simp add: yard_inv_def new_yard_def new_vault_def vault_ok_def wf_artifacts_def stored_ok_def complete_of_def addressed_def
      exclusive_def list_all_iff)

lemma yard_run_inv: "yard_run E s s' \<Longrightarrow> yard_inv E s \<Longrightarrow> yard_inv E s'"
  by (induction rule: yard_run.induct) (simp_all add: yard_step_inv)

end
