(* ===== verification/Artifact_Props.thy ===== *)
theory Artifact_Props
  imports Artifact_Steps
begin

text \<open>
  What holds of artifacts: complete ones stay readable with the announced bytes in every reachable state, a download never serves
  other bytes, an upload followed by a download returns what was sent, announcements stay within the quotas, and maintenance retries
  with a bounded delay. Maintenance of results does not work.
\<close>

section \<open>Storage keys\<close>

definition clean_env :: "vault_env \<Rightarrow> bool" where
  "clean_env E = ((\<forall>i. \<not> ve_fault E i) \<and> (\<forall>i v. ve_others E i v = v) \<and> (\<forall>c. length (ve_sha E c) = 32))"

lemma trim_content_sha [simp]: "trim_prefix (content_sha E c) ''sha256:'' = hex_text (ve_sha E c)"
  by (simp add: content_sha_def trim_prefix_def has_prefix_def)

lemma content_key: "artifactStorageKey (content_sha E c) =
    take 2 (hex_text (ve_sha E c)) @ ''/'' @ take 2 (drop 2 (hex_text (ve_sha E c))) @ ''/'' @ hex_text (ve_sha E c)"
  by (simp add: artifactStorageKey_def Let_def)

lemma no_slash: "list_all plain_digit s \<Longrightarrow> CHR ''/'' \<notin> set s"
  by (auto simp: list_all_iff dest: plain_digit_hex)

lemma plain_take_drop: "list_all plain_digit s \<Longrightarrow> list_all plain_digit (take n s) \<and> list_all plain_digit (drop n s)"
  by (auto simp: list_all_iff dest: in_set_takeD in_set_dropD)

lemma path_lower: "list_all (\<lambda>c. plain_digit c \<or> c = CHR ''/'') s \<Longrightarrow> to_lower uni s = s"
proof -
  have "lower_byte c = c \<and> (of_char c :: nat) < 128" if "plain_digit c \<or> c = CHR ''/''" for c
    using that plain_digit_hex [of c] by (auto simp: lower_byte_def in_range_def)
  then show "list_all (\<lambda>c. plain_digit c \<or> c = CHR ''/'') s \<Longrightarrow> to_lower uni s = s"
    by (simp add: to_lower_def is_ascii_def list_all_iff map_idI)
qed

lemma content_key_valid:
  assumes "length (ve_sha E c) = 32"
  shows "validArtifactStorageKey uni (artifactStorageKey (content_sha E c))"
proof -
  let ?h = "hex_text (ve_sha E c)"
  have h: "list_all plain_digit ?h" by (rule hex_text_plain)
  have p: "list_all plain_digit ?h" "list_all plain_digit (take 2 ?h)" "list_all plain_digit (take 2 (drop 2 ?h))"
    using h plain_take_drop [OF h] plain_take_drop [of "drop 2 ?h"] by simp_all
  have "split_on (CHR ''/'') (take 2 ?h @ CHR ''/'' # take 2 (drop 2 ?h) @ CHR ''/'' # ?h) = [take 2 ?h, take 2 (drop 2 ?h), ?h]"
    using p by (simp add: split_on_part split_on_last no_slash)
  moreover have "to_lower uni (take 2 ?h @ CHR ''/'' # take 2 (drop 2 ?h) @ CHR ''/'' # ?h) = take 2 ?h @ CHR ''/'' # take 2 (drop 2 ?h) @ CHR ''/'' # ?h"
    by (rule path_lower) (use p in \<open>simp add: list_all_iff ball_Un\<close>)
  ultimately show ?thesis using assms plain_hex [OF p(1)] by (simp add: content_key validArtifactStorageKey_def)
qed

lemma content_key_inj:
  assumes "artifactStorageKey (content_sha E c) = artifactStorageKey (content_sha E d)" "length (ve_sha E c) = 32" "length (ve_sha E d) = 32"
  shows "content_sha E c = content_sha E d"
proof -
  have "drop 6 (artifactStorageKey (content_sha E c)) = hex_text (ve_sha E c)" if "length (ve_sha E c) = 32" for c
    using that by (simp add: content_key)
  then show ?thesis using assms by (metis content_sha_def)
qed

section \<open>Reading\<close>

lemma complete_in_state:
  assumes "yard_run E (new_yard n) s" "a \<in> set (af_artifacts (vt_db (yd_vault s)))" "ar_Status a = ''complete''"
  shows "\<exists>c. ar_StorageKey a = Some (artifactStorageKey (ar_SHA256 a)) \<and> vt_blobs (yd_vault s) (artifactStorageKey (ar_SHA256 a)) = Some c
    \<and> content_sha E c = ar_SHA256 a \<and> int (length c) = ar_SizeBytes a"
  using yard_run_inv [OF assms(1) new_yard_inv] assms(2,3) by (auto simp: yard_inv_def vault_ok_def stored_ok_def complete_of_def)

lemma artifactStorageKey_ne [simp]: "artifactStorageKey sha \<noteq> []"
  by (simp add: artifactStorageKey_def Let_def)

lemma open_complete:
  assumes "yard_run E (new_yard n) s" "a \<in> set (af_artifacts (vt_db (yd_vault s)))" "ar_Status a = ''complete''"
    and "ve_now E < from_unix (ar_ExpiresAt a)" "clean_env E"
  shows "\<exists>c. OpenArtifact E (yd_vault s) (ar_OwnerID a) (ar_ID a) = Inr (a, c)
    \<and> content_sha E c = ar_SHA256 a \<and> int (length c) = ar_SizeBytes a"
proof -
  obtain c where c: "ar_StorageKey a = Some (artifactStorageKey (ar_SHA256 a))" "vt_blobs (yd_vault s) (artifactStorageKey (ar_SHA256 a)) = Some c"
      "content_sha E c = ar_SHA256 a" "int (length c) = ar_SizeBytes a"
    using complete_in_state [OF assms(1-3)] by blast
  have d: "distinct (map ar_ID (af_artifacts (vt_db (yd_vault s))))"
    using yard_run_inv [OF assms(1) new_yard_inv] by (simp add: yard_inv_def vault_ok_def wf_artifacts_def)
  have "find (\<lambda>x. ar_ID x = ar_ID a \<and> ar_OwnerID x = ar_OwnerID a) (af_artifacts (vt_db (yd_vault s))) = Some a"
    using assms(2) distinct_key_unique [OF d _ assms(2)] by (intro find_unique) auto
  moreover have "validArtifactStorageKey (ve_lower E) (artifactStorageKey (ar_SHA256 a))"
    unfolding c(3) [symmetric] using assms(5) by (intro content_key_valid) (simp add: clean_env_def)
  ultimately show ?thesis
    using c assms(3-5) by (simp add: OpenArtifact_def GetArtifact_def GetArtifact_row_def getArtifact_def coalesce_def clean_env_def Let_def)
qed

text \<open>Property C27: in every state that uploads, aborts, crashes and maintenance can reach, interleaved in any way and with any
  file operation failing, an artifact that is complete and has not expired can be downloaded by its owner: the blob is there, has
  the recorded size, and its SHA-256 is the recorded one. Hypotheses: SHA-256 has 32 bytes, the reads themselves do not fail.\<close>

theorem complete_artifact_downloads:
  assumes "yard_run E (new_yard n) s" "a \<in> set (af_artifacts (vt_db (yd_vault s)))" "ar_Status a = ''complete''"
    and "ve_now E < from_unix (ar_ExpiresAt a)" "clean_env E"
  shows "\<exists>c. OpenArtifact E (yd_vault s) (ar_OwnerID a) (ar_ID a) = Inr (a, c)
    \<and> content_sha E c = ar_SHA256 a \<and> int (length c) = ar_SizeBytes a"
  using assms by (rule open_complete)

text \<open>Property C28: a download that succeeds serves bytes whose SHA-256 and size are those the artifact records, even when
  requests and maintenance run between the read of the row and the read of the file.\<close>

theorem download_serves_announced:
  assumes "yard_run E (new_yard n) s" "yard_run E (new_yard n) s'" "ve_others E 0 (yd_vault s) = yd_vault s'"
    and "\<forall>c. length (ve_sha E c) = 32" "OpenArtifact E (yd_vault s) ownerID artifactID = Inr (a, c)"
  shows "content_sha E c = ar_SHA256 a \<and> int (length c) = ar_SizeBytes a"
proof -
  have g: "find (\<lambda>x. ar_ID x = artifactID \<and> ar_OwnerID x = ownerID) (af_artifacts (vt_db (yd_vault s))) = Some a" "ar_Status a = ''complete''"
    and b: "vt_blobs (yd_vault s') (coalesce (ar_StorageKey a)) = Some c" "int (length c) = ar_SizeBytes a"
    using assms(3,5) by (auto simp: OpenArtifact_def GetArtifact_def GetArtifact_row_def getArtifact_def Let_def
        split: sum.splits option.splits if_splits)
  from find_in [OF g(1)] have "a \<in> set (af_artifacts (vt_db (yd_vault s)))" by simp
  from complete_in_state [OF assms(1) this g(2)] obtain c0 where
    c0: "ar_StorageKey a = Some (artifactStorageKey (ar_SHA256 a))" "content_sha E c0 = ar_SHA256 a" by blast
  have "addressed E (vt_blobs (yd_vault s'))"
    using yard_run_inv [OF assms(2) new_yard_inv] by (simp add: yard_inv_def vault_ok_def)
  then have "artifactStorageKey (content_sha E c0) = artifactStorageKey (content_sha E c)"
    using b(1) c0 by (simp add: addressed_def coalesce_def)
  then have "content_sha E c0 = content_sha E c" by (rule content_key_inj) (use assms(4) in simp_all)
  then show ?thesis using c0(2) b(2) by simp
qed

section \<open>Announcing and sending\<close>

text \<open>Property C32: an announcement that the store accepts leaves the machine and the owner within the quotas.\<close>

theorem create_within_quotas:
  assumes "CreateArtifactUpload_row w a u q = (Inr (), w')" "up_ExpectedSize u = ar_SizeBytes a" "ar_CreatedAt a < up_ExpiresAt u"
  shows "us_ActiveUploads (ArtifactUsage w' (ar_OwnerID a) (ar_MachineID a) (ar_CreatedAt a)) \<le> qu_MaxActiveUploads q
    \<and> us_MachineBytes (ArtifactUsage w' (ar_OwnerID a) (ar_MachineID a) (ar_CreatedAt a)) \<le> qu_MaxMachineBytes q
    \<and> us_OwnerBytes (ArtifactUsage w' (ar_OwnerID a) (ar_MachineID a) (ar_CreatedAt a)) \<le> qu_MaxOwnerBytes q"
proof -
  let ?t = "ar_CreatedAt a" and ?U = "ArtifactUsage w (ar_OwnerID a) (ar_MachineID a) (ar_CreatedAt a)"
  let ?a = "a\<lparr>ar_Status := ''uploading'', ar_StorageKey := None, ar_CompletedAt := None\<rparr>"
  let ?u = "u\<lparr>up_ReceivedSize := 0, up_Status := ''active'', up_CreatedAt := ar_CreatedAt a\<rparr>"
  have w': "w' = w\<lparr>af_artifacts := af_artifacts w @ [?a], af_uploads := af_uploads w @ [?u]\<rparr>"
    and ids: "up_MachineID u = ar_MachineID a" "up_ArtifactID u = ar_ID a" "\<forall>r \<in> set (af_artifacts w). ar_ID r \<noteq> ar_ID a"
    and le: "us_ActiveUploads ?U < qu_MaxActiveUploads q" "us_MachineBytes ?U + ar_SizeBytes a \<le> qu_MaxMachineBytes q"
      "us_OwnerBytes ?U + ar_SizeBytes a \<le> qu_MaxOwnerBytes q"
    using assms(1) by (auto simp: CreateArtifactUpload_row_def Let_def list_ex_iff split: option.splits if_splits)
  have "machine_uploads w' (ar_MachineID a) ?t = machine_uploads w (ar_MachineID a) ?t @ [?u]"
    using ids assms(3) by (simp add: machine_uploads_def w' live_upload_def)
  moreover have "machine_artifacts w' (ar_MachineID a) ?t = machine_artifacts w (ar_MachineID a) ?t"
    by (simp add: machine_artifacts_def w')
  moreover have "owner_artifacts w' (ar_OwnerID a) ?t = owner_artifacts w (ar_OwnerID a) ?t @ [?a]"
    using ids assms(3) by (auto simp: owner_artifacts_def w' live_upload_def intro!: filter_cong)
  ultimately show ?thesis using le assms(2) by (simp add: ArtifactUsage_def)
qed

text \<open>A file sent in chunks.\<close>

fun send_chunks :: "vault_env \<Rightarrow> vault \<Rightarrow> string \<Rightarrow> string \<Rightarrow> int \<Rightarrow> string list \<Rightarrow> (hub_error + int) \<times> vault" where
  "send_chunks E v m k off [] = (Inr off, v)"
| "send_chunks E v m k off (c # cs) =
     (case UploadArtifactChunk E v m k off c of (Inl e, v1) \<Rightarrow> (Inl e, v1) | (Inr off1, v1) \<Rightarrow> send_chunks E v1 m k off1 cs)"

text \<open>An upload that has received \<open>c\<close>.\<close>

definition receiving :: "vault_env \<Rightarrow> vault \<Rightarrow> string \<Rightarrow> string \<Rightarrow> upload_row \<Rightarrow> string \<Rightarrow> bool" where
  "receiving E v m k u c =
     (distinct (map up_ID (af_uploads (vt_db v)))
      \<and> (\<exists>x \<in> set (af_uploads (vt_db v)). x = u\<lparr>up_ReceivedSize := int (length c)\<rparr>) \<and> up_ID u = k \<and> up_MachineID u = m \<and> up_Status u = ''active''
      \<and> unix (ve_now E) < up_ExpiresAt u \<and> ve_now E < from_unix (up_ExpiresAt u) \<and> coalesce (vt_parts v k) = c)"

lemma receiving_find:
  assumes "receiving E v m k u c"
  shows "find (\<lambda>x. up_ID x = k \<and> up_MachineID x = m) (af_uploads (vt_db v)) = Some (u\<lparr>up_ReceivedSize := int (length c)\<rparr>)"
proof -
  let ?x = "u\<lparr>up_ReceivedSize := int (length c)\<rparr>"
  have d: "distinct (map up_ID (af_uploads (vt_db v)))" and x: "?x \<in> set (af_uploads (vt_db v))"
    using assms by (auto simp: receiving_def)
  show ?thesis using assms distinct_key_unique [OF d _ x] by (intro find_unique) (auto simp: receiving_def)
qed

lemma chunk_received:
  assumes r: "receiving E v m k u c" and E: "clean_env E" and k: "validArtifactUploadID k"
    and d: "d \<noteq> []" "int (length d) \<le> MaxArtifactChunkBytes" "int (length c + length d) \<le> up_ExpectedSize u"
  shows "\<exists>v1. UploadArtifactChunk E v m k (int (length c)) d = (Inr (int (length (c @ d))), v1) \<and> receiving E v1 m k u (c @ d)
    \<and> vt_blobs v1 = vt_blobs v \<and> af_artifacts (vt_db v1) = af_artifacts (vt_db v) \<and> vt_parts v1 k \<noteq> None
    \<and> map up_ArtifactID (af_uploads (vt_db v1)) = map up_ArtifactID (af_uploads (vt_db v))"
proof -
  let ?x = "u\<lparr>up_ReceivedSize := int (length c)\<rparr>"
  let ?p = "\<lambda>y. up_ID y = k \<and> up_MachineID y = m \<and> up_Status y = ''active'' \<and> up_ReceivedSize y = int (length c) \<and> unix (ve_now E) < up_ExpiresAt y"
  let ?f = "\<lambda>y. y\<lparr>up_ReceivedSize := int (length (c @ d))\<rparr>"
  let ?db = "(vt_db v)\<lparr>af_uploads := sql_update ?p ?f (af_uploads (vt_db v))\<rparr>"
  have f: "\<not> ve_fault E i" "ve_others E i w = w" for i w using E by (simp_all add: clean_env_def)
  have dis: "distinct (map up_ID (af_uploads (vt_db v)))" and x: "?x \<in> set (af_uploads (vt_db v))" "?p ?x" "coalesce (vt_parts v k) = c"
    and st: "up_Status u = ''active''" "ve_now E < from_unix (up_ExpiresAt u)"
    using r by (auto simp: receiving_def)
  have only: "y = ?x" if "y \<in> set (af_uploads (vt_db v))" "?p y" for y
    using distinct_key_unique [OF dis that(1) x(1)] that(2) x(2) by simp
  have n: "sql_affected ?p (af_uploads (vt_db v)) = 1"
  proof -
    have "\<exists>y \<in> set (af_uploads (vt_db v)). ?p y" by (rule bexI [of _ ?x], rule x(2), rule x(1))
    then show ?thesis using sql_affected_key_eq [OF dis, of ?p k] by simp
  qed
  let ?v = "set_db (put_part k (Some (c @ d)) v) ?db"
  have "UploadArtifactChunk E v m k (int (length c)) d = (Inr (int (length (c @ d))), ?v)"
    using d k f x(3) st receiving_find [OF r] n
    by (simp add: UploadArtifactChunk_def check_chunk_def admit_chunk_def GetArtifactUpload_def GetArtifactUploadState_def write_part_def
        commit_chunk_def AdvanceArtifactUpload_def Let_def put_part_def)
  moreover have "set (sql_update ?p ?f (af_uploads (vt_db v))) = insert (?f ?x) (set (af_uploads (vt_db v)) - {?x})"
    by (rule set_sql_update_one [of ?x _ ?p ?f, OF x(1,2)]) (rule only)
  then have "receiving E ?v m k u (c @ d)"
    using r by (auto simp: receiving_def set_db_def put_part_def map_sql_update coalesce_def)
  ultimately show ?thesis by (auto simp: set_db_def put_part_def map_sql_update)
qed

lemma chunks_received:
  assumes "receiving E v m k u c" "clean_env E" "validArtifactUploadID k"
    and "\<forall>d \<in> set ds. d \<noteq> [] \<and> int (length d) \<le> MaxArtifactChunkBytes" "int (length (c @ concat ds)) \<le> up_ExpectedSize u"
  shows "\<exists>v1. send_chunks E v m k (int (length c)) ds = (Inr (int (length (c @ concat ds))), v1)
    \<and> receiving E v1 m k u (c @ concat ds) \<and> vt_blobs v1 = vt_blobs v \<and> af_artifacts (vt_db v1) = af_artifacts (vt_db v)"
  using assms
proof (induction ds arbitrary: v c)
  case (Cons d ds)
  have "int (length c + length d) \<le> up_ExpectedSize u" using Cons.prems(5) by simp
  then obtain v1 where v1: "UploadArtifactChunk E v m k (int (length c)) d = (Inr (int (length (c @ d))), v1)" "receiving E v1 m k u (c @ d)"
      "vt_blobs v1 = vt_blobs v" "af_artifacts (vt_db v1) = af_artifacts (vt_db v)"
    using chunk_received [OF Cons.prems(1-3), of d] Cons.prems(4) by auto
  have "int (length ((c @ d) @ concat ds)) \<le> up_ExpectedSize u" "\<forall>d \<in> set ds. d \<noteq> [] \<and> int (length d) \<le> MaxArtifactChunkBytes"
    using Cons.prems(4,5) by simp_all
  from Cons.IH [OF v1(2) Cons.prems(2,3) this(2,1)] v1 show ?case by auto
qed simp

lemma complete_received:
  assumes r: "receiving E v m k u c" and E: "clean_env E" and k: "validArtifactUploadID k"
    and size: "up_ExpectedSize u = int (length c)" "up_ExpectedSize u \<le> MaxArtifactBytes" and sha: "up_ExpectedSHA256 u = content_sha E c"
    and a: "a \<in> set (af_artifacts (vt_db v))" "ar_ID a = up_ArtifactID u" "ar_MachineID a = m" "ar_Status a = ''uploading''"
    and d: "distinct (map ar_ID (af_artifacts (vt_db v)))"
    and blob: "\<forall>b. vt_blobs v (artifactStorageKey (content_sha E c)) = Some b \<longrightarrow> b = c"
  shows "\<exists>v1. CompleteArtifactUpload E v o' m k
      = (Inr (a\<lparr>ar_Status := ''complete'', ar_StorageKey := Some (artifactStorageKey (content_sha E c)), ar_CompletedAt := Some (unix (ve_now E))\<rparr>), v1)
    \<and> vt_blobs v1 (artifactStorageKey (content_sha E c)) = Some c
    \<and> find (\<lambda>x. ar_ID x = ar_ID a \<and> ar_OwnerID x = ar_OwnerID a) (af_artifacts (vt_db v1))
      = Some (a\<lparr>ar_Status := ''complete'', ar_StorageKey := Some (artifactStorageKey (content_sha E c)), ar_CompletedAt := Some (unix (ve_now E))\<rparr>)"
proof -
  let ?x = "u\<lparr>up_ReceivedSize := int (length c)\<rparr>" and ?key = "artifactStorageKey (content_sha E c)"
  let ?f = "\<lambda>a. a\<lparr>ar_Status := ''complete'', ar_StorageKey := Some ?key, ar_CompletedAt := Some (unix (ve_now E))\<rparr>"
  let ?p = "\<lambda>a. ar_ID a = up_ArtifactID u \<and> ar_MachineID a = m \<and> ar_Status a = ''uploading''"
  let ?arts = "sql_update ?p ?f (af_artifacts (vt_db v))"
  have f: "\<not> ve_fault E i" "ve_others E i w = w" for i w using E by (simp_all add: clean_env_def)
  have u: "up_ID u = k" "up_MachineID u = m" "up_Status u = ''active''" "unix (ve_now E) < up_ExpiresAt u" "ve_now E < from_unix (up_ExpiresAt u)"
      "coalesce (vt_parts v k) = c" and fx: "find (\<lambda>x. up_ID x = k \<and> up_MachineID x = m) (af_uploads (vt_db v)) = Some ?x"
    using r receiving_find [OF r] by (auto simp: receiving_def)
  let ?v = "put_part k (Some c) v"
  have c1: "check_complete E v m k = Proceed ?x"
    using u fx size by (simp add: check_complete_def GetArtifactUploadState_def)
  have tk: "limited_read c = c" using size by (simp add: limited_read_small)
  have c2: "hash_part E ?x v = (Inr (content_sha E c), ?v)"
    unfolding hash_part_def using u f size tk by (simp add: Let_def) (auto simp: coalesce_def split: option.splits)
  have valid: "validArtifactStorageKey (ve_lower E) ?key" by (rule content_key_valid) (use E in \<open>simp add: clean_env_def\<close>)
  obtain created v2 where c3: "place_blob E ?x (content_sha E c) ?v = (Inr created, v2)" "vt_blobs v2 ?key = Some c" "vt_db v2 = vt_db v"
  proof (cases "vt_blobs v ?key")
    case None
    then show thesis using that [of True "put_blob ?key (Some c) (put_part k None ?v)"] valid f u
      by (simp add: place_blob_def Let_def put_part_def put_blob_def)
  next
    case (Some b)
    then show thesis using that [of False ?v] valid f u size blob by (simp add: place_blob_def Let_def put_part_def)
  qed
  have "\<exists>y \<in> set (af_artifacts (vt_db v)). ?p y" using a by blast
  then have n: "sql_affected ?p (af_artifacts (vt_db v)) = 1"
    using sql_affected_key_eq [OF d, of ?p "up_ArtifactID u"] by simp
  have only: "y = a" if "y \<in> set (af_artifacts (vt_db v))" "ar_ID y = up_ArtifactID u" for y
    using distinct_key_unique [OF d that(1) a(1)] that(2) a(2) by simp
  have arts: "set ?arts = insert (?f a) (set (af_artifacts (vt_db v)) - {a})"
  proof (rule set_sql_update_one [of a _ ?p ?f, OF a(1)])
    show "?p a" using a by simp
  qed (rule only, assumption, erule conjunct1)
  have fi: "find (\<lambda>x. ar_ID x = ar_ID a \<and> g x = g a) ?arts = Some (?f a)" if "g (?f a) = g a" for g :: "artifact_row \<Rightarrow> string"
  proof (rule find_unique)
    show "?f a \<in> set ?arts" "ar_ID (?f a) = ar_ID a \<and> g (?f a) = g a" by (simp_all add: arts that)
    fix z assume "z \<in> set ?arts" "ar_ID z = ar_ID a \<and> g z = g a"
    then show "z = ?f a" using only [of z] a(2) by (auto simp: arts)
  qed
  have "\<exists>d'. CompleteArtifactUpload_row (vt_db v) m k ?key (ve_now E) = (Inr (?f a), d') \<and> af_artifacts d' = ?arts"
    using fx u size n fi [of ar_MachineID] a
    by (simp add: CompleteArtifactUpload_row_def Let_def GetArtifactByMachine_def getArtifact_def)
  then obtain d' where c4: "CompleteArtifactUpload_row (vt_db v) m k ?key (ve_now E) = (Inr (?f a), d')" "af_artifacts d' = ?arts" by blast
  let ?v3 = "finish_upload E o' m k created (set_db v2 d')"
  have "CompleteArtifactUpload E v o' m k = (Inr (?f a), ?v3)"
    using k c1 c2 c3 c4 sha f by (simp add: CompleteArtifactUpload_def commit_upload_def)
  moreover have "vt_db ?v3 = d'" "vt_blobs ?v3 = vt_blobs v2"
    by (simp_all add: finish_upload_def vault_audit_def drop_part_def put_part_def set_db_def)
  ultimately show ?thesis using c3(2) c4(2) fi [of ar_OwnerID] by auto
qed

lemma after_seconds: "0 < d \<Longrightarrow> t < from_unix (unix (t + d * second)) \<and> unix t < unix (t + d * second)"
  by (simp add: unix_def from_unix_def second_def)

text \<open>What an accepted announcement leaves.\<close>

lemma created_receiving:
  assumes c: "CreateArtifactUpload E v o' m req = (Inr rc, v1)" and q: "check_artifact_request E req = Some q"
    and fresh: "resume_upload E v o' m q = Fresh" and E: "clean_env E"
    and part: "vt_parts v (rc_UploadID rc) = None" and ids: "distinct (map up_ID (af_uploads (vt_db v)))" "distinct (map ar_ID (af_artifacts (vt_db v)))"
  shows "\<exists>u a. receiving E v1 m (rc_UploadID rc) u [] \<and> up_ExpectedSize u = aq_SizeBytes q \<and> up_ExpectedSHA256 u = aq_SHA256 q
    \<and> a \<in> set (af_artifacts (vt_db v1)) \<and> ar_ID a = up_ArtifactID u \<and> ar_ID a = rc_ArtifactID rc \<and> ar_OwnerID a = o' \<and> ar_MachineID a = m
    \<and> ar_Status a = ''uploading'' \<and> ve_now E < from_unix (ar_ExpiresAt a) \<and> ar_SizeBytes a = aq_SizeBytes q \<and> ar_SHA256 a = aq_SHA256 q
    \<and> distinct (map ar_ID (af_artifacts (vt_db v1))) \<and> vt_blobs v1 = vt_blobs v"
proof -
  have f: "\<not> ve_fault E i" "ve_others E i w = w" for i w using E by (simp_all add: clean_env_def)
  have i: "insert_upload E o' m q v = (Inr rc, v1)" using c q fresh f by (simp add: CreateArtifactUpload_def)
  obtain aid uid where r: "ve_random E ''art_'' = Some aid" "ve_random E ''upl_'' = Some uid"
    using i by (auto simp: insert_upload_def split: option.splits)
  let ?a = "\<lparr>ar_ID = aid, ar_OwnerID = o', ar_MachineID = m, ar_JobID = null_string (aq_JobID q), ar_LogicalName = aq_LogicalName q,
     ar_ContentType = aq_ContentType q, ar_SizeBytes = aq_SizeBytes q, ar_SHA256 = aq_SHA256 q, ar_StorageKey = None, ar_Status = ''uploading'',
     ar_CreatedAt = unix (ve_now E), ar_CompletedAt = None, ar_ExpiresAt = unix (ve_now E + artifactRetention)\<rparr>"
  let ?u = "\<lparr>up_ID = uid, up_ArtifactID = aid, up_MachineID = m, up_ExpectedSize = aq_SizeBytes q, up_ExpectedSHA256 = aq_SHA256 q,
     up_ReceivedSize = 0, up_Status = ''active'', up_CreatedAt = unix (ve_now E), up_ExpiresAt = unix (ve_now E + artifactUploadTTL)\<rparr>"
  obtain d where d: "CreateArtifactUpload_row (vt_db v) ?a ?u artifact_quotas = (Inr (), d)"
      "v1 = vault_audit o' m ''artifact.create'' (ve_now E) (set_db v d)" "rc_UploadID rc = uid" "rc_ArtifactID rc = aid"
    using i r f by (auto simp: insert_upload_def Let_def split: prod.splits sum.splits if_splits)
  have rows: "af_artifacts d = af_artifacts (vt_db v) @ [?a]" "af_uploads d = af_uploads (vt_db v) @ [?u]"
    and new: "aid \<notin> ar_ID ` set (af_artifacts (vt_db v))" "uid \<notin> up_ID ` set (af_uploads (vt_db v))"
    using d(1) by (auto simp: CreateArtifactUpload_row_def Let_def list_ex_iff split: option.splits if_splits)
  have v1: "vt_db v1 = d" "vt_parts v1 = vt_parts v" "vt_blobs v1 = vt_blobs v" by (simp_all add: d(2) vault_audit_def set_db_def)
  have t: "ve_now E < from_unix (up_ExpiresAt ?u) \<and> unix (ve_now E) < up_ExpiresAt ?u" "ve_now E < from_unix (ar_ExpiresAt ?a)"
    using after_seconds [of 1800 "ve_now E"] after_seconds [of 2592000 "ve_now E"]
    by (simp_all add: artifactUploadTTL_def artifactRetention_def time_units)
  have "receiving E v1 m uid ?u []"
    using ids(1) new(2) rows(2) t(1) part by (simp add: receiving_def v1 d(3) coalesce_def)
  moreover have "distinct (map ar_ID (af_artifacts (vt_db v1)))" using ids(2) new(1) rows(1) by (simp add: v1)
  ultimately show ?thesis using rows(1) t(2) v1 d(3,4) by (intro exI [of _ ?u] exI [of _ ?a]) simp
qed

text \<open>Property C29: a file that is announced, sent in any chunks of allowed size that make it up, and completed is
  downloaded byte for byte. Hypotheses: the announcement names the size and SHA-256 of the file and is accepted as a new upload,
  the SHA-256 of the file is that of no other file of the store, no file operation fails.\<close>

theorem upload_download:
  assumes c: "CreateArtifactUpload E v o' m req = (Inr rc, v1)" and q: "check_artifact_request E req = Some q"
    and fresh: "resume_upload E v o' m q = Fresh" "vt_parts v (rc_UploadID rc) = None" "validArtifactUploadID (rc_UploadID rc)"
    and E: "clean_env E" and v: "vault_ok E v"
    and whole: "aq_SizeBytes q = int (length (concat ds))" "aq_SHA256 q = content_sha E (concat ds)"
    and ds: "\<forall>d \<in> set ds. d \<noteq> [] \<and> int (length d) \<le> MaxArtifactChunkBytes"
    and only: "\<forall>b. vt_blobs v (artifactStorageKey (content_sha E (concat ds))) = Some b \<longrightarrow> b = concat ds"
  shows "\<exists>v2 a v3. send_chunks E v1 m (rc_UploadID rc) 0 ds = (Inr (int (length (concat ds))), v2)
    \<and> CompleteArtifactUpload E v2 o' m (rc_UploadID rc) = (Inr a, v3)
    \<and> OpenArtifact E v3 o' (rc_ArtifactID rc) = Inr (a, concat ds)"
proof -
  have d: "distinct (map up_ID (af_uploads (vt_db v)))" "distinct (map ar_ID (af_artifacts (vt_db v)))"
    using v by (auto simp: vault_ok_def wf_artifacts_def)
  obtain u a where r: "receiving E v1 m (rc_UploadID rc) u []" and u: "up_ExpectedSize u = aq_SizeBytes q" "up_ExpectedSHA256 u = aq_SHA256 q"
    and a: "a \<in> set (af_artifacts (vt_db v1))" "ar_ID a = up_ArtifactID u" "ar_ID a = rc_ArtifactID rc" "ar_OwnerID a = o'" "ar_MachineID a = m"
      "ar_Status a = ''uploading''" "ve_now E < from_unix (ar_ExpiresAt a)" "ar_SizeBytes a = aq_SizeBytes q"
    and d1: "distinct (map ar_ID (af_artifacts (vt_db v1)))" and b: "vt_blobs v1 = vt_blobs v"
    using created_receiving [OF c q fresh(1) E fresh(2) d] by blast
  obtain v2 where v2: "send_chunks E v1 m (rc_UploadID rc) 0 ds = (Inr (int (length (concat ds))), v2)"
      "receiving E v2 m (rc_UploadID rc) u (concat ds)" "vt_blobs v2 = vt_blobs v1" "af_artifacts (vt_db v2) = af_artifacts (vt_db v1)"
    using chunks_received [OF r E fresh(3) ds] u(1) whole(1) by auto
  have max: "up_ExpectedSize u \<le> MaxArtifactBytes" using q u(1) by (auto simp: check_artifact_request_def Let_def split: if_splits)
  let ?key = "artifactStorageKey (content_sha E (concat ds))"
  let ?a = "a\<lparr>ar_Status := ''complete'', ar_StorageKey := Some ?key, ar_CompletedAt := Some (unix (ve_now E))\<rparr>"
  have arts: "a \<in> set (af_artifacts (vt_db v2))" "distinct (map ar_ID (af_artifacts (vt_db v2)))"
    and blob: "\<forall>b. vt_blobs v2 ?key = Some b \<longrightarrow> b = concat ds" using a(1) d1 only b v2(3,4) by simp_all
  have size: "up_ExpectedSize u = int (length (concat ds))" "up_ExpectedSHA256 u = content_sha E (concat ds)" using u whole by simp_all
  obtain v3 where v3: "CompleteArtifactUpload E v2 o' m (rc_UploadID rc) = (Inr ?a, v3)" "vt_blobs v3 ?key = Some (concat ds)"
      "find (\<lambda>x. ar_ID x = ar_ID a \<and> ar_OwnerID x = ar_OwnerID a) (af_artifacts (vt_db v3)) = Some ?a"
    using complete_received [OF v2(2) E fresh(3) size(1) max size(2) arts(1) a(2,5,6) arts(2) blob, of o'] by blast
  have key: "validArtifactStorageKey (ve_lower E) ?key" by (rule content_key_valid) (use E in \<open>simp add: clean_env_def\<close>)
  have "OpenArtifact E v3 o' (rc_ArtifactID rc) = Inr (?a, concat ds)"
    using v3(2,3) a E whole(1) key unfolding a(3,4) [symmetric]
    by (simp add: OpenArtifact_def GetArtifact_def GetArtifact_row_def getArtifact_def clean_env_def coalesce_def Let_def)
  then show ?thesis using v2(1) v3(1) by blast
qed

section \<open>Maintenance\<close>

text \<open>the delay before a failed file deletion is tried again doubles with each attempt from thirty seconds
  and is at most an hour: the loop equals the closed form.\<close>

theorem retry_delay_closed:
  "retry_delay n (30 * second) = min hour (2 ^ n * (30 * second))"
proof -
  have "retry_delay n d = min hour (2 ^ n * d)" if "0 < d" "d \<le> hour" for d
    using that
  proof (induction n arbitrary: d)
    case (Suc n)
    show ?case
    proof (cases "d < hour")
      case True
      have "min hour (2 ^ n * min hour (d * 2)) = min hour (2 ^ Suc n * d)"
      proof (cases "d * 2 \<le> hour")
        case False
        have "(1::int) \<le> 2 ^ n" by simp
        then have "hour \<le> 2 ^ n * hour" "d * 2 \<le> 2 ^ n * (d * 2)"
          using Suc.prems(1) mult_right_mono [of 1 "2 ^ n :: int" hour] mult_right_mono [of 1 "2 ^ n :: int" "d * 2"] by (simp_all add: time_units)
        then show ?thesis using False by (simp add: min_def mult.assoc mult.commute mult.left_commute)
      next
        case True
        then have "min hour (d * 2) = d * 2" by simp
        then show ?thesis by (simp only:) (simp add: mult.commute mult.left_commute)
      qed
      moreover have "(if hour < d * 2 then hour else d * 2) = min hour (d * 2)" by (simp add: min_def)
      moreover have "0 < min hour (d * 2)" "min hour (d * 2) \<le> hour" using Suc.prems(1) by (simp_all add: time_units)
      ultimately show ?thesis using Suc.IH [of "min hour (d * 2)"] True by (simp del: power_Suc)
    next
      case False
      then have "d = hour" using Suc.prems(2) by simp
      moreover have "(1::int) \<le> 2 ^ Suc n" by (rule one_le_power) simp
      then have "hour \<le> 2 ^ Suc n * hour" using mult_right_mono [of 1 "2 ^ Suc n :: int" hour] by (simp add: time_units del: power_Suc)
      ultimately show ?thesis by (simp add: min_def)
    qed
  qed (simp add: min_def)
  then show ?thesis by (simp add: time_units)
qed

lemma sort_key_ne: "x \<in> set ys \<Longrightarrow> sort_key f ys \<noteq> []"
  using set_sort [of f ys] by force

text \<open>Property C33: once any result has expired, the maintenance of results fails and removes nothing, however often it runs:
  the statement deletes by a column \<open>id\<close>, and the key of \<open>result_records\<close> is \<open>result_id\<close>.\<close>

theorem expired_results_stay:
  assumes "r \<in> set (af_results w)" "rr_ExpiresAt r \<le> unix now" "\<forall>x \<in> set (af_results w). rr_ResultID x \<noteq> []" "0 < limit"
  shows "CleanupResults w now limit = (Inl no_such_column, w)"
proof -
  let ?rows = "take (nat limit) (sort_key (\<lambda>r. (rr_ExpiresAt r, rr_ResultID r)) (filter (\<lambda>r. rr_ExpiresAt r \<le> unix now) (af_results w)))"
  have "r \<in> set (filter (\<lambda>r. rr_ExpiresAt r \<le> unix now) (af_results w))" using assms(1,2) by simp
  then have "sort_key (\<lambda>r. (rr_ExpiresAt r, rr_ResultID r)) (filter (\<lambda>r. rr_ExpiresAt r \<le> unix now) (af_results w)) \<noteq> []"
    by (rule sort_key_ne)
  then obtain x xs where x: "?rows = x # xs" using assms(4) by (cases ?rows) auto
  have "set ?rows \<subseteq> set (af_results w)" by (rule subset_trans [OF set_take_subset]) auto
  then have "rr_ResultID x \<noteq> []" using assms(3) x by auto
  then have "rr_ResultID x \<in> set (uniqueStrings (map rr_ResultID ?rows))" by (simp add: x)
  then have "uniqueStrings (map rr_ResultID ?rows) \<noteq> []" by (metis empty_iff empty_set)
  moreover have "''id'' \<notin> set (table_columns ''result_records'')" by code_simp
  ultimately show ?thesis using assms(4) unfolding CleanupResults_def deleteByIDs_def Let_def x by simp
qed

section \<open>Examples\<close>

definition demo_vault_env :: vault_env where
  "demo_vault_env = \<lparr>ve_sha = (\<lambda>_. replicate 32 (CHR ''k'')), ve_random = (\<lambda>p. Some (p @ replicate 32 (CHR ''a''))), ve_lower = id,
     ve_media_ok = (\<lambda>_. True), ve_fault = (\<lambda>_. False), ve_written = 0, ve_others = (\<lambda>_ v. v), ve_now = 0\<rparr>"

definition demo_weather :: weather where
  "demo_weather = \<lparr>we_now = 0, we_fault = (\<lambda>_. False), we_written = 0, we_random = (\<lambda>p. Some (p @ replicate 32 (CHR ''a'')))\<rparr>"

definition demo_machine_row :: machine_row where
  "demo_machine_row = \<lparr>mr_ID = ''m'', mr_OwnerID = ''o'', mr_DisplayName = [], mr_AdminNote = [], mr_Status = ''active'', mr_OS = [],
     mr_Arch = [], mr_NodeVersion = [], mr_CapabilityDigest = [], mr_LastSeenAt = None, mr_LastConnectionGeneration = 0,
     mr_RevokedAt = None, mr_DeletedAt = None, mr_Revision = 1, mr_CreatedAt = 0, mr_UpdatedAt = 0\<rparr>"

definition demo_upload_request :: artifact_request where
  "demo_upload_request = \<lparr>aq_JobID = [], aq_LogicalName = ''log.txt'', aq_ContentType = ''text/plain'', aq_SizeBytes = 2,
     aq_SHA256 = ''sha256:'' @ concat (replicate 32 ''6b'')\<rparr>"

definition demo_upload_id :: string where "demo_upload_id = ''upl_'' @ replicate 32 (CHR ''a'')"

definition demo_yard :: yard where
  "demo_yard = fold (yard_step demo_vault_env)
     [Y_Other [demo_machine_row] [] [], Y_Create 0 demo_weather ''o'' ''m'' demo_upload_request, Y_Next 0 demo_weather,
      Y_Chunk 0 demo_weather ''m'' demo_upload_id 0 ''hi'', Y_Next 0 demo_weather, Y_Next 0 demo_weather,
      Y_Complete 0 demo_weather ''o'' ''m'' demo_upload_id, Y_Next 0 demo_weather, Y_Next 0 demo_weather, Y_Next 0 demo_weather,
      Y_Next 0 demo_weather] (new_yard 1)"

lemma yard_run_fold: "yard_run E s s' \<Longrightarrow> yard_run E s (fold (yard_step E) es s')"
  by (induction es arbitrary: s') (simp_all add: yard_run.there)

lemma demo_yard_run: "yard_run demo_vault_env (new_yard 1) demo_yard"
  unfolding demo_yard_def by (rule yard_run_fold) (rule yard_run.here)

lemma demo_clean: "clean_env demo_vault_env"
  by (simp add: clean_env_def demo_vault_env_def)

definition demo_artifact_row :: artifact_row where
  "demo_artifact_row = \<lparr>ar_ID = ''art_'' @ replicate 32 (CHR ''a''), ar_OwnerID = ''o'', ar_MachineID = ''m'', ar_JobID = None,
     ar_LogicalName = ''log.txt'', ar_ContentType = ''text/plain'', ar_SizeBytes = 2, ar_SHA256 = aq_SHA256 demo_upload_request,
     ar_StorageKey = Some (artifactStorageKey (aq_SHA256 demo_upload_request)), ar_Status = ''complete'', ar_CreatedAt = 0,
     ar_CompletedAt = Some 0, ar_ExpiresAt = 2592000\<rparr>"

lemma demo_yard_state: "(let v = yd_vault demo_yard in
    af_artifacts (vt_db v) = [demo_artifact_row] \<and> vt_blobs v (artifactStorageKey (aq_SHA256 demo_upload_request)) = Some ''hi'')"
  by code_simp

lemma demo_artifact: "demo_artifact_row \<in> set (af_artifacts (vt_db (yd_vault demo_yard)))" "ar_Status demo_artifact_row = ''complete''"
  "ve_now demo_vault_env < from_unix (ar_ExpiresAt demo_artifact_row)" "ar_SizeBytes demo_artifact_row = 2"
  using demo_yard_state by (simp_all add: Let_def demo_artifact_row_def demo_vault_env_def from_unix_def second_def)

lemma demo_key: "validArtifactStorageKey id (artifactStorageKey (aq_SHA256 demo_upload_request))"
  by code_simp

theorem complete_artifact_downloads_witness:
  "\<exists>c. OpenArtifact demo_vault_env (yd_vault demo_yard) (ar_OwnerID demo_artifact_row) (ar_ID demo_artifact_row) = Inr (demo_artifact_row, c)
    \<and> length c = 2"
  using complete_artifact_downloads [OF demo_yard_run demo_artifact(1-3) demo_clean] demo_artifact(4) by auto

theorem download_serves_announced_witness:
  "OpenArtifact demo_vault_env (yd_vault demo_yard) ''o'' (ar_ID demo_artifact_row) = Inr (demo_artifact_row, ''hi'')
    \<and> content_sha demo_vault_env ''hi'' = ar_SHA256 demo_artifact_row"
proof -
  have "OpenArtifact demo_vault_env (yd_vault demo_yard) ''o'' (ar_ID demo_artifact_row) = Inr (demo_artifact_row, ''hi'')"
    using demo_yard_state demo_key
    by (simp add: Let_def OpenArtifact_def GetArtifact_def GetArtifact_row_def getArtifact_def demo_artifact_row_def demo_vault_env_def
        from_unix_def second_def coalesce_def)
  with download_serves_announced [OF demo_yard_run demo_yard_run _ _ this] show ?thesis by (simp add: demo_vault_env_def)
qed

definition demo_start :: vault where
  "demo_start = yd_vault (yard_step demo_vault_env (Y_Other [demo_machine_row] [] []) (new_yard 1))"

lemma demo_start_ok: "vault_ok demo_vault_env demo_start"
  using yard_step_inv [OF new_yard_inv] unfolding demo_start_def yard_inv_def by blast

lemma demo_start_files: "vt_parts demo_start k = None" "vt_blobs demo_start k = None"
  by (simp_all add: demo_start_def new_yard_def new_vault_def set_db_def)

definition demo_created :: artifact_created where
  "demo_created = \<lparr>rc_ArtifactID = ''art_'' @ replicate 32 (CHR ''a''), rc_UploadID = demo_upload_id, rc_ChunkBytes = 1048576,
     rc_ReceivedBytes = 0, rc_ExpiresAt = 1800 * second\<rparr>"

lemma demo_create:
  "fst (CreateArtifactUpload demo_vault_env demo_start ''o'' ''m'' demo_upload_request) = Inr demo_created"
  "check_artifact_request demo_vault_env demo_upload_request = Some demo_upload_request"
  "resume_upload demo_vault_env demo_start ''o'' ''m'' demo_upload_request = Fresh"
  "validArtifactUploadID (rc_UploadID demo_created)"
  "aq_SHA256 demo_upload_request = content_sha demo_vault_env (concat [''h'', ''i''])"
  by code_simp+

theorem upload_download_witness:
  "\<exists>v1 v2 a v3. CreateArtifactUpload demo_vault_env demo_start ''o'' ''m'' demo_upload_request = (Inr demo_created, v1)
    \<and> send_chunks demo_vault_env v1 ''m'' demo_upload_id 0 [''h'', ''i''] = (Inr 2, v2)
    \<and> CompleteArtifactUpload demo_vault_env v2 ''o'' ''m'' demo_upload_id = (Inr a, v3)
    \<and> OpenArtifact demo_vault_env v3 ''o'' (rc_ArtifactID demo_created) = Inr (a, ''hi'')"
proof -
  obtain v1 where c: "CreateArtifactUpload demo_vault_env demo_start ''o'' ''m'' demo_upload_request = (Inr demo_created, v1)"
    using demo_create(1) by (cases "CreateArtifactUpload demo_vault_env demo_start ''o'' ''m'' demo_upload_request") simp
  have "aq_SizeBytes demo_upload_request = int (length (concat [''h'', ''i'']))" by (simp add: demo_upload_request_def)
  note u = upload_download [OF c demo_create(2,3) demo_start_files(1) demo_create(4) demo_clean demo_start_ok this demo_create(5)]
  have "rc_UploadID demo_created = demo_upload_id" by (simp add: demo_created_def)
  with u c show ?thesis by (simp add: MaxArtifactChunkBytes_def demo_start_files)
qed

definition demo_quota_artifact :: artifact_row where
  "demo_quota_artifact = demo_artifact_row\<lparr>ar_Status := ''uploading'', ar_StorageKey := None, ar_CompletedAt := None\<rparr>"

definition demo_quota_upload :: upload_row where
  "demo_quota_upload = \<lparr>up_ID = demo_upload_id, up_ArtifactID = ar_ID demo_artifact_row, up_MachineID = ''m'', up_ExpectedSize = 2,
     up_ExpectedSHA256 = aq_SHA256 demo_upload_request, up_ReceivedSize = 0, up_Status = ''active'', up_CreatedAt = 0, up_ExpiresAt = 1800\<rparr>"

theorem create_within_quotas_witness:
  "\<exists>w'. CreateArtifactUpload_row (vt_db demo_start) demo_quota_artifact demo_quota_upload artifact_quotas = (Inr (), w')
    \<and> us_OwnerBytes (ArtifactUsage w' (ar_OwnerID demo_quota_artifact) (ar_MachineID demo_quota_artifact) (ar_CreatedAt demo_quota_artifact))
      \<le> MaxOwnerArtifactBytes"
proof -
  have "is_ok (fst (CreateArtifactUpload_row (vt_db demo_start) demo_quota_artifact demo_quota_upload artifact_quotas))" by code_simp
  then obtain w' where w': "CreateArtifactUpload_row (vt_db demo_start) demo_quota_artifact demo_quota_upload artifact_quotas = (Inr (), w')"
    by (cases "CreateArtifactUpload_row (vt_db demo_start) demo_quota_artifact demo_quota_upload artifact_quotas") (auto simp: is_ok_def split: sum.splits)
  have s: "up_ExpectedSize demo_quota_upload = ar_SizeBytes demo_quota_artifact" "ar_CreatedAt demo_quota_artifact < up_ExpiresAt demo_quota_upload"
    by (simp_all add: demo_quota_upload_def demo_quota_artifact_def demo_artifact_row_def)
  show ?thesis using create_within_quotas [OF w' s] w' by (auto simp: artifact_quotas_def)
qed

definition demo_expired :: artifact_db where
  "demo_expired = \<lparr>af_machines = [], af_artifacts = [], af_uploads = [], af_deletions = [], af_results = [\<lparr>rr_ResultID = ''res_1'', rr_OwnerID = ''o'',
     rr_MachineID = ''m'', rr_IdempotencyKey = ''k'', rr_RequestHash = ''h'', rr_Status = ''ready'', rr_ManifestJSON = ''{}'', rr_Revision = 2,
     rr_ErrorCode = [], rr_ErrorMessage = [], rr_CreatedAt = 0, rr_CommittedAt = Some 0, rr_ExpiresAt = 60\<rparr>], af_pages = []\<rparr>"

theorem expired_results_stay_witness:
  "CleanupResults demo_expired (120 * second) 128 = (Inl no_such_column, demo_expired)"
  by (rule expired_results_stay [of "hd (af_results demo_expired)"]) (simp_all add: demo_expired_def unix_def second_def)

end
