(* ===== verification/Result_Store.thy ===== *)
theory Result_Store
  imports Artifact_Store
begin

text \<open>
  The store of results (\<open>store.go\<close>): a Node opens a result, attaches artifacts to it as numbered pages, and commits, aborts or
  fails it. Every change is a compare-and-swap on the revision of an open, unexpired row, so \<open>result_records\<close> is an instance of
  \<open>versioned_rows\<close>. A row that is no longer open is final, whatever statements follow.
\<close>

section \<open>Statements\<close>

definition GetResult :: "artifact_db \<Rightarrow> string \<Rightarrow> string \<Rightarrow> hub_error + result_row" where
  "GetResult w ownerID resultID =
     (case find (\<lambda>r. rr_ResultID r = resultID \<and> rr_OwnerID r = ownerID) (af_results w) of None \<Rightarrow> Inl ErrNotFound | Some r \<Rightarrow> Inr r)"

definition LookupResult_row :: "artifact_db \<Rightarrow> string \<Rightarrow> string \<Rightarrow> hub_error + result_row" where
  "LookupResult_row w ownerID idempotencyKey =
     (case find (\<lambda>r. rr_OwnerID r = ownerID \<and> rr_IdempotencyKey r = idempotencyKey) (af_results w) of
        None \<Rightarrow> Inl ErrNotFound | Some r \<Rightarrow> Inr r)"

definition CreateResult_row :: "artifact_db \<Rightarrow> result_row \<Rightarrow> (hub_error + result_row) \<times> artifact_db" where
  "CreateResult_row w rec =
     (case find (\<lambda>m. mr_ID m = rr_MachineID rec) (af_machines w) of
        None \<Rightarrow> (Inl ErrNotFound, w)
      | Some m \<Rightarrow>
      if mr_OwnerID m \<noteq> rr_OwnerID rec \<or> mr_Status m \<noteq> ''active'' then (Inl ErrUnauthorized, w)
      else if list_ex (\<lambda>r. rr_ResultID r = rr_ResultID rec \<or> rr_OwnerID r = rr_OwnerID rec \<and> rr_IdempotencyKey r = rr_IdempotencyKey rec)
          (af_results w) then (Inl constraint_error, w)
      else let w1 = w\<lparr>af_results := af_results w @ [rec\<lparr>rr_Status := ''open'', rr_ManifestJSON := [], rr_Revision := 1, rr_ErrorCode := [],
             rr_ErrorMessage := [], rr_CommittedAt := None\<rparr>]\<rparr>
      in (GetResult w1 (rr_OwnerID rec) (rr_ResultID rec), w1))"

text \<open>The foreign key of \<open>result_id\<close> holds since the row was read; that of \<open>artifact_id\<close> likewise.\<close>

definition AttachResultPage_row ::
    "artifact_db \<Rightarrow> string \<Rightarrow> string \<Rightarrow> int \<Rightarrow> string \<Rightarrow> int \<Rightarrow> instant \<Rightarrow> (hub_error + result_row) \<times> artifact_db" where
  "AttachResultPage_row w ownerID resultID pageNo artifactID expectedRevision now =
     (case find (\<lambda>r. rr_ResultID r = resultID) (af_results w) of
        None \<Rightarrow> (Inl ErrNotFound, w)
      | Some r \<Rightarrow>
      if rr_OwnerID r \<noteq> ownerID then (Inl ErrUnauthorized, w)
      else if rr_Status r \<noteq> ''open'' \<or> rr_Revision r \<noteq> expectedRevision \<or> rr_ExpiresAt r \<le> unix now then (Inl ErrConflict, w)
      else (case find (\<lambda>a. ar_ID a = artifactID) (af_artifacts w) of
        None \<Rightarrow> (Inl ErrNotFound, w)
      | Some a \<Rightarrow>
      if ar_OwnerID a \<noteq> ownerID \<or> ar_Status a \<noteq> ''complete'' \<or> coalesce (ar_StorageKey a) = [] \<or> ar_ExpiresAt a \<le> unix now
      then (Inl ErrConflict, w)
      else if list_ex (\<lambda>p. pg_ResultID p = resultID \<and> pg_PageNo p = pageNo) (af_pages w) then (Inl constraint_error, w)
      else let pages = af_pages w @ [\<lparr>pg_ResultID = resultID, pg_PageNo = pageNo, pg_OwnerID = ownerID, pg_ArtifactID = artifactID,
             pg_CreatedAt = unix now\<rparr>]
      in (case sql_cas (\<lambda>r. rr_ResultID r = resultID \<and> (rr_OwnerID r = ownerID \<and> rr_Status r = ''open'') \<and> rr_Revision r = expectedRevision)
            (\<lambda>r. r\<lparr>rr_Revision := rr_Revision r + 1\<rparr>) (af_results w) of
         Inl e \<Rightarrow> (Inl e, w)
       | Inr t \<Rightarrow> let w1 = w\<lparr>af_pages := pages, af_results := t\<rparr> in (GetResult w1 ownerID resultID, w1))))"

definition CommitResult_row ::
    "artifact_db \<Rightarrow> string \<Rightarrow> string \<Rightarrow> string \<Rightarrow> int \<Rightarrow> instant \<Rightarrow> (hub_error + result_row) \<times> artifact_db" where
  "CommitResult_row w ownerID resultID manifestJSON expectedRevision now =
     (case sql_cas (\<lambda>r. rr_ResultID r = resultID \<and> (rr_OwnerID r = ownerID \<and> rr_Status r = ''open'' \<and> unix now < rr_ExpiresAt r)
             \<and> rr_Revision r = expectedRevision)
          (\<lambda>r. r\<lparr>rr_Status := ''ready'', rr_ManifestJSON := manifestJSON, rr_CommittedAt := Some (unix now), rr_Revision := rr_Revision r + 1\<rparr>)
          (af_results w) of
        Inl e \<Rightarrow> (Inl e, w)
      | Inr t \<Rightarrow> let w1 = w\<lparr>af_results := t\<rparr> in (GetResult w1 ownerID resultID, w1))"

definition transitionResult_row ::
    "artifact_db \<Rightarrow> string \<Rightarrow> string \<Rightarrow> string \<Rightarrow> string \<Rightarrow> string \<Rightarrow> int \<Rightarrow> instant \<Rightarrow> (hub_error + result_row) \<times> artifact_db" where
  "transitionResult_row w ownerID resultID status code message expectedRevision now =
     (case sql_cas (\<lambda>r. rr_ResultID r = resultID \<and> (rr_OwnerID r = ownerID \<and> rr_Status r = ''open'' \<and> unix now < rr_ExpiresAt r)
             \<and> rr_Revision r = expectedRevision)
          (\<lambda>r. r\<lparr>rr_Status := status, rr_ErrorCode := code, rr_ErrorMessage := message, rr_Revision := rr_Revision r + 1\<rparr>)
          (af_results w) of
        Inl e \<Rightarrow> (Inl e, w)
      | Inr t \<Rightarrow> let w1 = w\<lparr>af_results := t\<rparr> in (GetResult w1 ownerID resultID, w1))"

definition AbortResult_row :: "artifact_db \<Rightarrow> string \<Rightarrow> string \<Rightarrow> int \<Rightarrow> instant \<Rightarrow> (hub_error + result_row) \<times> artifact_db" where
  "AbortResult_row w ownerID resultID expectedRevision now = transitionResult_row w ownerID resultID ''aborted'' [] [] expectedRevision now"

definition FailResult_row ::
    "artifact_db \<Rightarrow> string \<Rightarrow> string \<Rightarrow> string \<Rightarrow> string \<Rightarrow> int \<Rightarrow> instant \<Rightarrow> (hub_error + result_row) \<times> artifact_db" where
  "FailResult_row w ownerID resultID code message expectedRevision now =
     transitionResult_row w ownerID resultID ''failed'' code message expectedRevision now"

text \<open>A page with its artifact; only of a ready, unexpired result, and while the artifact can be read.\<close>

definition GetResultPage :: "artifact_db \<Rightarrow> string \<Rightarrow> string \<Rightarrow> int \<Rightarrow> instant \<Rightarrow> hub_error + page_row \<times> artifact_row" where
  "GetResultPage w ownerID resultID pageNo now =
     (case find (\<lambda>p. pg_ResultID p = resultID \<and> pg_PageNo p = pageNo \<and> pg_OwnerID p = ownerID
            \<and> list_ex (\<lambda>r. rr_ResultID r = resultID \<and> rr_Status r = ''ready'' \<and> unix now < rr_ExpiresAt r) (af_results w)
            \<and> list_ex (\<lambda>a. ar_ID a = pg_ArtifactID p) (af_artifacts w)) (af_pages w) of
        None \<Rightarrow> Inl ErrNotFound
      | Some p \<Rightarrow>
          (case find (\<lambda>a. ar_ID a = pg_ArtifactID p) (af_artifacts w) of
             None \<Rightarrow> Inl ErrNotFound
           | Some a \<Rightarrow> if ar_OwnerID a \<noteq> ownerID \<or> ar_Status a \<noteq> ''complete'' \<or> coalesce (ar_StorageKey a) = [] \<or> ar_ExpiresAt a \<le> unix now
                       then Inl ErrNotFound else Inr (p, a)))"

definition page_size :: "artifact_db \<Rightarrow> page_row \<Rightarrow> int" where
  "page_size w p = (case find (\<lambda>a. ar_ID a = pg_ArtifactID p) (af_artifacts w) of None \<Rightarrow> 0 | Some a \<Rightarrow> ar_SizeBytes a)"

definition ResultPageBytes :: "artifact_db \<Rightarrow> string \<Rightarrow> string \<Rightarrow> int" where
  "ResultPageBytes w ownerID resultID =
     sum_list (map (page_size w) (filter (\<lambda>p. pg_ResultID p = resultID \<and> pg_OwnerID p = ownerID) (af_pages w)))"

section \<open>The revision guards the row\<close>

datatype result_change = Attached | Committed_at string int | Closed string string string

fun result_bump :: "result_change \<Rightarrow> result_row \<Rightarrow> result_row" where
  "result_bump Attached r = r\<lparr>rr_Revision := rr_Revision r + 1\<rparr>"
| "result_bump (Committed_at manifest t) r =
     r\<lparr>rr_Status := ''ready'', rr_ManifestJSON := manifest, rr_CommittedAt := Some t, rr_Revision := rr_Revision r + 1\<rparr>"
| "result_bump (Closed status code message) r =
     r\<lparr>rr_Status := status, rr_ErrorCode := code, rr_ErrorMessage := message, rr_Revision := rr_Revision r + 1\<rparr>"

lemma result_bump_fields [simp]:
  "rr_ResultID (result_bump c r) = rr_ResultID r" "rr_Revision (result_bump c r) = rr_Revision r + 1"
  "rr_OwnerID (result_bump c r) = rr_OwnerID r" "rr_MachineID (result_bump c r) = rr_MachineID r"
  "rr_IdempotencyKey (result_bump c r) = rr_IdempotencyKey r" "rr_RequestHash (result_bump c r) = rr_RequestHash r"
  "rr_ExpiresAt (result_bump c r) = rr_ExpiresAt r"
  by (cases c; simp)+

interpretation result_rows: versioned_rows rr_ResultID rr_Revision result_bump
  by unfold_locales simp_all

text \<open>The three updates as compare-and-swaps.\<close>

definition open_for :: "string \<Rightarrow> result_row \<Rightarrow> bool" where
  "open_for ownerID r = (rr_OwnerID r = ownerID \<and> rr_Status r = ''open'')"

definition live_for :: "string \<Rightarrow> instant \<Rightarrow> result_row \<Rightarrow> bool" where
  "live_for ownerID now r = (rr_OwnerID r = ownerID \<and> rr_Status r = ''open'' \<and> unix now < rr_ExpiresAt r)"

lemma result_bump_eqs:
  "result_bump Attached = (\<lambda>r. r\<lparr>rr_Revision := rr_Revision r + 1\<rparr>)"
  "result_bump (Committed_at manifest t) =
     (\<lambda>r. r\<lparr>rr_Status := ''ready'', rr_ManifestJSON := manifest, rr_CommittedAt := Some t, rr_Revision := rr_Revision r + 1\<rparr>)"
  "result_bump (Closed status code message) =
     (\<lambda>r. r\<lparr>rr_Status := status, rr_ErrorCode := code, rr_ErrorMessage := message, rr_Revision := rr_Revision r + 1\<rparr>)"
  by (simp_all add: fun_eq_iff)

lemma CommitResult_cas:
  "CommitResult_row w ownerID resultID manifest n now =
     (case result_rows.cas (live_for ownerID now) resultID n (Committed_at manifest (unix now)) (af_results w) of
        Inl e \<Rightarrow> (Inl e, w) | Inr t \<Rightarrow> (GetResult (w\<lparr>af_results := t\<rparr>) ownerID resultID, w\<lparr>af_results := t\<rparr>))"
  unfolding CommitResult_row_def result_rows.cas_def live_for_def Let_def result_bump_eqs ..

lemma transitionResult_cas:
  "transitionResult_row w ownerID resultID status code message n now =
     (case result_rows.cas (live_for ownerID now) resultID n (Closed status code message) (af_results w) of
        Inl e \<Rightarrow> (Inl e, w) | Inr t \<Rightarrow> (GetResult (w\<lparr>af_results := t\<rparr>) ownerID resultID, w\<lparr>af_results := t\<rparr>))"
  unfolding transitionResult_row_def result_rows.cas_def live_for_def Let_def result_bump_eqs ..

text \<open>An attached page is on an open row of the owner, in the revision the caller named.\<close>

lemma AttachResultPage_cases:
  obtains e where "AttachResultPage_row w ownerID resultID pageNo artifactID n now = (Inl e, w)"
  | r a t where "r \<in> set (af_results w)" "rr_ResultID r = resultID" "open_for ownerID r" "rr_Revision r = n" "unix now < rr_ExpiresAt r"
      "find (\<lambda>a. ar_ID a = artifactID) (af_artifacts w) = Some a" "ar_OwnerID a = ownerID" "ar_Status a = ''complete''"
      "\<forall>p \<in> set (af_pages w). pg_ResultID p = resultID \<longrightarrow> pg_PageNo p \<noteq> pageNo"
      "result_rows.cas (open_for ownerID) resultID n Attached (af_results w) = Inr t"
      "AttachResultPage_row w ownerID resultID pageNo artifactID n now =
         (GetResult (w\<lparr>af_pages := af_pages w @ [\<lparr>pg_ResultID = resultID, pg_PageNo = pageNo, pg_OwnerID = ownerID, pg_ArtifactID = artifactID,
             pg_CreatedAt = unix now\<rparr>], af_results := t\<rparr>) ownerID resultID,
          w\<lparr>af_pages := af_pages w @ [\<lparr>pg_ResultID = resultID, pg_PageNo = pageNo, pg_OwnerID = ownerID, pg_ArtifactID = artifactID,
             pg_CreatedAt = unix now\<rparr>], af_results := t\<rparr>)"
proof (cases "\<exists>e. AttachResultPage_row w ownerID resultID pageNo artifactID n now = (Inl e, w)")
  case False
  have cas: "sql_cas (\<lambda>r. rr_ResultID r = resultID \<and> (rr_OwnerID r = ownerID \<and> rr_Status r = ''open'') \<and> rr_Revision r = n)
      (\<lambda>r. r\<lparr>rr_Revision := rr_Revision r + 1\<rparr>) (af_results w) = result_rows.cas (open_for ownerID) resultID n Attached (af_results w)"
    unfolding result_rows.cas_def open_for_def result_bump_eqs ..
  note u = AttachResultPage_row_def [of w ownerID resultID pageNo artifactID n now, unfolded cas]
  obtain r where r: "find (\<lambda>r. rr_ResultID r = resultID) (af_results w) = Some r"
    using False unfolding u by (cases "find (\<lambda>r. rr_ResultID r = resultID) (af_results w)") auto
  obtain a where a: "find (\<lambda>a. ar_ID a = artifactID) (af_artifacts w) = Some a"
    using False r unfolding u by (cases "find (\<lambda>a. ar_ID a = artifactID) (af_artifacts w)") (auto split: if_splits)
  obtain t where t: "result_rows.cas (open_for ownerID) resultID n Attached (af_results w) = Inr t"
    using False r a unfolding u by (auto simp: Let_def split: if_splits sum.splits)
  show thesis
  proof (rule that(2) [OF _ _ _ _ _ a _ _ _ t])
    show "r \<in> set (af_results w)" "rr_ResultID r = resultID" using find_in [OF r] by simp_all
    show "open_for ownerID r" "rr_Revision r = n" "unix now < rr_ExpiresAt r" "ar_OwnerID a = ownerID" "ar_Status a = ''complete''"
        "\<forall>p \<in> set (af_pages w). pg_ResultID p = resultID \<longrightarrow> pg_PageNo p \<noteq> pageNo"
      using False r a unfolding u open_for_def by (auto simp: list_ex_iff split: if_splits)
  qed (use False r a t in \<open>auto simp: u Let_def split: if_splits\<close>)
qed (use that in blast)

section \<open>Statements in any order\<close>

text \<open>\<open>R_Other\<close> is any statement on the tables of artifacts and machines.\<close>

datatype result_stmt =
    R_Create result_row
  | R_Attach string string int string int instant
  | R_Commit string string string int instant
  | R_Abort string string int instant
  | R_Fail string string string string int instant
  | R_Cleanup instant int
  | R_Other "machine_row list" "artifact_row list" "upload_row list" "deletion_row list"

fun exec_result :: "result_stmt \<Rightarrow> artifact_db \<Rightarrow> artifact_db" where
  "exec_result (R_Create rec) w = snd (CreateResult_row w rec)"
| "exec_result (R_Attach ow k i a n now) w = snd (AttachResultPage_row w ow k i a n now)"
| "exec_result (R_Commit ow k m n now) w = snd (CommitResult_row w ow k m n now)"
| "exec_result (R_Abort ow k n now) w = snd (AbortResult_row w ow k n now)"
| "exec_result (R_Fail ow k c m n now) w = snd (FailResult_row w ow k c m n now)"
| "exec_result (R_Cleanup now limit) w = snd (CleanupResults w now limit)"
| "exec_result (R_Other ms as us ds) w = w\<lparr>af_machines := ms, af_artifacts := as, af_uploads := us, af_deletions := ds\<rparr>"

definition wf_results :: "artifact_db \<Rightarrow> bool" where
  "wf_results w =
     (distinct (map rr_ResultID (af_results w)) \<and> distinct (map (\<lambda>r. (rr_OwnerID r, rr_IdempotencyKey r)) (af_results w))
      \<and> distinct (map (\<lambda>p. (pg_ResultID p, pg_PageNo p)) (af_pages w))
      \<and> (\<forall>p \<in> set (af_pages w). \<exists>r \<in> set (af_results w). rr_ResultID r = pg_ResultID p \<and> rr_OwnerID r = pg_OwnerID p))"

text \<open>How the two tables may move.\<close>

inductive result_moves :: "artifact_db \<Rightarrow> artifact_db \<Rightarrow> bool" for w where
  still: "af_results w' = af_results w \<Longrightarrow> af_pages w' = af_pages w \<Longrightarrow> result_moves w w'"
| opened: "af_results w' = af_results w @ [rec] \<Longrightarrow> af_pages w' = af_pages w \<Longrightarrow> rr_Status rec = ''open''
    \<Longrightarrow> \<forall>r \<in> set (af_results w). rr_ResultID r \<noteq> rr_ResultID rec \<and> \<not> (rr_OwnerID r = rr_OwnerID rec \<and> rr_IdempotencyKey r = rr_IdempotencyKey rec)
    \<Longrightarrow> result_moves w w'"
| swapped: "result_rows.cas (live_for ow now) k n c (af_results w) = Inr (af_results w') \<Longrightarrow> af_pages w' = af_pages w \<Longrightarrow> result_moves w w'"
| paged: "result_rows.cas (open_for ow) k n Attached (af_results w) = Inr (af_results w') \<Longrightarrow> af_pages w' = af_pages w @ [p]
    \<Longrightarrow> pg_ResultID p = k \<Longrightarrow> pg_OwnerID p = ow
    \<Longrightarrow> \<forall>x \<in> set (af_pages w). pg_ResultID x = k \<longrightarrow> pg_PageNo x \<noteq> pg_PageNo p \<Longrightarrow> result_moves w w'"

lemma CreateResult_moves: "result_moves w (snd (CreateResult_row w rec))"
  by (auto simp: CreateResult_row_def Let_def list_ex_iff intro: still opened split: option.splits)

lemma CleanupResults_moves: "result_moves w (snd (CleanupResults w now limit))"
proof -
  have "af_results w1 = af_results w \<and> af_pages w1 = af_pages w" if "deleteByIDs t ids w = Inr w1" for t ids w1
    using that by (auto simp: deleteByIDs_def Let_def split: if_splits)
  then show ?thesis by (auto simp: CleanupResults_def Let_def intro: still split: sum.splits)
qed

lemma AttachResultPage_moves: "result_moves w (snd (AttachResultPage_row w ow k i a n now))"
proof (cases rule: AttachResultPage_cases [of w ow k i a n now])
  case (1 e) then show ?thesis by (simp add: still)
next
  case (2 r b t)
  show ?thesis unfolding 2(11) snd_conv by (rule paged [of ow k n]) (use 2 in auto)
qed

lemma transitionResult_moves: "result_moves w (snd (transitionResult_row w ow k st c m n now))"
  unfolding transitionResult_cas by (auto intro: still swapped split: sum.splits)

lemma CommitResult_moves: "result_moves w (snd (CommitResult_row w ow k m n now))"
  unfolding CommitResult_cas by (auto intro: still swapped split: sum.splits)

lemma exec_result_moves: "result_moves w (exec_result s w)"
  by (cases s) (simp_all add: CreateResult_moves AttachResultPage_moves CommitResult_moves AbortResult_row_def FailResult_row_def
      transitionResult_moves CleanupResults_moves still)

section \<open>What the statements keep\<close>

lemma live_open: "live_for ow now r \<Longrightarrow> open_for ow r"
  by (simp add: live_for_def open_for_def)

lemma map_identity: "map (\<lambda>r. (rr_OwnerID r, rr_IdempotencyKey r)) (sql_update p (result_bump c) t) = map (\<lambda>r. (rr_OwnerID r, rr_IdempotencyKey r)) t"
  by (rule map_sql_update) simp

lemma cas_identity:
  assumes "result_rows.cas g k n c t = Inr t'"
  shows "map rr_ResultID t' = map rr_ResultID t" "map (\<lambda>r. (rr_OwnerID r, rr_IdempotencyKey r)) t' = map (\<lambda>r. (rr_OwnerID r, rr_IdempotencyKey r)) t"
    "\<forall>r \<in> set t. \<exists>r' \<in> set t'. rr_ResultID r' = rr_ResultID r \<and> rr_OwnerID r' = rr_OwnerID r \<and> rr_MachineID r' = rr_MachineID r
      \<and> rr_IdempotencyKey r' = rr_IdempotencyKey r \<and> rr_RequestHash r' = rr_RequestHash r"
proof -
  show "map rr_ResultID t' = map rr_ResultID t" using result_rows.cas_keys [OF assms] .
  have t': "t' = sql_update (\<lambda>r. rr_ResultID r = k \<and> g r \<and> rr_Revision r = n) (result_bump c) t"
    using assms by (auto simp: result_rows.cas_def sql_cas_Inr)
  show "map (\<lambda>r. (rr_OwnerID r, rr_IdempotencyKey r)) t' = map (\<lambda>r. (rr_OwnerID r, rr_IdempotencyKey r)) t" unfolding t' by (rule map_identity)
  show "\<forall>r \<in> set t. \<exists>r' \<in> set t'. rr_ResultID r' = rr_ResultID r \<and> rr_OwnerID r' = rr_OwnerID r \<and> rr_MachineID r' = rr_MachineID r
      \<and> rr_IdempotencyKey r' = rr_IdempotencyKey r \<and> rr_RequestHash r' = rr_RequestHash r"
  proof
    fix r assume r: "r \<in> set t"
    have "(if rr_ResultID r = k \<and> g r \<and> rr_Revision r = n then result_bump c r else r) \<in> set t'"
      unfolding t' set_sql_update using r by (rule imageI)
    then show "\<exists>r' \<in> set t'. rr_ResultID r' = rr_ResultID r \<and> rr_OwnerID r' = rr_OwnerID r \<and> rr_MachineID r' = rr_MachineID r
      \<and> rr_IdempotencyKey r' = rr_IdempotencyKey r \<and> rr_RequestHash r' = rr_RequestHash r"
      by (rule rev_bexI) simp
  qed
qed

text \<open>Rows keep their identity and are never removed.\<close>

lemma result_stays:
  assumes "result_moves w w'" "r \<in> set (af_results w)"
  shows "\<exists>r' \<in> set (af_results w'). rr_ResultID r' = rr_ResultID r \<and> rr_OwnerID r' = rr_OwnerID r \<and> rr_MachineID r' = rr_MachineID r
    \<and> rr_IdempotencyKey r' = rr_IdempotencyKey r \<and> rr_RequestHash r' = rr_RequestHash r"
  using assms(1)
proof cases
  case (swapped ow now k n c) then show ?thesis using cas_identity(3) [OF swapped(1)] assms(2) by simp
next
  case (paged ow k n p) then show ?thesis using cas_identity(3) [OF paged(1)] assms(2) by simp
next
  case still then show ?thesis using assms(2) by auto
next
  case (opened rec) then show ?thesis using assms(2) by auto
qed

lemma result_moves_wf:
  assumes "wf_results w" "result_moves w w'" shows "wf_results w'"
proof -
  have refs: "\<forall>p \<in> set (af_pages w). \<exists>r \<in> set (af_results w'). rr_ResultID r = pg_ResultID p \<and> rr_OwnerID r = pg_OwnerID p"
  proof
    fix p assume "p \<in> set (af_pages w)"
    then obtain r where "r \<in> set (af_results w)" "rr_ResultID r = pg_ResultID p" "rr_OwnerID r = pg_OwnerID p"
      using assms(1) by (auto simp: wf_results_def)
    then show "\<exists>r \<in> set (af_results w'). rr_ResultID r = pg_ResultID p \<and> rr_OwnerID r = pg_OwnerID p"
      using result_stays [OF assms(2), of r] by auto
  qed
  show ?thesis
    using assms(2)
  proof cases
    case still then show ?thesis using assms(1) by (simp add: wf_results_def)
  next
    case (opened rec) then show ?thesis using assms(1) refs by (auto simp: wf_results_def)
  next
    case (swapped ow now k n c)
    then show ?thesis using assms(1) refs cas_identity [OF swapped(1)] by (simp add: wf_results_def)
  next
    case (paged ow k n p)
    have d: "distinct (map rr_ResultID (af_results w))" using assms(1) by (simp add: wf_results_def)
    obtain r where "r \<in> set (af_results w)" "rr_ResultID r = k" "open_for ow r"
      by (rule result_rows.cas_row [OF paged(1) d]) (rule that)
    then have "\<exists>r \<in> set (af_results w'). rr_ResultID r = pg_ResultID p \<and> rr_OwnerID r = pg_OwnerID p"
      using result_stays [OF assms(2), of r] paged(3,4) by (auto simp: open_for_def)
    then show ?thesis using assms(1) refs cas_identity [OF paged(1)] paged by (auto simp: wf_results_def)
  qed
qed

lemma exec_result_wf: "wf_results w \<Longrightarrow> wf_results (exec_all exec_result ss w)"
  by (induction ss arbitrary: w) (simp_all add: result_moves_wf [OF _ exec_result_moves])

text \<open>A row that is not open stays, unchanged and alone under its identifier, with its pages.\<close>

definition settled_row :: "artifact_db \<Rightarrow> result_row \<Rightarrow> page_row list \<Rightarrow> bool" where
  "settled_row w r ps = (r \<in> set (af_results w) \<and> rr_Status r \<noteq> ''open'' \<and> filter (\<lambda>p. pg_ResultID p = rr_ResultID r) (af_pages w) = ps)"

lemma settled_move:
  assumes wf: "wf_results w" and s: "settled_row w r ps" and m: "result_moves w w'"
  shows "settled_row w' r ps"
proof -
  have d: "distinct (map rr_ResultID (af_results w))" using wf by (simp add: wf_results_def)
  have keep: "r \<in> set t \<and> rr_ResultID r \<noteq> k"
    if cas: "result_rows.cas g k n c (af_results w) = Inr t" and g: "\<And>x. g x \<Longrightarrow> rr_Status x = ''open''" for g k n c t
  proof (rule result_rows.cas_row [OF cas d])
    fix x assume x: "x \<in> set (af_results w)" "rr_ResultID x = k" "g x" "set t = insert (result_bump c x) (set (af_results w) - {x})"
    then have ne: "x \<noteq> r" using g s by (auto simp: settled_row_def)
    then have "rr_ResultID r \<noteq> k" using distinct_key_unique [OF d x(1), of r] s x(2) by (auto simp: settled_row_def)
    then show "r \<in> set t \<and> rr_ResultID r \<noteq> k" using s x(4) ne by (auto simp: settled_row_def)
  qed
  show ?thesis using m
  proof cases
    case (swapped ow now k n c)
    then show ?thesis using keep [OF swapped(1)] s by (simp add: settled_row_def live_for_def)
  next
    case (paged ow k n p)
    then show ?thesis using keep [OF paged(1)] s by (auto simp: settled_row_def open_for_def)
  qed (use s in \<open>auto simp: settled_row_def\<close>)
qed

lemma settled_run: "wf_results w \<Longrightarrow> settled_row w r ps \<Longrightarrow> settled_row (exec_all exec_result ss w) r ps"
  by (induction ss arbitrary: w) (simp_all add: settled_move [OF _ _ exec_result_moves] result_moves_wf [OF _ exec_result_moves])

lemma result_stays_run:
  "r \<in> set (af_results w) \<Longrightarrow> \<exists>r' \<in> set (af_results (exec_all exec_result ss w)). rr_ResultID r' = rr_ResultID r \<and> rr_OwnerID r' = rr_OwnerID r
    \<and> rr_MachineID r' = rr_MachineID r \<and> rr_IdempotencyKey r' = rr_IdempotencyKey r \<and> rr_RequestHash r' = rr_RequestHash r"
proof (induction ss arbitrary: w r)
  case (Cons s ss)
  obtain r1 where r1: "r1 \<in> set (af_results (exec_result s w))" "rr_ResultID r1 = rr_ResultID r" "rr_OwnerID r1 = rr_OwnerID r"
      "rr_MachineID r1 = rr_MachineID r" "rr_IdempotencyKey r1 = rr_IdempotencyKey r" "rr_RequestHash r1 = rr_RequestHash r"
    using result_stays [OF exec_result_moves Cons.prems] by blast
  from Cons.IH [OF r1(1)] show ?case using r1 by simp
qed auto

end
