(* ===== verification/Result_Service.thy ===== *)
theory Result_Service
  imports Artifact_Service Result_Store Json_Text
begin

text \<open>
  Results of a Node (\<open>core/result_pool.go\<close>): opening one under an idempotency key, attaching pages, committing it with a manifest, aborting,
  failing and reading it. Between the reads of a request and its update other requests may run (\<open>ve_others\<close>).
\<close>

definition MaxResultManifestBytes :: int where "MaxResultManifestBytes = 65536"
definition MaxResultPageBytes :: int where "MaxResultPageBytes = 1048576"
definition MaxResultBytes :: int where "MaxResultBytes = 104857600"
definition resultRetention :: duration where "resultRetention = 30 * 24 * hour"

record result_answer =
  rn_ResultID :: string
  rn_Revision :: int
  rn_Status :: string
  rn_ExpiresAt :: instant

definition resultCreateResult :: "result_row \<Rightarrow> result_answer" where
  "resultCreateResult r = \<lparr>rn_ResultID = rr_ResultID r, rn_Revision = rr_Revision r, rn_Status = rr_Status r,
     rn_ExpiresAt = from_unix (rr_ExpiresAt r)\<rparr>"

section \<open>Opening\<close>

definition known_result :: "result_row \<Rightarrow> string \<Rightarrow> string \<Rightarrow> hub_error + result_answer" where
  "known_result existing machineID requestHash =
     (if rr_RequestHash existing \<noteq> requestHash then Inl ErrConflict
      else if rr_MachineID existing \<noteq> machineID then Inl ErrUnauthorized
      else Inr (resultCreateResult existing))"

definition CreateResult ::
    "vault_env \<Rightarrow> vault \<Rightarrow> string \<Rightarrow> string \<Rightarrow> string \<Rightarrow> string \<Rightarrow> (hub_error + result_answer) \<times> vault" where
  "CreateResult E v ownerID machineID idempotencyKey requestHash =
     (let key = trim_space idempotencyKey; h = trim_space requestHash
      in if length key < 12 \<or> 128 < length key \<or> length h < 1 \<or> 128 < length h then (Inl ErrConflict, v)
         else case LookupResult_row (vt_db v) ownerID key of
           Inr existing \<Rightarrow> (known_result existing machineID h, v)
         | Inl _ \<Rightarrow>
             (case ve_random E ''res_'' of
                None \<Rightarrow> (Inl (OtherError ''random id''), v)
              | Some resultID \<Rightarrow>
                  let v1 = ve_others E 0 v; now = ve_now E
                  in (case CreateResult_row (vt_db v1)
                        \<lparr>rr_ResultID = resultID, rr_OwnerID = ownerID, rr_MachineID = machineID, rr_IdempotencyKey = key, rr_RequestHash = h,
                         rr_Status = ''open'', rr_ManifestJSON = [], rr_Revision = 1, rr_ErrorCode = [], rr_ErrorMessage = [],
                         rr_CreatedAt = unix now, rr_CommittedAt = None, rr_ExpiresAt = unix (now + resultRetention)\<rparr> of
                        (Inl e, _) \<Rightarrow>
                          (let v2 = ve_others E 1 v1
                           in case LookupResult_row (vt_db v2) ownerID key of
                                Inr existing \<Rightarrow> (known_result existing machineID h, v2)
                              | Inl _ \<Rightarrow> (Inl e, v2))
                      | (Inr rec, d) \<Rightarrow> (Inr (resultCreateResult rec), set_db v1 d))))"

section \<open>Pages\<close>

definition answer_of :: "vault \<Rightarrow> (hub_error + result_row) \<times> artifact_db \<Rightarrow> (hub_error + result_answer) \<times> vault" where
  "answer_of v r = (case r of (Inl e, d) \<Rightarrow> (Inl e, set_db v d) | (Inr rec, d) \<Rightarrow> (Inr (resultCreateResult rec), set_db v d))"

definition AttachResultPage ::
    "vault_env \<Rightarrow> vault \<Rightarrow> string \<Rightarrow> string \<Rightarrow> string \<Rightarrow> int \<Rightarrow> string \<Rightarrow> int \<Rightarrow> (hub_error + result_answer) \<times> vault" where
  "AttachResultPage E v ownerID machineID resultID pageNo artifactID expectedRevision =
     (if pageNo < 0 \<or> 1000000 < pageNo \<or> trim_space resultID = [] \<or> trim_space artifactID = [] \<or> expectedRevision < 1 then (Inl ErrConflict, v)
      else case GetResult (vt_db v) ownerID resultID of
        Inl e \<Rightarrow> (Inl e, v)
      | Inr result \<Rightarrow>
      if rr_MachineID result \<noteq> machineID then (Inl ErrUnauthorized, v)
      else let v1 = ve_others E 0 v in (case GetArtifactByMachine (vt_db v1) machineID artifactID of
        Inl e \<Rightarrow> (Inl e, v1)
      | Inr a \<Rightarrow>
      if ar_OwnerID a \<noteq> ownerID \<or> ar_Status a \<noteq> ''complete'' \<or> coalesce (ar_StorageKey a) = [] \<or> MaxResultPageBytes < ar_SizeBytes a
         \<or> \<not> ve_now E < from_unix (ar_ExpiresAt a) then (Inl ErrConflict, v1)
      else let v2 = ve_others E 1 v1 in
      if MaxResultBytes < ResultPageBytes (vt_db v2) ownerID resultID + ar_SizeBytes a then (Inl ErrResourceLimit, v2)
      else let v3 = ve_others E 2 v2 in
        answer_of v3 (AttachResultPage_row (vt_db v3) ownerID resultID pageNo artifactID expectedRevision (ve_now E))))"

section \<open>Manifests\<close>

text \<open>No key of the manifest is \<open>artifactId\<close> in any case, white space around it aside; a repeated key of an object
  counts with its last value. (The letters of the word have no case variants beyond ASCII.)\<close>

definition artifact_key :: "string \<Rightarrow> bool" where
  "artifact_key k = (map lower_byte (trim_space k) = ''artifactid'')"

fun containsArtifactID :: "jtext \<Rightarrow> bool"
  and contains_elems :: "jtext list \<Rightarrow> bool"
  and contains_members :: "(string \<times> jtext) list \<Rightarrow> bool" where
  "containsArtifactID (TObj ms) = contains_members ms"
| "containsArtifactID (TArr vs) = contains_elems vs"
| "containsArtifactID _ = False"
| "contains_elems [] = False"
| "contains_elems (v # vs) = (containsArtifactID v \<or> contains_elems vs)"
| "contains_members [] = False"
| "contains_members ((k, v) # ms) = (artifact_key k \<or> k \<notin> fst ` set ms \<and> containsArtifactID v \<or> contains_members ms)"

text \<open>The decoder gives up beyond 10000 nested values.\<close>

fun nesting :: "jtext \<Rightarrow> nat"
  and nesting_elems :: "jtext list \<Rightarrow> nat"
  and nesting_members :: "(string \<times> jtext) list \<Rightarrow> nat" where
  "nesting (TObj ms) = Suc (nesting_members ms)"
| "nesting (TArr vs) = Suc (nesting_elems vs)"
| "nesting _ = 0"
| "nesting_elems [] = 0"
| "nesting_elems (v # vs) = max (nesting v) (nesting_elems vs)"
| "nesting_members [] = 0"
| "nesting_members ((_, v) # ms) = max (nesting v) (nesting_members ms)"

definition validateResultManifest :: "string \<Rightarrow> bool" where
  "validateResultManifest raw =
     (raw \<noteq> [] \<and> int (length raw) \<le> MaxResultManifestBytes
      \<and> (case parse_json raw of
           Some (TObj ms) \<Rightarrow> nesting (TObj ms) \<le> 10000 \<and> \<not> containsArtifactID (TObj ms)
         | _ \<Rightarrow> False))"

definition CommitResult :: "vault_env \<Rightarrow> vault \<Rightarrow> string \<Rightarrow> string \<Rightarrow> string \<Rightarrow> string \<Rightarrow> int \<Rightarrow> (hub_error + result_answer) \<times> vault" where
  "CommitResult E v ownerID machineID resultID manifest expectedRevision =
     (if expectedRevision < 1 \<or> \<not> validateResultManifest manifest then (Inl ErrConflict, v)
      else case GetResult (vt_db v) ownerID resultID of
        Inl e \<Rightarrow> (Inl e, v)
      | Inr result \<Rightarrow>
      if rr_MachineID result \<noteq> machineID then (Inl ErrUnauthorized, v)
      else let v1 = ve_others E 0 v in
        answer_of v1 (CommitResult_row (vt_db v1) ownerID resultID manifest expectedRevision (ve_now E)))"

section \<open>Aborting and failing\<close>

definition transitionResult ::
    "vault_env \<Rightarrow> vault \<Rightarrow> string \<Rightarrow> string \<Rightarrow> string \<Rightarrow> int \<Rightarrow> string \<Rightarrow> string \<Rightarrow> string \<Rightarrow> (hub_error + result_answer) \<times> vault" where
  "transitionResult E v ownerID machineID resultID expectedRevision action code message =
     (if expectedRevision < 1 \<or> trim_space resultID = [] then (Inl ErrConflict, v)
      else case GetResult (vt_db v) ownerID resultID of
        Inl e \<Rightarrow> (Inl e, v)
      | Inr result \<Rightarrow>
      if rr_MachineID result \<noteq> machineID then (Inl ErrUnauthorized, v)
      else let v1 = ve_others E 0 v in
        answer_of v1 (if action = ''abort'' then AbortResult_row (vt_db v1) ownerID resultID expectedRevision (ve_now E)
                      else FailResult_row (vt_db v1) ownerID resultID code message expectedRevision (ve_now E)))"

definition AbortResult :: "vault_env \<Rightarrow> vault \<Rightarrow> string \<Rightarrow> string \<Rightarrow> string \<Rightarrow> int \<Rightarrow> (hub_error + result_answer) \<times> vault" where
  "AbortResult E v ownerID machineID resultID expectedRevision = transitionResult E v ownerID machineID resultID expectedRevision ''abort'' [] []"

definition FailResult ::
    "vault_env \<Rightarrow> vault \<Rightarrow> string \<Rightarrow> string \<Rightarrow> string \<Rightarrow> string \<Rightarrow> string \<Rightarrow> int \<Rightarrow> (hub_error + result_answer) \<times> vault" where
  "FailResult E v ownerID machineID resultID code message expectedRevision =
     (let c = trim_space code; m = trim_space message
      in if expectedRevision < 1 \<or> c = [] \<or> 64 < length c \<or> 512 < length m then (Inl ErrConflict, v)
         else transitionResult E v ownerID machineID resultID expectedRevision ''fail'' c m)"

section \<open>Reading\<close>

definition GetResultManifest :: "vault_env \<Rightarrow> vault \<Rightarrow> string \<Rightarrow> string \<Rightarrow> hub_error + result_row" where
  "GetResultManifest E v ownerID resultID =
     (case GetResult (vt_db v) ownerID resultID of
        Inl e \<Rightarrow> Inl e
      | Inr r \<Rightarrow> if \<not> ve_now E < from_unix (rr_ExpiresAt r) then Inl ErrNotFound else Inr r)"

definition LookupResult :: "vault \<Rightarrow> string \<Rightarrow> string \<Rightarrow> string \<Rightarrow> hub_error + result_row" where
  "LookupResult v ownerID idempotencyKey requestHash =
     (case LookupResult_row (vt_db v) ownerID (trim_space idempotencyKey) of
        Inl e \<Rightarrow> Inl e
      | Inr r \<Rightarrow> if requestHash \<noteq> [] \<and> rr_RequestHash r \<noteq> trim_space requestHash then Inl ErrConflict else Inr r)"

definition ReadResultPage :: "vault_env \<Rightarrow> vault \<Rightarrow> string \<Rightarrow> string \<Rightarrow> int \<Rightarrow> hub_error + page_row \<times> artifact_row \<times> string" where
  "ReadResultPage E v ownerID resultID pageNo =
     (case GetResultPage (vt_db v) ownerID resultID pageNo (ve_now E) of
        Inl e \<Rightarrow> Inl e
      | Inr (p, a) \<Rightarrow>
          (case OpenArtifact E (ve_others E 1 v) ownerID (pg_ArtifactID p) of Inl e \<Rightarrow> Inl e | Inr (_, c) \<Rightarrow> Inr (p, a, c)))"

end
