(* ===== verification/Json_Total.thy ===== *)
theory Json_Total
  imports Json_Text
begin

text \<open>
  The reader of JSON texts returns on every text: each nested call consumes at least one character, or leaves the text to a call
  that does, so that twice the length of the text and two more is as good as any larger fuel.
\<close>

section \<open>What is left is shorter\<close>

lemma skip_le: "length (skip s) \<le> length s"
  by (simp add: skip_def length_dropWhile_le)

lemma skip_Cons_less: "skip s = c # t \<Longrightarrow> length t < length s"
  using skip_le [of s] by simp

lemma literal_less: "word \<noteq> [] \<Longrightarrow> literal word v s = Some (x, r) \<Longrightarrow> length r < length s"
  by (cases s) (auto simp: literal_def split: if_splits)

lemma cons_text_SomeD: "cons_text t x = Some (v, r) \<Longrightarrow> \<exists>u. x = Some (u, r)"
  by (auto simp: cons_text_def split: option.splits)

lemma parse_string_step:
  assumes "parse_string (c # t) = Some (v, r)"
  shows "r = t \<or> (\<exists>k u. parse_string (drop k t) = Some (u, r))"
proof (cases "c = CHR 0x5C")
  case True
  note a = assms [unfolded parse_string.simps(2)]
  from a True obtain e w where t: "t = e # w" by (cases t) auto
  have "(\<exists>u. parse_string (drop 10 w) = Some (u, r)) \<or> (\<exists>u. parse_string (drop 4 w) = Some (u, r)) \<or> (\<exists>u. parse_string (drop 0 w) = Some (u, r))"
    using a True t by (simp split: if_splits option.splits) (blast dest: cons_text_SomeD)+
  then have "\<exists>k u. parse_string (drop k w) = Some (u, r)" by blast
  then obtain k u where "parse_string (drop (Suc k) t) = Some (u, r)" using t by auto
  then show ?thesis by blast
next
  case False
  show ?thesis
  proof (cases "c = CHR 0x22 \<or> utf8_lead (c # t) = 0 \<or> (of_char c :: nat) < 128")
    case True
    have "r = t \<or> (\<exists>u. parse_string (drop 0 t) = Some (u, r))"
      using assms False True unfolding parse_string.simps(2) by (simp split: if_splits) (blast dest: cons_text_SomeD)+
    then show ?thesis by blast
  next
    case wide: False
    then have "drop (utf8_lead (c # t)) (c # t) = drop (utf8_lead (c # t) - 1) t" by (cases "utf8_lead (c # t)") simp_all
    then have "\<exists>u. parse_string (drop (utf8_lead (c # t) - 1) t) = Some (u, r)"
      using assms False wide unfolding parse_string.simps(2) by (simp split: if_splits) (blast dest: cons_text_SomeD)
    then show ?thesis by blast
  qed
qed

lemma parse_string_less: "parse_string s = Some (v, r) \<Longrightarrow> length r < length s"
proof (induction "length s" arbitrary: s v rule: less_induct)
  case less
  show ?case
  proof (cases s)
    case Nil then show ?thesis using less.prems by (simp add: parse_string.simps)
  next
    case (Cons c t)
    from parse_string_step [of c t v r] less.prems consider "r = t" | k u where "parse_string (drop k t) = Some (u, r)" unfolding Cons by blast
    then show ?thesis
    proof cases
      case 2
      then have "length r < length (drop k t)" using less.hyps [of "drop k t" u] by (simp add: Cons)
      then show ?thesis by (simp add: Cons)
    qed (simp add: Cons)
  qed
qed

lemma take_digits_le: "take_digits s = (ds, r) \<Longrightarrow> length r \<le> length s"
  by (auto simp: take_digits_def length_dropWhile_le)

lemma parse_fraction_le: "parse_fraction s = Some (f, r) \<Longrightarrow> length r \<le> length s"
  by (cases s) (auto simp: parse_fraction_def dest: take_digits_le split: if_splits prod.splits)

lemma parse_exponent_le:
  assumes "parse_exponent s = Some (f, r)" shows "length r \<le> length s"
proof (cases s)
  case (Cons c t)
  have "length r \<le> length t \<or> r = s"
    using assms by (auto simp: parse_exponent_def Cons Let_def dest!: take_digits_le split: if_splits prod.splits list.splits)
  then show ?thesis by (auto simp: Cons)
qed (use assms in \<open>simp add: parse_exponent_def\<close>)

lemma parse_number_less:
  assumes "parse_number s = Some (v, r)" shows "length r < length s"
proof -
  define t where "t = drop (length (case s of c # _ \<Rightarrow> if c = CHR ''-'' then [c] else [] | [] \<Rightarrow> [])) s"
  obtain c u where t: "t = c # u" using assms by (cases t) (simp_all add: parse_number_def Let_def flip: t_def)
  obtain ds r1 f r2 e where d: "(if c = CHR ''0'' then ([c], u) else take_digits t) = (ds, r1)" "digit c"
      "parse_fraction r1 = Some (f, r2)" "parse_exponent r2 = Some (e, r)"
    using assms t by (auto simp: parse_number_def Let_def simp flip: t_def split: if_splits prod.splits option.splits)
  have "length r1 \<le> length u" using d(1,2) t by (auto simp: take_digits_def length_dropWhile_le split: if_splits)
  moreover have "length t \<le> length s" by (simp add: t_def)
  ultimately show ?thesis using parse_fraction_le [OF d(3)] parse_exponent_le [OF d(4)] t by simp
qed

definition consumes :: "(string \<Rightarrow> ('a \<times> string) option) \<Rightarrow> bool" where
  "consumes f = (\<forall>s x r. f s = Some (x, r) \<longrightarrow> length r < length s)"

lemma consumesD: "consumes f \<Longrightarrow> f s = Some (x, r) \<Longrightarrow> length r < length s"
  unfolding consumes_def by blast

lemma value_consumes:
  assumes "consumes (parse_elems k)" "consumes (parse_members k)" shows "consumes (parse_value (Suc k))"
  unfolding consumes_def
proof (intro allI impI)
  fix s x r assume p: "parse_value (Suc k) s = Some (x, r)"
  obtain c t where sk: "skip s = c # t" using p by (cases "skip s") auto
  have l: "length (skip t) \<le> length t" "Suc (length t) \<le> length s" using skip_le [of s] skip_le [of t] sk by simp_all
  have "length r < length t \<or> length r < Suc (length t) \<or> length r < length (skip t) \<or> (\<exists>d. skip t = d # r)"
    using p sk
    by (auto split: if_splits list.splits dest!: parse_string_less parse_number_less literal_less [rotated] consumesD [OF assms(1)] consumesD [OF assms(2)])
  then show "length r < length s" using l by (auto dest: arg_cong [of _ _ length])
qed

lemma elems_consumes:
  assumes "consumes (parse_value k)" "consumes (parse_elems k)" shows "consumes (parse_elems (Suc k))"
  unfolding consumes_def
proof (intro allI impI)
  fix s x r assume p: "parse_elems (Suc k) s = Some (x, r)"
  obtain v r1 where v: "parse_value k s = Some (v, r1)" using p by (cases "parse_value k s") auto
  obtain c t where sk: "skip r1 = c # t" using p v by (cases "skip r1") auto
  have l: "length r1 < length s" "length t < length r1" using consumesD [OF assms(1) v] skip_Cons_less [OF sk] by simp_all
  have "r = t \<or> length r < length t"
    using p v sk by (auto split: if_splits dest!: consumesD [OF assms(2)])
  then show "length r < length s" using l by auto
qed

lemma members_consumes:
  assumes "consumes (parse_value k)" "consumes (parse_members k)" shows "consumes (parse_members (Suc k))"
  unfolding consumes_def
proof (intro allI impI)
  fix s x r assume p: "parse_members (Suc k) s = Some (x, r)"
  obtain q t where 1: "skip s = q # t" using p by (cases "skip s") auto
  obtain name r1 where 2: "parse_string t = Some (name, r1)" using p 1 by (cases "parse_string t") (auto split: if_splits)
  obtain c t2 where 3: "skip r1 = c # t2" using p 1 2 by (cases "skip r1") (auto split: if_splits)
  obtain v r2 where 4: "parse_value k t2 = Some (v, r2)" using p 1 2 3 by (cases "parse_value k t2") (auto split: if_splits)
  obtain d t3 where 5: "skip r2 = d # t3" using p 1 2 3 4 by (cases "skip r2") (auto split: if_splits)
  have l: "length t3 < length s"
    using skip_Cons_less [OF 1] parse_string_less [OF 2] skip_Cons_less [OF 3] consumesD [OF assms(1) 4] skip_Cons_less [OF 5] by simp
  have "r = t3 \<or> length r < length t3"
    using p 1 2 3 4 5 by (auto split: if_splits dest!: consumesD [OF assms(2)])
  then show "length r < length s" using l by auto
qed

lemma parse_consumes: "consumes (parse_value k) \<and> consumes (parse_elems k) \<and> consumes (parse_members k)"
proof (induction k)
  case 0 show ?case by (simp add: consumes_def)
next
  case (Suc k) then show ?case by (simp only: value_consumes elems_consumes members_consumes simp_thms)
qed

lemma parse_value_less: "parse_value k s = Some (x, r) \<Longrightarrow> length r < length s"
  using parse_consumes [of k] consumesD [of "parse_value k"] by blast

section \<open>More fuel changes nothing\<close>

text \<open>The fuel that is enough for a text of \<open>n\<close> characters.\<close>

definition enough_value :: "nat \<Rightarrow> nat" where "enough_value n = 2 * n + 1"
definition enough_elems :: "nat \<Rightarrow> nat" where "enough_elems n = 2 * n + 2"

definition settles :: "nat \<Rightarrow> bool" where
  "settles n = (\<forall>s j k. length s \<le> n \<longrightarrow>
     (enough_value n \<le> j \<longrightarrow> enough_value n \<le> k \<longrightarrow> parse_value j s = parse_value k s)
     \<and> (enough_elems n \<le> j \<longrightarrow> enough_elems n \<le> k \<longrightarrow> parse_elems j s = parse_elems k s)
     \<and> (enough_elems n \<le> j \<longrightarrow> enough_elems n \<le> k \<longrightarrow> parse_members j s = parse_members k s))"

lemma settlesD:
  assumes "settles n" "length s \<le> n"
  shows "2 * n + 1 \<le> j \<Longrightarrow> 2 * n + 1 \<le> k \<Longrightarrow> parse_value j s = parse_value k s"
    "2 * n + 2 \<le> j \<Longrightarrow> 2 * n + 2 \<le> k \<Longrightarrow> parse_elems j s = parse_elems k s"
    "2 * n + 2 \<le> j \<Longrightarrow> 2 * n + 2 \<le> k \<Longrightarrow> parse_members j s = parse_members k s"
  using assms unfolding settles_def enough_value_def enough_elems_def by blast+

lemma value_settles:
  assumes n: "settles n" and s: "length s \<le> Suc n" and j: "2 * n + 2 \<le> j" "2 * n + 2 \<le> k"
  shows "parse_value (Suc j) s = parse_value (Suc k) s"
proof (cases "skip s")
  case (Cons c t)
  have l: "length (skip t) \<le> n" using skip_le [of t] skip_Cons_less [OF Cons] s by simp
  show ?thesis
  proof (cases "skip t")
    case t: (Cons d u)
    then have "parse_elems j (d # u) = parse_elems k (d # u)" "parse_members j (d # u) = parse_members k (d # u)"
      using settlesD(2,3) [OF n _ j, of "d # u"] l by simp_all
    then show ?thesis by (simp add: Cons t)
  qed (simp add: Cons)
qed simp

lemma elems_settles:
  assumes n: "settles n" and s: "length s \<le> Suc n" and j: "2 * n + 3 \<le> j" "2 * n + 3 \<le> k"
  shows "parse_elems (Suc j) s = parse_elems (Suc k) s"
proof -
  obtain j' k' where jk: "j = Suc j'" "k = Suc k'" using j by (cases j; cases k) auto
  have "parse_value j s = parse_value k s" unfolding jk by (rule value_settles [OF n s]) (use j jk in simp_all)
  moreover have "parse_elems j t = parse_elems k t" if "parse_value k s = Some (v, r)" "skip r = c # t" for v r c t
  proof (rule settlesD(2) [OF n])
    show "length t \<le> n" using parse_value_less [OF that(1)] skip_Cons_less [OF that(2)] s by simp
  qed (use j in simp_all)
  ultimately show ?thesis by (simp split: option.split list.split)
qed

lemma members_settles:
  assumes n: "settles n" and s: "length s \<le> Suc n" and j: "2 * n + 3 \<le> j" "2 * n + 3 \<le> k"
  shows "parse_members (Suc j) s = parse_members (Suc k) s"
proof -
  have v: "parse_value j t2 = parse_value k t2" if "skip s = q # t" "parse_string t = Some (name, r)" "skip r = c # t2" for q t name r c t2
  proof (rule settlesD(1) [OF n])
    show "length t2 \<le> n" using skip_Cons_less [OF that(1)] parse_string_less [OF that(2)] skip_Cons_less [OF that(3)] s by simp
  qed (use j in simp_all)
  have m: "parse_members j t3 = parse_members k t3"
    if "skip s = q # t" "parse_string t = Some (name, r)" "skip r = c # t2" "parse_value k t2 = Some (x, r2)" "skip r2 = d # t3"
    for q t name r c t2 x r2 d t3
  proof (rule settlesD(3) [OF n])
    have "length r2 < length t2" by (rule parse_value_less [OF that(4)])
    then show "length t3 \<le> n"
      using skip_Cons_less [OF that(1)] parse_string_less [OF that(2)] skip_Cons_less [OF that(3)] skip_Cons_less [OF that(5)] s by simp
  qed (use j in simp_all)
  show ?thesis using v m by (simp split: option.split list.split)
qed

lemma settles_all: "settles n"
proof (induction n)
  case 0
  have s: "skip [] = []" by (simp add: skip_def)
  have "parse_value j [] = None" for j by (cases j) (simp_all add: s)
  moreover have "parse_elems j [] = None" for j by (cases j) (simp_all add: calculation)
  moreover have "parse_members j [] = None" for j by (cases j) (simp_all add: s)
  ultimately show ?case by (simp add: settles_def)
next
  case (Suc n)
  show ?case unfolding settles_def
  proof (intro allI impI conjI)
    fix s :: string and j k :: nat assume s: "length s \<le> Suc n"
    show "parse_value j s = parse_value k s" if "enough_value (Suc n) \<le> j" "enough_value (Suc n) \<le> k"
      using value_settles [OF Suc.IH s, of "j - 1" "k - 1"] that by (simp add: enough_value_def)
    show "parse_elems j s = parse_elems k s" if "enough_elems (Suc n) \<le> j" "enough_elems (Suc n) \<le> k"
      using elems_settles [OF Suc.IH s, of "j - 1" "k - 1"] that by (simp add: enough_elems_def)
    show "parse_members j s = parse_members k s" if "enough_elems (Suc n) \<le> j" "enough_elems (Suc n) \<le> k"
      using members_settles [OF Suc.IH s, of "j - 1" "k - 1"] that by (simp add: enough_elems_def)
  qed
qed

lemma parse_json_total:
  "parse_json s = (case parse_value (2 * length s + 2 + k) s of Some (v, r) \<Rightarrow> if skip r = [] then Some v else None | None \<Rightarrow> None)"
proof -
  have "parse_value (2 * length s + 2) s = parse_value (2 * length s + 2 + k) s"
    by (rule settlesD(1) [OF settles_all order_refl]) simp_all
  then show ?thesis by (simp add: parse_json_def)
qed

end
