(* ===== verification/Result_Props.thy ===== *)
theory Result_Props
  imports Artifact_Props Result_Service Json_Total
begin

text \<open>What holds of results: a settled one is final, an idempotency key opens one result, the pages stay within the limit, and the pages of
  a ready result can be read with the bytes of their artifacts.\<close>

text \<open>Property C30: a result that is ready, aborted or failed is final: whatever statements follow, its row stays as it is and the
  only one under its identifier, and it keeps exactly its pages.\<close>

theorem settled_result_final:
  assumes "wf_results w" "r \<in> set (af_results w)" "rr_Status r \<noteq> ''open''"
  shows "{x \<in> set (af_results (exec_all exec_result ss w)). rr_ResultID x = rr_ResultID r} = {r}
    \<and> filter (\<lambda>p. pg_ResultID p = rr_ResultID r) (af_pages (exec_all exec_result ss w)) = filter (\<lambda>p. pg_ResultID p = rr_ResultID r) (af_pages w)"
proof -
  have "settled_row w r (filter (\<lambda>p. pg_ResultID p = rr_ResultID r) (af_pages w))" using assms(2,3) by (simp add: settled_row_def)
  from settled_run [OF assms(1) this, of ss] exec_result_wf [OF assms(1), of ss] show ?thesis
    by (auto simp: settled_row_def wf_results_def dest: distinct_key_unique)
qed

section \<open>Opening\<close>

definition only_statements :: "vault_env \<Rightarrow> bool" where
  "only_statements E = (\<forall>i v. \<exists>ss. vt_db (ve_others E i v) = exec_all exec_result ss (vt_db v))"

lemma lookup_key:
  assumes "wf_results w" "r \<in> set (af_results w)"
  shows "LookupResult_row w (rr_OwnerID r) (rr_IdempotencyKey r) = Inr r"
proof -
  have d: "distinct (map (\<lambda>r. (rr_OwnerID r, rr_IdempotencyKey r)) (af_results w))" using assms(1) by (simp add: wf_results_def)
  have "find (\<lambda>x. rr_OwnerID x = rr_OwnerID r \<and> rr_IdempotencyKey x = rr_IdempotencyKey r) (af_results w) = Some r"
    using assms(2) distinct_key_unique [OF d _ assms(2)] by (intro find_unique) auto
  then show ?thesis by (simp add: LookupResult_row_def)
qed

lemma lookup_in: "LookupResult_row w ow k = Inr r \<Longrightarrow> r \<in> set (af_results w) \<and> rr_OwnerID r = ow \<and> rr_IdempotencyKey r = k"
  by (auto simp: LookupResult_row_def dest: find_in split: option.splits)

lemma CreateResult_row_ok:
  assumes "CreateResult_row w rec = (Inr r, d)" shows "r \<in> set (af_results d) \<and> rr_ResultID r = rr_ResultID rec \<and> rr_OwnerID r = rr_OwnerID rec
    \<and> rr_MachineID r = rr_MachineID rec \<and> rr_IdempotencyKey r = rr_IdempotencyKey rec \<and> rr_RequestHash r = rr_RequestHash rec
    \<and> d = exec_result (R_Create rec) w"
proof -
  have "\<forall>x \<in> set (af_results w). rr_ResultID x \<noteq> rr_ResultID rec"
    using assms by (auto simp: CreateResult_row_def Let_def list_ex_iff split: option.splits if_splits)
  then have n: "find (\<lambda>x. rr_ResultID x = rr_ResultID rec \<and> rr_OwnerID x = rr_OwnerID rec) (af_results w) = None" by (auto simp: find_None_iff)
  show ?thesis using assms n
    by (auto simp: CreateResult_row_def GetResult_def Let_def find_snoc split: option.splits if_splits)
qed

text \<open>What an accepted request leaves: a row of the owner, key, hash and machine, with the identifier of the answer.\<close>

lemma CreateResult_row_left:
  assumes c: "CreateResult E v ow m k h = (Inr rn, v1)" and wf: "wf_results (vt_db v)" and E: "only_statements E"
  shows "wf_results (vt_db v1) \<and> (\<exists>r \<in> set (af_results (vt_db v1)). rr_ResultID r = rn_ResultID rn \<and> rr_OwnerID r = ow \<and> rr_MachineID r = m
    \<and> rr_IdempotencyKey r = trim_space k \<and> rr_RequestHash r = trim_space h)"
proof -
  let ?key = "trim_space k" and ?h = "trim_space h"
  have known: "rr_MachineID r = m \<and> rr_RequestHash r = ?h \<and> rn_ResultID rn = rr_ResultID r" if "known_result r m ?h = Inr rn" for r
    using that by (auto simp: known_result_def resultCreateResult_def split: if_splits)
  have ok: "\<not> (length ?key < 12 \<or> 128 < length ?key \<or> length ?h < 1 \<or> 128 < length ?h)"
    using c by (auto simp: CreateResult_def Let_def split: if_splits)
  show ?thesis
  proof (cases "LookupResult_row (vt_db v) ow ?key")
    case (Inr r)
    then have "known_result r m ?h = Inr rn" "v1 = v" using c ok by (auto simp: CreateResult_def Let_def)
    then show ?thesis using known [of r] lookup_in [OF Inr] wf by auto
  next
    case (Inl e)
    let ?v0 = "ve_others E 0 v"
    have wf0: "wf_results (vt_db ?v0)" using E wf exec_result_wf by (metis only_statements_def)
    obtain rid where rid: "ve_random E ''res_'' = Some rid" using c ok Inl by (auto simp: CreateResult_def Let_def split: option.splits)
    let ?rec = "\<lparr>rr_ResultID = rid, rr_OwnerID = ow, rr_MachineID = m, rr_IdempotencyKey = ?key, rr_RequestHash = ?h,
       rr_Status = ''open'', rr_ManifestJSON = [], rr_Revision = 1, rr_ErrorCode = [], rr_ErrorMessage = [],
       rr_CreatedAt = unix (ve_now E), rr_CommittedAt = None, rr_ExpiresAt = unix (ve_now E + resultRetention)\<rparr>"
    obtain rr d where rd: "CreateResult_row (vt_db ?v0) ?rec = (rr, d)" by fastforce
    show ?thesis
    proof (cases rr)
      case (Inr r)
      then have "v1 = set_db ?v0 d" "rn = resultCreateResult r" using c ok Inl rid rd by (auto simp: CreateResult_def Let_def)
      moreover have "CreateResult_row (vt_db ?v0) ?rec = (Inr r, d)" using rd Inr by simp
      then have d: "d = exec_result (R_Create ?rec) (vt_db ?v0)" using CreateResult_row_ok by blast
      have "wf_results d" unfolding d by (rule result_moves_wf [OF wf0 exec_result_moves])
      ultimately show ?thesis using CreateResult_row_ok [of "vt_db ?v0" ?rec r d] rd Inr
        by (auto simp: resultCreateResult_def set_db_def)
    next
      case fail: (Inl e')
      let ?v2 = "ve_others E 1 ?v0"
      obtain r where r: "LookupResult_row (vt_db ?v2) ow ?key = Inr r" "known_result r m ?h = Inr rn" "v1 = ?v2"
        using c ok Inl rid rd fail by (auto simp: CreateResult_def Let_def split: sum.splits)
      have "wf_results (vt_db ?v2)" using E wf0 exec_result_wf by (metis only_statements_def)
      then show ?thesis using known [OF r(2)] lookup_in [OF r(1)] r(3) by auto
    qed
  qed
qed

text \<open>Property C31: opening a result is idempotent: when a request was accepted, the same request of the same machine is accepted again
  after any statements, changes nothing, and names the same result.\<close>

theorem create_result_once:
  assumes "CreateResult E v ow m k h = (Inr rn, v1)" "wf_results (vt_db v)" "only_statements E"
    and "vt_db v2 = exec_all exec_result ss (vt_db v1)"
  shows "\<exists>rn2. CreateResult E2 v2 ow m k h = (Inr rn2, v2) \<and> rn_ResultID rn2 = rn_ResultID rn"
proof -
  have len: "\<not> (length (trim_space k) < 12 \<or> 128 < length (trim_space k) \<or> length (trim_space h) < 1 \<or> 128 < length (trim_space h))"
    using assms(1) by (auto simp: CreateResult_def Let_def split: if_splits)
  obtain r where r: "r \<in> set (af_results (vt_db v1))" "rr_ResultID r = rn_ResultID rn" "rr_OwnerID r = ow" "rr_MachineID r = m"
      "rr_IdempotencyKey r = trim_space k" "rr_RequestHash r = trim_space h" and wf: "wf_results (vt_db v1)"
    using CreateResult_row_left [OF assms(1-3)] by blast
  obtain r2 where r2: "r2 \<in> set (af_results (vt_db v2))" "rr_ResultID r2 = rn_ResultID rn" "rr_OwnerID r2 = ow" "rr_MachineID r2 = m"
      "rr_IdempotencyKey r2 = trim_space k" "rr_RequestHash r2 = trim_space h"
    using result_stays_run [OF r(1), of ss] r assms(4) by auto
  have "LookupResult_row (vt_db v2) ow (trim_space k) = Inr r2"
    using lookup_key [OF _ r2(1)] exec_result_wf [OF wf, of ss] r2 assms(4) by simp
  then show ?thesis using r2 len by (simp add: CreateResult_def Let_def known_result_def resultCreateResult_def)
qed

section \<open>Pages\<close>

text \<open>a page that is attached while no other request runs is in the table with its artifact, and the artifacts of
  all pages of the result together have at most one hundred mebibytes.\<close>

theorem attach_within_limit:
  assumes at: "AttachResultPage E v ow m k n a expected = (Inr rn, v')" and alone: "\<forall>i w. ve_others E i w = w"
    and d: "distinct (map ar_ID (af_artifacts (vt_db v)))"
  shows "ResultPageBytes (vt_db v') ow k \<le> MaxResultBytes
    \<and> (\<exists>p \<in> set (af_pages (vt_db v')). pg_ResultID p = k \<and> pg_PageNo p = n \<and> pg_ArtifactID p = a)"
proof -
  obtain x where x: "GetArtifactByMachine (vt_db v) m a = Inr x" "ResultPageBytes (vt_db v) ow k + ar_SizeBytes x \<le> MaxResultBytes"
      "answer_of v (AttachResultPage_row (vt_db v) ow k n a expected (ve_now E)) = (Inr rn, v')"
    using at alone by (auto simp: AttachResultPage_def Let_def split: if_splits sum.splits)
  show ?thesis
  proof (cases rule: AttachResultPage_cases [of "vt_db v" ow k n a expected "ve_now E"])
    case (1 e) then show ?thesis using x(3) by (simp add: answer_of_def)
  next
    case (2 r b t)
    let ?p = "\<lparr>pg_ResultID = k, pg_PageNo = n, pg_OwnerID = ow, pg_ArtifactID = a, pg_CreatedAt = unix (ve_now E)\<rparr>"
    have v': "vt_db v' = (vt_db v)\<lparr>af_pages := af_pages (vt_db v) @ [?p], af_results := t\<rparr>"
      using x(3) 2(11) by (auto simp: answer_of_def set_db_def split: sum.splits)
    have "x \<in> set (af_artifacts (vt_db v))" "ar_ID x = a"
      using x(1) by (auto simp: GetArtifactByMachine_def getArtifact_def dest: find_in split: option.splits)
    then have "b = x" using find_in [OF 2(6)] distinct_key_unique [OF d, of b x] by simp
    then have "page_size (vt_db v') ?p = ar_SizeBytes x" using 2(6) by (simp add: page_size_def v')
    moreover have "page_size (vt_db v') = page_size (vt_db v)" by (simp add: page_size_def v' fun_eq_iff)
    ultimately show ?thesis using x(2) by (simp add: ResultPageBytes_def v')
  qed
qed

text \<open>in every state uploads and maintenance can reach, whatever the tables of results hold, a page of a ready
  result that has not expired can be read by its owner as long as its artifact has not expired: the bytes have the recorded size and
  SHA-256.\<close>

theorem ready_page_reads:
  assumes run: "yard_run E (new_yard i) s" and E: "clean_env E"
    and p: "p \<in> set (af_pages (vt_db (yd_vault s)))" "distinct (map (\<lambda>p. (pg_ResultID p, pg_PageNo p)) (af_pages (vt_db (yd_vault s))))"
    and r: "r \<in> set (af_results (vt_db (yd_vault s)))" "rr_ResultID r = pg_ResultID p" "rr_Status r = ''ready''" "unix (ve_now E) < rr_ExpiresAt r"
    and a: "a \<in> set (af_artifacts (vt_db (yd_vault s)))" "ar_ID a = pg_ArtifactID p" "ar_OwnerID a = pg_OwnerID p" "ar_Status a = ''complete''"
      "ve_now E < from_unix (ar_ExpiresAt a)" "unix (ve_now E) < ar_ExpiresAt a"
  shows "\<exists>c. ReadResultPage E (yd_vault s) (pg_OwnerID p) (pg_ResultID p) (pg_PageNo p) = Inr (p, a, c)
    \<and> content_sha E c = ar_SHA256 a \<and> int (length c) = ar_SizeBytes a"
proof -
  let ?w = "vt_db (yd_vault s)"
  obtain c where c: "OpenArtifact E (yd_vault s) (ar_OwnerID a) (ar_ID a) = Inr (a, c)" "content_sha E c = ar_SHA256 a" "int (length c) = ar_SizeBytes a"
    using open_complete [OF run a(1,4,5) E] by blast
  have key: "ar_StorageKey a = Some (artifactStorageKey (ar_SHA256 a))" using complete_in_state [OF run a(1,4)] by blast
  have d: "distinct (map ar_ID (af_artifacts ?w))"
    using yard_run_inv [OF run new_yard_inv] by (simp add: yard_inv_def vault_ok_def wf_artifacts_def)
  have fa: "find (\<lambda>x. ar_ID x = pg_ArtifactID p) (af_artifacts ?w) = Some a"
    using a(1,2) by (simp add: find_key_iff [OF d])
  have live: "list_ex (\<lambda>r. rr_ResultID r = pg_ResultID p \<and> rr_Status r = ''ready'' \<and> unix (ve_now E) < rr_ExpiresAt r) (af_results ?w)"
    unfolding list_ex_iff by (rule bexI [OF _ r(1)]) (simp add: r)
  have there: "list_ex (\<lambda>x. ar_ID x = pg_ArtifactID p) (af_artifacts ?w)"
    unfolding list_ex_iff by (rule bexI [OF _ a(1)]) (simp add: a)
  have "find (\<lambda>x. pg_ResultID x = pg_ResultID p \<and> pg_PageNo x = pg_PageNo p \<and> pg_OwnerID x = pg_OwnerID p
            \<and> list_ex (\<lambda>r. rr_ResultID r = pg_ResultID p \<and> rr_Status r = ''ready'' \<and> unix (ve_now E) < rr_ExpiresAt r) (af_results ?w)
            \<and> list_ex (\<lambda>a. ar_ID a = pg_ArtifactID x) (af_artifacts ?w)) (af_pages ?w) = Some p"
  proof (rule find_unique [OF p(1)])
    fix z assume "z \<in> set (af_pages ?w)" "pg_ResultID z = pg_ResultID p \<and> pg_PageNo z = pg_PageNo p \<and> pg_OwnerID z = pg_OwnerID p
            \<and> list_ex (\<lambda>r. rr_ResultID r = pg_ResultID p \<and> rr_Status r = ''ready'' \<and> unix (ve_now E) < rr_ExpiresAt r) (af_results ?w)
            \<and> list_ex (\<lambda>a. ar_ID a = pg_ArtifactID z) (af_artifacts ?w)"
    then show "z = p" using distinct_key_unique [OF p(2) _ p(1), of z] by simp
  qed (use live there in simp)
  then have "GetResultPage ?w (pg_OwnerID p) (pg_ResultID p) (pg_PageNo p) (ve_now E) = Inr (p, a)"
    using fa a key by (simp add: GetResultPage_def coalesce_def)
  then show ?thesis using c a(2,3) E by (simp add: ReadResultPage_def clean_env_def)
qed

section \<open>Manifests\<close>

text \<open>The reader of the model has a bound on nested calls, twice the length of the text and two. It is an artefact of the model and never cuts the
  check short: a reader with any larger bound gives the same answer.\<close>

lemma manifest_bound_enough:
  "validateResultManifest raw \<longleftrightarrow> raw \<noteq> [] \<and> int (length raw) \<le> 65536
    \<and> (\<exists>ms r. parse_value (2 * length raw + 2 + k) raw = Some (TObj ms, r) \<and> skip r = []
        \<and> nesting (TObj ms) \<le> 10000 \<and> \<not> containsArtifactID (TObj ms))"
  unfolding validateResultManifest_def parse_json_total [of raw k]
  by (auto simp: MaxResultManifestBytes_def split: option.splits jtext.splits)












section \<open>Examples\<close>

definition demo_result_db :: artifact_db where
  "demo_result_db = \<lparr>af_machines = [demo_machine_row], af_artifacts = [demo_artifact_row], af_uploads = [], af_deletions = [], af_results = [],
     af_pages = []\<rparr>"

definition demo_result_vault :: vault where
  "demo_result_vault = \<lparr>vt_db = demo_result_db, vt_parts = (\<lambda>_. None), vt_blobs = (\<lambda>_. None), vt_audit = []\<rparr>"

definition demo_open_vault :: vault where
  "demo_open_vault = snd (CreateResult demo_vault_env demo_result_vault ''o'' ''m'' ''key-0123456789'' ''hash'')"

definition demo_result_id :: string where "demo_result_id = ''res_'' @ replicate 32 (CHR ''a'')"

definition demo_result_answer :: result_answer where
  "demo_result_answer = \<lparr>rn_ResultID = demo_result_id, rn_Revision = 1, rn_Status = ''open'', rn_ExpiresAt = 2592000 * second\<rparr>"

lemma demo_result_created:
  "fst (CreateResult demo_vault_env demo_result_vault ''o'' ''m'' ''key-0123456789'' ''hash'') = Inr demo_result_answer"
  by code_simp

lemma demo_created_eq:
  "CreateResult demo_vault_env demo_result_vault ''o'' ''m'' ''key-0123456789'' ''hash'' = (Inr demo_result_answer, demo_open_vault)"
  using demo_result_created by (simp add: demo_open_vault_def prod_eq_iff)

lemma demo_only: "only_statements demo_vault_env"
proof -
  have "vt_db (ve_others demo_vault_env i v) = exec_all exec_result [] (vt_db v)" for i v by (simp add: demo_vault_env_def)
  then show ?thesis unfolding only_statements_def by blast
qed

lemma demo_result_wf: "wf_results (vt_db demo_result_vault)"
  by (simp add: demo_result_vault_def demo_result_db_def wf_results_def)

theorem create_result_once_witness:
  "\<exists>rn2. CreateResult demo_vault_env demo_open_vault ''o'' ''m'' ''key-0123456789'' ''hash'' = (Inr rn2, demo_open_vault)
    \<and> rn_ResultID rn2 = demo_result_id"
  using create_result_once [OF demo_created_eq demo_result_wf demo_only, of demo_open_vault "[]" demo_vault_env]
  by (simp add: demo_result_answer_def)



text \<open>A member named \<open>ArtifactID\<close> inside an array of an object is found.\<close>

lemma hidden_artifact_refused:
  "fst (CommitResult demo_vault_env demo_open_vault ''o'' ''m'' demo_result_id
     (''{'' @ [CHR 34] @ ''a'' @ [CHR 34] @ '':[{'' @ [CHR 34] @ '' ArtifactID'' @ [CHR 34] @ '':1}]}'') 1) = Inl ErrConflict"
  by code_simp

definition demo_attached :: vault where
  "demo_attached = snd (AttachResultPage demo_vault_env demo_open_vault ''o'' ''m'' demo_result_id 0 (ar_ID demo_artifact_row) 1)"

lemma demo_attach: "AttachResultPage demo_vault_env demo_open_vault ''o'' ''m'' demo_result_id 0 (ar_ID demo_artifact_row) 1
    = (Inr (demo_result_answer\<lparr>rn_Revision := 2\<rparr>), demo_attached)"
proof -
  have "fst (AttachResultPage demo_vault_env demo_open_vault ''o'' ''m'' demo_result_id 0 (ar_ID demo_artifact_row) 1)
      = Inr (demo_result_answer\<lparr>rn_Revision := 2\<rparr>)" by code_simp
  then show ?thesis by (simp add: demo_attached_def prod_eq_iff)
qed

theorem attach_within_limit_witness:
  "ResultPageBytes (vt_db demo_attached) ''o'' demo_result_id \<le> MaxResultBytes
    \<and> (\<exists>p \<in> set (af_pages (vt_db demo_attached)). pg_ResultID p = demo_result_id \<and> pg_PageNo p = 0 \<and> pg_ArtifactID p = ar_ID demo_artifact_row)"
proof (rule attach_within_limit [OF demo_attach])
  show "\<forall>i w. ve_others demo_vault_env i w = w" by (simp add: demo_vault_env_def)
  show "distinct (map ar_ID (af_artifacts (vt_db demo_open_vault)))" by code_simp
qed

text \<open>A ready result with a page, beside the artifact of \<open>demo_yard\<close>.\<close>

definition demo_ready_row :: result_row where
  "demo_ready_row = \<lparr>rr_ResultID = demo_result_id, rr_OwnerID = ''o'', rr_MachineID = ''m'', rr_IdempotencyKey = ''key-0123456789'',
     rr_RequestHash = ''hash'', rr_Status = ''ready'', rr_ManifestJSON = ''{}'', rr_Revision = 3, rr_ErrorCode = [], rr_ErrorMessage = [],
     rr_CreatedAt = 0, rr_CommittedAt = Some 0, rr_ExpiresAt = 2592000\<rparr>"

definition demo_page :: page_row where
  "demo_page = \<lparr>pg_ResultID = demo_result_id, pg_PageNo = 0, pg_OwnerID = ''o'', pg_ArtifactID = ar_ID demo_artifact_row, pg_CreatedAt = 0\<rparr>"

definition demo_ready :: artifact_db where
  "demo_ready = demo_result_db\<lparr>af_results := [demo_ready_row], af_pages := [demo_page]\<rparr>"

lemma demo_ready_tables: "af_results demo_ready = [demo_ready_row]" "af_pages demo_ready = [demo_page]"
  by (simp_all add: demo_ready_def)

definition demo_full_yard :: yard where
  "demo_full_yard = yard_step demo_vault_env (Y_Other [demo_machine_row] (af_results demo_ready) (af_pages demo_ready)) demo_yard"

theorem settled_result_final_witness:
  "{x \<in> set (af_results (exec_all exec_result [R_Fail ''o'' demo_result_id ''E'' ''late'' 3 0, R_Cleanup (3000000 * second) 9] demo_ready)).
      rr_ResultID x = demo_result_id} = {demo_ready_row}"
proof -
  have "wf_results demo_ready" by (simp add: wf_results_def demo_ready_tables demo_ready_row_def demo_page_def)
  from settled_result_final [OF this, of demo_ready_row "[R_Fail ''o'' demo_result_id ''E'' ''late'' 3 0, R_Cleanup (3000000 * second) 9]"]
  show ?thesis by (simp add: demo_ready_tables demo_ready_row_def)
qed

theorem ready_page_reads_witness:
  "\<exists>c. ReadResultPage demo_vault_env (yd_vault demo_full_yard) ''o'' demo_result_id 0 = Inr (demo_page, demo_artifact_row, c)
    \<and> length c = 2"
proof -
  have run: "yard_run demo_vault_env (new_yard 1) demo_full_yard"
    unfolding demo_full_yard_def by (rule yard_run.there) (rule demo_yard_run)
  have tables: "af_pages (vt_db (yd_vault demo_full_yard)) = [demo_page]" "af_results (vt_db (yd_vault demo_full_yard)) = [demo_ready_row]"
    "af_artifacts (vt_db (yd_vault demo_full_yard)) = [demo_artifact_row]"
    using demo_yard_state by (simp_all add: demo_full_yard_def demo_ready_tables set_db_def Let_def)
  have "\<exists>c. ReadResultPage demo_vault_env (yd_vault demo_full_yard) (pg_OwnerID demo_page) (pg_ResultID demo_page) (pg_PageNo demo_page)
      = Inr (demo_page, demo_artifact_row, c) \<and> content_sha demo_vault_env c = ar_SHA256 demo_artifact_row
      \<and> int (length c) = ar_SizeBytes demo_artifact_row"
    by (rule ready_page_reads [OF run demo_clean, where r = demo_ready_row])
      (simp_all add: tables demo_page_def demo_ready_row_def demo_artifact_row_def demo_vault_env_def from_unix_def unix_def second_def)
  moreover have "pg_OwnerID demo_page = ''o''" "pg_ResultID demo_page = demo_result_id" "pg_PageNo demo_page = 0" "ar_SizeBytes demo_artifact_row = 2"
    by (simp_all add: demo_page_def demo_artifact_row_def)
  ultimately show ?thesis by auto
qed

end
