(* ===== verification/Node_Calls.thy ===== *)
theory Node_Calls
  imports Sql_Table "HOL-Library.Multiset"
begin

text \<open>
  Calls in flight on one Node connection (\<open>Connection.Call\<close> and \<open>DeliverResponse\<close> of \<open>registry/registry.go\<close>). A call makes a channel that
  buffers one response, files it under its request identifier, writes the request and waits for the response, the loss of the connection
  or the end of its context. Any number of calls and deliveries run interleaved; a step is what one of them does under a lock or in
  one \<open>select\<close>, and the choice of a \<open>select\<close> with several ready cases is part of the step. The channel of call \<open>i\<close> is slot \<open>i\<close>.
\<close>

record 'a call_response =
  re_RequestId :: string
  re_Body :: 'a

datatype 'a call_result = Answered "'a call_response" | Refused_duplicate | Connection_lost | Context_done

datatype 'a call_point =
    Made | Checked_open | Filed | Writing | Waiting | Leaving "'a call_result" | Returned "'a call_result"

record 'a call_state =
  ca_id :: string
  ca_at :: "'a call_point"
  ca_done :: bool
  ca_slot :: "'a call_response option"

datatype 'a delivery = Arrived "'a call_response" | Looked_up "'a call_response" "nat option" | Delivered bool

record 'a line =
  ln_closed :: bool
  ln_pending :: "(string \<times> nat) list"
  ln_calls :: "'a call_state list"
  ln_deliveries :: "'a delivery list"

datatype select_case = By_write | By_write_error | By_response | By_close | By_context

definition set_call :: "nat \<Rightarrow> ('a call_state \<Rightarrow> 'a call_state) \<Rightarrow> 'a line \<Rightarrow> 'a line" where
  "set_call i f s = s\<lparr>ln_calls := modify i f (ln_calls s)\<rparr>"

definition call_at :: "nat \<Rightarrow> 'a call_point \<Rightarrow> 'a line \<Rightarrow> 'a line" where
  "call_at i p = set_call i (\<lambda>c. c\<lparr>ca_at := p\<rparr>)"

text \<open>The first \<open>select\<close>: the write has ended, well or (then \<open>WriteJSON\<close> has marked the connection lost) not, or the call gives up.\<close>

definition write_select :: "nat \<Rightarrow> select_case \<Rightarrow> 'a line \<Rightarrow> 'a line" where
  "write_select i choice s =
     (let c = ln_calls s ! i
      in case choice of
           By_write \<Rightarrow> call_at i (if ca_done c then Leaving Context_done else Waiting) s
         | By_write_error \<Rightarrow> call_at i (if ca_done c then Leaving Context_done else Leaving Connection_lost) (s\<lparr>ln_closed := True\<rparr>)
         | By_close \<Rightarrow> if ln_closed s then call_at i (Leaving Connection_lost) s else s
         | By_context \<Rightarrow> if ca_done c then call_at i (Leaving Context_done) s else s
         | By_response \<Rightarrow> s)"

definition wait_select :: "nat \<Rightarrow> select_case \<Rightarrow> 'a line \<Rightarrow> 'a line" where
  "wait_select i choice s =
     (let c = ln_calls s ! i
      in case choice of
           By_response \<Rightarrow> (case ca_slot c of None \<Rightarrow> s | Some r \<Rightarrow> set_call i (\<lambda>c. c\<lparr>ca_at := Leaving (Answered r), ca_slot := None\<rparr>) s)
         | By_close \<Rightarrow> if ln_closed s then call_at i (Leaving Connection_lost) s else s
         | By_context \<Rightarrow> if ca_done c then call_at i (Leaving Context_done) s else s
         | _ \<Rightarrow> s)"

definition call_step :: "nat \<Rightarrow> select_case \<Rightarrow> 'a line \<Rightarrow> 'a line" where
  "call_step i choice s =
     (if length (ln_calls s) \<le> i then s
      else let c = ln_calls s ! i
      in case ca_at c of
           Made \<Rightarrow> call_at i (if ln_closed s then Returned Connection_lost else Checked_open) s
         | Checked_open \<Rightarrow>
             if map_of (ln_pending s) (ca_id c) \<noteq> None then call_at i (Returned Refused_duplicate) s
             else call_at i Filed (s\<lparr>ln_pending := (ca_id c, i) # ln_pending s\<rparr>)
         | Filed \<Rightarrow> call_at i (if ln_closed s then Leaving Connection_lost else Writing) s
         | Writing \<Rightarrow> write_select i choice s
         | Waiting \<Rightarrow> wait_select i choice s
         | Leaving r \<Rightarrow> call_at i (Returned r) (s\<lparr>ln_pending := filter (\<lambda>p. fst p \<noteq> ca_id c) (ln_pending s)\<rparr>)
         | Returned r \<Rightarrow> s)"

text \<open>\<open>DeliverResponse\<close>: the check of the connection, the search of the channel, the send that does not block.\<close>

definition deliver_step :: "nat \<Rightarrow> 'a line \<Rightarrow> 'a line" where
  "deliver_step j s =
     (if length (ln_deliveries s) \<le> j then s
      else case ln_deliveries s ! j of
        Arrived r \<Rightarrow> s\<lparr>ln_deliveries := (ln_deliveries s)[j := Looked_up r (map_of (ln_pending s) (re_RequestId r))]\<rparr>
      | Looked_up r None \<Rightarrow> s\<lparr>ln_deliveries := (ln_deliveries s)[j := Delivered False]\<rparr>
      | Looked_up r (Some i) \<Rightarrow>
          if ca_slot (ln_calls s ! i) = None
          then set_call i (\<lambda>c. c\<lparr>ca_slot := Some r\<rparr>) (s\<lparr>ln_deliveries := (ln_deliveries s)[j := Delivered True]\<rparr>)
          else s\<lparr>ln_deliveries := (ln_deliveries s)[j := Delivered False]\<rparr>
      | Delivered b \<Rightarrow> s)"

datatype 'a line_event =
    Call_made string
  | Call_goes nat select_case
  | Call_given_up nat
  | Response_read "'a call_response"
  | Delivery_goes nat
  | Line_lost

fun line_step :: "'a line_event \<Rightarrow> 'a line \<Rightarrow> 'a line" where
  "line_step (Call_made k) s = s\<lparr>ln_calls := ln_calls s @ [\<lparr>ca_id = k, ca_at = Made, ca_done = False, ca_slot = None\<rparr>]\<rparr>"
| "line_step (Call_goes i choice) s = call_step i choice s"
| "line_step (Call_given_up i) s = set_call i (\<lambda>c. c\<lparr>ca_done := True\<rparr>) s"
| "line_step (Response_read r) s = (if ln_closed s then s else s\<lparr>ln_deliveries := ln_deliveries s @ [Arrived r]\<rparr>)"
| "line_step (Delivery_goes j) s = deliver_step j s"
| "line_step Line_lost s = s\<lparr>ln_closed := True\<rparr>"

definition new_line :: "'a line" where
  "new_line = \<lparr>ln_closed = False, ln_pending = [], ln_calls = [], ln_deliveries = []\<rparr>"

definition line_run :: "'a line_event list \<Rightarrow> 'a line" where
  "line_run es = fold line_step es new_line"

section \<open>The invariant\<close>

fun in_flight :: "'a call_point \<Rightarrow> bool" where
  "in_flight Filed = True"
| "in_flight Writing = True"
| "in_flight Waiting = True"
| "in_flight (Leaving _) = True"
| "in_flight _ = False"

text \<open>The pending table holds exactly the calls in flight; every response that is in a channel, on its way to one or returned has the request
  identifier of the call and was read from the connection.\<close>

definition response_ok :: "'a call_response set \<Rightarrow> string \<Rightarrow> 'a call_response \<Rightarrow> bool" where
  "response_ok R k r = (r \<in> R \<and> re_RequestId r = k)"

definition call_ok :: "'a call_response set \<Rightarrow> 'a call_state \<Rightarrow> bool" where
  "call_ok R c =
     ((\<forall>r. ca_slot c = Some r \<longrightarrow> response_ok R (ca_id c) r)
      \<and> (\<forall>r. ca_at c = Leaving (Answered r) \<or> ca_at c = Returned (Answered r) \<longrightarrow> response_ok R (ca_id c) r))"

definition delivery_ok :: "'a call_response set \<Rightarrow> 'a call_state list \<Rightarrow> 'a delivery \<Rightarrow> bool" where
  "delivery_ok R cs d =
     (case d of
        Arrived r \<Rightarrow> r \<in> R
      | Looked_up r x \<Rightarrow> r \<in> R \<and> (\<forall>i. x = Some i \<longrightarrow> i < length cs \<and> ca_id (cs ! i) = re_RequestId r)
      | Delivered b \<Rightarrow> True)"

definition line_inv :: "'a call_response set \<Rightarrow> 'a line \<Rightarrow> bool" where
  "line_inv R s =
     (distinct (map fst (ln_pending s))
      \<and> (\<forall>k i. (k, i) \<in> set (ln_pending s) \<longleftrightarrow> i < length (ln_calls s) \<and> ca_id (ln_calls s ! i) = k \<and> in_flight (ca_at (ln_calls s ! i)))
      \<and> (\<forall>c \<in> set (ln_calls s). call_ok R c) \<and> (\<forall>d \<in> set (ln_deliveries s). delivery_ok R (ln_calls s) d))"

lemma line_inv_call:
  assumes inv: "line_inv R s" and i: "i < length (ln_calls s)" and id: "ca_id (f (ln_calls s ! i)) = ca_id (ln_calls s ! i)"
    and ok: "call_ok R (f (ln_calls s ! i))" and d: "distinct (map fst P)"
    and P: "\<And>k j. (k, j) \<in> set P \<longleftrightarrow>
      (if j = i then k = ca_id (ln_calls s ! i) \<and> in_flight (ca_at (f (ln_calls s ! i))) else (k, j) \<in> set (ln_pending s))"
  shows "line_inv R (s\<lparr>ln_closed := b, ln_pending := P, ln_calls := modify i f (ln_calls s)\<rparr>)"
proof -
  let ?cs = "modify i f (ln_calls s)"
  have nth: "?cs ! j = (if j = i then f (ln_calls s ! i) else ln_calls s ! j)" if "j < length (ln_calls s)" for j
    using that by (simp add: nth_modify)
  have pend: "(k, j) \<in> set P \<longleftrightarrow> j < length ?cs \<and> ca_id (?cs ! j) = k \<and> in_flight (ca_at (?cs ! j))" for k j
  proof (cases "j = i")
    case True then show ?thesis using P [of k j] nth [OF i] i id by auto
  next
    case False
    have "(k, j) \<in> set (ln_pending s) \<longleftrightarrow> j < length (ln_calls s) \<and> ca_id (ln_calls s ! j) = k \<and> in_flight (ca_at (ln_calls s ! j))"
      using inv by (simp add: line_inv_def)
    then show ?thesis using P [of k j] False nth [of j] by auto
  qed
  have old: "call_ok R (ln_calls s ! j)" if "j < length (ln_calls s)" for j using inv nth_mem [OF that] by (simp add: line_inv_def)
  have calls: "\<forall>c \<in> set ?cs. call_ok R c"
  proof
    fix c assume "c \<in> set ?cs"
    then obtain j where j: "j < length (ln_calls s)" "c = ?cs ! j" by (auto simp: in_set_conv_nth)
    then show "call_ok R c" using nth [OF j(1)] old [OF j(1)] ok by simp
  qed
  have ids: "ca_id (?cs ! j) = ca_id (ln_calls s ! j)" if "j < length (ln_calls s)" for j using nth [OF that] id by simp
  have del: "\<forall>x \<in> set (ln_deliveries s). delivery_ok R ?cs x"
    using inv ids by (auto simp: line_inv_def delivery_ok_def split: delivery.splits)
  show ?thesis using pend calls del d by (simp add: line_inv_def)
qed

lemma pending_iff:
  assumes "line_inv R s"
  shows "(k, i) \<in> set (ln_pending s) \<longleftrightarrow> i < length (ln_calls s) \<and> ca_id (ln_calls s ! i) = k \<and> in_flight (ca_at (ln_calls s ! i))"
  using assms by (simp add: line_inv_def)

text \<open>A step that leaves the pending table as it is.\<close>

lemma line_inv_stay:
  assumes inv: "line_inv R s" and i: "i < length (ln_calls s)" and id: "ca_id (f (ln_calls s ! i)) = ca_id (ln_calls s ! i)"
    and ok: "call_ok R (f (ln_calls s ! i))" and fl: "in_flight (ca_at (f (ln_calls s ! i))) = in_flight (ca_at (ln_calls s ! i))"
  shows "line_inv R (s\<lparr>ln_closed := b, ln_calls := modify i f (ln_calls s)\<rparr>)"
proof -
  have d: "distinct (map fst (ln_pending s))" using inv by (simp add: line_inv_def)
  have "line_inv R (s\<lparr>ln_closed := b, ln_pending := ln_pending s, ln_calls := modify i f (ln_calls s)\<rparr>)"
  proof (rule line_inv_call [of R s i f "ln_pending s" b, OF inv i id ok d])
    show "(k, j) \<in> set (ln_pending s) \<longleftrightarrow>
        (if j = i then k = ca_id (ln_calls s ! i) \<and> in_flight (ca_at (f (ln_calls s ! i))) else (k, j) \<in> set (ln_pending s))" for k j
      using pending_iff [OF inv, of k j] fl i by auto
  qed
  then show ?thesis by simp
qed

lemma line_inv_at:
  assumes "line_inv R s" "i < length (ln_calls s)" "in_flight p = in_flight (ca_at (ln_calls s ! i))"
    and "\<And>r. p = Leaving (Answered r) \<or> p = Returned (Answered r) \<Longrightarrow> response_ok R (ca_id (ln_calls s ! i)) r"
  shows "line_inv R (call_at i p (s\<lparr>ln_closed := b\<rparr>))"
proof -
  have "call_ok R (ln_calls s ! i)" using assms(1,2) by (simp add: line_inv_def)
  then show ?thesis
    using line_inv_stay [OF assms(1,2), of "\<lambda>c. c\<lparr>ca_at := p\<rparr>" b] assms(3,4) by (auto simp: call_at_def set_call_def call_ok_def)
qed

lemma line_inv_at': 
  assumes "line_inv R s" "i < length (ln_calls s)" "in_flight p = in_flight (ca_at (ln_calls s ! i))"
    and "\<And>r. p = Leaving (Answered r) \<or> p = Returned (Answered r) \<Longrightarrow> response_ok R (ca_id (ln_calls s ! i)) r"
  shows "line_inv R (call_at i p s)"
  using line_inv_at [OF assms, of "ln_closed s"] by simp

lemma line_inv_call_step:
  assumes inv: "line_inv R s" shows "line_inv R (call_step i choice s)"
proof (cases "length (ln_calls s) \<le> i")
  case False
  then have i: "i < length (ln_calls s)" by simp
  let ?c = "ln_calls s ! i"
  have ok: "call_ok R ?c" using inv i by (simp add: line_inv_def)
  note at = line_inv_at' [OF inv i] and at_lost = line_inv_at [OF inv i, where b = True]
  show ?thesis
  proof (cases "ca_at ?c")
    case Made then show ?thesis using i at [of "Returned Connection_lost"] at [of Checked_open] by (simp add: call_step_def)
  next
    case Checked_open
    show ?thesis
    proof (cases "map_of (ln_pending s) (ca_id ?c)")
      case (Some j) then show ?thesis using i Checked_open at [of "Returned Refused_duplicate"] by (simp add: call_step_def)
    next
      case None
      have d: "distinct (map fst ((ca_id ?c, i) # ln_pending s))" using inv None by (simp add: line_inv_def map_of_eq_None_iff)
      have "line_inv R (s\<lparr>ln_closed := ln_closed s, ln_pending := (ca_id ?c, i) # ln_pending s, ln_calls := modify i (\<lambda>c. c\<lparr>ca_at := Filed\<rparr>) (ln_calls s)\<rparr>)"
      proof (rule line_inv_call [of R s i "\<lambda>c. c\<lparr>ca_at := Filed\<rparr>", OF inv i _ _ d])
        show "(k, j) \<in> set ((ca_id ?c, i) # ln_pending s) \<longleftrightarrow>
            (if j = i then k = ca_id ?c \<and> in_flight (ca_at (?c\<lparr>ca_at := Filed\<rparr>)) else (k, j) \<in> set (ln_pending s))" for k j
          using pending_iff [OF inv, of k j] Checked_open by auto
      qed (use ok in \<open>auto simp: call_ok_def\<close>)
      then show ?thesis using i Checked_open None by (simp add: call_step_def call_at_def set_call_def)
    qed
  next
    case Filed then show ?thesis using i at [of "Leaving Connection_lost"] at [of Writing] by (simp add: call_step_def)
  next
    case Writing
    then show ?thesis using i inv at [of "Leaving Context_done"] at [of "Leaving Connection_lost"] at [of Waiting]
      at_lost [of "Leaving Context_done"] at_lost [of "Leaving Connection_lost"]
      by (cases choice) (simp_all add: call_step_def write_select_def Let_def)
  next
    case Waiting
    show ?thesis
    proof (cases "choice = By_response \<and> ca_slot ?c \<noteq> None")
      case True
      then obtain r where r: "ca_slot ?c = Some r" by auto
      have "call_ok R (?c\<lparr>ca_at := Leaving (Answered r), ca_slot := None\<rparr>)" using ok r by (auto simp: call_ok_def)
      then have "line_inv R (s\<lparr>ln_closed := ln_closed s, ln_calls := modify i (\<lambda>c. c\<lparr>ca_at := Leaving (Answered r), ca_slot := None\<rparr>) (ln_calls s)\<rparr>)"
        using line_inv_stay [of R s i "\<lambda>c. c\<lparr>ca_at := Leaving (Answered r), ca_slot := None\<rparr>" "ln_closed s", OF inv i] by (simp add: Waiting)
      then show ?thesis using i Waiting True r by (simp add: call_step_def wait_select_def set_call_def)
    next
      case False
      then show ?thesis using i inv Waiting at [of "Leaving Context_done"] at [of "Leaving Connection_lost"]
        by (cases choice) (auto simp: call_step_def wait_select_def Let_def)
    qed
  next
    case (Leaving r)
    let ?P = "filter (\<lambda>p. fst p \<noteq> ca_id ?c) (ln_pending s)"
    have dis: "distinct (map fst (ln_pending s))" using inv by (simp add: line_inv_def)
    have mine: "(ca_id ?c, i) \<in> set (ln_pending s)" using pending_iff [OF inv] i Leaving by simp
    have only: "j = i" if "(ca_id ?c, j) \<in> set (ln_pending s)" for j
      using eq_key_imp_eq_value [OF dis that mine] .
    have d: "distinct (map fst ?P)" using dis by (simp add: distinct_map_filter)
    have "line_inv R (s\<lparr>ln_closed := ln_closed s, ln_pending := ?P, ln_calls := modify i (\<lambda>c. c\<lparr>ca_at := Returned r\<rparr>) (ln_calls s)\<rparr>)"
    proof (rule line_inv_call [of R s i "\<lambda>c. c\<lparr>ca_at := Returned r\<rparr>", OF inv i _ _ d])
      show "(k, j) \<in> set ?P \<longleftrightarrow> (if j = i then k = ca_id ?c \<and> in_flight (ca_at (?c\<lparr>ca_at := Returned r\<rparr>)) else (k, j) \<in> set (ln_pending s))" for k j
        using pending_iff [OF inv, of k j] only [of j] by auto
    qed (use ok Leaving in \<open>auto simp: call_ok_def\<close>)
    then show ?thesis using i Leaving by (simp add: call_step_def call_at_def set_call_def)
  next
    case (Returned r) then show ?thesis using inv i by (simp add: call_step_def)
  qed
qed (simp add: call_step_def inv)

lemma delivery_ok_ids:
  assumes "delivery_ok R cs d" "length cs \<le> length cs'" "\<And>j. j < length cs \<Longrightarrow> ca_id (cs' ! j) = ca_id (cs ! j)"
  shows "delivery_ok R cs' d"
  using assms by (auto simp: delivery_ok_def split: delivery.splits)

lemma line_inv_deliveries:
  assumes "line_inv R s" "\<And>d. d \<in> set ds \<Longrightarrow> delivery_ok R (ln_calls s) d" shows "line_inv R (s\<lparr>ln_deliveries := ds\<rparr>)"
  using assms by (simp add: line_inv_def)

lemma call_ok_slot: "call_ok R c \<Longrightarrow> response_ok R (ca_id c) r \<Longrightarrow> call_ok R (c\<lparr>ca_slot := Some r\<rparr>)"
  by (simp add: call_ok_def)

lemma line_inv_deliver_step:
  assumes inv: "line_inv R s" shows "line_inv R (deliver_step j s)"
proof (cases "length (ln_deliveries s) \<le> j")
  case False
  then have j: "j < length (ln_deliveries s)" by simp
  have del: "\<And>d. d \<in> set (ln_deliveries s) \<Longrightarrow> delivery_ok R (ln_calls s) d" using inv by (simp add: line_inv_def)
  have upd: "line_inv R (s\<lparr>ln_deliveries := (ln_deliveries s)[j := d]\<rparr>)" if "delivery_ok R (ln_calls s) d" for d
    by (rule line_inv_deliveries [OF inv]) (use that del set_update_subset_insert [of "ln_deliveries s" j d] in auto)
  have gone: "line_inv R (s\<lparr>ln_deliveries := (ln_deliveries s)[j := Delivered b]\<rparr>)" for b
    by (rule upd) (simp add: delivery_ok_def)
  have mine: "delivery_ok R (ln_calls s) (ln_deliveries s ! j)" using del nth_mem [OF j] .
  show ?thesis
  proof (cases "ln_deliveries s ! j")
    case (Arrived r)
    have "i < length (ln_calls s) \<and> ca_id (ln_calls s ! i) = re_RequestId r" if "map_of (ln_pending s) (re_RequestId r) = Some i" for i
      using map_of_SomeD [OF that] pending_iff [OF inv] by auto
    then have "delivery_ok R (ln_calls s) (Looked_up r (map_of (ln_pending s) (re_RequestId r)))"
      using mine Arrived by (simp add: delivery_ok_def)
    from upd [OF this] show ?thesis using j Arrived by (simp add: deliver_step_def)
  next
    case (Looked_up r x)
    show ?thesis
    proof (cases x)
      case None then show ?thesis using j Looked_up gone by (simp add: deliver_step_def)
    next
      case (Some i)
      have i: "i < length (ln_calls s)" "ca_id (ln_calls s ! i) = re_RequestId r" "r \<in> R"
        using mine Looked_up Some by (simp_all add: delivery_ok_def)
      have "call_ok R (ln_calls s ! i)" using inv nth_mem [OF i(1)] by (simp add: line_inv_def)
      then have ok: "call_ok R ((ln_calls s ! i)\<lparr>ca_slot := Some r\<rparr>)" by (rule call_ok_slot) (use i(2,3) in \<open>simp add: response_ok_def\<close>)
      let ?t = "s\<lparr>ln_deliveries := (ln_deliveries s)[j := Delivered True]\<rparr>"
      have "line_inv R (?t\<lparr>ln_closed := ln_closed ?t, ln_calls := modify i (\<lambda>c. c\<lparr>ca_slot := Some r\<rparr>) (ln_calls ?t)\<rparr>)"
        by (rule line_inv_stay [of R ?t i "\<lambda>c. c\<lparr>ca_slot := Some r\<rparr>", OF gone]) (use ok i in simp_all)
      then show ?thesis using j Looked_up Some gone by (simp add: deliver_step_def set_call_def)
    qed
  next
    case (Delivered b) then show ?thesis using inv j by (simp add: deliver_step_def)
  qed
qed (simp add: deliver_step_def inv)

lemma line_inv_mono:
  assumes "line_inv R s" "R \<subseteq> R'" shows "line_inv R' s"
proof -
  have "delivery_ok R' cs d" if "delivery_ok R cs d" for cs :: "'a call_state list" and d
    using that assms(2) by (auto simp: delivery_ok_def split: delivery.splits)
  moreover have "call_ok R' c" if "call_ok R c" for c
    using that assms(2) by (auto simp: call_ok_def response_ok_def)
  ultimately show ?thesis using assms(1) by (simp add: line_inv_def)
qed

fun read_by :: "'a line_event \<Rightarrow> 'a call_response set" where
  "read_by (Response_read r) = {r}"
| "read_by _ = {}"

lemma line_inv_step:
  assumes inv: "line_inv R s" shows "line_inv (R \<union> read_by e) (line_step e s)"
proof (cases e)
  case (Call_made k)
  let ?cs = "ln_calls s @ [\<lparr>ca_id = k, ca_at = Made, ca_done = False, ca_slot = None\<rparr>]"
  have "delivery_ok R ?cs d" if "d \<in> set (ln_deliveries s)" for d
    by (rule delivery_ok_ids [of R "ln_calls s"]) (use that inv in \<open>simp_all add: line_inv_def nth_append\<close>)
  moreover have "(k', i) \<in> set (ln_pending s) \<longleftrightarrow> i < length ?cs \<and> ca_id (?cs ! i) = k' \<and> in_flight (ca_at (?cs ! i))" for k' i
    using pending_iff [OF inv, of k' i] by (auto simp: nth_append less_Suc_eq)
  ultimately show ?thesis using inv Call_made by (simp add: line_inv_def call_ok_def)
next
  case (Call_goes i choice) then show ?thesis using line_inv_call_step [OF inv] by simp
next
  case (Call_given_up i)
  show ?thesis
  proof (cases "i < length (ln_calls s)")
    case True
    have "call_ok R (ln_calls s ! i)" using inv nth_mem [OF True] by (simp add: line_inv_def)
    then have ok: "call_ok R ((ln_calls s ! i)\<lparr>ca_done := True\<rparr>)" by (simp add: call_ok_def)
    show ?thesis using line_inv_stay [of R s i "\<lambda>c. c\<lparr>ca_done := True\<rparr>" "ln_closed s", OF inv True _ ok] Call_given_up
      by (simp add: set_call_def)
  next
    case False then show ?thesis using inv Call_given_up by (simp add: set_call_def modify_def list_update_beyond)
  qed
next
  case (Response_read r)
  have inv': "line_inv (insert r R) s" by (rule line_inv_mono [OF inv]) auto
  have delivery_arrived: "delivery_ok (insert r R) cs (Arrived r)" for cs :: "'a call_state list" by (simp add: delivery_ok_def)
  have old: "\<And>d. d \<in> set (ln_deliveries s) \<Longrightarrow> delivery_ok (insert r R) (ln_calls s) d" using inv' by (simp add: line_inv_def)
  have "line_inv (insert r R) (s\<lparr>ln_deliveries := ln_deliveries s @ [Arrived r]\<rparr>)"
    by (rule line_inv_deliveries [OF inv']) (use old in \<open>auto simp: delivery_arrived\<close>)
  then show ?thesis using Response_read inv' by simp
next
  case (Delivery_goes j) then show ?thesis using line_inv_deliver_step [OF inv] by simp
next
  case Line_lost then show ?thesis using inv by (simp add: line_inv_def)
qed

lemma new_line_inv: "line_inv {} new_line" by (simp add: line_inv_def new_line_def)

lemma line_run_snoc: "line_run (es @ [e]) = line_step e (line_run es)" by (simp add: line_run_def)

lemma line_run_inv: "line_inv (\<Union> (read_by ` set es)) (line_run es)"
proof (induction es rule: rev_induct)
  case Nil show ?case using new_line_inv by (simp add: line_run_def)
next
  case (snoc e es) show ?case using line_inv_step [OF snoc, of e] by (simp add: line_run_snoc Un_commute)
qed

lemma read_by_iff: "r \<in> \<Union> (read_by ` set es) \<longleftrightarrow> Response_read r \<in> set es"
proof -
  have "r \<in> read_by e \<longleftrightarrow> e = Response_read r" for e by (cases e) auto
  then show ?thesis by auto
qed

section \<open>No response is used twice\<close>

fun carried_at :: "'a call_point \<Rightarrow> 'a call_response multiset" where
  "carried_at (Leaving (Answered r)) = {#r#}"
| "carried_at (Returned (Answered r)) = {#r#}"
| "carried_at _ = {#}"

definition carried_call :: "'a call_state \<Rightarrow> 'a call_response multiset" where
  "carried_call c = carried_at (ca_at c) + (case ca_slot c of None \<Rightarrow> {#} | Some r \<Rightarrow> {#r#})"

fun carried_delivery :: "'a delivery \<Rightarrow> 'a call_response multiset" where
  "carried_delivery (Arrived r) = {#r#}"
| "carried_delivery (Looked_up r x) = {#r#}"
| "carried_delivery (Delivered b) = {#}"

text \<open>The responses the line holds: in a channel, returned, or on their way.\<close>

definition carried :: "'a line \<Rightarrow> 'a call_response multiset" where
  "carried s = sum_list (map carried_call (ln_calls s)) + sum_list (map carried_delivery (ln_deliveries s))"

fun responses_read :: "'a line_event list \<Rightarrow> 'a call_response multiset" where
  "responses_read [] = {#}"
| "responses_read (e # es) = (case e of Response_read r \<Rightarrow> {#r#} | _ \<Rightarrow> {#}) + responses_read es"

lemma sum_list_update_mset:
  fixes g :: "'b \<Rightarrow> 'c multiset"
  assumes "i < length xs" shows "sum_list (map g (xs[i := y])) + g (xs ! i) = sum_list (map g xs) + g y"
  using assms by (induction xs arbitrary: i) (auto simp: nth_Cons ac_simps split: nat.splits)

lemma sum_list_update_le:
  fixes g :: "'b \<Rightarrow> 'c multiset"
  assumes "i < length xs" "g y \<subseteq># g (xs ! i)" shows "sum_list (map g (xs[i := y])) \<subseteq># sum_list (map g xs)"
proof -
  have "sum_list (map g (xs[i := y])) + g (xs ! i) \<subseteq># sum_list (map g xs) + g (xs ! i)"
    using sum_list_update_mset [OF assms(1), of g y] assms(2) by simp
  then show ?thesis by simp
qed

lemma carried_set_call:
  assumes "carried_call (f (ln_calls s ! i)) \<subseteq># carried_call (ln_calls s ! i)" "i < length (ln_calls s)"
  shows "carried (set_call i f s) \<subseteq># carried s"
  using sum_list_update_le [OF assms(2,1)] assms(2) by (simp add: carried_def set_call_def modify_def)

lemma carried_more [simp]: "carried (s\<lparr>ln_closed := b\<rparr>) = carried s" "carried (s\<lparr>ln_pending := P\<rparr>) = carried s"
  by (simp_all add: carried_def)

lemma carried_call_at:
  assumes "i < length (ln_calls s)" "carried_at p \<subseteq># carried_at (ca_at (ln_calls s ! i))"
  shows "carried (call_at i p s) \<subseteq># carried s"
  unfolding call_at_def by (rule carried_set_call) (use assms in \<open>simp_all add: carried_call_def\<close>)

lemma carried_call_step: "carried (call_step i choice s) \<subseteq># carried s"
proof (cases "length (ln_calls s) \<le> i")
  case False
  then have i: "i < length (ln_calls s)" by simp
  let ?c = "ln_calls s ! i"
  note at = carried_call_at [OF i]
  have pend: "carried (call_at i p (s\<lparr>ln_pending := P\<rparr>)) \<subseteq># carried s" if "carried_at p \<subseteq># carried_at (ca_at ?c)" for p P
    using carried_call_at [of i "s\<lparr>ln_pending := P\<rparr>" p] i that by simp
  have closed: "carried (call_at i p (s\<lparr>ln_closed := b\<rparr>)) \<subseteq># carried s" if "carried_at p \<subseteq># carried_at (ca_at ?c)" for p b
    using carried_call_at [of i "s\<lparr>ln_closed := b\<rparr>" p] i that by simp
  show ?thesis
  proof (cases "ca_at ?c")
    case Writing
    then show ?thesis using i by (cases choice) (simp_all add: call_step_def write_select_def Let_def at closed)
  next
    case Waiting
    have got: "carried (set_call i (\<lambda>c. c\<lparr>ca_at := Leaving (Answered r), ca_slot := None\<rparr>) s) \<subseteq># carried s" if "ca_slot ?c = Some r" for r
      by (rule carried_set_call) (use i that in \<open>simp_all add: carried_call_def\<close>)
    show ?thesis using i Waiting
      by (cases choice) (simp_all add: call_step_def wait_select_def Let_def at got split: option.split)
  next
    case (Leaving r)
    have "carried_at (Returned r) = carried_at (Leaving r)" by (cases r) simp_all
    then show ?thesis using i Leaving by (simp add: call_step_def pend)
  qed (use i in \<open>simp_all add: call_step_def Let_def at pend\<close>)
qed (simp add: call_step_def)

lemma carried_deliver_step:
  assumes inv: "line_inv R s" shows "carried (deliver_step j s) \<subseteq># carried s"
proof (cases "length (ln_deliveries s) \<le> j")
  case False
  then have j: "j < length (ln_deliveries s)" by simp
  let ?upd = "\<lambda>d. s\<lparr>ln_deliveries := (ln_deliveries s)[j := d]\<rparr>"
  have upd: "carried (?upd d) \<subseteq># carried s" if "carried_delivery d \<subseteq># carried_delivery (ln_deliveries s ! j)" for d
    using sum_list_update_le [OF j, of carried_delivery d] that by (simp add: carried_def)
  show ?thesis
  proof (cases "ln_deliveries s ! j")
    case (Arrived r) then show ?thesis using j upd by (simp add: deliver_step_def)
  next
    case (Delivered b) then show ?thesis using j by (simp add: deliver_step_def)
  next
    case (Looked_up r x)
    show ?thesis
    proof (cases "\<exists>i. x = Some i \<and> ca_slot (ln_calls s ! i) = None")
      case True
      then obtain i where x: "x = Some i" and slot: "ca_slot (ln_calls s ! i) = None" by auto
      have "delivery_ok R (ln_calls s) (Looked_up r (Some i))" using inv nth_mem [OF j] Looked_up x by (auto simp: line_inv_def)
      then have i: "i < length (ln_calls s)" by (simp add: delivery_ok_def)
      let ?y = "(ln_calls s ! i)\<lparr>ca_slot := Some r\<rparr>"
      have "carried_call ?y = carried_call (ln_calls s ! i) + {#r#}" using slot by (simp add: carried_call_def)
      then have "sum_list (map carried_call ((ln_calls s)[i := ?y])) = sum_list (map carried_call (ln_calls s)) + {#r#}"
        using sum_list_update_mset [OF i, of carried_call ?y] by simp
      moreover have "sum_list (map carried_delivery ((ln_deliveries s)[j := Delivered True])) + {#r#} = sum_list (map carried_delivery (ln_deliveries s))"
        using sum_list_update_mset [OF j, of carried_delivery "Delivered True"] Looked_up by simp
      ultimately have "carried (deliver_step j s) = carried s"
        using j i Looked_up x slot by (simp add: deliver_step_def carried_def set_call_def modify_def)
      then show ?thesis by simp
    next
      case False
      then have "deliver_step j s = ?upd (Delivered False)" using j Looked_up by (auto simp: deliver_step_def split: option.split)
      then show ?thesis using upd [of "Delivered False"] by simp
    qed
  qed
qed (simp add: deliver_step_def)

lemma carried_step:
  assumes "line_inv R s" shows "carried (line_step e s) \<subseteq># carried s + responses_read [e]"
proof (cases e)
  case (Call_made k) then show ?thesis by (simp add: carried_def carried_call_def)
next
  case (Call_goes i choice) then show ?thesis using carried_call_step by simp
next
  case (Call_given_up i)
  have "carried (set_call i (\<lambda>c. c\<lparr>ca_done := True\<rparr>) s) \<subseteq># carried s"
  proof (cases "i < length (ln_calls s)")
    case True show ?thesis by (rule carried_set_call [OF _ True]) (simp add: carried_call_def)
  next
    case False then show ?thesis by (simp add: set_call_def modify_def list_update_beyond)
  qed
  then show ?thesis using Call_given_up by simp
next
  case (Response_read r) then show ?thesis by (simp add: carried_def)
next
  case (Delivery_goes j) then show ?thesis using carried_deliver_step [OF assms] by simp
next
  case Line_lost then show ?thesis by simp
qed

lemma responses_read_append: "responses_read (es @ es') = responses_read es + responses_read es'"
  by (induction es) (simp_all add: ac_simps)

lemma carried_run: "carried (line_run es) \<subseteq># responses_read es"
proof (induction es rule: rev_induct)
  case Nil show ?case by (simp add: line_run_def carried_def new_line_def)
next
  case (snoc e es)
  have "carried (line_step e (line_run es)) \<subseteq># carried (line_run es) + responses_read [e]" by (rule carried_step [OF line_run_inv])
  also have "\<dots> \<subseteq># responses_read es + responses_read [e]" using snoc by simp
  finally show ?case by (simp only: line_run_snoc responses_read_append)
qed

text \<open>What the callers were answered, in the order of the calls.\<close>

definition answers :: "'a line \<Rightarrow> 'a call_response list" where
  "answers s = concat (map (\<lambda>c. case ca_at c of Returned (Answered r) \<Rightarrow> [r] | _ \<Rightarrow> []) (ln_calls s))"

lemma answers_carried: "mset (answers s) \<subseteq># carried s"
proof -
  have one: "mset (case ca_at c of Returned (Answered r) \<Rightarrow> [r] | _ \<Rightarrow> []) \<subseteq># carried_call c" for c :: "'a call_state"
    by (simp add: carried_call_def split: call_point.splits call_result.splits)
  have "mset (concat (map (\<lambda>c. case ca_at c of Returned (Answered r) \<Rightarrow> [r] | _ \<Rightarrow> []) cs)) \<subseteq># sum_list (map carried_call cs)"
    for cs :: "'a call_state list"
    by (induction cs) (simp_all add: subset_mset.add_mono one)
  then show ?thesis by (auto simp: answers_def carried_def intro: subset_mset.add_increasing2)
qed

section \<open>Progress\<close>

text \<open>How many of its own steps a call still needs once the case \<open>choice\<close> of its \<open>select\<close> is ready for good.\<close>

fun call_rank :: "'a call_point \<Rightarrow> nat" where
  "call_rank Made = 5"
| "call_rank Checked_open = 4"
| "call_rank Filed = 3"
| "call_rank Writing = 2"
| "call_rank Waiting = 2"
| "call_rank (Leaving r) = 1"
| "call_rank (Returned r) = 0"

definition ready_for_good :: "nat \<Rightarrow> select_case \<Rightarrow> 'a line \<Rightarrow> bool" where
  "ready_for_good i choice s = (i < length (ln_calls s) \<and> (choice = By_close \<and> ln_closed s \<or> choice = By_context \<and> ca_done (ln_calls s ! i)))"

definition rank_of :: "nat \<Rightarrow> 'a line \<Rightarrow> nat" where
  "rank_of i s = call_rank (ca_at (ln_calls s ! i))"

lemma nth_set_call: "i < length (ln_calls s) \<Longrightarrow> ln_calls (set_call j f s) ! i = (if i = j then f (ln_calls s ! i) else ln_calls s ! i)"
  by (simp add: set_call_def nth_modify)

lemma set_call_simps [simp]: "length (ln_calls (set_call j f s)) = length (ln_calls s)" "ln_closed (set_call j f s) = ln_closed s"
  "ln_pending (set_call j f s) = ln_pending s" "ln_deliveries (set_call j f s) = ln_deliveries s"
  by (simp_all add: set_call_def)

text \<open>What a step keeps of the call \<open>i\<close>: its place, a lost connection, a context that has ended, and how far it has come.\<close>

definition keeps_call :: "nat \<Rightarrow> 'a line \<Rightarrow> 'a line \<Rightarrow> bool" where
  "keeps_call i s t = (i < length (ln_calls t) \<and> (ln_closed s \<longrightarrow> ln_closed t) \<and> (ca_done (ln_calls s ! i) \<longrightarrow> ca_done (ln_calls t ! i)) \<and> rank_of i t \<le> rank_of i s)"

lemma keeps_set_call:
  assumes "i < length (ln_calls s)" "j = i \<Longrightarrow> (ca_done (ln_calls s ! i) \<longrightarrow> ca_done (f (ln_calls s ! i))) \<and> call_rank (ca_at (f (ln_calls s ! i))) \<le> rank_of i s"
    "ln_calls s' = ln_calls s" "ln_closed s \<longrightarrow> ln_closed s'"
  shows "keeps_call i s (set_call j f s')"
  using assms by (cases "i = j") (auto simp: keeps_call_def rank_of_def nth_set_call)

lemma keeps_call_at:
  assumes "i < length (ln_calls s)" "j = i \<Longrightarrow> call_rank p \<le> rank_of i s" "ln_calls s' = ln_calls s" "ln_closed s \<longrightarrow> ln_closed s'"
  shows "keeps_call i s (call_at j p s')"
  unfolding call_at_def by (rule keeps_set_call) (use assms in simp_all)

lemma keeps_refl: "i < length (ln_calls s) \<Longrightarrow> keeps_call i s s" by (simp add: keeps_call_def)

lemma keeps_calls_same: "i < length (ln_calls s) \<Longrightarrow> ln_calls t = ln_calls s \<Longrightarrow> (ln_closed s \<longrightarrow> ln_closed t) \<Longrightarrow> keeps_call i s t"
  by (simp add: keeps_call_def rank_of_def)

lemma keeps_call_step:
  assumes i: "i < length (ln_calls s)" shows "keeps_call i s (call_step j choice s)"
proof (cases "length (ln_calls s) \<le> j")
  case True then show ?thesis using keeps_refl [OF i] by (simp add: call_step_def)
next
  case False
  let ?c = "ln_calls s ! j"
  have at: "keeps_call i s (call_at j p s')" if "call_rank p \<le> call_rank (ca_at ?c)" "ln_calls s' = ln_calls s" "ln_closed s \<longrightarrow> ln_closed s'" for p s'
    by (rule keeps_call_at [OF i _ that(2,3)]) (use that in \<open>simp add: rank_of_def\<close>)
  have took: "keeps_call i s (set_call j (\<lambda>c. c\<lparr>ca_at := Leaving (Answered r), ca_slot := None\<rparr>) s)" if "ca_at ?c = Waiting" for r
    by (rule keeps_set_call [OF i]) (use that in \<open>auto simp: rank_of_def\<close>)
  show ?thesis
  proof (cases "ca_at ?c")
    case Writing
    then show ?thesis using False keeps_refl [OF i] at by (cases choice) (simp_all add: call_step_def write_select_def Let_def)
  next
    case Waiting
    then show ?thesis using False keeps_refl [OF i] at took
      by (cases choice) (simp_all add: call_step_def wait_select_def Let_def split: option.split)
  qed (use False keeps_refl [OF i] at in \<open>simp_all add: call_step_def Let_def\<close>)
qed

lemma keeps_step:
  assumes i: "i < length (ln_calls s)" shows "keeps_call i s (line_step e s)"
proof (cases e)
  case (Call_made k)
  then show ?thesis using i by (simp add: keeps_call_def rank_of_def nth_append)
next
  case (Call_goes j choice) then show ?thesis using keeps_call_step [OF i] by simp
next
  case (Call_given_up j)
  have "keeps_call i s (set_call j (\<lambda>c. c\<lparr>ca_done := True\<rparr>) s)" by (rule keeps_set_call [OF i]) (auto simp: rank_of_def)
  then show ?thesis using Call_given_up by simp
next
  case (Response_read r) then show ?thesis using keeps_calls_same [OF i] by simp
next
  case (Delivery_goes j)
  have slot: "keeps_call i s (set_call n (\<lambda>c. c\<lparr>ca_slot := Some r\<rparr>) (s\<lparr>ln_deliveries := ds\<rparr>))" for n r ds
    by (rule keeps_set_call [OF i]) (auto simp: rank_of_def)
  have same: "keeps_call i s (s\<lparr>ln_deliveries := ds\<rparr>)" for ds by (rule keeps_calls_same [OF i]) simp_all
  show ?thesis using Delivery_goes keeps_refl [OF i] slot same by (simp add: deliver_step_def split: delivery.split option.split)
next
  case Line_lost then show ?thesis using keeps_calls_same [OF i] by simp
qed

lemma ready_kept: "ready_for_good i choice s \<Longrightarrow> keeps_call i s t \<Longrightarrow> ready_for_good i choice t"
  by (auto simp: ready_for_good_def keeps_call_def)

lemma ready_step_progress:
  assumes "ready_for_good i choice s" shows "rank_of i (call_step i choice s) \<le> rank_of i s - 1"
proof -
  have i: "i < length (ln_calls s)" using assms by (simp add: ready_for_good_def)
  have at: "rank_of i (call_at i p s') = call_rank p" if "ln_calls s' = ln_calls s" for p s'
    using i that by (simp add: call_at_def rank_of_def nth_set_call)
  show ?thesis using assms i
    by (cases "ca_at (ln_calls s ! i)")
      (auto simp: ready_for_good_def call_step_def write_select_def wait_select_def Let_def at rank_of_def [of i s] split: if_splits)
qed

text \<open>The own steps of call \<open>i\<close> in a sequence of events that take the ready case.\<close>

definition own_steps :: "nat \<Rightarrow> select_case \<Rightarrow> 'a line_event list \<Rightarrow> nat" where
  "own_steps i choice es = length (filter (\<lambda>e. e = Call_goes i choice) es)"

lemma ready_run_progress:
  assumes "ready_for_good i choice s"
  shows "rank_of i (fold line_step es s) \<le> rank_of i s - own_steps i choice es \<and> ready_for_good i choice (fold line_step es s)"
  using assms
proof (induction es arbitrary: s)
  case Nil then show ?case by (simp add: own_steps_def)
next
  case (Cons e es)
  have i: "i < length (ln_calls s)" using Cons.prems by (simp add: ready_for_good_def)
  have kept: "keeps_call i s (line_step e s)" by (rule keeps_step [OF i])
  have step: "rank_of i (line_step e s) \<le> rank_of i s - own_steps i choice [e]"
    using kept ready_step_progress [OF Cons.prems] by (auto simp: own_steps_def keeps_call_def)
  have "own_steps i choice (e # es) = own_steps i choice [e] + own_steps i choice es" by (simp add: own_steps_def)
  moreover note rest = Cons.IH [OF ready_kept [OF Cons.prems kept]]
  moreover have "rank_of i (line_step e s) - own_steps i choice es \<le> rank_of i s - own_steps i choice [e] - own_steps i choice es"
    by (rule diff_le_mono [OF step])
  ultimately show ?case by (simp add: diff_diff_left)
qed

lemma rank_bound: "rank_of i s \<le> 5" by (cases "ca_at (ln_calls s ! i)") (simp_all add: rank_of_def)

lemma rank_zero: "rank_of i s = 0 \<longleftrightarrow> (\<exists>r. ca_at (ln_calls s ! i) = Returned r)"
  by (cases "ca_at (ln_calls s ! i)") (simp_all add: rank_of_def)

section \<open>The properties\<close>

text \<open>Property C34: However calls, deliveries and losses of a Node connection interleave, the responses the callers were given are among the responses
  read from the connection, each used at most once, and a call that was answered got a response with its own request identifier.\<close>

theorem calls_answered_by_own_responses:
  "mset (answers (line_run es)) \<subseteq># responses_read es
   \<and> (\<forall>i < length (ln_calls (line_run es)). \<forall>r.
        ca_at (ln_calls (line_run es) ! i) = Returned (Answered r) \<longrightarrow> re_RequestId r = ca_id (ln_calls (line_run es) ! i))"
proof (intro conjI allI impI)
  show "mset (answers (line_run es)) \<subseteq># responses_read es" using answers_carried carried_run by (rule subset_mset.order_trans)
next
  fix i r assume i: "i < length (ln_calls (line_run es))" and at: "ca_at (ln_calls (line_run es) ! i) = Returned (Answered r)"
  have "call_ok (\<Union> (read_by ` set es)) (ln_calls (line_run es) ! i)" using line_run_inv [of es] nth_mem [OF i] by (simp add: line_inv_def)
  then show "re_RequestId r = ca_id (ln_calls (line_run es) ! i)" using at by (simp add: call_ok_def response_ok_def)
qed

text \<open>Property C35: The table of pending calls of a connection never leaks: it holds exactly the calls in flight, no two calls in flight share a
  request identifier, and once every call has returned it is empty.\<close>

theorem pending_calls_exact:
  "((k, i) \<in> set (ln_pending (line_run es)) \<longleftrightarrow>
      i < length (ln_calls (line_run es)) \<and> ca_id (ln_calls (line_run es) ! i) = k \<and> in_flight (ca_at (ln_calls (line_run es) ! i)))
   \<and> distinct (map fst (ln_pending (line_run es)))
   \<and> (list_all (\<lambda>c. \<not> in_flight (ca_at c)) (ln_calls (line_run es)) \<longrightarrow> ln_pending (line_run es) = [])"
proof (intro conjI impI)
  note inv = line_run_inv [of es]
  show "(k, i) \<in> set (ln_pending (line_run es)) \<longleftrightarrow>
      i < length (ln_calls (line_run es)) \<and> ca_id (ln_calls (line_run es) ! i) = k \<and> in_flight (ca_at (ln_calls (line_run es) ! i))"
    by (rule pending_iff [OF inv])
  show "distinct (map fst (ln_pending (line_run es)))" using inv by (simp add: line_inv_def)
  assume idle: "list_all (\<lambda>c. \<not> in_flight (ca_at c)) (ln_calls (line_run es))"
  show "ln_pending (line_run es) = []"
  proof (rule ccontr)
    assume "ln_pending (line_run es) \<noteq> []"
    then obtain k j where "(k, j) \<in> set (ln_pending (line_run es))" by (cases "ln_pending (line_run es)") auto
    then show False using pending_iff [OF inv, of k j] idle by (auto simp: list_all_length)
  qed
qed

text \<open>Property C36: A call never hangs on a dead connection: once the connection is lost or the context of the call has ended, the fifth step of the
  call that takes the ready case has returned it, whatever else happens in between.\<close>

theorem call_returns_once_ready:
  assumes "ready_for_good i choice (line_run es)" and "5 \<le> own_steps i choice es'"
  shows "\<exists>r. ca_at (ln_calls (line_run (es @ es')) ! i) = Returned r"
proof -
  have "rank_of i (fold line_step es' (line_run es)) \<le> rank_of i (line_run es) - own_steps i choice es'"
    using ready_run_progress [OF assms(1), of es'] by simp
  also have "\<dots> = 0" using rank_bound [of i "line_run es"] assms(2) by simp
  finally have "rank_of i (line_run (es @ es')) = 0" by (simp add: line_run_def)
  then show ?thesis by (simp only: rank_zero)
qed

text \<open>A response that arrives for a call that waits reaches it: read from an open connection, looked up and sent, it is delivered and
  the call returns with it.\<close>

theorem response_reaches_call:
  fixes es :: "'a line_event list" and r :: "'a call_response" and choice :: select_case and i j :: nat
  defines "s \<equiv> line_run es"
  assumes i: "i < length (ln_calls s)" and waits: "ca_at (ln_calls s ! i) = Waiting" "ca_slot (ln_calls s ! i) = None"
    and id: "ca_id (ln_calls s ! i) = re_RequestId r" and up: "\<not> ln_closed s" and j: "j = length (ln_deliveries s)"
  defines "t \<equiv> line_run (es @ [Response_read r, Delivery_goes j, Delivery_goes j, Call_goes i By_response, Call_goes i choice])"
  shows "ca_at (ln_calls t ! i) = Returned (Answered r) \<and> ln_deliveries t ! j = Delivered True"
proof -
  have inv: "line_inv (\<Union> (read_by ` set es)) s" unfolding s_def by (rule line_run_inv)
  have "(re_RequestId r, i) \<in> set (ln_pending s)" using pending_iff [OF inv] i id waits(1) by simp
  moreover have "distinct (map fst (ln_pending s))" using inv by (simp add: line_inv_def)
  ultimately have found: "map_of (ln_pending s) (re_RequestId r) = Some i" by simp
  have t: "t = line_step (Call_goes i choice) (line_step (Call_goes i By_response) (line_step (Delivery_goes j) (line_step (Delivery_goes j)
      (line_step (Response_read r) s))))"
    by (simp add: t_def s_def line_run_def)
  let ?a = "s\<lparr>ln_deliveries := ln_deliveries s @ [Arrived r]\<rparr>" and ?b = "s\<lparr>ln_deliveries := ln_deliveries s @ [Looked_up r (Some i)]\<rparr>"
  let ?c = "set_call i (\<lambda>c. c\<lparr>ca_slot := Some r\<rparr>) (s\<lparr>ln_deliveries := ln_deliveries s @ [Delivered True]\<rparr>)"
  have a: "line_step (Response_read r) s = ?a" using up by simp
  have b: "line_step (Delivery_goes j) ?a = ?b" using j found by (simp add: deliver_step_def)
  have c: "line_step (Delivery_goes j) ?b = ?c" using j waits by (simp add: deliver_step_def)
  have d: "line_step (Call_goes i By_response) ?c = set_call i (\<lambda>c. c\<lparr>ca_at := Leaving (Answered r), ca_slot := None\<rparr>) ?c"
    using i waits by (simp add: call_step_def wait_select_def Let_def nth_set_call)
  have e: "line_step (Call_goes i choice) (set_call i (\<lambda>c. c\<lparr>ca_at := Leaving (Answered r), ca_slot := None\<rparr>) ?c)
      = call_at i (Returned (Answered r)) ((set_call i (\<lambda>c. c\<lparr>ca_at := Leaving (Answered r), ca_slot := None\<rparr>) ?c)
          \<lparr>ln_pending := filter (\<lambda>p. fst p \<noteq> re_RequestId r) (ln_pending s)\<rparr>)"
    using i id by (simp add: call_step_def nth_set_call)
  show ?thesis unfolding t a b c d e using i j by (simp add: call_at_def nth_set_call)
qed

section \<open>Witnesses\<close>

definition demo_line :: "nat line_event list" where
  "demo_line = [Call_made ''req'', Call_goes 0 By_write, Call_goes 0 By_write, Call_goes 0 By_write, Call_goes 0 By_write]"

lemma call_returns_once_ready_witness:
  "\<exists>r. ca_at (ln_calls (line_run ((demo_line @ [Line_lost]) @ replicate 5 (Call_goes 0 By_close))) ! 0) = Returned r"
proof (rule call_returns_once_ready)
  show "ready_for_good 0 By_close (line_run (demo_line @ [Line_lost]))" by code_simp
  show "5 \<le> own_steps 0 By_close (replicate 5 (Call_goes 0 By_close))" by (simp add: own_steps_def)
qed

lemma response_reaches_call_witness:
  "ca_at (ln_calls (line_run (demo_line @ [Response_read \<lparr>re_RequestId = ''req'', re_Body = 7\<rparr>, Delivery_goes 0, Delivery_goes 0,
      Call_goes 0 By_response, Call_goes 0 By_close])) ! 0) = Returned (Answered \<lparr>re_RequestId = ''req'', re_Body = 7\<rparr>)"
proof -
  have s: "line_run demo_line = \<lparr>ln_closed = False, ln_pending = [(''req'', 0)],
      ln_calls = [\<lparr>ca_id = ''req'', ca_at = Waiting, ca_done = False, ca_slot = None\<rparr>], ln_deliveries = []\<rparr>"
    by code_simp
  show ?thesis
    using response_reaches_call [of 0 demo_line "\<lparr>re_RequestId = ''req'', re_Body = 7\<rparr>" 0 By_close] unfolding s by simp
qed

lemma pending_calls_exact_witness: "ln_pending (line_run (demo_line @ [Line_lost, Call_goes 0 By_close, Call_goes 0 By_close])) = []"
proof -
  have "list_all (\<lambda>c. \<not> in_flight (ca_at c)) (ln_calls (line_run (demo_line @ [Line_lost, Call_goes 0 By_close, Call_goes 0 By_close])))"
    by code_simp
  then show ?thesis using pending_calls_exact [of "''req''" 0 "demo_line @ [Line_lost, Call_goes 0 By_close, Call_goes 0 By_close]"] by blast
qed

definition demo_answered :: "nat line_event list" where
  "demo_answered = demo_line @ [Response_read \<lparr>re_RequestId = ''req'', re_Body = 7\<rparr>, Delivery_goes 0, Delivery_goes 0,
     Call_goes 0 By_response, Call_goes 0 By_close]"

lemma calls_answered_by_own_responses_witness:
  "length (ln_calls (line_run demo_answered)) = 1 \<and> ca_at (ln_calls (line_run demo_answered) ! 0) = Returned (Answered \<lparr>re_RequestId = ''req'', re_Body = 7\<rparr>)
   \<and> ca_id (ln_calls (line_run demo_answered) ! 0) = ''req''"
proof -
  have run: "length (ln_calls (line_run demo_answered)) = 1"
    "ca_at (ln_calls (line_run demo_answered) ! 0) = Returned (Answered \<lparr>re_RequestId = ''req'', re_Body = 7\<rparr>)"
    by code_simp+
  have "\<forall>r. ca_at (ln_calls (line_run demo_answered) ! 0) = Returned (Answered r) \<longrightarrow> re_RequestId r = ca_id (ln_calls (line_run demo_answered) ! 0)"
    using calls_answered_by_own_responses [of demo_answered] run(1) by simp
  then show ?thesis using run by simp
qed

end
