(* ===== verification/File_Edit.thy ===== *)
theory File_Edit
  imports Go_Text
begin

text \<open>
  Edits of text files on a Node (\<open>internal/node/file_edit.go\<close>, \<open>file_edit_atomic.go\<close>, on Unix). A request names a file, the SHA-256 its content
  must have and texts to replace; the planner (\<open>planFileEdit\<close>) computes the new content from ranges of the old one, and the writer puts it into a
  temporary file, checks the hash again and renames. The disk maps real paths to files; a file is the string of its bytes. Parameters are
  SHA-256, the resolution of symbolic links, the name \<open>os.CreateTemp\<close> picks, which file operations fail (\<open>fe_fault\<close>, by number), and what
  others do to the disk: while the lock is awaited (0), while the temporary file is written (1) and between the second check and the rename (2).
\<close>

section \<open>Searching bytes\<close>

fun index_sub :: "string \<Rightarrow> string \<Rightarrow> nat option" where
  "index_sub sub [] = (if sub = [] then Some 0 else None)"
| "index_sub sub (c # s) = (if has_prefix (c # s) sub then Some 0 else map_option Suc (index_sub sub s))"

lemma index_sub_Some:
  "index_sub sub s = Some i \<Longrightarrow> s = take i s @ sub @ drop (i + length sub) s \<and> i + length sub \<le> length s"
proof (induction s arbitrary: i)
  case Nil then show ?case by (simp split: if_splits)
next
  case (Cons c s)
  show ?case
  proof (cases "has_prefix (c # s) sub")
    case True
    then obtain t where "c # s = sub @ t" by (auto simp: has_prefix_iff)
    then show ?thesis using Cons.prems True by (metis add_0 append_eq_conv_conj append_Nil index_sub.simps(2) le_add1 length_append option.inject take_0)
  next
    case False
    then obtain j where "i = Suc j" "index_sub sub s = Some j" using Cons.prems by auto
    then show ?thesis using Cons.IH [of j] by simp
  qed
qed

lemma index_sub_less: "index_sub sub s = Some i \<Longrightarrow> sub \<noteq> [] \<Longrightarrow> length s - (i + length sub) < length s"
  using index_sub_Some [of sub s i] by (cases sub) auto

text \<open>\<open>bytes.Count\<close> of a text that is not empty counts matches that do not overlap.\<close>

function count_sub :: "string \<Rightarrow> string \<Rightarrow> nat" where
  "count_sub sub s =
     (if sub = [] then 0 else case index_sub sub s of None \<Rightarrow> 0 | Some i \<Rightarrow> Suc (count_sub sub (drop (i + length sub) s)))"
  by pat_completeness auto
termination by (relation "measure (\<lambda>(sub, s). length s)") (auto dest!: index_sub_less)

declare count_sub.simps [simp del]

function replace_all :: "string \<Rightarrow> string \<Rightarrow> string \<Rightarrow> string" where
  "replace_all sub by_text s =
     (if sub = [] then s
      else case index_sub sub s of None \<Rightarrow> s | Some i \<Rightarrow> take i s @ by_text @ replace_all sub by_text (drop (i + length sub) s))"
  by pat_completeness auto
termination by (relation "measure (\<lambda>(sub, b, s). length s)") (auto dest!: index_sub_less)

declare replace_all.simps [simp del]

section \<open>Newlines\<close>

abbreviation CR :: char where "CR \<equiv> CHR 0x0D"
abbreviation LF :: char where "LF \<equiv> CHR 0x0A"

definition dominantNewline :: "string \<Rightarrow> string" where
  "dominantNewline s =
     (let crlf = int (count_sub [CR, LF] s); lf = int (count_sub [LF] s) - crlf in if lf < crlf then [CR, LF] else [LF])"

definition normalizeNewlines :: "string \<Rightarrow> string \<Rightarrow> string" where
  "normalizeNewlines v newline =
     (let v = replace_all [CR] [LF] (replace_all [CR, LF] [LF] v)
      in if newline = [CR, LF] then replace_all [LF] [CR, LF] v else v)"

definition newlineCount :: "string \<Rightarrow> nat" where "newlineCount v = count_sub [LF] v"

definition logicalLineCount :: "string \<Rightarrow> nat" where
  "logicalLineCount v = (if v = [] then 0 else if last v \<noteq> LF then newlineCount v + 1 else newlineCount v)"

definition validEditableText :: "string \<Rightarrow> bool" where
  "validEditableText s = (CHR 0x00 \<notin> set s \<and> rune_count s \<noteq> None)"

section \<open>Requests, the disk and what the code does not decide\<close>

datatype disk_entry = Regular_file nat string | Directory | Special_file

type_synonym disk = "string \<Rightarrow> disk_entry option"

datatype edit_error =
    Invalid_edit string
  | FileRevisionError string string string
  | Oversized_revision
  | ErrEditNotUnique
  | ErrEditOverlap
  | ErrFileAlreadyExists
  | ErrNotRegularFile
  | ErrReadLimit
  | ErrBinaryOrInvalidUTF8
  | ErrAbsolutePathRequired
  | ErrNotExist
  | Edit_canceled
  | Edit_io string

record file_env =
  fe_sha :: "string \<Rightarrow> string"
  fe_real :: "disk \<Rightarrow> string \<Rightarrow> edit_error + string"
  fe_temp :: "disk \<Rightarrow> string \<Rightarrow> string"
  fe_fault :: "nat \<Rightarrow> bool"
  fe_written :: nat
  fe_others :: "nat \<Rightarrow> disk \<Rightarrow> disk"
  fe_canceled :: bool

record fileTextEdit =
  ed_OldText :: string
  ed_NewText :: string

record fileEditParams =
  ep_Path :: string
  ep_PreviewOf :: string
  ep_Content :: string
  ep_OldText :: string
  ep_NewText :: string
  ep_Edits :: "fileTextEdit list"
  ep_ExpectedFileSHA256 :: string
  ep_ExpectedAbsent :: "bool option"

record fileEditResult =
  er_Success :: bool
  er_Changed :: bool
  er_Path :: string
  er_Operation :: string
  er_Preview :: bool
  er_EditsApplied :: nat
  er_OldSHA256 :: string
  er_NewSHA256 :: string
  er_BytesChanged :: nat
  er_LineDelta :: int
  er_Diff :: string
  er_DiffTruncated :: bool

record plannedFileEdit =
  pl_target :: string
  pl_action :: string
  pl_before :: string
  pl_after :: string
  pl_beforeSHA :: string
  pl_mode :: nat
  pl_changes :: "fileTextEdit list"

definition maxEditableFileBytes :: int where "maxEditableFileBytes = 2097152"
definition maxEditTextBytes :: int where "maxEditTextBytes = 65536"
definition maxEditTotalBytes :: int where "maxEditTotalBytes = 524288"
definition maxFileEdits :: int where "maxFileEdits = 64"
definition maxReturnedDiffBytes :: int where "maxReturnedDiffBytes = 16384"

definition sha256String :: "file_env \<Rightarrow> string \<Rightarrow> string" where
  "sha256String E s = ''sha256:'' @ hex_text (fe_sha E s)"

section \<open>Paths\<close>

text \<open>\<open>filepath.Dir\<close>, \<open>filepath.Base\<close> and \<open>filepath.Join\<close> of two elements, on Unix.\<close>

definition path_dir :: "string \<Rightarrow> string" where
  "path_dir p = path_clean (rev (dropWhile (\<lambda>c. c \<noteq> CHR ''/'') (rev p)))"

definition path_base :: "string \<Rightarrow> string" where
  "path_base p =
     (if p = [] then ''.''
      else let b = rev (takeWhile (\<lambda>c. c \<noteq> CHR ''/'') (dropWhile (\<lambda>c. c = CHR ''/'') (rev p))) in if b = [] then ''/'' else b)"

definition path_join :: "string \<Rightarrow> string \<Rightarrow> string" where
  "path_join a b = (if a \<noteq> [] then path_clean (a @ CHR ''/'' # b) else if b \<noteq> [] then path_clean b else [])"

definition ResolveMachinePath :: "file_env \<Rightarrow> disk \<Rightarrow> string \<Rightarrow> edit_error + string" where
  "ResolveMachinePath E d path =
     (let p = trim_space path
      in if p = [] \<or> CHR 0x00 \<in> set p \<or> \<not> has_prefix p ''/'' then Inl ErrAbsolutePathRequired
         else case fe_real E d (path_clean p) of Inl e \<Rightarrow> Inl e | Inr resolved \<Rightarrow> Inr (path_clean resolved))"

definition resolveFileEditLockTarget :: "file_env \<Rightarrow> disk \<Rightarrow> string \<Rightarrow> string \<Rightarrow> edit_error + string" where
  "resolveFileEditLockTarget E d path action =
     (let p = trim_space path
      in if p = [] \<or> CHR 0x00 \<in> set p \<or> \<not> has_prefix p ''/'' then Inl ErrAbsolutePathRequired
         else let clean = path_clean p
         in if action \<noteq> ''create'' then ResolveMachinePath E d clean
            else case ResolveMachinePath E d (path_dir clean) of Inl e \<Rightarrow> Inl e | Inr parent \<Rightarrow> Inr (path_join parent (path_base clean)))"

section \<open>The planner\<close>

record editRange =
  rg_start :: nat
  rg_end :: nat
  rg_newText :: string
  rg_change :: fileTextEdit

text \<open>One turn of the loop over the edits; \<open>bytes\<close> counts the bytes of the edits so far.\<close>

definition plan_range :: "string \<Rightarrow> string \<Rightarrow> nat \<Rightarrow> fileTextEdit \<Rightarrow> edit_error + editRange" where
  "plan_range before style bytes edit =
     (let old = ed_OldText edit; new = ed_NewText edit
      in if old = [] \<or> maxEditTextBytes < int (length old) \<or> maxEditTextBytes < int (length new) then Inl (Invalid_edit ''edit text is empty or exceeds limit'')
         else if maxEditTotalBytes < int (bytes + length old + length new) \<or> rune_count old = None \<or> rune_count new = None
           \<or> CHR 0x00 \<in> set old \<or> CHR 0x00 \<in> set new then Inl (Invalid_edit ''edit text exceeds limit or is not text'')
         else let oldText = normalizeNewlines old style; newText = normalizeNewlines new style
         in if count_sub oldText before \<noteq> 1 then Inl ErrEditNotUnique
            else case index_sub oldText before of
              None \<Rightarrow> Inl ErrEditNotUnique
            | Some start \<Rightarrow> Inr \<lparr>rg_start = start, rg_end = start + length oldText, rg_newText = newText,
                rg_change = \<lparr>ed_OldText = oldText, ed_NewText = newText\<rparr>\<rparr>)"

fun plan_ranges :: "string \<Rightarrow> string \<Rightarrow> nat \<Rightarrow> fileTextEdit list \<Rightarrow> edit_error + editRange list" where
  "plan_ranges before style bytes [] = Inr []"
| "plan_ranges before style bytes (edit # edits) =
     (case plan_range before style bytes edit of
        Inl e \<Rightarrow> Inl e
      | Inr r \<Rightarrow> (case plan_ranges before style (bytes + length (ed_OldText edit) + length (ed_NewText edit)) edits of
          Inl e \<Rightarrow> Inl e | Inr rs \<Rightarrow> Inr (r # rs)))"

fun ranges_overlap :: "editRange list \<Rightarrow> bool" where
  "ranges_overlap (a # b # rs) = (rg_start b < rg_end a \<or> ranges_overlap (b # rs))"
| "ranges_overlap rs = False"

fun apply_ranges :: "string \<Rightarrow> nat \<Rightarrow> editRange list \<Rightarrow> string" where
  "apply_ranges before cursor [] = drop cursor before"
| "apply_ranges before cursor (r # rs) =
     take (rg_start r - cursor) (drop cursor before) @ rg_newText r @ apply_ranges before (rg_end r) rs"

definition plan_edits :: "fileEditParams \<Rightarrow> string \<Rightarrow> edit_error + fileTextEdit list" where
  "plan_edits input action =
     (if action = ''replace''
      then if ep_Edits input \<noteq> [] \<or> ep_OldText input = [] then Inl (Invalid_edit ''oldText is required and edits must be empty'')
           else Inr [\<lparr>ed_OldText = ep_OldText input, ed_NewText = ep_NewText input\<rparr>]
      else if ep_Edits input = [] \<or> ep_OldText input \<noteq> [] \<or> ep_NewText input \<noteq> [] then Inl (Invalid_edit ''editMany requires edits only'')
      else Inr (ep_Edits input))"

text \<open>The new content, with the changes in the order of their places.\<close>

definition plan_content :: "string \<Rightarrow> fileTextEdit list \<Rightarrow> edit_error + string \<times> fileTextEdit list" where
  "plan_content before edits =
     (if maxFileEdits < int (length edits) then Inl (Invalid_edit ''too many edits'')
      else case plan_ranges before (dominantNewline before) 0 edits of
        Inl e \<Rightarrow> Inl e
      | Inr rs \<Rightarrow>
          let ranges = sort_key rg_start rs; after = apply_ranges before 0 ranges
          in if ranges_overlap ranges then Inl ErrEditOverlap
             else if maxEditableFileBytes < int (length after) then Inl ErrReadLimit
             else Inr (after, map rg_change ranges))"

definition planFileCreate :: "file_env \<Rightarrow> disk \<Rightarrow> fileEditParams \<Rightarrow> edit_error + plannedFileEdit" where
  "planFileCreate E d input =
     (if ep_ExpectedAbsent input \<noteq> Some True then Inl (Invalid_edit ''expectedAbsent=true is required'')
      else if ep_ExpectedFileSHA256 input \<noteq> [] \<or> ep_OldText input \<noteq> [] \<or> ep_NewText input \<noteq> [] \<or> ep_Edits input \<noteq> []
      then Inl (Invalid_edit ''create accepts only content and expectedAbsent'')
      else if maxEditableFileBytes < int (length (ep_Content input)) then Inl ErrReadLimit
      else if \<not> validEditableText (ep_Content input) then Inl ErrBinaryOrInvalidUTF8
      else let clean = trim_space (ep_Path input)
      in if clean = [] \<or> CHR 0x00 \<in> set clean \<or> \<not> has_prefix clean ''/'' then Inl ErrAbsolutePathRequired
         else case ResolveMachinePath E d (path_dir (path_clean clean)) of
           Inl e \<Rightarrow> Inl e
         | Inr parent \<Rightarrow>
             if fe_fault E 0 then Inl (Edit_io ''stat'')
             else case d parent of
               None \<Rightarrow> Inl ErrNotExist
             | Some entry \<Rightarrow>
                 if entry \<noteq> Directory then Inl ErrNotRegularFile
                 else let target = path_join parent (path_base clean)
                 in if fe_fault E 1 then Inl (Edit_io ''lstat'')
                    else if d target \<noteq> None then Inl ErrFileAlreadyExists
                    else Inr \<lparr>pl_target = target, pl_action = ''create'', pl_before = [], pl_after = ep_Content input, pl_beforeSHA = [], pl_mode = 0,
                      pl_changes = [\<lparr>ed_OldText = [], ed_NewText = ep_Content input\<rparr>]\<rparr>)"

definition planFileEdit :: "file_env \<Rightarrow> disk \<Rightarrow> fileEditParams \<Rightarrow> string \<Rightarrow> edit_error + plannedFileEdit" where
  "planFileEdit E d input action =
     (if trim_space (ep_Path input) = [] then Inl (Invalid_edit ''path is required'')
      else if action = ''create'' then planFileCreate E d input
      else if ep_ExpectedFileSHA256 input = [] then Inl (Invalid_edit ''expectedFileSha256 is required'')
      else case ResolveMachinePath E d (ep_Path input) of
        Inl e \<Rightarrow> Inl e
      | Inr target \<Rightarrow>
          if fe_fault E 0 then Inl (Edit_io ''stat'')
          else case d target of
            None \<Rightarrow> Inl ErrNotExist
          | Some (Regular_file mode before) \<Rightarrow>
              if maxEditableFileBytes < int (length before) then Inl ErrReadLimit
              else if fe_fault E 1 then Inl (Edit_io ''read'')
              else if \<not> validEditableText before then Inl ErrBinaryOrInvalidUTF8
              else let beforeSHA = sha256String E before
              in if ep_ExpectedFileSHA256 input \<noteq> beforeSHA
                 then Inl (FileRevisionError (path_clean target) (ep_ExpectedFileSHA256 input) beforeSHA)
                 else case plan_edits input action of
                   Inl e \<Rightarrow> Inl e
                 | Inr edits \<Rightarrow> (case plan_content before edits of
                     Inl e \<Rightarrow> Inl e
                   | Inr (after, changes) \<Rightarrow> Inr \<lparr>pl_target = target, pl_action = action, pl_before = before, pl_after = after,
                       pl_beforeSHA = beforeSHA, pl_mode = mode, pl_changes = changes\<rparr>)
          | Some other \<Rightarrow> Inl ErrNotRegularFile)"

section \<open>The writer\<close>

text \<open>The temporary file is removed when anything fails before it is installed; \<open>drop_temp\<close> is that deferred call.\<close>

definition drop_temp :: "file_env \<Rightarrow> string \<Rightarrow> disk \<Rightarrow> disk" where
  "drop_temp E tmp d = (if fe_fault E 11 then d else d(tmp := None))"

definition writePreparedEdit ::
  "file_env \<Rightarrow> string \<Rightarrow> string \<Rightarrow> nat \<Rightarrow> (string \<Rightarrow> disk \<Rightarrow> (edit_error + unit) \<times> disk) \<Rightarrow> disk \<Rightarrow> (edit_error + unit) \<times> disk" where
  "writePreparedEdit E path data mode install d =
     (let tmp = fe_temp E d (path_dir path); perm = mode mod 512
      in if fe_fault E 2 \<or> d tmp \<noteq> None then (Inl (Edit_io ''create edit temporary file''), d)
         else if fe_fault E 3 then (Inl (Edit_io ''apply file mode''), drop_temp E tmp (d(tmp \<mapsto> Regular_file 384 [])))
         else if fe_fault E 4
         then (Inl (Edit_io ''write edit temporary file''), drop_temp E tmp (d(tmp \<mapsto> Regular_file perm (take (fe_written E) data))))
         else let d1 = d(tmp \<mapsto> Regular_file perm data)
         in if fe_fault E 5 then (Inl (Edit_io ''sync edit temporary file''), drop_temp E tmp d1)
            else if fe_fault E 6 then (Inl (Edit_io ''close edit temporary file''), drop_temp E tmp d1)
            else case install tmp (fe_others E 1 d1) of
              (Inl e, d2) \<Rightarrow> (Inl e, drop_temp E tmp d2)
            | (Inr u, d2) \<Rightarrow> if fe_fault E 7 then (Inl (Edit_io ''sync parent directory''), d2) else (Inr (), d2))"

definition boundedFileSHA256 :: "file_env \<Rightarrow> disk \<Rightarrow> string \<Rightarrow> int \<Rightarrow> edit_error + string" where
  "boundedFileSHA256 E d path limit =
     (if fe_fault E 10 then Inl (Edit_io ''read'')
      else case d path of
        None \<Rightarrow> Inl ErrNotExist
      | Some (Regular_file mode content) \<Rightarrow> if limit < int (length content) then Inl Oversized_revision else Inr (sha256String E content)
      | Some other \<Rightarrow> Inl ErrNotRegularFile)"

text \<open>\<open>os.Rename\<close> and \<open>os.Link\<close> with \<open>os.Remove\<close>.\<close>

definition atomicReplaceEditedFile :: "file_env \<Rightarrow> string \<Rightarrow> string \<Rightarrow> disk \<Rightarrow> (edit_error + unit) \<times> disk" where
  "atomicReplaceEditedFile E tmp path d =
     (if fe_fault E 8 \<or> d tmp = None \<or> d path = Some Directory then (Inl (Edit_io ''rename''), d) else (Inr (), d(path := d tmp, tmp := None)))"

definition atomicCreateEditedFile :: "file_env \<Rightarrow> string \<Rightarrow> string \<Rightarrow> disk \<Rightarrow> (edit_error + unit) \<times> disk" where
  "atomicCreateEditedFile E tmp path d =
     (if fe_fault E 8 \<or> d tmp = None \<or> d path \<noteq> None then (Inl (Edit_io ''link''), d)
      else if fe_fault E 9 then (Inl (Edit_io ''remove''), d(path := d tmp)) else (Inr (), d(path := d tmp, tmp := None)))"

definition writeAtomicEditedFile :: "file_env \<Rightarrow> string \<Rightarrow> string \<Rightarrow> nat \<Rightarrow> string \<Rightarrow> disk \<Rightarrow> (edit_error + unit) \<times> disk" where
  "writeAtomicEditedFile E path data mode expectedSHA =
     writePreparedEdit E path data mode (\<lambda>tmp d.
       case boundedFileSHA256 E d path maxEditableFileBytes of
         Inl e \<Rightarrow> (Inl e, d)
       | Inr currentSHA \<Rightarrow>
           if currentSHA \<noteq> expectedSHA then (Inl (FileRevisionError (path_clean path) expectedSHA currentSHA), d)
           else atomicReplaceEditedFile E tmp path (fe_others E 2 d))"

definition writeAtomicCreatedFile :: "file_env \<Rightarrow> string \<Rightarrow> string \<Rightarrow> nat \<Rightarrow> disk \<Rightarrow> (edit_error + unit) \<times> disk" where
  "writeAtomicCreatedFile E path data mode =
     writePreparedEdit E path data mode (\<lambda>tmp d.
       if fe_fault E 10 then (Inl (Edit_io ''lstat''), d)
       else if d path \<noteq> None then (Inl ErrFileAlreadyExists, d)
       else case atomicCreateEditedFile E tmp path (fe_others E 2 d) of
         (Inl e, d1) \<Rightarrow> (Inl (if d1 path \<noteq> None then ErrFileAlreadyExists else e), d1)
       | (Inr u, d1) \<Rightarrow> (Inr (), d1))"

section \<open>The preview\<close>

function valid_cut :: "string \<Rightarrow> string" where
  "valid_cut v = (if rune_count v \<noteq> None then v else valid_cut (butlast v))"
  by pat_completeness auto
termination
proof (relation "measure length")
  fix v assume "\<not> rune_count v \<noteq> None"
  then have "v \<noteq> []" by (auto simp: rune_count_def)
  then show "(butlast v, v) \<in> measure length" by simp
qed simp

declare valid_cut.simps [simp del]

text \<open>The builder and whether all of the value found room.\<close>

definition append_diff :: "string \<Rightarrow> string \<Rightarrow> string \<times> bool" where
  "append_diff b v =
     (let remaining = maxReturnedDiffBytes - int (length b)
      in if remaining \<le> 0 then (b, False)
         else if remaining < int (length v) then (b @ valid_cut (take (nat remaining) v), False) else (b @ v, True))"

function appendDiffLines :: "string \<Rightarrow> string \<Rightarrow> string \<Rightarrow> string \<times> bool" where
  "appendDiffLines prefix v b =
     (if v = [] then (b, True)
      else let line = takeWhile (\<lambda>c. c \<noteq> LF) v
      in case append_diff b (prefix @ trim_suffix line [CR] @ [LF]) of
           (b, False) \<Rightarrow> (b, False)
         | (b, True) \<Rightarrow> appendDiffLines prefix (drop (Suc (length line)) v) b)"
  by pat_completeness auto
termination by (relation "measure (\<lambda>(prefix, v, b). length v)") auto

declare appendDiffLines.simps [simp del]

fun append_changes :: "string \<Rightarrow> fileTextEdit list \<Rightarrow> string \<Rightarrow> string \<times> bool" where
  "append_changes action [] b = (b, True)"
| "append_changes action (edit # edits) b =
     (case append_diff b (''@@ '' @ action @ '' @@'' @ [LF]) of
        (b, False) \<Rightarrow> (b, False)
      | (b, True) \<Rightarrow> (case appendDiffLines ''-'' (ed_OldText edit) b of
          (b, False) \<Rightarrow> (b, False)
        | (b, True) \<Rightarrow> (case appendDiffLines ''+'' (ed_NewText edit) b of
            (b, False) \<Rightarrow> (b, False) | (b, True) \<Rightarrow> append_changes action edits b)))"

definition boundedEditDiff :: "string \<Rightarrow> string \<Rightarrow> fileTextEdit list \<Rightarrow> string \<times> bool" where
  "boundedEditDiff path action edits =
     (case append_diff [] (''--- a/'' @ path @ [LF] @ ''+++ b/'' @ path @ [LF]) of
        (b, False) \<Rightarrow> (b, True)
      | (b, True) \<Rightarrow> (case append_changes action edits b of (b, whole) \<Rightarrow> (b, \<not> whole)))"

section \<open>The request\<close>

definition changedByteCount :: "fileTextEdit list \<Rightarrow> bool \<Rightarrow> nat" where
  "changedByteCount edits changed = (if changed then sum_list (map (\<lambda>e. length (ed_OldText e) + length (ed_NewText e)) edits) else 0)"

definition requested_action :: "string \<Rightarrow> fileEditParams \<Rightarrow> string" where
  "requested_action action input =
     (let requested = (if action = ''preview'' then ep_PreviewOf input else action) in if requested = ''edit'' then ''replace'' else requested)"

definition edit_result :: "file_env \<Rightarrow> string \<Rightarrow> bool \<Rightarrow> bool \<Rightarrow> plannedFileEdit \<Rightarrow> fileEditResult" where
  "edit_result E requested preview changed plan =
     (let diff = (if preview then boundedEditDiff (path_base (pl_target plan)) requested (pl_changes plan) else ([], False))
      in \<lparr>er_Success = True, er_Changed = changed, er_Path = path_clean (pl_target plan), er_Operation = requested, er_Preview = preview,
          er_EditsApplied = (if changed then length (pl_changes plan) else 0), er_OldSHA256 = pl_beforeSHA plan,
          er_NewSHA256 = sha256String E (pl_after plan), er_BytesChanged = changedByteCount (pl_changes plan) changed,
          er_LineDelta = int (logicalLineCount (pl_after plan)) - int (logicalLineCount (pl_before plan)),
          er_Diff = fst diff, er_DiffTruncated = snd diff\<rparr>)"

definition fileEdit :: "file_env \<Rightarrow> string \<Rightarrow> fileEditParams \<Rightarrow> disk \<Rightarrow> (edit_error + fileEditResult) \<times> disk" where
  "fileEdit E action input d =
     (if fe_canceled E then (Inl Edit_canceled, d)
      else let preview = (action = ''preview''); requested = requested_action action input
      in if requested \<noteq> ''create'' \<and> requested \<noteq> ''replace'' \<and> requested \<noteq> ''editMany''
         then (Inl (Invalid_edit ''action must be create, replace, editMany, or preview with previewOf''), d)
         else case resolveFileEditLockTarget E d (ep_Path input) requested of
           Inl e \<Rightarrow> (Inl e, d)
         | Inr lockTarget \<Rightarrow>
             let d0 = fe_others E 0 d
             in case planFileEdit E d0 input requested of
               Inl e \<Rightarrow> (Inl e, d0)
             | Inr plan \<Rightarrow>
                 let changed = (pl_before plan \<noteq> pl_after plan \<or> requested = ''create'')
                 in case (if changed \<and> \<not> preview
                          then if requested = ''create'' then writeAtomicCreatedFile E (pl_target plan) (pl_after plan) 384 d0
                               else writeAtomicEditedFile E (pl_target plan) (pl_after plan) (pl_mode plan) (pl_beforeSHA plan) d0
                          else (Inr (), d0)) of
                   (Inl e, d1) \<Rightarrow> (Inl e, d1)
                 | (Inr u, d1) \<Rightarrow> (Inr (edit_result E requested preview changed plan), d1))"

end
