(* ===== verification/File_Edit_Props.thy ===== *)
theory File_Edit_Props
  imports File_Edit "HOL-Library.Multiset"
begin

text \<open>What edits of files promise: the new content is the old one with exactly the named texts exchanged, the newline style stays, failed requests and
  previews leave the disk alone, and the preview is bounded.\<close>

section \<open>Exchanging texts\<close>

text \<open>\<open>weave gs xs\<close>: the texts \<open>xs\<close> between the gaps \<open>gs\<close>.\<close>

fun weave :: "string list \<Rightarrow> string list \<Rightarrow> string" where
  "weave (g # gs) (x # xs) = g @ x @ weave gs xs"
| "weave [g] [] = g"
| "weave gs xs = []"

definition range_ok :: "string \<Rightarrow> editRange \<Rightarrow> bool" where
  "range_ok before r =
     (rg_newText r = ed_NewText (rg_change r) \<and> rg_end r = rg_start r + length (ed_OldText (rg_change r))
      \<and> drop (rg_start r) before = ed_OldText (rg_change r) @ drop (rg_end r) before \<and> rg_end r \<le> length before
      \<and> count_sub (ed_OldText (rg_change r)) before = 1)"

lemma apply_ranges_weave:
  assumes "\<forall>r \<in> set rs. range_ok before r" "\<not> ranges_overlap rs" "rs \<noteq> [] \<longrightarrow> cursor \<le> rg_start (hd rs)"
  shows "\<exists>gs. length gs = Suc (length rs) \<and> drop cursor before = weave gs (map (\<lambda>r. ed_OldText (rg_change r)) rs)
    \<and> apply_ranges before cursor rs = weave gs (map (\<lambda>r. ed_NewText (rg_change r)) rs)"
  using assms
proof (induction rs arbitrary: cursor)
  case Nil
  have "length [drop cursor before] = Suc (length []) \<and> drop cursor before = weave [drop cursor before] (map (\<lambda>r. ed_OldText (rg_change r)) [])
    \<and> apply_ranges before cursor [] = weave [drop cursor before] (map (\<lambda>r. ed_NewText (rg_change r)) [])" by simp
  then show ?case by blast
next
  case (Cons r rs)
  have ok: "range_ok before r" and cur: "cursor \<le> rg_start r" using Cons.prems by simp_all
  have "\<not> ranges_overlap rs" "rs \<noteq> [] \<longrightarrow> rg_end r \<le> rg_start (hd rs)" using Cons.prems(2) by (cases rs; simp)+
  then obtain gs where gs: "length gs = Suc (length rs)" "drop (rg_end r) before = weave gs (map (\<lambda>r. ed_OldText (rg_change r)) rs)"
    "apply_ranges before (rg_end r) rs = weave gs (map (\<lambda>r. ed_NewText (rg_change r)) rs)"
    using Cons.IH [of "rg_end r"] Cons.prems(1) by auto
  let ?g = "take (rg_start r - cursor) (drop cursor before)"
  have "drop cursor before = ?g @ drop (rg_start r) before"
    using cur by (metis append_take_drop_id drop_drop le_add_diff_inverse2)
  then have "drop cursor before = weave (?g # gs) (map (\<lambda>r. ed_OldText (rg_change r)) (r # rs))"
    using ok gs(2) by (simp add: range_ok_def)
  moreover have "apply_ranges before cursor (r # rs) = weave (?g # gs) (map (\<lambda>r. ed_NewText (rg_change r)) (r # rs))"
    using ok gs(3) by (simp add: range_ok_def)
  moreover have "length (?g # gs) = Suc (length (r # rs))" using gs(1) by simp
  ultimately show ?case by blast
qed

definition normal_edit :: "string \<Rightarrow> fileTextEdit \<Rightarrow> fileTextEdit" where
  "normal_edit style e = \<lparr>ed_OldText = normalizeNewlines (ed_OldText e) style, ed_NewText = normalizeNewlines (ed_NewText e) style\<rparr>"

lemma plan_range_ok:
  assumes "plan_range before style n edit = Inr r"
  shows "range_ok before r \<and> rg_change r = normal_edit style edit \<and> ed_OldText edit \<noteq> []"
proof -
  let ?old = "normalizeNewlines (ed_OldText edit) style"
  obtain i where i: "index_sub ?old before = Some i" "count_sub ?old before = 1" "ed_OldText edit \<noteq> []"
    "r = \<lparr>rg_start = i, rg_end = i + length ?old, rg_newText = normalizeNewlines (ed_NewText edit) style,
       rg_change = \<lparr>ed_OldText = ?old, ed_NewText = normalizeNewlines (ed_NewText edit) style\<rparr>\<rparr>"
    using assms by (auto simp: plan_range_def Let_def split: if_splits option.splits)
  have at: "before = take i before @ ?old @ drop (i + length ?old) before" and le: "i + length ?old \<le> length before"
    using index_sub_Some [OF i(1)] by simp_all
  have "drop i (take i before @ ?old @ drop (i + length ?old) before) = ?old @ drop (i + length ?old) before" using le by simp
  then have "drop i before = ?old @ drop (i + length ?old) before" using at by metis
  then show ?thesis using i le by (simp add: range_ok_def normal_edit_def)
qed

lemma plan_ranges_ok:
  "plan_ranges before style n edits = Inr rs \<Longrightarrow>
     (\<forall>r \<in> set rs. range_ok before r) \<and> map rg_change rs = map (normal_edit style) edits \<and> (\<forall>e \<in> set edits. ed_OldText e \<noteq> [])"
  by (induction edits arbitrary: n rs) (auto split: sum.splits dest!: plan_range_ok)

lemma plan_content_weave:
  assumes "plan_content before edits = Inr (after, changes)"
  shows "(\<exists>gs. length gs = Suc (length changes) \<and> before = weave gs (map ed_OldText changes) \<and> after = weave gs (map ed_NewText changes))
    \<and> mset changes = mset (map (normal_edit (dominantNewline before)) edits) \<and> (\<forall>c \<in> set changes. count_sub (ed_OldText c) before = 1)
    \<and> (\<forall>e \<in> set edits. ed_OldText e \<noteq> []) \<and> int (length after) \<le> maxEditableFileBytes"
proof -
  obtain rs where rs: "plan_ranges before (dominantNewline before) 0 edits = Inr rs" "\<not> ranges_overlap (sort_key rg_start rs)"
    "after = apply_ranges before 0 (sort_key rg_start rs)" "changes = map rg_change (sort_key rg_start rs)" "int (length after) \<le> maxEditableFileBytes"
    using assms by (auto simp: plan_content_def Let_def split: if_splits sum.splits)
  have ok: "\<forall>r \<in> set rs. range_ok before r" "map rg_change rs = map (normal_edit (dominantNewline before)) edits" "\<forall>e \<in> set edits. ed_OldText e \<noteq> []"
    using plan_ranges_ok [OF rs(1)] by simp_all
  have "\<exists>gs. length gs = Suc (length changes) \<and> before = weave gs (map ed_OldText changes) \<and> after = weave gs (map ed_NewText changes)"
    using apply_ranges_weave [of "sort_key rg_start rs" before 0] ok(1) rs by (simp add: comp_def)
  moreover have "mset changes = mset (map rg_change rs)" using rs(4) by (simp add: mset_map)
  moreover have "\<forall>c \<in> set changes. count_sub (ed_OldText c) before = 1" using ok(1) rs(4) by (auto simp: range_ok_def)
  ultimately show ?thesis using ok rs(5) by simp
qed

lemma planFileEdit_ok:
  assumes "planFileEdit E d input action = Inr plan" "action \<noteq> ''create''"
  obtains edits where "ResolveMachinePath E d (ep_Path input) = Inr (pl_target plan)"
    "d (pl_target plan) = Some (Regular_file (pl_mode plan) (pl_before plan))" "sha256String E (pl_before plan) = ep_ExpectedFileSHA256 input"
    "pl_beforeSHA plan = ep_ExpectedFileSHA256 input" "plan_edits input action = Inr edits"
    "plan_content (pl_before plan) edits = Inr (pl_after plan, pl_changes plan)"
  using assms by (auto simp: planFileEdit_def Let_def split: if_splits sum.splits option.splits disk_entry.splits)

section \<open>Newlines\<close>

lemma replace_all_nil [simp]: "replace_all sub t [] = []"
  by (simp add: replace_all.simps)

lemma replace_all_hit: "sub \<noteq> [] \<Longrightarrow> replace_all sub t (sub @ s) = t @ replace_all sub t s"
  by (cases sub) (simp_all add: replace_all.simps [of _ _ "_ # _"] has_prefix_def)

lemma replace_all_miss:
  assumes "\<not> has_prefix (c # s) sub" shows "replace_all sub t (c # s) = c # replace_all sub t s"
proof -
  have "sub \<noteq> []" using assms by (auto simp: has_prefix_def)
  then show ?thesis using assms by (simp add: replace_all.simps [of _ _ "c # s"] replace_all.simps [of _ _ s] split: option.split)
qed

lemma replace_all_byte: "replace_all [b] t s = concat (map (\<lambda>c. if c = b then t else [c]) s)"
proof (induction s)
  case (Cons c s)
  show ?case
  proof (cases "c = b")
    case True then show ?thesis using Cons replace_all_hit [of "[b]" t s] by simp
  next
    case False
    then have "\<not> has_prefix (c # s) [b]" by (simp add: has_prefix_def)
    then show ?thesis using Cons False by (simp add: replace_all_miss)
  qed
qed simp

text \<open>Every carriage return is followed by a line feed and every line feed preceded by a carriage return.\<close>

fun crlf_only :: "string \<Rightarrow> bool" where
  "crlf_only [] = True"
| "crlf_only [c] = (c \<noteq> CR \<and> c \<noteq> LF)"
| "crlf_only (c # e # s) = (if c = CR then e = LF \<and> crlf_only s else c \<noteq> LF \<and> crlf_only (e # s))"

definition newlines_ok :: "string \<Rightarrow> string \<Rightarrow> bool" where
  "newlines_ok style s = (if style = [CR, LF] then crlf_only s else CR \<notin> set s)"

lemma crlf_only_Cons: "c \<noteq> CR \<Longrightarrow> c \<noteq> LF \<Longrightarrow> crlf_only (c # s) = crlf_only s"
  by (cases s) simp_all

lemma crlf_only_append: "crlf_only a \<Longrightarrow> crlf_only b \<Longrightarrow> crlf_only (a @ b)"
  by (induction a rule: crlf_only.induct) (auto simp: crlf_only_Cons split: if_splits)

lemma crlf_only_split:
  assumes "crlf_only (a @ b)" "b \<noteq> [] \<Longrightarrow> hd b \<noteq> LF" shows "crlf_only a \<and> crlf_only b"
  using assms
proof (induction a rule: crlf_only.induct)
  case (2 c)
  then show ?case by (cases b) (auto split: if_splits)
next
  case (3 c e s) then show ?case by (auto split: if_splits)
qed simp

lemma crlf_only_hd: "crlf_only s \<Longrightarrow> s \<noteq> [] \<Longrightarrow> hd s \<noteq> LF"
  by (cases s rule: crlf_only.cases) (auto split: if_splits)

lemma normalize_newlines_ok: "newlines_ok style (normalizeNewlines v style)"
proof -
  define w where "w = replace_all [CR] [LF] (replace_all [CR, LF] [LF] v)"
  have no_cr: "CR \<notin> set w" by (auto simp: w_def replace_all_byte split: if_splits)
  then have "crlf_only (replace_all [LF] [CR, LF] w)"
    unfolding replace_all_byte by (induction w) (auto simp: crlf_only_Cons)
  then show ?thesis using no_cr by (simp add: newlines_ok_def normalizeNewlines_def Let_def flip: w_def)
qed

lemma weave_keeps_crlf:
  assumes "crlf_only (weave gs xs)" "length gs = Suc (length xs)" "length ys = length xs" "\<forall>x \<in> set xs. x \<noteq> [] \<and> crlf_only x" "\<forall>y \<in> set ys. crlf_only y"
  shows "crlf_only (weave gs ys)"
  using assms
proof (induction gs xs arbitrary: ys rule: weave.induct)
  case (1 g gs x xs)
  then obtain y ys' where ys: "ys = y # ys'" by (cases ys) auto
  have x: "x \<noteq> []" "crlf_only x" using "1.prems"(4) by simp_all
  have "hd (x @ weave gs xs) \<noteq> LF" using crlf_only_hd [OF x(2,1)] x(1) by simp
  then have g: "crlf_only g" and rest: "crlf_only (x @ weave gs xs)"
    using crlf_only_split [of g "x @ weave gs xs"] "1.prems"(1) by simp_all
  have "crlf_only (weave gs xs)" using x(2) rest
    by (induction x rule: crlf_only.induct) (auto simp: crlf_only_Cons split: if_splits)
  then have "crlf_only (weave gs ys')" using "1.IH" [of ys'] "1.prems" ys by simp
  then show ?case using g "1.prems"(5) ys by (simp add: crlf_only_append)
qed auto

lemma weave_set: "length gs = Suc (length xs) \<Longrightarrow> set (weave gs xs) = \<Union> (set ` set gs) \<union> \<Union> (set ` set xs)"
  by (induction gs xs rule: weave.induct) auto

section \<open>The writer\<close>

lemma write_edited_ok:
  assumes "writeAtomicEditedFile E path data mode sha d = (Inr u, d')"
  defines "tmp \<equiv> fe_temp E d (path_dir path)"
  defines "d2 \<equiv> fe_others E 1 (d(tmp \<mapsto> Regular_file (mode mod 512) data))"
  shows "d tmp = None \<and> (\<exists>m c. d2 path = Some (Regular_file m c) \<and> sha256String E c = sha)
    \<and> d' = (fe_others E 2 d2)(path := fe_others E 2 d2 tmp, tmp := None)"
  using assms(1) unfolding d2_def tmp_def
  by (auto simp: writeAtomicEditedFile_def writePreparedEdit_def Let_def boundedFileSHA256_def atomicReplaceEditedFile_def
      split: if_splits sum.splits option.splits disk_entry.splits prod.splits)

text \<open>What a request leaves behind when nobody interferes: removing the temporary file and syncing the directory may be what fails.\<close>

definition undisturbed :: "file_env \<Rightarrow> bool" where
  "undisturbed E = ((\<forall>n d. fe_others E n d = d) \<and> \<not> fe_fault E 7 \<and> \<not> fe_fault E 9 \<and> \<not> fe_fault E 11)"

lemma write_prepared_failed:
  assumes "undisturbed E" "writePreparedEdit E path data mode install d = (Inl e, d')"
    and install: "\<And>tmp d1 e d2. install tmp d1 = (Inl e, d2) \<Longrightarrow> d2 = d1"
  shows "d' = d"
proof -
  let ?tmp = "fe_temp E d (path_dir path)"
  have drop: "drop_temp E ?tmp (d(?tmp := x)) = d" if "d ?tmp = None" for x
    using that assms(1) by (auto simp: drop_temp_def undisturbed_def)
  have others: "fe_others E n d1 = d1" for n d1 using assms(1) by (simp add: undisturbed_def)
  show ?thesis
  proof (cases "fe_fault E 2 \<or> d ?tmp \<noteq> None")
    case True then show ?thesis using assms(2) by (auto simp: writePreparedEdit_def Let_def)
  next
    case False
    then have free: "d ?tmp = None" by simp
    show ?thesis using assms(1,2) False drop [OF free]
      by (auto simp: writePreparedEdit_def Let_def others undisturbed_def dest!: install split: if_splits prod.splits sum.splits)
  qed
qed

lemma write_failed_quiet:
  assumes q: "undisturbed E"
  shows "writeAtomicEditedFile E path data mode sha d = (Inl e, d') \<Longrightarrow> d' = d"
    and "writeAtomicCreatedFile E path data mode d = (Inl e, d') \<Longrightarrow> d' = d"
proof -
  have others: "fe_others E n d1 = d1" for n d1 using q by (simp add: undisturbed_def)
  assume "writeAtomicEditedFile E path data mode sha d = (Inl e, d')"
  then show "d' = d"
    unfolding writeAtomicEditedFile_def
    by (rule write_prepared_failed [OF q]) (auto simp: others atomicReplaceEditedFile_def split: sum.splits if_splits)
next
  have others: "fe_others E n d1 = d1" for n d1 using q by (simp add: undisturbed_def)
  have no: "\<not> fe_fault E 9" using q by (simp add: undisturbed_def)
  assume "writeAtomicCreatedFile E path data mode d = (Inl e, d')"
  then show "d' = d"
    unfolding writeAtomicCreatedFile_def
    by (rule write_prepared_failed [OF q])
      (auto simp: others atomicCreateEditedFile_def no split: sum.splits if_splits prod.splits)
qed

section \<open>The properties\<close>

text \<open>Property C37: An edit that succeeds while its lock keeps others off the file exchanges exactly the named texts: the old content, which has
  the announced SHA-256, and the new one are the same gaps, one more than there are edits, woven with the old and with the new texts, each old text was counted once, and
  the texts are those of all the edits of the request in the newline style of the file.\<close>

theorem edit_replaces_exactly:
  assumes run: "fileEdit E action input d = (Inr res, d')" and act: "action \<noteq> ''preview''" "requested_action action input \<noteq> ''create''"
    and target: "ResolveMachinePath E (fe_others E 0 d) (ep_Path input) = Inr target"
    and lock: "\<And>n e p. 0 < n \<Longrightarrow> p = target \<or> p = fe_temp E (fe_others E 0 d) (path_dir target) \<Longrightarrow> fe_others E n e p = e p"
  shows "\<exists>gs changes edits mode mode'. length gs = Suc (length changes)
    \<and> fe_others E 0 d target = Some (Regular_file mode (weave gs (map ed_OldText changes)))
    \<and> sha256String E (weave gs (map ed_OldText changes)) = ep_ExpectedFileSHA256 input
    \<and> d' target = Some (Regular_file mode' (weave gs (map ed_NewText changes)))
    \<and> plan_edits input (requested_action action input) = Inr edits
    \<and> mset changes = mset (map (normal_edit (dominantNewline (weave gs (map ed_OldText changes)))) edits)
    \<and> (\<forall>c \<in> set changes. count_sub (ed_OldText c) (weave gs (map ed_OldText changes)) = 1)"
proof -
  let ?d0 = "fe_others E 0 d" and ?req = "requested_action action input"
  obtain plan where plan: "planFileEdit E ?d0 input ?req = Inr plan"
    and wrote: "(if pl_before plan \<noteq> pl_after plan then writeAtomicEditedFile E (pl_target plan) (pl_after plan) (pl_mode plan) (pl_beforeSHA plan) ?d0
      else (Inr (), ?d0)) = (Inr (), d')"
    using run act by (auto simp: fileEdit_def Let_def split: if_splits sum.splits prod.splits)
  obtain edits where ok: "ResolveMachinePath E ?d0 (ep_Path input) = Inr (pl_target plan)"
    "?d0 (pl_target plan) = Some (Regular_file (pl_mode plan) (pl_before plan))" "sha256String E (pl_before plan) = ep_ExpectedFileSHA256 input"
    "pl_beforeSHA plan = ep_ExpectedFileSHA256 input" "plan_edits input ?req = Inr edits"
    "plan_content (pl_before plan) edits = Inr (pl_after plan, pl_changes plan)"
    by (rule planFileEdit_ok [OF plan act(2)])
  have t: "pl_target plan = target" using ok(1) target by simp
  obtain gs where gs: "length gs = Suc (length (pl_changes plan))" "pl_before plan = weave gs (map ed_OldText (pl_changes plan))" "pl_after plan = weave gs (map ed_NewText (pl_changes plan))"
    using plan_content_weave [OF ok(6)] by auto
  have "\<exists>m. d' target = Some (Regular_file m (pl_after plan))"
  proof (cases "pl_before plan = pl_after plan")
    case True then show ?thesis using wrote ok(2) t by auto
  next
    case False
    let ?tmp = "fe_temp E ?d0 (path_dir target)"
    let ?d2 = "fe_others E 1 (?d0(?tmp \<mapsto> Regular_file (pl_mode plan mod 512) (pl_after plan)))"
    have w: "?d0 ?tmp = None" "d' = (fe_others E 2 ?d2)(target := fe_others E 2 ?d2 ?tmp, ?tmp := None)"
      using write_edited_ok [of E target "pl_after plan" "pl_mode plan" "pl_beforeSHA plan" ?d0 "()" d'] wrote False t by auto
    have "target \<noteq> ?tmp" using w(1) ok(2) t by auto
    moreover have "fe_others E 2 ?d2 ?tmp = Some (Regular_file (pl_mode plan mod 512) (pl_after plan))" using lock by simp
    ultimately show ?thesis using w(2) by simp
  qed
  then obtain m where m: "d' target = Some (Regular_file m (pl_after plan))" by blast
  show ?thesis
    using gs(1) ok(2,3,5) m plan_content_weave [OF ok(6)] unfolding t gs(2,3) by blast
qed

text \<open>Property C38: A request that fails, and a preview, leave the disk as it was when nobody interferes, unless the removal of the temporary file or the
  sync of the directory is what failed.\<close>

theorem failed_edit_leaves_disk:
  assumes "undisturbed E" "fileEdit E action input d = (r, d')" "is_ok r \<longrightarrow> action = ''preview''"
  shows "d' = d"
proof -
  have others: "fe_others E n d1 = d1" for n d1 using assms(1) by (simp add: undisturbed_def)
  show ?thesis using assms(2,3)
    by (auto simp: fileEdit_def Let_def others is_ok_def dest: write_failed_quiet [OF assms(1)] split: if_splits sum.splits prod.splits)
qed

text \<open>Property C39: An edit keeps the newline style: if the newlines of the file all are of its dominant style, so are those of the new content.\<close>

theorem edit_keeps_newlines:
  assumes plan: "plan_content before edits = Inr (after, changes)" and ok: "newlines_ok (dominantNewline before) before"
  shows "newlines_ok (dominantNewline before) after"
proof -
  let ?style = "dominantNewline before"
  obtain gs where gs: "length gs = Suc (length changes)" "before = weave gs (map ed_OldText changes)" "after = weave gs (map ed_NewText changes)"
    and ch: "mset changes = mset (map (normal_edit ?style) edits)" "\<forall>c \<in> set changes. count_sub (ed_OldText c) before = 1"
    using plan_content_weave [OF plan] by blast
  have "set changes = normal_edit ?style ` set edits" using arg_cong [OF ch(1), of set_mset] by simp
  then have style: "newlines_ok ?style (ed_OldText c) \<and> newlines_ok ?style (ed_NewText c)" if "c \<in> set changes" for c
    using that by (auto simp: normal_edit_def normalize_newlines_ok)
  have ne: "ed_OldText c \<noteq> []" if "c \<in> set changes" for c
  proof
    assume "ed_OldText c = []"
    then have "count_sub (ed_OldText c) before = 0" by (simp add: count_sub.simps)
    then show False using ch(2) that by simp
  qed
  show ?thesis
  proof (cases "?style = [CR, LF]")
    case True
    have "crlf_only (weave gs (map ed_NewText changes))"
      by (rule weave_keeps_crlf [of gs "map ed_OldText changes"])
        (use True ok gs style ne in \<open>auto simp: newlines_ok_def\<close>)
    then show ?thesis using True gs by (simp add: newlines_ok_def)
  next
    case False
    have "CR \<notin> set (weave gs (map ed_OldText changes))" using False ok gs by (simp add: newlines_ok_def)
    moreover have "CR \<notin> set (ed_NewText c)" if "c \<in> set changes" for c using style [OF that] False by (simp add: newlines_ok_def)
    ultimately have "CR \<notin> set (weave gs (map ed_NewText changes))" using gs(1) by (simp add: weave_set)
    then show ?thesis using False gs by (simp add: newlines_ok_def)
  qed
qed

text \<open>The diff of a preview has at most 16 KiB, and a complete one ends with a line feed.\<close>

lemma length_valid_cut: "length (valid_cut v) \<le> length v"
proof (induction v rule: valid_cut.induct)
  case (1 v)
  show ?case
  proof (cases "rune_count v = None")
    case True then show ?thesis using "1.IH" by (simp add: valid_cut.simps [of v])
  next
    case False then show ?thesis by (simp add: valid_cut.simps [of v])
  qed
qed

lemma append_diff_bound: "int (length b) \<le> maxReturnedDiffBytes \<Longrightarrow> int (length (fst (append_diff b v))) \<le> maxReturnedDiffBytes"
  using length_valid_cut [of "take (nat (maxReturnedDiffBytes - int (length b))) v"] by (auto simp: append_diff_def Let_def)

lemma diff_lines_bound: "int (length b) \<le> maxReturnedDiffBytes \<Longrightarrow> int (length (fst (appendDiffLines prefix v b))) \<le> maxReturnedDiffBytes"
proof (induction prefix v b rule: appendDiffLines.induct)
  case (1 prefix v b)
  let ?line = "takeWhile (\<lambda>c. c \<noteq> LF) v"
  obtain b1 whole where step: "append_diff b (prefix @ trim_suffix ?line [CR] @ [LF]) = (b1, whole)" by (cases "append_diff b (prefix @ trim_suffix ?line [CR] @ [LF])")
  have b1: "int (length b1) \<le> maxReturnedDiffBytes" using append_diff_bound [OF "1.prems", of "prefix @ trim_suffix ?line [CR] @ [LF]"] step by simp
  show ?case
  proof (cases "v = [] \<or> \<not> whole")
    case True then show ?thesis using "1.prems" b1 step by (auto simp: appendDiffLines.simps [of prefix v b] Let_def)
  next
    case False
    then show ?thesis using "1.IH" [OF _ refl step [symmetric]] b1 step by (simp add: appendDiffLines.simps [of prefix v b] Let_def)
  qed
qed

lemma changes_bound: "int (length b) \<le> maxReturnedDiffBytes \<Longrightarrow> int (length (fst (append_changes action edits b))) \<le> maxReturnedDiffBytes"
proof (induction edits arbitrary: b)
  case (Cons e edits)
  obtain b1 w1 where 1: "append_diff b (''@@ '' @ action @ '' @@'' @ [LF]) = (b1, w1)" by (cases "append_diff b (''@@ '' @ action @ '' @@'' @ [LF])")
  obtain b2 w2 where 2: "appendDiffLines ''-'' (ed_OldText e) b1 = (b2, w2)" by (cases "appendDiffLines ''-'' (ed_OldText e) b1")
  obtain b3 w3 where 3: "appendDiffLines ''+'' (ed_NewText e) b2 = (b3, w3)" by (cases "appendDiffLines ''+'' (ed_NewText e) b2")
  have b1: "int (length b1) \<le> maxReturnedDiffBytes" using append_diff_bound [OF Cons.prems, of "''@@ '' @ action @ '' @@'' @ [LF]"] unfolding 1 by simp
  have b2: "int (length b2) \<le> maxReturnedDiffBytes" using diff_lines_bound [OF b1, of "''-''" "ed_OldText e"] unfolding 2 by simp
  have b3: "int (length b3) \<le> maxReturnedDiffBytes" using diff_lines_bound [OF b2, of "''+''" "ed_NewText e"] unfolding 3 by simp
  have eq: "append_changes action (e # edits) b =
      (if \<not> w1 then (b1, False) else if \<not> w2 then (b2, False) else if \<not> w3 then (b3, False) else append_changes action edits b3)"
    unfolding append_changes.simps 1 using 2 3 by (cases w1; cases w2; cases w3) simp_all
  show ?case unfolding eq using b1 b2 b3 Cons.IH [OF b3] by simp
qed simp

lemma boundedEditDiff_bound: "int (length (fst (boundedEditDiff path action edits))) \<le> maxReturnedDiffBytes"
proof -
  obtain b whole where head: "append_diff [] (''--- a/'' @ path @ [LF] @ ''+++ b/'' @ path @ [LF]) = (b, whole)"
    by (cases "append_diff [] (''--- a/'' @ path @ [LF] @ ''+++ b/'' @ path @ [LF])")
  then have b: "int (length b) \<le> maxReturnedDiffBytes"
    using append_diff_bound [of "[]" "''--- a/'' @ path @ [LF] @ ''+++ b/'' @ path @ [LF]"] by (simp add: maxReturnedDiffBytes_def)
  show ?thesis using changes_bound [OF b, of action edits] b head
    by (cases whole; cases "append_changes action edits b") (simp_all add: boundedEditDiff_def)
qed

text \<open>Matches that overlap count once, so a target that occurs at two places can be taken for unique.\<close>

lemma overlapping_target_accepted:
  "plan_content ''aaa'' [\<lparr>ed_OldText = ''aa'', ed_NewText = ''b''\<rparr>] = Inr (''ba'', [\<lparr>ed_OldText = ''aa'', ed_NewText = ''b''\<rparr>])"
  by code_simp

section \<open>Witnesses\<close>

definition demo_file_env :: file_env where
  "demo_file_env = \<lparr>fe_sha = \<lambda>s. take 2 s, fe_real = \<lambda>d p. Inr p, fe_temp = \<lambda>d dir. dir @ ''.tmp'', fe_fault = \<lambda>n. False,
     fe_written = 0, fe_others = \<lambda>n d. d, fe_canceled = False\<rparr>"

definition demo_disk :: disk where
  "demo_disk = (\<lambda>p. if p = ''/a'' then Some (Regular_file 420 (''x old y'' @ [CR, LF])) else if p = ''/'' then Some Directory else None)"

definition demo_edit :: fileEditParams where
  "demo_edit = \<lparr>ep_Path = ''/a'', ep_PreviewOf = [], ep_Content = [], ep_OldText = ''old'', ep_NewText = ''a'' @ [LF] @ ''b'', ep_Edits = [],
     ep_ExpectedFileSHA256 = ''sha256:7820'', ep_ExpectedAbsent = None\<rparr>"

lemma demo_edit_runs:
  "is_ok (fst (fileEdit demo_file_env ''edit'' demo_edit demo_disk)) \<and> snd (fileEdit demo_file_env ''edit'' demo_edit demo_disk) ''/a''
     = Some (Regular_file 420 (''x a'' @ [CR, LF] @ ''b y'' @ [CR, LF]))"
  by code_simp

lemma edit_replaces_exactly_witness:
  "\<exists>gs (changes :: fileTextEdit list) mode'. length changes = 1 \<and> length gs = 2 \<and> snd (fileEdit demo_file_env ''edit'' demo_edit demo_disk) ''/a'' = Some (Regular_file mode' (weave gs (map ed_NewText changes)))"
proof -
  obtain res d' where run: "fileEdit demo_file_env ''edit'' demo_edit demo_disk = (Inr res, d')"
    using demo_edit_runs by (cases "fileEdit demo_file_env ''edit'' demo_edit demo_disk") (auto simp: is_ok_iff)
  have req: "requested_action ''edit'' demo_edit = ''replace''" by code_simp
  have target: "ResolveMachinePath demo_file_env (fe_others demo_file_env 0 demo_disk) (ep_Path demo_edit) = Inr ''/a''" by code_simp
  have "\<exists>gs changes edits mode mode'. length gs = Suc (length changes)
      \<and> fe_others demo_file_env 0 demo_disk ''/a'' = Some (Regular_file mode (weave gs (map ed_OldText changes)))
      \<and> sha256String demo_file_env (weave gs (map ed_OldText changes)) = ep_ExpectedFileSHA256 demo_edit
      \<and> d' ''/a'' = Some (Regular_file mode' (weave gs (map ed_NewText changes)))
      \<and> plan_edits demo_edit (requested_action ''edit'' demo_edit) = Inr edits
      \<and> mset changes = mset (map (normal_edit (dominantNewline (weave gs (map ed_OldText changes)))) edits)
      \<and> (\<forall>c \<in> set changes. count_sub (ed_OldText c) (weave gs (map ed_OldText changes)) = 1)"
    by (rule edit_replaces_exactly [OF run]) (use req target in \<open>simp_all add: demo_file_env_def\<close>)
  then obtain gs changes edits mode mode' where gaps: "length gs = Suc (length changes)" and res: "d' ''/a'' = Some (Regular_file mode' (weave gs (map ed_NewText changes)))"
    "plan_edits demo_edit ''replace'' = Inr edits"
    "mset changes = mset (map (normal_edit (dominantNewline (weave gs (map ed_OldText changes)))) edits)"
    unfolding req by blast
  have "length edits = 1" using res(2) by (auto simp: plan_edits_def demo_edit_def split: if_splits)
  then have "length changes = 1" using arg_cong [OF res(3), of size] by simp
  moreover have "length gs = 2" using gaps calculation by simp
  ultimately show ?thesis using res(1) unfolding run snd_conv by blast
qed

lemma failed_edit_leaves_disk_witness:
  "snd (fileEdit demo_file_env ''edit'' (demo_edit\<lparr>ep_OldText := ''none''\<rparr>) demo_disk) = demo_disk"
proof -
  have err: "\<not> is_ok (fst (fileEdit demo_file_env ''edit'' (demo_edit\<lparr>ep_OldText := ''none''\<rparr>) demo_disk))" by code_simp
  have q: "undisturbed demo_file_env" by (simp add: undisturbed_def demo_file_env_def)
  show ?thesis
    by (rule failed_edit_leaves_disk [OF q, where r = "fst (fileEdit demo_file_env ''edit'' (demo_edit\<lparr>ep_OldText := ''none''\<rparr>) demo_disk)"])
      (use err in auto)
qed

lemma edit_keeps_newlines_witness:
  "newlines_ok [CR, LF] (''x a'' @ [CR, LF] @ ''b y'' @ [CR, LF])"
proof -
  have plan: "plan_content (''x old y'' @ [CR, LF]) [\<lparr>ed_OldText = ''old'', ed_NewText = ''a'' @ [LF] @ ''b''\<rparr>]
      = Inr (''x a'' @ [CR, LF] @ ''b y'' @ [CR, LF], [\<lparr>ed_OldText = ''old'', ed_NewText = ''a'' @ [CR, LF] @ ''b''\<rparr>])"
    and style: "dominantNewline (''x old y'' @ [CR, LF]) = [CR, LF]" and ok: "newlines_ok [CR, LF] (''x old y'' @ [CR, LF])"
    by code_simp+
  show ?thesis using edit_keeps_newlines [OF plan] style ok by simp
qed

end
