(* ===== verification/Spec2Isabelle.thy ===== *)
theory Spec2Isabelle
  imports Collab_Props Collab_Limits Collab_Outcome Completion_Props Task_Result Node_Props
    OAuth_Props Account_Props Result_Props Json_Total Node_Calls File_Edit_Props
begin

text \<open>
  Fast Spider is a Hub that lets chat clients work on remote machines (Nodes). This library models the part
  of the Hub that coordinates that work: the cloud collaboration service
  (\<open>src/internal/hub/core/cloud_collaboration.go\<close>), its completion channel (\<open>core/cloud_completion.go\<close>,
  \<open>core/task_result.go\<close>), the capability calls to a Node and the registration of machines (\<open>core/service.go\<close>), the
  sessions of connected Nodes (\<open>registry\<close>, \<open>server/node_ws.go\<close>), the statements of the store they use
  (\<open>src/internal/hub/store/store.go\<close>), and how people and chat clients sign in: accounts, sessions and keys
  (\<open>core/accounts.go\<close>, \<open>core/admin.go\<close>), OAuth (\<open>server/oauth.go\<close>, \<open>store/oauth.go\<close>) and rate limits, and the
  files and results Nodes hand over (\<open>core/artifacts.go\<close>, \<open>core/result_pool.go\<close>) with their maintenance; and of a Node
  its edits of files (\<open>src/internal/node\<close>).

  How the program works. An owner opens a collaboration: a goal, a dispatcher session, limits, and a JSON state
  with goals, tasks, CHATs, events and decisions, kept in one row with a revision number. Each request names an
  action; it is admitted by role, revision and lease, changes the state and saves it by a compare-and-swap on
  the revision. Some actions call a Node (create a CHAT, deliver a prompt, register a callback, observe, archive);
  other requests run meanwhile. A CHAT that is finished reports through a durable notification, which the
  dispatcher claims for a lease of five minutes and acknowledges; that records the result in the collaboration.

  The theories, from the bottom:

  \<^item> \<open>Prelude\<close>, \<open>Go_Strings\<close>: results, instants and stamps, JSON values, list updates; the functions of Go's
    \<open>strings\<close>, \<open>path\<close> and \<open>utf8\<close> packages the program uses, on byte strings.
  \<^item> \<open>Sql_Table\<close>, \<open>Hub_World\<close>: tables as lists of rows with conditional updates, the locale \<open>versioned_rows\<close> of
    compare-and-swap tables; the Hub's tables and clock (\<open>hub\<close>), the errors of the service, \<open>CallCapability\<close>
    with its deadlines and audit. A Node (\<open>env\<close>) is a parameter that answers a call and may move the Hub.
  \<^item> \<open>Collab_Paths\<close>, \<open>Collab_Types\<close>, \<open>Collab_Ops\<close>, \<open>Collab_View\<close>: write scopes, the state, the operations that need
    no Node, the view and the scheduler tick. \<open>Collab_Invariant\<close> and \<open>Collab_Preserve\<close> state well-formedness and
    prove that every operation keeps it; \<open>Collab_Props\<close> and \<open>Collab_Limits\<close> hold properties of single operations.
  \<^item> \<open>Collab_Store\<close> (loading and saving; it interprets \<open>versioned_rows\<close>), \<open>Collab_Callback\<close>, \<open>Collab_Dispatch\<close>,
    \<open>Collab_Drive\<close>, \<open>Collab_Handler\<close>, \<open>Collab_Service\<close>: the operations that call a Node, and the request handler.
    \<open>Collab_Evolve\<close> defines how collaborations may move; \<open>Collab_Rely\<close> and \<open>Collab_Guarantee\<close> prove that every
    request guarantees it if the requests during its Node calls do. \<open>Collab_Request\<close>, \<open>Collab_Effects\<close> and
    \<open>Collab_Outcome\<close> hold the properties of whole requests.
  \<^item> \<open>Completion_Store\<close>, \<open>Completion_Life\<close>, \<open>Completion_Claims\<close>: the notification table, the state machine of a
    notification (\<open>moves\<close>) and that the statements refine it. \<open>Completion\<close>: the three actions;
    \<open>Completion_Guarantee\<close>, \<open>Completion_Retry\<close>, \<open>Completion_Props\<close>: what they keep, that recording can be
    retried, and the properties of whole requests. \<open>Task_Ref\<close>: task references and the prompt of a CHAT.
    \<open>Go_Base64\<close>, \<open>Json_Text\<close>, \<open>Json_Round\<close>: base64 and the JSON grammar with what is read back of what was
    written; \<open>Task_Result\<close>: reporting by a task reference, and that a reference decodes to what it was made of.
  \<^item> \<open>Lockout\<close>: the locale of stored rows that let a caller in, and what keeps them shut. \<open>Device_Store\<close>,
    \<open>Device_Steps\<close>: machines, credentials, tokens, nonces and capabilities, their statements as steps in any order
    (\<open>exec_device\<close>), well-formedness (\<open>wf_devices\<close>), the interpretations of \<open>lockout\<close>. \<open>Go_Time\<close>: RFC 3339.
    \<open>Device_Service\<close> (\<open>core/service.go\<close>, \<open>security/security.go\<close>) and \<open>Device_Props\<close>.
  \<^item> \<open>Node_Registry\<close> (\<open>registry/registry.go\<close>): the table of live connections over a store of shared connections.
    \<open>Node_Sessions\<close> (\<open>server/node_ws.go\<close>): the handshake, heartbeats and removal of any number of sessions as
    interleaved steps (\<open>node_step\<close>) with revocations and maintenance; \<open>Node_Invariant\<close> proves \<open>node_inv\<close> of every
    reachable state, \<open>Node_Props\<close> holds the properties. \<open>Node_Calls\<close>: the calls in flight on a connection and the delivery of
    responses as interleaved steps, with the invariant \<open>line_inv\<close>, the responses accounted for as a multiset, and progress by a rank.

  \<^item> \<open>Credential_Rows\<close>: the locale of tables of credentials found by the hash of a secret, a \<open>lockout\<close>; the tables
    of every kind of token, key and session are its instances. \<open>OAuth_Store\<close>, \<open>OAuth_Steps\<close>: OAuth clients,
    authorizations and tokens, their statements in any order and \<open>wf_oauth\<close>; \<open>OAuth_Server\<close>: the handlers of registration,
    authorization, the token endpoint, revocation and the bearer check, with codes and PKCE; \<open>OAuth_Props\<close>. \<open>Rate_Limits\<close>: the
    locale \<open>fixed_window\<close> (at most twice the limit in any window) and its instance, registrations; failed logins, checked and counted in
    two calls, with the attempts in flight (\<open>gate_step\<close>).
  \<^item> \<open>Account_Store\<close>, \<open>Account_Steps\<close>: owners, bootstrap tokens, connection tokens, direct access keys, web and
    administrator sessions, their statements in any order and \<open>wf_accounts\<close>; \<open>Account_Service\<close>: the operations of the
    service and password hashes; \<open>Account_Props\<close>.
  \<^item> \<open>Go_Text\<close>: splitting and hexadecimal text. \<open>Artifact_Store\<close>: artifacts, uploads, the queue of files to delete and the statements of
    maintenance. \<open>Artifact_Service\<close>: uploads in chunks, content-addressed blobs and their deletion over a store of files, each request in
    the pieces between which others may run. \<open>Artifact_Steps\<close> interleaves the pieces (\<open>yard_step\<close>) under the locks of the code,
    with failing file operations and crashes, and proves \<open>yard_inv\<close> of every reachable state; \<open>Artifact_Props\<close>.
    \<open>Result_Store\<close> (an instance of \<open>versioned_rows\<close>, its statements in any order), \<open>Result_Service\<close>, \<open>Result_Props\<close>: results and
    their pages and manifests. \<open>Json_Total\<close>: the reader of JSON returns on every text.

  \<^item> \<open>File_Edit\<close> (\<open>internal/node/file_edit.go\<close>, \<open>file_edit_atomic.go\<close>): edits of text files on a Node, planned from ranges of the
    old content and installed by a temporary file; \<open>File_Edit_Props\<close>: that they exchange exactly the named texts.

  Conventions. A request maps a Hub to a result and a Hub, \<open>(hub_error + 'a) \<times> hub\<close>, composed by \<open>run\<close>. The clock
  stands still between two Node calls, and a request is atomic between them: the code holds no lock across
  them, the store serialises its statements, and the compare-and-swap saves are modelled as such, so what
  another request does between a read and a write is covered by the moves of the environment. Random
  identifiers, SHA-256 and the JSON encoding inside digests are parameters. The state column is kept as its
  value rather than as JSON text. Bounded retries (three saves of a created CHAT, five of a result) are
  recursions on a counter with the code's bound. Notifications keep a NULL claim as the empty string, and
  their times in whole seconds as the columns do.

  Not modelled: failures of the database driver and (outside artifacts) of files and random numbers, the text of JSON documents other than
  task references, HTTP and MCP, URL parsing, cryptography (parameters), the Node program but for its file edits, agent adapters, the user interface, backups,
  updates and commands.
\<close>

end
